(* ===== verification/Prelude.thy ===== *)
theory Prelude
  imports Main "HOL-Library.Word"
begin

text \<open>
  Shared vocabulary of the development: the C integer types as words, the bit strings
  that the serial drivers put on a wire, byte splitting, and the theorem collections
  the component theories extend.
  \<^item> \<open>frame\<close>: which record fields an operation leaves alone;
  \<^item> \<open>guards\<close>: the branch equations of an operation, one per early return of the code.
\<close>

unbundle bit_operations_syntax

named_theorems frame
named_theorems guards

subsection \<open>C integer types\<close>

type_synonym u8 = "8 word"
type_synonym u16 = "16 word"
type_synonym u32 = "32 word"

text \<open>
  The result of code that may run into undefined behaviour or wait forever. A fault is a
  value, and so is not returning: \<open>None\<close> is a call that never comes back.
\<close>

datatype fault =
    OutOfBounds      \<comment> \<open>an array access past its end\<close>
  | NullCall         \<comment> \<open>a call through a function pointer that was never set\<close>
  | NullDeref        \<comment> \<open>an access through a null pointer\<close>

type_synonym 'a outcome = "(fault + 'a) option"

abbreviation Returns :: "'a \<Rightarrow> 'a outcome" where "Returns x \<equiv> Some (Inr x)"
abbreviation Faults :: "fault \<Rightarrow> 'a outcome" where "Faults e \<equiv> Some (Inl e)"
abbreviation Hangs :: "'a outcome" where "Hangs \<equiv> None"

definition and_then :: "'a outcome \<Rightarrow> ('a \<Rightarrow> 'b outcome) \<Rightarrow> 'b outcome" where
  "and_then m f = (case m of None \<Rightarrow> None | Some (Inl e) \<Rightarrow> Some (Inl e) | Some (Inr x) \<Rightarrow> f x)"

lemma and_then_simps [simp]:
  "and_then (Returns x) f = f x"
  "and_then (Faults e) f = Faults e"
  "and_then Hangs f = Hangs"
  by (simp_all add: and_then_def)

lemma and_then_Returns: "and_then m f = Returns y \<longleftrightarrow> (\<exists>x. m = Returns x \<and> f x = Returns y)"
  by (auto simp: and_then_def split: option.splits sum.splits)

lemma and_then_Faults:
  "and_then m f = Faults e \<longleftrightarrow> m = Faults e \<or> (\<exists>x. m = Returns x \<and> f x = Faults e)"
  by (auto simp: and_then_def split: option.splits sum.splits)

lemma and_then_assoc: "and_then (and_then m f) g = and_then m (\<lambda>x. and_then (f x) g)"
  by (simp add: and_then_def split: option.splits sum.splits)

lemma and_then_bind: "and_then m g = Option.bind m (\<lambda>r. case r of Inl e \<Rightarrow> Some (Inl e) | Inr x \<Rightarrow> g x)"
  by (cases m) (auto simp: and_then_def split: sum.split)

lemma and_then_mono [partial_function_mono]:
  assumes "mono_option B" and "\<And>y. mono_option (\<lambda>f. C y f)"
  shows "mono_option (\<lambda>f. and_then (B f) (\<lambda>y. C y f))"
  unfolding and_then_bind
  apply (rule bind_mono [OF assms(1)])
  subgoal for r by (cases r) (simp_all add: assms(2) option.const_mono)
  done

subsection \<open>Bit strings, most significant bit first\<close>

fun bits_msb :: "nat \<Rightarrow> 'a::len word \<Rightarrow> bool list" where
  "bits_msb 0 w = []"
| "bits_msb (Suc i) w = bit w i # bits_msb i w"

definition bits_val :: "bool list \<Rightarrow> nat" where
  "bits_val bs = foldl (\<lambda>a b. 2 * a + of_bool b) 0 bs"

lemma length_bits_msb [simp]: "length (bits_msb n w) = n"
  by (induction n) auto

lemma foldl_bits_msb:
  "foldl (\<lambda>a b. 2 * a + of_bool b) a (bits_msb n w) = a * 2 ^ n + take_bit n (unat w)"
proof (induction n arbitrary: a)
  case 0
  show ?case by simp
next
  case (Suc n)
  have "take_bit (Suc n) (unat w) = 2 ^ n * of_bool (bit w n) + take_bit n (unat w)"
    by (simp add: take_bit_Suc_from_most bit_unsigned_iff bit_imp_le_length)
  with Suc show ?case by (simp add: algebra_simps)
qed

lemma bits_val_bits_msb [simp]: "bits_val (bits_msb n w) = unat w mod 2 ^ n"
  by (simp add: bits_val_def foldl_bits_msb take_bit_eq_mod)

lemma word_of_bits_msb:
  fixes w :: "'a::len word"
  shows "of_nat (bits_val (bits_msb LENGTH('a) w)) = w"
proof -
  have "unat w mod 2 ^ LENGTH('a) = unat w"
    by simp
  then show ?thesis by simp
qed

lemma unat_u8_less [simp]: "unat (w :: u8) < 256"
  using unsigned_less [of w] by simp

lemma unat_u16_less [simp]: "unat (w :: u16) < 65536"
  using unsigned_less [of w] by simp

lemma unat_u16_mod [simp]: "unat (w :: u16) mod 65536 = unat w"
  by (rule mod_less) simp

lemma unat_ucast_u8 [simp]: "unat (ucast (w :: u8) :: u16) = unat w"
  by (simp add: unsigned_ucast_eq take_bit_eq_mod order_less_trans [OF unat_u8_less])

text \<open>The test \<open>w & (1 << i)\<close> of the C code reads one bit.\<close>

lemma test_bit_and: "w AND 2 ^ i = 0 \<longleftrightarrow> \<not> bit w i" for w :: "'a::len word"
  by (rule and_exp_eq_0_iff_not_bit)

text \<open>A mask of low bits is a remainder.\<close>

lemma unat_and_mask: "unat (w AND mask n) = unat w mod 2 ^ n" for w :: "'a::len word"
  by (simp only: take_bit_eq_mask [symmetric] unsigned_take_bit_eq) (simp only: take_bit_eq_mod)

lemma unat_and_u8:
  "unat (w AND 0x0F) = unat w mod 16" "unat (w AND 0x1F) = unat w mod 32"
  "unat (w AND 0x3F) = unat w mod 64" "unat (w AND 0x7F) = unat w mod 128" for w :: u8
  using unat_and_mask [of w 4] unat_and_mask [of w 5] unat_and_mask [of w 6] unat_and_mask [of w 7]
  by (simp_all add: mask_eq_exp_minus_1)

subsection \<open>Bytes of a wider word\<close>

definition lo8 :: "u16 \<Rightarrow> u8" where
  "lo8 w = ucast w"

definition hi8 :: "u16 \<Rightarrow> u8" where
  "hi8 w = ucast (drop_bit 8 w)"

definition le16 :: "u8 \<Rightarrow> u8 \<Rightarrow> u16" where
  "le16 l h = ucast l OR push_bit 8 (ucast h)"

lemma le16_lo_hi [simp]: "le16 (lo8 w) (hi8 w) = w"
proof (rule bit_word_eqI)
  fix n assume "n < LENGTH(16)"
  then show "bit (le16 (lo8 w) (hi8 w)) n = bit w n"
    by (auto simp: le16_def lo8_def hi8_def bit_simps)
qed

subsection \<open>Arrays updated by index\<close>

text \<open>Array accesses of the C code: a fault when the index is past the end.\<close>

definition store :: "'a list \<Rightarrow> nat \<Rightarrow> 'a \<Rightarrow> 'a list outcome" where
  "store xs i x = (if i < length xs then Returns (xs[i := x]) else Faults OutOfBounds)"

definition fetch :: "'a list \<Rightarrow> nat \<Rightarrow> 'a outcome" where
  "fetch xs i = (if i < length xs then Returns (xs ! i) else Faults OutOfBounds)"

lemma store_ok [simp]: "i < length xs \<Longrightarrow> store xs i x = Returns (xs[i := x])"
  by (simp add: store_def)

lemma fetch_ok [simp]: "i < length xs \<Longrightarrow> fetch xs i = Returns (xs ! i)"
  by (simp add: fetch_def)

text \<open>The copy loop \<^verbatim>\<open>for (i = 0; i < n; ++i) dst[i] = src[i];\<close>.\<close>

fun copy_from :: "nat \<Rightarrow> 'a list \<Rightarrow> nat \<Rightarrow> 'a list \<Rightarrow> 'a list outcome" where
  "copy_from 0 src i dst = Returns dst"
| "copy_from (Suc k) src i dst =
     and_then (fetch src i) (\<lambda>x. and_then (store dst i x) (copy_from k src (Suc i)))"

definition copy_array :: "'a list \<Rightarrow> nat \<Rightarrow> 'a list \<Rightarrow> 'a list outcome" where
  "copy_array src n dst = copy_from n src 0 dst"

lemma copy_from_ok:
  "i + k \<le> length src \<Longrightarrow> i + k \<le> length dst \<Longrightarrow>
    copy_from k src i dst = Returns (take i dst @ take k (drop i src) @ drop (i + k) dst)"
proof (induction k arbitrary: i dst)
  case (Suc k)
  let ?dst = "dst[i := src ! i]"
  have "copy_from (Suc k) src i dst = copy_from k src (Suc i) ?dst"
    using Suc.prems by simp
  also have "\<dots> = Returns (take (Suc i) ?dst @ take k (drop (Suc i) src) @ drop (Suc i + k) ?dst)"
    by (rule Suc.IH) (use Suc.prems in simp_all)
  also have "take (Suc i) ?dst = take i dst @ [src ! i]"
    using Suc.prems by (simp add: take_Suc_conv_app_nth)
  also have "drop (Suc i + k) ?dst = drop (i + Suc k) dst"
    by simp
  finally show ?case
    using Suc.prems by (simp add: Cons_nth_drop_Suc [symmetric])
qed simp

lemma copy_array_ok [simp]:
  "n \<le> length src \<Longrightarrow> n \<le> length dst \<Longrightarrow> copy_array src n dst = Returns (take n src @ drop n dst)"
  by (simp add: copy_array_def copy_from_ok)

lemma copy_from_total: "copy_from k src i dst \<noteq> Hangs"
  by (induction k arbitrary: i dst) (auto simp: fetch_def store_def)

lemma copy_array_total [simp]: "copy_array src n dst \<noteq> Hangs"
  by (simp add: copy_array_def copy_from_total)

lemma copy_from_length: "copy_from k src i dst = Returns dst' \<Longrightarrow> length dst' = length dst"
  by (induction k arbitrary: i dst) (auto simp: and_then_Returns store_def split: if_splits)

subsection \<open>Shared I/O registers\<close>

text \<open>
  The port and interrupt registers that several drivers set up. The record of a driver that
  uses them extends this one, so an initialiser works on any of them.
\<close>

record gpio =
  DDRB :: u8
  PORTB :: u8
  PINB :: u8
  DDRC :: u8
  PORTC :: u8
  PINC :: u8
  DDRD :: u8
  PORTD :: u8
  PIND :: u8
  EICRA :: u8
  EIMSK :: u8

end
