(* ===== verification/Stdio.thy ===== *)
theory Stdio
  imports Prelude
begin
unbundle bit_operations_syntax

text \<open>
  The part of C's \<^verbatim>\<open>stdio.h\<close> the firmware uses on its USB character stream: \<^verbatim>\<open>fscanf\<close> with
  literals, white space, \<^verbatim>\<open>%d\<close>, \<^verbatim>\<open>%u\<close>, \<^verbatim>\<open>%lu\<close> and \<^verbatim>\<open>%c\<close>, and \<^verbatim>\<open>fprintf\<close> with
  \<^verbatim>\<open>%d\<close>, \<^verbatim>\<open>%02d\<close>, \<^verbatim>\<open>%u\<close> and \<^verbatim>\<open>%lu\<close>. \<^verbatim>\<open>int\<close> has 16 bits on the target, \<^verbatim>\<open>long\<close> 32.
\<close>

subsection \<open>Character input\<close>

text \<open>
  The stream does not wait: each element is the result of one read, \<open>None\<close> when no byte has
  arrived yet (the reader then sees an end of file). Past the end of the list nothing arrives.
\<close>

type_synonym istream = "char option list"

fun getc :: "istream \<Rightarrow> char option \<times> istream" where
  "getc [] = (None, [])"
| "getc (x # xs) = (x, xs)"

definition ungetc :: "char \<Rightarrow> istream \<Rightarrow> istream" where
  "ungetc c i = Some c # i"

definition isspace :: "char \<Rightarrow> bool" where
  "isspace c \<longleftrightarrow> c = CHR '' '' \<or> (9 \<le> (of_char c :: nat) \<and> (of_char c :: nat) \<le> 13)"

definition isdigit :: "char \<Rightarrow> bool" where
  "isdigit c \<longleftrightarrow> 48 \<le> (of_char c :: nat) \<and> (of_char c :: nat) \<le> 57"

definition digit_val :: "char \<Rightarrow> nat" where
  "digit_val c = of_char c - 48"

text \<open>White space is skipped; the result says whether a further character is there.\<close>

fun skip_spaces :: "istream \<Rightarrow> bool \<times> istream" where
  "skip_spaces [] = (False, [])"
| "skip_spaces (None # i) = (False, i)"
| "skip_spaces (Some c # i) = (if isspace c then skip_spaces i else (True, ungetc c i))"

text \<open>The digits of a number; the accumulator is an \<^verbatim>\<open>unsigned long\<close>.\<close>

fun read_digits :: "istream \<Rightarrow> u32 \<Rightarrow> u32 \<times> istream" where
  "read_digits [] v = (v, [])"
| "read_digits (None # i) v = (v, i)"
| "read_digits (Some c # i) v =
     (if isdigit c then read_digits i (v * 10 + of_nat (digit_val c)) else (v, ungetc c i))"

text \<open>A number with an optional sign; a sign without a digit is consumed all the same.\<close>

definition conv_unsigned :: "istream \<Rightarrow> u32 option \<times> istream" where
  "conv_unsigned i =
     (case getc i of
        (None, i1) \<Rightarrow> (None, i1)
      | (Some c, i1) \<Rightarrow>
          if isdigit c then (case read_digits i 0 of (v, i2) \<Rightarrow> (Some v, i2))
          else (None, ungetc c i1))"

definition conv_int :: "istream \<Rightarrow> u32 option \<times> istream" where
  "conv_int i =
     (case getc i of
        (None, i1) \<Rightarrow> (None, i1)
      | (Some c, i1) \<Rightarrow>
          if c = CHR ''-'' then
            (case conv_unsigned i1 of (v, i2) \<Rightarrow> (map_option uminus v, i2))
          else if c = CHR ''+'' then conv_unsigned i1
          else conv_unsigned i)"

subsection \<open>Formatted input\<close>

datatype directive = Lit char | Space | Conv_int | Conv_char

fun scan_format :: "string \<Rightarrow> directive list" where
  "scan_format (c # d # e # fs) =
     (if c = CHR ''%'' then
        if d = CHR ''d'' \<or> d = CHR ''u'' then Conv_int # scan_format (e # fs)
        else if d = CHR ''c'' then Conv_char # scan_format (e # fs)
        else if d = CHR ''l'' \<and> e = CHR ''u'' then Conv_int # scan_format fs
        else Lit d # scan_format (e # fs)
      else if isspace c then Space # scan_format (d # e # fs)
      else Lit c # scan_format (d # e # fs))"
| "scan_format [c, d] =
     (if c = CHR ''%'' then
        if d = CHR ''d'' \<or> d = CHR ''u'' then [Conv_int]
        else if d = CHR ''c'' then [Conv_char]
        else [Lit d]
      else if isspace c then Space # scan_format [d]
      else Lit c # scan_format [d])"
| "scan_format [c] = (if isspace c then [Space] else [Lit c])"
| "scan_format [] = []"

text \<open>
  The directives in turn: the values stored so far, whether the end of the input was met, and
  the input left. A character that does not match stays in the stream.
\<close>

fun scan :: "directive list \<Rightarrow> istream \<Rightarrow> u32 list \<times> bool \<times> istream" where
  "scan [] i = ([], False, i)"
| "scan (Space # fs) i = scan fs (snd (skip_spaces i))"
| "scan (Lit c # fs) i =
     (case getc i of
        (None, i1) \<Rightarrow> ([], True, i1)
      | (Some d, i1) \<Rightarrow> if d = c then scan fs i1 else ([], False, ungetc d i1))"
| "scan (Conv_char # fs) i =
     (case getc i of
        (None, i1) \<Rightarrow> ([], True, i1)
      | (Some d, i1) \<Rightarrow> (case scan fs i1 of (vs, e, i2) \<Rightarrow> (of_char d # vs, e, i2)))"
| "scan (Conv_int # fs) i =
     (case skip_spaces i of
        (False, i1) \<Rightarrow> ([], True, i1)
      | (True, i1) \<Rightarrow>
          (case conv_int i1 of
             (None, i2) \<Rightarrow> ([], False, i2)
           | (Some v, i2) \<Rightarrow> (case scan fs i2 of (vs, e, i3) \<Rightarrow> (v # vs, e, i3))))"

text \<open>The number of conversions, \<open>-1\<close> for an end of file before the first.\<close>

definition fscanf :: "string \<Rightarrow> istream \<Rightarrow> int \<times> u32 list \<times> istream" where
  "fscanf fmt i =
     (case scan (scan_format fmt) i of
        (vs, e, i1) \<Rightarrow> (if e \<and> vs = [] then -1 else int (length vs), vs, i1))"

text \<open>What \<^verbatim>\<open>%d\<close> stores in an \<^verbatim>\<open>int\<close>, and \<^verbatim>\<open>%u\<close> in a \<^verbatim>\<open>uint16_t\<close>.\<close>

definition as_int :: "u32 \<Rightarrow> int" where
  "as_int v = sint (ucast v :: u16)"

definition as_u16 :: "u32 \<Rightarrow> u16" where
  "as_u16 v = ucast v"

subsection \<open>Formatted output\<close>

definition digit_char :: "nat \<Rightarrow> char" where
  "digit_char d = char_of (48 + d)"

fun dec :: "nat \<Rightarrow> string" where
  "dec n = (if n < 10 then [digit_char n] else dec (n div 10) @ [digit_char (n mod 10)])"

declare dec.simps [simp del]

definition pad2 :: "string \<Rightarrow> string" where
  "pad2 s = replicate (2 - length s) CHR ''0'' @ s"

definition put_d :: "int \<Rightarrow> string" where
  "put_d n = (if n < 0 then CHR ''-'' # dec (nat (- n)) else dec (nat n))"

definition put_02d :: "int \<Rightarrow> string" where
  "put_02d n =
     (if n < 0 then CHR ''-'' # replicate (1 - length (dec (nat (- n)))) CHR ''0'' @ dec (nat (- n))
      else pad2 (dec (nat n)))"

definition put_u :: "nat \<Rightarrow> string" where
  "put_u n = dec n"

text \<open>Evaluating the printers on concrete numbers.\<close>

lemma digit_chars:
  "digit_char 0 = CHR ''0''"
  "digit_char (Suc 0) = CHR ''1''"
  "digit_char 2 = CHR ''2''"
  "digit_char 3 = CHR ''3''"
  "digit_char 4 = CHR ''4''"
  "digit_char 5 = CHR ''5''"
  "digit_char 6 = CHR ''6''"
  "digit_char 7 = CHR ''7''"
  "digit_char 8 = CHR ''8''"
  "digit_char 9 = CHR ''9''"
  by code_simp+

lemmas print_simps = dec.simps digit_chars put_u_def put_d_def put_02d_def pad2_def

subsection \<open>Reading back what was printed\<close>

lemma digit_char [simp]:
  assumes "d < 10"
  shows "isdigit (digit_char d)" and "digit_val (digit_char d) = d" and "\<not> isspace (digit_char d)"
    and "digit_char d \<noteq> CHR ''-''" and "digit_char d \<noteq> CHR ''+''"
proof -
  have c: "(of_char (digit_char d) :: nat) = 48 + d"
    using assms by (simp add: digit_char_def)
  then show "isdigit (digit_char d)" "digit_val (digit_char d) = d"
    using assms by (simp_all add: isdigit_def digit_val_def)
  show "\<not> isspace (digit_char d)" "digit_char d \<noteq> CHR ''-''" "digit_char d \<noteq> CHR ''+''"
    using c by (auto simp: isspace_def)
qed

text \<open>The input does not go on with a digit.\<close>

fun no_digit :: "istream \<Rightarrow> bool" where
  "no_digit (Some c # i) = (\<not> isdigit c)"
| "no_digit _ = True"

fun drop_none :: "istream \<Rightarrow> istream" where
  "drop_none (None # i) = i"
| "drop_none i = i"

lemma read_digits_stop: "no_digit r \<Longrightarrow> read_digits r v = (v, drop_none r)"
  by (cases r rule: no_digit.cases) (auto simp: ungetc_def)

lemma read_digits_append:
  "\<forall>c \<in> set ds. isdigit c \<Longrightarrow>
    read_digits (map Some ds @ r) v =
      read_digits r (foldl (\<lambda>a c. a * 10 + of_nat (digit_val c)) v ds)"
  by (induction ds arbitrary: v) auto

lemma dec_digits: "c \<in> set (dec n) \<Longrightarrow> isdigit c"
  by (induction n rule: dec.induct) (subst (asm) (2) dec.simps, auto split: if_splits)

lemma dec_value:
  "foldl (\<lambda>a c. a * 10 + of_nat (digit_val c)) 0 (dec n) = (of_nat n :: u32)"
proof (induction n rule: dec.induct)
  case (1 n)
  show ?case
  proof (cases "n < 10")
    case False
    have "(of_nat n :: u32) = of_nat (n div 10 * 10 + n mod 10)" by simp
    also have "\<dots> = of_nat (n div 10) * 10 + of_nat (n mod 10)"
      by (simp only: of_nat_add of_nat_mult of_nat_numeral)
    finally show ?thesis using 1 False by (subst dec.simps) simp
  qed (subst dec.simps, simp)
qed

lemma dec_Cons: "\<exists>c cs. dec n = c # cs \<and> isdigit c"
proof (cases "dec n")
  case Nil
  then show ?thesis by (subst (asm) dec.simps) (simp split: if_splits)
next
  case (Cons c cs)
  then show ?thesis using dec_digits [of c n] by auto
qed

lemma read_dec:
  "no_digit r \<Longrightarrow> read_digits (map Some (dec n) @ r) 0 = (of_nat n, drop_none r)"
  by (simp add: read_digits_append dec_digits dec_value read_digits_stop)

text \<open>Leading zeros of a padded number change nothing.\<close>

lemma read_zeros:
  "read_digits (map Some (replicate k CHR ''0'') @ r) 0 = read_digits r 0"
  by (induction k) (simp_all add: isdigit_def digit_val_def)

definition numeral_of :: "nat \<Rightarrow> string \<Rightarrow> bool" where
  "numeral_of n s \<longleftrightarrow> (\<exists>k. s = replicate k CHR ''0'' @ dec n)"

lemma numeral_dec: "numeral_of n (dec n)"
  by (auto simp: numeral_of_def intro: exI [of _ 0])

lemma numeral_02d: "numeral_of n (put_02d (int n))"
  by (auto simp: numeral_of_def put_02d_def pad2_def)

lemma numeral_Cons:
  assumes "numeral_of n s"
  obtains c cs where "s = c # cs" and "isdigit c"
proof -
  from assms obtain k where s: "s = replicate k CHR ''0'' @ dec n" by (auto simp: numeral_of_def)
  obtain c cs where "dec n = c # cs" "isdigit c" using dec_Cons by blast
  with s that show thesis by (cases k) (auto simp: isdigit_def)
qed

lemma read_numeral:
  "numeral_of n s \<Longrightarrow> no_digit r \<Longrightarrow> read_digits (map Some s @ r) 0 = (of_nat n, drop_none r)"
  by (auto simp: numeral_of_def map_append read_zeros read_dec simp del: map_replicate)

lemma digit_plain: "isdigit c \<Longrightarrow> \<not> isspace c \<and> c \<noteq> CHR ''-'' \<and> c \<noteq> CHR ''+''"
  by (auto simp: isdigit_def isspace_def)

text \<open>Formatted input reads a printed number back.\<close>

lemma scan_numeral:
  assumes "numeral_of n s" and "no_digit r"
  shows "scan (Conv_int # fs) (map Some s @ r) =
      (case scan fs (drop_none r) of (vs, e, i) \<Rightarrow> (of_nat n # vs, e, i))"
proof -
  obtain c cs where s: "s = c # cs" and c: "isdigit c" by (rule numeral_Cons [OF assms(1)])
  note plain = digit_plain [OF c]
  have "conv_unsigned (map Some s @ r) = (Some (of_nat n), drop_none r)"
    using read_numeral [OF assms] c by (simp add: conv_unsigned_def s)
  then have "conv_int (map Some s @ r) = (Some (of_nat n), drop_none r)"
    using plain by (simp add: conv_int_def s)
  moreover have "skip_spaces (map Some s @ r) = (True, map Some s @ r)"
    using plain by (simp add: s ungetc_def)
  ultimately show ?thesis by (simp del: append.simps)
qed

text \<open>A white space directive passes over white space and over nothing.\<close>

lemma skip_spaces_done: "\<not> isspace c \<Longrightarrow> skip_spaces (Some c # i) = (True, Some c # i)"
  by (simp add: ungetc_def)

end
