(* ===== verification/Interfaces.thy ===== *)
theory Interfaces
  imports Prelude
begin

text \<open>
  The interfaces between the components, each a locale: the operations a client calls
  and the laws the provider promises. The theory of the providing component interprets
  the locale on the model of the code.
\<close>

subsection \<open>A serial output that takes words of up to 16 bits\<close>

locale serial_sink =
  fixes send :: "u16 \<Rightarrow> u8 \<Rightarrow> 's \<Rightarrow> 's"
    and bits :: "'s \<Rightarrow> bool list"
    and ready :: "'s \<Rightarrow> bool"
  assumes send_bits: "ready s \<Longrightarrow> unat len \<le> 16 \<Longrightarrow>
      bits (send w len s) = bits s @ bits_msb (unat len) w"
    and send_ready: "ready s \<Longrightarrow> unat len \<le> 16 \<Longrightarrow> ready (send w len s)"
begin

lemma send_all:
  "ready s \<Longrightarrow> \<forall>(w, len) \<in> set ws. unat len \<le> 16 \<Longrightarrow>
    bits (fold (\<lambda>(w, len). send w len) ws s) =
      bits s @ concat (map (\<lambda>(w, len). bits_msb (unat len) w) ws) \<and>
    ready (fold (\<lambda>(w, len). send w len) ws s)"
  by (induction ws arbitrary: s) (auto simp: send_bits send_ready)

lemmas send_all_bits = send_all [THEN conjunct1]
lemmas send_all_ready = send_all [THEN conjunct2]

end

subsection \<open>A bus with one register-file device\<close>

text \<open>
  \<open>wr address data n wait\<close> sends \<open>n\<close> bytes of \<open>data\<close>: the first selects a register, the
  others are stored from there on. \<open>rd address buf 1\<close> reads the selected register.
  \<open>regs\<close> is what the device will hold once the bus is quiet: a write may still be pending.
\<close>

fun poke :: "(u8 \<Rightarrow> u8) \<Rightarrow> u8 \<Rightarrow> u8 list \<Rightarrow> (u8 \<Rightarrow> u8)" where
  "poke m a [] = m"
| "poke m a (v # vs) = poke (m(a := v)) (a + 1) vs"

locale reg_bus =
  fixes wr :: "u8 \<Rightarrow> u8 list \<Rightarrow> u8 \<Rightarrow> u8 \<Rightarrow> 'b \<Rightarrow> (u8 \<times> 'b) outcome"
    and rd :: "u8 \<Rightarrow> u8 list \<Rightarrow> u8 \<Rightarrow> 'b \<Rightarrow> (u8 \<times> u8 list \<times> 'b) outcome"
    and dev :: u8
    and regs :: "'b \<Rightarrow> u8 \<Rightarrow> u8"
    and ptr :: "'b \<Rightarrow> u8"
    and ok :: "'b \<Rightarrow> bool"
  assumes wr_regs: "ok b \<Longrightarrow> unat n \<le> 32 \<Longrightarrow> unat n \<le> length data \<Longrightarrow>
      take (unat n) data = a # vs \<Longrightarrow>
      \<exists>b'. wr dev data n w b = Returns (0, b') \<and> ok b' \<and> regs b' = poke (regs b) a vs \<and>
        ptr b' = a + of_nat (length vs)"
    and rd_regs: "ok b \<Longrightarrow> data \<noteq> [] \<Longrightarrow>
      \<exists>b'. rd dev data 1 b = Returns (1, data[0 := regs b (ptr b)], b') \<and> ok b' \<and> regs b' = regs b"

end
