(* ===== verification/Led.thy ===== *)
theory Led
  imports Interfaces
begin

text \<open>
  The TLC5971 LED driver of \<^verbatim>\<open>hardware/led.c\<close>: the two port pins it toggles, the
  bit-banged \<^verbatim>\<open>write_word\<close> and the two-chip frame that \<^verbatim>\<open>led\<close> sends. Every store to
  \<^verbatim>\<open>PORTF\<close> is recorded, so what the chips see (the data line at each rising clock edge)
  is a function of the recorded stores.
\<close>

subsection \<open>State: port F and the white balance variables\<close>

record led_hw =
  DDRF :: u8
  PORTF :: u8
  portf_trace :: "u8 list"   \<comment> \<open>the values stored to PORTF, in order\<close>
  TLC_Blue_WB :: u8
  TLC_Green_WB :: u8
  TLC_Red_WB :: u8

definition wr_PORTF :: "u8 \<Rightarrow> led_hw \<Rightarrow> led_hw" where
  "wr_PORTF v s = s\<lparr>PORTF := v, portf_trace := portf_trace s @ [v]\<rparr>"

definition SIN_HIGH :: "led_hw \<Rightarrow> led_hw" where
  "SIN_HIGH s = wr_PORTF (PORTF s OR push_bit 1 1) s"

definition SIN_LOW :: "led_hw \<Rightarrow> led_hw" where
  "SIN_LOW s = wr_PORTF (PORTF s AND NOT (push_bit 1 1)) s"

definition SCLK_HIGH :: "led_hw \<Rightarrow> led_hw" where
  "SCLK_HIGH s = wr_PORTF (PORTF s OR 1) s"

definition SCLK_LOW :: "led_hw \<Rightarrow> led_hw" where
  "SCLK_LOW s = wr_PORTF (PORTF s AND NOT 1) s"

definition LED_INIT :: "led_hw \<Rightarrow> led_hw" where
  "LED_INIT s = s\<lparr>DDRF := DDRF s OR 3\<rparr>"

definition TLC_WRITE :: u16 where "TLC_WRITE = 0x25"
definition TLC_TMGRST :: u16 where "TLC_TMGRST = 0x04"
definition TLC_DSPRPT :: u16 where "TLC_DSPRPT = 0x02"

subsection \<open>Operations\<close>

definition LED_Init :: "led_hw \<Rightarrow> led_hw" where
  "LED_Init s = SCLK_LOW (SIN_LOW (LED_INIT s))"

text \<open>
  The body of the loop of \<^verbatim>\<open>write_word\<close> (data line, then one clock pulse), and the loop
  with \<open>i\<close> from \<open>n - 1\<close> down to \<open>0\<close>.
\<close>

definition write_bit :: "u16 \<Rightarrow> nat \<Rightarrow> led_hw \<Rightarrow> led_hw" where
  "write_bit word i s =
     (let s1 = SIN_LOW s;
          s2 = (if word AND push_bit i 1 \<noteq> 0 then SIN_HIGH s1 else s1)
      in SCLK_LOW (SCLK_HIGH s2))"

fun write_bits :: "u16 \<Rightarrow> nat \<Rightarrow> led_hw \<Rightarrow> led_hw" where
  "write_bits word 0 s = s"
| "write_bits word (Suc i) s = write_bits word i (write_bit word i s)"

text \<open>The counter is an \<^verbatim>\<open>int8_t\<close> that starts at \<open>len - 1\<close>.\<close>

definition write_word :: "u16 \<Rightarrow> u8 \<Rightarrow> led_hw \<Rightarrow> led_hw" where
  "write_word word len s = SIN_LOW (write_bits word (nat (sint (len - 1) + 1)) s)"

text \<open>
  One entry of \<^verbatim>\<open>show[8][3]\<close>: the 16-bit gray scale values blue, green and red, in the
  order of the array.
\<close>

type_synonym light = "u16 \<times> u16 \<times> u16"

fun write_light :: "light \<Rightarrow> led_hw \<Rightarrow> led_hw" where
  "write_light (b, g, r) s = write_word r 16 (write_word g 16 (write_word b 16 s))"

text \<open>The header of one chip's packet; \<^verbatim>\<open>led\<close> sends it once per chip.\<close>

definition write_header :: "led_hw \<Rightarrow> led_hw" where
  "write_header s =
     (let s1 = write_word TLC_WRITE 6 s;
          s2 = write_word (TLC_TMGRST OR TLC_DSPRPT) 5 s1;
          s3 = write_word (ucast (TLC_Blue_WB s2)) 7 s2;
          s4 = write_word (ucast (TLC_Green_WB s3)) 7 s3
      in write_word (ucast (TLC_Red_WB s4)) 7 s4)"

definition led :: "light list \<Rightarrow> led_hw \<Rightarrow> led_hw" where
  "led lights s =
     (let s1 = write_header s;
          s2 = fold (\<lambda>i. write_light (lights ! i)) [0..<4] s1;
          s3 = write_header s2
      in fold (\<lambda>i. write_light (lights ! i)) [4..<8] s3)"

subsection \<open>What the chips see\<close>

text \<open>The data line (pin 1) at every rising edge of the clock line (pin 0).\<close>

fun clocked :: "u8 \<Rightarrow> u8 list \<Rightarrow> bool list" where
  "clocked p [] = []"
| "clocked p (v # vs) = (if bit v 0 \<and> \<not> bit p 0 then [bit v 1] else []) @ clocked v vs"

definition shifted :: "led_hw \<Rightarrow> bool list" where
  "shifted s = clocked 0 (portf_trace s)"

definition led_ready :: "led_hw \<Rightarrow> bool" where
  "led_ready s \<longleftrightarrow> PORTF s = last (0 # portf_trace s) \<and> \<not> bit (PORTF s) 0"

lemma clocked_append: "clocked p (xs @ ys) = clocked p xs @ clocked (last (p # xs)) ys"
  by (induction xs arbitrary: p) auto

definition traced :: "led_hw \<Rightarrow> bool" where
  "traced s \<longleftrightarrow> PORTF s = last (0 # portf_trace s)"

lemma shifted_wr [simp]:
  "traced s \<Longrightarrow> shifted (wr_PORTF v s) =
     shifted s @ (if bit v 0 \<and> \<not> bit (PORTF s) 0 then [bit v 1] else [])"
  by (simp add: shifted_def wr_PORTF_def clocked_append traced_def)

lemma traced_wr [simp]: "traced (wr_PORTF v s)"
  by (simp add: wr_PORTF_def traced_def)

lemma PORTF_wr [simp]: "PORTF (wr_PORTF v s) = v"
  by (simp add: wr_PORTF_def)

lemmas pin_defs = SIN_HIGH_def SIN_LOW_def SCLK_HIGH_def SCLK_LOW_def

lemma led_ready_traced: "led_ready s \<longleftrightarrow> traced s \<and> \<not> bit (PORTF s) 0"
  by (simp add: led_ready_def traced_def)

text \<open>One turn of the loop of \<^verbatim>\<open>write_word\<close> clocks out one bit.\<close>

lemma write_bit_shifted:
  assumes "led_ready s"
  shows "shifted (write_bit word i s) = shifted s @ [bit word i]"
    and "led_ready (write_bit word i s)"
  using assms
  by (auto simp: write_bit_def led_ready_traced pin_defs test_bit_and bit_simps Let_def)

lemma write_bits_shifted:
  "led_ready s \<Longrightarrow> shifted (write_bits word n s) = shifted s @ bits_msb n word \<and>
     led_ready (write_bits word n s)"
  by (induction n arbitrary: s) (auto simp: write_bit_shifted)

lemma loop_count: "unat len \<le> 16 \<Longrightarrow> nat (sint (len - 1 :: u8) + 1) = unat len"
proof -
  assume le: "unat len \<le> 16"
  define n where "n = unat len"
  have len: "len = of_nat n" by (simp add: n_def)
  have "n \<in> {0,1,2,3,4,5,6,7,8,9,10,11,12,13,14,15,16}"
    using le unfolding n_def by (simp; arith)
  then show ?thesis unfolding len by auto
qed

interpretation tlc: serial_sink write_word shifted led_ready
proof
  fix s w len
  assume r: "led_ready s" and l: "unat (len :: u8) \<le> 16"
  have "led_ready (write_bits w (unat len) s)"
    and sh: "shifted (write_bits w (unat len) s) = shifted s @ bits_msb (unat len) w"
    using write_bits_shifted [OF r] by auto
  then show "shifted (write_word w len s) = shifted s @ bits_msb (unat len) w"
    and "led_ready (write_word w len s)"
    using l by (auto simp: write_word_def loop_count led_ready_traced SIN_LOW_def bit_simps)
qed

subsection \<open>The frame of a whole update\<close>

definition header_bits :: "led_hw \<Rightarrow> bool list" where
  "header_bits s = bits_msb 6 TLC_WRITE @ bits_msb 5 (TLC_TMGRST OR TLC_DSPRPT) @
     bits_msb 7 (ucast (TLC_Blue_WB s) :: u16) @ bits_msb 7 (ucast (TLC_Green_WB s) :: u16) @
     bits_msb 7 (ucast (TLC_Red_WB s) :: u16)"

fun light_bits :: "light \<Rightarrow> bool list" where
  "light_bits (b, g, r) = bits_msb 16 b @ bits_msb 16 g @ bits_msb 16 r"

definition white :: "led_hw \<Rightarrow> u8 \<times> u8 \<times> u8" where
  "white s = (TLC_Blue_WB s, TLC_Green_WB s, TLC_Red_WB s)"

lemma white_wr [simp]:
  "TLC_Blue_WB (wr_PORTF v s) = TLC_Blue_WB s"
  "TLC_Green_WB (wr_PORTF v s) = TLC_Green_WB s"
  "TLC_Red_WB (wr_PORTF v s) = TLC_Red_WB s"
  "DDRF (wr_PORTF v s) = DDRF s"
  by (simp_all add: wr_PORTF_def)

lemma write_bit_frame [frame]:
  "TLC_Blue_WB (write_bit w i s) = TLC_Blue_WB s"
  "TLC_Green_WB (write_bit w i s) = TLC_Green_WB s"
  "TLC_Red_WB (write_bit w i s) = TLC_Red_WB s"
  "DDRF (write_bit w i s) = DDRF s"
  by (simp_all add: write_bit_def pin_defs Let_def)

lemma write_bits_frame [frame]:
  "TLC_Blue_WB (write_bits w n s) = TLC_Blue_WB s"
  "TLC_Green_WB (write_bits w n s) = TLC_Green_WB s"
  "TLC_Red_WB (write_bits w n s) = TLC_Red_WB s"
  "DDRF (write_bits w n s) = DDRF s"
  by (induction n arbitrary: s) (simp_all add: frame)

lemma write_word_frame [frame]:
  "TLC_Blue_WB (write_word w len s) = TLC_Blue_WB s"
  "TLC_Green_WB (write_word w len s) = TLC_Green_WB s"
  "TLC_Red_WB (write_word w len s) = TLC_Red_WB s"
  "DDRF (write_word w len s) = DDRF s"
  by (simp_all add: write_word_def SIN_LOW_def frame)

lemma write_header_frame [frame]:
  "TLC_Blue_WB (write_header s) = TLC_Blue_WB s"
  "TLC_Green_WB (write_header s) = TLC_Green_WB s"
  "TLC_Red_WB (write_header s) = TLC_Red_WB s"
  "DDRF (write_header s) = DDRF s"
  by (simp_all add: write_header_def Let_def frame)

lemma write_light_frame [frame]:
  "TLC_Blue_WB (write_light l s) = TLC_Blue_WB s"
  "TLC_Green_WB (write_light l s) = TLC_Green_WB s"
  "TLC_Red_WB (write_light l s) = TLC_Red_WB s"
  "DDRF (write_light l s) = DDRF s"
  by (cases l; simp add: frame)+

lemma write_lights_frame [frame]:
  "TLC_Blue_WB (fold (\<lambda>i. write_light (f i)) is s) = TLC_Blue_WB s"
  "TLC_Green_WB (fold (\<lambda>i. write_light (f i)) is s) = TLC_Green_WB s"
  "TLC_Red_WB (fold (\<lambda>i. write_light (f i)) is s) = TLC_Red_WB s"
  "DDRF (fold (\<lambda>i. write_light (f i)) is s) = DDRF s"
  by (induction "is" arbitrary: s) (simp_all add: frame)

lemma header_shifted:
  "led_ready s \<Longrightarrow> shifted (write_header s) = shifted s @ header_bits s \<and> led_ready (write_header s)"
  by (simp add: write_header_def header_bits_def Let_def tlc.send_bits tlc.send_ready frame)

lemma lights_shifted:
  "led_ready s \<Longrightarrow> shifted (fold (\<lambda>i. write_light (f i)) is s) =
     shifted s @ concat (map (light_bits \<circ> f) is) \<and> led_ready (fold (\<lambda>i. write_light (f i)) is s)"
proof (induction "is" arbitrary: s)
  case (Cons i "is")
  obtain b g r where l: "f i = (b, g, r)" by (cases "f i")
  with Cons show ?case by (simp add: tlc.send_bits tlc.send_ready)
qed simp

definition packet_bits :: "led_hw \<Rightarrow> light list \<Rightarrow> bool list" where
  "packet_bits s ls = header_bits s @ concat (map light_bits ls)"

lemma map_nth_range:
  "j \<le> length xs \<Longrightarrow> map (\<lambda>i. f (xs ! i)) [i..<j] = map f (drop i (take j xs))"
  by (rule nth_equalityI) auto

lemma led_shifted:
  assumes "led_ready s" and "length lights = 8"
  shows "shifted (led lights s) =
      shifted s @ packet_bits s (take 4 lights) @ packet_bits s (drop 4 lights)"
    and "led_ready (led lights s)"
proof -
  note step = header_shifted lights_shifted [where f = "(!) lights"]
  have "shifted (led lights s) = shifted s @
      header_bits s @ concat (map (\<lambda>i. light_bits (lights ! i)) [0..<4]) @
      header_bits s @ concat (map (\<lambda>i. light_bits (lights ! i)) [4..<8])"
    using assms(1)
    by (simp add: led_def Let_def step comp_def header_bits_def frame del: upt_rec_numeral)
  then show "shifted (led lights s) =
      shifted s @ packet_bits s (take 4 lights) @ packet_bits s (drop 4 lights)"
    using assms(2) by (simp add: packet_bits_def map_nth_range del: upt_rec_numeral)
  show "led_ready (led lights s)"
    using assms(1) by (simp add: led_def Let_def step frame del: upt_rec_numeral)
qed

subsection \<open>The packet as the TLC5971 reads it\<close>

text \<open>
  The chip's 224-bit shift register: a write command, five function-control bits, three
  7-bit brightness values, four groups of three 16-bit gray scale values.
\<close>

record tlc_packet =
  pk_cmd :: nat
  pk_fc :: "bool list"
  pk_bc :: "nat list"
  pk_gs :: "(nat \<times> nat \<times> nat) list"

fun fields :: "nat list \<Rightarrow> bool list \<Rightarrow> bool list list" where
  "fields [] bs = []"
| "fields (n # ns) bs = take n bs # fields ns (drop n bs)"

fun triples :: "nat list \<Rightarrow> (nat \<times> nat \<times> nat) list" where
  "triples (b # g # r # xs) = (b, g, r) # triples xs"
| "triples _ = []"

definition read_packet :: "bool list \<Rightarrow> tlc_packet option" where
  "read_packet bs =
     (if length bs \<noteq> 224 then None
      else let fs = fields ([6, 5, 7, 7, 7] @ replicate 12 16) bs
           in Some \<lparr>pk_cmd = bits_val (fs ! 0), pk_fc = fs ! 1,
                pk_bc = map bits_val (take 3 (drop 2 fs)),
                pk_gs = triples (map bits_val (drop 5 fs))\<rparr>)"

definition sent_packet :: "led_hw \<Rightarrow> light list \<Rightarrow> tlc_packet" where
  "sent_packet s ls =
     \<lparr>pk_cmd = 0x25, pk_fc = [False, False, True, True, False],
      pk_bc = [unat (TLC_Blue_WB s) mod 128, unat (TLC_Green_WB s) mod 128, unat (TLC_Red_WB s) mod 128],
      pk_gs = map (\<lambda>(b, g, r). (unat b, unat g, unat r)) ls\<rparr>"

lemma length_header_bits [simp]: "length (header_bits s) = 32"
  by (simp add: header_bits_def)

lemma length_light_bits [simp]: "length (light_bits l) = 48"
  by (cases l) simp

lemma fields_append:
  "length bs = n \<Longrightarrow> fields (n # ns) (bs @ rest) = bs # fields ns rest"
  by simp

lemma control_bits: "bits_msb 5 (TLC_TMGRST OR TLC_DSPRPT) = [False, False, True, True, False]"
  by (simp add: TLC_TMGRST_def TLC_DSPRPT_def numeral_eq_Suc)

lemma read_packet_bits:
  assumes "length ls = 4"
  shows "read_packet (packet_bits s ls) = Some (sent_packet s ls)"
proof -
  obtain b0 g0 r0 b1 g1 r1 b2 g2 r2 b3 g3 r3
    where ls: "ls = [(b0, g0, r0), (b1, g1, r1), (b2, g2, r2), (b3, g3, r3)]"
    using assms by (auto simp: length_Suc_conv numeral_eq_Suc)
  have len: "length (packet_bits s ls) = 224"
    by (simp add: packet_bits_def ls)
  have ns: "[6, 5, 7, 7, 7] @ replicate 12 16 =
      [6, 5, 7, 7, 7, 16, 16, 16, 16, 16, 16, 16, 16, 16, 16, 16, 16::nat]"
    by (simp add: numeral_eq_Suc)
  show ?thesis
    unfolding read_packet_def len ns
    by (simp add: packet_bits_def header_bits_def ls sent_packet_def control_bits
        TLC_WRITE_def)
qed

text \<open>
  C1: a whole update clocks out two 224-bit packets, the first for lights 0 to 3, the second for
  lights 4 to 7, and each reads back as the write command, the white balance and the gray
  scale values that were asked for.
\<close>

theorem led_sends_two_packets:
  assumes "led_ready s" and "length lights = 8"
  shows "\<exists>p q. shifted (led lights s) = shifted s @ p @ q \<and>
      read_packet p = Some (sent_packet s (take 4 lights)) \<and>
      read_packet q = Some (sent_packet s (drop 4 lights))"
proof (intro exI conjI)
  show "shifted (led lights s) =
      shifted s @ packet_bits s (take 4 lights) @ packet_bits s (drop 4 lights)"
    by (rule led_shifted(1) [OF assms])
qed (use assms(2) in \<open>simp_all add: read_packet_bits\<close>)

definition led_zero :: led_hw where
  "led_zero = \<lparr>DDRF = 0, PORTF = 0, portf_trace = [], TLC_Blue_WB = 127, TLC_Green_WB = 100,
     TLC_Red_WB = 80\<rparr>"

lemma led_zero_ready: "led_ready (LED_Init led_zero)"
  by (simp add: LED_Init_def LED_INIT_def led_zero_def led_ready_traced pin_defs bit_simps)

lemma led_sends_two_packets_witness:
  "\<exists>p q. shifted (led (replicate 8 (1, 2, 65535)) (LED_Init led_zero)) =
       shifted (LED_Init led_zero) @ p @ q \<and>
     read_packet p = Some (sent_packet (LED_Init led_zero) (take 4 (replicate 8 (1, 2, 65535)))) \<and>
     read_packet q = Some (sent_packet (LED_Init led_zero) (drop 4 (replicate 8 (1, 2, 65535))))"
  by (rule led_sends_two_packets [OF led_zero_ready]) simp

end
