(* ===== verification/Twi.thy ===== *)
theory Twi
  imports Interfaces
begin

text \<open>
  The interrupt driven I2C driver of \<^verbatim>\<open>library/twi.c\<close>: its static variables and the TWI
  registers as a record, one definition per function, the interrupt handler with all its
  status cases, and the busy-wait loops, during which the interrupts of an environment
  \<open>env\<close> arrive. \<open>env\<close> is a parameter: the bus hardware is not part of the source.
\<close>

subsection \<open>Constants\<close>

text \<open>Bit numbers of TWCR and TWSR, and the status codes of \<^verbatim>\<open>compat/twi.h\<close>.\<close>

abbreviation (input) BV :: "nat \<Rightarrow> u8" where "BV n \<equiv> push_bit n 1"
abbreviation (input) "TWINT \<equiv> 7 :: nat"
abbreviation (input) "TWEA \<equiv> 6 :: nat"
abbreviation (input) "TWSTA \<equiv> 5 :: nat"
abbreviation (input) "TWSTO \<equiv> 4 :: nat"
abbreviation (input) "TWEN \<equiv> 2 :: nat"
abbreviation (input) "TWIE \<equiv> 0 :: nat"
abbreviation (input) "TWPS0 \<equiv> 0 :: nat"
abbreviation (input) "TWPS1 \<equiv> 1 :: nat"

abbreviation (input) "TW_START \<equiv> 0x08 :: u8"
abbreviation (input) "TW_REP_START \<equiv> 0x10 :: u8"
abbreviation (input) "TW_MT_SLA_ACK \<equiv> 0x18 :: u8"
abbreviation (input) "TW_MT_SLA_NACK \<equiv> 0x20 :: u8"
abbreviation (input) "TW_MT_DATA_ACK \<equiv> 0x28 :: u8"
abbreviation (input) "TW_MT_DATA_NACK \<equiv> 0x30 :: u8"
abbreviation (input) "TW_MT_ARB_LOST \<equiv> 0x38 :: u8"
abbreviation (input) "TW_MR_SLA_ACK \<equiv> 0x40 :: u8"
abbreviation (input) "TW_MR_SLA_NACK \<equiv> 0x48 :: u8"
abbreviation (input) "TW_MR_DATA_ACK \<equiv> 0x50 :: u8"
abbreviation (input) "TW_MR_DATA_NACK \<equiv> 0x58 :: u8"
abbreviation (input) "TW_SR_SLA_ACK \<equiv> 0x60 :: u8"
abbreviation (input) "TW_SR_ARB_LOST_SLA_ACK \<equiv> 0x68 :: u8"
abbreviation (input) "TW_SR_GCALL_ACK \<equiv> 0x70 :: u8"
abbreviation (input) "TW_SR_ARB_LOST_GCALL_ACK \<equiv> 0x78 :: u8"
abbreviation (input) "TW_SR_DATA_ACK \<equiv> 0x80 :: u8"
abbreviation (input) "TW_SR_DATA_NACK \<equiv> 0x88 :: u8"
abbreviation (input) "TW_SR_GCALL_DATA_ACK \<equiv> 0x90 :: u8"
abbreviation (input) "TW_SR_GCALL_DATA_NACK \<equiv> 0x98 :: u8"
abbreviation (input) "TW_SR_STOP \<equiv> 0xA0 :: u8"
abbreviation (input) "TW_ST_SLA_ACK \<equiv> 0xA8 :: u8"
abbreviation (input) "TW_ST_ARB_LOST_SLA_ACK \<equiv> 0xB0 :: u8"
abbreviation (input) "TW_ST_DATA_ACK \<equiv> 0xB8 :: u8"
abbreviation (input) "TW_ST_DATA_NACK \<equiv> 0xC0 :: u8"
abbreviation (input) "TW_ST_LAST_DATA \<equiv> 0xC8 :: u8"
abbreviation (input) "TW_NO_INFO \<equiv> 0xF8 :: u8"
abbreviation (input) "TW_BUS_ERROR \<equiv> 0x00 :: u8"
abbreviation (input) "TW_READ \<equiv> 1 :: u8"
abbreviation (input) "TW_WRITE \<equiv> 0 :: u8"

abbreviation (input) "TWI_BUFFER_LENGTH \<equiv> 32 :: u8"

text \<open>\<^verbatim>\<open>F_CPU\<close> is set in the Makefile, \<^verbatim>\<open>TWI_FREQ\<close> in \<^verbatim>\<open>twi.h\<close>.\<close>

definition F_CPU :: nat where "F_CPU = 8000000"
definition TWI_FREQ :: nat where "TWI_FREQ = 100000"

subsection \<open>State\<close>

datatype twi_mode = TWI_READY | TWI_MRX | TWI_MTX | TWI_SRX | TWI_STX

text \<open>A function pointer is the address of a handler, or null.\<close>

type_synonym handler = nat

record twi = gpio +
  twi_state :: twi_mode
  twi_slarw :: u8
  twi_onSlaveTransmit :: "handler option"
  twi_onSlaveReceive :: "handler option"
  twi_masterBuffer :: "u8 list"
  twi_masterBufferIndex :: u8
  twi_masterBufferLength :: u8
  twi_txBuffer :: "u8 list"
  twi_txBufferIndex :: u8
  twi_txBufferLength :: u8
  twi_rxBuffer :: "u8 list"
  twi_rxBufferIndex :: u8
  twi_error :: u8
  TWCR :: u8
  TWDR :: u8
  TWSR :: u8
  TWBR :: u8
  TWAR :: u8

text \<open>The statics before any code has run, and the registers at reset.\<close>

definition twi_zero :: twi where
  "twi_zero = \<lparr>DDRB = 0, PORTB = 0, PINB = 0, DDRC = 0, PORTC = 0, PINC = 0, DDRD = 0,
     PORTD = 0, PIND = 0, EICRA = 0, EIMSK = 0,
     twi_state = TWI_READY, twi_slarw = 0, twi_onSlaveTransmit = None, twi_onSlaveReceive = None,
     twi_masterBuffer = replicate 32 0, twi_masterBufferIndex = 0, twi_masterBufferLength = 0,
     twi_txBuffer = replicate 32 0, twi_txBufferIndex = 0, twi_txBufferLength = 0,
     twi_rxBuffer = replicate 32 0, twi_rxBufferIndex = 0, twi_error = 0,
     TWCR = 0, TWDR = 0xFF, TWSR = 0xF8, TWBR = 0, TWAR = 0xFE\<rparr>"

text \<open>One interrupt: status code, the received byte, and whether the hardware executes a STOP.\<close>

record tw_event =
  ev_status :: u8
  ev_data :: u8
  ev_sto :: bool

subsection \<open>Operations without waiting\<close>

definition twi_init :: "twi \<Rightarrow> twi" where
  "twi_init s =
     (let s1 = s\<lparr>twi_state := TWI_READY\<rparr>;
          s2 = s1\<lparr>DDRD := DDRD s1 AND NOT (BV 0)\<rparr>;
          s3 = s2\<lparr>DDRD := DDRD s2 AND NOT (BV 1)\<rparr>;
          s4 = s3\<lparr>PORTD := PORTD s3 OR BV 0\<rparr>;
          s5 = s4\<lparr>PORTD := PORTD s4 OR BV 1\<rparr>;
          s6 = s5\<lparr>TWSR := TWSR s5 AND NOT (BV TWPS0)\<rparr>;
          s7 = s6\<lparr>TWSR := TWSR s6 AND NOT (BV TWPS1)\<rparr>;
          s8 = s7\<lparr>TWBR := of_nat ((F_CPU div TWI_FREQ - 16) div 2)\<rparr>
      in s8\<lparr>TWCR := BV TWEN OR BV TWIE OR BV TWEA\<rparr>)"

definition twi_setAddress :: "u8 \<Rightarrow> twi \<Rightarrow> twi" where
  "twi_setAddress address s = s\<lparr>TWAR := push_bit 1 address\<rparr>"

definition twi_attachSlaveRxEvent :: "handler option \<Rightarrow> twi \<Rightarrow> twi" where
  "twi_attachSlaveRxEvent f s = s\<lparr>twi_onSlaveReceive := f\<rparr>"

definition twi_attachSlaveTxEvent :: "handler option \<Rightarrow> twi \<Rightarrow> twi" where
  "twi_attachSlaveTxEvent f s = s\<lparr>twi_onSlaveTransmit := f\<rparr>"

definition twi_reply :: "u8 \<Rightarrow> twi \<Rightarrow> twi" where
  "twi_reply ack s =
     (if ack \<noteq> 0 then s\<lparr>TWCR := BV TWEN OR BV TWIE OR BV TWINT OR BV TWEA\<rparr>
      else s\<lparr>TWCR := BV TWEN OR BV TWIE OR BV TWINT\<rparr>)"

text \<open>
  The wait of \<^verbatim>\<open>twi_stop\<close> reads the TWSTO bit until the hardware clears it; \<open>sto\<close> says
  whether it ever does.
\<close>

definition twi_stop :: "bool \<Rightarrow> twi \<Rightarrow> twi outcome" where
  "twi_stop sto s =
     (let s1 = s\<lparr>TWCR := BV TWEN OR BV TWIE OR BV TWEA OR BV TWINT OR BV TWSTO\<rparr>
      in if sto then Returns (s1\<lparr>TWCR := TWCR s1 AND NOT (BV TWSTO), twi_state := TWI_READY\<rparr>)
         else Hangs)"

definition twi_releaseBus :: "twi \<Rightarrow> twi" where
  "twi_releaseBus s =
     s\<lparr>TWCR := BV TWEN OR BV TWIE OR BV TWEA OR BV TWINT, twi_state := TWI_READY\<rparr>"

text \<open>Codes: 0 ok, 1 too long, 2 not slave transmitter.\<close>

definition twi_transmit :: "u8 list \<Rightarrow> u8 \<Rightarrow> twi \<Rightarrow> (u8 \<times> twi) outcome" where
  "twi_transmit data len s =
     (if TWI_BUFFER_LENGTH < len then Returns (1, s)
      else if twi_state s \<noteq> TWI_STX then Returns (2, s)
      else and_then (copy_array data (unat len) (twi_txBuffer s)) (\<lambda>tx.
        Returns (0, s\<lparr>twi_txBufferLength := len, twi_txBuffer := tx\<rparr>)))"

subsection \<open>The interrupt handler\<close>

text \<open>The slave callbacks are set by the application; what they do is a parameter.\<close>

record callbacks =
  call_rx :: "handler \<Rightarrow> u8 list \<Rightarrow> u8 \<Rightarrow> twi \<Rightarrow> twi outcome"
  call_tx :: "handler \<Rightarrow> twi \<Rightarrow> twi outcome"

definition call_onSlaveReceive :: "callbacks \<Rightarrow> twi \<Rightarrow> twi outcome" where
  "call_onSlaveReceive cb s =
     (case twi_onSlaveReceive s of
        None \<Rightarrow> Faults NullCall
      | Some f \<Rightarrow> call_rx cb f (twi_rxBuffer s) (twi_rxBufferIndex s) s)"

definition call_onSlaveTransmit :: "callbacks \<Rightarrow> twi \<Rightarrow> twi outcome" where
  "call_onSlaveTransmit cb s =
     (case twi_onSlaveTransmit s of
        None \<Rightarrow> Faults NullCall
      | Some f \<Rightarrow> call_tx cb f s)"

text \<open>Master transmitter: send the next byte, or stop.\<close>

definition isr_mt_next :: "bool \<Rightarrow> twi \<Rightarrow> twi outcome" where
  "isr_mt_next sto s =
     (if twi_masterBufferIndex s < twi_masterBufferLength s then
        and_then (fetch (twi_masterBuffer s) (unat (twi_masterBufferIndex s))) (\<lambda>b.
          Returns (twi_reply 1
            (s\<lparr>TWDR := b, twi_masterBufferIndex := twi_masterBufferIndex s + 1\<rparr>)))
      else twi_stop sto s)"

text \<open>Master receiver: store the received byte; ask for another with ACK or NACK.\<close>

definition isr_mr_store :: "twi \<Rightarrow> twi outcome" where
  "isr_mr_store s =
     and_then (store (twi_masterBuffer s) (unat (twi_masterBufferIndex s)) (TWDR s)) (\<lambda>buf.
       Returns (s\<lparr>twi_masterBuffer := buf, twi_masterBufferIndex := twi_masterBufferIndex s + 1\<rparr>))"

definition isr_mr_ack :: "twi \<Rightarrow> twi" where
  "isr_mr_ack s =
     (if twi_masterBufferIndex s < twi_masterBufferLength s then twi_reply 1 s else twi_reply 0 s)"

definition isr_sr_data :: "twi \<Rightarrow> twi outcome" where
  "isr_sr_data s =
     (if twi_rxBufferIndex s < TWI_BUFFER_LENGTH then
        and_then (store (twi_rxBuffer s) (unat (twi_rxBufferIndex s)) (TWDR s)) (\<lambda>buf.
          Returns (twi_reply 1
            (s\<lparr>twi_rxBuffer := buf, twi_rxBufferIndex := twi_rxBufferIndex s + 1\<rparr>)))
      else Returns (twi_reply 0 s))"

definition isr_sr_stop :: "callbacks \<Rightarrow> bool \<Rightarrow> twi \<Rightarrow> twi outcome" where
  "isr_sr_stop cb sto s =
     and_then
       (if twi_rxBufferIndex s < TWI_BUFFER_LENGTH then
          and_then (store (twi_rxBuffer s) (unat (twi_rxBufferIndex s)) 0) (\<lambda>buf.
            Returns (s\<lparr>twi_rxBuffer := buf\<rparr>))
        else Returns s) (\<lambda>s1.
     and_then (twi_stop sto s1) (\<lambda>s2.
     and_then (call_onSlaveReceive cb s2) (\<lambda>s3.
       Returns (twi_releaseBus (s3\<lparr>twi_rxBufferIndex := 0\<rparr>)))))"

definition isr_st_data :: "twi \<Rightarrow> twi outcome" where
  "isr_st_data s =
     and_then (fetch (twi_txBuffer s) (unat (twi_txBufferIndex s))) (\<lambda>b.
       let s1 = s\<lparr>TWDR := b, twi_txBufferIndex := twi_txBufferIndex s + 1\<rparr>
       in Returns (if twi_txBufferIndex s1 < twi_txBufferLength s1 then twi_reply 1 s1
                   else twi_reply 0 s1))"

definition isr_st_addressed :: "callbacks \<Rightarrow> twi \<Rightarrow> twi outcome" where
  "isr_st_addressed cb s =
     and_then (call_onSlaveTransmit cb
       (s\<lparr>twi_state := TWI_STX, twi_txBufferIndex := 0, twi_txBufferLength := 0\<rparr>)) (\<lambda>s1.
     and_then
       (if twi_txBufferLength s1 = 0 then
          and_then (store (twi_txBuffer s1) 0 0) (\<lambda>buf.
            Returns (s1\<lparr>twi_txBufferLength := 1, twi_txBuffer := buf\<rparr>))
        else Returns s1)
       isr_st_data)"

definition TW_STATUS :: "twi \<Rightarrow> u8" where
  "TW_STATUS s = TWSR s AND 0xF8"

definition TWI_vect :: "callbacks \<Rightarrow> bool \<Rightarrow> twi \<Rightarrow> twi outcome" where
  "TWI_vect cb sto s =
     (let st = TW_STATUS s in
      if st = TW_START \<or> st = TW_REP_START then Returns (twi_reply 1 (s\<lparr>TWDR := twi_slarw s\<rparr>))
      else if st = TW_MT_SLA_ACK \<or> st = TW_MT_DATA_ACK then isr_mt_next sto s
      else if st = TW_MT_SLA_NACK then twi_stop sto (s\<lparr>twi_error := TW_MT_SLA_NACK\<rparr>)
      else if st = TW_MT_DATA_NACK then twi_stop sto (s\<lparr>twi_error := TW_MT_DATA_NACK\<rparr>)
      else if st = TW_MT_ARB_LOST then Returns (twi_releaseBus (s\<lparr>twi_error := TW_MT_ARB_LOST\<rparr>))
      else if st = TW_MR_DATA_ACK then and_then (isr_mr_store s) (\<lambda>s1. Returns (isr_mr_ack s1))
      else if st = TW_MR_SLA_ACK then Returns (isr_mr_ack s)
      else if st = TW_MR_DATA_NACK then and_then (isr_mr_store s) (twi_stop sto)
      else if st = TW_MR_SLA_NACK then twi_stop sto s
      else if st = TW_SR_SLA_ACK \<or> st = TW_SR_GCALL_ACK \<or> st = TW_SR_ARB_LOST_SLA_ACK \<or>
              st = TW_SR_ARB_LOST_GCALL_ACK then
        Returns (twi_reply 1 (s\<lparr>twi_state := TWI_SRX, twi_rxBufferIndex := 0\<rparr>))
      else if st = TW_SR_DATA_ACK \<or> st = TW_SR_GCALL_DATA_ACK then isr_sr_data s
      else if st = TW_SR_STOP then isr_sr_stop cb sto s
      else if st = TW_SR_DATA_NACK \<or> st = TW_SR_GCALL_DATA_NACK then Returns (twi_reply 0 s)
      else if st = TW_ST_SLA_ACK \<or> st = TW_ST_ARB_LOST_SLA_ACK then isr_st_addressed cb s
      else if st = TW_ST_DATA_ACK then isr_st_data s
      else if st = TW_ST_DATA_NACK \<or> st = TW_ST_LAST_DATA then
        Returns ((twi_reply 1 s)\<lparr>twi_state := TWI_READY\<rparr>)
      else if st = TW_BUS_ERROR then twi_stop sto (s\<lparr>twi_error := TW_BUS_ERROR\<rparr>)
      else Returns s)"

text \<open>
  An interrupt of the environment: the hardware sets the status bits (the prescaler bits of
  TWSR stay) and, where a byte was received, TWDR; then the handler runs.
\<close>

definition receives :: "u8 \<Rightarrow> bool" where
  "receives st \<longleftrightarrow> st \<in> {TW_MR_DATA_ACK, TW_MR_DATA_NACK, TW_SR_DATA_ACK, TW_SR_DATA_NACK,
     TW_SR_GCALL_DATA_ACK, TW_SR_GCALL_DATA_NACK}"

definition latch_event :: "tw_event \<Rightarrow> twi \<Rightarrow> twi" where
  "latch_event ev s =
     s\<lparr>TWSR := (TWSR s AND 3) OR (ev_status ev AND 0xF8),
       TWDR := (if receives (ev_status ev) then ev_data ev else TWDR s)\<rparr>"

definition interrupt :: "callbacks \<Rightarrow> tw_event \<Rightarrow> twi \<Rightarrow> twi outcome" where
  "interrupt cb ev s = TWI_vect cb (ev_sto ev) (latch_event ev s)"

subsection \<open>Operations that wait\<close>

text \<open>
  The environment of the driver: given the driver's registers and its own state, the next
  interrupt, or none ever again.
\<close>

type_synonym 'b bus = "twi \<Rightarrow> 'b \<Rightarrow> (tw_event \<times> 'b) option"

text \<open>\<^verbatim>\<open>while (P) continue;\<close> with the interrupts that arrive meanwhile.\<close>

partial_function (option) wait_while ::
    "callbacks \<Rightarrow> 'b bus \<Rightarrow> (twi \<Rightarrow> bool) \<Rightarrow> twi \<Rightarrow> 'b \<Rightarrow> (twi \<times> 'b) outcome" where
  "wait_while cb env P s b =
     (if \<not> P s then Returns (s, b)
      else case env s b of
        None \<Rightarrow> Hangs
      | Some (ev, b') \<Rightarrow>
          (case interrupt cb ev s of
             None \<Rightarrow> Hangs
           | Some (Inl e) \<Rightarrow> Faults e
           | Some (Inr s') \<Rightarrow> wait_while cb env P s' b'))"

definition twi_start :: "twi \<Rightarrow> twi" where
  "twi_start s = s\<lparr>TWCR := BV TWEN OR BV TWIE OR BV TWEA OR BV TWINT OR BV TWSTA\<rparr>"

text \<open>Returns the number of bytes read, the caller's array, the driver and the bus.\<close>

definition twi_readFrom ::
    "callbacks \<Rightarrow> 'b bus \<Rightarrow> u8 \<Rightarrow> u8 list \<Rightarrow> u8 \<Rightarrow> twi \<Rightarrow> 'b \<Rightarrow> (u8 \<times> u8 list \<times> twi \<times> 'b) outcome" where
  "twi_readFrom cb env address data len s b =
     (if TWI_BUFFER_LENGTH < len then Returns (0, data, s, b)
      else
        and_then (wait_while cb env (\<lambda>s. twi_state s \<noteq> TWI_READY) s b) (\<lambda>(s1, b1).
        let s2 = twi_start (s1\<lparr>twi_state := TWI_MRX, twi_error := 0xFF,
                   twi_masterBufferIndex := 0, twi_masterBufferLength := len - 1,
                   twi_slarw := TW_READ OR push_bit 1 address\<rparr>)
        in and_then (wait_while cb env (\<lambda>s. twi_state s = TWI_MRX) s2 b1) (\<lambda>(s3, b3).
        let n = (if twi_masterBufferIndex s3 < len then twi_masterBufferIndex s3 else len)
        in and_then (copy_array (twi_masterBuffer s3) (unat n) data) (\<lambda>data'.
             Returns (n, data', s3, b3)))))"

text \<open>Codes: 0 ok, 1 too long, 2 address NACK, 3 data NACK, 4 other.\<close>

definition write_result :: "u8 \<Rightarrow> u8" where
  "write_result e =
     (if e = 0xFF then 0 else if e = TW_MT_SLA_NACK then 2
      else if e = TW_MT_DATA_NACK then 3 else 4)"

definition twi_writeTo ::
    "callbacks \<Rightarrow> 'b bus \<Rightarrow> u8 \<Rightarrow> u8 list \<Rightarrow> u8 \<Rightarrow> u8 \<Rightarrow> twi \<Rightarrow> 'b \<Rightarrow> (u8 \<times> twi \<times> 'b) outcome" where
  "twi_writeTo cb env address data len wait s b =
     (if TWI_BUFFER_LENGTH < len then Returns (1, s, b)
      else
        and_then (wait_while cb env (\<lambda>s. twi_state s \<noteq> TWI_READY) s b) (\<lambda>(s1, b1).
        and_then (copy_array data (unat len) (twi_masterBuffer s1)) (\<lambda>buf.
        let s2 = twi_start (s1\<lparr>twi_state := TWI_MTX, twi_error := 0xFF,
                   twi_masterBufferIndex := 0, twi_masterBufferLength := len,
                   twi_masterBuffer := buf,
                   twi_slarw := TW_WRITE OR push_bit 1 address\<rparr>)
        in and_then (wait_while cb env (\<lambda>s. wait \<noteq> 0 \<and> twi_state s = TWI_MTX) s2 b1)
             (\<lambda>(s3, b3). Returns (write_result (twi_error s3), s3, b3)))))"

end
