(* ===== verification/Rtc.thy ===== *)
theory Rtc
  imports Twi
begin
unbundle bit_operations_syntax

text \<open>
  The real time clock driver of \<^verbatim>\<open>hardware/rtc.c\<close>. It reaches the clock chip through two
  functions of \<^verbatim>\<open>twi.h\<close>; they are the arguments \<open>wr\<close> (\<^verbatim>\<open>twi_writeTo\<close>) and \<open>rd\<close>
  (\<^verbatim>\<open>twi_readFrom\<close>) of the operations, and \<open>bus\<close> is the state behind them.
\<close>

subsection \<open>Constants and state\<close>

abbreviation (input) "RTC_DEVICE_ADDRESS \<equiv> 0x6f :: u8"
abbreviation (input) "RTC_VBATEN \<equiv> 0x08 :: u8"
abbreviation (input) "RTC_ST \<equiv> 0x80 :: u8"
abbreviation (input) "RTC_OUT \<equiv> 7 :: nat"
abbreviation (input) "RTC_ALM0 \<equiv> 4 :: nat"
abbreviation (input) "ALM0C2 \<equiv> 6 :: nat"
abbreviation (input) "ALM0C1 \<equiv> 5 :: nat"
abbreviation (input) "ALM0C0 \<equiv> 4 :: nat"
abbreviation (input) "INT3 \<equiv> 3 :: nat"
abbreviation (input) "ISC30 \<equiv> 6 :: nat"
abbreviation (input) "ISC31 \<equiv> 7 :: nat"

record time =
  year :: u8
  month :: u8
  day :: u8
  hour :: u8
  minute :: u8
  second :: u8

record 'b rtc =
  rtc_state :: u8
  tx_buffer :: "u8 list"
  rx_buffer :: "u8 list"
  bus :: 'b

type_synonym 'b wr_fun = "u8 \<Rightarrow> u8 list \<Rightarrow> u8 \<Rightarrow> u8 \<Rightarrow> 'b \<Rightarrow> (u8 \<times> 'b) outcome"
type_synonym 'b rd_fun = "u8 \<Rightarrow> u8 list \<Rightarrow> u8 \<Rightarrow> 'b \<Rightarrow> (u8 \<times> u8 list \<times> 'b) outcome"

subsection \<open>Conversions\<close>

definition mktime :: "u8 \<Rightarrow> u8 \<Rightarrow> u8 \<Rightarrow> u8 \<Rightarrow> u8 \<Rightarrow> u8 \<Rightarrow> time" where
  "mktime y mo d h mi s =
     \<lparr>year = y, month = mo, day = d, hour = h, minute = mi, second = s\<rparr>"

definition dec2bcd :: "u8 \<Rightarrow> u8" where
  "dec2bcd val = (val div 10 * 16) + (val mod 10)"

definition bcd2dec :: "u8 \<Rightarrow> u8" where
  "bcd2dec val = (val div 16 * 10) + (val mod 16)"

subsection \<open>Register access\<close>

definition tx_put :: "u8 list \<Rightarrow> 'b rtc \<Rightarrow> 'b rtc" where
  "tx_put bs s = s\<lparr>tx_buffer := bs @ drop (length bs) (tx_buffer s)\<rparr>"

text \<open>\<^verbatim>\<open>rtc_state = twi_writeTo(RTC_DEVICE_ADDRESS, tx_buffer, n, wait)\<close>\<close>

definition send :: "'b wr_fun \<Rightarrow> u8 \<Rightarrow> u8 \<Rightarrow> 'b rtc \<Rightarrow> 'b rtc outcome" where
  "send wr n wait s =
     and_then (wr RTC_DEVICE_ADDRESS (tx_buffer s) n wait (bus s)) (\<lambda>(st, b).
       Returns (s\<lparr>rtc_state := st, bus := b\<rparr>))"

definition read_address :: "'b wr_fun \<Rightarrow> 'b rd_fun \<Rightarrow> u8 \<Rightarrow> 'b rtc \<Rightarrow> (u8 \<times> 'b rtc) outcome" where
  "read_address wr rd address s =
     and_then (send wr 1 1 (tx_put [address] s)) (\<lambda>s1.
       if rtc_state s1 \<noteq> 0 then Returns (0, s1)
       else and_then (rd RTC_DEVICE_ADDRESS (rx_buffer s1) 1 (bus s1)) (\<lambda>(message_length, rx, b).
         let s2 = s1\<lparr>rx_buffer := rx, bus := b\<rparr>
         in if message_length = 0 then Returns (0, s2) else Returns (rx ! 0, s2)))"

definition write_address :: "'b wr_fun \<Rightarrow> u8 \<Rightarrow> u8 \<Rightarrow> 'b rtc \<Rightarrow> (u8 \<times> 'b rtc) outcome" where
  "write_address wr address data s =
     and_then (send wr 2 0 (tx_put [address, data] s)) (\<lambda>s1. Returns (rtc_state s1, s1))"

subsection \<open>Operations\<close>

text \<open>
  \<^verbatim>\<open>EICRA &= ~(1<<ISC30)|~(1<<ISC31)\<close> is computed in 16-bit \<^verbatim>\<open>int\<close> and cut to the register.
\<close>

definition RTC_Init :: "twi \<Rightarrow> twi" where
  "RTC_Init s =
     (let s1 = twi_init s;
          s2 = s1\<lparr>DDRD := DDRD s1 AND NOT (push_bit 3 1)\<rparr>;
          s3 = s2\<lparr>PORTD := PORTD s2 OR push_bit 3 1\<rparr>;
          s4 = s3\<lparr>EICRA := EICRA s3 AND
                 ucast (NOT (push_bit ISC30 1) OR NOT (push_bit ISC31 1) :: u16)\<rparr>
      in s4\<lparr>EIMSK := EIMSK s4 OR push_bit INT3 1\<rparr>)"

definition get_time :: "'b wr_fun \<Rightarrow> 'b rd_fun \<Rightarrow> 'b rtc \<Rightarrow> (time \<times> 'b rtc) outcome" where
  "get_time wr rd s0 =
     and_then (read_address wr rd 0x00 s0) (\<lambda>(b0, s1).
     let seconds = bcd2dec (b0 AND 0x7f) in
     and_then (read_address wr rd 0x01 s1) (\<lambda>(b1, s2).
     let minutes = bcd2dec (b1 AND 0x7f) in
     and_then (read_address wr rd 0x02 s2) (\<lambda>(b2, s3).
     let hour = bcd2dec (b2 AND 0x3f) in
     and_then (read_address wr rd 0x04 s3) (\<lambda>(b4, s4).
     let day = bcd2dec (b4 AND 0x3f) in
     and_then (read_address wr rd 0x05 s4) (\<lambda>(b5, s5).
     let month = bcd2dec (b5 AND 0x1f) in
     and_then (read_address wr rd 0x06 s5) (\<lambda>(b6, s6).
     let year = bcd2dec b6 in
     Returns (mktime year month day hour minutes seconds, s6)))))))"

definition set_time :: "'b wr_fun \<Rightarrow> time \<Rightarrow> 'b rtc \<Rightarrow> 'b rtc outcome" where
  "set_time wr t s =
     (let seconds = dec2bcd (second t AND 0x7f);
          minutes = dec2bcd (minute t AND 0x7f);
          hour = dec2bcd (hour t AND 0x3f);
          day = dec2bcd (day t AND 0x3f);
          month = dec2bcd (month t AND 0x1f);
          year = dec2bcd (year t)
      in and_then (send wr 4 0 (tx_put [0x00, seconds + 0x80, minutes, hour] s)) (\<lambda>s1.
           send wr 4 0 (tx_put [0x04, day, month, year] s1)))"

definition clear_alarm0 :: "'b wr_fun \<Rightarrow> 'b rtc \<Rightarrow> 'b rtc outcome" where
  "clear_alarm0 wr s =
     and_then (send wr 2 0 (tx_put [0x0D, 0] s)) (\<lambda>s1.
       send wr 2 0 (tx_put [0x07, push_bit RTC_OUT 1] s1))"

definition set_alarm0 :: "'b wr_fun \<Rightarrow> 'b rd_fun \<Rightarrow> time \<Rightarrow> 'b rtc \<Rightarrow> 'b rtc outcome" where
  "set_alarm0 wr rd t s =
     (let seconds = dec2bcd (second t AND 0x7f);
          minutes = dec2bcd (minute t AND 0x7f);
          hour = dec2bcd (hour t AND 0x3f);
          day = dec2bcd (day t AND 0x3f);
          month = dec2bcd (month t AND 0x1f);
          year = dec2bcd (year t)
      in and_then (read_address wr rd 0x03 s) (\<lambda>(v, s1).
           let dow = v AND 0x07 in
           and_then (send wr 8 0 (tx_put [0x0A, seconds, minutes, hour,
               push_bit ALM0C2 1 OR push_bit ALM0C1 1 OR push_bit ALM0C0 1 OR dow,
               day, month, year] s1)) (\<lambda>s2.
             send wr 2 0 (tx_put [0x07, push_bit RTC_ALM0 1] s2))))"

definition reset_rtc :: "'b wr_fun \<Rightarrow> 'b rtc \<Rightarrow> 'b rtc outcome" where
  "reset_rtc wr s =
     and_then (write_address wr 0x03 RTC_VBATEN s) (\<lambda>(_, s1).
       and_then (write_address wr 0x00 RTC_ST s1) (\<lambda>(_, s2). Returns s2))"

subsection \<open>Decimal and BCD\<close>

lemma unat_dec2bcd: "unat v < 100 \<Longrightarrow> unat (dec2bcd v) = unat v div 10 * 16 + unat v mod 10"
proof -
  assume v: "unat v < 100"
  have "unat v div 10 * 16 + unat v mod 10 < 256"
    using v by (simp add: less_mult_imp_div_less)
  then show ?thesis
    by (simp add: dec2bcd_def unat_word_ariths unat_div unat_mod)
qed

lemma unat_bcd2dec:
  "unat w div 16 * 10 + unat w mod 16 < 256 \<Longrightarrow> unat (bcd2dec w) = unat w div 16 * 10 + unat w mod 16"
  by (simp add: bcd2dec_def unat_word_ariths unat_div unat_mod)

lemma bcd2dec_dec2bcd:
  assumes "unat v < 100"
  shows "bcd2dec (dec2bcd v) = v"
proof -
  have "unat (bcd2dec (dec2bcd v)) = unat v"
    by (subst unat_bcd2dec) (use assms in \<open>simp_all add: unat_dec2bcd\<close>)
  then show ?thesis by (simp add: word_unat_eq_iff)
qed

subsection \<open>Driving a register-file device\<close>

text \<open>The clock time that a register content stands for, as \<^verbatim>\<open>get_time\<close> reads it.\<close>

definition decode_regs :: "(u8 \<Rightarrow> u8) \<Rightarrow> time" where
  "decode_regs m = mktime (bcd2dec (m 6)) (bcd2dec (m 5 AND 0x1f)) (bcd2dec (m 4 AND 0x3f))
     (bcd2dec (m 2 AND 0x3f)) (bcd2dec (m 1 AND 0x7f)) (bcd2dec (m 0 AND 0x7f))"

text \<open>The registers after \<^verbatim>\<open>set_time\<close>.\<close>

definition encode_regs :: "time \<Rightarrow> (u8 \<Rightarrow> u8) \<Rightarrow> (u8 \<Rightarrow> u8)" where
  "encode_regs t m = m(0 := dec2bcd (second t AND 0x7f) + 0x80, 1 := dec2bcd (minute t AND 0x7f),
     2 := dec2bcd (hour t AND 0x3f), 4 := dec2bcd (day t AND 0x3f),
     5 := dec2bcd (month t AND 0x1f), 6 := dec2bcd (year t))"

definition valid_time :: "time \<Rightarrow> bool" where
  "valid_time t \<longleftrightarrow> second t < 60 \<and> minute t < 60 \<and> hour t < 24 \<and> day t \<le> 31 \<and>
     month t \<le> 12 \<and> year t < 100"

lemma and_mask_small:
  "unat w < 32 \<Longrightarrow> w AND 0x1F = w" "unat w < 64 \<Longrightarrow> w AND 0x3F = w"
  "unat w < 128 \<Longrightarrow> w AND 0x7F = w" for w :: u8
  by (simp_all add: word_unat_eq_iff unat_and_u8)

lemma bcd_bound: "n < 10 * k \<Longrightarrow> n div 10 * 16 + n mod 10 < 16 * (k :: nat)"
  for n :: nat
proof -
  assume "n < 10 * k"
  then have "n div 10 < k" by (simp add: div_less_iff_less_mult)
  then have "n div 10 * 16 + 16 \<le> 16 * k" by arith
  moreover have "n mod 10 < 16" by (rule less_trans [of _ 10]) simp_all
  ultimately show ?thesis by arith
qed

lemma bcd_field:
  assumes "unat v < 60"
  shows "bcd2dec ((dec2bcd v + 0x80) AND 0x7F) = v"
proof -
  have "unat v div 10 * 16 + unat v mod 10 < 128"
    using bcd_bound [of "unat v" 8] assms by simp
  then have "unat (dec2bcd v) < 128" using assms by (simp add: unat_dec2bcd)
  then have "(dec2bcd v + 0x80) AND 0x7F = dec2bcd v"
    by (simp add: word_unat_eq_iff unat_and_u8 unat_word_ariths mod_simps)
  then show ?thesis using assms by (simp add: bcd2dec_dec2bcd)
qed

lemma decode_encode:
  assumes "valid_time t"
  shows "decode_regs (encode_regs t m) = t"
proof -
  have lim: "unat (second t) < 60" "unat (minute t) < 60" "unat (hour t) < 24" "unat (day t) < 32"
    "unat (month t) < 13" "unat (year t) < 100"
    using assms by (simp_all add: valid_time_def word_less_nat_alt word_le_nat_alt)
  have b: "unat (minute t) div 10 * 16 + unat (minute t) mod 10 < 128"
    "unat (hour t) div 10 * 16 + unat (hour t) mod 10 < 64"
    "unat (day t) div 10 * 16 + unat (day t) mod 10 < 64"
    "unat (month t) div 10 * 16 + unat (month t) mod 10 < 32"
    using bcd_bound [of "unat (minute t)" 8] bcd_bound [of "unat (hour t)" 4]
      bcd_bound [of "unat (day t)" 4] bcd_bound [of "unat (month t)" 2] lim by simp_all
  have m: "second t AND 0x7F = second t" "minute t AND 0x7F = minute t" "hour t AND 0x3F = hour t"
    "day t AND 0x3F = day t" "month t AND 0x1F = month t"
    using lim by (simp_all add: and_mask_small)
  have "dec2bcd (minute t) AND 0x7F = dec2bcd (minute t)"
    "dec2bcd (hour t) AND 0x3F = dec2bcd (hour t)" "dec2bcd (day t) AND 0x3F = dec2bcd (day t)"
    "dec2bcd (month t) AND 0x1F = dec2bcd (month t)"
    using lim b by (simp_all add: and_mask_small unat_dec2bcd)
  then show ?thesis
    using lim by (simp add: decode_regs_def encode_regs_def mktime_def m bcd_field bcd2dec_dec2bcd)
qed

definition rtc_ok :: "('b \<Rightarrow> bool) \<Rightarrow> 'b rtc \<Rightarrow> bool" where
  "rtc_ok ok s \<longleftrightarrow> length (tx_buffer s) = 8 \<and> length (rx_buffer s) = 8 \<and> ok (bus s)"

locale rtc_client = reg_bus wr rd RTC_DEVICE_ADDRESS regs ptr ok
  for wr :: "'b wr_fun" and rd :: "'b rd_fun"
    and regs :: "'b \<Rightarrow> u8 \<Rightarrow> u8" and ptr :: "'b \<Rightarrow> u8" and ok :: "'b \<Rightarrow> bool"
begin

lemma send_regs:
  assumes "rtc_ok ok s" and "unat n = length (a # vs)" and "length (a # vs) \<le> 8"
  obtains s' where "send wr n w (tx_put (a # vs) s) = Returns s'" and "rtc_ok ok s'"
    and "rtc_state s' = 0" and "regs (bus s') = poke (regs (bus s)) a vs"
    and "ptr (bus s') = a + of_nat (length vs)"
proof -
  let ?s1 = "tx_put (a # vs) s"
  have len: "length (tx_buffer ?s1) = 8" and tk: "take (unat n) (tx_buffer ?s1) = a # vs"
    using assms by (auto simp: tx_put_def rtc_ok_def)
  have b: "bus ?s1 = bus s" "rx_buffer ?s1 = rx_buffer s" by (simp_all add: tx_put_def)
  obtain b' where "wr RTC_DEVICE_ADDRESS (tx_buffer ?s1) n w (bus s) = Returns (0, b')" "ok b'"
    "regs b' = poke (regs (bus s)) a vs" "ptr b' = a + of_nat (length vs)"
    using wr_regs [of "bus s" n "tx_buffer ?s1" a vs w] assms len tk by (auto simp: rtc_ok_def)
  then show thesis
    using assms(1) len
    by (intro that [of "?s1\<lparr>rtc_state := 0, bus := b'\<rparr>"]) (auto simp: send_def b rtc_ok_def)
qed

lemma read_address_reg:
  assumes "rtc_ok ok s"
  obtains s' where "read_address wr rd a s = Returns (regs (bus s) a, s')" and "rtc_ok ok s'"
    and "regs (bus s') = regs (bus s)"
proof -
  obtain s1 where s1: "send wr 1 1 (tx_put [a] s) = Returns s1" "rtc_ok ok s1" "rtc_state s1 = 0"
    "regs (bus s1) = poke (regs (bus s)) a []" "ptr (bus s1) = a + of_nat (length ([] :: u8 list))"
    by (rule send_regs [OF assms, of 1 a "[]" 1]) auto
  have ne: "rx_buffer s1 \<noteq> []" using s1(2) by (auto simp: rtc_ok_def)
  obtain b' where "rd RTC_DEVICE_ADDRESS (rx_buffer s1) 1 (bus s1) =
      Returns (1, (rx_buffer s1)[0 := regs (bus s1) (ptr (bus s1))], b')" "ok b'"
    "regs b' = regs (bus s1)"
    using rd_regs [of "bus s1" "rx_buffer s1"] s1(2) ne by (auto simp: rtc_ok_def)
  then show thesis
    using s1 ne
    by (intro that [of "s1\<lparr>rx_buffer := (rx_buffer s1)[0 := regs (bus s1) (ptr (bus s1))], bus := b'\<rparr>"])
      (auto simp: read_address_def Let_def rtc_ok_def)
qed

lemma get_time_regs:
  assumes "rtc_ok ok s"
  obtains s' where "get_time wr rd s = Returns (decode_regs (regs (bus s)), s')" and "rtc_ok ok s'"
    and "regs (bus s') = regs (bus s)"
proof -
  obtain s1 where 1: "read_address wr rd 0 s = Returns (regs (bus s) 0, s1)" "rtc_ok ok s1"
    "regs (bus s1) = regs (bus s)" by (rule read_address_reg [OF assms])
  obtain s2 where 2: "read_address wr rd 1 s1 = Returns (regs (bus s1) 1, s2)" "rtc_ok ok s2"
    "regs (bus s2) = regs (bus s1)" by (rule read_address_reg [OF 1(2)])
  obtain s3 where 3: "read_address wr rd 2 s2 = Returns (regs (bus s2) 2, s3)" "rtc_ok ok s3"
    "regs (bus s3) = regs (bus s2)" by (rule read_address_reg [OF 2(2)])
  obtain s4 where 4: "read_address wr rd 4 s3 = Returns (regs (bus s3) 4, s4)" "rtc_ok ok s4"
    "regs (bus s4) = regs (bus s3)" by (rule read_address_reg [OF 3(2)])
  obtain s5 where 5: "read_address wr rd 5 s4 = Returns (regs (bus s4) 5, s5)" "rtc_ok ok s5"
    "regs (bus s5) = regs (bus s4)" by (rule read_address_reg [OF 4(2)])
  obtain s6 where 6: "read_address wr rd 6 s5 = Returns (regs (bus s5) 6, s6)" "rtc_ok ok s6"
    "regs (bus s6) = regs (bus s5)" by (rule read_address_reg [OF 5(2)])
  show thesis
    by (rule that [of s6]) (simp_all add: get_time_def decode_regs_def Let_def 1 2 3 4 5 6)
qed

lemma set_time_regs:
  assumes "rtc_ok ok s"
  obtains s' where "set_time wr t s = Returns s'" and "rtc_ok ok s'"
    and "regs (bus s') = encode_regs t (regs (bus s))"
proof -
  let ?a = "[dec2bcd (second t AND 0x7f) + 0x80, dec2bcd (minute t AND 0x7f), dec2bcd (hour t AND 0x3f)]"
  let ?b = "[dec2bcd (day t AND 0x3f), dec2bcd (month t AND 0x1f), dec2bcd (year t)]"
  obtain s1 where 1: "send wr 4 0 (tx_put (0 # ?a) s) = Returns s1" "rtc_ok ok s1"
    "regs (bus s1) = poke (regs (bus s)) 0 ?a"
    by (rule send_regs [OF assms, of 4 0 ?a 0]) auto
  obtain s2 where 2: "send wr 4 0 (tx_put (4 # ?b) s1) = Returns s2" "rtc_ok ok s2"
    "regs (bus s2) = poke (regs (bus s1)) 4 ?b"
    by (rule send_regs [OF 1(2), of 4 4 ?b 0]) auto
  show thesis
    by (rule that [of s2]) (simp_all add: set_time_def Let_def 1 2 encode_regs_def)
qed

lemma set_then_get:
  assumes "rtc_ok ok s" and "valid_time t"
  obtains s1 s2 where "set_time wr t s = Returns s1" and "get_time wr rd s1 = Returns (t, s2)"
proof -
  obtain s1 where 1: "set_time wr t s = Returns s1" "rtc_ok ok s1"
    "regs (bus s1) = encode_regs t (regs (bus s))" by (rule set_time_regs [OF assms(1)])
  obtain s2 where "get_time wr rd s1 = Returns (decode_regs (regs (bus s1)), s2)"
    by (rule get_time_regs [OF 1(2)])
  then show thesis using that [of s1 s2] 1 assms(2) by (simp add: decode_encode)
qed

lemma clear_alarm0_regs:
  assumes "rtc_ok ok s"
  obtains s' where "clear_alarm0 wr s = Returns s'" and "rtc_ok ok s'"
    and "regs (bus s') = (regs (bus s))(0x0D := 0, 0x07 := 0x80)"
proof -
  obtain s1 where 1: "send wr 2 0 (tx_put [0x0D, 0] s) = Returns s1" "rtc_ok ok s1"
    "regs (bus s1) = poke (regs (bus s)) 0x0D [0]"
    by (rule send_regs [OF assms, of 2 "0x0D" "[0]" 0]) auto
  obtain s2 where 2: "send wr 2 0 (tx_put [0x07, 0x80] s1) = Returns s2" "rtc_ok ok s2"
    "regs (bus s2) = poke (regs (bus s1)) 0x07 [0x80]"
    by (rule send_regs [OF 1(2), of 2 "0x07" "[0x80]" 0]) auto
  show thesis by (rule that [of s2]) (simp_all add: clear_alarm0_def 1 2)
qed

lemma reset_rtc_regs:
  assumes "rtc_ok ok s"
  obtains s' where "reset_rtc wr s = Returns s'" and "rtc_ok ok s'"
    and "regs (bus s') = (regs (bus s))(0x03 := 0x08, 0x00 := 0x80)"
proof -
  obtain s1 where 1: "send wr 2 0 (tx_put [0x03, 0x08] s) = Returns s1" "rtc_ok ok s1"
    "regs (bus s1) = poke (regs (bus s)) 0x03 [0x08]"
    by (rule send_regs [OF assms, of 2 "0x03" "[0x08]" 0]) auto
  obtain s2 where 2: "send wr 2 0 (tx_put [0x00, 0x80] s1) = Returns s2" "rtc_ok ok s2"
    "regs (bus s2) = poke (regs (bus s1)) 0x00 [0x80]"
    by (rule send_regs [OF 1(2), of 2 "0x00" "[0x80]" 0]) auto
  show thesis by (rule that [of s2]) (simp_all add: reset_rtc_def write_address_def 1 2)
qed

lemma set_alarm0_regs:
  assumes "rtc_ok ok s"
  obtains s' where "set_alarm0 wr rd t s = Returns s'" and "rtc_ok ok s'"
    and "regs (bus s') = (poke (regs (bus s)) 0x0A
      [dec2bcd (second t AND 0x7f), dec2bcd (minute t AND 0x7f), dec2bcd (hour t AND 0x3f),
       0x70 OR (regs (bus s) 3 AND 7), dec2bcd (day t AND 0x3f), dec2bcd (month t AND 0x1f),
       dec2bcd (year t)])(0x07 := 0x10)"
proof -
  obtain s0 where 0: "read_address wr rd 3 s = Returns (regs (bus s) 3, s0)" "rtc_ok ok s0"
    "regs (bus s0) = regs (bus s)" by (rule read_address_reg [OF assms])
  let ?v = "[dec2bcd (second t AND 0x7f), dec2bcd (minute t AND 0x7f), dec2bcd (hour t AND 0x3f),
       0x70 OR (regs (bus s) 3 AND 7), dec2bcd (day t AND 0x3f), dec2bcd (month t AND 0x1f),
       dec2bcd (year t)]"
  obtain s1 where 1: "send wr 8 0 (tx_put (0x0A # ?v) s0) = Returns s1" "rtc_ok ok s1"
    "regs (bus s1) = poke (regs (bus s0)) 0x0A ?v"
    by (rule send_regs [OF 0(2), of 8 "0x0A" ?v 0]) auto
  obtain s2 where 2: "send wr 2 0 (tx_put [0x07, 0x10] s1) = Returns s2" "rtc_ok ok s2"
    "regs (bus s2) = poke (regs (bus s1)) 0x07 [0x10]"
    by (rule send_regs [OF 1(2), of 2 "0x07" "[0x10]" 0]) auto
  have mask: "64 OR (32 OR (16 OR x)) = 0x70 OR x" for x :: u8
    by (simp add: or.assoc [symmetric])
  show thesis by (rule that [of s2]) (simp_all add: set_alarm0_def Let_def mask 0 1 2)
qed

end

end
