(* ===== verification/Commands.thy ===== *)
theory Commands
  imports Stdio Led Rtc
begin
unbundle bit_operations_syntax

text \<open>
  The commands of \<^verbatim>\<open>commands.c\<close>: the firmware's global state, the EEPROM variables, one
  definition per command and the table of \<^verbatim>\<open>commands.h\<close>. The two bus functions of the clock
  are arguments, as in the clock driver.
\<close>

subsection \<open>Stored passes\<close>

record ipass =
  time :: u32
  duration :: u16

abbreviation (input) "MAXPASS \<equiv> 10 :: nat"

text \<open>The six bytes of a pass in memory, little endian and packed on the 8-bit target.\<close>

definition ipass_bytes :: "ipass \<Rightarrow> u8 list" where
  "ipass_bytes p = map (\<lambda>k. ucast (drop_bit (8 * k) (time p))) [0, 1, 2, 3] @
     [lo8 (duration p), hi8 (duration p)]"

definition ipass_of :: "u8 list \<Rightarrow> ipass" where
  "ipass_of bs =
     \<lparr>time = ucast (bs ! 0) OR push_bit 8 (ucast (bs ! 1)) OR push_bit 16 (ucast (bs ! 2)) OR
        push_bit 24 (ucast (bs ! 3)),
      duration = le16 (bs ! 4) (bs ! 5)\<rparr>"

fun passes_of :: "u8 list \<Rightarrow> ipass list" where
  "passes_of (a # b # c # d # e # f # bs) = ipass_of [a, b, c, d, e, f] # passes_of bs"
| "passes_of _ = []"

subsection \<open>The firmware's state\<close>

record 'b fw =
  usb_in :: istream
  usb_out :: string
  show_lights :: "light list"      \<comment> \<open>\<^verbatim>\<open>show[8][3]\<close>\<close>
  leds :: led_hw
  do_rainbow :: bool
  previousMillis :: u32
  bow_rotate :: u8
  ms :: u32
  reset_alarm :: u8
  alarm :: u8
  pass :: u8
  fw_clock :: "'b rtc"
  NonVolatileColor :: u16
  NonVolatile_Blue_WB :: u8
  NonVolatile_Green_WB :: u8
  NonVolatile_Red_WB :: u8
  NumOfStoredISSPasses :: u8
  StoredISSPasses :: "u8 list"     \<comment> \<open>the bytes of \<^verbatim>\<open>ipass[MAXPASS]\<close>\<close>

definition millis :: "'b fw \<Rightarrow> u32" where
  "millis s = ms s"

definition puts :: "string \<Rightarrow> 'b fw \<Rightarrow> 'b fw" where
  "puts t s = s\<lparr>usb_out := usb_out s @ t\<rparr>"

definition scanf :: "string \<Rightarrow> 'b fw \<Rightarrow> int \<times> u32 list \<times> 'b fw" where
  "scanf fmt s = (case fscanf fmt (usb_in s) of (n, vs, i) \<Rightarrow> (n, vs, s\<lparr>usb_in := i\<rparr>))"

definition fill_show :: "u16 \<Rightarrow> u16 \<Rightarrow> u16 \<Rightarrow> 'b fw \<Rightarrow> 'b fw" where
  "fill_show b g r s =
     s\<lparr>show_lights := fold (\<lambda>i sh. sh[i := (b, g, r)]) [0..<8] (show_lights s)\<rparr>"

definition show_leds :: "'b fw \<Rightarrow> 'b fw" where
  "show_leds s = s\<lparr>leds := led (show_lights s) (leds s)\<rparr>"

subsection \<open>The commands\<close>

definition ack :: "'b fw \<Rightarrow> 'b fw outcome" where
  "ack s = Returns (puts ''ack'' s)"

definition say_ms :: "'b fw \<Rightarrow> 'b fw outcome" where
  "say_ms s = Returns (puts (put_u (unat (millis s))) s)"

definition set_color :: "'b fw \<Rightarrow> 'b fw outcome" where
  "set_color s =
     (case scanf ''%d'' s of (n, vs, s1) \<Rightarrow>
        if n = 1 then Returns (puts ''set'' (s1\<lparr>NonVolatileColor := as_u16 (vs ! 0)\<rparr>))
        else Returns (puts ''err'' s1))"

definition timestamp :: "time \<Rightarrow> string" where
  "timestamp t = ''Y'' @ put_02d (uint (year t)) @ ''M'' @ put_02d (uint (month t)) @
     ''D'' @ put_02d (uint (day t)) @ ''H'' @ put_02d (uint (hour t)) @
     ''M'' @ put_02d (uint (minute t)) @ ''S'' @ put_02d (uint (second t))"

definition say_time :: "'b wr_fun \<Rightarrow> 'b rd_fun \<Rightarrow> 'b fw \<Rightarrow> 'b fw outcome" where
  "say_time wr rd s =
     and_then (get_time wr rd (fw_clock s)) (\<lambda>(now, c).
       Returns (puts (timestamp now) (s\<lparr>fw_clock := c\<rparr>)))"

text \<open>
  The loop of \<^verbatim>\<open>set_passes\<close>: the counter is a \<^verbatim>\<open>uint8_t\<close>, the limit an \<^verbatim>\<open>int\<close>, and the array
  has \<open>MAXPASS\<close> entries.
\<close>

partial_function (option) passes_loop ::
    "int \<Rightarrow> u8 \<Rightarrow> ipass list \<Rightarrow> istream \<Rightarrow> (ipass list \<times> istream) outcome" where
  "passes_loop num i block inp =
     (if uint i < num then
        (case fscanf ''%lu,%u,'' inp of (n, vs, inp1) \<Rightarrow>
           if n = 2 then
             if unat i < length block then
               passes_loop num (i + 1)
                 (block[unat i := \<lparr>time = vs ! 0, duration = as_u16 (vs ! 1)\<rparr>]) inp1
             else Faults OutOfBounds
           else passes_loop num (i + 1) block inp1)
      else Returns (block, inp))"

text \<open>\<open>stack\<close> is what the uninitialised array holds.\<close>

definition set_passes :: "ipass list \<Rightarrow> 'b fw \<Rightarrow> 'b fw outcome" where
  "set_passes stack s =
     (case scanf ''%d\<newline>'' s of (n, vs, s1) \<Rightarrow>
        if n = 1 then
          let num = as_int (vs ! 0) in
          and_then (passes_loop num 0 stack (usb_in s1)) (\<lambda>(block, i).
          and_then (copy_array (concat (map ipass_bytes block)) (nat ((6 * num) mod 65536))
              (StoredISSPasses s1)) (\<lambda>ee.
          Returns (puts ''set'' (s1\<lparr>usb_in := i, StoredISSPasses := ee,
             NumOfStoredISSPasses := of_int num\<rparr>))))
        else Returns (puts ''err'' s1))"

definition dump_pass :: "nat \<Rightarrow> ipass \<Rightarrow> string" where
  "dump_pass i p = ''0x'' @ put_02d (int (i + 2)) @ '' - pass: '' @ put_u (unat (time p)) @ '':'' @
     put_u (unat (duration p)) @ ''|''"

text \<open>The block that is dumped, an uninitialised array overwritten with the stored bytes.\<close>

definition dump_mem :: "ipass list \<Rightarrow> 'b fw \<Rightarrow> 'b fw outcome" where
  "dump_mem stack s =
     (let color = NonVolatileColor s;
          npass = NumOfStoredISSPasses s;
          npass = (if 10 < npass then 10 else npass);
          s1 = puts (''0x00 - color: '' @ put_d (sint color) @ ''|'') s;
          s2 = puts (''0x01 - npasses: '' @ put_d (uint npass) @ ''|'') s1
      in and_then (copy_array (StoredISSPasses s) (6 * unat npass) (concat (map ipass_bytes stack)))
           (\<lambda>bytes. Returns (fold (\<lambda>i. puts (dump_pass i (passes_of bytes ! i))) [0..<unat npass] s2)))"

definition set_clock :: "'b wr_fun \<Rightarrow> 'b fw \<Rightarrow> 'b fw outcome" where
  "set_clock wr s =
     and_then (reset_rtc wr (fw_clock s)) (\<lambda>c.
     let s1 = s\<lparr>fw_clock := c\<rparr> in
     (case scanf ''Y%dM%dD%dH%dM%dS%d'' s1 of (n, vs, s2) \<Rightarrow>
        if n = 6 then
          let t = mktime (ucast (vs ! 0)) (ucast (vs ! 1)) (ucast (vs ! 2)) (ucast (vs ! 3))
                    (ucast (vs ! 4)) (ucast (vs ! 5))
          in and_then (set_time wr t (fw_clock s2)) (\<lambda>c2.
               Returns (puts ''set'' (s2\<lparr>fw_clock := c2\<rparr>)))
        else Returns (puts ''err'' s2)))"

definition wb_red :: "'b fw \<Rightarrow> 'b fw outcome" where
  "wb_red s =
     (case scanf ''%d'' s of (n, vs, s1) \<Rightarrow>
        if n = 1 then
          let s2 = fill_show 0xffff 0xffff 0xffff s1;
              s3 = s2\<lparr>leds := (leds s2)\<lparr>TLC_Red_WB := ucast (vs ! 0)\<rparr>\<rparr>
          in Returns (puts ''set'' (show_leds s3))
        else Returns (puts ''err'' s1))"

definition wb_green :: "'b fw \<Rightarrow> 'b fw outcome" where
  "wb_green s =
     (case scanf ''%d'' s of (n, vs, s1) \<Rightarrow>
        if n = 1 then
          let s2 = fill_show 0xffff 0xffff 0xffff s1;
              s3 = s2\<lparr>leds := (leds s2)\<lparr>TLC_Green_WB := ucast (vs ! 0)\<rparr>\<rparr>
          in Returns (puts ''set'' (show_leds s3))
        else Returns (puts ''err'' s1))"

definition wb_blue :: "'b fw \<Rightarrow> 'b fw outcome" where
  "wb_blue s =
     (case scanf ''%d'' s of (n, vs, s1) \<Rightarrow>
        if n = 1 then
          let s2 = fill_show 0xffff 0xffff 0xffff s1;
              s3 = s2\<lparr>leds := (leds s2)\<lparr>TLC_Blue_WB := ucast (vs ! 0)\<rparr>\<rparr>
          in Returns (puts ''set'' (show_leds s3))
        else Returns (puts ''err'' s1))"

definition set_wb :: "'b fw \<Rightarrow> 'b fw outcome" where
  "set_wb s =
     (case scanf ''%d,%d,%d'' s of (n, vs, s1) \<Rightarrow>
        if n = 3 then
          let b = ucast (vs ! 0); g = ucast (vs ! 1); r = ucast (vs ! 2);
              s2 = fill_show 0 0 0 s1;
              s3 = s2\<lparr>leds := (leds s2)\<lparr>TLC_Blue_WB := b, TLC_Green_WB := g, TLC_Red_WB := r\<rparr>\<rparr>;
              s4 = s3\<lparr>NonVolatile_Blue_WB := b, NonVolatile_Green_WB := g, NonVolatile_Red_WB := r\<rparr>
          in Returns (puts ''set'' (show_leds s4))
        else Returns (puts ''err'' s1))"

definition show_color :: "'b fw \<Rightarrow> 'b fw outcome" where
  "show_color s =
     (case scanf ''%d,%d,%d'' s of (n, vs, s1) \<Rightarrow>
        if n = 3 then
          Returns (show_leds (fill_show (as_u16 (vs ! 0)) (as_u16 (vs ! 1)) (as_u16 (vs ! 2)) s1))
        else Returns (puts ''err'' s1))"

definition toggle_rainbow :: "'b fw \<Rightarrow> 'b fw outcome" where
  "toggle_rainbow s =
     (if do_rainbow s then
        Returns (show_leds (fill_show 0 0 0 (s\<lparr>do_rainbow := False\<rparr>)))
      else Returns (s\<lparr>do_rainbow := True\<rparr>))"

subsection \<open>The command table\<close>

datatype resp = R_ack | R_say_ms | R_set_color | R_say_time | R_set_passes | R_dump_mem
  | R_set_clock | R_wb_red | R_wb_green | R_wb_blue | R_set_wb | R_show_color | R_toggle_rainbow

definition COMMANDS :: "(char \<times> resp) list" where
  "COMMANDS = [(CHR ''a'', R_ack), (CHR ''m'', R_say_ms), (CHR ''c'', R_set_color),
     (CHR ''t'', R_say_time), (CHR ''u'', R_set_passes), (CHR ''d'', R_dump_mem),
     (CHR ''T'', R_set_clock), (CHR ''r'', R_wb_red), (CHR ''g'', R_wb_green),
     (CHR ''b'', R_wb_blue), (CHR ''W'', R_set_wb), (CHR ''l'', R_show_color),
     (CHR ''x'', R_toggle_rainbow)]"

definition call_resp ::
    "'b wr_fun \<Rightarrow> 'b rd_fun \<Rightarrow> ipass list \<Rightarrow> resp \<Rightarrow> 'b fw \<Rightarrow> 'b fw outcome" where
  "call_resp wr rd stack r s =
     (case r of
        R_ack \<Rightarrow> ack s
      | R_say_ms \<Rightarrow> say_ms s
      | R_set_color \<Rightarrow> set_color s
      | R_say_time \<Rightarrow> say_time wr rd s
      | R_set_passes \<Rightarrow> set_passes stack s
      | R_dump_mem \<Rightarrow> dump_mem stack s
      | R_set_clock \<Rightarrow> set_clock wr s
      | R_wb_red \<Rightarrow> wb_red s
      | R_wb_green \<Rightarrow> wb_green s
      | R_wb_blue \<Rightarrow> wb_blue s
      | R_set_wb \<Rightarrow> set_wb s
      | R_show_color \<Rightarrow> show_color s
      | R_toggle_rainbow \<Rightarrow> toggle_rainbow s)"

text \<open>The search loop of \<^verbatim>\<open>main\<close>: the first entry with the character is called.\<close>

fun dispatch ::
    "'b wr_fun \<Rightarrow> 'b rd_fun \<Rightarrow> ipass list \<Rightarrow> (char \<times> resp) list \<Rightarrow> char \<Rightarrow> 'b fw \<Rightarrow> 'b fw outcome" where
  "dispatch wr rd stack [] c s = Returns s"
| "dispatch wr rd stack ((d, r) # cmds) c s =
     (if d = c then call_resp wr rd stack r s else dispatch wr rd stack cmds c s)"

end
