(* ===== verification/TwiSafe.thy ===== *)
theory TwiSafe
  imports Twi
begin
unbundle bit_operations_syntax

text \<open>
  Memory safety of the driver: under interrupts that the TWI unit can raise, no array of the
  driver is accessed past its end, whatever the other bus members do.
\<close>

subsection \<open>What the TWI unit can raise\<close>

text \<open>
  START is raised only when requested, the codes of a role only in that role,
  and a data byte is acknowledged exactly when the TWEA bit asked for it.
\<close>

definition hw_allows :: "twi \<Rightarrow> u8 \<Rightarrow> bool" where
  "hw_allows s st \<longleftrightarrow>
     (st = TW_START \<or> st = TW_REP_START \<longrightarrow> bit (TWCR s) TWSTA) \<and>
     (st = TW_MT_SLA_ACK \<or> st = TW_MT_DATA_ACK \<longrightarrow> twi_state s = TWI_MTX) \<and>
     (st = TW_MR_SLA_ACK \<or> st = TW_MR_DATA_ACK \<or> st = TW_MR_DATA_NACK \<longrightarrow> twi_state s = TWI_MRX) \<and>
     (st = TW_MR_DATA_ACK \<longrightarrow> bit (TWCR s) TWEA) \<and>
     (st = TW_MR_DATA_NACK \<longrightarrow> \<not> bit (TWCR s) TWEA) \<and>
     (st = TW_SR_DATA_ACK \<or> st = TW_SR_DATA_NACK \<or> st = TW_SR_GCALL_DATA_ACK \<or>
      st = TW_SR_GCALL_DATA_NACK \<or> st = TW_SR_STOP \<longrightarrow> twi_state s = TWI_SRX) \<and>
     (st = TW_ST_DATA_ACK \<or> st = TW_ST_DATA_NACK \<or> st = TW_ST_LAST_DATA \<longrightarrow> twi_state s = TWI_STX) \<and>
     (st = TW_ST_DATA_ACK \<longrightarrow> bit (TWCR s) TWEA)"

definition conforming :: "'b bus \<Rightarrow> bool" where
  "conforming env \<longleftrightarrow>
     (\<forall>s b ev b'. env s b = Some (ev, b') \<longrightarrow> hw_allows s (ev_status ev AND 0xF8))"

text \<open>
  The slave callbacks may do what the API offers them: the transmit callback hands bytes to
  \<^verbatim>\<open>twi_transmit\<close>, and neither touches the rest of the driver.
\<close>

definition callbacks_ok :: "callbacks \<Rightarrow> bool" where
  "callbacks_ok cb \<longleftrightarrow>
     (\<forall>f s. call_tx cb f s \<noteq> Faults OutOfBounds) \<and>
     (\<forall>f bs n s. call_rx cb f bs n s \<noteq> Faults OutOfBounds) \<and>
     (\<forall>f s s'. call_tx cb f s = Returns s' \<longrightarrow>
        (\<exists>tx n. s' = s\<lparr>twi_txBuffer := tx, twi_txBufferLength := n\<rparr> \<and>
           length tx = length (twi_txBuffer s) \<and> (n = twi_txBufferLength s \<or> n \<le> 32))) \<and>
     (\<forall>f bs n s s'. call_rx cb f bs n s = Returns s' \<longrightarrow> s' = s)"

subsection \<open>The invariant\<close>

definition twi_inv :: "twi \<Rightarrow> bool" where
  "twi_inv s \<longleftrightarrow>
     length (twi_masterBuffer s) = 32 \<and> length (twi_txBuffer s) = 32 \<and> length (twi_rxBuffer s) = 32 \<and>
     (bit (TWCR s) TWSTA \<longrightarrow> bit (TWCR s) TWEA) \<and>
     (twi_state s = TWI_MTX \<longrightarrow> twi_masterBufferLength s \<le> 32) \<and>
     (twi_state s = TWI_MRX \<longrightarrow> twi_masterBufferLength s \<le> 31 \<and> twi_masterBufferIndex s \<le> 31 \<and>
        (bit (TWCR s) TWEA \<longrightarrow> twi_masterBufferIndex s \<le> 30)) \<and>
     (twi_state s = TWI_STX \<longrightarrow> twi_txBufferLength s \<le> 32 \<and>
        (bit (TWCR s) TWEA \<longrightarrow> twi_txBufferIndex s < twi_txBufferLength s))"

definition safe :: "twi outcome \<Rightarrow> bool" where
  "safe m \<longleftrightarrow> m \<noteq> Faults OutOfBounds \<and> (\<forall>s. m = Returns s \<longrightarrow> twi_inv s)"

lemma safe_simps [simp]:
  "safe (Returns s) \<longleftrightarrow> twi_inv s" "safe (Faults e) \<longleftrightarrow> e \<noteq> OutOfBounds" "safe Hangs"
  by (auto simp: safe_def)

lemma safe_and_then:
  "safe m \<Longrightarrow> (\<And>s. m = Returns s \<Longrightarrow> twi_inv s \<Longrightarrow> safe (f s)) \<Longrightarrow> safe (and_then m f)"
  by (auto simp: safe_def and_then_Returns and_then_Faults)

lemma safe_if: "(c \<Longrightarrow> safe x) \<Longrightarrow> (\<not> c \<Longrightarrow> safe y) \<Longrightarrow> safe (if c then x else y)"
  by simp

lemma TW_STATUS_latch [simp]: "TW_STATUS (latch_event ev s) = ev_status ev AND 0xF8"
  by (simp add: TW_STATUS_def latch_event_def bit.conj_disj_distrib2 and.assoc)

lemma inv_latch [simp]: "twi_inv (latch_event ev s) \<longleftrightarrow> twi_inv s"
  by (simp add: twi_inv_def latch_event_def)

lemma hw_latch [simp]: "hw_allows (latch_event ev s) st \<longleftrightarrow> hw_allows s st"
  by (simp add: hw_allows_def latch_event_def)

lemma idx_lt_32: "i < (32 :: u8) \<Longrightarrow> unat i < 32" "i \<le> (31 :: u8) \<Longrightarrow> unat i < 32"
  by (simp_all add: word_less_nat_alt word_le_nat_alt)

lemma inc_bounds:
  "i < n \<Longrightarrow> i + 1 \<le> (n :: u8)"
  "i \<le> (30 :: u8) \<Longrightarrow> i + 1 \<le> 31"
  "i < n \<Longrightarrow> n \<le> (31 :: u8) \<Longrightarrow> i \<le> 30"
  by (unat_arith; auto)+

lemma stop_safe: "twi_inv s \<Longrightarrow> safe (twi_stop sto s)"
  by (simp add: twi_stop_def twi_inv_def Let_def bit_simps)

lemma stop_safe_error: "twi_inv s \<Longrightarrow> safe (twi_stop sto (s\<lparr>twi_error := e\<rparr>))"
  by (rule stop_safe) (simp add: twi_inv_def)

lemma release_inv: "twi_inv s \<Longrightarrow> twi_inv (twi_releaseBus s)"
  by (simp add: twi_releaseBus_def twi_inv_def)

lemma start_inv:
  "twi_inv s \<Longrightarrow> bit (TWCR s) TWSTA \<Longrightarrow> twi_inv (twi_reply 1 (s\<lparr>TWDR := d\<rparr>))"
  by (simp add: twi_inv_def twi_reply_def)

lemma mt_next_safe:
  assumes "twi_inv s" and "twi_state s = TWI_MTX"
  shows "safe (isr_mt_next sto s)"
proof (cases "twi_masterBufferIndex s < twi_masterBufferLength s")
  case True
  with assms have "twi_masterBufferIndex s < 32" by (auto simp: twi_inv_def)
  with True assms show ?thesis
    by (simp add: isr_mt_next_def twi_inv_def idx_lt_32 twi_reply_def)
qed (simp add: isr_mt_next_def stop_safe assms)

lemma mr_ack_safe:
  assumes "twi_inv s" and "twi_state s = TWI_MRX"
  shows "twi_inv (isr_mr_ack s)"
  using assms by (auto simp: isr_mr_ack_def twi_reply_def twi_inv_def inc_bounds)

lemma mr_data_ack_safe:
  assumes "twi_inv s" and "twi_state s = TWI_MRX" and "bit (TWCR s) TWEA"
  shows "safe (and_then (isr_mr_store s) (\<lambda>s1. Returns (isr_mr_ack s1)))"
proof -
  have "twi_masterBufferIndex s \<le> 30" and "twi_masterBufferIndex s \<le> 31"
    using assms by (auto simp: twi_inv_def)
  with assms show ?thesis
    by (auto simp: isr_mr_store_def isr_mr_ack_def twi_reply_def twi_inv_def idx_lt_32 inc_bounds)
qed

lemma mr_data_nack_safe:
  assumes "twi_inv s" and "twi_state s = TWI_MRX"
  shows "safe (and_then (isr_mr_store s) (twi_stop sto))"
proof -
  have "twi_masterBufferIndex s \<le> 31"
    using assms by (auto simp: twi_inv_def)
  with assms show ?thesis
    by (auto simp: isr_mr_store_def twi_stop_def twi_inv_def idx_lt_32 Let_def)
qed

lemma sr_data_safe: "twi_inv s \<Longrightarrow> twi_state s = TWI_SRX \<Longrightarrow> safe (isr_sr_data s)"
  by (auto simp: isr_sr_data_def twi_inv_def idx_lt_32 twi_reply_def)

lemma call_rx_safe:
  assumes "callbacks_ok cb" and "twi_inv s"
  shows "safe (call_onSlaveReceive cb s)"
proof (cases "twi_onSlaveReceive s")
  case (Some f)
  have nf: "call_rx cb f bs n s \<noteq> Faults OutOfBounds" for bs n
    using assms(1) by (simp add: callbacks_ok_def)
  have ret: "call_rx cb f bs n s = Returns s' \<Longrightarrow> s' = s" for bs n s'
    using assms(1) unfolding callbacks_ok_def by blast
  show ?thesis
    using Some assms(2) by (auto simp: call_onSlaveReceive_def safe_def nf dest: ret)
qed (simp add: call_onSlaveReceive_def)

lemma call_tx_cases:
  assumes "callbacks_ok cb" and "length (twi_txBuffer s) = 32" and "twi_txBufferLength s = 0"
  obtains "call_onSlaveTransmit cb s = Hangs"
    | e where "call_onSlaveTransmit cb s = Faults e" "e \<noteq> OutOfBounds"
    | tx n where "call_onSlaveTransmit cb s = Returns (s\<lparr>twi_txBuffer := tx, twi_txBufferLength := n\<rparr>)"
        and "length tx = 32" "n \<le> 32"
proof (cases "twi_onSlaveTransmit s")
  case None
  then show ?thesis using that(2) [of NullCall] by (simp add: call_onSlaveTransmit_def)
next
  case (Some f)
  have nf: "call_tx cb f s \<noteq> Faults OutOfBounds"
    using assms(1) by (simp add: callbacks_ok_def)
  have ret: "\<exists>tx n. s' = s\<lparr>twi_txBuffer := tx, twi_txBufferLength := n\<rparr> \<and>
      length tx = length (twi_txBuffer s) \<and> (n = twi_txBufferLength s \<or> n \<le> 32)"
    if "call_tx cb f s = Returns s'" for s'
    using assms(1) that unfolding callbacks_ok_def by blast
  have call: "call_onSlaveTransmit cb s = call_tx cb f s"
    using Some by (simp add: call_onSlaveTransmit_def)
  consider "call_tx cb f s = Hangs" | e where "call_tx cb f s = Faults e"
    | s' where "call_tx cb f s = Returns s'"
    by (metis not_None_eq sum.exhaust)
  then show ?thesis
  proof cases
    case 1
    with that(1) call show ?thesis by simp
  next
    case (2 e)
    with that(2) [of e] call nf show ?thesis by auto
  next
    case (3 s')
    from ret [OF 3] obtain tx n where "s' = s\<lparr>twi_txBuffer := tx, twi_txBufferLength := n\<rparr>"
      "length tx = 32" "n = 0 \<or> n \<le> 32" using assms(2,3) by auto
    with that(3) [where tx = tx and n = n] call 3 show ?thesis by auto
  qed
qed

lemma sr_stop_safe:
  assumes "twi_inv s" and "callbacks_ok cb"
  shows "safe (isr_sr_stop cb sto s)"
  unfolding isr_sr_stop_def
proof (rule safe_and_then)
  show "safe (if twi_rxBufferIndex s < TWI_BUFFER_LENGTH then
          and_then (store (twi_rxBuffer s) (unat (twi_rxBufferIndex s)) 0) (\<lambda>buf.
            Returns (s\<lparr>twi_rxBuffer := buf\<rparr>))
        else Returns s)"
    using assms(1) by (auto simp: twi_inv_def idx_lt_32)
next
  fix s1 assume "twi_inv s1"
  then show "safe (and_then (twi_stop sto s1) (\<lambda>s2. and_then (call_onSlaveReceive cb s2)
      (\<lambda>s3. Returns (twi_releaseBus (s3\<lparr>twi_rxBufferIndex := 0\<rparr>)))))"
  proof (rule safe_and_then [OF stop_safe])
    fix s2 assume "twi_inv s2"
    then have "safe (call_onSlaveReceive cb s2)"
      by (rule call_rx_safe [OF assms(2)])
    then show "safe (and_then (call_onSlaveReceive cb s2)
        (\<lambda>s3. Returns (twi_releaseBus (s3\<lparr>twi_rxBufferIndex := 0\<rparr>))))"
      by (rule safe_and_then) (simp add: twi_releaseBus_def twi_inv_def)
  qed
qed

lemma st_data_safe:
  assumes "twi_inv s" and "twi_state s = TWI_STX" and "twi_txBufferIndex s < twi_txBufferLength s"
  shows "safe (isr_st_data s)"
proof -
  have "twi_txBufferIndex s < 32" using assms by (auto simp: twi_inv_def)
  with assms show ?thesis
    by (auto simp: isr_st_data_def twi_inv_def idx_lt_32 twi_reply_def Let_def)
qed

lemma st_addressed_safe:
  assumes "twi_inv s" and "callbacks_ok cb"
  shows "safe (isr_st_addressed cb s)"
proof -
  let ?s0 = "s\<lparr>twi_state := TWI_STX, twi_txBufferIndex := 0, twi_txBufferLength := 0\<rparr>"
  have len: "length (twi_txBuffer ?s0) = 32" and zero: "twi_txBufferLength ?s0 = 0"
    using assms(1) by (simp_all add: twi_inv_def)
  from assms(2) len zero show ?thesis
  proof (cases rule: call_tx_cases)
    case (3 tx n)
    then show ?thesis
      using assms(1)
      by (auto simp: isr_st_addressed_def isr_st_data_def twi_reply_def twi_inv_def Let_def
          bit_simps)
  qed (simp_all add: isr_st_addressed_def)
qed

lemma reply0_inv: "twi_inv s \<Longrightarrow> twi_state s = TWI_SRX \<Longrightarrow> twi_inv (twi_reply 0 s)"
  by (simp add: twi_inv_def twi_reply_def)

text \<open>Every handler case keeps the invariant and accesses the arrays inside their bounds.\<close>

lemma TWI_vect_safe:
  assumes "twi_inv s" and "hw_allows s (TW_STATUS s)" and "callbacks_ok cb"
  shows "safe (TWI_vect cb sto s)"
proof -
  note hw = assms(2) [unfolded hw_allows_def]
  have stx: "twi_state s = TWI_STX \<Longrightarrow> bit (TWCR s) TWEA \<Longrightarrow> twi_txBufferIndex s < twi_txBufferLength s"
    using assms(1) by (simp add: twi_inv_def)
  show ?thesis
    unfolding TWI_vect_def Let_def
    apply (intro safe_if)
    subgoal by (rule safe_simps(1) [THEN iffD2], rule start_inv [OF assms(1)]) (use hw in blast)
    subgoal by (rule mt_next_safe [OF assms(1)]; use hw in blast)
    subgoal using assms(1) by (rule stop_safe_error)
    subgoal using assms(1) by (rule stop_safe_error)
    subgoal using assms(1) by (simp add: twi_releaseBus_def twi_inv_def)
    subgoal by (rule mr_data_ack_safe [OF assms(1)]; use hw in blast)
    subgoal by (rule safe_simps(1) [THEN iffD2], rule mr_ack_safe [OF assms(1)]) (use hw in blast)
    subgoal by (rule mr_data_nack_safe [OF assms(1)]; use hw in blast)
    subgoal using assms(1) by (rule stop_safe)
    subgoal using assms(1) by (simp add: twi_inv_def twi_reply_def)
    subgoal by (rule sr_data_safe [OF assms(1)]; use hw in blast)
    subgoal using assms(1,3) by (rule sr_stop_safe)
    subgoal by (rule safe_simps(1) [THEN iffD2], rule reply0_inv [OF assms(1)]) (use hw in blast)
    subgoal using assms(1,3) by (rule st_addressed_safe)
    subgoal by (rule st_data_safe [OF assms(1)]; use hw stx in blast)
    subgoal using assms(1) by (simp add: twi_inv_def twi_reply_def)
    subgoal using assms(1) by (rule stop_safe_error)
    subgoal using assms(1) by simp
    done
qed

subsection \<open>The waiting loops and the two entry points\<close>

lemma interrupt_safe:
  assumes "conforming env" and "callbacks_ok cb" and "twi_inv s" and "env s b = Some (ev, b')"
  shows "safe (interrupt cb ev s)"
  unfolding interrupt_def
proof (rule TWI_vect_safe)
  show "twi_inv (latch_event ev s)" using assms(3) by simp
  show "hw_allows (latch_event ev s) (TW_STATUS (latch_event ev s))"
    using assms(1,4) unfolding conforming_def by simp blast
qed (rule assms(2))

lemma wait_while_inv:
  assumes "wait_while cb env P s b = Some r" and "conforming env" and "callbacks_ok cb" and "twi_inv s"
  shows "r \<noteq> Inl OutOfBounds \<and> (\<forall>s' b'. r = Inr (s', b') \<longrightarrow> twi_inv s' \<and> \<not> P s')"
proof -
  let ?Q = "\<lambda>((((cb, env), P), s), b) r. conforming env \<longrightarrow> callbacks_ok cb \<longrightarrow> twi_inv s \<longrightarrow>
      r \<noteq> Inl OutOfBounds \<and> (\<forall>s' b'. r = Inr (s', b') \<longrightarrow> twi_inv s' \<and> \<not> P s')"
  have "?Q ((((cb, env), P), s), b) r"
  proof (rule wait_while.raw_induct [where Pa = ?Q, OF _ assms(1)])
    fix ww :: "callbacks \<Rightarrow> 'a bus \<Rightarrow> (twi \<Rightarrow> bool) \<Rightarrow> twi \<Rightarrow> 'a \<Rightarrow> (twi \<times> 'a) outcome"
      and cb env P s b r
    assume IH: "\<And>cb env P s b r. ww cb env P s b = Some r \<Longrightarrow> ?Q ((((cb, env), P), s), b) r"
      and eq: "(if \<not> P s then Returns (s, b)
          else case env s b of None \<Rightarrow> Hangs
             | Some (ev, b') \<Rightarrow> (case interrupt cb ev s of None \<Rightarrow> Hangs
                 | Some (Inl e) \<Rightarrow> Faults e | Some (Inr s') \<Rightarrow> ww cb env P s' b')) = Some r"
    have "r \<noteq> Inl OutOfBounds \<and> (\<forall>s' b'. r = Inr (s', b') \<longrightarrow> twi_inv s' \<and> \<not> P s')"
      if c: "conforming env" "callbacks_ok cb" "twi_inv s"
    proof (cases "P s")
      case True
      with eq obtain ev b1 where ev: "env s b = Some (ev, b1)"
        by (auto split: option.splits)
      note safe = interrupt_safe [OF c ev]
      show ?thesis
      proof (cases "\<exists>s1. interrupt cb ev s = Returns s1")
        case True
        then obtain s1 where s1: "interrupt cb ev s = Returns s1" by blast
        with \<open>P s\<close> eq ev have "ww cb env P s1 b1 = Some r" by simp
        from IH [OF this] c s1 safe show ?thesis by simp
      next
        case False
        with \<open>P s\<close> eq ev safe show ?thesis
          by (auto split: option.splits sum.splits)
      qed
    qed (use eq c in auto)
    then show "?Q ((((cb, env), P), s), b) r" by simp
  qed
  with assms show ?thesis by simp
qed

lemma copy_array_no_fault: "n \<le> length src \<Longrightarrow> n \<le> length dst \<Longrightarrow> copy_array src n dst \<noteq> Faults e"
  by simp

lemma wait_while_cases:
  assumes "conforming env" and "callbacks_ok cb" and "twi_inv s"
  obtains "wait_while cb env P s b = Hangs"
    | e where "wait_while cb env P s b = Faults e" "e \<noteq> OutOfBounds"
    | s' b' where "wait_while cb env P s b = Returns (s', b')" "twi_inv s'" "\<not> P s'"
proof (cases "wait_while cb env P s b")
  case (Some r)
  from wait_while_inv [OF Some assms] Some that(2,3) show ?thesis
    by (cases r) auto
qed (use that(1) in simp)

lemma start_read_inv:
  "twi_inv s \<Longrightarrow> 0 < len \<Longrightarrow> len \<le> 32 \<Longrightarrow>
    twi_inv (twi_start (s\<lparr>twi_state := TWI_MRX, twi_error := 0xFF, twi_masterBufferIndex := 0,
      twi_masterBufferLength := len - 1, twi_slarw := a\<rparr>))"
  by (simp add: twi_inv_def twi_start_def) unat_arith

lemma start_write_inv:
  "twi_inv s \<Longrightarrow> len \<le> 32 \<Longrightarrow> length buf = 32 \<Longrightarrow>
    twi_inv (twi_start (s\<lparr>twi_state := TWI_MTX, twi_error := 0xFF, twi_masterBufferIndex := 0,
      twi_masterBufferLength := len, twi_masterBuffer := buf, twi_slarw := a\<rparr>))"
  by (simp add: twi_inv_def twi_start_def)

end
