(* ===== verification/TwiBus.thy ===== *)
theory TwiBus
  imports TwiSafe
begin
unbundle bit_operations_syntax

text \<open>
  The driver wired to a bus: a TWI unit that raises the interrupts of a master transfer in
  the order the bus protocol fixes, and one slave chip at a 7-bit address. The chip's three
  reactions (addressed for writing, a byte written, a byte read) are parameters.
\<close>

record 'c chip =
  chip_addr :: u8
  chip_start :: "'c \<Rightarrow> 'c"
  chip_write :: "u8 \<Rightarrow> 'c \<Rightarrow> 'c"
  chip_read :: "'c \<Rightarrow> u8 \<times> 'c"

datatype phase = Idle | Started | Writing | Reading

definition event :: "u8 \<Rightarrow> u8 \<Rightarrow> tw_event" where
  "event st d = \<lparr>ev_status = st, ev_data = d, ev_sto = True\<rparr>"

definition twi_unit :: "'c chip \<Rightarrow> (phase \<times> 'c) bus" where
  "twi_unit ch s = (\<lambda>(ph, c).
     if bit (TWCR s) TWSTA then Some (event TW_START 0, (Started, c))
     else case ph of
       Idle \<Rightarrow> None
     | Started \<Rightarrow>
         if drop_bit 1 (TWDR s) = chip_addr ch then
           if bit (TWDR s) 0 then Some (event TW_MR_SLA_ACK 0, (Reading, c))
           else Some (event TW_MT_SLA_ACK 0, (Writing, chip_start ch c))
         else if bit (TWDR s) 0 then Some (event TW_MR_SLA_NACK 0, (Idle, c))
         else Some (event TW_MT_SLA_NACK 0, (Idle, c))
     | Writing \<Rightarrow> Some (event TW_MT_DATA_ACK 0, (Writing, chip_write ch (TWDR s) c))
     | Reading \<Rightarrow>
         (case chip_read ch c of (d, c') \<Rightarrow>
            if bit (TWCR s) TWEA then Some (event TW_MR_DATA_ACK d, (Reading, c'))
            else Some (event TW_MR_DATA_NACK d, (Reading, c'))))"

text \<open>The result of reading \<open>n\<close> bytes from the chip.\<close>

fun reads :: "'c chip \<Rightarrow> nat \<Rightarrow> 'c \<Rightarrow> u8 list \<times> 'c" where
  "reads ch 0 c = ([], c)"
| "reads ch (Suc n) c =
     (case chip_read ch c of (d, c1) \<Rightarrow> case reads ch n c1 of (ds, c2) \<Rightarrow> (d # ds, c2))"

text \<open>One step of the wait loop.\<close>

lemma wait_while_step:
  "P s \<Longrightarrow> env s b = Some (ev, b') \<Longrightarrow> interrupt cb ev s = Returns s' \<Longrightarrow>
    wait_while cb env P s b = wait_while cb env P s' b'"
  by (subst wait_while.simps) simp

lemma wait_while_done: "\<not> P s \<Longrightarrow> wait_while cb env P s b = Returns (s, b)"
  by (subst wait_while.simps) simp

lemmas handler_defs = interrupt_def TWI_vect_def event_def latch_event_def TW_STATUS_def
  receives_def twi_reply_def

text \<open>The status bits the handler sees are those of the event.\<close>

lemma status_masked: "((x AND 3) OR (y AND 0xF8)) AND 0xF8 = y AND (0xF8 :: u8)"
  by (simp add: bit.conj_disj_distrib2 and.assoc)

lemma isr_start:
  "interrupt cb (event TW_START 0) s = Returns (twi_reply 1 (latch_event (event TW_START 0) s\<lparr>TWDR := twi_slarw s\<rparr>))"
  by (simp add: interrupt_def TWI_vect_def Let_def) (simp add: event_def latch_event_def)

lemma isr_mt:
  "st = TW_MT_SLA_ACK \<or> st = TW_MT_DATA_ACK \<Longrightarrow>
    interrupt cb (event st 0) s = isr_mt_next True (latch_event (event st 0) s)"
  by (auto simp: interrupt_def TWI_vect_def Let_def) (auto simp add: event_def)

lemma isr_mr_sla:
  "interrupt cb (event TW_MR_SLA_ACK 0) s = Returns (isr_mr_ack (latch_event (event TW_MR_SLA_ACK 0) s))"
  by (simp add: interrupt_def TWI_vect_def Let_def) (simp add: event_def)

lemma isr_mr_data:
  "interrupt cb (event TW_MR_DATA_ACK d) s =
     and_then (isr_mr_store (latch_event (event TW_MR_DATA_ACK d) s)) (\<lambda>s1. Returns (isr_mr_ack s1))"
  "interrupt cb (event TW_MR_DATA_NACK d) s =
     and_then (isr_mr_store (latch_event (event TW_MR_DATA_NACK d) s)) (twi_stop True)"
  by (simp_all add: interrupt_def TWI_vect_def Let_def) (simp_all add: event_def)

subsection \<open>A write transfer\<close>

text \<open>The wait condition of either loop: on while transmitting or receiving, off when ready.\<close>

definition waits_busy :: "twi_mode \<Rightarrow> (twi \<Rightarrow> bool) \<Rightarrow> bool" where
  "waits_busy m P \<longleftrightarrow> (\<forall>s. (twi_state s = m \<longrightarrow> P s) \<and> (twi_state s = TWI_READY \<longrightarrow> \<not> P s))"

definition bufs_ok :: "twi \<Rightarrow> bool" where
  "bufs_ok s \<longleftrightarrow> length (twi_masterBuffer s) = 32 \<and> length (twi_txBuffer s) = 32 \<and>
     length (twi_rxBuffer s) = 32"

definition idle_driver :: "twi \<Rightarrow> bool" where
  "idle_driver s \<longleftrightarrow> twi_state s = TWI_READY \<and> bufs_ok s \<and> \<not> bit (TWCR s) TWSTA"

lemma u8_inc_unat: "i < (n :: u8) \<Longrightarrow> unat (i + 1) = Suc (unat i)"
  by unat_arith

lemma waits_busyD:
  "waits_busy m P \<Longrightarrow> twi_state s = m \<Longrightarrow> P s"
  "waits_busy m P \<Longrightarrow> twi_state s = TWI_READY \<Longrightarrow> \<not> P s"
  by (simp_all add: waits_busy_def)

text \<open>One interrupt of the data phase: the next byte is on its way, or the driver stops.\<close>

lemma mt_turn_more:
  assumes "st = TW_MT_SLA_ACK \<or> st = TW_MT_DATA_ACK" and "bufs_ok s"
    and "twi_masterBufferIndex s < twi_masterBufferLength s" and "twi_masterBufferLength s \<le> 32"
  obtains s1 where "interrupt cb (event st 0) s = Returns s1"
    and "twi_state s1 = twi_state s" and "\<not> bit (TWCR s1) TWSTA" and "bufs_ok s1"
    and "twi_masterBuffer s1 = twi_masterBuffer s"
    and "twi_masterBufferIndex s1 = twi_masterBufferIndex s + 1"
    and "twi_masterBufferLength s1 = twi_masterBufferLength s"
    and "TWDR s1 = twi_masterBuffer s ! unat (twi_masterBufferIndex s)"
    and "twi_error s1 = twi_error s"
proof -
  have "unat (twi_masterBufferIndex s) < length (twi_masterBuffer s)"
    using assms(2-4) by (simp add: bufs_ok_def word_less_nat_alt word_le_nat_alt)
  with assms(3) show thesis
    by (intro that [of "twi_reply 1 ((latch_event (event st 0) s)\<lparr>
          TWDR := twi_masterBuffer s ! unat (twi_masterBufferIndex s),
          twi_masterBufferIndex := twi_masterBufferIndex s + 1\<rparr>)"])
      (use assms(1,2) in \<open>auto simp: isr_mt isr_mt_next_def twi_reply_def latch_event_def bufs_ok_def\<close>)
qed

lemma mt_turn_stop:
  assumes "st = TW_MT_SLA_ACK \<or> st = TW_MT_DATA_ACK" and "bufs_ok s"
    and "\<not> twi_masterBufferIndex s < twi_masterBufferLength s"
  obtains s1 where "interrupt cb (event st 0) s = Returns s1" and "idle_driver s1"
    and "twi_error s1 = twi_error s"
  using assms
  by (intro that [of "(latch_event (event st 0) s)\<lparr>
        TWCR := (BV TWEN OR BV TWIE OR BV TWEA OR BV TWINT OR BV TWSTO) AND NOT (BV TWSTO),
        twi_state := TWI_READY\<rparr>"])
    (auto simp: isr_mt isr_mt_next_def twi_stop_def latch_event_def bufs_ok_def idle_driver_def Let_def)

text \<open>
  From the middle of the data phase: the byte in TWDR and the rest of the buffer go to the
  chip, then the driver stops.
\<close>

definition rest :: "twi \<Rightarrow> u8 list" where
  "rest s = drop (unat (twi_masterBufferIndex s))
     (take (unat (twi_masterBufferLength s)) (twi_masterBuffer s))"

lemma rest_step:
  assumes "bufs_ok s" and "twi_masterBufferIndex s < twi_masterBufferLength s"
    and "twi_masterBufferLength s \<le> 32"
    and "twi_masterBuffer s1 = twi_masterBuffer s"
    and "twi_masterBufferIndex s1 = twi_masterBufferIndex s + 1"
    and "twi_masterBufferLength s1 = twi_masterBufferLength s"
  shows "rest s = twi_masterBuffer s ! unat (twi_masterBufferIndex s) # rest s1"
proof -
  have i: "unat (twi_masterBufferIndex s) < unat (twi_masterBufferLength s)"
    and n: "unat (twi_masterBufferLength s) \<le> length (twi_masterBuffer s)"
    using assms(1-3) by (simp_all add: bufs_ok_def word_less_nat_alt word_le_nat_alt)
  have "unat (twi_masterBufferIndex s + 1) = Suc (unat (twi_masterBufferIndex s))"
    using assms(2) by (rule u8_inc_unat)
  with i n show ?thesis
    unfolding rest_def assms(4-6)
    by (subst Cons_nth_drop_Suc [symmetric]) simp_all
qed

lemma rest_done:
  "\<not> twi_masterBufferIndex s < twi_masterBufferLength s \<Longrightarrow> rest s = []"
  by (simp add: rest_def word_less_nat_alt)

lemma writing_loop:
  assumes "waits_busy TWI_MTX P"
  shows "twi_state s = TWI_MTX \<Longrightarrow> \<not> bit (TWCR s) TWSTA \<Longrightarrow> bufs_ok s \<Longrightarrow>
      twi_masterBufferLength s \<le> 32 \<Longrightarrow>
      \<exists>s'. wait_while cb (twi_unit ch) P s (Writing, c) =
          Returns (s', (Writing, fold (chip_write ch) (TWDR s # rest s) c)) \<and>
        idle_driver s' \<and> twi_error s' = twi_error s"
proof (induction "rest s" arbitrary: s c)
  case Nil
  have busy: "P s" using assms Nil by (auto dest: waits_busyD)
  have unit: "twi_unit ch s (Writing, c) =
      Some (event TW_MT_DATA_ACK 0, (Writing, chip_write ch (TWDR s) c))"
    using Nil by (simp add: twi_unit_def)
  have nl: "\<not> twi_masterBufferIndex s < twi_masterBufferLength s"
    using Nil by (auto simp: rest_def bufs_ok_def word_less_nat_alt word_le_nat_alt)
  obtain s1 where s1: "interrupt cb (event TW_MT_DATA_ACK 0) s = Returns s1"
    "idle_driver s1" "twi_error s1 = twi_error s"
    by (rule mt_turn_stop [OF disjI2 [OF refl] \<open>bufs_ok s\<close> nl])
  have "wait_while cb (twi_unit ch) P s (Writing, c) =
      Returns (s1, (Writing, chip_write ch (TWDR s) c))"
    using assms s1(2) by (simp add: wait_while_step [where P = P and env = "twi_unit ch", OF busy unit s1(1)] wait_while_done
        waits_busy_def idle_driver_def)
  with s1 Nil show ?case by simp
next
  case (Cons x xs)
  have busy: "P s" using assms Cons by (auto dest: waits_busyD)
  have unit: "twi_unit ch s (Writing, c) =
      Some (event TW_MT_DATA_ACK 0, (Writing, chip_write ch (TWDR s) c))"
    using Cons by (simp add: twi_unit_def)
  have less: "twi_masterBufferIndex s < twi_masterBufferLength s"
    using Cons(2) rest_done [of s] by force
  obtain s1 where s1: "interrupt cb (event TW_MT_DATA_ACK 0) s = Returns s1"
    "twi_state s1 = twi_state s" "\<not> bit (TWCR s1) TWSTA" "bufs_ok s1"
    "twi_masterBuffer s1 = twi_masterBuffer s"
    "twi_masterBufferIndex s1 = twi_masterBufferIndex s + 1"
    "twi_masterBufferLength s1 = twi_masterBufferLength s"
    "TWDR s1 = twi_masterBuffer s ! unat (twi_masterBufferIndex s)"
    "twi_error s1 = twi_error s"
    using mt_turn_more [OF disjI2 [OF refl] \<open>bufs_ok s\<close> less] Cons.prems by metis
  have rest: "rest s = TWDR s1 # rest s1"
    using rest_step [OF \<open>bufs_ok s\<close> less _ s1(5-7)] Cons.prems s1(8) by simp
  with Cons(2) have "xs = rest s1" by simp
  from Cons(1) [OF this, of "chip_write ch (TWDR s) c"] Cons.prems s1 rest
  show ?case by (simp add: wait_while_step [where P = P and env = "twi_unit ch", OF busy unit s1(1)])
qed

text \<open>A transfer that has just been started: the chip gets the whole buffer.\<close>

lemma slarw_bits:
  fixes a :: u8
  assumes "\<not> bit a 7"
  shows "drop_bit 1 (push_bit 1 a) = a" and "drop_bit 1 (TW_READ OR push_bit 1 a) = a"
    and "\<not> bit (push_bit 1 a) 0" and "bit (TW_READ OR push_bit 1 a) 0"
proof -
  have 7: "n < 7" if "bit a n" for n
  proof -
    have "n < 8" using bit_imp_le_length [OF that] by simp
    moreover have "n \<noteq> 7" using that assms by auto
    ultimately show ?thesis by simp
  qed
  have push: "bit (push_bit (Suc 0) a) n \<longleftrightarrow> 0 < n \<and> n < 8 \<and> bit a (n - 1)" for n
    by (auto simp: bit_push_bit_iff simp del: push_bit_Suc)
  show "drop_bit 1 (push_bit 1 a) = a" "drop_bit 1 (TW_READ OR push_bit 1 a) = a"
    unfolding One_nat_def
    by (rule bit_word_eqI; use 7 in
        \<open>fastforce simp: bit_drop_bit_eq push bit_or_iff bit_1_iff simp del: push_bit_Suc\<close>)+
  show "\<not> bit (push_bit 1 a) 0" "bit (TW_READ OR push_bit 1 a) 0"
    unfolding One_nat_def by (simp_all add: bit_or_iff push bit_1_iff del: push_bit_Suc)
qed

definition started :: "twi_mode \<Rightarrow> u8 \<Rightarrow> twi \<Rightarrow> bool" where
  "started m sla s \<longleftrightarrow> twi_state s = m \<and> bit (TWCR s) TWSTA \<and> bufs_ok s \<and>
     twi_masterBufferIndex s = 0 \<and> twi_slarw s = sla"

lemma start_turn:
  assumes "started m sla s"
  obtains s1 where "interrupt cb (event TW_START 0) s = Returns s1"
    and "twi_state s1 = m" and "\<not> bit (TWCR s1) TWSTA" and "bit (TWCR s1) TWEA" and "bufs_ok s1"
    and "twi_masterBuffer s1 = twi_masterBuffer s" and "twi_masterBufferIndex s1 = 0"
    and "twi_masterBufferLength s1 = twi_masterBufferLength s" and "TWDR s1 = sla"
    and "twi_error s1 = twi_error s"
  using assms
  by (intro that [of "twi_reply 1 (latch_event (event TW_START 0) s\<lparr>TWDR := twi_slarw s\<rparr>)"])
    (simp_all add: isr_start started_def twi_reply_def latch_event_def bufs_ok_def)

lemma write_transfer:
  assumes "waits_busy TWI_MTX P" and "started TWI_MTX (push_bit 1 (chip_addr ch)) s"
    and "\<not> bit (chip_addr ch) 7" and "twi_masterBufferLength s \<le> 32"
  shows "\<exists>s'. wait_while cb (twi_unit ch) P s (ph, c) = Returns (s', (Writing,
          fold (chip_write ch) (take (unat (twi_masterBufferLength s)) (twi_masterBuffer s)) (chip_start ch c))) \<and>
        idle_driver s' \<and> twi_error s' = twi_error s"
proof -
  have busy: "P s" using assms by (auto dest: waits_busyD simp: started_def)
  have unit: "twi_unit ch s (ph, c) = Some (event TW_START 0, (Started, c))"
    using assms by (simp add: twi_unit_def started_def)
  obtain s1 where s1: "interrupt cb (event TW_START 0) s = Returns s1"
    "twi_state s1 = TWI_MTX" "\<not> bit (TWCR s1) TWSTA" "bufs_ok s1"
    "twi_masterBuffer s1 = twi_masterBuffer s" "twi_masterBufferIndex s1 = 0"
    "twi_masterBufferLength s1 = twi_masterBufferLength s" "TWDR s1 = push_bit 1 (chip_addr ch)"
    "twi_error s1 = twi_error s"
    by (rule start_turn [OF assms(2)])
  have busy1: "P s1" using assms(1) s1 by (auto dest: waits_busyD)
  have unit1: "twi_unit ch s1 (Started, c) = Some (event TW_MT_SLA_ACK 0, (Writing, chip_start ch c))"
    using s1 slarw_bits [OF assms(3)] by (simp add: twi_unit_def)
  have rest: "rest s1 = take (unat (twi_masterBufferLength s)) (twi_masterBuffer s)"
    using s1 by (simp add: rest_def)
  show ?thesis
  proof (cases "twi_masterBufferIndex s1 < twi_masterBufferLength s1")
    case True
    obtain s2 where s2: "interrupt cb (event TW_MT_SLA_ACK 0) s1 = Returns s2"
      "twi_state s2 = twi_state s1" "\<not> bit (TWCR s2) TWSTA" "bufs_ok s2"
      "twi_masterBuffer s2 = twi_masterBuffer s1"
      "twi_masterBufferIndex s2 = twi_masterBufferIndex s1 + 1"
      "twi_masterBufferLength s2 = twi_masterBufferLength s1"
      "TWDR s2 = twi_masterBuffer s1 ! unat (twi_masterBufferIndex s1)"
      "twi_error s2 = twi_error s1"
      using mt_turn_more [OF disjI1 [OF refl] s1(4) True] assms(4) s1(7) by metis
    have "rest s1 = TWDR s2 # rest s2"
      using rest_step [OF s1(4) True _ s2(5-7)] assms(4) s1(7) s2(8) by simp
    then show ?thesis
      using writing_loop [OF assms(1), of s2 cb ch "chip_start ch c"] s1 s2 assms(4) rest
      by (simp add: wait_while_step [where P = P and env = "twi_unit ch", OF busy unit s1(1)]
          wait_while_step [where P = P and env = "twi_unit ch", OF busy1 unit1 s2(1)])
  next
    case False
    obtain s2 where s2: "interrupt cb (event TW_MT_SLA_ACK 0) s1 = Returns s2"
      "idle_driver s2" "twi_error s2 = twi_error s1"
      by (rule mt_turn_stop [OF disjI1 [OF refl] s1(4) False])
    with assms(1) s1 show ?thesis
      unfolding rest [symmetric] rest_done [OF False]
      by (simp add: wait_while_step [where P = P and env = "twi_unit ch", OF busy unit s1(1)]
          wait_while_step [where P = P and env = "twi_unit ch", OF busy1 unit1 s2(1)] wait_while_done waits_busy_def
          idle_driver_def)
  qed
qed

subsection \<open>A read transfer\<close>

lemma mr_ack_fields [simp]:
  "twi_state (isr_mr_ack s) = twi_state s" "twi_masterBuffer (isr_mr_ack s) = twi_masterBuffer s"
  "twi_masterBufferIndex (isr_mr_ack s) = twi_masterBufferIndex s"
  "twi_masterBufferLength (isr_mr_ack s) = twi_masterBufferLength s"
  "twi_error (isr_mr_ack s) = twi_error s" "bufs_ok (isr_mr_ack s) = bufs_ok s"
  "bit (TWCR (isr_mr_ack s)) TWEA \<longleftrightarrow> twi_masterBufferIndex s < twi_masterBufferLength s"
  "\<not> bit (TWCR (isr_mr_ack s)) TWSTA"
  by (simp_all add: isr_mr_ack_def twi_reply_def bufs_ok_def)

lemma latch_fields [simp]:
  "twi_state (latch_event ev s) = twi_state s"
  "twi_masterBuffer (latch_event ev s) = twi_masterBuffer s"
  "twi_masterBufferIndex (latch_event ev s) = twi_masterBufferIndex s"
  "twi_masterBufferLength (latch_event ev s) = twi_masterBufferLength s"
  "twi_error (latch_event ev s) = twi_error s" "bufs_ok (latch_event ev s) = bufs_ok s"
  by (simp_all add: latch_event_def bufs_ok_def)

lemma latch_data [simp]:
  "TWDR (latch_event (event TW_MR_DATA_ACK d) s) = d"
  "TWDR (latch_event (event TW_MR_DATA_NACK d) s) = d"
  by (simp_all add: latch_event_def event_def receives_def)

definition stored :: "u8 \<Rightarrow> twi \<Rightarrow> twi \<Rightarrow> bool" where
  "stored d s s1 \<longleftrightarrow>
     twi_masterBuffer s1 = (twi_masterBuffer s)[unat (twi_masterBufferIndex s) := d] \<and>
     twi_masterBufferIndex s1 = twi_masterBufferIndex s + 1 \<and>
     twi_masterBufferLength s1 = twi_masterBufferLength s \<and>
     twi_error s1 = twi_error s \<and> bufs_ok s1"

text \<open>The driver after the received byte went into the buffer.\<close>

definition store_step :: "u8 \<Rightarrow> u8 \<Rightarrow> twi \<Rightarrow> twi" where
  "store_step st d s = (latch_event (event st d) s)\<lparr>
     twi_masterBuffer := (twi_masterBuffer s)[unat (twi_masterBufferIndex s) := d],
     twi_masterBufferIndex := twi_masterBufferIndex s + 1\<rparr>"

lemma bufs_ok_store_step: "bufs_ok s \<Longrightarrow> bufs_ok (store_step st d s)"
  by (simp add: store_step_def bufs_ok_def latch_event_def)

lemma store_step_fields [simp]:
  "twi_state (store_step st d s) = twi_state s"
  "twi_masterBuffer (store_step st d s) = (twi_masterBuffer s)[unat (twi_masterBufferIndex s) := d]"
  "twi_masterBufferIndex (store_step st d s) = twi_masterBufferIndex s + 1"
  "twi_masterBufferLength (store_step st d s) = twi_masterBufferLength s"
  "twi_error (store_step st d s) = twi_error s"
  by (simp_all add: store_step_def)

lemma mr_store_step:
  "bufs_ok s \<Longrightarrow> twi_masterBufferIndex s < 32 \<Longrightarrow> st \<in> {TW_MR_DATA_ACK, TW_MR_DATA_NACK} \<Longrightarrow>
    isr_mr_store (latch_event (event st d) s) = Returns (store_step st d s)"
  by (auto simp: isr_mr_store_def store_step_def idx_lt_32 bufs_ok_def)

lemma mr_turn_more:
  assumes "bufs_ok s" and "twi_masterBufferIndex s < 32"
  obtains s1 where "interrupt cb (event TW_MR_DATA_ACK d) s = Returns s1" and "stored d s s1"
    and "twi_state s1 = twi_state s" and "\<not> bit (TWCR s1) TWSTA"
    and "bit (TWCR s1) TWEA \<longleftrightarrow> twi_masterBufferIndex s1 < twi_masterBufferLength s1"
  using assms
  by (intro that [of "isr_mr_ack (store_step TW_MR_DATA_ACK d s)"])
    (simp_all add: isr_mr_data mr_store_step stored_def bufs_ok_store_step)

lemma mr_turn_last:
  assumes "bufs_ok s" and "twi_masterBufferIndex s < 32"
  obtains s1 where "interrupt cb (event TW_MR_DATA_NACK d) s = Returns s1" and "stored d s s1"
    and "idle_driver s1"
proof (rule that)
  let ?s0 = "store_step TW_MR_DATA_NACK d s"
  let ?s1 = "?s0\<lparr>TWCR := (BV TWEN OR BV TWIE OR BV TWEA OR BV TWINT OR BV TWSTO) AND NOT (BV TWSTO),
      twi_state := TWI_READY\<rparr>"
  have "bufs_ok ?s1" using bufs_ok_store_step [OF assms(1)] by (simp add: bufs_ok_def)
  then show "stored d s ?s1" and "idle_driver ?s1"
    by (simp_all add: stored_def idle_driver_def)
  show "interrupt cb (event TW_MR_DATA_NACK d) s = Returns ?s1"
    using assms by (simp add: isr_mr_data mr_store_step twi_stop_def Let_def)
qed

lemma reading_loop:
  assumes "waits_busy TWI_MRX P"
  shows "twi_state s = TWI_MRX \<Longrightarrow> \<not> bit (TWCR s) TWSTA \<Longrightarrow> bufs_ok s \<Longrightarrow>
      unat (twi_masterBufferIndex s) + k = unat (twi_masterBufferLength s) \<Longrightarrow>
      twi_masterBufferLength s \<le> 31 \<Longrightarrow>
      (bit (TWCR s) TWEA \<longleftrightarrow> twi_masterBufferIndex s < twi_masterBufferLength s) \<Longrightarrow>
      reads ch (Suc k) c = (ds, c') \<Longrightarrow>
      \<exists>s'. wait_while cb (twi_unit ch) P s (Reading, c) = Returns (s', (Reading, c')) \<and>
        idle_driver s' \<and> twi_error s' = twi_error s \<and>
        unat (twi_masterBufferIndex s') = Suc (unat (twi_masterBufferLength s)) \<and>
        take (Suc (unat (twi_masterBufferLength s))) (twi_masterBuffer s') =
          take (unat (twi_masterBufferIndex s)) (twi_masterBuffer s) @ ds"
proof (induction k arbitrary: s c ds)
  case 0
  have busy: "P s" using assms 0 by (auto dest: waits_busyD)
  have eq: "twi_masterBufferIndex s = twi_masterBufferLength s"
    using 0 by (simp add: word_unat_eq_iff)
  obtain d where d: "chip_read ch c = (d, c')" and ds: "ds = [d]"
    using 0 by (auto split: prod.splits)
  have unit: "twi_unit ch s (Reading, c) = Some (event TW_MR_DATA_NACK d, (Reading, c'))"
    using 0 eq d by (simp add: twi_unit_def)
  have i: "twi_masterBufferIndex s < 32"
    using 0 eq by (simp add: word_less_nat_alt word_le_nat_alt)
  obtain s1 where s1: "interrupt cb (event TW_MR_DATA_NACK d) s = Returns s1" "stored d s s1"
    "idle_driver s1"
    by (rule mr_turn_last [OF \<open>bufs_ok s\<close> i])
  have "unat (twi_masterBufferIndex s + 1) = Suc (unat (twi_masterBufferIndex s))"
    using i by (rule u8_inc_unat)
  moreover have "unat (twi_masterBufferIndex s) < length (twi_masterBuffer s)"
    using i 0 by (simp add: word_less_nat_alt bufs_ok_def)
  ultimately show ?case
    using s1 eq ds assms
    by (auto simp: wait_while_step [where P = P and env = "twi_unit ch", OF busy unit s1(1)]
        wait_while_done waits_busy_def idle_driver_def stored_def take_Suc_conv_app_nth)
next
  case (Suc k)
  have busy: "P s" using assms Suc by (auto dest: waits_busyD)
  have less: "twi_masterBufferIndex s < twi_masterBufferLength s"
    using Suc.prems(4) by (simp add: word_less_nat_alt)
  obtain d c1 ds1 where d: "chip_read ch c = (d, c1)" and rec: "reads ch (Suc k) c1 = (ds1, c')"
    and ds: "ds = d # ds1"
    using Suc.prems(7) by (auto split: prod.splits)
  have unit: "twi_unit ch s (Reading, c) = Some (event TW_MR_DATA_ACK d, (Reading, c1))"
    using Suc.prems less d by (simp add: twi_unit_def)
  have i: "twi_masterBufferIndex s < 32"
    using less Suc.prems(5) by (simp add: word_less_nat_alt word_le_nat_alt)
  obtain s1 where s1: "interrupt cb (event TW_MR_DATA_ACK d) s = Returns s1" "stored d s s1"
    "twi_state s1 = twi_state s" "\<not> bit (TWCR s1) TWSTA"
    "bit (TWCR s1) TWEA \<longleftrightarrow> twi_masterBufferIndex s1 < twi_masterBufferLength s1"
    by (rule mr_turn_more [OF \<open>bufs_ok s\<close> i])
  note st = s1(2) [unfolded stored_def]
  have inc: "unat (twi_masterBufferIndex s1) = Suc (unat (twi_masterBufferIndex s))"
    using u8_inc_unat [OF i] st by simp
  have "unat (twi_masterBufferIndex s) < length (twi_masterBuffer s)"
    using i Suc.prems by (simp add: word_less_nat_alt bufs_ok_def)
  then have "take (unat (twi_masterBufferIndex s1)) (twi_masterBuffer s1) =
      take (unat (twi_masterBufferIndex s)) (twi_masterBuffer s) @ [d]"
    using st inc by (simp add: take_Suc_conv_app_nth)
  then show ?case
    using Suc.IH [of s1 c1 ds1] Suc.prems s1 st inc rec ds
    by (simp add: wait_while_step [where P = P and env = "twi_unit ch", OF busy unit s1(1)])
qed

lemma read_transfer:
  assumes "waits_busy TWI_MRX P" and "started TWI_MRX (TW_READ OR push_bit 1 (chip_addr ch)) s"
    and "\<not> bit (chip_addr ch) 7" and "twi_masterBufferLength s \<le> 31"
    and "reads ch (Suc (unat (twi_masterBufferLength s))) c = (ds, c')"
  shows "\<exists>s'. wait_while cb (twi_unit ch) P s (ph, c) = Returns (s', (Reading, c')) \<and>
        idle_driver s' \<and> twi_error s' = twi_error s \<and>
        unat (twi_masterBufferIndex s') = Suc (unat (twi_masterBufferLength s)) \<and>
        take (Suc (unat (twi_masterBufferLength s))) (twi_masterBuffer s') = ds"
proof -
  have busy: "P s" using assms by (auto dest: waits_busyD simp: started_def)
  have unit: "twi_unit ch s (ph, c) = Some (event TW_START 0, (Started, c))"
    using assms by (simp add: twi_unit_def started_def)
  obtain s1 where s1: "interrupt cb (event TW_START 0) s = Returns s1"
    "twi_state s1 = TWI_MRX" "\<not> bit (TWCR s1) TWSTA" "bufs_ok s1"
    "twi_masterBufferIndex s1 = 0" "twi_masterBufferLength s1 = twi_masterBufferLength s"
    "TWDR s1 = TW_READ OR push_bit 1 (chip_addr ch)" "twi_error s1 = twi_error s"
    by (rule start_turn [OF assms(2)])
  have busy1: "P s1" using assms(1) s1 by (auto dest: waits_busyD)
  have unit1: "twi_unit ch s1 (Started, c) = Some (event TW_MR_SLA_ACK 0, (Reading, c))"
    using s1 slarw_bits [OF assms(3)] by (simp add: twi_unit_def)
  let ?s2 = "isr_mr_ack (latch_event (event TW_MR_SLA_ACK 0) s1)"
  have int: "interrupt cb (event TW_MR_SLA_ACK 0) s1 = Returns ?s2"
    by (rule isr_mr_sla)
  show ?thesis
    using reading_loop [OF assms(1), of ?s2 "unat (twi_masterBufferLength s)" ch c ds c' cb]
      assms(4,5) s1
    by (simp add: wait_while_step [where P = P and env = "twi_unit ch", OF busy unit s1(1)]
        wait_while_step [where P = P and env = "twi_unit ch", OF busy1 unit1 int])
qed
end
