(* ===== verification/TwiClaims.thy ===== *)
theory TwiClaims
  imports TwiBus
begin
unbundle bit_operations_syntax

text \<open>
  What the driver's callers can rely on, and two things they cannot: the result of a write
  that does not wait, and a read of length zero.
\<close>

text \<open>A bus that does what the TWI unit can do: any other interrupt never comes.\<close>

definition lawful :: "'b bus \<Rightarrow> 'b bus" where
  "lawful env s b = (case env s b of
     None \<Rightarrow> None
   | Some (ev, b') \<Rightarrow> if hw_allows s (ev_status ev AND 0xF8) then Some (ev, b') else None)"

lemma lawful_conforming: "conforming (lawful env)"
  by (auto simp: conforming_def lawful_def split: option.splits if_splits)

definition no_callbacks :: callbacks where
  "no_callbacks = \<lparr>call_rx = (\<lambda>f bs n s. Returns s), call_tx = (\<lambda>f s. Returns s)\<rparr>"

lemma no_callbacks_ok: "callbacks_ok no_callbacks"
proof -
  have "\<forall>s :: twi. \<exists>tx n. s = s\<lparr>twi_txBuffer := tx, twi_txBufferLength := n\<rparr> \<and>
      length tx = length (twi_txBuffer s) \<and> (n = twi_txBufferLength s \<or> n \<le> 32)"
  proof
    fix s :: twi
    show "\<exists>tx n. s = s\<lparr>twi_txBuffer := tx, twi_txBufferLength := n\<rparr> \<and>
        length tx = length (twi_txBuffer s) \<and> (n = twi_txBufferLength s \<or> n \<le> 32)"
      by (intro exI [of _ "twi_txBuffer s"] exI [of _ "twi_txBufferLength s"]) simp
  qed
  then show ?thesis by (simp add: callbacks_ok_def no_callbacks_def)
qed

lemma twi_zero_inv: "twi_inv twi_zero"
  by (simp add: twi_inv_def twi_zero_def)

text \<open>A slave that answers its address and returns ascending bytes.\<close>

definition counter_chip :: "u8 chip" where
  "counter_chip = \<lparr>chip_addr = 0x6f, chip_start = id, chip_write = (\<lambda>v c. v), chip_read = (\<lambda>c. (c, c + 1))\<rparr>"

subsection \<open>Memory safety of the two entry points\<close>

text \<open>
  C15: whatever a slave, another master or the user's callbacks do within the bus protocol, a
  read of at least one byte stays inside every array and returns at most \<open>len\<close> bytes.
\<close>

theorem twi_readFrom_in_bounds:
  assumes "conforming env" and "callbacks_ok cb" and "twi_inv s"
    and "0 < len" and "unat len \<le> length data"
  shows "case twi_readFrom cb env address data len s b of
      None \<Rightarrow> True
    | Some (Inl e) \<Rightarrow> e \<noteq> OutOfBounds
    | Some (Inr (n, data', s', b')) \<Rightarrow>
        n \<le> len \<and> length data' = length data \<and> drop (unat n) data' = drop (unat n) data \<and> twi_inv s'"
proof (cases "TWI_BUFFER_LENGTH < len")
  case False
  from assms(1-3) show ?thesis
  proof (cases rule: wait_while_cases [where P = "\<lambda>s. twi_state s \<noteq> TWI_READY" and b = b])
    case (3 s1 b1)
    let ?s2 = "twi_start (s1\<lparr>twi_state := TWI_MRX, twi_error := 0xFF, twi_masterBufferIndex := 0,
      twi_masterBufferLength := len - 1, twi_slarw := TW_READ OR push_bit 1 address\<rparr>)"
    have "twi_inv ?s2"
      by (rule start_read_inv) (use 3 assms(4) False in auto)
    with assms(1,2) show ?thesis
    proof (cases rule: wait_while_cases [where P = "\<lambda>s. twi_state s = TWI_MRX" and b = b1])
      case (3 s3 b3)
      define n where "n = min (twi_masterBufferIndex s3) len"
      have n: "(if twi_masterBufferIndex s3 < len then twi_masterBufferIndex s3 else len) = n"
        by (auto simp: n_def min_def)
      have nlen: "unat n \<le> unat len" "n \<le> len" by (simp_all add: n_def min_def word_le_nat_alt)
      moreover have "unat len \<le> 32" using False by (simp add: word_less_nat_alt)
      ultimately have "unat n \<le> 32" "unat n \<le> length data" using assms(5) by simp_all
      moreover have "length (twi_masterBuffer s3) = 32" using 3 by (simp add: twi_inv_def)
      ultimately show ?thesis
        using False \<open>wait_while cb env _ s b = _\<close> 3 nlen(2)
        by (simp add: twi_readFrom_def Let_def n)
    qed (use False \<open>wait_while cb env _ s b = _\<close> in \<open>simp_all add: twi_readFrom_def Let_def\<close>)
  qed (use False in \<open>simp_all add: twi_readFrom_def\<close>)
qed (use assms in \<open>simp add: twi_readFrom_def\<close>)

lemma twi_readFrom_in_bounds_witness:
  "case twi_readFrom no_callbacks (lawful (twi_unit counter_chip)) 0x6f [1, 2, 3] 3 twi_zero (Idle, 7) of
      None \<Rightarrow> True
    | Some (Inl e) \<Rightarrow> e \<noteq> OutOfBounds
    | Some (Inr (n, data', s', b')) \<Rightarrow>
        n \<le> 3 \<and> length data' = length [1, 2, 3 :: u8] \<and>
        drop (unat n) data' = drop (unat n) [1, 2, 3] \<and> twi_inv s'"
  by (rule twi_readFrom_in_bounds [OF lawful_conforming no_callbacks_ok twi_zero_inv]) simp_all

text \<open>
  C16: a write stays inside every array under the same conditions, returns one of the five
  documented codes, and when it waits the transfer is over on return.
\<close>

theorem twi_writeTo_in_bounds:
  assumes "conforming env" and "callbacks_ok cb" and "twi_inv s" and "unat len \<le> length data"
  shows "case twi_writeTo cb env address data len wait s b of
      None \<Rightarrow> True
    | Some (Inl e) \<Rightarrow> e \<noteq> OutOfBounds
    | Some (Inr (code, s', b')) \<Rightarrow>
        code \<in> {0, 1, 2, 3, 4} \<and> twi_inv s' \<and> (wait \<noteq> 0 \<longrightarrow> code \<noteq> 1 \<longrightarrow> twi_state s' \<noteq> TWI_MTX)"
proof (cases "TWI_BUFFER_LENGTH < len")
  case False
  from assms(1-3) show ?thesis
  proof (cases rule: wait_while_cases [where P = "\<lambda>s. twi_state s \<noteq> TWI_READY" and b = b])
    case (3 s1 b1)
    have "unat len \<le> 32" using False by (simp add: word_less_nat_alt)
    moreover have "length (twi_masterBuffer s1) = 32" using 3 by (simp add: twi_inv_def)
    ultimately have buf: "copy_array data (unat len) (twi_masterBuffer s1) =
        Returns (take (unat len) data @ drop (unat len) (twi_masterBuffer s1))"
      using assms(4) by simp
    let ?s2 = "twi_start (s1\<lparr>twi_state := TWI_MTX, twi_error := 0xFF, twi_masterBufferIndex := 0,
      twi_masterBufferLength := len,
      twi_masterBuffer := take (unat len) data @ drop (unat len) (twi_masterBuffer s1),
      twi_slarw := TW_WRITE OR push_bit 1 address\<rparr>)"
    have "twi_inv ?s2"
      by (rule start_write_inv)
        (use 3 False assms(4) \<open>unat len \<le> 32\<close> \<open>length (twi_masterBuffer s1) = 32\<close> in auto)
    with assms(1,2) show ?thesis
    proof (cases rule: wait_while_cases
        [where P = "\<lambda>s. wait \<noteq> 0 \<and> twi_state s = TWI_MTX" and b = b1])
      case (3 s3 b3)
      then show ?thesis
        using False \<open>wait_while cb env _ s b = _\<close> buf
        by (auto simp: twi_writeTo_def Let_def write_result_def)
    qed (use False \<open>wait_while cb env _ s b = _\<close> buf in
        \<open>simp_all add: twi_writeTo_def Let_def\<close>)
  qed (use False in \<open>simp_all add: twi_writeTo_def\<close>)
qed (use assms in \<open>simp add: twi_writeTo_def\<close>)

lemma twi_writeTo_in_bounds_witness:
  "case twi_writeTo no_callbacks (lawful (twi_unit counter_chip)) 0x6f [1, 2, 3] 3 1 twi_zero (Idle, 7) of
      None \<Rightarrow> True
    | Some (Inl e) \<Rightarrow> e \<noteq> OutOfBounds
    | Some (Inr (code, s', b')) \<Rightarrow>
        code \<in> {0, 1, 2, 3, 4} \<and> twi_inv s' \<and>
        ((1 :: u8) \<noteq> 0 \<longrightarrow> code \<noteq> 1 \<longrightarrow> twi_state s' \<noteq> TWI_MTX)"
  by (rule twi_writeTo_in_bounds [OF lawful_conforming no_callbacks_ok twi_zero_inv]) simp

subsection \<open>What a transfer does to the slave\<close>

lemma idle_twi_zero: "idle_driver twi_zero"
  by (simp add: idle_driver_def twi_zero_def bufs_ok_def)

lemma idle_wait:
  "idle_driver s \<Longrightarrow> wait_while cb env (\<lambda>s. twi_state s \<noteq> TWI_READY) s b = Returns (s, b)"
  by (simp add: wait_while_done idle_driver_def)

text \<open>
  C17: a write that waits delivers exactly the first \<open>len\<close> bytes, in order, to the addressed
  slave and reports success.
\<close>

theorem twi_writeTo_delivers:
  assumes "idle_driver s" and "address = chip_addr ch" and "\<not> bit address 7"
    and "len \<le> 32" and "unat len \<le> length data" and "wait \<noteq> 0"
  shows "\<exists>s'. twi_writeTo cb (twi_unit ch) address data len wait s (ph, c) =
      Returns (0, s', (Writing, fold (chip_write ch) (take (unat len) data) (chip_start ch c))) \<and>
    idle_driver s'"
proof -
  let ?buf = "take (unat len) data @ drop (unat len) (twi_masterBuffer s)"
  let ?s2 = "twi_start (s\<lparr>twi_state := TWI_MTX, twi_error := 0xFF, twi_masterBufferIndex := 0,
      twi_masterBufferLength := len, twi_masterBuffer := ?buf,
      twi_slarw := TW_WRITE OR push_bit 1 address\<rparr>)"
  let ?P = "\<lambda>s. wait \<noteq> 0 \<and> twi_state s = TWI_MTX"
  have l32: "unat len \<le> 32" using assms(4) by (simp add: word_le_nat_alt)
  have buf: "copy_array data (unat len) (twi_masterBuffer s) = Returns ?buf"
    using assms(1,5) l32 by (simp add: idle_driver_def bufs_ok_def)
  have wb: "waits_busy TWI_MTX ?P" using assms(6) by (simp add: waits_busy_def)
  have st: "started TWI_MTX (push_bit 1 (chip_addr ch)) ?s2"
    using assms(1,2,5) l32
    by (simp add: started_def twi_start_def idle_driver_def bufs_ok_def bit_simps)
  have "take (unat len) ?buf = take (unat len) data" using assms(5) by simp
  then have eq: "take (unat (twi_masterBufferLength ?s2)) (twi_masterBuffer ?s2) = take (unat len) data"
    "twi_error ?s2 = 0xFF" "twi_masterBufferLength ?s2 \<le> 32"
    using assms(4) by (simp_all add: twi_start_def)
  obtain s3 where "wait_while cb (twi_unit ch) ?P ?s2 (ph, c) =
      Returns (s3, (Writing, fold (chip_write ch) (take (unat len) data) (chip_start ch c)))"
    "idle_driver s3" "twi_error s3 = 0xFF"
    using write_transfer [OF wb st _ eq(3), of cb ph c] assms(2,3) eq(1,2) by auto
  then show ?thesis
    using assms(4) buf
    by (simp add: twi_writeTo_def Let_def write_result_def idle_wait [OF assms(1)])
qed

lemma twi_writeTo_delivers_witness:
  "\<exists>s'. twi_writeTo no_callbacks (twi_unit counter_chip) 0x6f [5, 6] 2 1 twi_zero (Idle, 7) =
      Returns (0, s', (Writing, fold (chip_write counter_chip) (take (unat (2 :: u8)) [5, 6])
        (chip_start counter_chip 7))) \<and> idle_driver s'"
  by (rule twi_writeTo_delivers [OF idle_twi_zero]) (simp_all add: counter_chip_def)

text \<open>
  C18: a read of 1 to 32 bytes fills the caller's array with that many bytes of the slave, in
  order, and leaves the rest of the array alone.
\<close>

theorem twi_readFrom_returns:
  assumes "idle_driver s" and "address = chip_addr ch" and "\<not> bit address 7"
    and "0 < len" and "len \<le> 32" and "unat len \<le> length data"
    and "reads ch (unat len) c = (ds, c')"
  shows "\<exists>s'. twi_readFrom cb (twi_unit ch) address data len s (ph, c) =
      Returns (len, ds @ drop (unat len) data, s', (Reading, c')) \<and> idle_driver s'"
proof -
  let ?s2 = "twi_start (s\<lparr>twi_state := TWI_MRX, twi_error := 0xFF, twi_masterBufferIndex := 0,
      twi_masterBufferLength := len - 1, twi_slarw := TW_READ OR push_bit 1 address\<rparr>)"
  let ?P = "\<lambda>s. twi_state s = TWI_MRX"
  have wb: "waits_busy TWI_MRX ?P" by (simp add: waits_busy_def)
  have st: "started TWI_MRX (TW_READ OR push_bit 1 (chip_addr ch)) ?s2"
    using assms(1,2) by (simp add: started_def twi_start_def idle_driver_def bufs_ok_def bit_simps)
  have "len - 1 \<le> 31" and suc: "Suc (unat (len - 1)) = unat len"
    using assms(4,5) by unat_arith+
  then have len: "twi_masterBufferLength ?s2 \<le> 31"
    and rd: "reads ch (Suc (unat (twi_masterBufferLength ?s2))) c = (ds, c')"
    using assms(7) by (simp_all add: twi_start_def del: reads.simps)
  have sla: "\<not> bit (chip_addr ch) 7" using assms(2,3) by simp
  obtain s3 where s3: "wait_while cb (twi_unit ch) ?P ?s2 (ph, c) = Returns (s3, (Reading, c'))"
    "idle_driver s3" "unat (twi_masterBufferIndex s3) = unat len"
    "take (unat len) (twi_masterBuffer s3) = ds"
    using read_transfer [OF wb st sla len rd, of cb ph] suc by (auto simp: twi_start_def)
  have idx: "twi_masterBufferIndex s3 = len" using s3(3) by (simp add: word_unat_eq_iff)
  have "unat len \<le> 32" using assms(5) by (simp add: word_le_nat_alt)
  then have "copy_array (twi_masterBuffer s3) (unat len) data = Returns (ds @ drop (unat len) data)"
    using s3(2,4) assms(6) by (simp add: idle_driver_def bufs_ok_def)
  then show ?thesis
    using leD [OF assms(5)] s3(1,2) idx
    by (simp add: twi_readFrom_def Let_def idle_wait [OF assms(1)])
qed

lemma counter_reads: "reads counter_chip 3 7 = ([7, 8, 9], 10)"
  by (simp add: counter_chip_def numeral_3_eq_3)

lemma twi_readFrom_returns_witness:
  "\<exists>s'. twi_readFrom no_callbacks (twi_unit counter_chip) 0x6f [0, 0, 0, 9] 3 twi_zero (Idle, 7) =
      Returns (3, [7, 8, 9] @ drop (unat (3 :: u8)) [0, 0, 0, 9], s', (Reading, 10)) \<and> idle_driver s'"
  by (rule twi_readFrom_returns [OF idle_twi_zero]) (simp_all add: counter_reads, simp_all add: counter_chip_def)

text \<open>
  A write that does not wait reports success whatever becomes of the transfer: code 0 on
  every bus, even when nobody answers.
\<close>

lemma twi_writeTo_nowait_code:
  assumes "twi_writeTo cb env address data len 0 s b = Returns (code, s', b')" and "len \<le> 32"
  shows "code = 0"
  using assms
  by (auto simp: twi_writeTo_def and_then_Returns Let_def wait_while_done write_result_def
      twi_start_def split: if_splits prod.splits)

subsection \<open>A read of length zero\<close>

lemma overrun_loop:
  assumes "waits_busy TWI_MRX P"
  shows "twi_state s = TWI_MRX \<Longrightarrow> \<not> bit (TWCR s) TWSTA \<Longrightarrow> bit (TWCR s) TWEA \<Longrightarrow> bufs_ok s \<Longrightarrow>
      unat (twi_masterBufferIndex s) + k = 32 \<Longrightarrow> twi_masterBufferLength s = 255 \<Longrightarrow>
      wait_while cb (twi_unit ch) P s (Reading, c) = Faults OutOfBounds"
proof (induction k arbitrary: s c)
  case 0
  obtain d c' where d: "chip_read ch c = (d, c')" by (cases "chip_read ch c")
  have busy: "P s" using assms 0 by (auto dest: waits_busyD)
  have unit: "twi_unit ch s (Reading, c) = Some (event TW_MR_DATA_ACK d, (Reading, c'))"
    using 0 d by (simp add: twi_unit_def)
  have "interrupt cb (event TW_MR_DATA_ACK d) s = Faults OutOfBounds"
    using 0 by (simp add: isr_mr_data isr_mr_store_def store_def bufs_ok_def)
  with busy unit show ?case by (subst wait_while.simps) simp
next
  case (Suc k)
  obtain d c' where d: "chip_read ch c = (d, c')" by (cases "chip_read ch c")
  have busy: "P s" using assms Suc by (auto dest: waits_busyD)
  have unit: "twi_unit ch s (Reading, c) = Some (event TW_MR_DATA_ACK d, (Reading, c'))"
    using Suc.prems d by (simp add: twi_unit_def)
  have i: "twi_masterBufferIndex s < 32"
    using Suc.prems by (simp add: word_less_nat_alt)
  obtain s1 where s1: "interrupt cb (event TW_MR_DATA_ACK d) s = Returns s1" "stored d s s1"
    "twi_state s1 = twi_state s" "\<not> bit (TWCR s1) TWSTA"
    "bit (TWCR s1) TWEA \<longleftrightarrow> twi_masterBufferIndex s1 < twi_masterBufferLength s1"
    by (rule mr_turn_more [OF \<open>bufs_ok s\<close> i])
  note st = s1(2) [unfolded stored_def]
  have inc: "unat (twi_masterBufferIndex s1) = Suc (unat (twi_masterBufferIndex s))"
    using u8_inc_unat [OF i] st by simp
  then have "twi_masterBufferIndex s1 < 255"
    using Suc.prems by (simp add: word_less_nat_alt)
  then show ?case
    using Suc.IH [of s1 c'] Suc.prems s1 st inc
    by (simp add: wait_while_step [where P = P and env = "twi_unit ch", OF busy unit s1(1)])
qed

text \<open>
  C19: a read of length 0 wraps the expected length to 255, and a slave that answers its address
  makes the interrupt handler store past the 32-byte buffer.
\<close>

theorem twi_readFrom_zero_overruns:
  assumes "idle_driver s" and "address = chip_addr ch" and "\<not> bit address 7"
  shows "twi_readFrom cb (twi_unit ch) address data 0 s (ph, c) = Faults OutOfBounds"
proof -
  let ?P = "\<lambda>s. twi_state s = TWI_MRX"
  let ?s2 = "twi_start (s\<lparr>twi_state := TWI_MRX, twi_error := 0xFF, twi_masterBufferIndex := 0,
      twi_masterBufferLength := - 1, twi_slarw := TW_READ OR push_bit 1 (chip_addr ch)\<rparr>)"
  have wb: "waits_busy TWI_MRX ?P" by (simp add: waits_busy_def)
  have st: "started TWI_MRX (TW_READ OR push_bit 1 (chip_addr ch)) ?s2"
    using assms(1) by (simp add: started_def twi_start_def idle_driver_def bufs_ok_def bit_simps)
  have unit: "twi_unit ch ?s2 (ph, c) = Some (event TW_START 0, (Started, c))"
    using st by (simp add: twi_unit_def started_def)
  have sla: "\<not> bit (chip_addr ch) 7" using assms(2,3) by simp
  obtain s3 where s3: "interrupt cb (event TW_START 0) ?s2 = Returns s3"
    "twi_state s3 = TWI_MRX" "\<not> bit (TWCR s3) TWSTA" "bufs_ok s3"
    "twi_masterBufferIndex s3 = 0" "twi_masterBufferLength s3 = twi_masterBufferLength ?s2"
    "TWDR s3 = TW_READ OR push_bit 1 (chip_addr ch)"
    by (rule start_turn [OF st])
  have unit3: "twi_unit ch s3 (Started, c) = Some (event TW_MR_SLA_ACK 0, (Reading, c))"
    using s3 slarw_bits [OF sla] by (simp add: twi_unit_def)
  let ?s4 = "isr_mr_ack (latch_event (event TW_MR_SLA_ACK 0) s3)"
  have len: "twi_masterBufferLength ?s2 = 255" by (simp add: twi_start_def)
  have "wait_while cb (twi_unit ch) ?P ?s4 (Reading, c) = Faults OutOfBounds"
    by (rule overrun_loop [OF wb, where k = 32]) (use s3 len in simp_all)
  then have "wait_while cb (twi_unit ch) ?P s3 (Started, c) = Faults OutOfBounds"
    by (simp add: wait_while_step [where P = ?P and env = "twi_unit ch", OF s3(2) unit3 isr_mr_sla])
  moreover have busy: "twi_state ?s2 = TWI_MRX" by (simp add: twi_start_def)
  ultimately have "wait_while cb (twi_unit ch) ?P ?s2 (ph, c) = Faults OutOfBounds"
    by (simp only: wait_while_step [where P = ?P and env = "twi_unit ch", OF busy unit s3(1)])
  moreover have "wait_while cb (twi_unit ch) (\<lambda>s. twi_state s \<noteq> TWI_READY) s (ph, c) = Returns (s, (ph, c))"
    using assms(1) by (simp add: wait_while_done idle_driver_def)
  ultimately show ?thesis by (simp add: twi_readFrom_def Let_def assms(2))
qed

lemma twi_readFrom_zero_overruns_witness:
  "twi_readFrom no_callbacks (twi_unit counter_chip) 0x6f [] 0 twi_zero (Idle, 7) = Faults OutOfBounds"
  by (rule twi_readFrom_zero_overruns [OF idle_twi_zero]) (simp_all add: counter_chip_def)

end
