(* ===== verification/Clock.thy ===== *)
theory Clock
  imports TwiClaims Rtc
begin
unbundle bit_operations_syntax

text \<open>
  The clock driver on the I2C driver: the two bus functions of \<^verbatim>\<open>twi.h\<close> as \<^verbatim>\<open>rtc.c\<close> calls
  them, wired to a clock chip that behaves as a register file with an address pointer. The
  interface the clock driver relies on is proved of the I2C driver, for every such chip.
\<close>

subsection \<open>The bus functions the clock driver calls\<close>

type_synonym 'c drv = "twi \<times> phase \<times> 'c"

definition drv_write :: "callbacks \<Rightarrow> 'c chip \<Rightarrow> 'c drv wr_fun" where
  "drv_write cb ch address data len wait = (\<lambda>(s, b).
     and_then (twi_writeTo cb (twi_unit ch) address data len wait s b) (\<lambda>(code, s', b').
       Returns (code, (s', b'))))"

definition drv_read :: "callbacks \<Rightarrow> 'c chip \<Rightarrow> 'c drv rd_fun" where
  "drv_read cb ch address data len = (\<lambda>(s, b).
     and_then (twi_readFrom cb (twi_unit ch) address data len s b) (\<lambda>(n, data', s', b').
       Returns (n, data', (s', b'))))"

subsection \<open>What the clock chip promises\<close>

text \<open>
  As documented for the chip: the first byte after its address selects a register, further
  bytes are stored from there on, and a read returns the selected register.
\<close>

locale reg_chip =
  fixes ch :: "'c chip"
    and cregs :: "'c \<Rightarrow> u8 \<Rightarrow> u8"
    and cptr :: "'c \<Rightarrow> u8"
    and fresh :: "'c \<Rightarrow> bool"
  assumes dev_addr: "chip_addr ch = 0x6f"
    and dev_start: "fresh (chip_start ch c)" "cregs (chip_start ch c) = cregs c"
    and dev_select: "fresh c \<Longrightarrow> cptr (chip_write ch v c) = v"
      "fresh c \<Longrightarrow> cregs (chip_write ch v c) = cregs c"
    and dev_data: "\<not> fresh c \<Longrightarrow> cptr (chip_write ch v c) = cptr c + 1"
      "\<not> fresh c \<Longrightarrow> cregs (chip_write ch v c) = (cregs c)(cptr c := v)"
    and dev_used: "\<not> fresh (chip_write ch v c)"
    and dev_read: "fst (chip_read ch c) = cregs c (cptr c)" "cregs (snd (chip_read ch c)) = cregs c"
begin

lemma data_phase:
  "\<not> fresh c \<Longrightarrow> cregs (fold (chip_write ch) vs c) = poke (cregs c) (cptr c) vs \<and>
     cptr (fold (chip_write ch) vs c) = cptr c + of_nat (length vs)"
  by (induction vs arbitrary: c) (auto simp: dev_data dev_used)

lemma whole_write:
  "cregs (fold (chip_write ch) (a # vs) (chip_start ch c)) = poke (cregs c) a vs"
  "cptr (fold (chip_write ch) (a # vs) (chip_start ch c)) = a + of_nat (length vs)"
  using data_phase [OF dev_used, of vs a "chip_start ch c"] by (simp_all add: dev_select dev_start)

end

text \<open>
  The registers as the driver's clients see them: a write that was started and not waited
  for is still in the driver's buffer.
\<close>

definition pending :: "twi \<Rightarrow> u8 list" where
  "pending s = (if twi_state s = TWI_READY then []
     else take (unat (twi_masterBufferLength s)) (twi_masterBuffer s))"

definition drv_regs :: "('c \<Rightarrow> u8 \<Rightarrow> u8) \<Rightarrow> 'c drv \<Rightarrow> u8 \<Rightarrow> u8" where
  "drv_regs cregs = (\<lambda>(s, ph, c). case pending s of [] \<Rightarrow> cregs c | a # vs \<Rightarrow> poke (cregs c) a vs)"

definition drv_ptr :: "('c \<Rightarrow> u8) \<Rightarrow> 'c drv \<Rightarrow> u8" where
  "drv_ptr cptr = (\<lambda>(s, ph, c). case pending s of [] \<Rightarrow> cptr c | a # vs \<Rightarrow> a + of_nat (length vs))"

definition drv_ok :: "'c drv \<Rightarrow> bool" where
  "drv_ok = (\<lambda>(s, ph, c). idle_driver s \<or>
     started TWI_MTX (push_bit 1 0x6f) s \<and> 0 < twi_masterBufferLength s \<and> twi_masterBufferLength s \<le> 32)"

lemma waits_ready: "waits_busy m (\<lambda>s. twi_state s \<noteq> TWI_READY)" if "m \<noteq> TWI_READY"
  using that by (auto simp: waits_busy_def)

lemma waits_mode: "waits_busy m (\<lambda>s. twi_state s = m)" if "m \<noteq> TWI_READY"
  using that by (auto simp: waits_busy_def)

lemma pending_started:
  assumes "started TWI_MTX sla s" and "0 < twi_masterBufferLength s"
  obtains a vs where "take (unat (twi_masterBufferLength s)) (twi_masterBuffer s) = a # vs"
    and "pending s = a # vs"
proof -
  have "take (unat (twi_masterBufferLength s)) (twi_masterBuffer s) \<noteq> []"
    using assms by (auto simp: started_def bufs_ok_def word_gt_0 unat_eq_0)
  then obtain a vs where "take (unat (twi_masterBufferLength s)) (twi_masterBuffer s) = a # vs"
    by (cases "take (unat (twi_masterBufferLength s)) (twi_masterBuffer s)") auto
  with assms show thesis by (intro that) (auto simp: pending_def started_def)
qed

context reg_chip begin

text \<open>Waiting for the bus to be ready completes a pending write.\<close>

lemma settle:
  assumes "drv_ok (s, b)"
  obtains s' ph' c' where
    "wait_while cb (twi_unit ch) (\<lambda>s. twi_state s \<noteq> TWI_READY) s b = Returns (s', (ph', c'))"
    and "idle_driver s'" and "cregs c' = drv_regs cregs (s, b)" and "cptr c' = drv_ptr cptr (s, b)"
proof -
  obtain ph c where b: "b = (ph, c)" by (cases b)
  have sla: "\<not> bit (chip_addr ch) 7" by (simp add: dev_addr)
  show thesis
  proof (cases "idle_driver s")
    case True
    then show thesis
      by (intro that [of s ph c])
        (auto simp: b wait_while_done idle_driver_def drv_regs_def drv_ptr_def pending_def)
  next
    case False
    with assms have st: "started TWI_MTX (push_bit 1 (chip_addr ch)) s"
      and len: "0 < twi_masterBufferLength s" "twi_masterBufferLength s \<le> 32"
      by (auto simp: drv_ok_def b dev_addr)
    obtain a vs where av: "take (unat (twi_masterBufferLength s)) (twi_masterBuffer s) = a # vs"
      "pending s = a # vs" by (rule pending_started [OF st len(1)])
    from write_transfer [OF waits_ready st sla len(2), of cb ph c] av that whole_write
    show thesis by (auto simp: b drv_regs_def drv_ptr_def)
  qed
qed

end

subsection \<open>The I2C driver keeps the interface of the clock driver\<close>

lemma code_ok [simp]: "write_result 0xFF = 0"
  by (simp add: write_result_def)

context reg_chip begin

lemma drv_write_regs:
  assumes "drv_ok b" and "unat n \<le> 32" and "unat n \<le> length data"
    and "take (unat n) data = a # vs"
  shows "\<exists>b'. drv_write cb ch 0x6f data n w b = Returns (0, b') \<and> drv_ok b' \<and>
      drv_regs cregs b' = poke (drv_regs cregs b) a vs \<and> drv_ptr cptr b' = a + of_nat (length vs)"
proof -
  obtain s ph c where b: "b = (s, ph, c)" by (cases b)
  obtain s1 ph1 c1 where 1:
    "wait_while cb (twi_unit ch) (\<lambda>s. twi_state s \<noteq> TWI_READY) s (ph, c) = Returns (s1, (ph1, c1))"
    "idle_driver s1" "cregs c1 = drv_regs cregs b"
    by (rule settle [where cb = cb]) (use assms(1) b in auto)
  have small: "\<not> TWI_BUFFER_LENGTH < n" "n \<le> 32"
    using assms(2) by (simp_all add: word_less_nat_alt word_le_nat_alt)
  have buf: "copy_array data (unat n) (twi_masterBuffer s1) =
      Returns (take (unat n) data @ drop (unat n) (twi_masterBuffer s1))"
    using 1(2) assms(2,3) by (simp add: idle_driver_def bufs_ok_def)
  let ?s2 = "twi_start (s1\<lparr>twi_state := TWI_MTX, twi_error := 0xFF, twi_masterBufferIndex := 0,
      twi_masterBufferLength := n,
      twi_masterBuffer := take (unat n) data @ drop (unat n) (twi_masterBuffer s1),
      twi_slarw := TW_WRITE OR push_bit 1 0x6f\<rparr>)"
  have st: "started TWI_MTX (push_bit 1 (chip_addr ch)) ?s2"
    using 1(2) assms(2,3)
    by (simp add: started_def twi_start_def idle_driver_def bufs_ok_def bit_simps dev_addr)
  have "length (take (unat n) data) = unat n" using assms(3) by simp
  then have "take (unat n) (take (unat n) data @ drop (unat n) (twi_masterBuffer s1)) = a # vs"
    using assms(4) by (simp only: take_append) simp
  then have fields: "twi_masterBufferLength ?s2 = n"
    "take (unat n) (twi_masterBuffer ?s2) = a # vs"
    "twi_error ?s2 = 0xFF" "twi_state ?s2 = TWI_MTX"
    by (simp_all add: twi_start_def)
  have n: "0 < n" using assms(4) by (auto simp: word_gt_0)
  show ?thesis
  proof (cases "w = 0")
    case True
    have "drv_write cb ch 0x6f data n w b = Returns (0, (?s2, ph1, c1))"
      using small 1(1) buf True fields(3)
      by (simp add: drv_write_def b twi_writeTo_def Let_def wait_while_done)
    moreover have "pending ?s2 = a # vs"
      using fields by (simp add: pending_def)
    ultimately show ?thesis
      using st n small 1(3) fields
      by (auto simp: drv_ok_def dev_addr drv_regs_def drv_ptr_def)
  next
    case False
    have busy: "waits_busy TWI_MTX (\<lambda>s. w \<noteq> 0 \<and> twi_state s = TWI_MTX)"
      using False by (auto simp: waits_busy_def)
    have sla: "\<not> bit (chip_addr ch) 7" by (simp add: dev_addr)
    obtain s3 where 3: "wait_while cb (twi_unit ch) (\<lambda>s. w \<noteq> 0 \<and> twi_state s = TWI_MTX) ?s2 (ph1, c1) =
        Returns (s3, (Writing, fold (chip_write ch) (a # vs) (chip_start ch c1)))"
      "idle_driver s3" "twi_error s3 = 0xFF"
      using write_transfer [OF busy st sla, of cb ph1 c1] small fields by auto
    have "drv_write cb ch 0x6f data n w b =
        Returns (0, (s3, Writing, fold (chip_write ch) (a # vs) (chip_start ch c1)))"
      using small 1(1) buf 3(1,3)
      by (simp add: drv_write_def b twi_writeTo_def Let_def)
    moreover have "pending s3 = []" using 3(2) by (simp add: pending_def idle_driver_def)
    ultimately show ?thesis
      using 3(2) 1(3) whole_write [of a vs c1] by (auto simp: drv_ok_def drv_regs_def drv_ptr_def)
  qed
qed

lemma drv_read_regs:
  assumes "drv_ok b" and "data \<noteq> []"
  shows "\<exists>b'. drv_read cb ch 0x6f data 1 b = Returns (1, data[0 := drv_regs cregs b (drv_ptr cptr b)], b') \<and>
      drv_ok b' \<and> drv_regs cregs b' = drv_regs cregs b"
proof -
  obtain s ph c where b: "b = (s, ph, c)" by (cases b)
  obtain s1 ph1 c1 where 1:
    "wait_while cb (twi_unit ch) (\<lambda>s. twi_state s \<noteq> TWI_READY) s (ph, c) = Returns (s1, (ph1, c1))"
    "idle_driver s1" "cregs c1 = drv_regs cregs b" "cptr c1 = drv_ptr cptr b"
    by (rule settle [where cb = cb]) (use assms(1) b in auto)
  let ?s2 = "twi_start (s1\<lparr>twi_state := TWI_MRX, twi_error := 0xFF, twi_masterBufferIndex := 0,
      twi_masterBufferLength := 0, twi_slarw := TW_READ OR push_bit 1 0x6f\<rparr>)"
  have st: "started TWI_MRX (TW_READ OR push_bit 1 (chip_addr ch)) ?s2"
    using 1(2) by (simp add: started_def twi_start_def idle_driver_def bufs_ok_def bit_simps dev_addr)
  have len: "twi_masterBufferLength ?s2 = 0" by (simp add: twi_start_def)
  have sla: "\<not> bit (chip_addr ch) 7" by (simp add: dev_addr)
  obtain d c2 where d: "chip_read ch c1 = (d, c2)" by (cases "chip_read ch c1")
  then have dv: "d = drv_regs cregs b (drv_ptr cptr b)" "cregs c2 = drv_regs cregs b"
    using dev_read [of c1] 1(3,4) by auto
  obtain s3 where 3: "wait_while cb (twi_unit ch) (\<lambda>s. twi_state s = TWI_MRX) ?s2 (ph1, c1) =
        Returns (s3, (Reading, c2))"
      "idle_driver s3" "unat (twi_masterBufferIndex s3) = 1" "take 1 (twi_masterBuffer s3) = [d]"
    using read_transfer [OF waits_mode st sla, of c1 "[d]" c2 cb ph1] len d by auto
  have idx: "twi_masterBufferIndex s3 = 1" using 3(3) by (simp add: word_unat_eq_iff)
  obtain x xs where data: "data = x # xs" using assms(2) by (cases data) auto
  have "drv_read cb ch 0x6f data 1 b = Returns (1, d # xs, (s3, Reading, c2))"
    using 1(1) 3(1,2,4) idx data
    by (simp add: drv_read_def b twi_readFrom_def Let_def idle_driver_def bufs_ok_def)
  moreover have "pending s3 = []" using 3(2) by (simp add: pending_def idle_driver_def)
  ultimately show ?thesis
    using 3(2) dv data by (auto simp: drv_ok_def drv_regs_def)
qed

end

sublocale reg_chip \<subseteq> clock: rtc_client "drv_write cb ch" "drv_read cb ch"
    "drv_regs cregs" "drv_ptr cptr" drv_ok for cb
  apply unfold_locales
  subgoal by (rule drv_write_regs)
  subgoal by (rule drv_read_regs)
  done

context reg_chip begin

lemmas driver_set_then_get = clock.set_then_get
lemmas driver_set_alarm0 = clock.set_alarm0_regs
lemmas driver_clear_alarm0 = clock.clear_alarm0_regs
lemmas driver_reset_rtc = clock.reset_rtc_regs
lemmas driver_set_time = clock.set_time_regs
lemmas driver_get_time = clock.get_time_regs

end

subsection \<open>A register file\<close>

text \<open>
  A chip that keeps its promise: 256 registers, the address pointer, and whether the next
  byte is an address.
\<close>

type_synonym reg_state = "(u8 \<Rightarrow> u8) \<times> u8 \<times> bool"

definition regfile :: "reg_state chip" where
  "regfile = \<lparr>chip_addr = 0x6f,
     chip_start = (\<lambda>(m, p, f). (m, p, True)),
     chip_write = (\<lambda>v (m, p, f). if f then (m, v, False) else (m(p := v), p + 1, False)),
     chip_read = (\<lambda>(m, p, f). (m p, (m, p + 1, f)))\<rparr>"

interpretation regfile: reg_chip regfile fst "fst \<circ> snd" "snd \<circ> snd"
  by unfold_locales (auto simp: regfile_def split: prod.splits)

subsection \<open>The clock behind the I2C driver\<close>

text \<open>Clock and I2C driver as the firmware leaves them after start-up.\<close>

definition rtc_zero :: "'b \<Rightarrow> 'b rtc" where
  "rtc_zero b = \<lparr>rtc_state = 0, tx_buffer = replicate 8 0, rx_buffer = replicate 8 0, bus = b\<rparr>"

lemma rtc_zero_ok: "rtc_ok drv_ok (rtc_zero (twi_zero, Idle, c))"
  by (simp add: rtc_ok_def rtc_zero_def drv_ok_def idle_driver_def twi_zero_def bufs_ok_def)

text \<open>C13: the time read back over I2C is the time that was set, on every chip that is a register file.\<close>

theorem clock_set_then_get:
  assumes "reg_chip ch cregs cptr fresh" and "rtc_ok drv_ok s" and "valid_time t"
  shows "\<exists>s1 s2. set_time (drv_write cb ch) t s = Returns s1 \<and>
      get_time (drv_write cb ch) (drv_read cb ch) s1 = Returns (t, s2)"
  by (rule reg_chip.driver_set_then_get [OF assms]) blast

definition sample_time :: time where
  "sample_time = mktime 12 10 31 23 59 58"

abbreviation sample_rtc :: "reg_state drv rtc" where
  "sample_rtc \<equiv> rtc_zero (twi_zero, Idle, (\<lambda>_. 0, 0, False))"

lemma clock_set_then_get_witness:
  "\<exists>s1 s2. set_time (drv_write no_callbacks regfile) sample_time sample_rtc = Returns s1 \<and>
     get_time (drv_write no_callbacks regfile) (drv_read no_callbacks regfile) s1 =
       Returns (sample_time, s2)"
  by (rule clock_set_then_get [OF regfile.reg_chip_axioms rtc_zero_ok])
    (simp add: valid_time_def sample_time_def mktime_def)

text \<open>
  C14: arming an alarm stores its fields behind the alarm registers and enables it; clearing it
  disables it again; neither touches the running time.
\<close>

theorem clock_alarm_round:
  assumes "reg_chip ch cregs cptr fresh" and "rtc_ok drv_ok s"
  shows "\<exists>s1 s2. set_alarm0 (drv_write cb ch) (drv_read cb ch) t s = Returns s1 \<and>
      clear_alarm0 (drv_write cb ch) s1 = Returns s2 \<and>
      map (drv_regs cregs (bus s1)) [0x07, 0x0A, 0x0B, 0x0C, 0x0E, 0x0F, 0x10] =
        [0x10, dec2bcd (second t AND 0x7f), dec2bcd (minute t AND 0x7f), dec2bcd (hour t AND 0x3f),
         dec2bcd (day t AND 0x3f), dec2bcd (month t AND 0x1f), dec2bcd (year t)] \<and>
      drv_regs cregs (bus s2) 0x07 = 0x80 \<and>
      decode_regs (drv_regs cregs (bus s2)) = decode_regs (drv_regs cregs (bus s))"
proof -
  obtain s1 where 1: "set_alarm0 (drv_write cb ch) (drv_read cb ch) t s = Returns s1"
    "rtc_ok drv_ok s1"
    "drv_regs cregs (bus s1) = (poke (drv_regs cregs (bus s)) 0x0A
      [dec2bcd (second t AND 0x7f), dec2bcd (minute t AND 0x7f), dec2bcd (hour t AND 0x3f),
       0x70 OR (drv_regs cregs (bus s) 3 AND 7), dec2bcd (day t AND 0x3f), dec2bcd (month t AND 0x1f),
       dec2bcd (year t)])(0x07 := 0x10)"
    by (rule reg_chip.driver_set_alarm0 [OF assms])
  obtain s2 where 2: "clear_alarm0 (drv_write cb ch) s1 = Returns s2"
    "drv_regs cregs (bus s2) = (drv_regs cregs (bus s1))(0x0D := 0, 0x07 := 0x80)"
    by (rule reg_chip.driver_clear_alarm0 [OF assms(1) 1(2)])
  show ?thesis using 1 2 by (simp add: decode_regs_def)
qed

lemma clock_alarm_round_witness:
  "\<exists>s1 s2. set_alarm0 (drv_write no_callbacks regfile) (drv_read no_callbacks regfile) sample_time
       sample_rtc = Returns s1 \<and>
     clear_alarm0 (drv_write no_callbacks regfile) s1 = Returns s2 \<and>
     map (drv_regs fst (bus s1)) [0x07, 0x0A, 0x0B, 0x0C, 0x0E, 0x0F, 0x10] =
       [0x10, 0x58, 0x59, 0x23, 0x31, 0x10, 0x12]"
proof -
  have "map (\<lambda>f. f sample_time)
      [\<lambda>t. dec2bcd (second t AND 0x7f), \<lambda>t. dec2bcd (minute t AND 0x7f), \<lambda>t. dec2bcd (hour t AND 0x3f),
       \<lambda>t. dec2bcd (day t AND 0x3f), \<lambda>t. dec2bcd (month t AND 0x1f), \<lambda>t. dec2bcd (year t)] =
      [0x58, 0x59, 0x23, 0x31, 0x10, 0x12]"
    by (simp add: sample_time_def mktime_def dec2bcd_def)
  then show ?thesis
    using clock_alarm_round [OF regfile.reg_chip_axioms rtc_zero_ok, of no_callbacks sample_time
        "(\<lambda>_. 0, 0, False)"] by auto
qed

text \<open>
  \<^verbatim>\<open>reset_rtc\<close> restarts the clock at second 0 and overwrites the weekday register with
  the battery flag; minutes, hours and the date keep running.
\<close>

lemma clock_reset_keeps_date:
  assumes "reg_chip ch cregs cptr fresh" and "rtc_ok drv_ok s"
  shows "\<exists>s1. reset_rtc (drv_write cb ch) s = Returns s1 \<and>
      drv_regs cregs (bus s1) 3 = RTC_VBATEN \<and>
      decode_regs (drv_regs cregs (bus s1)) = decode_regs (drv_regs cregs (bus s)) \<lparr>second := 0\<rparr>"
proof -
  obtain s1 where 1: "reset_rtc (drv_write cb ch) s = Returns s1"
    "drv_regs cregs (bus s1) = (drv_regs cregs (bus s))(0x03 := 0x08, 0x00 := 0x80)"
    by (rule reg_chip.driver_reset_rtc [OF assms])
  then show ?thesis by (simp add: decode_regs_def mktime_def bcd2dec_def)
qed

end
