(* ===== verification/CommandClaims.thy ===== *)
theory CommandClaims
  imports Commands Clock
begin
unbundle bit_operations_syntax

text \<open>
  What a host on the other end of the USB line can rely on: the commands read what was printed
  for them, store it and print it back. And where they leave their arrays or never return.
\<close>

subsection \<open>The formats\<close>

lemma fmt_clock: "scan_format ''Y%dM%dD%dH%dM%dS%d'' =
    [Lit CHR ''Y'', Conv_int, Lit CHR ''M'', Conv_int, Lit CHR ''D'', Conv_int, Lit CHR ''H'', Conv_int,
     Lit CHR ''M'', Conv_int, Lit CHR ''S'', Conv_int]"
  by code_simp

lemma fmt_int: "scan_format ''%d'' = [Conv_int]"
  by code_simp

lemma fmt_passes: "scan_format ''%d\<newline>'' = [Conv_int, Space]"
  by code_simp

lemma fmt_pass: "scan_format ''%lu,%u,'' = [Conv_int, Lit CHR '','', Conv_int, Lit CHR '','']"
  by code_simp

lemma fmt_color: "scan_format ''%d,%d,%d'' = [Conv_int, Lit CHR '','', Conv_int, Lit CHR '','', Conv_int]"
  by code_simp

declare scan_format.simps [simp del]

lemma not_digits [simp]:
  "\<not> isdigit CHR ''M''" "\<not> isdigit CHR ''D''" "\<not> isdigit CHR ''H''" "\<not> isdigit CHR ''S''"
  "\<not> isdigit CHR '',''" "\<not> isdigit CHR ''\<newline>''" "isspace CHR ''\<newline>''"
  by code_simp+

text \<open>A number directive on a number that another character follows.\<close>

lemma scan_numeral_then:
  assumes "numeral_of n s" and "\<not> isdigit c"
  shows "scan (Conv_int # fs) (map Some s @ Some c # r) =
      (case scan fs (Some c # r) of (vs, e, i) \<Rightarrow> (of_nat n # vs, e, i))"
  using scan_numeral [OF assms(1), of "Some c # r" fs] assms(2) by simp

lemma scan_numeral_end:
  "numeral_of n s \<Longrightarrow> no_digit r \<Longrightarrow> scan [Conv_int] (map Some s @ r) = ([of_nat n], False, drop_none r)"
  by (simp add: scan_numeral del: scan.simps(5))

lemmas scan_numerals = scan_numeral_then scan_numeral_end numeral_dec numeral_02d

subsection \<open>Setting and telling the time\<close>

lemma narrow_wide [simp]: "ucast (ucast v :: u32) = (v :: u8)" "ucast (ucast w :: u32) = (w :: u16)"
  by (transfer; simp)+

lemma numeral_uint: "numeral_of (unat v) (put_02d (uint v))" for v :: u8
  using numeral_02d [of "unat v"] by simp

lemma scan_timestamp:
  assumes "no_digit r"
  shows "scan (scan_format ''Y%dM%dD%dH%dM%dS%d'') (map Some (timestamp t) @ r) =
      (map ucast [year t, month t, day t, hour t, minute t, second t], False, drop_none r)"
  by (simp add: fmt_clock timestamp_def scan_numeral_then [OF numeral_uint]
      scan_numeral_end [OF numeral_uint assms] del: scan.simps(5))


text \<open>A firmware state to try things on.\<close>

definition fw_zero :: "'b \<Rightarrow> istream \<Rightarrow> 'b fw" where
  "fw_zero b i =
     \<lparr>usb_in = i, usb_out = [], show_lights = replicate 8 (0, 0, 0), leds = LED_Init led_zero,
      do_rainbow = False, previousMillis = 0, bow_rotate = 0, ms = 0, reset_alarm = 0, alarm = 0,
      pass = 0, fw_clock = rtc_zero b, NonVolatileColor = 0xFFFF, NonVolatile_Blue_WB = 0xFF,
      NonVolatile_Green_WB = 0xFF, NonVolatile_Red_WB = 0xFF, NumOfStoredISSPasses = 0xFF,
      StoredISSPasses = replicate 60 0xFF\<rparr>"

abbreviation sample_fw :: "istream \<Rightarrow> reg_state drv fw" where
  "sample_fw \<equiv> fw_zero (twi_zero, Idle, (\<lambda>_. 0, 0, False))"

definition sample_passes :: "ipass list" where
  "sample_passes = [\<lparr>time = 1349000000, duration = 612\<rparr>, \<lparr>time = 1349005600, duration = 9\<rparr>]"

definition zero_pass :: ipass where
  "zero_pass = \<lparr>time = 0, duration = 0\<rparr>"

lemma fw_zero_rtc: "rtc_ok drv_ok (fw_clock (fw_zero (twi_zero, Idle, c) i))"
  by (simp add: fw_zero_def rtc_zero_ok)

text \<open>
  C8: a time that was printed and sent back with the clock command is the time the next time
  command prints, on every register-file chip, whatever the chip held before.
\<close>

theorem set_clock_say_time:
  assumes "reg_chip ch cregs cptr fresh" and "rtc_ok drv_ok (fw_clock s)" and "valid_time t"
    and "usb_in s = map Some (timestamp t) @ r" and "no_digit r"
  shows "\<exists>s1 s2. set_clock (drv_write cb ch) s = Returns s1 \<and> usb_out s1 = usb_out s @ ''set'' \<and>
      usb_in s1 = drop_none r \<and>
      say_time (drv_write cb ch) (drv_read cb ch) s1 = Returns s2 \<and>
      usb_out s2 = usb_out s1 @ timestamp t"
proof -
  obtain c1 where c1: "reset_rtc (drv_write cb ch) (fw_clock s) = Returns c1" "rtc_ok drv_ok c1"
    by (rule reg_chip.driver_reset_rtc [OF assms(1,2)])
  obtain c2 c3 where c2: "set_time (drv_write cb ch) t c1 = Returns c2"
    "get_time (drv_write cb ch) (drv_read cb ch) c2 = Returns (t, c3)"
    by (rule reg_chip.driver_set_then_get [OF assms(1) c1(2) assms(3)])
  have t: "mktime (year t) (month t) (day t) (hour t) (minute t) (second t) = t"
    by (simp add: mktime_def)
  have "set_clock (drv_write cb ch) s =
      Returns (puts ''set'' (s\<lparr>usb_in := drop_none r, fw_clock := c2\<rparr>))"
    using c1(1) c2(1) t
    by (simp add: set_clock_def scanf_def fscanf_def assms(4) scan_timestamp [OF assms(5)])
  then show ?thesis
    using c2(2) by (simp add: say_time_def puts_def)
qed

lemma set_clock_say_time_witness:
  "\<exists>s1 s2. set_clock (drv_write no_callbacks regfile) (sample_fw (map Some (timestamp sample_time) @ [None])) =
      Returns s1 \<and> usb_out s1 = ''set'' \<and> usb_in s1 = [] \<and>
      say_time (drv_write no_callbacks regfile) (drv_read no_callbacks regfile) s1 = Returns s2 \<and>
      usb_out s2 = ''set'' @ timestamp sample_time"
  using set_clock_say_time [OF regfile.reg_chip_axioms fw_zero_rtc,
      of sample_time "(\<lambda>_. 0, 0, False)" "map Some (timestamp sample_time) @ [None]" "[None]" no_callbacks]
  by (auto simp: valid_time_def sample_time_def mktime_def fw_zero_def)

subsection \<open>Storing passes\<close>

text \<open>What a client sends: the number of passes, a line break, and time and duration of each.\<close>

definition pass_text :: "ipass \<Rightarrow> string" where
  "pass_text p = put_u (unat (time p)) @ '','' @ put_u (unat (duration p)) @ '',''"

definition passes_text :: "ipass list \<Rightarrow> string" where
  "passes_text ps = put_u (length ps) @ ''\<newline>'' @ concat (map pass_text ps)"

lemma ipass_bytes_length [simp]: "length (ipass_bytes p) = 6"
  by (simp add: ipass_bytes_def)

lemma bytes_of_word:
  "ucast (ucast v :: u8) OR push_bit 8 (ucast (ucast (drop_bit 8 v) :: u8)) OR
     push_bit 16 (ucast (ucast (drop_bit 16 v) :: u8)) OR
     push_bit 24 (ucast (ucast (drop_bit 24 v) :: u8)) = (v :: u32)"
proof (rule bit_word_eqI)
  fix n assume "n < LENGTH(32)"
  then have n: "n < 32" by simp
  show "bit (ucast (ucast v :: u8) OR push_bit 8 (ucast (ucast (drop_bit 8 v) :: u8)) OR
     push_bit 16 (ucast (ucast (drop_bit 16 v) :: u8)) OR
     push_bit 24 (ucast (ucast (drop_bit 24 v) :: u8)) :: u32) n = bit v n"
    using n by (cases "n < 8"; cases "n < 16"; cases "n < 24") (auto simp: bit_simps)
qed

lemma ipass_of_bytes [simp]: "ipass_of (ipass_bytes p) = p"
proof (cases p)
  case (fields t d)
  then show ?thesis
    using bytes_of_word [of t] by (simp add: ipass_of_def ipass_bytes_def)
qed

lemma passes_of_bytes [simp]: "passes_of (ipass_bytes p @ bs) = p # passes_of bs"
  using ipass_of_bytes [of p] by (simp add: ipass_bytes_def)

lemma passes_of_concat [simp]: "passes_of (concat (map ipass_bytes ps) @ bs) = ps @ passes_of bs"
  by (induction ps) simp_all

lemma length_concat_bytes [simp]: "length (concat (map ipass_bytes ps)) = 6 * length ps"
  by (induction ps) simp_all

lemma u16_of_nat: "as_u16 (ucast (w :: u16)) = w"
  by (simp add: as_u16_def)

lemma ipass_eta [simp]: "\<lparr>time = time p, duration = duration p\<rparr> = p"
  by (cases p) simp

lemma scan_pass:
  "fscanf ''%lu,%u,'' (map Some (pass_text p) @ r) = (2, [time p, ucast (duration p)], r)"
  by (simp add: fscanf_def fmt_pass pass_text_def put_u_def scan_numeral_then [OF numeral_dec]
      del: scan.simps(5))

text \<open>One turn of the loop on a pass that the client sent.\<close>

lemma passes_loop_step:
  assumes "uint i < num"
  shows "passes_loop num i block (map Some (pass_text p) @ r) =
     (if unat i < length block then passes_loop num (i + 1) (block[unat i := p]) r
      else Faults OutOfBounds)"
  using assms by (subst passes_loop.simps) (simp add: scan_pass u16_of_nat)

lemma passes_loop_all:
  "uint i + int (length ps) = num \<Longrightarrow> num \<le> 10 \<Longrightarrow> length block = 10 \<Longrightarrow>
    passes_loop num i block (map Some (concat (map pass_text ps)) @ r) =
      Returns (take (unat i) block @ ps @ drop (unat i + length ps) block, r)"
proof (induction ps arbitrary: i block)
  case Nil
  then show ?case by (subst passes_loop.simps) simp
next
  case (Cons p ps)
  have i: "uint i < 10" "uint i < num" using Cons.prems by simp_all
  have "nat (uint i) < nat 10" using i(1) by (subst nat_less_eq_zless) simp_all
  then have u: "unat i < 10" by simp
  have inc: "uint (i + 1) = uint i + 1" "unat (i + 1) = Suc (unat i)"
    using i u by (simp_all add: uint_word_ariths unat_word_ariths)
  let ?b = "block[unat i := p]"
  have "passes_loop num i block (map Some (concat (map pass_text (p # ps))) @ r) =
      passes_loop num (i + 1) ?b (map Some (concat (map pass_text ps)) @ r)"
    using passes_loop_step [OF i(2), of block p] u Cons.prems by simp
  also have "\<dots> = Returns (take (Suc (unat i)) ?b @ ps @ drop (Suc (unat i) + length ps) ?b, r)"
    using Cons.IH [of "i + 1" ?b] Cons.prems inc by simp
  finally show ?case using u Cons.prems by (simp add: take_Suc_conv_app_nth)
qed

lemma concat_text: "map Some (concat (map pass_text ps)) = concat (map (map Some \<circ> pass_text) ps)"
  by (induction ps) simp_all

lemma pass_text_Cons: "\<exists>c cs. pass_text p = c # cs \<and> \<not> isspace c"
  using dec_Cons [of "unat (time p)"] digit_plain by (auto simp: pass_text_def put_u_def)

lemma scan_count:
  assumes "ps \<noteq> []"
  shows "fscanf ''%d\<newline>'' (map Some (put_u n @ ''\<newline>'' @ concat (map pass_text ps)) @ r) =
      (1, [of_nat n], map Some (concat (map pass_text ps)) @ r)"
proof -
  obtain p ps' where ps: "ps = p # ps'" using assms by (cases ps) auto
  obtain c cs where "pass_text p = c # cs" "\<not> isspace c" using pass_text_Cons [of p] by blast
  then show ?thesis
    by (simp add: fscanf_def fmt_passes put_u_def scan_numeral_then [OF numeral_dec] ps ungetc_def
        del: scan.simps(5))
qed

lemma as_int_of_int: "- 32768 \<le> k \<Longrightarrow> k \<le> 32767 \<Longrightarrow> as_int (of_int k) = k"
proof -
  assume k: "- 32768 \<le> k" "k \<le> 32767"
  have "(ucast (of_int k :: u32) :: u16) = of_int k"
    by (rule bit_word_eqI) (simp add: bit_simps)
  then show ?thesis using k by (simp add: as_int_def int_word_sint)
qed

lemma as_int_small: "n \<le> 32767 \<Longrightarrow> as_int (of_nat n) = int n"
  using as_int_of_int [of "int n"] by simp

lemma block_bytes:
  "length ps \<le> 10 \<Longrightarrow> length stack = 10 \<Longrightarrow>
    take (6 * length ps) (concat (map ipass_bytes (ps @ drop (length ps) stack))) =
      concat (map ipass_bytes ps)"
  by simp

text \<open>
  C9: one to ten passes sent by the host end up in the EEPROM block, byte for byte and in order,
  with their number, and nothing else in the block changes.
\<close>

theorem set_passes_stores:
  assumes "ps \<noteq> []" and "length ps \<le> 10" and "length stack = 10"
    and "length (StoredISSPasses s) = 60" and "usb_in s = map Some (passes_text ps) @ r"
  shows "\<exists>s'. set_passes stack s = Returns s' \<and> usb_in s' = r \<and> usb_out s' = usb_out s @ ''set'' \<and>
      NumOfStoredISSPasses s' = of_nat (length ps) \<and>
      StoredISSPasses s' =
        concat (map ipass_bytes ps) @ drop (6 * length ps) (StoredISSPasses s)"
proof -
  let ?blk = "ps @ drop (length ps) stack"
  have "fscanf ''%d\<newline>'' (usb_in s) = (1, [of_nat (length ps)], map Some (concat (map pass_text ps)) @ r)"
    using scan_count [OF assms(1), of "length ps" r] by (simp add: assms(5) passes_text_def)
  moreover have "as_int (of_nat (length ps)) = int (length ps)"
    using assms(2) by (intro as_int_small) simp
  moreover have "passes_loop (int (length ps)) 0 stack (map Some (concat (map pass_text ps)) @ r) =
      Returns (?blk, r)"
    using passes_loop_all [of 0 ps "int (length ps)" stack r] assms(2,3) by simp
  moreover have "copy_array (concat (map ipass_bytes ?blk)) (6 * length ps) (StoredISSPasses s) =
      Returns (concat (map ipass_bytes ps) @ drop (6 * length ps) (StoredISSPasses s))"
    using assms(2-4) block_bytes [OF assms(2,3)]
    by (subst copy_array_ok) (simp_all del: concat_append map_append)
  moreover have "nat ((6 * int (length ps)) mod 65536) = 6 * length ps"
    using assms(2) by (simp add: nat_mult_distrib)
  ultimately show ?thesis
    by (simp add: set_passes_def scanf_def puts_def nat_mult_distrib del: concat_append map_append)
qed

lemma set_passes_stores_witness:
  "\<exists>s'. set_passes (replicate 10 zero_pass) (sample_fw (map Some (passes_text sample_passes))) = Returns s' \<and>
      usb_in s' = [] \<and> usb_out s' = ''set'' \<and> NumOfStoredISSPasses s' = 2 \<and>
      passes_of (take 12 (StoredISSPasses s')) = sample_passes"
proof -
  have "length (concat (map ipass_bytes sample_passes)) = 12"
    by (simp add: sample_passes_def)
  then show ?thesis
    using set_passes_stores [of sample_passes "replicate 10 zero_pass"
        "sample_fw (map Some (passes_text sample_passes))" "[]"]
      passes_of_concat [of sample_passes "[]"]
    by (auto simp: fw_zero_def sample_passes_def)
qed

text \<open>
  The dump command prints the color, the number of passes and every stored pass with its
  time and duration.
\<close>

lemma dump_mem_lists:
  assumes "length ps \<le> 10" and "length stack = 10"
    and "NumOfStoredISSPasses s = of_nat (length ps)"
    and "StoredISSPasses s = concat (map ipass_bytes ps) @ bs"
  shows "\<exists>s'. dump_mem stack s = Returns s' \<and>
      usb_out s' = usb_out s @ ''0x00 - color: '' @ put_d (sint (NonVolatileColor s)) @
        ''|0x01 - npasses: '' @ put_d (int (length ps)) @ ''|'' @
        concat (map (\<lambda>i. dump_pass i (ps ! i)) [0..<length ps]) \<and>
      s'\<lparr>usb_out := usb_out s\<rparr> = s"
proof -
  have out: "usb_out (fold (\<lambda>i. puts (f i)) is s0) = usb_out s0 @ concat (map f is) \<and>
      (fold (\<lambda>i. puts (f i)) is s0)\<lparr>usb_out := o0\<rparr> = s0\<lparr>usb_out := o0\<rparr>"
    for f :: "nat \<Rightarrow> string" and "is" and s0 :: "'a fw" and o0
    by (induction "is" arbitrary: s0) (simp_all add: puts_def)
  have u: "unat (of_nat (length ps) :: u8) = length ps"
    using assms(1) by (simp add: unat_of_nat)
  have n: "uint (of_nat (length ps) :: u8) = int (length ps)"
    using arg_cong [OF u, of int] by simp
  have le: "\<not> 10 < (of_nat (length ps) :: u8)"
    using assms(1) by (simp add: word_less_nat_alt u)
  have bytes: "copy_array (StoredISSPasses s) (6 * length ps) (concat (map ipass_bytes stack)) =
      Returns (concat (map ipass_bytes ps) @ drop (6 * length ps) (concat (map ipass_bytes stack)))"
    using assms by simp
  have eq: "map (\<lambda>i. dump_pass i ((ps @ xs) ! i)) [0..<length ps] =
      map (\<lambda>i. dump_pass i (ps ! i)) [0..<length ps]" for xs
    by (simp add: nth_append)
  show ?thesis
    by (simp add: dump_mem_def Let_def assms(3) u n le bytes out eq) (simp add: puts_def)
qed


subsection \<open>Where the array is left\<close>

lemma passes_loop_overrun:
  "unat i \<le> 10 \<Longrightarrow> unat i + length ps = 11 \<Longrightarrow> num > 10 \<Longrightarrow> length block = 10 \<Longrightarrow>
    passes_loop num i block (map Some (concat (map pass_text ps)) @ r) = Faults OutOfBounds"
proof (induction ps arbitrary: i block)
  case Nil
  then show ?case by simp
next
  case (Cons p ps)
  have u: "unat i \<le> 10" by (rule Cons.prems(1))
  have "int (unat i) \<le> 10" using u by linarith
  then have i: "uint i < num" using Cons.prems(3) by simp
  show ?case
  proof (cases "unat i = 10")
    case True
    then show ?thesis
      using passes_loop_step [OF i, of block p "map Some (concat (map pass_text ps)) @ r"]
        Cons.prems by simp
  next
    case False
    then have "unat i < 10" using u by simp
    moreover from this have "unat (i + 1) = Suc (unat i)" by (simp add: unat_word_ariths)
    ultimately show ?thesis
      using passes_loop_step [OF i, of block p "map Some (concat (map pass_text ps)) @ r"]
        Cons.prems Cons.IH [of "i + 1" "block[unat i := p]"] by simp
  qed
qed

text \<open>
  C10: a count above ten with eleven passes behind it writes past the array of ten.
\<close>

theorem set_passes_overrun:
  assumes "length ps = 11" and "10 < n" and "n \<le> 32767" and "length stack = 10"
    and "usb_in s = map Some (put_u n @ ''\<newline>'' @ concat (map pass_text ps)) @ r"
  shows "set_passes stack s = Faults OutOfBounds"
proof -
  have "ps \<noteq> []" using assms(1) by auto
  then have "fscanf ''%d\<newline>'' (usb_in s) = (1, [of_nat n], map Some (concat (map pass_text ps)) @ r)"
    using scan_count [of ps n r] by (simp add: assms(5))
  moreover have "as_int (of_nat n) = int n" using assms(3) by (rule as_int_small)
  moreover have "passes_loop (int n) 0 stack (map Some (concat (map pass_text ps)) @ r) = Faults OutOfBounds"
    by (rule passes_loop_overrun) (use assms in simp_all)
  ultimately show ?thesis by (simp add: set_passes_def scanf_def)
qed

lemma set_passes_overrun_witness:
  "set_passes (replicate 10 zero_pass)
     (sample_fw (map Some (put_u 11 @ ''\<newline>'' @ concat (map pass_text (replicate 11 zero_pass))) @ [])) =
     Faults OutOfBounds"
  by (rule set_passes_overrun [of "replicate 11 zero_pass" 11]) (simp_all add: fw_zero_def)

text \<open>The counter has eight bits: a count above 255 without data is never reached.\<close>

lemma passes_loop_diverges:
  assumes "passes_loop num i block [] = Some x" and "255 < num"
  shows False
proof -
  let ?Q = "\<lambda>num (i :: u8) (block :: ipass list) (inp :: istream) (x :: fault + ipass list \<times> istream).
      255 < num \<longrightarrow> inp = [] \<longrightarrow> False"
  have "?Q num i block [] x"
  proof (rule passes_loop.raw_induct [where P = ?Q, OF _ assms(1)])
    fix pl :: "int \<Rightarrow> u8 \<Rightarrow> ipass list \<Rightarrow> istream \<Rightarrow> (ipass list \<times> istream) outcome"
      and num i block inp x
    assume IH: "\<And>num i block inp x. pl num i block inp = Some x \<Longrightarrow> ?Q num i block inp x"
      and eq: "(if uint i < num then
          (case fscanf ''%lu,%u,'' inp of (n, vs, inp1) \<Rightarrow>
             if n = 2 then
               if unat i < length block then
                 pl num (i + 1) (block[unat i := \<lparr>time = vs ! 0, duration = as_u16 (vs ! 1)\<rparr>]) inp1
               else Faults OutOfBounds
             else pl num (i + 1) block inp1)
        else Returns (block, inp)) = Some x"
    have "False" if "255 < num" "inp = []"
    proof -
      have "int (unat i) < 256" by (simp only: of_nat_less_numeral_iff unat_u8_less)
      then have "uint i < num" using that(1) by simp
      then have "pl num (i + 1) block [] = Some x"
        using eq that(2) by (simp add: fscanf_def fmt_pass)
      from IH [OF this] that(1) show ?thesis by simp
    qed
    then show "?Q num i block inp x" by blast
  qed
  with assms(2) show ?thesis by simp
qed

text \<open>
  C11: a count above 255 with no pass behind it makes the command, and with it the firmware's
  main loop, run forever.
\<close>

theorem set_passes_hangs:
  assumes "255 < n" and "n \<le> 32767" and "usb_in s = map Some (put_u n @ ''\<newline>'')"
  shows "set_passes stack s = Hangs"
proof -
  have "fscanf ''%d\<newline>'' (usb_in s) = (1, [of_nat n], [])"
    by (simp add: assms(3) fscanf_def fmt_passes put_u_def scan_numeral_then [OF numeral_dec]
        del: scan.simps(5))
  moreover have "as_int (of_nat n) = int n" using assms(2) by (rule as_int_small)
  moreover have "passes_loop (int n) 0 stack [] = Hangs"
    using passes_loop_diverges [of "int n" 0 stack] assms(1)
    by (cases "passes_loop (int n) 0 stack []") auto
  ultimately show ?thesis by (simp add: set_passes_def scanf_def)
qed

lemma set_passes_hangs_witness:
  "set_passes (replicate 10 zero_pass) (sample_fw (map Some (put_u 300 @ ''\<newline>''))) = Hangs"
  by (rule set_passes_hangs [of 300]) (simp_all add: fw_zero_def)

subsection \<open>Clock and lights\<close>

text \<open>
  A clock command the parser rejects answers ``err'', but the seconds and the weekday of
  the clock have been overwritten by then.
\<close>

lemma set_clock_err_resets:
  assumes "reg_chip ch cregs cptr fresh" and "rtc_ok drv_ok (fw_clock s)"
    and "usb_in s = x # r" and "x \<noteq> Some CHR ''Y''"
  shows "\<exists>s1. set_clock (drv_write cb ch) s = Returns s1 \<and> usb_out s1 = usb_out s @ ''err'' \<and>
      drv_regs cregs (bus (fw_clock s1)) 0 = 0x80 \<and> drv_regs cregs (bus (fw_clock s1)) 3 = 0x08"
proof -
  obtain c1 where c1: "reset_rtc (drv_write cb ch) (fw_clock s) = Returns c1"
    "drv_regs cregs (bus c1) = (drv_regs cregs (bus (fw_clock s)))(0x03 := 0x08, 0x00 := 0x80)"
    by (rule reg_chip.driver_reset_rtc [OF assms(1,2)])
  show ?thesis
    using c1 assms(3,4)
    by (cases x) (auto simp: set_clock_def scanf_def fscanf_def fmt_clock puts_def)
qed

lemma fill_all: "length xs = 8 \<Longrightarrow> fold (\<lambda>i sh. sh[i := v]) [0..<8] xs = replicate 8 v"
  by (auto simp: numeral_eq_Suc length_Suc_conv)

text \<open>
  A color the host asks for reaches all eight lights: the update sends the same three gray
  scale values twelve times over, four times in each packet.
\<close>

lemma show_color_lights:
  assumes "led_ready (leds s)" and "length (show_lights s) = 8" and "no_digit r"
    and "usb_in s = map Some (put_u (unat b) @ '','' @ put_u (unat g) @ '','' @ put_u (unat (v :: u16))) @ r"
  shows "\<exists>s' p q. show_color s = Returns s' \<and> usb_out s' = usb_out s \<and>
      shifted (leds s') = shifted (leds s) @ p @ q \<and>
      read_packet p = Some (sent_packet (leds s) (replicate 4 (b, g, v))) \<and>
      read_packet q = Some (sent_packet (leds s) (replicate 4 (b, g, v)))"
proof -
  have "fscanf ''%d,%d,%d'' (usb_in s) = (3, [ucast b, ucast g, ucast v], drop_none r)"
    by (simp add: assms(4) fscanf_def fmt_color put_u_def scan_numeral_then [OF numeral_dec]
        scan_numeral_end [OF numeral_dec assms(3)] del: scan.simps(5))
  then have run: "show_color s = Returns (show_leds (fill_show b g v (s\<lparr>usb_in := drop_none r\<rparr>)))"
    by (simp add: show_color_def scanf_def u16_of_nat)
  let ?ls = "replicate 8 (b, g, v)"
  have len: "length ?ls = 8" by simp
  have half: "take 4 ?ls = replicate 4 (b, g, v)" "drop 4 ?ls = replicate 4 (b, g, v)"
    by simp_all
  have "shifted (led ?ls (leds s)) =
      shifted (leds s) @ packet_bits (leds s) (take 4 ?ls) @ packet_bits (leds s) (drop 4 ?ls)"
    by (rule led_shifted(1) [OF assms(1) len])
  with run assms(2) show ?thesis
    unfolding half
    by (simp add: show_leds_def fill_show_def fill_all read_packet_bits del: upt_rec_numeral)
      (intro exI conjI; (rule refl)?; simp add: read_packet_bits)
qed

end
