(* ===== verification/Charge.thy ===== *)
theory Charge
  imports Prelude
begin
unbundle bit_operations_syntax

text \<open>
  Battery and charger: the one-shot ADC read of \<^verbatim>\<open>hardware/analog.c\<close> and the measurements of
  \<^verbatim>\<open>hardware/charge.c\<close>. The conversion is hardware: its result is an argument, and
  \<open>None\<close> stands for a conversion that never completes.
\<close>

subsection \<open>The analog converter\<close>

abbreviation (input) "REFS0 \<equiv> 6 :: nat"
abbreviation (input) "ADEN \<equiv> 7 :: nat"
abbreviation (input) "ADSC \<equiv> 6 :: nat"
abbreviation (input) "ADPS2 \<equiv> 2 :: nat"
abbreviation (input) "ADPS0 \<equiv> 0 :: nat"
abbreviation (input) "ADHSM \<equiv> 7 :: nat"

definition ADC_PRESCALER :: u8 where
  "ADC_PRESCALER = push_bit ADPS2 1 OR push_bit ADPS0 1"

record adc =
  aref :: u8
  ADCSRA :: u8
  ADCSRB :: u8
  ADMUX :: u8

definition adc_zero :: adc where
  "adc_zero = \<lparr>aref = push_bit REFS0 1, ADCSRA = 0, ADCSRB = 0, ADMUX = 0\<rparr>"

definition analogReference :: "u8 \<Rightarrow> adc \<Rightarrow> adc" where
  "analogReference mode a = a\<lparr>aref := mode AND 0xC0\<rparr>"

text \<open>The result registers \<^verbatim>\<open>ADCH\<close> and \<^verbatim>\<open>ADCL\<close> are the two bytes of the conversion.\<close>

definition adc_read :: "u16 option \<Rightarrow> u8 \<Rightarrow> adc \<Rightarrow> (u16 \<times> adc) outcome" where
  "adc_read conv mux a =
     (let a1 = a\<lparr>ADCSRA := push_bit ADEN 1 OR ADC_PRESCALER\<rparr>;
          a2 = a1\<lparr>ADCSRB := push_bit ADHSM 1 OR (mux AND 0x20)\<rparr>;
          a3 = a2\<lparr>ADMUX := aref a2 OR (mux AND 0x1F)\<rparr>;
          a4 = a3\<lparr>ADCSRA := push_bit ADEN 1 OR ADC_PRESCALER OR push_bit ADSC 1\<rparr>
      in case conv of
           None \<Rightarrow> Hangs
         | Some v \<Rightarrow>
             let a5 = a4\<lparr>ADCSRA := ADCSRA a4 AND NOT (push_bit ADSC 1)\<rparr>
             in Returns (le16 (lo8 v) (hi8 v), a5))"

subsection \<open>Battery and charger\<close>

definition MAX_BAT_ADC :: u16 where "MAX_BAT_ADC = 390"
definition MIN_BAT_ADC :: u16 where "MIN_BAT_ADC = 280"
definition BAT_SENSE :: u8 where "BAT_SENSE = 0x25"

abbreviation (input) "STAT1 \<equiv> 2 :: nat"
abbreviation (input) "STAT2 \<equiv> 7 :: nat"
abbreviation (input) "PG \<equiv> 6 :: nat"

datatype CHARGE_STATUS = NONE | BULK_CHARGE | TRICKLE_CHARGE

definition charge_Init :: "'a gpio_scheme \<Rightarrow> 'a gpio_scheme" where
  "charge_Init s =
     (let s1 = s\<lparr>DDRD := DDRD s AND NOT (push_bit STAT1 1)\<rparr>;
          s2 = s1\<lparr>PORTD := PORTD s1 OR push_bit STAT1 1\<rparr>;
          s3 = s2\<lparr>DDRB := DDRB s2 AND NOT (push_bit STAT2 1)\<rparr>;
          s4 = s3\<lparr>PORTB := PORTB s3 OR push_bit STAT2 1\<rparr>;
          s5 = s4\<lparr>DDRC := DDRC s4 AND NOT (push_bit PG 1)\<rparr>;
          s6 = s5\<lparr>PORTC := PORTC s5 OR push_bit PG 1\<rparr>
      in s6\<lparr>DDRB := DDRB s6 OR 1\<rparr>)"

text \<open>The early return leaves before the measurement is switched off again.\<close>

definition get_battery_voltage ::
    "u16 option \<Rightarrow> 'a gpio_scheme \<Rightarrow> adc \<Rightarrow> (u8 \<times> 'a gpio_scheme \<times> adc) outcome" where
  "get_battery_voltage conv s a =
     (let s1 = s\<lparr>PORTB := PORTB s OR 1\<rparr>
      in and_then (adc_read conv BAT_SENSE a) (\<lambda>(v, a1).
           if MIN_BAT_ADC \<le> v then
             let v1 = v - MIN_BAT_ADC;
                 v2 = v1 * 11;
                 v3 = v2 div (MAX_BAT_ADC - MIN_BAT_ADC);
                 v4 = (if 11 < v3 then 11 else v3);
                 s2 = s1\<lparr>PORTB := PORTB s1 AND NOT 1\<rparr>
             in Returns (ucast v4, s2, a1)
           else Returns (0, s1, a1)))"

definition STAT1_READ :: "'a gpio_scheme \<Rightarrow> u8" where
  "STAT1_READ s = PIND s AND push_bit STAT1 1"

definition STAT2_READ :: "'a gpio_scheme \<Rightarrow> u8" where
  "STAT2_READ s = PINB s AND push_bit STAT2 1"

definition PG_READ :: "'a gpio_scheme \<Rightarrow> u8" where
  "PG_READ s = PINC s AND push_bit PG 1"

definition get_charge_status :: "'a gpio_scheme \<Rightarrow> CHARGE_STATUS" where
  "get_charge_status s =
     (let stat1 = (if STAT1_READ s = 0 then 1 else 0 :: u8);
          stat2 = (if STAT2_READ s = 0 then 1 else 0 :: u8)
      in if 0 < stat1 AND stat2 then NONE
         else if 0 < stat1 then BULK_CHARGE
         else if 0 < stat2 then TRICKLE_CHARGE
         else NONE)"

definition get_power_status :: "'a gpio_scheme \<Rightarrow> u8" where
  "get_power_status s = PG_READ s"

subsection \<open>Properties\<close>

text \<open>The scale as the comments describe it: empty at 280, full (11) from 390.\<close>

definition battery_scale :: "nat \<Rightarrow> nat" where
  "battery_scale v = min 11 ((v - 280) div 10)"

lemma scale_step: "unat v \<le> 1023 \<Longrightarrow> 280 \<le> unat v \<Longrightarrow>
    unat ((v - 280) * 11 div 110 :: u16) = (unat v - 280) div 10"
proof -
  assume v: "unat v \<le> 1023" "280 \<le> unat v"
  then have sub: "unat (v - 280 :: u16) = unat v - 280"
    by (simp add: unat_sub word_le_nat_alt)
  have mult: "unat x * 11 < 65536 \<Longrightarrow> unat (x * 11) = unat x * 11" for x :: u16
    by (simp add: unat_word_ariths)
  have "unat ((v - 280) * 11) = (unat v - 280) * 11"
    by (subst mult) (use v in \<open>simp_all add: sub\<close>)
  then show ?thesis by (simp only: unat_div) simp
qed

text \<open>
  On every result of the 10-bit converter the voltage is the linear scale from 0 to 11, and
  the measurement pin is left on exactly when the early return for a dead battery is taken.
\<close>

lemma battery_voltage_scale:
  assumes "unat v \<le> 1023"
  shows "\<exists>r s' a'. get_battery_voltage (Some v) s a = Returns (r, s', a') \<and>
      unat r = battery_scale (unat v) \<and> (bit (PORTB s') 0 \<longleftrightarrow> unat v < 280)"
proof (cases "280 \<le> unat v")
  case True
  let ?q = "(v - 280) * 11 div 110 :: u16"
  have q: "unat ?q = (unat v - 280) div 10" by (rule scale_step [OF assms True])
  have le: "MIN_BAT_ADC \<le> v" using True by (simp add: MIN_BAT_ADC_def word_le_nat_alt)
  have "unat (ucast (if 11 < ?q then 11 else ?q) :: u8) = min 11 ((unat v - 280) div 10)"
  proof (cases "11 < ?q")
    case True
    then have "11 < (unat v - 280) div 10" using q by (simp add: word_less_nat_alt)
    with True show ?thesis by simp
  next
    case False
    then have "(unat v - 280) div 10 \<le> 11" using q by (simp add: word_less_nat_alt)
    with False q show ?thesis by (simp add: unsigned_ucast_eq take_bit_eq_mod)
  qed
  then show ?thesis
    using le True
    by (simp add: get_battery_voltage_def adc_read_def Let_def battery_scale_def
        MIN_BAT_ADC_def MAX_BAT_ADC_def bit_simps)
next
  case False
  then have "\<not> MIN_BAT_ADC \<le> v" by (simp add: MIN_BAT_ADC_def word_le_nat_alt)
  with False show ?thesis
    by (simp add: get_battery_voltage_def adc_read_def Let_def battery_scale_def bit_simps)
qed

text \<open>
  The charger's two active-low status pins select the charge state: bulk when only the first
  is low, trickle when only the second is low, none otherwise.
\<close>

lemma charge_status_pins:
  "get_charge_status s =
     (case (bit (PIND s) 2, bit (PINB s) 7) of
        (False, True) \<Rightarrow> BULK_CHARGE
      | (True, False) \<Rightarrow> TRICKLE_CHARGE
      | _ \<Rightarrow> NONE)"
proof -
  have "PIND s AND 4 = 0 \<longleftrightarrow> \<not> bit (PIND s) 2" "PINB s AND 128 = 0 \<longleftrightarrow> \<not> bit (PINB s) 7"
    using test_bit_and [of "PIND s" 2] test_bit_and [of "PINB s" 7] by simp_all
  then show ?thesis
    by (simp add: get_charge_status_def STAT1_READ_def STAT2_READ_def Let_def split: bool.split)
qed

end
