(* ===== verification/Firmware.thy ===== *)
theory Firmware
  imports CommandClaims Charge
begin
unbundle bit_operations_syntax

text \<open>
  The main program \<^verbatim>\<open>ISS-Notify.c\<close>: hardware set-up, interrupt handlers, the startup animation
  and one turn of the main loop. The USB stack is an argument (three functions on its own state);
  interrupts may arrive in each of the gaps between the statements of the loop.
\<close>

subsection \<open>State\<close>

record ('e, 'u) board =
  fw :: "(twi \<times> 'e) fw"
  usb :: 'u
  CLKPR :: u8
  MCUCR :: u8
  MCUSR :: u8
  SREG_I :: bool
  OCR3AL :: u8
  TCCR3B :: u8
  TIMSK3 :: u8

record 'u usb_stack =
  usb_init :: "'u \<Rightarrow> 'u"
  cdc_create_stream :: "'u \<Rightarrow> 'u"
  cdc_usb_task :: "'u \<Rightarrow> 'u"
  usb_usb_task :: "'u \<Rightarrow> 'u"

text \<open>The port registers live behind the I2C driver, which sets some of them up itself.\<close>

definition on_io :: "(twi \<Rightarrow> twi) \<Rightarrow> (twi \<times> 'e) fw \<Rightarrow> (twi \<times> 'e) fw" where
  "on_io f s = s\<lparr>fw_clock := (fw_clock s)\<lparr>bus := (f (fst (bus (fw_clock s))), snd (bus (fw_clock s)))\<rparr>\<rparr>"

definition io :: "(twi \<times> 'e) fw \<Rightarrow> twi" where
  "io s = fst (bus (fw_clock s))"

definition on_fw :: "((twi \<times> 'e) fw \<Rightarrow> (twi \<times> 'e) fw) \<Rightarrow> ('e, 'u) board \<Rightarrow> ('e, 'u) board" where
  "on_fw f s = s\<lparr>fw := f (fw s)\<rparr>"

definition try_fw ::
    "((twi \<times> 'e) fw \<Rightarrow> (twi \<times> 'e) fw outcome) \<Rightarrow> ('e, 'u) board \<Rightarrow> ('e, 'u) board outcome" where
  "try_fw f s = and_then (f (fw s)) (\<lambda>s'. Returns (s\<lparr>fw := s'\<rparr>))"

subsection \<open>Interrupts\<close>

definition INT3_vect :: "(twi \<times> 'e) fw \<Rightarrow> (twi \<times> 'e) fw" where
  "INT3_vect s =
     (let s1 = on_io (\<lambda>r. r\<lparr>EIMSK := EIMSK r AND NOT (push_bit INT3 1)\<rparr>) s
      in s1\<lparr>alarm := 1\<rparr>)"

definition TIMER3_COMPA_vect :: "'b fw \<Rightarrow> 'b fw" where
  "TIMER3_COMPA_vect s = s\<lparr>ms := ms s + 1\<rparr>"

datatype isr = Int3 | Timer3

text \<open>The external interrupt is taken only while its mask bit is set.\<close>

fun take_isr :: "isr \<Rightarrow> ('e, 'u) board \<Rightarrow> ('e, 'u) board" where
  "take_isr Int3 s = (if bit (EIMSK (io (fw s))) INT3 then on_fw INT3_vect s else s)"
| "take_isr Timer3 s = on_fw TIMER3_COMPA_vect s"

definition take_isrs :: "isr list \<Rightarrow> ('e, 'u) board \<Rightarrow> ('e, 'u) board" where
  "take_isrs is s = fold take_isr is s"

subsection \<open>Set-up and startup animation\<close>

definition Setup_Hardware :: "'u usb_stack \<Rightarrow> ('e, 'u) board \<Rightarrow> ('e, 'u) board" where
  "Setup_Hardware st s =
     (let s1 = s\<lparr>CLKPR := 0x80\<rparr>;
          s2 = s1\<lparr>CLKPR := 0\<rparr>;
          s3 = s2\<lparr>MCUCR := push_bit 7 1\<rparr>;
          s4 = s3\<lparr>MCUCR := push_bit 7 1\<rparr>;
          s5 = s4\<lparr>MCUSR := MCUSR s4 AND NOT (push_bit 3 1)\<rparr>;
          s6 = s5\<lparr>SREG_I := False\<rparr>;
          s7 = on_fw (\<lambda>f. f\<lparr>leds := LED_Init (leds f)\<rparr>) s6;
          s8 = on_fw (\<lambda>f. f\<lparr>leds := (leds f)\<lparr>TLC_Blue_WB := NonVolatile_Blue_WB f\<rparr>\<rparr>) s7;
          s9 = on_fw (\<lambda>f. f\<lparr>leds := (leds f)\<lparr>TLC_Green_WB := NonVolatile_Green_WB f\<rparr>\<rparr>) s8;
          s10 = on_fw (\<lambda>f. f\<lparr>leds := (leds f)\<lparr>TLC_Red_WB := NonVolatile_Red_WB f\<rparr>\<rparr>) s9;
          s11 = s10\<lparr>usb := usb_init st (usb s10)\<rparr>;
          s12 = on_fw (on_io RTC_Init) s11;
          s13 = on_fw (on_io charge_Init) s12;
          s14 = s13\<lparr>OCR3AL := 8\<rparr>;
          s15 = s14\<lparr>TCCR3B := push_bit 3 1 OR push_bit 0 5\<rparr>
      in s15\<lparr>TIMSK3 := push_bit 1 1\<rparr>)"

text \<open>\<^verbatim>\<open>i*655\<close> in 16 bits, stored to all three colors of all lights, then one update.\<close>

definition grey_frame :: "nat \<Rightarrow> 'b fw \<Rightarrow> 'b fw" where
  "grey_frame i s = show_leds (fill_show (of_nat (i * 655)) (of_nat (i * 655)) (of_nat (i * 655)) s)"

definition startup_animation :: "'b fw \<Rightarrow> 'b fw" where
  "startup_animation s =
     (let s1 = fold grey_frame [0..<100] s;
          s2 = fold grey_frame (rev [2..<101]) s1
      in show_leds (fill_show 0 0 0 s2))"

subsection \<open>One turn of the main loop\<close>

definition listen ::
    "'b wr_fun \<Rightarrow> 'b rd_fun \<Rightarrow> ipass list \<Rightarrow> 'b fw \<Rightarrow> 'b fw outcome" where
  "listen wr rd stack s =
     (case scanf ''ISS%c\<newline>'' s of (n, vs, s1) \<Rightarrow>
        if n = 1 then dispatch wr rd stack COMMANDS (char_of (unat (vs ! 0))) s1 else Returns s1)"

definition enable_int3 :: "(twi \<times> 'e) fw \<Rightarrow> (twi \<times> 'e) fw" where
  "enable_int3 s = on_io (\<lambda>r. r\<lparr>EIMSK := EIMSK r OR push_bit INT3 1\<rparr>) s"

definition alarm_check :: "(twi \<times> 'e) wr_fun \<Rightarrow> (twi \<times> 'e) fw \<Rightarrow> (twi \<times> 'e) fw outcome" where
  "alarm_check wr s =
     (if 0 < alarm s then
        and_then (clear_alarm0 wr (fw_clock s)) (\<lambda>c.
          Returns ((enable_int3 (s\<lparr>fw_clock := c, pass := 1\<rparr>))\<lparr>alarm := 0\<rparr>))
      else Returns s)"

definition rainbow :: "light list" where
  "rainbow = [(0xffff, 0x0000, 0x0000), (0xffff, 0xbfff, 0x0000), (0x7fff, 0xffff, 0x0000),
     (0x0000, 0xffff, 0x3fff), (0x0000, 0xffff, 0xffff), (0x0000, 0x3fff, 0xffff),
     (0x7fff, 0x0000, 0xffff), (0xffff, 0x0000, 0xbfff)]"

text \<open>Row \<open>j\<close> of the display; the index is an \<^verbatim>\<open>int\<close> expression.\<close>

definition rainbow_row :: "u8 \<Rightarrow> nat \<Rightarrow> light outcome" where
  "rainbow_row rot j =
     (let i = (if int j + uint rot > 7 then uint rot - (8 - int j) else int j + uint rot)
      in if i < 0 then Faults OutOfBounds else fetch rainbow (nat i))"

fun rainbow_rows :: "u8 \<Rightarrow> nat list \<Rightarrow> light list \<Rightarrow> light list outcome" where
  "rainbow_rows rot [] sh = Returns sh"
| "rainbow_rows rot (j # js) sh =
     and_then (rainbow_row rot j) (\<lambda>row.
     and_then (store sh j row) (\<lambda>sh'. rainbow_rows rot js sh'))"

definition rainbow_step :: "'b fw \<Rightarrow> 'b fw outcome" where
  "rainbow_step s =
     (if do_rainbow s then
        let currentMillis = millis s;
            s1 = (if 80 < currentMillis - previousMillis s
                  then s\<lparr>previousMillis := currentMillis, bow_rotate := bow_rotate s + 1\<rparr> else s)
        in and_then (rainbow_rows (bow_rotate s1) [0..<8] (show_lights s1)) (\<lambda>sh.
             let s2 = s1\<lparr>show_lights := sh\<rparr>;
                 s3 = (if 7 < bow_rotate s2 then s2\<lparr>bow_rotate := 0\<rparr> else s2)
             in Returns (show_leds s3))
      else Returns s)"

text \<open>
  The end of the loop. Only the call is under the \<^verbatim>\<open>if\<close>; the two lines indented below it are not.
\<close>

definition reset_check :: "(twi \<times> 'e) wr_fun \<Rightarrow> (twi \<times> 'e) fw \<Rightarrow> (twi \<times> 'e) fw outcome" where
  "reset_check wr s =
     and_then (if 0 < reset_alarm s
               then and_then (clear_alarm0 wr (fw_clock s)) (\<lambda>c. Returns (s\<lparr>fw_clock := c\<rparr>))
               else Returns s) (\<lambda>s1.
       Returns (enable_int3 (s1\<lparr>reset_alarm := 0\<rparr>)))"

definition main_turn ::
    "'u usb_stack \<Rightarrow> (twi \<times> 'e) wr_fun \<Rightarrow> (twi \<times> 'e) rd_fun \<Rightarrow> ipass list \<Rightarrow> (nat \<Rightarrow> isr list) \<Rightarrow>
     ('e, 'u) board \<Rightarrow> ('e, 'u) board outcome" where
  "main_turn st wr rd stack ev s =
     and_then (try_fw (listen wr rd stack) (take_isrs (ev 0) s)) (\<lambda>s1.
     and_then (try_fw (alarm_check wr) (take_isrs (ev 1) s1)) (\<lambda>s2.
     and_then (try_fw rainbow_step (take_isrs (ev 2) s2)) (\<lambda>s3.
     let s4 = on_fw show_leds (take_isrs (ev 3) s3);
         s5 = s4\<lparr>usb := cdc_usb_task st (usb s4)\<rparr>;
         s6 = s5\<lparr>usb := usb_usb_task st (usb s5)\<rparr>
     in try_fw (reset_check wr) (take_isrs (ev 4) s6))))"

fun main_loop ::
    "'u usb_stack \<Rightarrow> (twi \<times> 'e) wr_fun \<Rightarrow> (twi \<times> 'e) rd_fun \<Rightarrow> ipass list \<Rightarrow> (nat \<Rightarrow> isr list) list \<Rightarrow>
     ('e, 'u) board \<Rightarrow> ('e, 'u) board outcome" where
  "main_loop st wr rd stack [] s = Returns s"
| "main_loop st wr rd stack (ev # evs) s =
     and_then (main_turn st wr rd stack ev s) (main_loop st wr rd stack evs)"

definition main_start :: "'u usb_stack \<Rightarrow> ('e, 'u) board \<Rightarrow> ('e, 'u) board" where
  "main_start st s =
     (let s1 = Setup_Hardware st s;
          s2 = s1\<lparr>usb := cdc_create_stream st (usb s1)\<rparr>;
          s3 = s2\<lparr>SREG_I := True\<rparr>
      in on_fw startup_animation s3)"

end
