(* ===== verification/FirmwareClaims.thy ===== *)
theory FirmwareClaims
  imports Firmware
begin
unbundle bit_operations_syntax

text \<open>
  The main loop: it keeps its invariant and comes back in every turn that does not store
  passes, calls the command a host asks for, and stops listening for good after a stray byte.
\<close>

subsection \<open>The invariant\<close>

definition fw_inv :: "('c drv) fw \<Rightarrow> bool" where
  "fw_inv s \<longleftrightarrow> length (show_lights s) = 8 \<and> bow_rotate s \<le> 7 \<and> led_ready (leds s) \<and>
     length (StoredISSPasses s) = 60 \<and> rtc_ok drv_ok (fw_clock s)"

definition runs :: "('a \<Rightarrow> bool) \<Rightarrow> 'a outcome \<Rightarrow> bool" where
  "runs P m \<longleftrightarrow> (\<exists>s. m = Returns s \<and> P s)"

lemma runs_Returns [simp]: "runs P (Returns s) \<longleftrightarrow> P s"
  by (simp add: runs_def)

lemma runs_and_then: "runs P m \<Longrightarrow> (\<And>s. P s \<Longrightarrow> runs Q (f s)) \<Longrightarrow> runs Q (and_then m f)"
  by (auto simp: runs_def)

lemma inv_usb [simp]: "fw_inv (s\<lparr>usb_in := i\<rparr>) \<longleftrightarrow> fw_inv s" "fw_inv (s\<lparr>usb_out := t\<rparr>) \<longleftrightarrow> fw_inv s"
  "fw_inv (s\<lparr>alarm := a\<rparr>) \<longleftrightarrow> fw_inv s" "fw_inv (s\<lparr>pass := a\<rparr>) \<longleftrightarrow> fw_inv s"
  "fw_inv (s\<lparr>reset_alarm := a\<rparr>) \<longleftrightarrow> fw_inv s" "fw_inv (s\<lparr>ms := m\<rparr>) \<longleftrightarrow> fw_inv s"
  "fw_inv (s\<lparr>do_rainbow := d\<rparr>) \<longleftrightarrow> fw_inv s" "fw_inv (s\<lparr>NonVolatileColor := c\<rparr>) \<longleftrightarrow> fw_inv s"
  by (simp_all add: fw_inv_def)

lemma inv_puts [simp]: "fw_inv (puts t s) \<longleftrightarrow> fw_inv s"
  by (simp add: puts_def)

lemma inv_clock: "fw_inv s \<Longrightarrow> rtc_ok drv_ok c \<Longrightarrow> fw_inv (s\<lparr>fw_clock := c\<rparr>)"
  by (simp add: fw_inv_def)

lemma inv_leds: "fw_inv s \<Longrightarrow> led_ready l \<Longrightarrow> fw_inv (s\<lparr>leds := l\<rparr>)"
  by (simp add: fw_inv_def)

lemma inv_white [simp]:
  "led_ready (l\<lparr>TLC_Red_WB := v\<rparr>) \<longleftrightarrow> led_ready l" "led_ready (l\<lparr>TLC_Green_WB := v\<rparr>) \<longleftrightarrow> led_ready l"
  "led_ready (l\<lparr>TLC_Blue_WB := v\<rparr>) \<longleftrightarrow> led_ready l"
  by (simp_all add: led_ready_def)

lemma inv_fill: "fw_inv s \<Longrightarrow> fw_inv (fill_show b g r s)"
  by (simp add: fw_inv_def fill_show_def fill_all del: upt_rec_numeral)

lemma inv_show: "fw_inv s \<Longrightarrow> fw_inv (show_leds s)"
  by (simp add: fw_inv_def show_leds_def led_shifted(2))

lemma scanf_cases:
  obtains n vs i where "scanf fmt s = (n, vs, s\<lparr>usb_in := i\<rparr>)"
  by (cases "fscanf fmt (usb_in s)") (auto simp: scanf_def)

lemma inv_leds_white:
  "fw_inv s \<Longrightarrow> fw_inv (s\<lparr>leds := (leds s)\<lparr>TLC_Red_WB := v\<rparr>\<rparr>)"
  "fw_inv s \<Longrightarrow> fw_inv (s\<lparr>leds := (leds s)\<lparr>TLC_Green_WB := v\<rparr>\<rparr>)"
  "fw_inv s \<Longrightarrow> fw_inv (s\<lparr>leds := (leds s)\<lparr>TLC_Blue_WB := v\<rparr>\<rparr>)"
  by (simp_all add: fw_inv_def)

subsection \<open>Every command but one returns\<close>

lemma run_set_color: "fw_inv s \<Longrightarrow> runs fw_inv (set_color s)"
  by (cases rule: scanf_cases [of "''%d''" s]) (auto simp: set_color_def)

lemma run_wb:
  "fw_inv s \<Longrightarrow> runs fw_inv (wb_red s)" "fw_inv s \<Longrightarrow> runs fw_inv (wb_green s)"
  "fw_inv s \<Longrightarrow> runs fw_inv (wb_blue s)"
  by (cases rule: scanf_cases [of "''%d''" s];
      auto simp: wb_red_def wb_green_def wb_blue_def Let_def intro!: inv_show inv_leds_white inv_fill)+

lemma run_show_color: "fw_inv s \<Longrightarrow> runs fw_inv (show_color s)"
  by (cases rule: scanf_cases [of "''%d,%d,%d''" s]) (auto simp: show_color_def intro!: inv_show inv_fill)

lemma run_toggle: "fw_inv s \<Longrightarrow> runs fw_inv (toggle_rainbow s)"
  by (auto simp: toggle_rainbow_def intro!: inv_show inv_fill)

lemma inv_nonvolatile:
  "fw_inv s \<Longrightarrow> fw_inv (s\<lparr>leds := (leds s)\<lparr>TLC_Blue_WB := b, TLC_Green_WB := g, TLC_Red_WB := r\<rparr>,
     NonVolatile_Blue_WB := b, NonVolatile_Green_WB := g, NonVolatile_Red_WB := r\<rparr>)"
  by (simp add: fw_inv_def)

lemma run_set_wb: "fw_inv s \<Longrightarrow> runs fw_inv (set_wb s)"
proof (cases rule: scanf_cases [of "''%d,%d,%d''" s])
  case (1 n vs i)
  assume "fw_inv s"
  then have "fw_inv (fill_show 0 0 0 (s\<lparr>usb_in := i\<rparr>))" by (simp add: inv_fill)
  from inv_show [OF inv_nonvolatile [OF this]] 1 \<open>fw_inv s\<close> show ?thesis
    by (simp add: set_wb_def Let_def)
qed

lemma run_say: "fw_inv s \<Longrightarrow> runs fw_inv (ack s)" "fw_inv s \<Longrightarrow> runs fw_inv (say_ms s)"
  by (simp_all add: ack_def say_ms_def)

lemma passes_fold_inv: "fw_inv s \<Longrightarrow> fw_inv (fold (\<lambda>i. puts (f i)) is s)"
  by (induction "is" arbitrary: s) simp_all

lemma run_dump_mem:
  assumes "fw_inv s" and "length stack = 10"
  shows "runs fw_inv (dump_mem stack s)"
proof -
  define n where "n = (if 10 < NumOfStoredISSPasses s then 10 else NumOfStoredISSPasses s)"
  have "n \<le> 10" by (auto simp: n_def)
  then have "6 * unat n \<le> 60" by (simp add: word_le_nat_alt)
  then have "copy_array (StoredISSPasses s) (6 * unat n) (concat (map ipass_bytes stack)) =
      Returns (take (6 * unat n) (StoredISSPasses s) @ drop (6 * unat n) (concat (map ipass_bytes stack)))"
    using assms by (intro copy_array_ok) (simp_all add: fw_inv_def)
  then show ?thesis
    using assms(1) by (simp add: dump_mem_def Let_def n_def [symmetric] passes_fold_inv)
qed

lemma run_say_time:
  assumes "reg_chip ch cregs cptr fresh" and "fw_inv s"
  shows "runs fw_inv (say_time (drv_write cb ch) (drv_read cb ch) s)"
proof -
  have "rtc_ok drv_ok (fw_clock s)" using assms(2) by (simp add: fw_inv_def)
  from reg_chip.driver_get_time [OF assms(1) this]
  obtain c where "get_time (drv_write cb ch) (drv_read cb ch) (fw_clock s) =
      Returns (decode_regs (drv_regs cregs (bus (fw_clock s))), c)" "rtc_ok drv_ok c" by blast
  with assms(2) show ?thesis by (simp add: say_time_def inv_clock)
qed

lemma run_set_clock:
  assumes "reg_chip ch cregs cptr fresh" and "fw_inv s"
  shows "runs fw_inv (set_clock (drv_write cb ch) s)"
proof -
  have "rtc_ok drv_ok (fw_clock s)" using assms(2) by (simp add: fw_inv_def)
  from reg_chip.driver_reset_rtc [OF assms(1) this]
  obtain c where c: "reset_rtc (drv_write cb ch) (fw_clock s) = Returns c" "rtc_ok drv_ok c" by blast
  show ?thesis
  proof (cases rule: scanf_cases [of "''Y%dM%dD%dH%dM%dS%d''" "s\<lparr>fw_clock := c\<rparr>"])
    case (1 n vs i)
    show ?thesis
    proof (cases "n = 6")
      case True
      let ?t = "mktime (ucast (vs ! 0)) (ucast (vs ! 1)) (ucast (vs ! 2)) (ucast (vs ! 3))
          (ucast (vs ! 4)) (ucast (vs ! 5))"
      from reg_chip.driver_set_time [OF assms(1) c(2), of cb ?t]
      obtain c2 where "set_time (drv_write cb ch) ?t c = Returns c2" "rtc_ok drv_ok c2" by blast
      with assms(2) c 1 True show ?thesis by (simp add: set_clock_def inv_clock)
    next
      case False
      with assms(2) c 1 show ?thesis by (simp add: set_clock_def inv_clock)
    qed
  qed
qed

lemma run_resp:
  assumes "reg_chip ch cregs cptr fresh" and "fw_inv s" and "length stack = 10" and "r \<noteq> R_set_passes"
  shows "runs fw_inv (call_resp (drv_write cb ch) (drv_read cb ch) stack r s)"
  using assms
  by (cases r) (simp_all add: call_resp_def run_say run_set_color run_say_time run_dump_mem
      run_set_clock run_wb run_set_wb run_show_color run_toggle)

lemma run_dispatch:
  assumes "reg_chip ch cregs cptr fresh" and "fw_inv s" and "length stack = 10"
    and "\<forall>(d, r) \<in> set cmds. d = c \<longrightarrow> r \<noteq> R_set_passes"
  shows "runs fw_inv (dispatch (drv_write cb ch) (drv_read cb ch) stack cmds c s)"
  using assms(4)
proof (induction cmds)
  case Nil
  show ?case using assms(2) by simp
next
  case (Cons a cmds)
  obtain d r where a: "a = (d, r)" by (cases a)
  show ?case using Cons run_resp [OF assms(1-3), of r cb] by (auto simp: a)
qed

subsection \<open>The rainbow\<close>

lemma length_rainbow [simp]: "length rainbow = 8"
  by (simp add: rainbow_def)

lemma rainbow_row_ok:
  assumes "j < 8" and "rot \<le> 8"
  shows "rainbow_row rot j = Returns (rainbow ! ((j + unat rot) mod 8))"
proof -
  have r: "unat rot \<le> 8" using assms(2) by (simp add: word_le_nat_alt)
  define n where "n = unat rot"
  have u: "uint rot = int n" by (simp add: n_def)
  show ?thesis
  proof (cases "j + n > 7")
    case True
    then have "(j + n) mod 8 = (j + n - 8) mod 8" by (intro le_mod_geq) simp
    moreover have "j + n - 8 < 8" "j + n - 8 = n - (8 - j)"
      using True assms(1) r by (simp_all add: n_def)
    ultimately have "(j + n) mod 8 = n - (8 - j)" by simp
    moreover have "nat (int n - (8 - int j)) = n - (8 - j)" "\<not> int n - (8 - int j) < 0"
      using True assms(1) by linarith+
    moreover have "n - (8 - j) < 8" using True assms(1) r by (simp add: n_def)
    ultimately show ?thesis
      using True by (simp add: rainbow_row_def u Let_def n_def [symmetric])
  next
    case False
    then have "nat (int j + int n) = j + n" "\<not> int j + int n > 7" by linarith+
    with False show ?thesis
      by (simp add: rainbow_row_def u Let_def n_def [symmetric])
  qed
qed

definition rotated :: "u8 \<Rightarrow> light list" where
  "rotated rot = map (\<lambda>j. rainbow ! ((j + unat rot) mod 8)) [0..<8]"

lemma rows_fill:
  assumes "\<And>j. j < n \<Longrightarrow> rainbow_row rot j = Returns (f j)"
  shows "length sh = n \<Longrightarrow> k \<le> n \<Longrightarrow>
      rainbow_rows rot [k..<n] sh = Returns (take k sh @ map f [k..<n])"
proof (induction "n - k" arbitrary: k sh)
  case 0
  then show ?case by simp
next
  case (Suc d)
  then have k: "k < n" by simp
  let ?sh = "sh[k := f k]"
  have "rainbow_rows rot [Suc k..<n] ?sh = Returns (take (Suc k) ?sh @ map f [Suc k..<n])"
    by (rule Suc.hyps(1)) (use Suc.hyps(2) Suc.prems(1) k in simp_all)
  with k assms [OF k] Suc.prems(1) show ?case
    by (simp add: upt_conv_Cons take_Suc_conv_app_nth)
qed

lemma rainbow_rows_ok:
  assumes "length sh = 8" and "rot \<le> 8"
  shows "rainbow_rows rot [0..<8] sh = Returns (rotated rot)"
  using rows_fill [of 8 rot "\<lambda>j. rainbow ! ((j + unat rot) mod 8)" sh 0] rainbow_row_ok [OF _ assms(2)]
  by (simp add: assms(1) rotated_def del: upt_rec_numeral)

text \<open>
  C12: in rainbow mode no index leaves the table, the display is the rainbow turned by the current
  step, and the step starts over after the eighth.
\<close>

theorem rainbow_step_turns:
  assumes "do_rainbow s" and "length (show_lights s) = 8" and "bow_rotate s \<le> 7"
  shows "\<exists>s' rot. rainbow_step s = Returns s' \<and> show_lights s' = rotated rot \<and>
      rot = bow_rotate s + (if 80 < millis s - previousMillis s then 1 else 0) \<and>
      bow_rotate s' = (if rot = 8 then 0 else rot) \<and> bow_rotate s' \<le> 7"
proof -
  let ?s1 = "if 80 < millis s - previousMillis s
    then s\<lparr>previousMillis := millis s, bow_rotate := bow_rotate s + 1\<rparr> else s"
  define rot where "rot = bow_rotate ?s1"
  have rot: "rot = bow_rotate s + (if 80 < millis s - previousMillis s then 1 else 0)"
    by (simp add: rot_def)
  have le: "rot \<le> 8" using assms(3) unfolding rot by unat_arith
  have len: "length (show_lights ?s1) = 8" using assms(2) by simp
  have rows: "rainbow_rows (bow_rotate ?s1) [0..<8] (show_lights ?s1) = Returns (rotated rot)"
    using rainbow_rows_ok [OF len le] by (simp only: rot_def)
  have seven: "7 < rot \<longleftrightarrow> rot = 8" "rot \<noteq> 8 \<Longrightarrow> rot \<le> 7" using le by unat_arith+
  show ?thesis
    using assms(1) rows seven rot rot_def [symmetric]
    by (simp add: rainbow_step_def Let_def show_leds_def del: upt_rec_numeral)
qed

subsection \<open>A turn of the main loop\<close>

lemma io_simps [simp]:
  "fw_inv (on_io (\<lambda>r. r\<lparr>EIMSK := f r\<rparr>) s) \<longleftrightarrow> fw_inv s"
  by (cases "bus (fw_clock s)")
    (simp add: fw_inv_def on_io_def rtc_ok_def drv_ok_def idle_driver_def started_def bufs_ok_def)

lemma inv_enable [simp]: "fw_inv (enable_int3 s) \<longleftrightarrow> fw_inv s"
  by (simp add: enable_int3_def)

lemma inv_isrs: "fw_inv (fw s) \<Longrightarrow> fw_inv (fw (take_isrs is s))"
proof (induction "is" arbitrary: s)
  case (Cons a "is")
  have "fw_inv (fw (take_isr a s))"
    using Cons.prems by (cases a) (simp_all add: on_fw_def INT3_vect_def TIMER3_COMPA_vect_def Let_def)
  from Cons.IH [OF this] show ?case by (simp add: take_isrs_def)
qed (simp add: take_isrs_def)

lemma run_clear:
  assumes "reg_chip ch cregs cptr fresh" and "fw_inv s"
  obtains c where "clear_alarm0 (drv_write cb ch) (fw_clock s) = Returns c" and "rtc_ok drv_ok c"
proof -
  have "rtc_ok drv_ok (fw_clock s)" using assms(2) by (simp add: fw_inv_def)
  from reg_chip.driver_clear_alarm0 [OF assms(1) this] that show thesis by blast
qed

lemma run_alarm:
  assumes "reg_chip ch cregs cptr fresh" and "fw_inv s"
  shows "runs fw_inv (alarm_check (drv_write cb ch) s)"
proof -
  obtain c where "clear_alarm0 (drv_write cb ch) (fw_clock s) = Returns c" "rtc_ok drv_ok c"
    by (rule run_clear [OF assms])
  then show ?thesis using assms(2) inv_clock [OF assms(2)] by (simp add: alarm_check_def)
qed

lemma run_rainbow:
  assumes "fw_inv s"
  shows "runs fw_inv (rainbow_step s)"
proof (cases "do_rainbow s")
  case True
  let ?s1 = "if 80 < millis s - previousMillis s
    then s\<lparr>previousMillis := millis s, bow_rotate := bow_rotate s + 1\<rparr> else s"
  have le: "bow_rotate ?s1 \<le> 8" and len: "length (show_lights ?s1) = 8"
    using assms by (auto simp: fw_inv_def) (unat_arith+)?
  let ?s2 = "?s1\<lparr>show_lights := rotated (bow_rotate ?s1)\<rparr>"
  let ?s3 = "if 7 < bow_rotate ?s2 then ?s2\<lparr>bow_rotate := 0\<rparr> else ?s2"
  have "rainbow_step s = Returns (show_leds ?s3)"
    using True rainbow_rows_ok [OF len le] by (simp add: rainbow_step_def Let_def del: upt_rec_numeral)
  moreover have "fw_inv ?s3"
    using assms by (auto simp: fw_inv_def rotated_def)
  ultimately show ?thesis by (simp add: inv_show)
next
  case False
  then show ?thesis using assms by (simp add: rainbow_step_def)
qed

definition int3_on :: "('c drv) fw \<Rightarrow> bool" where
  "int3_on s \<longleftrightarrow> bit (EIMSK (io s)) INT3"

lemma int3_enable: "int3_on (enable_int3 s)"
  by (simp add: int3_on_def enable_int3_def on_io_def io_def bit_simps)

lemma reset_alarm_enable [simp]: "reset_alarm (enable_int3 s) = reset_alarm s"
  by (simp add: enable_int3_def on_io_def)

lemma run_reset:
  assumes "reg_chip ch cregs cptr fresh" and "fw_inv s"
  shows "runs (\<lambda>s'. fw_inv s' \<and> int3_on s' \<and> reset_alarm s' = 0) (reset_check (drv_write cb ch) s)"
proof -
  obtain c where "clear_alarm0 (drv_write cb ch) (fw_clock s) = Returns c" "rtc_ok drv_ok c"
    by (rule run_clear [OF assms])
  then show ?thesis
    using assms(2) inv_clock [OF assms(2), of c]
    by (simp add: reset_check_def int3_enable)
qed

lemma run_try: "runs P (f (fw s)) \<Longrightarrow> runs (\<lambda>s'. P (fw s')) (try_fw f s)"
  by (auto simp: runs_def try_fw_def)

text \<open>The character after ISS, when one arrives.\<close>

definition command_char :: "'b fw \<Rightarrow> char option" where
  "command_char s =
     (case fscanf ''ISS%c\<newline>'' (usb_in s) of (n, vs, i) \<Rightarrow>
        if n = 1 then Some (char_of (unat (vs ! 0))) else None)"

lemma run_listen:
  assumes "reg_chip ch cregs cptr fresh" and "fw_inv s" and "length stack = 10"
    and "command_char s \<noteq> Some CHR ''u''"
  shows "runs fw_inv (listen (drv_write cb ch) (drv_read cb ch) stack s)"
proof (cases "fscanf ''ISS%c\<newline>'' (usb_in s)")
  case (fields n vs i)
  then have sc: "scanf ''ISS%c\<newline>'' s = (n, vs, s\<lparr>usb_in := i\<rparr>)" by (simp add: scanf_def)
  show ?thesis
  proof (cases "n = 1")
    case True
    let ?c = "char_of (unat (vs ! 0)) :: char"
    have "?c \<noteq> CHR ''u''" using assms(4) fields True by (simp add: command_char_def)
    then have "\<forall>(d, r) \<in> set COMMANDS. d = ?c \<longrightarrow> r \<noteq> R_set_passes"
      by (auto simp: COMMANDS_def)
    from run_dispatch [OF assms(1) _ assms(3) this, of "s\<lparr>usb_in := i\<rparr>" cb] assms(2) sc True
    show ?thesis by (simp add: listen_def)
  qed (use assms(2) sc in \<open>simp add: listen_def\<close>)
qed

lemma usb_in_isrs [simp]:
  "usb_in (fw (take_isrs is s)) = usb_in (fw s)" "usb_out (fw (take_isrs is s)) = usb_out (fw s)"
proof -
  have "usb_in (fw (take_isr a s)) = usb_in (fw s) \<and> usb_out (fw (take_isr a s)) = usb_out (fw s)"
    for a and s :: "('a, 'b) board"
    by (cases a) (simp_all add: on_fw_def INT3_vect_def TIMER3_COMPA_vect_def Let_def on_io_def)
  then have "usb_in (fw (take_isrs is s)) = usb_in (fw s) \<and> usb_out (fw (take_isrs is s)) = usb_out (fw s)"
    by (induction "is" arbitrary: s) (simp_all add: take_isrs_def)
  then show "usb_in (fw (take_isrs is s)) = usb_in (fw s)"
    and "usb_out (fw (take_isrs is s)) = usb_out (fw s)" by blast+
qed

lemma turn_runs:
  assumes "reg_chip ch cregs cptr fresh" and "fw_inv (fw s)" and "length stack = 10"
    and "command_char (fw s) \<noteq> Some CHR ''u''"
  shows "\<exists>s'. main_turn st (drv_write cb ch) (drv_read cb ch) stack ev s = Returns s' \<and>
      fw_inv (fw s') \<and> bit (EIMSK (io (fw s'))) 3 \<and> reset_alarm (fw s') = 0"
proof -
  have "runs fw_inv (listen (drv_write cb ch) (drv_read cb ch) stack (fw (take_isrs (ev 0) s)))"
    using assms by (intro run_listen inv_isrs) (simp_all add: command_char_def)
  then have step: "runs (\<lambda>b. fw_inv (fw b))
      (try_fw (listen (drv_write cb ch) (drv_read cb ch) stack) (take_isrs (ev 0) s))"
    by (rule run_try)
  have alarm: "runs (\<lambda>b. fw_inv (fw b)) (try_fw (alarm_check (drv_write cb ch)) (take_isrs is b))"
    if "fw_inv (fw b)" for b :: "(phase \<times> 'a, 'b) board" and "is"
    by (rule run_try, rule run_alarm [OF assms(1) inv_isrs [OF that]])
  have bow: "runs (\<lambda>b. fw_inv (fw b)) (try_fw rainbow_step (take_isrs is b))"
    if "fw_inv (fw b)" for b :: "(phase \<times> 'a, 'b) board" and "is"
    by (rule run_try, rule run_rainbow [OF inv_isrs [OF that]])
  have reset: "runs (\<lambda>b. fw_inv (fw b) \<and> int3_on (fw b) \<and> reset_alarm (fw b) = 0)
      (try_fw (reset_check (drv_write cb ch)) (take_isrs is b))"
    if "fw_inv (fw b)" for b :: "(phase \<times> 'a, 'b) board" and "is"
    by (rule run_try, rule run_reset [OF assms(1) inv_isrs [OF that]])
  have rest: "runs (\<lambda>b. fw_inv (fw b) \<and> int3_on (fw b) \<and> reset_alarm (fw b) = 0)
      (and_then (try_fw (alarm_check (drv_write cb ch)) (take_isrs (ev 1) s1)) (\<lambda>s2.
       and_then (try_fw rainbow_step (take_isrs (ev 2) s2)) (\<lambda>s3.
         let s4 = on_fw show_leds (take_isrs (ev 3) s3);
             s5 = s4\<lparr>usb := cdc_usb_task st (usb s4)\<rparr>;
             s6 = s5\<lparr>usb := usb_usb_task st (usb s5)\<rparr>
         in try_fw (reset_check (drv_write cb ch)) (take_isrs (ev 4) s6))))"
    if "fw_inv (fw s1)" for s1 :: "(phase \<times> 'a, 'b) board"
    unfolding Let_def
    by (rule runs_and_then [OF alarm [OF that]], rule runs_and_then [OF bow], assumption, rule reset)
      (simp add: on_fw_def inv_show inv_isrs)
  show ?thesis
    using runs_and_then [OF step rest]
    by (simp add: main_turn_def runs_def int3_on_def)
qed


subsection \<open>Listening\<close>

lemma fmt_listen: "scan_format ''ISS%c\<newline>'' =
    [Lit CHR ''I'', Lit CHR ''S'', Lit CHR ''S'', Conv_char, Space]"
  by code_simp

lemma char_through_u32: "char_of (unat (of_char c :: u32)) = c"
proof -
  have "unat (of_nat (of_char c) :: u32) = (of_char c :: nat)"
    by (simp only: unat_of_nat) (simp add: order_less_trans [OF nat_of_char_less_256])
  then show ?thesis by (simp only: of_nat_of_char) simp
qed

text \<open>
  A command of the table, sent as ISS and its character, is answered by the function the
  table names for it; a character outside the table is read and ignored.
\<close>

lemma listen_command:
  assumes "usb_in s = map Some (''ISS'' @ [c]) @ r"
  shows "listen wr rd stack s =
      (let s1 = s\<lparr>usb_in := snd (skip_spaces r)\<rparr>
       in case map_of COMMANDS c of
            None \<Rightarrow> Returns s1
          | Some f \<Rightarrow> call_resp wr rd stack f s1)"
proof -
  have disp: "dispatch wr rd stack cmds c s1 =
      (case map_of cmds c of None \<Rightarrow> Returns s1 | Some f \<Rightarrow> call_resp wr rd stack f s1)"
    for cmds and s1 :: "'a fw"
    by (induction cmds) auto
  show ?thesis
    by (simp add: listen_def scanf_def fscanf_def fmt_listen assms char_through_u32 disp Let_def)
qed

lemma listen_stray:
  "usb_in s = Some c # r \<Longrightarrow> c \<noteq> CHR ''I'' \<Longrightarrow> listen wr rd stack s = Returns s"
  by (simp add: listen_def scanf_def fscanf_def fmt_listen ungetc_def)

text \<open>Apart from listening, nothing in the loop reads or writes the stream.\<close>

definition same_usb :: "'b fw \<Rightarrow> 'b fw \<Rightarrow> bool" where
  "same_usb s s' \<longleftrightarrow> usb_in s' = usb_in s \<and> usb_out s' = usb_out s"

lemma same_show [simp]: "usb_in (show_leds s) = usb_in s" "usb_out (show_leds s) = usb_out s"
  by (simp_all add: show_leds_def)

lemma same_enable [simp]:
  "usb_in (enable_int3 s) = usb_in s" "usb_out (enable_int3 s) = usb_out s"
  by (simp_all add: enable_int3_def on_io_def)

lemma alarm_usb: "alarm_check wr s = Returns s' \<Longrightarrow> same_usb s s'"
  by (auto simp: alarm_check_def and_then_Returns same_usb_def split: if_splits)

lemma rainbow_usb: "rainbow_step s = Returns s' \<Longrightarrow> same_usb s s'"
  by (auto simp: rainbow_step_def and_then_Returns same_usb_def Let_def split: if_splits)

lemma reset_usb: "reset_check wr s = Returns s' \<Longrightarrow> same_usb s s'"
  by (auto simp: reset_check_def and_then_Returns same_usb_def split: if_splits)

lemma try_fw_Returns: "try_fw f s = Returns s' \<longleftrightarrow> (\<exists>t. f (fw s) = Returns t \<and> s' = s\<lparr>fw := t\<rparr>)"
  by (auto simp: try_fw_def and_then_Returns)

lemma turn_after_listen:
  assumes "main_turn st wr rd stack ev s = Returns s'"
  obtains s1 where "listen wr rd stack (fw (take_isrs (ev 0) s)) = Returns s1"
    and "usb_in (fw s') = usb_in s1" and "usb_out (fw s') = usb_out s1"
  using assms
  by (fastforce simp: main_turn_def and_then_Returns try_fw_Returns Let_def on_fw_def same_usb_def
      dest: alarm_usb rainbow_usb reset_usb)

lemma stray_turn:
  assumes "main_turn st wr rd stack ev s = Returns s'" and "usb_in (fw s) = Some c # r"
    and "c \<noteq> CHR ''I''"
  shows "usb_in (fw s') = Some c # r \<and> usb_out (fw s') = usb_out (fw s)"
proof -
  obtain s1 where "listen wr rd stack (fw (take_isrs (ev 0) s)) = Returns s1"
    "usb_in (fw s') = usb_in s1" "usb_out (fw s') = usb_out s1"
    by (rule turn_after_listen [OF assms(1)])
  moreover from this have "s1 = fw (take_isrs (ev 0) s)"
    using listen_stray [of "fw (take_isrs (ev 0) s)" c r wr rd stack] assms(2,3) by simp
  ultimately show ?thesis using assms(2) by simp
qed

lemma stray_loop:
  "main_loop st wr rd stack evs s = Returns s' \<Longrightarrow> usb_in (fw s) = Some c # r \<Longrightarrow> c \<noteq> CHR ''I'' \<Longrightarrow>
    usb_in (fw s') = Some c # r \<and> usb_out (fw s') = usb_out (fw s)"
proof (induction evs arbitrary: s)
  case (Cons ev evs)
  from Cons.prems(1) obtain s1 where s1: "main_turn st wr rd stack ev s = Returns s1"
    "main_loop st wr rd stack evs s1 = Returns s'"
    by (auto simp: and_then_Returns)
  from stray_turn [OF s1(1) Cons.prems(2,3)] Cons.IH [OF s1(2)] Cons.prems(3) show ?case by simp
qed simp

text \<open>
  C4: a color command that ends in a line break is answered, but the line break stays at the head
  of the stream, and no command after it is ever read or answered, however long the loop runs.
\<close>

theorem newline_deafens:
  assumes "usb_in (fw s) = map Some (''ISSc'' @ put_u n @ ''\<newline>'') @ r"
    and "main_loop st wr rd stack (ev # evs) s = Returns s'"
  shows "usb_in (fw s') = Some CHR ''\<newline>'' # r \<and> usb_out (fw s') = usb_out (fw s) @ ''set''"
proof -
  from assms(2) obtain s1 where s1: "main_turn st wr rd stack ev s = Returns s1"
    "main_loop st wr rd stack evs s1 = Returns s'"
    by (auto simp: and_then_Returns)
  let ?s = "fw (take_isrs (ev 0) s)"
  let ?in = "map Some (put_u n @ ''\<newline>'') @ r"
  have "usb_in ?s = map Some (''ISS'' @ ''c'') @ ?in" using assms(1) by simp
  moreover obtain d ds where d: "dec n = d # ds" "isdigit d" using dec_Cons by blast
  then have "snd (skip_spaces ?in) = ?in" using digit_plain [of d] by (simp add: put_u_def ungetc_def)
  ultimately have "listen wr rd stack ?s = set_color (?s\<lparr>usb_in := ?in\<rparr>)"
    by (simp only: listen_command) (simp add: COMMANDS_def call_resp_def)
  moreover have "fscanf ''%d'' ?in = (1, [of_nat n], Some CHR ''\<newline>'' # r)"
    by (simp add: fscanf_def fmt_int put_u_def scan_numeral_then [OF numeral_dec] del: scan.simps(5))
  ultimately obtain s2 where s2: "listen wr rd stack ?s = Returns s2"
    "usb_in s2 = Some CHR ''\<newline>'' # r" "usb_out s2 = usb_out (fw s) @ ''set''"
    by (simp add: set_color_def scanf_def puts_def)
  have "usb_in (fw s1) = Some CHR ''\<newline>'' # r" "usb_out (fw s1) = usb_out (fw s) @ ''set''"
    using turn_after_listen [OF s1(1)] s2 by auto
  with stray_loop [OF s1(2)] show ?thesis by simp
qed

subsection \<open>Set-up and startup\<close>

text \<open>
  After set-up the buses and interrupts are as the drivers need them, whatever the registers
  held: the I2C unit is ready at 100 kHz with interrupts on, the alarm interrupt is enabled, the
  white balance comes from the EEPROM, and the LED clock line is low.
\<close>

lemma setup_ready:
  "let f = fw (Setup_Hardware st s); r = io f in
     twi_state r = TWI_READY \<and> TWBR r = 32 \<and> TWCR r = 0x45 \<and> TWSR r AND 3 = 0 \<and>
     bit (EIMSK r) 3 \<and> EICRA r = EICRA (io (fw s)) \<and>
     white (leds f) = (NonVolatile_Blue_WB f, NonVolatile_Green_WB f, NonVolatile_Red_WB f) \<and>
     \<not> bit (PORTF (leds f)) 0 \<and> DDRF (leds f) AND 3 = 3 \<and>
     bit (PORTD r) 3 \<and> \<not> bit (DDRD r) 3 \<and> bit (DDRB r) 0"
proof -
  have "((w AND NOT 1) AND NOT 2) AND 3 = 0" for w :: u8
    by (rule bit_word_eqI) (auto simp: bit_simps less_Suc_eq numeral_eq_Suc)
  then have m: "((w AND - 2) AND - 3) AND 3 = 0" for w :: u8 by simp
  have all: "(ucast (- 1 :: u16) :: u8) = - 1" by (rule bit_word_eqI) (simp add: bit_simps)
  show ?thesis
    by (simp add: Setup_Hardware_def Let_def on_fw_def on_io_def io_def RTC_Init_def twi_init_def
        charge_Init_def F_CPU_def TWI_FREQ_def LED_Init_def LED_INIT_def pin_defs white_def
        wr_PORTF_def bit_simps m all)
qed

definition grey :: "nat \<Rightarrow> light list" where
  "grey i = replicate 4 (of_nat (i * 655), of_nat (i * 655), of_nat (i * 655))"

lemma show_filled:
  assumes "led_ready (leds s)" and "length (show_lights s) = 8"
  shows "\<exists>p q. shifted (leds (show_leds (fill_show b g r s))) = shifted (leds s) @ p @ q \<and>
      read_packet p = Some (sent_packet (leds s) (replicate 4 (b, g, r))) \<and>
      read_packet q = Some (sent_packet (leds s) (replicate 4 (b, g, r)))"
    and "led_ready (leds (show_leds (fill_show b g r s)))"
    and "length (show_lights (show_leds (fill_show b g r s))) = 8"
    and "white (leds (show_leds (fill_show b g r s))) = white (leds s)"
proof -
  have fill: "show_lights (fill_show b g r s) = replicate 8 (b, g, r)" "leds (fill_show b g r s) = leds s"
    using assms(2) by (simp_all add: fill_show_def fill_all del: upt_rec_numeral)
  show "\<exists>p q. shifted (leds (show_leds (fill_show b g r s))) = shifted (leds s) @ p @ q \<and>
      read_packet p = Some (sent_packet (leds s) (replicate 4 (b, g, r))) \<and>
      read_packet q = Some (sent_packet (leds s) (replicate 4 (b, g, r)))"
    unfolding show_leds_def
    by (intro exI [of _ "packet_bits (leds s) (replicate 4 (b, g, r))"])
      (simp add: fill led_shifted(1) [OF assms(1)] read_packet_bits)
  show "led_ready (leds (show_leds (fill_show b g r s)))"
    by (simp add: show_leds_def fill led_shifted(2) [OF assms(1)])
  show "length (show_lights (show_leds (fill_show b g r s))) = 8"
    by (simp add: show_leds_def fill)
  show "white (leds (show_leds (fill_show b g r s))) = white (leds s)"
    by (simp add: show_leds_def fill white_def led_def Let_def frame del: upt_rec_numeral)
qed

definition displays :: "led_hw \<Rightarrow> light list list \<Rightarrow> bool list list \<Rightarrow> bool" where
  "displays l gs ps \<longleftrightarrow> map read_packet ps = concat (map (\<lambda>g. replicate 2 (Some (sent_packet l g))) gs)"

lemma sent_white: "white l' = white l \<Longrightarrow> sent_packet l' g = sent_packet l g"
  by (simp add: white_def sent_packet_def)

lemma frames_shown:
  "led_ready (leds s) \<Longrightarrow> length (show_lights s) = 8 \<Longrightarrow>
    \<exists>ps. shifted (leds (fold grey_frame is s)) = shifted (leds s) @ concat ps \<and>
      displays (leds s) (map grey is) ps \<and> led_ready (leds (fold grey_frame is s)) \<and>
      length (show_lights (fold grey_frame is s)) = 8 \<and> white (leds (fold grey_frame is s)) = white (leds s)"
proof (induction "is" arbitrary: s)
  case Nil
  then show ?case by (intro exI [of _ "[]"]) (simp add: displays_def)
next
  case (Cons i "is")
  let ?v = "of_nat (i * 655)"
  note one = show_filled [OF Cons.prems, of ?v ?v ?v]
  let ?s = "grey_frame i s"
  have s: "?s = show_leds (fill_show ?v ?v ?v s)" by (simp add: grey_frame_def)
  obtain p q where pq: "shifted (leds ?s) = shifted (leds s) @ p @ q"
    "read_packet p = Some (sent_packet (leds s) (grey i))"
    "read_packet q = Some (sent_packet (leds s) (grey i))"
    using one(1) by (auto simp: s grey_def)
  obtain ps where ps: "shifted (leds (fold grey_frame is ?s)) = shifted (leds ?s) @ concat ps"
    "displays (leds ?s) (map grey is) ps" "led_ready (leds (fold grey_frame is ?s))"
    "length (show_lights (fold grey_frame is ?s)) = 8"
    "white (leds (fold grey_frame is ?s)) = white (leds ?s)"
    using Cons.IH [of ?s] one(2,3) by (auto simp: s)
  have "displays (leds s) (map grey (i # is)) (p # q # ps)"
    using ps(2) pq(2,3) sent_white [of "leds ?s" "leds s"] one(4)
    by (simp add: displays_def s numeral_2_eq_2)
  then show ?case
    using ps pq one(4) by (intro exI [of _ "p # q # ps"]) (simp add: s)
qed

text \<open>
  The startup animation sends exactly 200 updates: all lights grey at the levels 0 to 99, then
  100 down to 2, then dark.
\<close>

lemma startup_fades:
  assumes "led_ready (leds s)" and "length (show_lights s) = 8"
  shows "\<exists>ps. shifted (leds (startup_animation s)) = shifted (leds s) @ concat ps \<and> length ps = 400 \<and>
      map read_packet ps = concat (map (\<lambda>i. replicate 2 (Some (sent_packet (leds s) (grey i))))
        ([0..<100] @ rev [2..<101] @ [0]))"
proof -
  let ?is = "[0..<100] @ rev [2..<101] @ [0]"
  have "startup_animation s = fold grey_frame ?is s"
    by (simp add: startup_animation_def Let_def grey_frame_def del: upt_rec_numeral)
  with frames_shown [OF assms, of ?is] obtain ps where
    ps: "shifted (leds (startup_animation s)) = shifted (leds s) @ concat ps"
      "displays (leds s) (map grey ?is) ps" by metis
  have "map read_packet ps = concat (map (\<lambda>i. replicate 2 (Some (sent_packet (leds s) (grey i)))) ?is)"
    using ps(2) unfolding displays_def map_map comp_def .
  moreover from this have "length ps = length (concat (map (\<lambda>i. replicate 2 (Some (sent_packet (leds s) (grey i)))) ?is))"
    by (metis length_map)
  moreover have "length (concat (map (\<lambda>i. replicate 2 (Some (sent_packet (leds s) (grey i)))) xs)) = 2 * length xs"
    for xs by (induction xs) simp_all
  ultimately show ?thesis using ps(1) by (intro exI [of _ ps]) (simp del: upt_rec_numeral)
qed

subsection \<open>Witnesses\<close>

definition idle_stack :: "unit usb_stack" where
  "idle_stack = \<lparr>usb_init = id, cdc_create_stream = id, cdc_usb_task = id, usb_usb_task = id\<rparr>"

definition sample_board :: "istream \<Rightarrow> (phase \<times> reg_state, unit) board" where
  "sample_board i = \<lparr>fw = sample_fw i, usb = (), CLKPR = 0, MCUCR = 0, MCUSR = 0, SREG_I = True,
     OCR3AL = 0, TCCR3B = 0, TIMSK3 = 0\<rparr>"

lemma sample_inv: "fw_inv (sample_fw i)"
  by (simp add: fw_inv_def fw_zero_def led_zero_ready rtc_zero_ok)

lemma rainbow_step_turns_witness:
  "\<exists>s' rot. rainbow_step (sample_fw []\<lparr>do_rainbow := True, ms := 81, bow_rotate := 7\<rparr>) = Returns s' \<and>
     show_lights s' = rotated rot \<and> rot = 8 \<and> bow_rotate s' = 0"
  using rainbow_step_turns [of "sample_fw []\<lparr>do_rainbow := True, ms := 81, bow_rotate := 7\<rparr>"]
  by (auto simp: fw_zero_def millis_def)

lemma fw_sample [simp]: "fw (sample_board i) = sample_fw i"
  by (simp add: sample_board_def)

lemma sample_command: "command_char (sample_fw [Some CHR ''I'']) = None"
  by (simp add: command_char_def fscanf_def fmt_listen fw_zero_def)


lemma newline_deafens_witness:
  "\<exists>s'. main_loop idle_stack (drv_write no_callbacks regfile) (drv_read no_callbacks regfile)
       (replicate 10 zero_pass) [\<lambda>_. []]
       (sample_board (map Some (''ISSc'' @ put_u 5 @ ''\<newline>'') @ map Some ''ISSa'')) = Returns s' \<and>
     usb_in (fw s') = Some CHR ''\<newline>'' # map Some ''ISSa'' \<and> usb_out (fw s') = ''set''"
proof -
  let ?in = "map Some (''ISSc'' @ put_u 5 @ ''\<newline>'') @ map Some ''ISSa''"
  have "char_of (99 :: nat) = CHR ''c''" by code_simp
  then have "command_char (sample_fw ?in) = Some CHR ''c''"
    by (simp add: command_char_def fscanf_def fmt_listen fw_zero_def)
  then obtain s' where "main_turn idle_stack (drv_write no_callbacks regfile) (drv_read no_callbacks regfile)
       (replicate 10 zero_pass) (\<lambda>_. []) (sample_board ?in) = Returns s'"
    using turn_runs [OF regfile.reg_chip_axioms, of "sample_board ?in" "replicate 10 zero_pass"
        idle_stack no_callbacks "\<lambda>_. []"] by (auto simp: sample_inv)
  then have run: "main_loop idle_stack (drv_write no_callbacks regfile) (drv_read no_callbacks regfile)
       (replicate 10 zero_pass) [\<lambda>_. []] (sample_board ?in) = Returns s'" by simp
  from newline_deafens [OF _ run, of 5 "map Some ''ISSa''"] run show ?thesis
    by (auto simp: fw_zero_def)
qed

end
