(* ===== verification/UsbPort.thy ===== *)
theory UsbPort
  imports Prelude
begin

text \<open>
  The USB controller of the AVR8 processors as the USB drivers of the repository see it. Every access
  to one of its registers is recorded, newest first; what a register reads as is any function of the
  accesses before, so the controller and the other end of the line are arbitrary. Where the interrupt
  flag is set an arbitrary interrupt may come before each access. The registers of host mode and the
  port of its power switch are those of the AT90USB1287; the ATmega32U4 has the others only.
\<close>

unbundle bit_operations_syntax

subsection \<open>Registers and state\<close>

datatype usb_reg = UHWCON | USBCON | PLLCSR | UDCON | UDIEN | UDINT | UDADDR | UDFNUML
  | UENUM | UECONX | UECFG0X | UECFG1X | UEIENX | UERST | UEINTX | UEDATX | UEBCLX
  | UDFNUMH | USBINT | USBSTA | PLLFRQ | UEBCHX | UESTA0X | UEINT
  | UHCON | UHINT | UHIEN | UHADDR | UHFNUML | UHFNUMH | OTGCON | OTGIEN | OTGINT | DDRE | PORTE
  | UPNUM | UPCONX | UPCFG0X | UPCFG1X | UPCFG2X | UPIENX | UPRST | UPINTX | UPDATX | UPBCLX | UPBCHX
  | UPSTAX | UPINT | UPERRX | UPINRQX

datatype access = Rd usb_reg u8 | Wr usb_reg u8

record usb_port =
  io_log :: "access list"
  ien :: bool

text \<open>What a register reads as after given accesses, and what an interrupt does.\<close>

record 's usb_world =
  hw :: "access list \<Rightarrow> usb_reg \<Rightarrow> u8"
  irq :: "'s \<Rightarrow> 's"

text \<open>The bits of the registers by their names in \<^verbatim>\<open>avr/io.h\<close>.\<close>

abbreviation (input) "RWAL \<equiv> 5 :: nat"
abbreviation (input) "RXSTPI \<equiv> 3 :: nat"
abbreviation (input) "RXOUTI \<equiv> 2 :: nat"
abbreviation (input) "TXINI \<equiv> 0 :: nat"
abbreviation (input) "STALLRQ \<equiv> 5 :: nat"
abbreviation (input) "EORSTI \<equiv> 3 :: nat"
abbreviation (input) "SOFI \<equiv> 2 :: nat"
abbreviation (input) "PLOCK \<equiv> 0 :: nat"

type_synonym 'a usb_env = "'a usb_port_scheme usb_world"

definition gap :: "'a usb_env \<Rightarrow> 'a usb_port_scheme \<Rightarrow> 'a usb_port_scheme" where
  "gap E s = (if ien s then irq E s else s)"

definition rd :: "'a usb_env \<Rightarrow> usb_reg \<Rightarrow> 'a usb_port_scheme \<Rightarrow> u8 \<times> 'a usb_port_scheme" where
  "rd E r s = (let s1 = gap E s; v = hw E (io_log s1) r in (v, s1\<lparr>io_log := Rd r v # io_log s1\<rparr>))"

definition wr :: "'a usb_env \<Rightarrow> usb_reg \<Rightarrow> u8 \<Rightarrow> 'a usb_port_scheme \<Rightarrow> 'a usb_port_scheme" where
  "wr E r v s = (let s1 = gap E s in s1\<lparr>io_log := Wr r v # io_log s1\<rparr>)"

text \<open>\<^verbatim>\<open>intr_state = SREG; cli();\<close> and \<^verbatim>\<open>SREG = intr_state;\<close>\<close>

definition save_cli :: "'a usb_env \<Rightarrow> 'a usb_port_scheme \<Rightarrow> bool \<times> 'a usb_port_scheme" where
  "save_cli E s = (let s1 = gap E s in (ien s1, s1\<lparr>ien := False\<rparr>))"

definition restore :: "bool \<Rightarrow> 'a usb_port_scheme \<Rightarrow> 'a usb_port_scheme" where
  "restore i s = s\<lparr>ien := i\<rparr>"

text \<open>The loop \<^verbatim>\<open>do v = r; while (!(v & mask));\<close>.\<close>

partial_function (option) wait_for :: "'a usb_env \<Rightarrow> usb_reg \<Rightarrow> u8 \<Rightarrow> 'a usb_port_scheme \<Rightarrow> (u8 \<times> 'a usb_port_scheme) outcome" where
  "wait_for E r m s =
     (case rd E r s of (v, s1) \<Rightarrow> if v AND m \<noteq> 0 then Returns (v, s1) else wait_for E r m s1)"

text \<open>\<open>n\<close> times \<^verbatim>\<open>UEDATX = *buffer++\<close>; reading past the buffer is a fault.\<close>

fun fifo_fill :: "'a usb_env \<Rightarrow> nat \<Rightarrow> u8 list \<Rightarrow> 'a usb_port_scheme \<Rightarrow> (u8 list \<times> 'a usb_port_scheme) outcome" where
  "fifo_fill E 0 buffer s = Returns (buffer, s)"
| "fifo_fill E (Suc n) [] s = Faults OutOfBounds"
| "fifo_fill E (Suc n) (b # buffer) s = fifo_fill E n buffer (wr E UEDATX b s)"

fun read_fifo :: "'a usb_env \<Rightarrow> nat \<Rightarrow> 'a usb_port_scheme \<Rightarrow> u8 list \<times> 'a usb_port_scheme" where
  "read_fifo E 0 s = ([], s)"
| "read_fifo E (Suc n) s =
     (case rd E UEDATX s of (b, s1) \<Rightarrow> case read_fifo E n s1 of (bs, s2) \<Rightarrow> (b # bs, s2))"

subsection \<open>The controller\<close>

text \<open>\<^verbatim>\<open>UENUM\<close> selects the endpoint, \<^verbatim>\<open>UEDATX\<close> stores a byte in its buffer.\<close>

fun selected :: "access list \<Rightarrow> u8" where
  "selected [] = 0"
| "selected (Wr UENUM v # l) = v"
| "selected (_ # l) = selected l"

fun fed :: "u8 \<Rightarrow> access list \<Rightarrow> u8 list" where
  "fed e [] = []"
| "fed e (Wr UEDATX b # l) = (if selected l = e then fed e l @ [b] else fed e l)"
| "fed e (_ # l) = fed e l"

text \<open>Packets sent on endpoint 0 and the bytes of the next one: clearing \<^verbatim>\<open>TXINI\<close> sends.\<close>

fun sent_in :: "access list \<Rightarrow> u8 list list \<times> u8 list" where
  "sent_in [] = ([], [])"
| "sent_in (Wr UEDATX b # l) =
     (case sent_in l of (ps, bs) \<Rightarrow> if selected l = 0 then (ps, bs @ [b]) else (ps, bs))"
| "sent_in (Wr UEINTX v # l) =
     (case sent_in l of (ps, bs) \<Rightarrow> if selected l = 0 \<and> \<not> bit v TXINI then (ps @ [bs], []) else (ps, bs))"
| "sent_in (_ # l) = sent_in l"

lemma rd_masked [simp]:
  assumes "\<not> ien s"
  shows "rd E r s = (hw E (io_log s) r, s\<lparr>io_log := Rd r (hw E (io_log s) r) # io_log s\<rparr>)"
  using assms by (simp add: rd_def gap_def Let_def)

lemma wr_masked [simp]: "\<not> ien s \<Longrightarrow> wr E r v s = s\<lparr>io_log := Wr r v # io_log s\<rparr>"
  by (simp add: wr_def gap_def)

lemma save_cli_masked [simp]: "\<not> ien s \<Longrightarrow> save_cli E s = (False, s)"
  by (simp add: save_cli_def gap_def)

lemma restore_same [simp]: "\<not> ien s \<Longrightarrow> restore False s = s"
  by (simp add: restore_def)

lemma ien_restore [simp]: "ien (restore i s) = i" "io_log (restore i s) = io_log s"
  by (simp_all add: restore_def)

text \<open>A wait for a bit that is set does not wait.\<close>

lemma common_bit: "bit v i \<Longrightarrow> bit m i \<Longrightarrow> v AND m \<noteq> 0" for v m :: u8
  by (metis bit_0_eq bit_and_iff bot_apply bot_bool_def)

lemma wait_ready:
  assumes "\<not> ien s" and "bit (hw E (io_log s) r) i" and "bit m i"
  shows "wait_for E r m s = Returns (hw E (io_log s) r, s\<lparr>io_log := Rd r (hw E (io_log s) r) # io_log s\<rparr>)"
  using assms common_bit [OF assms(2,3)] by (subst wait_for.simps) simp

subsection \<open>Filling a buffer\<close>

lemma fill_ok:
  "\<not> ien s \<Longrightarrow> n \<le> length bs \<Longrightarrow>
    fifo_fill E n bs s = Returns (drop n bs, s\<lparr>io_log := rev (map (Wr UEDATX) (take n bs)) @ io_log s\<rparr>)"
proof (induction n arbitrary: bs s)
  case (Suc n)
  then obtain b bs' where "bs = b # bs'" by (cases bs) auto
  with Suc show ?case by simp
qed simp

lemma selected_data [simp]: "selected (map (Wr UEDATX) bs @ l) = selected l"
  by (induction bs) auto

lemma selected_fill [simp]: "selected (rev (map (Wr UEDATX) bs) @ l) = selected l"
  using selected_data [of "rev bs" l] by (simp add: rev_map)

lemma fed_fill [simp]:
  "fed e (rev (map (Wr UEDATX) bs) @ l) = (if selected l = e then fed e l @ bs else fed e l)"
  by (induction bs arbitrary: l) auto

lemma sent_fill [simp]:
  "sent_in (rev (map (Wr UEDATX) bs) @ l) =
    (if selected l = 0 then (fst (sent_in l), snd (sent_in l) @ bs) else sent_in l)"
  by (induction bs arbitrary: l) (auto split: prod.splits)

lemma read_constant:
  "\<not> ien s \<Longrightarrow> (\<And>l. hw E l UEDATX = b) \<Longrightarrow>
    read_fifo E n s = (replicate n b, s\<lparr>io_log := replicate n (Rd UEDATX b) @ io_log s\<rparr>)"
  by (induction n arbitrary: s) (auto simp: replicate_app_Cons_same)

lemma reads_change_nothing [simp]:
  "selected (replicate n (Rd r b) @ l) = selected l" "fed e (replicate n (Rd r b) @ l) = fed e l"
  by (induction n) auto

end
