(* ===== verification/ClassState.thy ===== *)
theory ClassState
  imports UsbPort
begin

text \<open>
  The state that the device class drivers of LUFA keep per interface, the \<^verbatim>\<open>State\<close> part of the
  structures in \<^verbatim>\<open>Class/Device\<close>: the task of the stack runs inside their transfers, so it is part of
  the state of the stack. Structures that travel byte by byte are lists of bytes.
\<close>

subsection \<open>HID\<close>

text \<open>
  \<open>PrevReportINBuffer\<close> is the application's buffer that the configuration points to, or none.
\<close>

record hid_device_state =
  UsingReportProtocol :: bool
  PrevFrameNum :: u16
  IdleCount :: u16
  IdleMSRemaining :: u16
  PrevReportINBuffer :: "u8 list option"

subsection \<open>Mass storage\<close>

record ms_state =
  CommandBlock :: "u8 list"
  CommandStatus :: "u8 list"
  IsMassStoreReset :: bool

subsection \<open>RNDIS\<close>

record rndis_state =
  RNDISMessageBuffer :: "u8 list"
  ResponseReady :: bool
  CurrRNDISState :: u8
  CurrPacketFilter :: u32

subsection \<open>All classes\<close>

text \<open>One interface of each class; \<open>InterfaceEnabled\<close> is the state of an audio interface.\<close>

record class_states =
  HID_Device :: hid_device_state
  MS_Device :: ms_state
  RNDIS_Device :: rndis_state
  InterfaceEnabled :: bool

definition hid_device_state_zero :: "u8 list option \<Rightarrow> hid_device_state" where
  "hid_device_state_zero b = \<lparr>UsingReportProtocol = False, PrevFrameNum = 0, IdleCount = 0,
     IdleMSRemaining = 0, PrevReportINBuffer = b\<rparr>"

definition ms_state_zero :: ms_state where
  "ms_state_zero = \<lparr>CommandBlock = replicate 31 0, CommandStatus = replicate 13 0, IsMassStoreReset = False\<rparr>"

definition rndis_state_zero :: rndis_state where
  "rndis_state_zero = \<lparr>RNDISMessageBuffer = replicate 128 0, ResponseReady = False,
     CurrRNDISState = 0, CurrPacketFilter = 0\<rparr>"

definition class_states_zero :: class_states where
  "class_states_zero = \<lparr>HID_Device = hid_device_state_zero None, MS_Device = ms_state_zero,
     RNDIS_Device = rndis_state_zero, InterfaceEnabled = False\<rparr>"

end
