(* ===== verification/LufaEndpoint.thy ===== *)
theory LufaEndpoint
  imports ClassState
begin

text \<open>
  The endpoint layer of LUFA for the ATmega32U4: the register functions of
  \<^verbatim>\<open>Core/AVR8/Endpoint_AVR8.h\<close> and \<^verbatim>\<open>Endpoint_AVR8.c\<close>, with the options of the Makefile
  (\<^verbatim>\<open>ORDERED_EP_CONFIG\<close>, a control endpoint of 8 bytes), and the state of the device stack.
\<close>

unbundle bit_operations_syntax

subsection \<open>State of the stack\<close>

datatype device_state = DEVICE_STATE_Unattached | DEVICE_STATE_Powered | DEVICE_STATE_Default
  | DEVICE_STATE_Addressed | DEVICE_STATE_Configured | DEVICE_STATE_Suspended

record usb_request =
  bmRequestType :: u8
  bRequest :: u8
  wValue :: u16
  wIndex :: u16
  wLength :: u16

record line_encoding =
  BaudRateBPS :: u32
  CharFormat :: u8
  ParityType :: u8
  DataBits :: u8

record cdc_state =
  HostToDevice :: u16
  DeviceToHost :: u16
  LineEncoding :: line_encoding

record lufa = usb_port +
  USB_DeviceState :: device_state
  USB_IsInitialized :: bool
  USB_ControlRequest :: usb_request
  USB_Device_ConfigurationNumber :: u8
  USB_Device_CurrentlySelfPowered :: bool
  USB_Device_RemoteWakeupEnabled :: bool
  CDC_State :: cdc_state
  Class_States :: class_states

type_synonym lufa_env = "lufa usb_world"

definition read_state :: "lufa_env \<Rightarrow> lufa \<Rightarrow> device_state \<times> lufa" where
  "read_state E s = (let s1 = gap E s in (USB_DeviceState s1, s1))"

text \<open>\<^verbatim>\<open>r = f(r)\<close> for a register: a read and a write, with room for an interrupt before each.\<close>

definition rmw :: "'a usb_env \<Rightarrow> usb_reg \<Rightarrow> (u8 \<Rightarrow> u8) \<Rightarrow> 'a usb_port_scheme \<Rightarrow> 'a usb_port_scheme" where
  "rmw E r f s = (case rd E r s of (v, s1) \<Rightarrow> wr E r (f v) s1)"

definition set_bit8 :: "nat \<Rightarrow> u8 \<Rightarrow> u8" where
  "set_bit8 n v = v OR push_bit n 1"

definition clr_bit8 :: "nat \<Rightarrow> u8 \<Rightarrow> u8" where
  "clr_bit8 n v = v AND NOT (push_bit n 1)"

definition test_reg :: "'a usb_env \<Rightarrow> usb_reg \<Rightarrow> nat \<Rightarrow> 'a usb_port_scheme \<Rightarrow> bool \<times> 'a usb_port_scheme" where
  "test_reg E r n s = (case rd E r s of (v, s1) \<Rightarrow> (bit v n, s1))"

abbreviation (input) "EPEN \<equiv> 0 :: nat"
abbreviation (input) "RSTDT \<equiv> 3 :: nat"
abbreviation (input) "STALLRQC \<equiv> 4 :: nat"
abbreviation (input) "FIFOCON \<equiv> 7 :: nat"
abbreviation (input) "CFGOK \<equiv> 7 :: nat"
abbreviation (input) "EPDIR \<equiv> 0 :: nat"
abbreviation (input) "ENDPOINT_CONTROLEP \<equiv> 0 :: u8"
abbreviation (input) "ENDPOINT_EPNUM_MASK \<equiv> 0x0F :: u8"
abbreviation (input) "ENDPOINT_DIR_IN \<equiv> 0x80 :: u8"
abbreviation (input) "ENDPOINT_DIR_OUT \<equiv> 0x00 :: u8"
abbreviation (input) "EP_TYPE_CONTROL \<equiv> 0 :: u8"
abbreviation (input) "EP_TYPE_BULK \<equiv> 2 :: u8"
abbreviation (input) "EP_TYPE_INTERRUPT \<equiv> 3 :: u8"
abbreviation (input) "FIXED_CONTROL_ENDPOINT_SIZE \<equiv> 8 :: u16"

definition ENDPOINT_TOTAL_ENDPOINTS :: nat where "ENDPOINT_TOTAL_ENDPOINTS = 7"
definition ENDPOINT_BANK_SINGLE :: u8 where "ENDPOINT_BANK_SINGLE = push_bit 2 0"
definition ENDPOINT_BANK_DOUBLE :: u8 where "ENDPOINT_BANK_DOUBLE = push_bit 2 1"

subsection \<open>Register functions\<close>

definition Endpoint_BytesInEndpoint :: "'a usb_env \<Rightarrow> 'a usb_port_scheme \<Rightarrow> u16 \<times> 'a usb_port_scheme" where
  "Endpoint_BytesInEndpoint E s =
     (case rd E UEBCHX s of (h, s1) \<Rightarrow> case rd E UEBCLX s1 of (l, s2) \<Rightarrow> (push_bit 8 (ucast h) OR ucast l, s2))"

definition Endpoint_GetCurrentEndpoint :: "'a usb_env \<Rightarrow> 'a usb_port_scheme \<Rightarrow> u8 \<times> 'a usb_port_scheme" where
  "Endpoint_GetCurrentEndpoint E s = (case rd E UENUM s of (v, s1) \<Rightarrow> (v AND ENDPOINT_EPNUM_MASK, s1))"

definition Endpoint_SelectEndpoint :: "'a usb_env \<Rightarrow> u8 \<Rightarrow> 'a usb_port_scheme \<Rightarrow> 'a usb_port_scheme" where
  "Endpoint_SelectEndpoint E n = wr E UENUM n"

definition Endpoint_ResetEndpoint :: "'a usb_env \<Rightarrow> u8 \<Rightarrow> 'a usb_port_scheme \<Rightarrow> 'a usb_port_scheme" where
  "Endpoint_ResetEndpoint E n s = wr E UERST 0 (wr E UERST (push_bit (unat n) 1) s)"

definition Endpoint_EnableEndpoint :: "'a usb_env \<Rightarrow> 'a usb_port_scheme \<Rightarrow> 'a usb_port_scheme" where
  "Endpoint_EnableEndpoint E = rmw E UECONX (set_bit8 EPEN)"

definition Endpoint_DisableEndpoint :: "'a usb_env \<Rightarrow> 'a usb_port_scheme \<Rightarrow> 'a usb_port_scheme" where
  "Endpoint_DisableEndpoint E = rmw E UECONX (clr_bit8 EPEN)"

definition Endpoint_IsEnabled :: "'a usb_env \<Rightarrow> 'a usb_port_scheme \<Rightarrow> bool \<times> 'a usb_port_scheme" where
  "Endpoint_IsEnabled E = test_reg E UECONX EPEN"

definition Endpoint_GetBusyBanks :: "'a usb_env \<Rightarrow> 'a usb_port_scheme \<Rightarrow> u8 \<times> 'a usb_port_scheme" where
  "Endpoint_GetBusyBanks E s = (case rd E UESTA0X s of (v, s1) \<Rightarrow> (v AND 3, s1))"

partial_function (option) wait_clear :: "'a usb_env \<Rightarrow> usb_reg \<Rightarrow> nat \<Rightarrow> 'a usb_port_scheme \<Rightarrow> 'a usb_port_scheme outcome" where
  "wait_clear E r n s = (case rd E r s of (v, s1) \<Rightarrow> if bit v n then wait_clear E r n s1 else Returns s1)"

partial_function (option) Endpoint_AbortPendingIN :: "'a usb_env \<Rightarrow> 'a usb_port_scheme \<Rightarrow> 'a usb_port_scheme outcome" where
  "Endpoint_AbortPendingIN E s =
     (case Endpoint_GetBusyBanks E s of (b, s1) \<Rightarrow>
        if b \<noteq> 0 then
          and_then (wait_clear E UEINTX RXOUTI (rmw E UEINTX (set_bit8 RXOUTI) s1)) (\<lambda>s2. Endpoint_AbortPendingIN E s2)
        else Returns s1)"

definition Endpoint_IsReadWriteAllowed :: "'a usb_env \<Rightarrow> 'a usb_port_scheme \<Rightarrow> bool \<times> 'a usb_port_scheme" where
  "Endpoint_IsReadWriteAllowed E = test_reg E UEINTX RWAL"

definition Endpoint_IsConfigured :: "'a usb_env \<Rightarrow> 'a usb_port_scheme \<Rightarrow> bool \<times> 'a usb_port_scheme" where
  "Endpoint_IsConfigured E = test_reg E UESTA0X CFGOK"

definition Endpoint_GetEndpointInterrupts :: "'a usb_env \<Rightarrow> 'a usb_port_scheme \<Rightarrow> u8 \<times> 'a usb_port_scheme" where
  "Endpoint_GetEndpointInterrupts E = rd E UEINT"

definition Endpoint_HasEndpointInterrupted :: "'a usb_env \<Rightarrow> u8 \<Rightarrow> 'a usb_port_scheme \<Rightarrow> bool \<times> 'a usb_port_scheme" where
  "Endpoint_HasEndpointInterrupted E n s =
     (case Endpoint_GetEndpointInterrupts E s of (v, s1) \<Rightarrow> (v AND push_bit (unat n) 1 \<noteq> 0, s1))"

definition Endpoint_IsINReady :: "'a usb_env \<Rightarrow> 'a usb_port_scheme \<Rightarrow> bool \<times> 'a usb_port_scheme" where
  "Endpoint_IsINReady E = test_reg E UEINTX TXINI"

definition Endpoint_IsOUTReceived :: "'a usb_env \<Rightarrow> 'a usb_port_scheme \<Rightarrow> bool \<times> 'a usb_port_scheme" where
  "Endpoint_IsOUTReceived E = test_reg E UEINTX RXOUTI"

definition Endpoint_IsSETUPReceived :: "'a usb_env \<Rightarrow> 'a usb_port_scheme \<Rightarrow> bool \<times> 'a usb_port_scheme" where
  "Endpoint_IsSETUPReceived E = test_reg E UEINTX RXSTPI"

definition Endpoint_ClearSETUP :: "'a usb_env \<Rightarrow> 'a usb_port_scheme \<Rightarrow> 'a usb_port_scheme" where
  "Endpoint_ClearSETUP E = rmw E UEINTX (clr_bit8 RXSTPI)"

definition Endpoint_ClearIN :: "'a usb_env \<Rightarrow> 'a usb_port_scheme \<Rightarrow> 'a usb_port_scheme" where
  "Endpoint_ClearIN E = rmw E UEINTX (\<lambda>v. v AND NOT (push_bit TXINI 1 OR push_bit FIFOCON 1))"

definition Endpoint_ClearOUT :: "'a usb_env \<Rightarrow> 'a usb_port_scheme \<Rightarrow> 'a usb_port_scheme" where
  "Endpoint_ClearOUT E = rmw E UEINTX (\<lambda>v. v AND NOT (push_bit RXOUTI 1 OR push_bit FIFOCON 1))"

definition Endpoint_StallTransaction :: "'a usb_env \<Rightarrow> 'a usb_port_scheme \<Rightarrow> 'a usb_port_scheme" where
  "Endpoint_StallTransaction E = rmw E UECONX (set_bit8 STALLRQ)"

definition Endpoint_ClearStall :: "'a usb_env \<Rightarrow> 'a usb_port_scheme \<Rightarrow> 'a usb_port_scheme" where
  "Endpoint_ClearStall E = rmw E UECONX (set_bit8 STALLRQC)"

definition Endpoint_IsStalled :: "'a usb_env \<Rightarrow> 'a usb_port_scheme \<Rightarrow> bool \<times> 'a usb_port_scheme" where
  "Endpoint_IsStalled E = test_reg E UECONX STALLRQ"

definition Endpoint_ResetDataToggle :: "'a usb_env \<Rightarrow> 'a usb_port_scheme \<Rightarrow> 'a usb_port_scheme" where
  "Endpoint_ResetDataToggle E = rmw E UECONX (set_bit8 RSTDT)"

definition Endpoint_GetEndpointDirection :: "'a usb_env \<Rightarrow> 'a usb_port_scheme \<Rightarrow> u8 \<times> 'a usb_port_scheme" where
  "Endpoint_GetEndpointDirection E s =
     (case test_reg E UECFG0X EPDIR s of (d, s1) \<Rightarrow> (if d then ENDPOINT_DIR_IN else ENDPOINT_DIR_OUT, s1))"

definition Endpoint_SetEndpointDirection :: "'a usb_env \<Rightarrow> u8 \<Rightarrow> 'a usb_port_scheme \<Rightarrow> 'a usb_port_scheme" where
  "Endpoint_SetEndpointDirection E d =
     rmw E UECFG0X (\<lambda>v. clr_bit8 EPDIR v OR (if d \<noteq> 0 then push_bit EPDIR 1 else 0))"

definition Endpoint_Read_8 :: "'a usb_env \<Rightarrow> 'a usb_port_scheme \<Rightarrow> u8 \<times> 'a usb_port_scheme" where
  "Endpoint_Read_8 E = rd E UEDATX"

definition Endpoint_Write_8 :: "'a usb_env \<Rightarrow> u8 \<Rightarrow> 'a usb_port_scheme \<Rightarrow> 'a usb_port_scheme" where
  "Endpoint_Write_8 E b = wr E UEDATX b"

definition Endpoint_Discard_8 :: "'a usb_env \<Rightarrow> 'a usb_port_scheme \<Rightarrow> 'a usb_port_scheme" where
  "Endpoint_Discard_8 E s = snd (rd E UEDATX s)"

text \<open>The bytes of 16 and 32 bit values, in the two orders.\<close>

definition le32 :: "u8 list \<Rightarrow> u32" where
  "le32 b = ucast (b ! 0) OR push_bit 8 (ucast (b ! 1)) OR push_bit 16 (ucast (b ! 2)) OR push_bit 24 (ucast (b ! 3))"

definition bytes32 :: "u32 \<Rightarrow> u8 list" where
  "bytes32 w = [ucast w, ucast (drop_bit 8 w), ucast (drop_bit 16 w), ucast (drop_bit 24 w)]"

definition Endpoint_Read_16_LE :: "'a usb_env \<Rightarrow> 'a usb_port_scheme \<Rightarrow> u16 \<times> 'a usb_port_scheme" where
  "Endpoint_Read_16_LE E s = (case read_fifo E 2 s of (b, s1) \<Rightarrow> (le16 (b ! 0) (b ! 1), s1))"

definition Endpoint_Read_16_BE :: "'a usb_env \<Rightarrow> 'a usb_port_scheme \<Rightarrow> u16 \<times> 'a usb_port_scheme" where
  "Endpoint_Read_16_BE E s = (case read_fifo E 2 s of (b, s1) \<Rightarrow> (le16 (b ! 1) (b ! 0), s1))"

definition Endpoint_Write_16_LE :: "'a usb_env \<Rightarrow> u16 \<Rightarrow> 'a usb_port_scheme \<Rightarrow> 'a usb_port_scheme" where
  "Endpoint_Write_16_LE E w s = wr E UEDATX (hi8 w) (wr E UEDATX (lo8 w) s)"

definition Endpoint_Write_16_BE :: "'a usb_env \<Rightarrow> u16 \<Rightarrow> 'a usb_port_scheme \<Rightarrow> 'a usb_port_scheme" where
  "Endpoint_Write_16_BE E w s = wr E UEDATX (lo8 w) (wr E UEDATX (hi8 w) s)"

definition Endpoint_Discard_16 :: "'a usb_env \<Rightarrow> 'a usb_port_scheme \<Rightarrow> 'a usb_port_scheme" where
  "Endpoint_Discard_16 E s = snd (read_fifo E 2 s)"

definition Endpoint_Read_32_LE :: "'a usb_env \<Rightarrow> 'a usb_port_scheme \<Rightarrow> u32 \<times> 'a usb_port_scheme" where
  "Endpoint_Read_32_LE E s = (case read_fifo E 4 s of (b, s1) \<Rightarrow> (le32 b, s1))"

definition Endpoint_Read_32_BE :: "'a usb_env \<Rightarrow> 'a usb_port_scheme \<Rightarrow> u32 \<times> 'a usb_port_scheme" where
  "Endpoint_Read_32_BE E s = (case read_fifo E 4 s of (b, s1) \<Rightarrow> (le32 (rev b), s1))"

definition Endpoint_Write_32_LE :: "'a usb_env \<Rightarrow> u32 \<Rightarrow> 'a usb_port_scheme \<Rightarrow> 'a usb_port_scheme" where
  "Endpoint_Write_32_LE E w s = fold (wr E UEDATX) (bytes32 w) s"

definition Endpoint_Write_32_BE :: "'a usb_env \<Rightarrow> u32 \<Rightarrow> 'a usb_port_scheme \<Rightarrow> 'a usb_port_scheme" where
  "Endpoint_Write_32_BE E w s = fold (wr E UEDATX) (rev (bytes32 w)) s"

definition Endpoint_Discard_32 :: "'a usb_env \<Rightarrow> 'a usb_port_scheme \<Rightarrow> 'a usb_port_scheme" where
  "Endpoint_Discard_32 E s = snd (read_fifo E 4 s)"

subsection \<open>Configuration\<close>

text \<open>The loop that finds the size code; above 32768 bytes the 16-bit bound wraps and it never ends.\<close>

partial_function (option) size_mask :: "u8 \<Rightarrow> u16 \<Rightarrow> u16 \<Rightarrow> u8 outcome" where
  "size_mask MaskVal CheckBytes Bytes =
     (if CheckBytes < Bytes then size_mask (MaskVal + 1) (push_bit 1 CheckBytes) Bytes else Returns MaskVal)"

definition Endpoint_BytesToEPSizeMask :: "u16 \<Rightarrow> u8 outcome" where
  "Endpoint_BytesToEPSizeMask Bytes = and_then (size_mask 0 8 Bytes) (\<lambda>m. Returns (push_bit 4 m))"

definition Endpoint_ConfigureEndpoint_Prv ::
    "'a usb_env \<Rightarrow> u8 \<Rightarrow> u8 \<Rightarrow> u8 \<Rightarrow> 'a usb_port_scheme \<Rightarrow> bool \<times> 'a usb_port_scheme" where
  "Endpoint_ConfigureEndpoint_Prv E Number UECFG0XData UECFG1XData s =
     Endpoint_IsConfigured E
       (wr E UECFG1X UECFG1XData (wr E UECFG0X UECFG0XData (wr E UECFG1X 0
         (Endpoint_EnableEndpoint E (Endpoint_SelectEndpoint E Number s)))))"

definition Endpoint_ConfigureEndpoint ::
    "'a usb_env \<Rightarrow> u8 \<Rightarrow> u8 \<Rightarrow> u8 \<Rightarrow> u16 \<Rightarrow> u8 \<Rightarrow> 'a usb_port_scheme \<Rightarrow> (bool \<times> 'a usb_port_scheme) outcome" where
  "Endpoint_ConfigureEndpoint E Number Type Direction Size Banks s =
     and_then (Endpoint_BytesToEPSizeMask Size) (\<lambda>m.
       Returns (Endpoint_ConfigureEndpoint_Prv E Number
         (push_bit 6 Type OR (if Direction \<noteq> 0 then push_bit EPDIR 1 else 0))
         (push_bit 1 1 OR Banks OR m) s))"

fun clear_endpoints :: "'a usb_env \<Rightarrow> u8 \<Rightarrow> nat \<Rightarrow> 'a usb_port_scheme \<Rightarrow> 'a usb_port_scheme" where
  "clear_endpoints E n 0 s = s"
| "clear_endpoints E n (Suc k) s =
     clear_endpoints E (n + 1) k
       (Endpoint_DisableEndpoint E (wr E UECFG1X 0 (wr E UEINTX 0 (wr E UEIENX 0 (Endpoint_SelectEndpoint E n s)))))"

definition Endpoint_ClearEndpoints :: "'a usb_env \<Rightarrow> 'a usb_port_scheme \<Rightarrow> 'a usb_port_scheme" where
  "Endpoint_ClearEndpoints E s = clear_endpoints E 0 ENDPOINT_TOTAL_ENDPOINTS (wr E UEINT 0 s)"

subsection \<open>Waiting\<close>

text \<open>A wait for a bit of \<^verbatim>\<open>UEINTX\<close> that a disconnection ends (then the result is \<open>False\<close>).\<close>

partial_function (option) wait_attached :: "lufa_env \<Rightarrow> nat \<Rightarrow> lufa \<Rightarrow> (bool \<times> lufa) outcome" where
  "wait_attached E n s =
     (case test_reg E UEINTX n s of (b, s1) \<Rightarrow>
        if b then Returns (True, s1)
        else case read_state E s1 of (d, s2) \<Rightarrow>
          if d = DEVICE_STATE_Unattached then Returns (False, s2) else wait_attached E n s2)"

definition Endpoint_ClearStatusStage :: "lufa_env \<Rightarrow> lufa \<Rightarrow> lufa outcome" where
  "Endpoint_ClearStatusStage E s =
     (if bit (bmRequestType (USB_ControlRequest s)) 7 then
        and_then (wait_attached E RXOUTI s) (\<lambda>(ok, s1). Returns (if ok then Endpoint_ClearOUT E s1 else s1))
      else
        and_then (wait_attached E TXINI s) (\<lambda>(ok, s1). Returns (if ok then Endpoint_ClearIN E s1 else s1)))"

definition USB_Device_GetFrameNumber :: "'a usb_env \<Rightarrow> 'a usb_port_scheme \<Rightarrow> u16 \<times> 'a usb_port_scheme" where
  "USB_Device_GetFrameNumber E s =
     (case rd E UDFNUML s of (l, s1) \<Rightarrow> case rd E UDFNUMH s1 of (h, s2) \<Rightarrow> (le16 l h, s2))"

datatype stream_error = NoError | EndpointStalled | DeviceDisconnected | BusSuspended | Timeout
  | IncompleteTransfer | HostAborted

partial_function (option) ready_loop :: "lufa_env \<Rightarrow> u8 \<Rightarrow> u16 \<Rightarrow> lufa \<Rightarrow> (stream_error \<times> lufa) outcome" where
  "ready_loop E TimeoutMSRem PreviousFrameNumber s =
     (case Endpoint_GetEndpointDirection E s of (d, s1) \<Rightarrow>
      case (if d = ENDPOINT_DIR_IN then Endpoint_IsINReady E s1 else Endpoint_IsOUTReceived E s1) of (ready, s2) \<Rightarrow>
        if ready then Returns (NoError, s2)
        else case read_state E s2 of (ds, s3) \<Rightarrow>
          if ds = DEVICE_STATE_Unattached then Returns (DeviceDisconnected, s3)
          else if ds = DEVICE_STATE_Suspended then Returns (BusSuspended, s3)
          else case Endpoint_IsStalled E s3 of (st, s4) \<Rightarrow>
            if st then Returns (EndpointStalled, s4)
            else case USB_Device_GetFrameNumber E s4 of (f, s5) \<Rightarrow>
              if f \<noteq> PreviousFrameNumber then
                if TimeoutMSRem = 0 then Returns (Timeout, s5)
                else ready_loop E (TimeoutMSRem - 1) f s5
              else ready_loop E TimeoutMSRem PreviousFrameNumber s5)"

definition Endpoint_WaitUntilReady :: "lufa_env \<Rightarrow> lufa \<Rightarrow> (stream_error \<times> lufa) outcome" where
  "Endpoint_WaitUntilReady E s = (case USB_Device_GetFrameNumber E s of (f, s1) \<Rightarrow> ready_loop E 100 f s1)"

end
