(* ===== verification/LufaStream.thy ===== *)
theory LufaStream
  imports LufaEndpoint
begin

text \<open>
  The endpoint streams of LUFA: the discard and null streams of \<^verbatim>\<open>Core/AVR8/EndpointStream_AVR8.c\<close>,
  the three code templates it includes, and their instances. A buffer is an array with the position
  of the next byte; an access outside of it is a fault. \<open>task\<close> is \<^verbatim>\<open>USB_USBTask\<close>.
\<close>

unbundle bit_operations_syntax

subsection \<open>Streams without a buffer\<close>

text \<open>
  The loop that \<^verbatim>\<open>Endpoint_Discard_Stream\<close> and \<^verbatim>\<open>Endpoint_Null_Stream\<close> share; \<open>done\<close> is
  \<^verbatim>\<open>*BytesProcessed\<close>, or \<open>None\<close> for a null pointer.
\<close>

partial_function (option) plain_loop ::
    "lufa_env \<Rightarrow> (lufa \<Rightarrow> lufa) \<Rightarrow> (lufa \<Rightarrow> lufa) \<Rightarrow> u16 \<Rightarrow> u16 \<Rightarrow> u16 option \<Rightarrow> lufa \<Rightarrow>
     (stream_error \<times> u16 option \<times> lufa) outcome" where
  "plain_loop E clear transfer Length BytesInTransfer bp s =
     (if Length = 0 then Returns (NoError, bp, s)
      else case Endpoint_IsReadWriteAllowed E s of (ok, s1) \<Rightarrow>
        if \<not> ok then
          (case bp of
             Some b \<Rightarrow> Returns (IncompleteTransfer, Some (b + BytesInTransfer), clear s1)
           | None \<Rightarrow>
               and_then (Endpoint_WaitUntilReady E (clear s1)) (\<lambda>(e, s2).
                 if e \<noteq> NoError then Returns (e, bp, s2)
                 else plain_loop E clear transfer Length BytesInTransfer bp s2))
        else plain_loop E clear transfer (Length - 1) (BytesInTransfer + 1) bp (transfer s1))"

definition plain_stream ::
    "lufa_env \<Rightarrow> (lufa \<Rightarrow> lufa) \<Rightarrow> (lufa \<Rightarrow> lufa) \<Rightarrow> u16 \<Rightarrow> u16 option \<Rightarrow> lufa \<Rightarrow>
     (stream_error \<times> u16 option \<times> lufa) outcome" where
  "plain_stream E clear transfer Length bp s =
     and_then (Endpoint_WaitUntilReady E s) (\<lambda>(e, s1).
       if e \<noteq> NoError then Returns (e, bp, s1)
       else plain_loop E clear transfer (case bp of None \<Rightarrow> Length | Some b \<Rightarrow> Length - b) 0 bp s1)"

definition Endpoint_Discard_Stream ::
    "lufa_env \<Rightarrow> u16 \<Rightarrow> u16 option \<Rightarrow> lufa \<Rightarrow> (stream_error \<times> u16 option \<times> lufa) outcome" where
  "Endpoint_Discard_Stream E = plain_stream E (Endpoint_ClearOUT E) (Endpoint_Discard_8 E)"

definition Endpoint_Null_Stream ::
    "lufa_env \<Rightarrow> u16 \<Rightarrow> u16 option \<Rightarrow> lufa \<Rightarrow> (stream_error \<times> u16 option \<times> lufa) outcome" where
  "Endpoint_Null_Stream E = plain_stream E (Endpoint_ClearIN E) (Endpoint_Write_8 E 0)"

subsection \<open>The template of the data streams\<close>

type_synonym transfer = "u8 list \<Rightarrow> int \<Rightarrow> lufa \<Rightarrow> (u8 list \<times> lufa) outcome"

definition write_byte :: "lufa_env \<Rightarrow> transfer" where
  "write_byte E buffer i s =
     (if 0 \<le> i \<and> i < int (length buffer) then Returns (buffer, Endpoint_Write_8 E (buffer ! nat i) s)
      else Faults OutOfBounds)"

definition read_byte :: "lufa_env \<Rightarrow> transfer" where
  "read_byte E buffer i s =
     (case Endpoint_Read_8 E s of (b, s1) \<Rightarrow>
        if 0 \<le> i \<and> i < int (length buffer) then Returns (buffer[nat i := b], s1) else Faults OutOfBounds)"

type_synonym stream_result = "(stream_error \<times> u8 list \<times> u16 option \<times> lufa) outcome"

partial_function (option) rw_loop ::
    "lufa_env \<Rightarrow> (lufa \<Rightarrow> lufa outcome) \<Rightarrow> (lufa \<Rightarrow> lufa) \<Rightarrow> transfer \<Rightarrow> int \<Rightarrow>
     u8 list \<Rightarrow> int \<Rightarrow> u16 \<Rightarrow> u16 \<Rightarrow> u16 option \<Rightarrow> lufa \<Rightarrow> stream_result" where
  "rw_loop E task clear transfer move buffer i Length BytesInTransfer bp s =
     (if Length = 0 then Returns (NoError, buffer, bp, s)
      else case Endpoint_IsReadWriteAllowed E s of (ok, s1) \<Rightarrow>
        if \<not> ok then
          and_then (task (clear s1)) (\<lambda>s2.
            case bp of
              Some b \<Rightarrow> Returns (IncompleteTransfer, buffer, Some (b + BytesInTransfer), s2)
            | None \<Rightarrow>
                and_then (Endpoint_WaitUntilReady E s2) (\<lambda>(e, s3).
                  if e \<noteq> NoError then Returns (e, buffer, bp, s3)
                  else rw_loop E task clear transfer move buffer i Length BytesInTransfer bp s3))
        else
          and_then (transfer buffer i s1) (\<lambda>(buffer', s2).
            rw_loop E task clear transfer move buffer' (i + move) (Length - 1) (BytesInTransfer + 1) bp s2))"

text \<open>\<open>move\<close> is 1 for the little endian instances and -1, from the last byte on, for the others.\<close>

definition template_rw ::
    "lufa_env \<Rightarrow> (lufa \<Rightarrow> lufa outcome) \<Rightarrow> (lufa \<Rightarrow> lufa) \<Rightarrow> transfer \<Rightarrow> int \<Rightarrow>
     u8 list \<Rightarrow> u16 \<Rightarrow> u16 option \<Rightarrow> lufa \<Rightarrow> stream_result" where
  "template_rw E task clear transfer move buffer Length bp s =
     (let i = (if move = 1 then 0 else int (unat Length) - 1) in
      and_then (Endpoint_WaitUntilReady E s) (\<lambda>(e, s1).
        if e \<noteq> NoError then Returns (e, buffer, bp, s1)
        else case bp of
          None \<Rightarrow> rw_loop E task clear transfer move buffer i Length 0 bp s1
        | Some b \<Rightarrow> rw_loop E task clear transfer move buffer (i + move * int (unat b)) (Length - b) 0 bp s1))"

type_synonym stream =
  "lufa_env \<Rightarrow> (lufa \<Rightarrow> lufa outcome) \<Rightarrow> u8 list \<Rightarrow> u16 \<Rightarrow> u16 option \<Rightarrow> lufa \<Rightarrow> stream_result"

definition Endpoint_Write_Stream_LE :: stream where
  "Endpoint_Write_Stream_LE E task = template_rw E task (Endpoint_ClearIN E) (write_byte E) 1"

definition Endpoint_Write_Stream_BE :: stream where
  "Endpoint_Write_Stream_BE E task = template_rw E task (Endpoint_ClearIN E) (write_byte E) (-1)"

definition Endpoint_Read_Stream_LE :: stream where
  "Endpoint_Read_Stream_LE E task = template_rw E task (Endpoint_ClearOUT E) (read_byte E) 1"

definition Endpoint_Read_Stream_BE :: stream where
  "Endpoint_Read_Stream_BE E task = template_rw E task (Endpoint_ClearOUT E) (read_byte E) (-1)"

text \<open>The instances on flash and EEPROM do the same with the contents of that memory.\<close>

definition Endpoint_Write_PStream_LE :: stream where
  "Endpoint_Write_PStream_LE E task = template_rw E task (Endpoint_ClearIN E) (write_byte E) 1"

definition Endpoint_Write_PStream_BE :: stream where
  "Endpoint_Write_PStream_BE E task = template_rw E task (Endpoint_ClearIN E) (write_byte E) (-1)"

definition Endpoint_Write_EStream_LE :: stream where
  "Endpoint_Write_EStream_LE E task = template_rw E task (Endpoint_ClearIN E) (write_byte E) 1"

definition Endpoint_Write_EStream_BE :: stream where
  "Endpoint_Write_EStream_BE E task = template_rw E task (Endpoint_ClearIN E) (write_byte E) (-1)"

definition Endpoint_Read_EStream_LE :: stream where
  "Endpoint_Read_EStream_LE E task = template_rw E task (Endpoint_ClearOUT E) (read_byte E) 1"

definition Endpoint_Read_EStream_BE :: stream where
  "Endpoint_Read_EStream_BE E task = template_rw E task (Endpoint_ClearOUT E) (read_byte E) (-1)"

subsection \<open>The templates of the control streams\<close>

type_synonym control_result = "(stream_error \<times> u8 list \<times> lufa) outcome"

text \<open>The inner loop: bytes for the packet while there is room in the control endpoint.\<close>

partial_function (option) fill_packet ::
    "transfer \<Rightarrow> int \<Rightarrow> u8 list \<Rightarrow> int \<Rightarrow> u16 \<Rightarrow> u16 \<Rightarrow> lufa \<Rightarrow>
     (u8 list \<times> int \<times> u16 \<times> u16 \<times> lufa) outcome" where
  "fill_packet transfer move buffer i Length BytesInEndpoint s =
     (if Length \<noteq> 0 \<and> BytesInEndpoint < FIXED_CONTROL_ENDPOINT_SIZE then
        and_then (transfer buffer i s) (\<lambda>(buffer', s1).
          fill_packet transfer move buffer' (i + move) (Length - 1) (BytesInEndpoint + 1) s1)
      else Returns (buffer, i, Length, BytesInEndpoint, s))"

text \<open>The wait for the status stage at the end of a control stream.\<close>

partial_function (option) status_wait ::
    "lufa_env \<Rightarrow> nat \<Rightarrow> u8 list \<Rightarrow> lufa \<Rightarrow> control_result" where
  "status_wait E n buffer s =
     (case test_reg E UEINTX n s of (b, s1) \<Rightarrow>
        if b then Returns (NoError, buffer, s1)
        else case read_state E s1 of (d, s2) \<Rightarrow>
          if d = DEVICE_STATE_Unattached then Returns (DeviceDisconnected, buffer, s2)
          else if d = DEVICE_STATE_Suspended then Returns (BusSuspended, buffer, s2)
          else status_wait E n buffer s2)"

partial_function (option) control_w_loop ::
    "lufa_env \<Rightarrow> transfer \<Rightarrow> int \<Rightarrow> u8 list \<Rightarrow> int \<Rightarrow> u16 \<Rightarrow> bool \<Rightarrow> lufa \<Rightarrow> control_result" where
  "control_w_loop E transfer move buffer i Length LastPacketFull s =
     (if \<not> (Length \<noteq> 0 \<or> LastPacketFull) then status_wait E RXOUTI buffer s
      else case read_state E s of (d, s1) \<Rightarrow>
        if d = DEVICE_STATE_Unattached then Returns (DeviceDisconnected, buffer, s1)
        else if d = DEVICE_STATE_Suspended then Returns (BusSuspended, buffer, s1)
        else case Endpoint_IsSETUPReceived E s1 of (setup, s2) \<Rightarrow>
          if setup then Returns (HostAborted, buffer, s2)
          else case Endpoint_IsOUTReceived E s2 of (out, s3) \<Rightarrow>
            if out then status_wait E RXOUTI buffer s3
            else case Endpoint_IsINReady E s3 of (ready, s4) \<Rightarrow>
              if ready then
                case Endpoint_BytesInEndpoint E s4 of (n, s5) \<Rightarrow>
                  and_then (fill_packet transfer move buffer i Length n s5) (\<lambda>(buffer', i', l, n', s6).
                    control_w_loop E transfer move buffer' i' l (n' = FIXED_CONTROL_ENDPOINT_SIZE)
                      (Endpoint_ClearIN E s6))
              else control_w_loop E transfer move buffer i Length LastPacketFull s4)"

definition template_control_w ::
    "lufa_env \<Rightarrow> transfer \<Rightarrow> int \<Rightarrow> u8 list \<Rightarrow> u16 \<Rightarrow> lufa \<Rightarrow> control_result" where
  "template_control_w E transfer move buffer Length s =
     (let i = (if move = 1 then 0 else int (unat Length) - 1) in
      if Length > wLength (USB_ControlRequest s) then
        control_w_loop E transfer move buffer i (wLength (USB_ControlRequest s)) False s
      else control_w_loop E transfer move buffer i Length False
        (if Length = 0 then Endpoint_ClearIN E s else s))"

text \<open>The inner loop of the other direction: bytes while there are some in the endpoint.\<close>

partial_function (option) drain_packet ::
    "lufa_env \<Rightarrow> transfer \<Rightarrow> int \<Rightarrow> u8 list \<Rightarrow> int \<Rightarrow> u16 \<Rightarrow> lufa \<Rightarrow>
     (u8 list \<times> int \<times> u16 \<times> lufa) outcome" where
  "drain_packet E transfer move buffer i Length s =
     (if Length = 0 then Returns (buffer, i, Length, s)
      else case Endpoint_BytesInEndpoint E s of (n, s1) \<Rightarrow>
        if n = 0 then Returns (buffer, i, Length, s1)
        else and_then (transfer buffer i s1) (\<lambda>(buffer', s2).
          drain_packet E transfer move buffer' (i + move) (Length - 1) s2))"

partial_function (option) control_r_loop ::
    "lufa_env \<Rightarrow> transfer \<Rightarrow> int \<Rightarrow> u8 list \<Rightarrow> int \<Rightarrow> u16 \<Rightarrow> lufa \<Rightarrow> control_result" where
  "control_r_loop E transfer move buffer i Length s =
     (if Length = 0 then status_wait E TXINI buffer s
      else case read_state E s of (d, s1) \<Rightarrow>
        if d = DEVICE_STATE_Unattached then Returns (DeviceDisconnected, buffer, s1)
        else if d = DEVICE_STATE_Suspended then Returns (BusSuspended, buffer, s1)
        else case Endpoint_IsSETUPReceived E s1 of (setup, s2) \<Rightarrow>
          if setup then Returns (HostAborted, buffer, s2)
          else case Endpoint_IsOUTReceived E s2 of (out, s3) \<Rightarrow>
            if out then
              and_then (drain_packet E transfer move buffer i Length s3) (\<lambda>(buffer', i', l, s4).
                control_r_loop E transfer move buffer' i' l (Endpoint_ClearOUT E s4))
            else control_r_loop E transfer move buffer i Length s3)"

definition template_control_r ::
    "lufa_env \<Rightarrow> transfer \<Rightarrow> int \<Rightarrow> u8 list \<Rightarrow> u16 \<Rightarrow> lufa \<Rightarrow> control_result" where
  "template_control_r E transfer move buffer Length s =
     control_r_loop E transfer move buffer (if move = 1 then 0 else int (unat Length) - 1) Length
       (if Length = 0 then Endpoint_ClearOUT E s else s)"

type_synonym control_stream = "lufa_env \<Rightarrow> u8 list \<Rightarrow> u16 \<Rightarrow> lufa \<Rightarrow> control_result"

definition Endpoint_Write_Control_Stream_LE :: control_stream where
  "Endpoint_Write_Control_Stream_LE E = template_control_w E (write_byte E) 1"

definition Endpoint_Write_Control_Stream_BE :: control_stream where
  "Endpoint_Write_Control_Stream_BE E = template_control_w E (write_byte E) (-1)"

definition Endpoint_Read_Control_Stream_LE :: control_stream where
  "Endpoint_Read_Control_Stream_LE E = template_control_r E (read_byte E) 1"

definition Endpoint_Read_Control_Stream_BE :: control_stream where
  "Endpoint_Read_Control_Stream_BE E = template_control_r E (read_byte E) (-1)"

definition Endpoint_Write_Control_PStream_LE :: control_stream where
  "Endpoint_Write_Control_PStream_LE E = template_control_w E (write_byte E) 1"

definition Endpoint_Write_Control_PStream_BE :: control_stream where
  "Endpoint_Write_Control_PStream_BE E = template_control_w E (write_byte E) (-1)"

definition Endpoint_Write_Control_EStream_LE :: control_stream where
  "Endpoint_Write_Control_EStream_LE E = template_control_w E (write_byte E) 1"

definition Endpoint_Write_Control_EStream_BE :: control_stream where
  "Endpoint_Write_Control_EStream_BE E = template_control_w E (write_byte E) (-1)"

definition Endpoint_Read_Control_EStream_LE :: control_stream where
  "Endpoint_Read_Control_EStream_LE E = template_control_r E (read_byte E) 1"

definition Endpoint_Read_Control_EStream_BE :: control_stream where
  "Endpoint_Read_Control_EStream_BE E = template_control_r E (read_byte E) (-1)"

end
