(* ===== verification/Descriptors.thy ===== *)
theory Descriptors
  imports UsbPort
begin

text \<open>
  The descriptors of the device: the structures of \<^verbatim>\<open>Core/StdDescriptors.h\<close> and
  \<^verbatim>\<open>Class/Common/CDCClassCommon.h\<close> as records with the bytes they occupy (packed, least
  significant byte first), the tables of \<^verbatim>\<open>Descriptors.c\<close> and the callback that finds a descriptor,
  and the search functions of \<^verbatim>\<open>Core/ConfigDescriptor.c\<close>.
\<close>

unbundle bit_operations_syntax

subsection \<open>Structures\<close>

datatype descriptor_type = DTYPE_Device | DTYPE_Configuration | DTYPE_String | DTYPE_Interface
  | DTYPE_Endpoint | DTYPE_DeviceQualifier | DTYPE_Other | DTYPE_InterfacePower
  | DTYPE_InterfaceAssociation | DTYPE_CSInterface | DTYPE_CSEndpoint

fun dtype :: "descriptor_type \<Rightarrow> u8" where
  "dtype DTYPE_Device = 0x01"
| "dtype DTYPE_Configuration = 0x02"
| "dtype DTYPE_String = 0x03"
| "dtype DTYPE_Interface = 0x04"
| "dtype DTYPE_Endpoint = 0x05"
| "dtype DTYPE_DeviceQualifier = 0x06"
| "dtype DTYPE_Other = 0x07"
| "dtype DTYPE_InterfacePower = 0x08"
| "dtype DTYPE_InterfaceAssociation = 0x0B"
| "dtype DTYPE_CSInterface = 0x24"
| "dtype DTYPE_CSEndpoint = 0x25"

record header =
  Size :: u8
  Type :: u8

definition header_bytes :: "header \<Rightarrow> u8 list" where
  "header_bytes h = [Size h, Type h]"

definition bytes16 :: "u16 \<Rightarrow> u8 list" where
  "bytes16 w = [lo8 w, hi8 w]"

record device_desc =
  dev_Header :: header
  USBSpecification :: u16
  dev_Class :: u8
  dev_SubClass :: u8
  dev_Protocol :: u8
  Endpoint0Size :: u8
  VendorID :: u16
  ProductID :: u16
  ReleaseNumber :: u16
  ManufacturerStrIndex :: u8
  ProductStrIndex :: u8
  SerialNumStrIndex :: u8
  NumberOfConfigurations :: u8

definition device_bytes :: "device_desc \<Rightarrow> u8 list" where
  "device_bytes d = header_bytes (dev_Header d) @ bytes16 (USBSpecification d)
     @ [dev_Class d, dev_SubClass d, dev_Protocol d, Endpoint0Size d]
     @ bytes16 (VendorID d) @ bytes16 (ProductID d) @ bytes16 (ReleaseNumber d)
     @ [ManufacturerStrIndex d, ProductStrIndex d, SerialNumStrIndex d, NumberOfConfigurations d]"

record configuration_header =
  cfg_Header :: header
  TotalConfigurationSize :: u16
  TotalInterfaces :: u8
  ConfigurationNumber :: u8
  ConfigurationStrIndex :: u8
  ConfigAttributes :: u8
  MaxPowerConsumption :: u8

definition configuration_header_bytes :: "configuration_header \<Rightarrow> u8 list" where
  "configuration_header_bytes c = header_bytes (cfg_Header c) @ bytes16 (TotalConfigurationSize c)
     @ [TotalInterfaces c, ConfigurationNumber c, ConfigurationStrIndex c, ConfigAttributes c,
        MaxPowerConsumption c]"

record interface_desc =
  if_Header :: header
  InterfaceNumber :: u8
  AlternateSetting :: u8
  TotalEndpoints :: u8
  if_Class :: u8
  if_SubClass :: u8
  if_Protocol :: u8
  InterfaceStrIndex :: u8

definition interface_bytes :: "interface_desc \<Rightarrow> u8 list" where
  "interface_bytes i = header_bytes (if_Header i)
     @ [InterfaceNumber i, AlternateSetting i, TotalEndpoints i, if_Class i, if_SubClass i,
        if_Protocol i, InterfaceStrIndex i]"

record endpoint_desc =
  ep_Header :: header
  EndpointAddress :: u8
  ep_Attributes :: u8
  EndpointSize :: u16
  PollingIntervalMS :: u8

definition endpoint_bytes :: "endpoint_desc \<Rightarrow> u8 list" where
  "endpoint_bytes e = header_bytes (ep_Header e) @ [EndpointAddress e, ep_Attributes e]
     @ bytes16 (EndpointSize e) @ [PollingIntervalMS e]"

record string_desc =
  str_Header :: header
  UnicodeString :: "u16 list"

definition string_bytes :: "string_desc \<Rightarrow> u8 list" where
  "string_bytes s = header_bytes (str_Header s) @ concat (map bytes16 (UnicodeString s))"

record functional_header =
  fh_Header :: header
  fh_Subtype :: u8
  CDCSpecification :: u16

definition functional_header_bytes :: "functional_header \<Rightarrow> u8 list" where
  "functional_header_bytes f = header_bytes (fh_Header f) @ [fh_Subtype f] @ bytes16 (CDCSpecification f)"

record functional_acm =
  acm_Header :: header
  acm_Subtype :: u8
  Capabilities :: u8

definition functional_acm_bytes :: "functional_acm \<Rightarrow> u8 list" where
  "functional_acm_bytes f = header_bytes (acm_Header f) @ [acm_Subtype f, Capabilities f]"

record functional_union =
  un_Header :: header
  un_Subtype :: u8
  MasterInterfaceNumber :: u8
  SlaveInterfaceNumber :: u8

definition functional_union_bytes :: "functional_union \<Rightarrow> u8 list" where
  "functional_union_bytes f = header_bytes (un_Header f)
     @ [un_Subtype f, MasterInterfaceNumber f, SlaveInterfaceNumber f]"

text \<open>\<^verbatim>\<open>sizeof\<close> of the packed structures is the number of their bytes.\<close>

record configuration =
  Config :: configuration_header
  CDC_CCI_Interface :: interface_desc
  CDC_Functional_Header :: functional_header
  CDC_Functional_ACM :: functional_acm
  CDC_Functional_Union :: functional_union
  CDC_NotificationEndpoint :: endpoint_desc
  CDC_DCI_Interface :: interface_desc
  CDC_DataOutEndpoint :: endpoint_desc
  CDC_DataInEndpoint :: endpoint_desc

definition configuration_bytes :: "configuration \<Rightarrow> u8 list" where
  "configuration_bytes c = configuration_header_bytes (Config c)
     @ interface_bytes (CDC_CCI_Interface c) @ functional_header_bytes (CDC_Functional_Header c)
     @ functional_acm_bytes (CDC_Functional_ACM c) @ functional_union_bytes (CDC_Functional_Union c)
     @ endpoint_bytes (CDC_NotificationEndpoint c) @ interface_bytes (CDC_DCI_Interface c)
     @ endpoint_bytes (CDC_DataOutEndpoint c) @ endpoint_bytes (CDC_DataInEndpoint c)"

subsection \<open>The tables\<close>

abbreviation (input) "NO_DESCRIPTOR \<equiv> 0 :: u8"
abbreviation (input) "USE_INTERNAL_SERIAL \<equiv> 0xDC :: u8"

definition CDC_NOTIFICATION_EPNUM :: u8 where "CDC_NOTIFICATION_EPNUM = 2"
definition CDC_TX_EPNUM :: u8 where "CDC_TX_EPNUM = 3"
definition CDC_RX_EPNUM :: u8 where "CDC_RX_EPNUM = 4"
definition CDC_NOTIFICATION_EPSIZE :: u16 where "CDC_NOTIFICATION_EPSIZE = 8"
definition CDC_TXRX_EPSIZE :: u16 where "CDC_TXRX_EPSIZE = 16"

text \<open>A version number, here in hundredths, as four binary coded decimal digits.\<close>

definition VERSION_BCD :: "nat \<Rightarrow> u16" where
  "VERSION_BCD x = of_nat
     ((x div 1000 * 16 + x div 100 mod 10) * 256 + (x div 10 mod 10 * 16 + x mod 10))"

definition USB_CONFIG_POWER_MA :: "u8 \<Rightarrow> u8" where
  "USB_CONFIG_POWER_MA mA = drop_bit 1 mA"

definition USB_STRING_LEN :: "nat \<Rightarrow> nat" where
  "USB_STRING_LEN UnicodeChars = 2 + push_bit 1 UnicodeChars"

definition DeviceDescriptor :: device_desc where
  "DeviceDescriptor = \<lparr>dev_Header = \<lparr>Size = 18, Type = dtype DTYPE_Device\<rparr>,
     USBSpecification = VERSION_BCD 110, dev_Class = 0x02, dev_SubClass = 0x00, dev_Protocol = 0x00,
     Endpoint0Size = 8, VendorID = 0x03EB, ProductID = 0x2044, ReleaseNumber = VERSION_BCD 1,
     ManufacturerStrIndex = 0x01, ProductStrIndex = 0x02, SerialNumStrIndex = USE_INTERNAL_SERIAL,
     NumberOfConfigurations = 1\<rparr>"

definition ConfigurationDescriptor :: configuration where
  "ConfigurationDescriptor =
    \<lparr>Config = \<lparr>cfg_Header = \<lparr>Size = 9, Type = dtype DTYPE_Configuration\<rparr>,
        TotalConfigurationSize = 62, TotalInterfaces = 2, ConfigurationNumber = 1,
        ConfigurationStrIndex = NO_DESCRIPTOR, ConfigAttributes = 0x80 OR 0x40,
        MaxPowerConsumption = USB_CONFIG_POWER_MA 100\<rparr>,
     CDC_CCI_Interface = \<lparr>if_Header = \<lparr>Size = 9, Type = dtype DTYPE_Interface\<rparr>,
        InterfaceNumber = 0, AlternateSetting = 0, TotalEndpoints = 1,
        if_Class = 0x02, if_SubClass = 0x02, if_Protocol = 0x01, InterfaceStrIndex = NO_DESCRIPTOR\<rparr>,
     CDC_Functional_Header = \<lparr>fh_Header = \<lparr>Size = 5, Type = dtype DTYPE_CSInterface\<rparr>,
        fh_Subtype = 0x00, CDCSpecification = VERSION_BCD 110\<rparr>,
     CDC_Functional_ACM = \<lparr>acm_Header = \<lparr>Size = 4, Type = dtype DTYPE_CSInterface\<rparr>,
        acm_Subtype = 0x02, Capabilities = 0x06\<rparr>,
     CDC_Functional_Union = \<lparr>un_Header = \<lparr>Size = 5, Type = dtype DTYPE_CSInterface\<rparr>,
        un_Subtype = 0x06, MasterInterfaceNumber = 0, SlaveInterfaceNumber = 1\<rparr>,
     CDC_NotificationEndpoint = \<lparr>ep_Header = \<lparr>Size = 7, Type = dtype DTYPE_Endpoint\<rparr>,
        EndpointAddress = 0x80 OR CDC_NOTIFICATION_EPNUM, ep_Attributes = 3,
        EndpointSize = CDC_NOTIFICATION_EPSIZE, PollingIntervalMS = 0xFF\<rparr>,
     CDC_DCI_Interface = \<lparr>if_Header = \<lparr>Size = 9, Type = dtype DTYPE_Interface\<rparr>,
        InterfaceNumber = 1, AlternateSetting = 0, TotalEndpoints = 2,
        if_Class = 0x0A, if_SubClass = 0x00, if_Protocol = 0x00, InterfaceStrIndex = NO_DESCRIPTOR\<rparr>,
     CDC_DataOutEndpoint = \<lparr>ep_Header = \<lparr>Size = 7, Type = dtype DTYPE_Endpoint\<rparr>,
        EndpointAddress = 0x00 OR CDC_RX_EPNUM, ep_Attributes = 2,
        EndpointSize = CDC_TXRX_EPSIZE, PollingIntervalMS = 0x01\<rparr>,
     CDC_DataInEndpoint = \<lparr>ep_Header = \<lparr>Size = 7, Type = dtype DTYPE_Endpoint\<rparr>,
        EndpointAddress = 0x80 OR CDC_TX_EPNUM, ep_Attributes = 2,
        EndpointSize = CDC_TXRX_EPSIZE, PollingIntervalMS = 0x01\<rparr>\<rparr>"

definition LanguageString :: string_desc where
  "LanguageString = \<lparr>str_Header = \<lparr>Size = of_nat (USB_STRING_LEN 1), Type = dtype DTYPE_String\<rparr>,
     UnicodeString = [0x0409]\<rparr>"

definition ManufacturerString :: string_desc where
  "ManufacturerString = \<lparr>str_Header = \<lparr>Size = of_nat (USB_STRING_LEN 11), Type = dtype DTYPE_String\<rparr>,
     UnicodeString = map of_char ''Open Notify'' @ [0]\<rparr>"

definition ProductString :: string_desc where
  "ProductString = \<lparr>str_Header = \<lparr>Size = of_nat (USB_STRING_LEN 12), Type = dtype DTYPE_String\<rparr>,
     UnicodeString = map of_char ''LED Notifier'' @ [0]\<rparr>"

text \<open>The object the address points to and the size; no object stands for \<^verbatim>\<open>NULL\<close>.\<close>

definition CALLBACK_USB_GetDescriptor :: "u16 \<Rightarrow> u8 \<Rightarrow> u8 list \<times> u16" where
  "CALLBACK_USB_GetDescriptor wValue wIndex =
     (let DescriptorType = hi8 wValue; DescriptorNumber = lo8 wValue in
      if DescriptorType = dtype DTYPE_Device then (device_bytes DeviceDescriptor, 18)
      else if DescriptorType = dtype DTYPE_Configuration then (configuration_bytes ConfigurationDescriptor, 62)
      else if DescriptorType = dtype DTYPE_String then
        if DescriptorNumber = 0 then (string_bytes LanguageString, ucast (Size (str_Header LanguageString)))
        else if DescriptorNumber = 1 then (string_bytes ManufacturerString, ucast (Size (str_Header ManufacturerString)))
        else if DescriptorNumber = 2 then (string_bytes ProductString, ucast (Size (str_Header ProductString)))
        else ([], 0)
      else ([], 0))"

subsection \<open>Searching a configuration descriptor\<close>

text \<open>
  The rest of the buffer stands for \<^verbatim>\<open>CurrConfigLoc\<close>. A header that is not wholly in the buffer is
  a read past its end.
\<close>

definition DESCRIPTOR_SIZE :: "u8 list \<Rightarrow> u8 outcome" where
  "DESCRIPTOR_SIZE p = (case p of s # _ \<Rightarrow> Returns s | [] \<Rightarrow> Faults OutOfBounds)"

definition DESCRIPTOR_TYPE :: "u8 list \<Rightarrow> u8 outcome" where
  "DESCRIPTOR_TYPE p = (case p of _ # t # _ \<Rightarrow> Returns t | _ \<Rightarrow> Faults OutOfBounds)"

definition USB_GetNextDescriptor :: "u16 \<Rightarrow> u8 list \<Rightarrow> (u16 \<times> u8 list) outcome" where
  "USB_GetNextDescriptor BytesRem p =
     and_then (DESCRIPTOR_SIZE p) (\<lambda>n.
       let n = (ucast n :: u16); n = (if BytesRem < n then BytesRem else n)
       in Returns (BytesRem - n, drop (unat n) p))"

partial_function (option) USB_GetNextDescriptorOfType :: "u8 \<Rightarrow> u16 \<Rightarrow> u8 list \<Rightarrow> (u16 \<times> u8 list) outcome" where
  "USB_GetNextDescriptorOfType T BytesRem p =
     (if BytesRem = 0 then Returns (BytesRem, p)
      else and_then (USB_GetNextDescriptor BytesRem p) (\<lambda>(r, q).
        and_then (DESCRIPTOR_TYPE q) (\<lambda>t.
          if t = T then Returns (r, q) else USB_GetNextDescriptorOfType T r q)))"

partial_function (option) USB_GetNextDescriptorOfTypeBefore ::
    "u8 \<Rightarrow> u8 \<Rightarrow> u16 \<Rightarrow> u8 list \<Rightarrow> (u16 \<times> u8 list) outcome" where
  "USB_GetNextDescriptorOfTypeBefore T B BytesRem p =
     (if BytesRem = 0 then Returns (BytesRem, p)
      else and_then (USB_GetNextDescriptor BytesRem p) (\<lambda>(r, q).
        and_then (DESCRIPTOR_TYPE q) (\<lambda>t.
          if t = T then Returns (r, q)
          else if t = B then Returns (0, q)
          else USB_GetNextDescriptorOfTypeBefore T B r q)))"

definition USB_GetNextDescriptorOfTypeAfter :: "u8 \<Rightarrow> u8 \<Rightarrow> u16 \<Rightarrow> u8 list \<Rightarrow> (u16 \<times> u8 list) outcome" where
  "USB_GetNextDescriptorOfTypeAfter T A BytesRem p =
     and_then (USB_GetNextDescriptorOfType A BytesRem p) (\<lambda>(r, q).
       if r \<noteq> 0 then USB_GetNextDescriptorOfType T r q else Returns (r, q))"

abbreviation (input) "DESCRIPTOR_SEARCH_Found \<equiv> 0 :: u8"
abbreviation (input) "DESCRIPTOR_SEARCH_Fail \<equiv> 1 :: u8"
abbreviation (input) "DESCRIPTOR_SEARCH_NotFound \<equiv> 2 :: u8"
abbreviation (input) "DESCRIPTOR_SEARCH_COMP_EndOfDescriptor \<equiv> 2 :: u8"

partial_function (option) USB_GetNextDescriptorComp ::
    "(u8 list \<Rightarrow> u8) \<Rightarrow> u16 \<Rightarrow> u8 list \<Rightarrow> (u8 \<times> u16 \<times> u8 list) outcome" where
  "USB_GetNextDescriptorComp ComparatorRoutine BytesRem p =
     (if BytesRem = 0 then Returns (DESCRIPTOR_SEARCH_COMP_EndOfDescriptor, BytesRem, p)
      else and_then (USB_GetNextDescriptor BytesRem p) (\<lambda>(r, q).
        let ErrorCode = ComparatorRoutine q in
        if ErrorCode \<noteq> DESCRIPTOR_SEARCH_NotFound then
          if ErrorCode = DESCRIPTOR_SEARCH_Fail then Returns (ErrorCode, BytesRem, p)
          else Returns (ErrorCode, r, q)
        else USB_GetNextDescriptorComp ComparatorRoutine r q))"

end
