(* ===== verification/LufaDevice.thy ===== *)
theory LufaDevice
  imports LufaStream Descriptors
begin

text \<open>
  The device side of LUFA: controller and interrupts (\<^verbatim>\<open>Core/AVR8/USBController_AVR8\<close>,
  \<^verbatim>\<open>USBInterrupt_AVR8\<close>, \<^verbatim>\<open>Device_AVR8\<close>), the standard requests of
  \<^verbatim>\<open>Core/DeviceStandardReq.c\<close> and \<^verbatim>\<open>Core/USBTask.c\<close>, for a device-only build with automatic PLL and
  regulator. The callbacks into the application are a record of functions; the events it leaves to
  their empty default are left out.
\<close>

unbundle bit_operations_syntax

subsection \<open>The application\<close>

record app =
  EVENT_ControlRequest :: "lufa \<Rightarrow> lufa outcome"
  EVENT_ConfigurationChanged :: "lufa \<Rightarrow> lufa outcome"
  GetDescriptor :: "u16 \<Rightarrow> u8 \<Rightarrow> u8 list \<times> u16"
  signature_byte :: "u8 \<Rightarrow> u8"

subsection \<open>Controller\<close>

definition USB_VBUS_GetStatus :: "'a usb_env \<Rightarrow> 'a usb_port_scheme \<Rightarrow> bool \<times> 'a usb_port_scheme" where
  "USB_VBUS_GetStatus E = test_reg E USBSTA 0"

definition USB_Detach :: "'a usb_env \<Rightarrow> 'a usb_port_scheme \<Rightarrow> 'a usb_port_scheme" where
  "USB_Detach E = rmw E UDCON (set_bit8 0)"

definition USB_Attach :: "'a usb_env \<Rightarrow> 'a usb_port_scheme \<Rightarrow> 'a usb_port_scheme" where
  "USB_Attach E = rmw E UDCON (clr_bit8 0)"

definition USB_PLL_PSC :: u8 where "USB_PLL_PSC = 0"

definition USB_PLL_On :: "'a usb_env \<Rightarrow> 'a usb_port_scheme \<Rightarrow> 'a usb_port_scheme" where
  "USB_PLL_On E s = wr E PLLCSR (USB_PLL_PSC OR push_bit 1 1) (wr E PLLCSR USB_PLL_PSC s)"

definition USB_PLL_Off :: "'a usb_env \<Rightarrow> 'a usb_port_scheme \<Rightarrow> 'a usb_port_scheme" where
  "USB_PLL_Off E = wr E PLLCSR 0"

text \<open>\<^verbatim>\<open>USB_PLL_On(); while (!(USB_PLL_IsReady()));\<close>\<close>

definition pll_start :: "'a usb_env \<Rightarrow> 'a usb_port_scheme \<Rightarrow> 'a usb_port_scheme outcome" where
  "pll_start E s = and_then (wait_for E PLLCSR (push_bit PLOCK 1) (USB_PLL_On E s)) (\<lambda>(_, s1). Returns s1)"

definition USB_REG_On :: "'a usb_env \<Rightarrow> 'a usb_port_scheme \<Rightarrow> 'a usb_port_scheme" where
  "USB_REG_On E = rmw E UHWCON (set_bit8 0)"

definition USB_REG_Off :: "'a usb_env \<Rightarrow> 'a usb_port_scheme \<Rightarrow> 'a usb_port_scheme" where
  "USB_REG_Off E = rmw E UHWCON (clr_bit8 0)"

definition USB_OTGPAD_On :: "'a usb_env \<Rightarrow> 'a usb_port_scheme \<Rightarrow> 'a usb_port_scheme" where
  "USB_OTGPAD_On E = rmw E USBCON (set_bit8 4)"

definition USB_OTGPAD_Off :: "'a usb_env \<Rightarrow> 'a usb_port_scheme \<Rightarrow> 'a usb_port_scheme" where
  "USB_OTGPAD_Off E = rmw E USBCON (clr_bit8 4)"

definition USB_CLK_Freeze :: "'a usb_env \<Rightarrow> 'a usb_port_scheme \<Rightarrow> 'a usb_port_scheme" where
  "USB_CLK_Freeze E = rmw E USBCON (set_bit8 5)"

definition USB_CLK_Unfreeze :: "'a usb_env \<Rightarrow> 'a usb_port_scheme \<Rightarrow> 'a usb_port_scheme" where
  "USB_CLK_Unfreeze E = rmw E USBCON (clr_bit8 5)"

definition USB_Controller_Disable :: "'a usb_env \<Rightarrow> 'a usb_port_scheme \<Rightarrow> 'a usb_port_scheme" where
  "USB_Controller_Disable E = rmw E USBCON (clr_bit8 7)"

definition USB_Controller_Enable :: "'a usb_env \<Rightarrow> 'a usb_port_scheme \<Rightarrow> 'a usb_port_scheme" where
  "USB_Controller_Enable E = rmw E USBCON (set_bit8 7)"

definition USB_Controller_Reset :: "'a usb_env \<Rightarrow> 'a usb_port_scheme \<Rightarrow> 'a usb_port_scheme" where
  "USB_Controller_Reset E s = rmw E USBCON (set_bit8 7) (rmw E USBCON (clr_bit8 7) s)"

definition USB_Device_SetFullSpeed :: "'a usb_env \<Rightarrow> 'a usb_port_scheme \<Rightarrow> 'a usb_port_scheme" where
  "USB_Device_SetFullSpeed E = rmw E UDCON (clr_bit8 2)"

definition USB_Device_SetLowSpeed :: "'a usb_env \<Rightarrow> 'a usb_port_scheme \<Rightarrow> 'a usb_port_scheme" where
  "USB_Device_SetLowSpeed E = rmw E UDCON (set_bit8 2)"

definition USB_Device_SetDeviceAddress :: "'a usb_env \<Rightarrow> u8 \<Rightarrow> 'a usb_port_scheme \<Rightarrow> 'a usb_port_scheme" where
  "USB_Device_SetDeviceAddress E a s =
     (case rd E UDADDR s of (v, s1) \<Rightarrow>
        let t = (v AND push_bit 7 1) OR (a AND 0x7F)
        in wr E UDADDR (t OR push_bit 7 1) (wr E UDADDR t s1))"

definition USB_Device_IsAddressSet :: "'a usb_env \<Rightarrow> 'a usb_port_scheme \<Rightarrow> bool \<times> 'a usb_port_scheme" where
  "USB_Device_IsAddressSet E = test_reg E UDADDR 7"

definition USB_Device_SendRemoteWakeup :: "'a usb_env \<Rightarrow> 'a usb_port_scheme \<Rightarrow> 'a usb_port_scheme outcome" where
  "USB_Device_SendRemoteWakeup E s =
     and_then (pll_start E s) (\<lambda>s1. wait_clear E UDCON 1 (rmw E UDCON (set_bit8 1) (USB_CLK_Unfreeze E s1)))"

subsection \<open>Interrupt flags\<close>

datatype usb_int = USB_INT_VBUSTI | USB_INT_WAKEUPI | USB_INT_SUSPI | USB_INT_EORSTI | USB_INT_SOFI | USB_INT_RXSTPI

fun int_enable :: "usb_int \<Rightarrow> usb_reg \<times> nat" where
  "int_enable USB_INT_VBUSTI = (USBCON, 0)"
| "int_enable USB_INT_WAKEUPI = (UDIEN, 4)"
| "int_enable USB_INT_SUSPI = (UDIEN, 0)"
| "int_enable USB_INT_EORSTI = (UDIEN, 3)"
| "int_enable USB_INT_SOFI = (UDIEN, 2)"
| "int_enable USB_INT_RXSTPI = (UEIENX, 3)"

fun int_flag :: "usb_int \<Rightarrow> usb_reg \<times> nat" where
  "int_flag USB_INT_VBUSTI = (USBINT, 0)"
| "int_flag USB_INT_WAKEUPI = (UDINT, 4)"
| "int_flag USB_INT_SUSPI = (UDINT, 0)"
| "int_flag USB_INT_EORSTI = (UDINT, 3)"
| "int_flag USB_INT_SOFI = (UDINT, 2)"
| "int_flag USB_INT_RXSTPI = (UEINTX, 3)"

definition USB_INT_Enable :: "'a usb_env \<Rightarrow> usb_int \<Rightarrow> 'a usb_port_scheme \<Rightarrow> 'a usb_port_scheme" where
  "USB_INT_Enable E i = (case int_enable i of (r, n) \<Rightarrow> rmw E r (set_bit8 n))"

definition USB_INT_Disable :: "'a usb_env \<Rightarrow> usb_int \<Rightarrow> 'a usb_port_scheme \<Rightarrow> 'a usb_port_scheme" where
  "USB_INT_Disable E i = (case int_enable i of (r, n) \<Rightarrow> rmw E r (clr_bit8 n))"

definition USB_INT_Clear :: "'a usb_env \<Rightarrow> usb_int \<Rightarrow> 'a usb_port_scheme \<Rightarrow> 'a usb_port_scheme" where
  "USB_INT_Clear E i = (case int_flag i of (r, n) \<Rightarrow> rmw E r (clr_bit8 n))"

definition USB_INT_IsEnabled :: "'a usb_env \<Rightarrow> usb_int \<Rightarrow> 'a usb_port_scheme \<Rightarrow> bool \<times> 'a usb_port_scheme" where
  "USB_INT_IsEnabled E i = (case int_enable i of (r, n) \<Rightarrow> test_reg E r n)"

definition USB_INT_HasOccurred :: "'a usb_env \<Rightarrow> usb_int \<Rightarrow> 'a usb_port_scheme \<Rightarrow> bool \<times> 'a usb_port_scheme" where
  "USB_INT_HasOccurred E i = (case int_flag i of (r, n) \<Rightarrow> test_reg E r n)"

definition int_pending :: "'a usb_env \<Rightarrow> usb_int \<Rightarrow> 'a usb_port_scheme \<Rightarrow> bool \<times> 'a usb_port_scheme" where
  "int_pending E i s =
     (case USB_INT_HasOccurred E i s of (o', s1) \<Rightarrow> if \<not> o' then (False, s1) else USB_INT_IsEnabled E i s1)"

definition USB_INT_DisableAllInterrupts :: "'a usb_env \<Rightarrow> 'a usb_port_scheme \<Rightarrow> 'a usb_port_scheme" where
  "USB_INT_DisableAllInterrupts E s = wr E UDIEN 0 (rmw E USBCON (clr_bit8 0) s)"

definition USB_INT_ClearAllInterrupts :: "'a usb_env \<Rightarrow> 'a usb_port_scheme \<Rightarrow> 'a usb_port_scheme" where
  "USB_INT_ClearAllInterrupts E s = wr E UDINT 0 (wr E USBINT 0 s)"

definition USB_Device_EnableSOFEvents :: "'a usb_env \<Rightarrow> 'a usb_port_scheme \<Rightarrow> 'a usb_port_scheme" where
  "USB_Device_EnableSOFEvents E = USB_INT_Enable E USB_INT_SOFI"

definition USB_Device_DisableSOFEvents :: "'a usb_env \<Rightarrow> 'a usb_port_scheme \<Rightarrow> 'a usb_port_scheme" where
  "USB_Device_DisableSOFEvents E = USB_INT_Disable E USB_INT_SOFI"

subsection \<open>Initialisation\<close>

definition configure_control :: "lufa_env \<Rightarrow> lufa \<Rightarrow> lufa outcome" where
  "configure_control E s =
     and_then (Endpoint_ConfigureEndpoint E ENDPOINT_CONTROLEP EP_TYPE_CONTROL ENDPOINT_DIR_OUT
       FIXED_CONTROL_ENDPOINT_SIZE ENDPOINT_BANK_SINGLE s) (\<lambda>(_, s1). Returns s1)"

definition USB_Init_Device :: "lufa_env \<Rightarrow> lufa \<Rightarrow> lufa outcome" where
  "USB_Init_Device E s =
     (let s1 = (gap E s)\<lparr>USB_DeviceState := DEVICE_STATE_Unattached, USB_Device_ConfigurationNumber := 0,
                USB_Device_RemoteWakeupEnabled := False, USB_Device_CurrentlySelfPowered := False\<rparr>
      in and_then (configure_control E (USB_INT_Enable E USB_INT_VBUSTI (USB_Device_SetFullSpeed E s1))) (\<lambda>s2.
        Returns (USB_Attach E (USB_INT_Enable E USB_INT_EORSTI (USB_INT_Enable E USB_INT_SUSPI
          (USB_INT_Clear E USB_INT_SUSPI s2))))))"

definition USB_ResetInterface :: "lufa_env \<Rightarrow> lufa \<Rightarrow> lufa outcome" where
  "USB_ResetInterface E s =
     and_then (USB_Init_Device E (USB_PLL_Off E (USB_CLK_Unfreeze E (USB_Controller_Reset E
       (USB_INT_ClearAllInterrupts E (USB_INT_DisableAllInterrupts E s)))))) (\<lambda>s1.
     Returns (USB_OTGPAD_On E s1))"

definition USB_Init :: "lufa_env \<Rightarrow> lufa \<Rightarrow> lufa outcome" where
  "USB_Init E s =
     USB_ResetInterface E ((wr E PLLFRQ (push_bit 2 1) (USB_REG_On E s))\<lparr>USB_IsInitialized := True\<rparr>)"

definition USB_Disable :: "lufa_env \<Rightarrow> lufa \<Rightarrow> lufa" where
  "USB_Disable E s =
     (USB_OTGPAD_Off E (USB_REG_Off E (USB_PLL_Off E (USB_Controller_Disable E (USB_Detach E
       (USB_INT_ClearAllInterrupts E (USB_INT_DisableAllInterrupts E s)))))))\<lparr>USB_IsInitialized := False\<rparr>"

subsection \<open>The device interrupt\<close>

definition isr_sof :: "lufa_env \<Rightarrow> lufa \<Rightarrow> lufa" where
  "isr_sof E s = (case int_pending E USB_INT_SOFI s of (p, s1) \<Rightarrow> if p then USB_INT_Clear E USB_INT_SOFI s1 else s1)"

definition isr_vbus :: "lufa_env \<Rightarrow> lufa \<Rightarrow> lufa outcome" where
  "isr_vbus E s =
     (case int_pending E USB_INT_VBUSTI s of (p, s1) \<Rightarrow>
        if \<not> p then Returns s1
        else case USB_VBUS_GetStatus E (USB_INT_Clear E USB_INT_VBUSTI s1) of (on, s2) \<Rightarrow>
          if on then and_then (pll_start E s2) (\<lambda>s3. Returns (s3\<lparr>USB_DeviceState := DEVICE_STATE_Powered\<rparr>))
          else Returns ((USB_PLL_Off E s2)\<lparr>USB_DeviceState := DEVICE_STATE_Unattached\<rparr>))"

definition isr_suspend :: "lufa_env \<Rightarrow> lufa \<Rightarrow> lufa" where
  "isr_suspend E s =
     (case int_pending E USB_INT_SUSPI s of (p, s1) \<Rightarrow>
        if \<not> p then s1
        else (USB_PLL_Off E (USB_CLK_Freeze E (USB_INT_Enable E USB_INT_WAKEUPI (USB_INT_Disable E USB_INT_SUSPI s1))))
          \<lparr>USB_DeviceState := DEVICE_STATE_Suspended\<rparr>)"

text \<open>The state that a configuration number stands for, which a wake-up and \<^verbatim>\<open>SetConfiguration\<close> set.\<close>

definition configured_state :: "lufa_env \<Rightarrow> lufa \<Rightarrow> lufa" where
  "configured_state E s =
     (let s1 = gap E s in
      if USB_Device_ConfigurationNumber s1 \<noteq> 0 then (gap E s1)\<lparr>USB_DeviceState := DEVICE_STATE_Configured\<rparr>
      else case USB_Device_IsAddressSet E s1 of (a, s2) \<Rightarrow>
        (gap E s2)\<lparr>USB_DeviceState := (if a then DEVICE_STATE_Configured else DEVICE_STATE_Powered)\<rparr>)"

definition isr_wakeup :: "lufa_env \<Rightarrow> lufa \<Rightarrow> lufa outcome" where
  "isr_wakeup E s =
     (case int_pending E USB_INT_WAKEUPI s of (p, s1) \<Rightarrow>
        if \<not> p then Returns s1
        else and_then (pll_start E s1) (\<lambda>s2.
          Returns (configured_state E (USB_INT_Enable E USB_INT_SUSPI (USB_INT_Disable E USB_INT_WAKEUPI
            (USB_INT_Clear E USB_INT_WAKEUPI (USB_CLK_Unfreeze E s2)))))))"

definition isr_reset :: "lufa_env \<Rightarrow> lufa \<Rightarrow> lufa outcome" where
  "isr_reset E s =
     (case int_pending E USB_INT_EORSTI s of (p, s1) \<Rightarrow>
        if \<not> p then Returns s1
        else
          let s2 = (USB_INT_Clear E USB_INT_EORSTI s1)\<lparr>USB_DeviceState := DEVICE_STATE_Default,
                     USB_Device_ConfigurationNumber := 0\<rparr>
          in configure_control E (USB_INT_Enable E USB_INT_WAKEUPI (USB_INT_Disable E USB_INT_SUSPI
               (USB_INT_Clear E USB_INT_SUSPI s2))))"

definition GEN_vect :: "lufa_env \<Rightarrow> lufa \<Rightarrow> lufa outcome" where
  "GEN_vect E s =
     and_then (isr_vbus E (isr_sof E (s\<lparr>ien := False\<rparr>))) (\<lambda>s1.
     and_then (isr_wakeup E (isr_suspend E s1)) (\<lambda>s2.
     and_then (isr_reset E s2) (\<lambda>s3. Returns (s3\<lparr>ien := True\<rparr>))))"

subsection \<open>Standard requests\<close>

definition USB_Device_SetAddress :: "lufa_env \<Rightarrow> lufa \<Rightarrow> lufa outcome" where
  "USB_Device_SetAddress E s =
     (let DeviceAddress = ucast (wValue (USB_ControlRequest s)) AND 0x7F in
      case save_cli E s of (intr, s1) \<Rightarrow>
      and_then (Endpoint_ClearStatusStage E (Endpoint_ClearSETUP E s1)) (\<lambda>s2.
      and_then (wait_for E UEINTX (push_bit TXINI 1) s2) (\<lambda>(_, s3).
      Returns (restore intr ((USB_Device_SetDeviceAddress E DeviceAddress s3)
        \<lparr>USB_DeviceState := (if DeviceAddress \<noteq> 0 then DEVICE_STATE_Addressed else DEVICE_STATE_Default)\<rparr>)))))"

definition FIXED_NUM_CONFIGURATIONS :: u8 where "FIXED_NUM_CONFIGURATIONS = 1"

definition USB_Device_SetConfiguration :: "lufa_env \<Rightarrow> app \<Rightarrow> lufa \<Rightarrow> lufa outcome" where
  "USB_Device_SetConfiguration E A s =
     (let v = (ucast (wValue (USB_ControlRequest s)) :: u8) in
      if v > FIXED_NUM_CONFIGURATIONS then Returns s
      else and_then (Endpoint_ClearStatusStage E
          ((gap E (Endpoint_ClearSETUP E s))\<lparr>USB_Device_ConfigurationNumber := v\<rparr>)) (\<lambda>s1.
        EVENT_ConfigurationChanged A (configured_state E s1)))"

definition USB_Device_GetConfiguration :: "lufa_env \<Rightarrow> lufa \<Rightarrow> lufa outcome" where
  "USB_Device_GetConfiguration E s =
     (let s1 = gap E (Endpoint_ClearSETUP E s) in
      Endpoint_ClearStatusStage E (Endpoint_ClearIN E
        (Endpoint_Write_8 E (USB_Device_ConfigurationNumber s1) s1)))"

definition serial_char :: "(u8 \<Rightarrow> u8) \<Rightarrow> nat \<Rightarrow> u8" where
  "serial_char sig n =
     (let b = sig (0x0E + of_nat (n div 2));
          b = (if odd n then drop_bit 4 b else b) AND 0x0F
      in if b \<ge> 10 then (65 - 10) + b else 48 + b)"

definition USB_Device_GetSerialString :: "(u8 \<Rightarrow> u8) \<Rightarrow> u8 list" where
  "USB_Device_GetSerialString sig = concat (map (\<lambda>n. [serial_char sig n, 0]) [0..<80 div 4])"

definition USB_Device_GetInternalSerialDescriptor :: "lufa_env \<Rightarrow> app \<Rightarrow> lufa \<Rightarrow> lufa outcome" where
  "USB_Device_GetInternalSerialDescriptor E A s =
     (let d = header_bytes \<lparr>Size = of_nat (USB_STRING_LEN (80 div 4)), Type = dtype DTYPE_String\<rparr> @ USB_Device_GetSerialString (signature_byte A) in
      and_then (Endpoint_Write_Control_Stream_LE E d (of_nat (length d)) (Endpoint_ClearSETUP E s)) (\<lambda>(_, _, s1).
        Returns (Endpoint_ClearOUT E s1)))"

definition USB_Device_GetDescriptor :: "lufa_env \<Rightarrow> app \<Rightarrow> lufa \<Rightarrow> lufa outcome" where
  "USB_Device_GetDescriptor E A s =
     (let r = USB_ControlRequest s in
      if wValue r = 0x03DC then USB_Device_GetInternalSerialDescriptor E A s
      else case GetDescriptor A (wValue r) (ucast (wIndex r)) of (d, n) \<Rightarrow>
        if n = 0 then Returns s
        else and_then (Endpoint_Write_Control_PStream_LE E d n (Endpoint_ClearSETUP E s)) (\<lambda>(_, _, s1).
          Returns (Endpoint_ClearOUT E s1)))"

definition send_status :: "lufa_env \<Rightarrow> u8 \<Rightarrow> lufa \<Rightarrow> lufa outcome" where
  "send_status E v s =
     Endpoint_ClearStatusStage E (Endpoint_ClearIN E (Endpoint_Write_16_LE E (ucast v) (Endpoint_ClearSETUP E s)))"

definition USB_Device_GetStatus :: "lufa_env \<Rightarrow> lufa \<Rightarrow> lufa outcome" where
  "USB_Device_GetStatus E s =
     (let r = USB_ControlRequest s in
      if bmRequestType r = 0x80 then
        send_status E ((if USB_Device_CurrentlySelfPowered s then 1 else 0) OR
          (if USB_Device_RemoteWakeupEnabled s then 2 else 0)) s
      else if bmRequestType r = 0x82 then
        case Endpoint_IsStalled E (Endpoint_SelectEndpoint E (ucast (wIndex r) AND ENDPOINT_EPNUM_MASK) s) of
          (st, s1) \<Rightarrow> send_status E (if st then 1 else 0) (Endpoint_SelectEndpoint E ENDPOINT_CONTROLEP s1)
      else Returns s)"

definition halt_feature :: "lufa_env \<Rightarrow> u8 \<Rightarrow> bool \<Rightarrow> lufa \<Rightarrow> lufa" where
  "halt_feature E i on s =
     (case Endpoint_IsEnabled E (Endpoint_SelectEndpoint E i s) of (en, s1) \<Rightarrow>
        if \<not> en then s1
        else if on then Endpoint_StallTransaction E s1
        else Endpoint_ResetDataToggle E (Endpoint_ResetEndpoint E i (Endpoint_ClearStall E s1)))"

definition feature_done :: "lufa_env \<Rightarrow> lufa \<Rightarrow> lufa outcome" where
  "feature_done E s =
     Endpoint_ClearStatusStage E (Endpoint_ClearSETUP E (Endpoint_SelectEndpoint E ENDPOINT_CONTROLEP s))"

definition USB_Device_ClearSetFeature :: "lufa_env \<Rightarrow> lufa \<Rightarrow> lufa outcome" where
  "USB_Device_ClearSetFeature E s =
     (let r = USB_ControlRequest s; recipient = bmRequestType r AND 0x1F;
          i = ucast (wIndex r) AND ENDPOINT_EPNUM_MASK; sel = (ucast (wValue r) :: u8) in
      if recipient = 0 then
        if sel = 1 then feature_done E (s\<lparr>USB_Device_RemoteWakeupEnabled := (bRequest r = 3)\<rparr>) else Returns s
      else if recipient = 2 then
        if sel = 0 then
          if i = ENDPOINT_CONTROLEP then Returns s
          else feature_done E (halt_feature E i (bRequest r = 3) s)
        else feature_done E s
      else Returns s)"

text \<open>The eight bytes of a request header, and the request they stand for.\<close>

definition request_of :: "u8 list \<Rightarrow> usb_request" where
  "request_of b = \<lparr>bmRequestType = b ! 0, bRequest = b ! 1, wValue = le16 (b ! 2) (b ! 3),
     wIndex = le16 (b ! 4) (b ! 5), wLength = le16 (b ! 6) (b ! 7)\<rparr>"

definition standard_request :: "lufa_env \<Rightarrow> app \<Rightarrow> lufa \<Rightarrow> lufa outcome" where
  "standard_request E A s =
     (let t = bmRequestType (USB_ControlRequest s); q = bRequest (USB_ControlRequest s) in
      if q = 0 then if t = 0x80 \<or> t = 0x82 then USB_Device_GetStatus E s else Returns s
      else if q = 1 \<or> q = 3 then if t = 0x00 \<or> t = 0x02 then USB_Device_ClearSetFeature E s else Returns s
      else if q = 5 then if t = 0x00 then USB_Device_SetAddress E s else Returns s
      else if q = 6 then if t = 0x80 \<or> t = 0x81 then USB_Device_GetDescriptor E A s else Returns s
      else if q = 8 then if t = 0x80 then USB_Device_GetConfiguration E s else Returns s
      else if q = 9 then if t = 0x00 then USB_Device_SetConfiguration E A s else Returns s
      else Returns s)"

definition USB_Device_ProcessControlRequest :: "lufa_env \<Rightarrow> app \<Rightarrow> lufa \<Rightarrow> lufa outcome" where
  "USB_Device_ProcessControlRequest E A s =
     (case read_fifo E 8 s of (b, s1) \<Rightarrow>
      and_then (EVENT_ControlRequest A (s1\<lparr>USB_ControlRequest := request_of b\<rparr>)) (\<lambda>s2.
      and_then (case Endpoint_IsSETUPReceived E s2 of (setup, s3) \<Rightarrow>
          if setup then standard_request E A s3 else Returns s3) (\<lambda>s4.
      case Endpoint_IsSETUPReceived E s4 of (setup, s5) \<Rightarrow>
        Returns (if setup then Endpoint_ClearSETUP E (Endpoint_StallTransaction E s5) else s5))))"

subsection \<open>The task\<close>

definition USB_DeviceTask :: "lufa_env \<Rightarrow> app \<Rightarrow> lufa \<Rightarrow> lufa outcome" where
  "USB_DeviceTask E A s =
     (case read_state E s of (d, s1) \<Rightarrow>
        if d = DEVICE_STATE_Unattached then Returns s1
        else case Endpoint_GetCurrentEndpoint E s1 of (prev, s2) \<Rightarrow>
          case Endpoint_IsSETUPReceived E (Endpoint_SelectEndpoint E ENDPOINT_CONTROLEP s2) of (setup, s3) \<Rightarrow>
            and_then (if setup then USB_Device_ProcessControlRequest E A s3 else Returns s3) (\<lambda>s4.
              Returns (Endpoint_SelectEndpoint E prev s4)))"

definition USB_USBTask :: "lufa_env \<Rightarrow> app \<Rightarrow> lufa \<Rightarrow> lufa outcome" where
  "USB_USBTask E A s = USB_DeviceTask E A s"

end
