(* ===== verification/LufaCdc.thy ===== *)
theory LufaCdc
  imports LufaDevice
begin

text \<open>
  The CDC class driver of LUFA, \<^verbatim>\<open>Class/Device/CDCClassDevice.c\<close>, on the interface that
  \<^verbatim>\<open>ISS-Notify.c\<close> declares, and the firmware's event handlers, which close the loop: they are the
  application of the device stack. Strings are lists of characters without the terminator.
\<close>

unbundle bit_operations_syntax

subsection \<open>The interface\<close>

record cdc_config =
  ControlInterfaceNumber :: u8
  DataINEndpointNumber :: u8
  DataINEndpointSize :: u16
  DataINEndpointDoubleBank :: bool
  DataOUTEndpointNumber :: u8
  DataOUTEndpointSize :: u16
  DataOUTEndpointDoubleBank :: bool
  NotificationEndpointNumber :: u8
  NotificationEndpointSize :: u16
  NotificationEndpointDoubleBank :: bool

definition VirtualSerial_CDC_Interface :: cdc_config where
  "VirtualSerial_CDC_Interface =
    \<lparr>ControlInterfaceNumber = 0,
     DataINEndpointNumber = CDC_TX_EPNUM, DataINEndpointSize = CDC_TXRX_EPSIZE,
     DataINEndpointDoubleBank = False,
     DataOUTEndpointNumber = CDC_RX_EPNUM, DataOUTEndpointSize = CDC_TXRX_EPSIZE,
     DataOUTEndpointDoubleBank = False,
     NotificationEndpointNumber = CDC_NOTIFICATION_EPNUM,
     NotificationEndpointSize = CDC_NOTIFICATION_EPSIZE, NotificationEndpointDoubleBank = False\<rparr>"

definition cdc_state_zero :: cdc_state where
  "cdc_state_zero = \<lparr>HostToDevice = 0, DeviceToHost = 0,
     LineEncoding = \<lparr>BaudRateBPS = 0, CharFormat = 0, ParityType = 0, DataBits = 0\<rparr>\<rparr>"

datatype cdc_request = CDC_REQ_SendEncapsulatedCommand | CDC_REQ_GetEncapsulatedResponse
  | CDC_REQ_SetLineEncoding | CDC_REQ_GetLineEncoding | CDC_REQ_SetControlLineState | CDC_REQ_SendBreak

fun cdc_code :: "cdc_request \<Rightarrow> u8" where
  "cdc_code CDC_REQ_SendEncapsulatedCommand = 0x00"
| "cdc_code CDC_REQ_GetEncapsulatedResponse = 0x01"
| "cdc_code CDC_REQ_SetLineEncoding = 0x20"
| "cdc_code CDC_REQ_GetLineEncoding = 0x21"
| "cdc_code CDC_REQ_SetControlLineState = 0x22"
| "cdc_code CDC_REQ_SendBreak = 0x23"

text \<open>\<^verbatim>\<open>REQDIR_x | REQTYPE_CLASS | REQREC_INTERFACE\<close>\<close>

abbreviation (input) "CLASS_TO_HOST \<equiv> 0xA1 :: u8"
abbreviation (input) "CLASS_TO_DEVICE \<equiv> 0x21 :: u8"

subsection \<open>Control requests\<close>

definition get_line_encoding :: "lufa_env \<Rightarrow> lufa \<Rightarrow> lufa outcome" where
  "get_line_encoding E s =
     and_then (wait_for E UEINTX (push_bit TXINI 1) (Endpoint_ClearSETUP E s)) (\<lambda>(_, s1).
       let le = LineEncoding (CDC_State s1) in
       Endpoint_ClearStatusStage E (Endpoint_ClearIN E
         (Endpoint_Write_8 E (DataBits le) (Endpoint_Write_8 E (ParityType le)
           (Endpoint_Write_8 E (CharFormat le) (Endpoint_Write_32_LE E (BaudRateBPS le) s1))))))"

definition set_line_encoding :: "lufa_env \<Rightarrow> lufa \<Rightarrow> lufa outcome" where
  "set_line_encoding E s =
     and_then (wait_for E UEINTX (push_bit RXOUTI 1) (Endpoint_ClearSETUP E s)) (\<lambda>(_, s1).
       case Endpoint_Read_32_LE E s1 of (baud, s2) \<Rightarrow>
       case Endpoint_Read_8 E s2 of (fmt, s3) \<Rightarrow>
       case Endpoint_Read_8 E s3 of (par, s4) \<Rightarrow>
       case Endpoint_Read_8 E s4 of (dbits, s5) \<Rightarrow>
       let s6 = s5\<lparr>CDC_State := (CDC_State s5)\<lparr>LineEncoding :=
                  \<lparr>BaudRateBPS = baud, CharFormat = fmt, ParityType = par, DataBits = dbits\<rparr>\<rparr>\<rparr>
       in Endpoint_ClearStatusStage E (Endpoint_ClearOUT E s6))"

definition set_control_line_state :: "lufa_env \<Rightarrow> lufa \<Rightarrow> lufa outcome" where
  "set_control_line_state E s =
     and_then (Endpoint_ClearStatusStage E (Endpoint_ClearSETUP E s)) (\<lambda>s1.
       Returns (s1\<lparr>CDC_State := (CDC_State s1)\<lparr>HostToDevice := wValue (USB_ControlRequest s1)\<rparr>\<rparr>))"

definition CDC_Device_ProcessControlRequest :: "lufa_env \<Rightarrow> cdc_config \<Rightarrow> lufa \<Rightarrow> lufa outcome" where
  "CDC_Device_ProcessControlRequest E C s =
     (case Endpoint_IsSETUPReceived E s of (setup, s1) \<Rightarrow>
        if \<not> setup then Returns s1
        else
          let r = USB_ControlRequest s1; t = bmRequestType r; q = bRequest r in
          if wIndex r \<noteq> ucast (ControlInterfaceNumber C) then Returns s1
          else if q = cdc_code CDC_REQ_GetLineEncoding then
            if t = CLASS_TO_HOST then get_line_encoding E s1 else Returns s1
          else if q = cdc_code CDC_REQ_SetLineEncoding then
            if t = CLASS_TO_DEVICE then set_line_encoding E s1 else Returns s1
          else if q = cdc_code CDC_REQ_SetControlLineState then
            if t = CLASS_TO_DEVICE then set_control_line_state E s1 else Returns s1
          else if q = cdc_code CDC_REQ_SendBreak then
            if t = CLASS_TO_DEVICE then Endpoint_ClearStatusStage E (Endpoint_ClearSETUP E s1) else Returns s1
          else Returns s1)"

subsection \<open>Endpoints\<close>

text \<open>Type, direction, size and double banking of an endpoint of the interface.\<close>

definition cdc_endpoint :: "cdc_config \<Rightarrow> u8 \<Rightarrow> (u8 \<times> u8 \<times> u16 \<times> bool) option" where
  "cdc_endpoint C n =
     (if n = DataINEndpointNumber C then
        Some (EP_TYPE_BULK, ENDPOINT_DIR_IN, DataINEndpointSize C, DataINEndpointDoubleBank C)
      else if n = DataOUTEndpointNumber C then
        Some (EP_TYPE_BULK, ENDPOINT_DIR_OUT, DataOUTEndpointSize C, DataOUTEndpointDoubleBank C)
      else if n = NotificationEndpointNumber C then
        Some (EP_TYPE_INTERRUPT, ENDPOINT_DIR_IN, NotificationEndpointSize C, NotificationEndpointDoubleBank C)
      else None)"

fun configure_loop :: "lufa_env \<Rightarrow> cdc_config \<Rightarrow> u8 \<Rightarrow> nat \<Rightarrow> lufa \<Rightarrow> (bool \<times> lufa) outcome" where
  "configure_loop E C n 0 s = Returns (True, s)"
| "configure_loop E C n (Suc k) s =
     (case cdc_endpoint C n of
        None \<Rightarrow> configure_loop E C (n + 1) k s
      | Some (T, dir, sz, dbl) \<Rightarrow>
          and_then (Endpoint_ConfigureEndpoint E n T dir sz
            (if dbl then ENDPOINT_BANK_DOUBLE else ENDPOINT_BANK_SINGLE) s) (\<lambda>(ok, s1).
          if \<not> ok then Returns (False, s1) else configure_loop E C (n + 1) k s1))"

definition CDC_Device_ConfigureEndpoints :: "lufa_env \<Rightarrow> cdc_config \<Rightarrow> lufa \<Rightarrow> (bool \<times> lufa) outcome" where
  "CDC_Device_ConfigureEndpoints E C s =
     configure_loop E C 1 (ENDPOINT_TOTAL_ENDPOINTS - 1) (s\<lparr>CDC_State := cdc_state_zero\<rparr>)"

subsection \<open>The application of the stack\<close>

definition EVENT_USB_Device_ConfigurationChanged :: "lufa_env \<Rightarrow> lufa \<Rightarrow> lufa outcome" where
  "EVENT_USB_Device_ConfigurationChanged E s =
     and_then (CDC_Device_ConfigureEndpoints E VirtualSerial_CDC_Interface s) (\<lambda>(_, s1). Returns s1)"

definition EVENT_USB_Device_ControlRequest :: "lufa_env \<Rightarrow> lufa \<Rightarrow> lufa outcome" where
  "EVENT_USB_Device_ControlRequest E = CDC_Device_ProcessControlRequest E VirtualSerial_CDC_Interface"

definition firmware_app :: "lufa_env \<Rightarrow> (u8 \<Rightarrow> u8) \<Rightarrow> app" where
  "firmware_app E sig = \<lparr>EVENT_ControlRequest = EVENT_USB_Device_ControlRequest E,
     EVENT_ConfigurationChanged = EVENT_USB_Device_ConfigurationChanged E,
     GetDescriptor = CALLBACK_USB_GetDescriptor, signature_byte = sig\<rparr>"

subsection \<open>Data\<close>

text \<open>The guard of every data function: configured, and the host has set a baud rate.\<close>

definition cdc_open :: "lufa_env \<Rightarrow> lufa \<Rightarrow> bool \<times> lufa" where
  "cdc_open E s = (case read_state E s of (d, s1) \<Rightarrow>
     (d = DEVICE_STATE_Configured \<and> BaudRateBPS (LineEncoding (CDC_State s1)) \<noteq> 0, s1))"

definition CDC_Device_Flush :: "lufa_env \<Rightarrow> cdc_config \<Rightarrow> lufa \<Rightarrow> (stream_error \<times> lufa) outcome" where
  "CDC_Device_Flush E C s =
     (case cdc_open E s of (ok, s1) \<Rightarrow>
        if \<not> ok then Returns (DeviceDisconnected, s1)
        else case Endpoint_BytesInEndpoint E (Endpoint_SelectEndpoint E (DataINEndpointNumber C) s1) of (n, s2) \<Rightarrow>
          if n = 0 then Returns (NoError, s2)
          else case Endpoint_IsReadWriteAllowed E s2 of (allowed, s3) \<Rightarrow>
            let s4 = Endpoint_ClearIN E s3 in
            if allowed then Returns (NoError, s4)
            else and_then (Endpoint_WaitUntilReady E s4) (\<lambda>(e, s5).
              if e \<noteq> NoError then Returns (e, s5) else Returns (NoError, Endpoint_ClearIN E s5)))"

definition CDC_Device_USBTask :: "lufa_env \<Rightarrow> cdc_config \<Rightarrow> lufa \<Rightarrow> lufa outcome" where
  "CDC_Device_USBTask E C s =
     (case cdc_open E s of (ok, s1) \<Rightarrow>
        if \<not> ok then Returns s1 else and_then (CDC_Device_Flush E C s1) (\<lambda>(_, s2). Returns s2))"

definition CDC_Device_SendData ::
    "lufa_env \<Rightarrow> app \<Rightarrow> cdc_config \<Rightarrow> u8 list \<Rightarrow> u16 \<Rightarrow> lufa \<Rightarrow> (stream_error \<times> lufa) outcome" where
  "CDC_Device_SendData E A C Buffer Length s =
     (case cdc_open E s of (ok, s1) \<Rightarrow>
        if \<not> ok then Returns (DeviceDisconnected, s1)
        else and_then (Endpoint_Write_Stream_LE E (USB_USBTask E A) Buffer Length None
            (Endpoint_SelectEndpoint E (DataINEndpointNumber C) s1)) (\<lambda>(e, _, _, s2). Returns (e, s2)))"

definition CDC_Device_SendString ::
    "lufa_env \<Rightarrow> app \<Rightarrow> cdc_config \<Rightarrow> u8 list \<Rightarrow> lufa \<Rightarrow> (stream_error \<times> lufa) outcome" where
  "CDC_Device_SendString E A C String s =
     (case cdc_open E s of (ok, s1) \<Rightarrow>
        if \<not> ok then Returns (DeviceDisconnected, s1)
        else and_then (Endpoint_Write_Stream_LE E (USB_USBTask E A) String (of_nat (length String)) None
            (Endpoint_SelectEndpoint E (DataINEndpointNumber C) s1)) (\<lambda>(e, _, _, s2). Returns (e, s2)))"

definition CDC_Device_SendByte :: "lufa_env \<Rightarrow> cdc_config \<Rightarrow> u8 \<Rightarrow> lufa \<Rightarrow> (stream_error \<times> lufa) outcome" where
  "CDC_Device_SendByte E C Data s =
     (case cdc_open E s of (ok, s1) \<Rightarrow>
        if \<not> ok then Returns (DeviceDisconnected, s1)
        else case Endpoint_IsReadWriteAllowed E (Endpoint_SelectEndpoint E (DataINEndpointNumber C) s1) of
          (allowed, s2) \<Rightarrow>
            if allowed then Returns (NoError, Endpoint_Write_8 E Data s2)
            else and_then (Endpoint_WaitUntilReady E (Endpoint_ClearIN E s2)) (\<lambda>(e, s3).
              if e \<noteq> NoError then Returns (e, s3) else Returns (NoError, Endpoint_Write_8 E Data s3)))"

definition CDC_Device_BytesReceived :: "lufa_env \<Rightarrow> cdc_config \<Rightarrow> lufa \<Rightarrow> u16 \<times> lufa" where
  "CDC_Device_BytesReceived E C s =
     (case cdc_open E s of (ok, s1) \<Rightarrow>
        if \<not> ok then (0, s1)
        else case Endpoint_IsOUTReceived E (Endpoint_SelectEndpoint E (DataOUTEndpointNumber C) s1) of (out, s2) \<Rightarrow>
          if \<not> out then (0, s2)
          else case Endpoint_BytesInEndpoint E s2 of (n, s3) \<Rightarrow>
            if n = 0 then (0, Endpoint_ClearOUT E s3) else Endpoint_BytesInEndpoint E s3)"

text \<open>The result, and -1 for no byte.\<close>

definition CDC_Device_ReceiveByte :: "lufa_env \<Rightarrow> cdc_config \<Rightarrow> lufa \<Rightarrow> int \<times> lufa" where
  "CDC_Device_ReceiveByte E C s =
     (case cdc_open E s of (ok, s1) \<Rightarrow>
        if \<not> ok then (-1, s1)
        else case Endpoint_IsOUTReceived E (Endpoint_SelectEndpoint E (DataOUTEndpointNumber C) s1) of (out, s2) \<Rightarrow>
          if \<not> out then (-1, s2)
          else case Endpoint_BytesInEndpoint E s2 of (n, s3) \<Rightarrow>
            case (if n \<noteq> 0 then (case Endpoint_Read_8 E s3 of (b, s4) \<Rightarrow> (uint b, s4)) else (-1, s3)) of (c, s5) \<Rightarrow>
              case Endpoint_BytesInEndpoint E s5 of (m, s6) \<Rightarrow>
                (c, if m = 0 then Endpoint_ClearOUT E s6 else s6))"

definition serial_state_notification :: "u8 list" where
  "serial_state_notification = [CLASS_TO_HOST, 0x20] @ bytes16 0 @ bytes16 0 @ bytes16 2"

definition CDC_Device_SendControlLineStateChange ::
    "lufa_env \<Rightarrow> app \<Rightarrow> cdc_config \<Rightarrow> lufa \<Rightarrow> lufa outcome" where
  "CDC_Device_SendControlLineStateChange E A C s =
     (case cdc_open E s of (ok, s1) \<Rightarrow>
        if \<not> ok then Returns s1
        else and_then (Endpoint_Write_Stream_LE E (USB_USBTask E A) serial_state_notification 8 None
            (Endpoint_SelectEndpoint E (NotificationEndpointNumber C) s1)) (\<lambda>(_, _, _, s2).
          and_then (Endpoint_Write_Stream_LE E (USB_USBTask E A)
            (bytes16 (DeviceToHost (CDC_State s2))) 2 None s2) (\<lambda>(_, _, _, s3).
          Returns (Endpoint_ClearIN E s3))))"

subsection \<open>The stdio stream\<close>

definition CDC_Device_putchar :: "lufa_env \<Rightarrow> cdc_config \<Rightarrow> u8 \<Rightarrow> lufa \<Rightarrow> (int \<times> lufa) outcome" where
  "CDC_Device_putchar E C c s =
     and_then (CDC_Device_SendByte E C c s) (\<lambda>(e, s1). Returns (if e \<noteq> NoError then -1 else 0, s1))"

text \<open>\<^verbatim>\<open>_FDEV_EOF\<close> is -2.\<close>

definition CDC_Device_getchar :: "lufa_env \<Rightarrow> cdc_config \<Rightarrow> lufa \<Rightarrow> (int \<times> lufa) outcome" where
  "CDC_Device_getchar E C s =
     (case CDC_Device_ReceiveByte E C s of (c, s1) \<Rightarrow> Returns (if c < 0 then -2 else c, s1))"

partial_function (option) CDC_Device_getchar_Blocking ::
    "lufa_env \<Rightarrow> app \<Rightarrow> cdc_config \<Rightarrow> lufa \<Rightarrow> (int \<times> lufa) outcome" where
  "CDC_Device_getchar_Blocking E A C s =
     (case CDC_Device_ReceiveByte E C s of (c, s1) \<Rightarrow>
        if c \<ge> 0 then Returns (c, s1)
        else case read_state E s1 of (d, s2) \<Rightarrow>
          if d = DEVICE_STATE_Unattached then Returns (-2, s2)
          else and_then (CDC_Device_USBTask E C s2) (\<lambda>s3.
            and_then (USB_USBTask E A s3) (\<lambda>s4. CDC_Device_getchar_Blocking E A C s4)))"

record stdio_stream =
  fput :: "u8 \<Rightarrow> lufa \<Rightarrow> (int \<times> lufa) outcome"
  fget :: "lufa \<Rightarrow> (int \<times> lufa) outcome"

definition CDC_Device_CreateStream :: "lufa_env \<Rightarrow> cdc_config \<Rightarrow> stdio_stream" where
  "CDC_Device_CreateStream E C = \<lparr>fput = CDC_Device_putchar E C, fget = CDC_Device_getchar E C\<rparr>"

definition CDC_Device_CreateBlockingStream :: "lufa_env \<Rightarrow> app \<Rightarrow> cdc_config \<Rightarrow> stdio_stream" where
  "CDC_Device_CreateBlockingStream E A C =
     \<lparr>fput = CDC_Device_putchar E C, fget = CDC_Device_getchar_Blocking E A C\<rparr>"

end
