(* ===== verification/LufaClaims.thy ===== *)
theory LufaClaims
  imports LufaCdc
begin

text \<open>
  The device stack as the host sees it: the packets that answer a descriptor request, the endpoints
  announced and configured, and the line encoding set and read back.
\<close>

unbundle bit_operations_syntax

subsection \<open>The stack with interrupts off\<close>

lemma rmw_masked [simp]:
  "\<not> ien s \<Longrightarrow> rmw E r f s =
    s\<lparr>io_log := Wr r (f (hw E (io_log s) r)) # Rd r (hw E (io_log s) r) # io_log s\<rparr>"
  by (simp add: rmw_def)

lemma test_reg_masked [simp]:
  "\<not> ien s \<Longrightarrow> test_reg E r n s =
    (bit (hw E (io_log s) r) n, s\<lparr>io_log := Rd r (hw E (io_log s) r) # io_log s\<rparr>)"
  by (simp add: test_reg_def)

lemma read_state_masked [simp]: "\<not> ien s \<Longrightarrow> read_state E s = (USB_DeviceState s, s)"
  by (simp add: read_state_def gap_def)

lemmas endpoint_ops = Endpoint_IsSETUPReceived_def Endpoint_IsOUTReceived_def Endpoint_IsINReady_def
  Endpoint_ClearSETUP_def Endpoint_ClearIN_def Endpoint_ClearOUT_def Endpoint_Write_8_def Endpoint_Read_8_def
  Endpoint_BytesInEndpoint_def Endpoint_SelectEndpoint_def Endpoint_IsConfigured_def Endpoint_EnableEndpoint_def

lemma clear_bits [simp]:
  "bit (clr_bit8 m v) n \<longleftrightarrow> bit v n \<and> m \<noteq> n"
  "bit (v AND NOT (push_bit a 1 OR push_bit b 1) :: u8) n \<longleftrightarrow> bit v n \<and> a \<noteq> n \<and> b \<noteq> n"
  by (auto simp: clr_bit8_def bit_simps dest: bit_imp_le_length)

lemma clear_in_out [simp]: "\<not> bit (v AND - 130 :: u8) 0" "bit (v AND - 133 :: u8) 0 \<longleftrightarrow> bit v 0"
  by (simp_all add: bit_and_iff)

lemma out_cleared [simp]: "\<not> bit (v AND - 133 :: u8) 2" "bit (v AND - 133 :: u8) 3 \<longleftrightarrow> bit v 3"
  by (simp_all add: bit_and_iff)

subsection \<open>Descriptor requests\<close>

lemma fill_packet_fills:
  "\<not> ien s \<Longrightarrow> unat n \<le> 8 \<Longrightarrow> m = min (unat len) (8 - unat n) \<Longrightarrow> k + unat len \<le> length buf \<Longrightarrow>
    \<exists>len' n'. fill_packet (write_byte E) 1 buf (int k) len n s =
        Returns (buf, int (k + m), len', n', s\<lparr>io_log := rev (map (Wr UEDATX) (take m (drop k buf))) @ io_log s\<rparr>) \<and>
      unat len' = unat len - m \<and> unat n' = unat n + m"
proof (induction m arbitrary: s len n k)
  case 0
  then have "unat len = 0 \<or> unat n = 8"
    by linarith
  then have "len = 0 \<or> \<not> n < 8"
    by (auto simp: word_less_nat_alt unsigned_eq_0_iff)
  then show ?case
    by (subst fill_packet.simps) (auto simp: word_less_nat_alt)
next
  case (Suc m)
  have pos: "0 < unat len" "unat n < 8" using Suc.prems(3) by auto
  then have "len \<noteq> 0" by auto
  then have len: "unat (len - 1) = unat len - 1" by (rule unat_minus_one)
  have n: "unat (n + 1) = unat n + 1"
    using pos(2) by (simp add: unat_word_ariths(1))
  have n8: "n < 8" using pos(2) by (simp add: word_less_nat_alt)
  have inside: "k < length buf" using pos(1) Suc.prems(4) by linarith
  define t where "t = s\<lparr>io_log := Wr UEDATX (buf ! k) # io_log s\<rparr>"
  have run: "fill_packet (write_byte E) 1 buf (int k) len n s =
      fill_packet (write_byte E) 1 buf (int (k + 1)) (len - 1) (n + 1) t"
    using n8 \<open>len \<noteq> 0\<close> inside Suc.prems(1)
    by (subst fill_packet.simps) (simp add: write_byte_def Endpoint_Write_8_def t_def add.commute)
  have m: "m = min (unat (len - 1)) (8 - unat (n + 1))" "k + 1 + unat (len - 1) \<le> length buf"
    using Suc.prems(3,4) len n pos by linarith+
  have "\<exists>len' n'. fill_packet (write_byte E) 1 buf (int (k + 1)) (len - 1) (n + 1) t =
        Returns (buf, int (k + 1 + m), len', n', t\<lparr>io_log := rev (map (Wr UEDATX) (take m (drop (k + 1) buf))) @ io_log t\<rparr>) \<and>
      unat len' = unat (len - 1) - m \<and> unat n' = unat (n + 1) + m"
    by (rule Suc.IH) (use Suc.prems(1) pos n m in \<open>simp_all add: t_def del: of_nat_add\<close>)
  moreover have "drop k buf = buf ! k # drop (Suc k) buf"
    using inside by (simp add: Cons_nth_drop_Suc)
  ultimately show ?case
    unfolding run using len n by (auto simp: t_def)
qed

text \<open>
  A host that reads \<open>want\<close> bytes, or up to a short packet, and then starts the status stage. The
  packets before \<open>start\<close> belong to earlier requests.
\<close>

definition answered :: "nat \<Rightarrow> u8 list list \<Rightarrow> bool" where
  "answered want ps \<longleftrightarrow> ps \<noteq> [] \<and> (want \<le> length (concat ps) \<or> length (last ps) < 8)"

definition host_takes :: "lufa_env \<Rightarrow> nat \<Rightarrow> nat \<Rightarrow> bool" where
  "host_takes E want start \<longleftrightarrow> (\<forall>l.
     bit (hw E l UEINTX) TXINI \<and> \<not> bit (hw E l UEINTX) RXSTPI \<and>
     (bit (hw E l UEINTX) RXOUTI \<longleftrightarrow> answered want (drop start (fst (sent_in l)))) \<and>
     hw E l UEBCHX = 0 \<and> hw E l UEBCLX = of_nat (length (snd (sent_in l))))"

fun packets8 :: "u8 list \<Rightarrow> u8 list list" where
  "packets8 bs = (if length bs \<le> 8 then [bs] else take 8 bs # packets8 (drop 8 bs))"

declare packets8.simps [simp del]

text \<open>The answer to a request for \<open>want\<close> bytes: an empty packet ends one that is too short without one.\<close>

definition answer :: "nat \<Rightarrow> u8 list \<Rightarrow> u8 list list" where
  "answer want d =
     (let b = take want d in
      if length b < want \<and> b \<noteq> [] \<and> 8 dvd length b then packets8 b @ [[]] else packets8 b)"


definition serving :: "lufa \<Rightarrow> bool" where
  "serving s \<longleftrightarrow> \<not> ien s \<and> selected (io_log s) = 0 \<and>
     USB_DeviceState s \<noteq> DEVICE_STATE_Unattached \<and> USB_DeviceState s \<noteq> DEVICE_STATE_Suspended"

lemma status_wait_answered:
  assumes "host_takes E want start" "serving s" "sent_in (io_log s) = (ps, bs)" "answered want (drop start ps)"
  shows "\<exists>s'. status_wait E RXOUTI buf s = Returns (NoError, buf, s') \<and> serving s' \<and> sent_in (io_log s') = (ps, bs)"
proof -
  have "bit (hw E (io_log s) UEINTX) RXOUTI"
    using assms by (simp add: host_takes_def)
  then show ?thesis
    using assms by (subst status_wait.simps) (simp add: serving_def)
qed

lemma write_loop_stops:
  assumes "host_takes E want start" "serving s" "sent_in (io_log s) = (ps, bs)" "answered want (drop start ps)"
  shows "\<exists>s'. control_w_loop E tr mv buf i len lpf s = Returns (NoError, buf, s') \<and> serving s' \<and>
    sent_in (io_log s') = (ps, bs)"
proof (cases "len \<noteq> 0 \<or> lpf")
  case False
  then show ?thesis
    using status_wait_answered [OF assms] by (subst control_w_loop.simps) simp
next
  case True
  let ?v = "hw E (io_log s) UEINTX"
  define s1 where "s1 = s\<lparr>io_log := Rd UEINTX (hw E (Rd UEINTX ?v # io_log s) UEINTX) # Rd UEINTX ?v # io_log s\<rparr>"
  have "control_w_loop E tr mv buf i len lpf s = status_wait E RXOUTI buf s1"
    using True assms by (subst control_w_loop.simps) (auto simp: serving_def host_takes_def endpoint_ops s1_def)
  moreover have "serving s1" "sent_in (io_log s1) = (ps, bs)"
    using assms by (simp_all add: serving_def s1_def)
  ultimately show ?thesis
    using status_wait_answered [OF assms(1) _ _ assms(4), of s1 bs buf] by simp
qed

lemma write_loop_sends:
  assumes host: "host_takes E want start" and s: "serving s" "sent_in (io_log s) = (ps, [])"
    and more: "\<not> answered want (drop start ps)" "len \<noteq> 0 \<or> lpf" and room: "k + unat len \<le> length buf"
  defines "m \<equiv> min (unat len) 8"
  shows "\<exists>len' s'. control_w_loop E (write_byte E) 1 buf (int k) len lpf s =
      control_w_loop E (write_byte E) 1 buf (int (k + m)) len' (m = 8) s' \<and>
    unat len' = unat len - m \<and> serving s' \<and> sent_in (io_log s') = (ps @ [take m (drop k buf)], [])"
proof -
  let ?r = "\<lambda>r s. s\<lparr>io_log := Rd r (hw E (io_log s) r) # io_log s\<rparr>"
  define s5 where "s5 = ?r UEBCLX (?r UEBCHX (?r UEINTX (?r UEINTX (?r UEINTX s))))"
  have s5: "serving s5" "sent_in (io_log s5) = (ps, [])"
    using s by (simp_all add: s5_def serving_def)
  have count: "hw E (Rd UEBCHX v # l) UEBCLX = 0" if "sent_in l = (ps, [])" for v l
    using host that by (simp add: host_takes_def)
  have "\<exists>len' n'. fill_packet (write_byte E) 1 buf (int k) len 0 s5 =
        Returns (buf, int (k + m), len', n', s5\<lparr>io_log := rev (map (Wr UEDATX) (take m (drop k buf))) @ io_log s5\<rparr>) \<and>
      unat len' = unat len - m \<and> unat n' = unat (0 :: u16) + m"
    by (rule fill_packet_fills) (use s5 room in \<open>simp_all add: serving_def m_def\<close>)
  then obtain len' n' where fill: "fill_packet (write_byte E) 1 buf (int k) len 0 s5 =
        Returns (buf, int (k + m), len', n', s5\<lparr>io_log := rev (map (Wr UEDATX) (take m (drop k buf))) @ io_log s5\<rparr>)"
      and len': "unat len' = unat len - m" and n': "unat n' = m" by auto
  define s6 where "s6 = s5\<lparr>io_log := rev (map (Wr UEDATX) (take m (drop k buf))) @ io_log s5\<rparr>"
  define s7 where "s7 = Endpoint_ClearIN E s6"
  have full: "n' = 8 \<longleftrightarrow> m = 8"
    using n' by (auto simp: word_unat_eq_iff)
  have "control_w_loop E (write_byte E) 1 buf (int k) len lpf s =
      and_then (fill_packet (write_byte E) 1 buf (int k) len 0 s5) (\<lambda>(buffer', i', l, n', s6).
        control_w_loop E (write_byte E) 1 buffer' i' l (n' = 8) (Endpoint_ClearIN E s6))"
    using host s more
    by (subst control_w_loop.simps) (auto simp: serving_def host_takes_def endpoint_ops s5_def)
  then have "control_w_loop E (write_byte E) 1 buf (int k) len lpf s =
      control_w_loop E (write_byte E) 1 buf (int (k + m)) len' (m = 8) s7"
    by (simp add: fill full s7_def s6_def)
  moreover have "serving s7" "sent_in (io_log s7) = (ps @ [take m (drop k buf)], [])"
    using s5 by (simp_all add: s7_def s6_def serving_def endpoint_ops)
  ultimately show ?thesis using len' by blast
qed


text \<open>The packets still to come for the bytes \<open>bs\<close>; \<open>z\<close> where an empty one has to follow a full one.\<close>

fun tail8 :: "bool \<Rightarrow> u8 list \<Rightarrow> u8 list list" where
  "tail8 z bs =
     (if bs = [] then (if z then [[]] else [])
      else if length bs < 8 then [bs] else take 8 bs # tail8 z (drop 8 bs))"

declare tail8.simps [simp del]

lemma tail8_answer: "bs \<noteq> [] \<Longrightarrow> tail8 z bs = (if z \<and> 8 dvd length bs then packets8 bs @ [[]] else packets8 bs)"
proof (induction "length bs" arbitrary: bs rule: less_induct)
  case less
  consider "length bs < 8" | "length bs = 8" | "8 < length bs" by linarith
  then show ?case
  proof cases
    case 1
    then have "\<not> 8 dvd length bs" using less.prems by (auto dest: dvd_imp_le)
    then show ?thesis using 1 less.prems by (simp add: tail8.simps packets8.simps)
  next
    case 2
    then show ?thesis by (subst tail8.simps) (auto simp: tail8.simps packets8.simps)
  next
    case 3
    have "8 dvd length bs \<longleftrightarrow> 8 dvd length (drop 8 bs)"
      using 3 by (simp add: dvd_minus_self)
    moreover have "tail8 z bs = take 8 bs # tail8 z (drop 8 bs)"
      using 3 by (subst tail8.simps) auto
    moreover have "packets8 bs = take 8 bs # packets8 (drop 8 bs)"
      using 3 by (subst packets8.simps) simp
    ultimately show ?thesis using 3 less.hyps [of "drop 8 bs"] by simp
  qed
qed

lemma write_loop_answers:
  assumes host: "host_takes E want start"
  shows "serving s \<Longrightarrow> sent_in (io_log s) = (ps, []) \<Longrightarrow> start \<le> length ps \<Longrightarrow>
    \<forall>p \<in> set (drop start ps). length p = 8 \<Longrightarrow> length (concat (drop start ps)) = k \<Longrightarrow>
    k + unat len = L \<Longrightarrow> L \<le> want \<Longrightarrow> 0 < L \<Longrightarrow> L \<le> length buf \<Longrightarrow> lpf = (drop start ps \<noteq> []) \<Longrightarrow>
    \<exists>s'. control_w_loop E (write_byte E) 1 buf (int k) len lpf s = Returns (NoError, buf, s') \<and> serving s' \<and>
      sent_in (io_log s') = (ps @ tail8 (L < want) (drop k (take L buf)), [])"
proof (induction "if unat len = 0 then 0 else Suc (unat len)" arbitrary: s ps k len lpf rule: less_induct)
  case less
  have last8: "length (last (drop start ps)) = 8" if "drop start ps \<noteq> []"
    using less.prems(4) that by (metis last_in_set)
  show ?case
  proof (cases "unat len = 0")
    case True
    then have kL: "k = L" and "drop start ps \<noteq> []" using less.prems by auto
    show ?thesis
    proof (cases "L < want")
      case False
      then have "answered want (drop start ps)"
        using less.prems kL \<open>drop start ps \<noteq> []\<close> by (simp add: answered_def)
      then show ?thesis
        using write_loop_stops [OF host less.prems(1,2), of "write_byte E" 1 buf "int k" len lpf] False kL
        by (simp add: tail8.simps)
    next
      case z: True
      have "\<not> answered want (drop start ps)"
        using z less.prems(5) kL last8 by (auto simp: answered_def)
      then obtain len' s' where w: "control_w_loop E (write_byte E) 1 buf (int k) len lpf s =
            control_w_loop E (write_byte E) 1 buf (int k) len' False s'"
          and s': "serving s'" "sent_in (io_log s') = (ps @ [[]], [])"
        using write_loop_sends [OF host less.prems(1,2), of len lpf k buf] True less.prems kL
          \<open>drop start ps \<noteq> []\<close> by auto
      have "answered want (drop start (ps @ [[]]))"
        using less.prems(3) by (simp add: answered_def)
      from write_loop_stops [OF host s' this, of "write_byte E" 1 buf "int k" len' False]
      show ?thesis using w z kL by (simp add: tail8.simps)
    qed
  next
    case False
    define m where "m = min (unat len) 8"
    define b where "b = take m (drop k buf)"
    have m: "0 < m" "m \<le> unat len" "length b = m" using False less.prems by (auto simp: m_def b_def)
    have nz: "len \<noteq> 0" and fits: "k + unat len \<le> length buf"
      using False less.prems(6,9) by auto
    have "\<not> answered want (drop start ps)"
      using False less.prems(5-7) last8 by (auto simp: answered_def)
    then have "\<exists>len' s'. control_w_loop E (write_byte E) 1 buf (int k) len lpf s =
        control_w_loop E (write_byte E) 1 buf (int (k + m)) len' (m = 8) s' \<and>
        unat len' = unat len - m \<and> serving s' \<and> sent_in (io_log s') = (ps @ [b], [])"
      unfolding m_def b_def using nz by (intro write_loop_sends [OF host less.prems(1,2) _ _ fits]) auto
    then obtain len' s' where w: "control_w_loop E (write_byte E) 1 buf (int k) len lpf s =
          control_w_loop E (write_byte E) 1 buf (int (k + m)) len' (m = 8) s'"
        and s': "unat len' = unat len - m" "serving s'" "sent_in (io_log s') = (ps @ [b], [])" by blast
    have "b \<noteq> []" using m by auto
    have "m \<le> L - k" using m(2) less.prems(6) by linarith
    then have "b = take m (drop k (take L buf))"
      by (simp add: b_def drop_take min_absorb1)
    then have rest: "drop k (take L buf) = b @ drop (k + m) (take L buf)"
      by (metis append_take_drop_id drop_drop add.commute)
    show ?thesis
    proof (cases "m = 8")
      case True
      have "\<exists>t. control_w_loop E (write_byte E) 1 buf (int (k + m)) len' True s' = Returns (NoError, buf, t) \<and> serving t \<and>
          sent_in (io_log t) = ((ps @ [b]) @ tail8 (L < want) (drop (k + m) (take L buf)), [])"
        by (rule less.hyps) (use s' m True less.prems in auto)
      moreover have "tail8 (L < want) (drop k (take L buf)) = b # tail8 (L < want) (drop (k + m) (take L buf))"
        using m True \<open>b \<noteq> []\<close> by (subst tail8.simps) (simp add: rest)
      ultimately show ?thesis using w True by simp
    next
      case short: False
      then have "m = unat len" "m < 8" by (auto simp: m_def)
      then have kL: "k + m = L" using less.prems by simp
      have "answered want (drop start (ps @ [b]))"
        using less.prems(3) m(3) \<open>m < 8\<close> by (simp add: answered_def)
      from write_loop_stops [OF host s'(2,3) this, of "write_byte E" 1 buf "int (k + m)" len' False]
      show ?thesis
        using w short kL rest m \<open>m < 8\<close> by (auto simp: tail8.simps)
    qed
  qed
qed


lemma descriptor_size:
  "CALLBACK_USB_GetDescriptor v i = (d, n) \<Longrightarrow> unat n \<le> length d"
  by (auto simp: CALLBACK_USB_GetDescriptor_def device_bytes_def configuration_bytes_def string_bytes_def
      header_bytes_def bytes16_def configuration_header_bytes_def interface_bytes_def endpoint_bytes_def
      functional_header_bytes_def functional_acm_bytes_def functional_union_bytes_def
      LanguageString_def ManufacturerString_def ProductString_def USB_STRING_LEN_def Let_def split: if_splits)

text \<open>
  C26: A descriptor request is answered with the first \<open>wLength\<close> bytes of the descriptor that the
  callback finds, in packets of eight bytes, followed by an empty packet exactly when the descriptor
  is shorter than asked for and fills its last packet.
\<close>

theorem lufa_get_descriptor_answers:
  assumes "serving s" "sent_in (io_log s) = (ps, [])"
    and "host_takes E (unat (wLength (USB_ControlRequest s))) (length ps)"
    and "wLength (USB_ControlRequest s) \<noteq> 0" "wValue (USB_ControlRequest s) \<noteq> 0x03DC"
    and "CALLBACK_USB_GetDescriptor (wValue (USB_ControlRequest s)) (ucast (wIndex (USB_ControlRequest s))) = (d, n)"
    and "n \<noteq> 0"
  shows "\<exists>s'. USB_Device_GetDescriptor E (firmware_app E sig) s = Returns s' \<and>
    sent_in (io_log s') = (ps @ answer (unat (wLength (USB_ControlRequest s))) (take (unat n) d), [])"
proof -
  define want where "want = wLength (USB_ControlRequest s)"
  define len where "len = (if n > want then want else n)"
  have "unat n \<noteq> 0" "unat want \<noteq> 0"
    using assms(4,7) by (simp_all add: want_def unsigned_eq_0_iff)
  moreover have "unat len = min (unat n) (unat want)"
    by (auto simp: len_def word_less_nat_alt)
  ultimately have L: "unat len = min (unat n) (unat want)" "0 < unat len"
    by linarith+
  define s1 where "s1 = Endpoint_ClearSETUP E s"
  have s1: "serving s1" "sent_in (io_log s1) = (ps, [])" "USB_ControlRequest s1 = USB_ControlRequest s"
    using assms(1-3) by (auto simp: s1_def serving_def endpoint_ops host_takes_def)
  have run: "USB_Device_GetDescriptor E (firmware_app E sig) s =
      and_then (control_w_loop E (write_byte E) 1 d (int 0) len False s1) (\<lambda>(_, _, s1). Returns (Endpoint_ClearOUT E s1))"
    using assms(5,6,7) s1(3)
    by (simp add: USB_Device_GetDescriptor_def firmware_app_def Endpoint_Write_Control_PStream_LE_def
        template_control_w_def Let_def len_def want_def s1_def)
  have "\<exists>t. control_w_loop E (write_byte E) 1 d (int 0) len False s1 = Returns (NoError, d, t) \<and> serving t \<and>
      sent_in (io_log t) = (ps @ tail8 (unat len < unat want) (drop 0 (take (unat len) d)), [])"
    by (rule write_loop_answers [OF assms(3) [folded want_def]]) (use s1 L descriptor_size [OF assms(6)] in \<open>auto simp: want_def\<close>)
  then obtain t where t: "control_w_loop E (write_byte E) 1 d (int 0) len False s1 = Returns (NoError, d, t)"
      "serving t" "sent_in (io_log t) = (ps @ tail8 (unat len < unat want) (take (unat len) d), [])"
    by auto
  have b: "take (unat want) (take (unat n) d) = take (unat len) d" "length (take (unat len) d) = unat len"
    using L descriptor_size [OF assms(6)] by (simp_all add: min.commute)
  have "take (unat len) d \<noteq> []"
    using b(2) L(2) by auto
  then have "tail8 (unat len < unat want) (take (unat len) d) = answer (unat want) (take (unat n) d)"
    using b by (simp add: tail8_answer answer_def Let_def)
  moreover have "sent_in (io_log (Endpoint_ClearOUT E t)) = sent_in (io_log t)"
    using t(2) assms(3) by (auto simp: serving_def endpoint_ops host_takes_def)
  ultimately show ?thesis
    using t(3) unfolding run t(1) want_def [symmetric] by simp
qed

text \<open>A host that takes everything asked for.\<close>

definition taking_host :: "nat \<Rightarrow> nat \<Rightarrow> lufa_env" where
  "taking_host want start = \<lparr>hw = \<lambda>l r. case r of
       UEINTX \<Rightarrow> if answered want (drop start (fst (sent_in l))) then 5 else 1
     | UEBCLX \<Rightarrow> of_nat (length (snd (sent_in l)))
     | _ \<Rightarrow> 0, irq = id\<rparr>"

definition lufa_zero :: lufa where
  "lufa_zero = \<lparr>io_log = [], ien = False, USB_DeviceState = DEVICE_STATE_Addressed, USB_IsInitialized = True,
     USB_ControlRequest = \<lparr>bmRequestType = 0, bRequest = 0, wValue = 0, wIndex = 0, wLength = 0\<rparr>,
     USB_Device_ConfigurationNumber = 0, USB_Device_CurrentlySelfPowered = False,
     USB_Device_RemoteWakeupEnabled = False, CDC_State = cdc_state_zero,
     Class_States = class_states_zero\<rparr>"

theorem lufa_get_descriptor_answers_witness:
  "\<exists>s'. USB_Device_GetDescriptor (taking_host 64 0) (firmware_app (taking_host 64 0) (\<lambda>_. 0))
      (lufa_zero\<lparr>USB_ControlRequest := \<lparr>bmRequestType = 0x80, bRequest = 6, wValue = 0x0302, wIndex = 0, wLength = 64\<rparr>\<rparr>) =
      Returns s' \<and>
    sent_in (io_log s') = ([[26, 3, 76, 0, 69, 0, 68, 0], [32, 0, 78, 0, 111, 0, 116, 0],
      [105, 0, 102, 0, 105, 0, 101, 0], [114, 0]], [])"
proof -
  let ?s = "lufa_zero\<lparr>USB_ControlRequest := \<lparr>bmRequestType = 0x80, bRequest = 6, wValue = 0x0302, wIndex = 0, wLength = 64\<rparr>\<rparr>"
  have cb: "CALLBACK_USB_GetDescriptor 0x0302 0 = (string_bytes ProductString, 26)"
    by (simp add: CALLBACK_USB_GetDescriptor_def hi8_def lo8_def ProductString_def USB_STRING_LEN_def Let_def)
  have host: "host_takes (taking_host 64 0) 64 0"
    by (simp add: host_takes_def taking_host_def)
  have "take 26 (string_bytes ProductString) =
      [26, 3, 76, 0, 69, 0, 68, 0, 32, 0, 78, 0, 111, 0, 116, 0, 105, 0, 102, 0, 105, 0, 101, 0, 114, 0]"
    by (simp add: string_bytes_def ProductString_def header_bytes_def bytes16_def lo8_def hi8_def USB_STRING_LEN_def)
  then have "answer 64 (take 26 (string_bytes ProductString)) = [[26, 3, 76, 0, 69, 0, 68, 0],
      [32, 0, 78, 0, 111, 0, 116, 0], [105, 0, 102, 0, 105, 0, 101, 0], [114, 0]]"
    by code_simp
  then show ?thesis
    using lufa_get_descriptor_answers [of ?s "[]" "taking_host 64 0" "string_bytes ProductString" 26 "\<lambda>_. 0"] cb host
    by (simp add: lufa_zero_def serving_def)
qed

end
