(* ===== verification/LufaCdcClaims.thy ===== *)
theory LufaCdcClaims
  imports LufaClaims
begin

text \<open>
  The CDC class driver: the endpoints it configures are those the configuration descriptor
  announces, and a line encoding that the host sets reads back unchanged.
\<close>

unbundle bit_operations_syntax

subsection \<open>Endpoints announced and endpoints configured\<close>

text \<open>The endpoints configured by given accesses, each with what its two configuration registers got.\<close>

fun configurations :: "access list \<Rightarrow> (u8 \<times> u8 \<times> u8) list" where
  "configurations (Wr UECFG1X v # Wr UECFG0X d # l) = configurations l @ [(selected l, d, v)]"
| "configurations (_ # l) = configurations l"
| "configurations [] = []"

text \<open>
  Address, attributes and size of the endpoint descriptors that the search function finds one after
  the other. After the last descriptor of a configuration it still looks at the type in the two bytes
  that follow.
\<close>

fun endpoints_from :: "nat \<Rightarrow> u16 \<Rightarrow> u8 list \<Rightarrow> (u8 \<times> u8 \<times> u16) list" where
  "endpoints_from 0 BytesRem p = []"
| "endpoints_from (Suc k) BytesRem p =
     (case USB_GetNextDescriptorOfType (dtype DTYPE_Endpoint) BytesRem p of
        Some (Inr (r, q)) \<Rightarrow>
          if r = 0 then [] else (q ! 2, q ! 3, le16 (q ! 4) (q ! 5)) # endpoints_from k r q
      | _ \<Rightarrow> [])"

definition announced :: "(u8 \<times> u8 \<times> u16) list" where
  "announced = endpoints_from 62 62 (configuration_bytes ConfigurationDescriptor @ [0, 0])"

text \<open>The register values for an announced endpoint: type and direction, size code, one bank, allocated.\<close>

definition registers_for :: "u8 \<times> u8 \<times> u16 \<Rightarrow> u8 \<times> u8 \<times> u8" where
  "registers_for e = (case e of (address, attributes, sz) \<Rightarrow>
     (address AND 0x0F,
      push_bit 6 (attributes AND 3) OR (if bit address 7 then 1 else 0),
      (if sz \<le> 8 then 0x00 else if sz \<le> 16 then 0x10 else if sz \<le> 32 then 0x20 else 0x30) OR 2))"

lemma search_step:
  "r \<noteq> 0 \<Longrightarrow> USB_GetNextDescriptorOfType T r p =
    and_then (USB_GetNextDescriptor r p) (\<lambda>(r, q). and_then (DESCRIPTOR_TYPE q) (\<lambda>t.
      if t = T then Returns (r, q) else USB_GetNextDescriptorOfType T r q))"
  by (subst USB_GetNextDescriptorOfType.simps) simp

lemma search_end: "USB_GetNextDescriptorOfType T 0 p = Returns (0, p)"
  by (subst USB_GetNextDescriptorOfType.simps) simp

lemma configuration_bytes_table:
  "configuration_bytes ConfigurationDescriptor =
    [9, 2, 62, 0, 2, 1, 0, 0xC0, 50,
     9, 4, 0, 0, 1, 2, 2, 1, 0, 5, 0x24, 0, 0x10, 1, 4, 0x24, 2, 6, 5, 0x24, 6, 0, 1, 7, 5, 0x82, 3, 8, 0, 255,
     9, 4, 1, 0, 2, 10, 0, 0, 0, 7, 5, 4, 2, 16, 0, 1, 7, 5, 0x83, 2, 16, 0, 1]"
  by (simp add: configuration_bytes_def ConfigurationDescriptor_def header_bytes_def bytes16_def
      configuration_header_bytes_def interface_bytes_def endpoint_bytes_def functional_header_bytes_def
      functional_acm_bytes_def functional_union_bytes_def lo8_def hi8_def VERSION_BCD_def
      USB_CONFIG_POWER_MA_def CDC_NOTIFICATION_EPNUM_def CDC_NOTIFICATION_EPSIZE_def CDC_TX_EPNUM_def
      CDC_RX_EPNUM_def CDC_TXRX_EPSIZE_def)

lemma announced_endpoints: "announced = [(0x82, 3, 8), (0x04, 2, 16), (0x83, 2, 16)]"
proof -
  have "endpoints_from (Suc (Suc (Suc (Suc j)))) 62 (configuration_bytes ConfigurationDescriptor @ [0, 0]) =
      [(0x82, 3, 8), (0x04, 2, 16), (0x83, 2, 16)]" for j
    unfolding configuration_bytes_table
    by (simp add: search_step search_end USB_GetNextDescriptor_def DESCRIPTOR_SIZE_def DESCRIPTOR_TYPE_def
        le16_def)
  from this [of 58] show ?thesis
    by (simp add: announced_def)
qed


lemma size_masks: "Endpoint_BytesToEPSizeMask 8 = Returns 0" "Endpoint_BytesToEPSizeMask 16 = Returns 0x10"
proof -
  have "size_mask 0 8 8 = Returns 0" by (subst size_mask.simps) simp
  moreover have "size_mask 0 8 16 = Returns 1"
    by (subst size_mask.simps, simp, subst size_mask.simps, simp)
  ultimately show "Endpoint_BytesToEPSizeMask 8 = Returns 0" "Endpoint_BytesToEPSizeMask 16 = Returns 0x10"
    by (simp_all add: Endpoint_BytesToEPSizeMask_def)
qed

lemma configure_endpoint_masked:
  assumes "\<not> ien s" "\<And>l. bit (hw E l UESTA0X) CFGOK" "Endpoint_BytesToEPSizeMask sz = Returns m"
  shows "\<exists>s'. Endpoint_ConfigureEndpoint E n T dir sz bank s = Returns (True, s') \<and> \<not> ien s' \<and>
    CDC_State s' = CDC_State s \<and> USB_DeviceState s' = USB_DeviceState s \<and>
    USB_Device_ConfigurationNumber s' = USB_Device_ConfigurationNumber s \<and>
    configurations (io_log s') = configurations (io_log s) @
      [(n, push_bit 6 T OR (if dir \<noteq> 0 then 1 else 0), 2 OR bank OR m)]"
  using assms by (simp add: Endpoint_ConfigureEndpoint_def Endpoint_ConfigureEndpoint_Prv_def endpoint_ops)

lemma configure_masked:
  assumes "\<not> ien s" "\<And>l. bit (hw E l UESTA0X) CFGOK"
  shows "\<exists>s' new. CDC_Device_ConfigureEndpoints E VirtualSerial_CDC_Interface s = Returns (True, s') \<and>
    configurations (io_log s') = configurations (io_log s) @ new \<and>
    distinct new \<and> set new = set (map registers_for announced) \<and> CDC_State s' = cdc_state_zero \<and>
    USB_DeviceState s' = USB_DeviceState s \<and> USB_Device_ConfigurationNumber s' = USB_Device_ConfigurationNumber s"
proof -
  define s0 where "s0 = s\<lparr>CDC_State := cdc_state_zero\<rparr>"
  have s0: "\<not> ien s0" "CDC_State s0 = cdc_state_zero" "io_log s0 = io_log s" "USB_DeviceState s0 = USB_DeviceState s"
    "USB_Device_ConfigurationNumber s0 = USB_Device_ConfigurationNumber s" using assms(1) by (simp_all add: s0_def)
  let ?ok = "\<lambda>(s :: lufa) n (T :: u8) (dir :: u8) m (s' :: lufa). \<not> ien s' \<and> CDC_State s' = CDC_State s \<and>
    USB_DeviceState s' = USB_DeviceState s \<and> USB_Device_ConfigurationNumber s' = USB_Device_ConfigurationNumber s \<and>
    configurations (io_log s') = configurations (io_log s) @ [(n, push_bit 6 T OR (if dir \<noteq> 0 then 1 else 0), 2 OR 0 OR m)]"
  have "\<exists>s1. Endpoint_ConfigureEndpoint E 2 3 0x80 8 0 s0 = Returns (True, s1) \<and> ?ok s0 2 3 0x80 0 s1"
    by (rule configure_endpoint_masked [OF s0(1) assms(2) size_masks(1)])
  then obtain s1 where s1: "Endpoint_ConfigureEndpoint E 2 3 0x80 8 0 s0 = Returns (True, s1)" "?ok s0 2 3 0x80 0 s1"
    by auto
  have "\<exists>s2. Endpoint_ConfigureEndpoint E 3 2 0x80 16 0 s1 = Returns (True, s2) \<and> ?ok s1 3 2 0x80 0x10 s2"
    by (rule configure_endpoint_masked [OF s1(2) [THEN conjunct1] assms(2) size_masks(2)])
  then obtain s2 where s2: "Endpoint_ConfigureEndpoint E 3 2 0x80 16 0 s1 = Returns (True, s2)" "?ok s1 3 2 0x80 0x10 s2"
    by auto
  have "\<exists>s3. Endpoint_ConfigureEndpoint E 4 2 0 16 0 s2 = Returns (True, s3) \<and> ?ok s2 4 2 0 0x10 s3"
    by (rule configure_endpoint_masked [OF s2(2) [THEN conjunct1] assms(2) size_masks(2)])
  then obtain s3 where s3: "Endpoint_ConfigureEndpoint E 4 2 0 16 0 s2 = Returns (True, s3)" "?ok s2 4 2 0 0x10 s3"
    by auto
  have "ENDPOINT_TOTAL_ENDPOINTS - 1 = Suc (Suc (Suc (Suc (Suc (Suc 0)))))"
    by (simp add: ENDPOINT_TOTAL_ENDPOINTS_def)
  then have "CDC_Device_ConfigureEndpoints E VirtualSerial_CDC_Interface s = Returns (True, s3)"
    using s1(1) s2(1) s3(1)
    by (simp add: CDC_Device_ConfigureEndpoints_def cdc_endpoint_def VirtualSerial_CDC_Interface_def
        CDC_TX_EPNUM_def CDC_RX_EPNUM_def CDC_NOTIFICATION_EPNUM_def CDC_TXRX_EPSIZE_def
        CDC_NOTIFICATION_EPSIZE_def ENDPOINT_BANK_SINGLE_def s0_def)
  moreover have "configurations (io_log s3) = configurations (io_log s) @ [(2, 0xC1, 2), (3, 0x81, 0x12), (4, 0x80, 0x12)]"
    using s0 s1(2) s2(2) s3(2) by simp
  moreover have "map registers_for announced = [(2, 0xC1, 2), (4, 0x80, 0x12), (3, 0x81, 0x12)]"
    by (simp add: announced_endpoints registers_for_def)
  ultimately show ?thesis
    using s0(2,4,5) s1(2) s2(2) s3(2) by auto
qed

text \<open>
  C27: Where the controller accepts the configuration of every endpoint, the CDC driver succeeds, has
  forgotten the line encoding of an earlier session, and has configured exactly the endpoints that
  the configuration descriptor announces to the host, with its types, directions and sizes.
\<close>

theorem configures_what_is_announced:
  assumes "\<not> ien s" "\<And>l. bit (hw E l UESTA0X) CFGOK"
  shows "\<exists>s' new. CDC_Device_ConfigureEndpoints E VirtualSerial_CDC_Interface s = Returns (True, s') \<and>
    configurations (io_log s') = configurations (io_log s) @ new \<and>
    distinct new \<and> set new = set (map registers_for announced) \<and> CDC_State s' = cdc_state_zero \<and>
    USB_DeviceState s' = USB_DeviceState s \<and> USB_Device_ConfigurationNumber s' = USB_Device_ConfigurationNumber s"
  by (rule configure_masked [OF assms])

theorem configures_what_is_announced_witness:
  "\<exists>s' new. CDC_Device_ConfigureEndpoints \<lparr>hw = \<lambda>l r. if r = UESTA0X then 0x80 else 0, irq = id\<rparr>
      VirtualSerial_CDC_Interface lufa_zero = Returns (True, s') \<and> configurations (io_log s') = new \<and>
    distinct new \<and> set new = set (map registers_for announced) \<and> CDC_State s' = cdc_state_zero"
  using configures_what_is_announced [of lufa_zero "\<lparr>hw = \<lambda>l r. if r = UESTA0X then 0x80 else 0, irq = id\<rparr>"]
  by (auto simp: lufa_zero_def)

subsection \<open>The line encoding\<close>

text \<open>How many bytes have been taken from the buffer of the endpoint.\<close>

fun data_reads :: "access list \<Rightarrow> nat" where
  "data_reads [] = 0"
| "data_reads (Rd UEDATX v # l) = Suc (data_reads l)"
| "data_reads (_ # l) = data_reads l"

text \<open>A controller that has a request, and whose host sends \<open>b\<close> and takes what is sent.\<close>

definition host_sends :: "lufa_env \<Rightarrow> u8 list \<Rightarrow> nat \<Rightarrow> bool" where
  "host_sends E b start \<longleftrightarrow> (\<forall>l. bit (hw E l UEINTX) TXINI \<and> bit (hw E l UEINTX) RXOUTI \<and>
     bit (hw E l UEINTX) RXSTPI \<and> (\<forall>i < length b. data_reads l = start + i \<longrightarrow> hw E l UEDATX = b ! i))"

lemma bytes32_le32: "bytes32 (le32 [a, b, c, d]) = [a, b, c, d]"
proof -
  have "ucast (le32 [a, b, c, d]) = a" "ucast (drop_bit 8 (le32 [a, b, c, d])) = b"
    "ucast (drop_bit 16 (le32 [a, b, c, d])) = c" "ucast (drop_bit 24 (le32 [a, b, c, d])) = d"
    by (rule bit_word_eqI; auto simp: le32_def bit_simps dest: bit_imp_le_length)+
  then show ?thesis by (simp add: bytes32_def)
qed


lemma receive_line_encoding:
  assumes "host_sends E [b0, b1, b2, b3, f, p, d] (data_reads (io_log s))" "\<not> ien s"
    and "USB_ControlRequest s = \<lparr>bmRequestType = 0x21, bRequest = cdc_code CDC_REQ_SetLineEncoding, wValue = v,
      wIndex = ucast (ControlInterfaceNumber C), wLength = 7\<rparr>"
  shows "\<exists>s1. CDC_Device_ProcessControlRequest E C s = Returns s1 \<and>
    LineEncoding (CDC_State s1) = \<lparr>BaudRateBPS = le32 [b0, b1, b2, b3], CharFormat = f, ParityType = p, DataBits = d\<rparr>"
proof -
  let ?r = "\<lambda>r s. s\<lparr>io_log := Rd r (hw E (io_log s) r) # io_log s\<rparr>"
  have intx: "bit (hw E l UEINTX) TXINI" "bit (hw E l UEINTX) RXOUTI" "bit (hw E l UEINTX) RXSTPI" for l
    using assms(1) by (simp_all add: host_sends_def)
  define s1 where "s1 = ?r UEINTX s"
  define s2 where "s2 = ?r UEINTX (Endpoint_ClearSETUP E s1)"
  have m: "\<not> ien s1" "\<not> ien (Endpoint_ClearSETUP E s1)" "\<not> ien s2" "data_reads (io_log s2) = data_reads (io_log s)"
    "USB_ControlRequest s2 = USB_ControlRequest s"
    using assms(2) by (simp_all add: s1_def s2_def endpoint_ops)
  have w: "wait_for E UEINTX 4 (Endpoint_ClearSETUP E s1) = Returns (hw E (io_log (Endpoint_ClearSETUP E s1)) UEINTX, s2)"
    unfolding s2_def by (rule wait_ready [OF m(2) intx(2)]) simp
  have byte: "hw E l UEDATX = [b0, b1, b2, b3, f, p, d] ! i" if "data_reads l = data_reads (io_log s2) + i" "i < 7" for l i
    using assms(1) that m(4) by (simp add: host_sends_def)
  have word: "read_fifo E 4 t = read_fifo E (Suc (Suc (Suc (Suc 0)))) t" for t :: lufa
    by (simp add: numeral_eq_Suc)
  define s6 where "s6 = s2\<lparr>io_log := Rd UEDATX d # Rd UEDATX p # Rd UEDATX f # Rd UEDATX b3 # Rd UEDATX b2 #
    Rd UEDATX b1 # Rd UEDATX b0 # io_log s2,
    CDC_State := (CDC_State s2)\<lparr>LineEncoding := \<lparr>BaudRateBPS = le32 [b0, b1, b2, b3], CharFormat = f, ParityType = p, DataBits = d\<rparr>\<rparr>\<rparr>"
  have "set_line_encoding E s1 = Endpoint_ClearStatusStage E (Endpoint_ClearOUT E s6)"
    using m(3) byte [of _ 0] byte [of _ 1] byte [of _ 2] byte [of _ 3] byte [of _ 4] byte [of _ 5] byte [of _ 6]
    by (simp add: set_line_encoding_def w Endpoint_Read_32_LE_def Endpoint_Read_8_def word s6_def Let_def)
  moreover have "CDC_Device_ProcessControlRequest E C s = set_line_encoding E s1"
    using assms(2,3) intx by (simp add: CDC_Device_ProcessControlRequest_def endpoint_ops s1_def Let_def)
  moreover have "wait_attached E TXINI (Endpoint_ClearOUT E s6) =
      Returns (True, ?r UEINTX (Endpoint_ClearOUT E s6))"
    using m(3) intx(1) by (subst wait_attached.simps) (simp add: s6_def endpoint_ops)
  ultimately show ?thesis
    using m(3,5) assms(3) by (simp add: Endpoint_ClearStatusStage_def s6_def endpoint_ops)
qed

lemma send_line_encoding:
  assumes "\<And>l. bit (hw E l UEINTX) TXINI \<and> bit (hw E l UEINTX) RXOUTI \<and> bit (hw E l UEINTX) RXSTPI"
    and "\<not> ien s" "selected (io_log s) = 0" "sent_in (io_log s) = (ps, [])"
    and "USB_ControlRequest s = \<lparr>bmRequestType = 0xA1, bRequest = cdc_code CDC_REQ_GetLineEncoding, wValue = v,
      wIndex = ucast (ControlInterfaceNumber C), wLength = 7\<rparr>"
  shows "\<exists>s1. CDC_Device_ProcessControlRequest E C s = Returns s1 \<and>
    sent_in (io_log s1) = (ps @ [let e = LineEncoding (CDC_State s) in
      bytes32 (BaudRateBPS e) @ [CharFormat e, ParityType e, DataBits e]], [])"
proof -
  let ?r = "\<lambda>r s. s\<lparr>io_log := Rd r (hw E (io_log s) r) # io_log s\<rparr>"
  define e where "e = LineEncoding (CDC_State s)"
  define s1 where "s1 = ?r UEINTX s"
  define s2 where "s2 = ?r UEINTX (Endpoint_ClearSETUP E s1)"
  have m: "\<not> ien s1" "\<not> ien (Endpoint_ClearSETUP E s1)" "\<not> ien s2" "selected (io_log s2) = 0"
    "sent_in (io_log s2) = (ps, [])" "LineEncoding (CDC_State s2) = e" "USB_ControlRequest s2 = USB_ControlRequest s"
    using assms by (simp_all add: s1_def s2_def e_def endpoint_ops)
  have w: "wait_for E UEINTX 1 (Endpoint_ClearSETUP E s1) = Returns (hw E (io_log (Endpoint_ClearSETUP E s1)) UEINTX, s2)"
    unfolding s2_def by (rule wait_ready [OF m(2), where i = 0]) (use assms(1) in simp_all)
  define s3 where "s3 = s2\<lparr>io_log := rev (map (Wr UEDATX) (bytes32 (BaudRateBPS e) @ [CharFormat e, ParityType e, DataBits e])) @ io_log s2\<rparr>"
  define s4 where "s4 = Endpoint_ClearIN E s3"
  have four: "Endpoint_Write_32_LE E x t = t\<lparr>io_log := rev (map (Wr UEDATX) (bytes32 x)) @ io_log t\<rparr>" if "\<not> ien t" for x and t :: lufa
    using that by (simp add: Endpoint_Write_32_LE_def bytes32_def)
  have "get_line_encoding E s1 = Endpoint_ClearStatusStage E s4"
    using m(3,6) by (simp add: get_line_encoding_def w four Endpoint_Write_8_def s3_def s4_def Let_def)
  moreover have "CDC_Device_ProcessControlRequest E C s = get_line_encoding E s1"
    using assms by (simp add: CDC_Device_ProcessControlRequest_def endpoint_ops s1_def Let_def)
  moreover have s4: "\<not> ien s4" "USB_ControlRequest s4 = USB_ControlRequest s"
      "sent_in (io_log s4) = (ps @ [bytes32 (BaudRateBPS e) @ [CharFormat e, ParityType e, DataBits e]], [])"
    using m by (simp_all add: s3_def s4_def endpoint_ops)
  moreover have "wait_attached E RXOUTI s4 = Returns (True, ?r UEINTX s4)"
    using s4(1) assms(1) by (subst wait_attached.simps) simp
  ultimately show ?thesis
    using assms(1,5) by (simp add: Endpoint_ClearStatusStage_def endpoint_ops e_def Let_def)
qed

text \<open>
  C28: Seven bytes that the host sends to set the line encoding are what it gets back when it asks for
  the line encoding later, in one packet, as long as nothing changed the driver's state in between.
\<close>

theorem line_encoding_roundtrip:
  assumes "host_sends E [b0, b1, b2, b3, f, p, d] (data_reads (io_log s))" "\<not> ien s"
    and "USB_ControlRequest s = \<lparr>bmRequestType = 0x21, bRequest = cdc_code CDC_REQ_SetLineEncoding, wValue = v,
      wIndex = ucast (ControlInterfaceNumber C), wLength = 7\<rparr>"
    and "host_sends E' [] 0" "\<not> ien s2" "selected (io_log s2) = 0" "sent_in (io_log s2) = (ps, [])"
    and "USB_ControlRequest s2 = \<lparr>bmRequestType = 0xA1, bRequest = cdc_code CDC_REQ_GetLineEncoding, wValue = v',
      wIndex = ucast (ControlInterfaceNumber C), wLength = 7\<rparr>"
  shows "\<exists>s1. CDC_Device_ProcessControlRequest E C s = Returns s1 \<and>
    (CDC_State s2 = CDC_State s1 \<longrightarrow> (\<exists>s3. CDC_Device_ProcessControlRequest E' C s2 = Returns s3 \<and>
       sent_in (io_log s3) = (ps @ [[b0, b1, b2, b3, f, p, d]], [])))"
proof -
  obtain s1 where s1: "CDC_Device_ProcessControlRequest E C s = Returns s1"
      "LineEncoding (CDC_State s1) = \<lparr>BaudRateBPS = le32 [b0, b1, b2, b3], CharFormat = f, ParityType = p, DataBits = d\<rparr>"
    using receive_line_encoding [OF assms(1-3)] by blast
  have ready: "\<And>l. bit (hw E' l UEINTX) TXINI \<and> bit (hw E' l UEINTX) RXOUTI \<and> bit (hw E' l UEINTX) RXSTPI"
    using assms(4) by (simp add: host_sends_def)
  show ?thesis
    using send_line_encoding [OF ready assms(5-8)] s1 by (auto simp: bytes32_le32 Let_def)
qed


theorem line_encoding_roundtrip_witness:
  "let b = [0x00, 0xC2, 0x01, 0x00, 0, 0, 8];
       E = \<lparr>hw = \<lambda>l r. case r of UEINTX \<Rightarrow> 13 | UEDATX \<Rightarrow> b ! data_reads l | _ \<Rightarrow> 0, irq = id\<rparr>;
       C = VirtualSerial_CDC_Interface
   in \<exists>s1 s3. CDC_Device_ProcessControlRequest E C (lufa_zero\<lparr>USB_ControlRequest :=
          \<lparr>bmRequestType = 0x21, bRequest = 0x20, wValue = 0, wIndex = 0, wLength = 7\<rparr>\<rparr>) = Returns s1 \<and>
        CDC_Device_ProcessControlRequest E C (lufa_zero\<lparr>USB_ControlRequest :=
          \<lparr>bmRequestType = 0xA1, bRequest = 0x21, wValue = 0, wIndex = 0, wLength = 7\<rparr>,
          CDC_State := CDC_State s1\<rparr>) = Returns s3 \<and>
        sent_in (io_log s3) = ([b], [])"
proof -
  define b :: "u8 list" where "b = [0x00, 0xC2, 0x01, 0x00, 0, 0, 8]"
  define E :: lufa_env where "E = \<lparr>hw = \<lambda>l r. case r of UEINTX \<Rightarrow> 13 | UEDATX \<Rightarrow> b ! data_reads l | _ \<Rightarrow> 0, irq = id\<rparr>"
  define s where "s = lufa_zero\<lparr>USB_ControlRequest := \<lparr>bmRequestType = 0x21, bRequest = 0x20, wValue = 0, wIndex = 0, wLength = 7\<rparr>\<rparr>"
  define s2 where "s2 = (\<lambda>c. lufa_zero\<lparr>USB_ControlRequest :=
    \<lparr>bmRequestType = 0xA1, bRequest = 0x21, wValue = 0, wIndex = 0, wLength = 7\<rparr>, CDC_State := c\<rparr>)"
  have host: "host_sends E [0x00, 0xC2, 0x01, 0x00, 0, 0, 8] (data_reads (io_log s))" "host_sends E [] 0"
    by (simp_all add: host_sends_def E_def b_def s_def lufa_zero_def)
  have zero: "ControlInterfaceNumber VirtualSerial_CDC_Interface = 0"
    by (simp add: VirtualSerial_CDC_Interface_def)
  have rt: "\<exists>s1. CDC_Device_ProcessControlRequest E VirtualSerial_CDC_Interface s = Returns s1 \<and>
      (CDC_State (s2 c) = CDC_State s1 \<longrightarrow> (\<exists>s3. CDC_Device_ProcessControlRequest E VirtualSerial_CDC_Interface (s2 c) = Returns s3 \<and>
         sent_in (io_log s3) = ([] @ [[0x00, 0xC2, 0x01, 0x00, 0, 0, 8]], [])))" for c
    by (rule line_encoding_roundtrip [OF host(1) _ _ host(2), where v = 0 and v' = 0])
      (simp_all add: s_def s2_def lufa_zero_def zero)
  obtain s1 where s1: "CDC_Device_ProcessControlRequest E VirtualSerial_CDC_Interface s = Returns s1"
    using rt by blast
  have "\<exists>s3. CDC_Device_ProcessControlRequest E VirtualSerial_CDC_Interface (s2 (CDC_State s1)) = Returns s3 \<and>
      sent_in (io_log s3) = ([b], [])"
    using rt [of "CDC_State s1"] s1 by (simp add: s2_def b_def)
  with s1 show ?thesis
    unfolding Let_def b_def [symmetric] E_def [symmetric] s_def [symmetric] by (auto simp: s2_def)
qed

end
