(* ===== verification/LufaStack.thy ===== *)
theory LufaStack
  imports LufaCdcClaims
begin

text \<open>
  What stays true of the state of the device stack whatever the controller, the host and the
  interrupts do: a locale for the properties of the state that every function of the stack keeps,
  and the states the firmware can reach.
\<close>

unbundle bit_operations_syntax

lemma firmware_fields [simp]:
  "EVENT_ControlRequest (firmware_app E sig) = EVENT_USB_Device_ControlRequest E"
  "EVENT_ConfigurationChanged (firmware_app E sig) = EVENT_USB_Device_ConfigurationChanged E"
  "GetDescriptor (firmware_app E sig) = CALLBACK_USB_GetDescriptor"
  by (simp_all add: firmware_app_def)

subsection \<open>Properties that every step keeps\<close>

text \<open>
  A property of the stack's state that neither the registers nor the interrupt flag matter for, that
  interrupts keep, and that allows the assignments of the stack.
\<close>

locale stack_property =
  fixes E :: lufa_env and I :: "lufa \<Rightarrow> bool"
  assumes log: "I s \<Longrightarrow> I (s\<lparr>io_log := l\<rparr>)" and flag: "I s \<Longrightarrow> I (s\<lparr>ien := b\<rparr>)"
    and interrupt: "I s \<Longrightarrow> I (irq E s)"
    and state: "I s \<Longrightarrow> I (s\<lparr>USB_DeviceState := d\<rparr>)"
    and wakeup: "I s \<Longrightarrow> I (s\<lparr>USB_Device_RemoteWakeupEnabled := b\<rparr>)"
    and request: "I s \<Longrightarrow> I (s\<lparr>USB_ControlRequest := r\<rparr>)"
    and cdc: "I s \<Longrightarrow> I (s\<lparr>CDC_State := c\<rparr>)"
    and number: "I s \<Longrightarrow> v \<le> FIXED_NUM_CONFIGURATIONS \<Longrightarrow> I (s\<lparr>USB_Device_ConfigurationNumber := v\<rparr>)"
    and power: "I s \<Longrightarrow> I (s\<lparr>USB_Device_CurrentlySelfPowered := False\<rparr>)"
    and init: "I s \<Longrightarrow> I (s\<lparr>USB_IsInitialized := b\<rparr>)"
begin

lemma k_gap [simp, intro]: "I s \<Longrightarrow> I (gap E s)"
  by (simp add: gap_def interrupt)

lemma k_rd [simp, intro]: "I s \<Longrightarrow> I (snd (rd E r s))"
  by (simp add: rd_def Let_def log k_gap)

lemma k_wr [simp, intro]: "I s \<Longrightarrow> I (wr E r v s)"
  by (simp add: wr_def Let_def log k_gap)

lemma k_rmw [simp, intro]: "I s \<Longrightarrow> I (rmw E r f s)"
  by (auto simp: rmw_def case_prod_beta)

lemma k_test [simp, intro]: "I s \<Longrightarrow> I (snd (test_reg E r n s))"
  by (auto simp: test_reg_def case_prod_beta)

lemma k_state [simp, intro]: "I s \<Longrightarrow> I (snd (read_state E s))"
  by (auto simp: read_state_def Let_def)

lemma k_save [simp, intro]: "I s \<Longrightarrow> I (snd (save_cli E s))"
  by (auto simp: save_cli_def Let_def intro: flag)

lemma k_restore [simp, intro]: "I s \<Longrightarrow> I (restore b s)"
  by (simp add: restore_def flag)

lemma k_fifo [simp, intro]: "I s \<Longrightarrow> I (snd (read_fifo E n s))"
  by (induction n arbitrary: s) (auto simp: case_prod_beta)

lemma k_feed [simp, intro]: "I s \<Longrightarrow> I (fold (wr E UEDATX) bs s)"
  by (induction bs arbitrary: s) auto

lemma k_pairs [dest!]:
  "rd E r s = (v, t) \<Longrightarrow> I s \<Longrightarrow> I t" "test_reg E r n s = (b, t) \<Longrightarrow> I s \<Longrightarrow> I t"
  "read_state E s = (d, t) \<Longrightarrow> I s \<Longrightarrow> I t" "save_cli E s = (b, t) \<Longrightarrow> I s \<Longrightarrow> I t"
  "read_fifo E n s = (bs, t) \<Longrightarrow> I s \<Longrightarrow> I t"
  by (metis snd_conv k_rd, metis snd_conv k_test, metis snd_conv k_state, metis snd_conv k_save,
      metis snd_conv k_fifo)

lemmas assignments [simp, intro] = flag state wakeup request cdc power init

lemmas endpoint_defs = endpoint_ops Endpoint_StallTransaction_def Endpoint_ClearStall_def
  Endpoint_IsStalled_def Endpoint_ResetDataToggle_def Endpoint_ResetEndpoint_def Endpoint_IsEnabled_def
  Endpoint_GetEndpointDirection_def Endpoint_GetCurrentEndpoint_def Endpoint_Write_16_LE_def
  Endpoint_Write_32_LE_def Endpoint_Read_32_LE_def Endpoint_IsReadWriteAllowed_def
  USB_Device_GetFrameNumber_def Endpoint_ConfigureEndpoint_Prv_def

subsubsection \<open>Waiting\<close>

lemma k_wait [dest!]: "wait_for E r m s = Returns (v, t) \<Longrightarrow> I s \<Longrightarrow> I t"
proof -
  assume a: "wait_for E r m s = Returns (v, t)" and "I s"
  let ?Q = "\<lambda>(E' :: lufa_env) (r :: usb_reg) (m :: u8) s (y :: fault + u8 \<times> lufa).
    E' = E \<longrightarrow> I s \<longrightarrow> (\<forall>x. y = Inr x \<longrightarrow> I (snd x))"
  have "?Q E r m s (Inr (v, t))"
  proof (rule wait_for.raw_induct [where P = ?Q, OF _ a])
    fix f and E' :: lufa_env and r m s y
    assume IH: "\<And>E' r m s y. f E' r m s = Some y \<Longrightarrow> ?Q E' r m s y"
      and eq: "(case rd E' r s of (v, s1) \<Rightarrow> if v AND m \<noteq> 0 then Returns (v, s1) else f E' r m s1) = Some y"
    show "?Q E' r m s y"
      using eq by (auto simp: case_prod_beta split: if_splits dest!: IH)
  qed
  with \<open>I s\<close> show ?thesis by simp
qed

lemma k_attached [dest!]: "wait_attached E n s = Returns (v, t) \<Longrightarrow> I s \<Longrightarrow> I t"
proof -
  assume a: "wait_attached E n s = Returns (v, t)" and "I s"
  let ?Q = "\<lambda>E' (n :: nat) s (y :: fault + bool \<times> lufa). E' = E \<longrightarrow> I s \<longrightarrow> (\<forall>x. y = Inr x \<longrightarrow> I (snd x))"
  have "?Q E n s (Inr (v, t))"
  proof (rule wait_attached.raw_induct [where P = ?Q, OF _ a])
    fix f E' n s y
    assume IH: "\<And>E' n s y. f E' n s = Some y \<Longrightarrow> ?Q E' n s y"
      and eq: "(case test_reg E' UEINTX n s of (b, s1) \<Rightarrow>
        if b then Returns (True, s1)
        else case read_state E' s1 of (d, s2) \<Rightarrow>
          if d = DEVICE_STATE_Unattached then Returns (False, s2) else f E' n s2) = Some y"
    show "?Q E' n s y"
      using eq by (auto simp: case_prod_beta split: if_splits dest!: IH)
  qed
  with \<open>I s\<close> show ?thesis by simp
qed

lemma k_status [dest!]: "status_wait E n b s = Returns (e, b', t) \<Longrightarrow> I s \<Longrightarrow> I t"
proof -
  assume a: "status_wait E n b s = Returns (e, b', t)" and "I s"
  let ?Q = "\<lambda>E' (n :: nat) (b :: u8 list) s (y :: fault + stream_error \<times> u8 list \<times> lufa).
    E' = E \<longrightarrow> I s \<longrightarrow> (\<forall>x. y = Inr x \<longrightarrow> I (snd (snd x)))"
  have "?Q E n b s (Inr (e, b', t))"
  proof (rule status_wait.raw_induct [where P = ?Q, OF _ a])
    fix f E' n buffer s y
    assume IH: "\<And>E' n b s y. f E' n b s = Some y \<Longrightarrow> ?Q E' n b s y"
      and eq: "(case test_reg E' UEINTX n s of (b, s1) \<Rightarrow>
        if b then Returns (NoError, buffer, s1)
        else case read_state E' s1 of (d, s2) \<Rightarrow>
          if d = DEVICE_STATE_Unattached then Returns (DeviceDisconnected, buffer, s2)
          else if d = DEVICE_STATE_Suspended then Returns (BusSuspended, buffer, s2)
          else f E' n buffer s2) = Some y"
    show "?Q E' n buffer s y"
      using eq by (auto simp: case_prod_beta split: if_splits dest!: IH)
  qed
  with \<open>I s\<close> show ?thesis by simp
qed

lemma k_ready [dest!]: "ready_loop E m g s = Returns (e, t) \<Longrightarrow> I s \<Longrightarrow> I t"
proof -
  assume a: "ready_loop E m g s = Returns (e, t)" and "I s"
  let ?Q = "\<lambda>E' (m :: u8) (g :: u16) s (y :: fault + stream_error \<times> lufa). E' = E \<longrightarrow> I s \<longrightarrow> (\<forall>x. y = Inr x \<longrightarrow> I (snd x))"
  have "?Q E m g s (Inr (e, t))"
  proof (rule ready_loop.raw_induct [where P = ?Q, OF _ a])
    fix f E' m g s y
    assume IH: "\<And>E' m g s y. f E' m g s = Some y \<Longrightarrow> ?Q E' m g s y"
      and eq: "(case Endpoint_GetEndpointDirection E' s of (d, s1) \<Rightarrow>
      case (if d = ENDPOINT_DIR_IN then Endpoint_IsINReady E' s1 else Endpoint_IsOUTReceived E' s1) of (ready, s2) \<Rightarrow>
        if ready then Returns (NoError, s2)
        else case read_state E' s2 of (ds, s3) \<Rightarrow>
          if ds = DEVICE_STATE_Unattached then Returns (DeviceDisconnected, s3)
          else if ds = DEVICE_STATE_Suspended then Returns (BusSuspended, s3)
          else case Endpoint_IsStalled E' s3 of (st, s4) \<Rightarrow>
            if st then Returns (EndpointStalled, s4)
            else case USB_Device_GetFrameNumber E' s4 of (fn, s5) \<Rightarrow>
              if fn \<noteq> g then
                if m = 0 then Returns (Timeout, s5)
                else f E' (m - 1) fn s5
              else f E' m g s5) = Some y"
    show "?Q E' m g s y"
      using eq by (auto simp: case_prod_beta endpoint_defs split: if_splits dest!: IH)
  qed
  with \<open>I s\<close> show ?thesis by simp
qed

lemma k_fill [dest!]: "fill_packet (write_byte E) mv b i l n s = Returns (b', i', l', n', t) \<Longrightarrow> I s \<Longrightarrow> I t"
proof -
  assume a: "fill_packet (write_byte E) mv b i l n s = Returns (b', i', l', n', t)" and "I s"
  let ?Q = "\<lambda>tr (mv :: int) (b :: u8 list) (i :: int) (l :: u16) (n :: u16) s
      (y :: fault + u8 list \<times> int \<times> u16 \<times> u16 \<times> lufa).
    tr = write_byte E \<longrightarrow> I s \<longrightarrow> (\<forall>x. y = Inr x \<longrightarrow> I (snd (snd (snd (snd x)))))"
  have "?Q (write_byte E) mv b i l n s (Inr (b', i', l', n', t))"
  proof (rule fill_packet.raw_induct [where P = ?Q, OF _ a])
    fix f tr mv b i l n s y
    assume IH: "\<And>tr mv b i l n s y. f tr mv b i l n s = Some y \<Longrightarrow> ?Q tr mv b i l n s y"
      and eq: "(if l \<noteq> 0 \<and> n < FIXED_CONTROL_ENDPOINT_SIZE then
        and_then (tr b i s) (\<lambda>(b', s1). f tr mv b' (i + mv) (l - 1) (n + 1) s1)
      else Returns (b, i, l, n, s)) = Some y"
    show "?Q tr mv b i l n s y"
    proof (intro impI)
      assume tr: "tr = write_byte E" and "I s"
      show "\<forall>x. y = Inr x \<longrightarrow> I (snd (snd (snd (snd x))))"
        using eq \<open>I s\<close>
        by (auto simp: tr write_byte_def and_then_Returns endpoint_defs split: if_splits dest!: IH)
    qed
  qed
  with \<open>I s\<close> show ?thesis by simp
qed

lemma k_write [dest!]: "control_w_loop E (write_byte E) mv b i l p s = Returns (e, b', t) \<Longrightarrow> I s \<Longrightarrow> I t"
proof -
  assume a: "control_w_loop E (write_byte E) mv b i l p s = Returns (e, b', t)" and "I s"
  let ?Q = "\<lambda>E' tr (mv :: int) (b :: u8 list) (i :: int) (l :: u16) (p :: bool) s
      (y :: fault + stream_error \<times> u8 list \<times> lufa).
    E' = E \<longrightarrow> tr = write_byte E \<longrightarrow> I s \<longrightarrow> (\<forall>x. y = Inr x \<longrightarrow> I (snd (snd x)))"
  have "?Q E (write_byte E) mv b i l p s (Inr (e, b', t))"
  proof (rule control_w_loop.raw_induct [where P = ?Q, OF _ a])
    fix f E' tr mv buffer i l p s y
    assume IH: "\<And>E' tr mv b i l p s y. f E' tr mv b i l p s = Some y \<Longrightarrow> ?Q E' tr mv b i l p s y"
      and eq: "(if \<not> (l \<noteq> 0 \<or> p) then status_wait E' RXOUTI buffer s
      else case read_state E' s of (d, s1) \<Rightarrow>
        if d = DEVICE_STATE_Unattached then Returns (DeviceDisconnected, buffer, s1)
        else if d = DEVICE_STATE_Suspended then Returns (BusSuspended, buffer, s1)
        else case Endpoint_IsSETUPReceived E' s1 of (setup, s2) \<Rightarrow>
          if setup then Returns (HostAborted, buffer, s2)
          else case Endpoint_IsOUTReceived E' s2 of (out, s3) \<Rightarrow>
            if out then status_wait E' RXOUTI buffer s3
            else case Endpoint_IsINReady E' s3 of (ready, s4) \<Rightarrow>
              if ready then
                case Endpoint_BytesInEndpoint E' s4 of (n, s5) \<Rightarrow>
                  and_then (fill_packet tr mv buffer i l n s5) (\<lambda>(buffer', i', l, n', s6).
                    f E' tr mv buffer' i' l (n' = FIXED_CONTROL_ENDPOINT_SIZE) (Endpoint_ClearIN E' s6))
              else f E' tr mv buffer i l p s4) = Some y"
    show "?Q E' tr mv buffer i l p s y"
    proof (intro impI)
      assume e: "E' = E" "tr = write_byte E" and "I s"
      show "\<forall>x. y = Inr x \<longrightarrow> I (snd (snd x))"
        using eq \<open>I s\<close>
        by (auto simp: e and_then_Returns case_prod_beta endpoint_defs split: if_splits dest!: IH k_fill)
    qed
  qed
  with \<open>I s\<close> show ?thesis by simp
qed

subsubsection \<open>Functions\<close>

lemma k_configure [dest!]: "Endpoint_ConfigureEndpoint E n T d sz bk s = Returns (b, t) \<Longrightarrow> I s \<Longrightarrow> I t"
  by (auto simp: Endpoint_ConfigureEndpoint_def and_then_Returns endpoint_defs dest!: k_pairs)

lemma k_control [dest!]: "configure_control E s = Returns t \<Longrightarrow> I s \<Longrightarrow> I t"
  by (auto simp: configure_control_def and_then_Returns)

lemma k_status_stage [dest!]: "Endpoint_ClearStatusStage E s = Returns t \<Longrightarrow> I s \<Longrightarrow> I t"
  by (auto simp: Endpoint_ClearStatusStage_def and_then_Returns endpoint_defs split: if_splits)

lemma k_int [simp, intro]: "I s \<Longrightarrow> I (USB_INT_Enable E i s)" "I s \<Longrightarrow> I (USB_INT_Disable E i s)"
    "I s \<Longrightarrow> I (USB_INT_Clear E i s)" "I s \<Longrightarrow> I (snd (int_pending E i s))"
  by (auto simp: USB_INT_Enable_def USB_INT_Disable_def USB_INT_Clear_def int_pending_def
      USB_INT_HasOccurred_def USB_INT_IsEnabled_def case_prod_beta)

lemmas controller_defs = USB_PLL_On_def USB_PLL_Off_def USB_CLK_Freeze_def USB_CLK_Unfreeze_def
  USB_VBUS_GetStatus_def USB_Device_SetFullSpeed_def USB_Attach_def USB_Controller_Reset_def
  USB_INT_ClearAllInterrupts_def USB_INT_DisableAllInterrupts_def USB_OTGPAD_On_def USB_REG_On_def
  USB_Device_SetDeviceAddress_def USB_Device_IsAddressSet_def

lemma k_pll [dest!]: "pll_start E s = Returns t \<Longrightarrow> I s \<Longrightarrow> I t"
  by (auto simp: pll_start_def and_then_Returns controller_defs)

lemma k_configured [simp, intro]: "I s \<Longrightarrow> I (configured_state E s)"
  by (auto simp: configured_state_def Let_def case_prod_beta controller_defs)

lemma k_init_device [dest!]: "USB_Init_Device E s = Returns t \<Longrightarrow> I s \<Longrightarrow> I t"
proof -
  assume a: "USB_Init_Device E s = Returns t" and "I s"
  have "I ((gap E s)\<lparr>USB_DeviceState := DEVICE_STATE_Unattached, USB_Device_ConfigurationNumber := 0,
      USB_Device_RemoteWakeupEnabled := False, USB_Device_CurrentlySelfPowered := False\<rparr>)"
    using \<open>I s\<close> by (intro power wakeup number state) auto
  then show ?thesis
    using a by (auto simp: USB_Init_Device_def and_then_Returns Let_def controller_defs)
qed

lemma k_usb_init: "USB_Init E s = Returns t \<Longrightarrow> I s \<Longrightarrow> I t"
  by (auto simp: USB_Init_def USB_ResetInterface_def and_then_Returns controller_defs)

lemma k_vbus [dest!]: "isr_vbus E s = Returns t \<Longrightarrow> I s \<Longrightarrow> I t"
  by (auto simp: isr_vbus_def and_then_Returns case_prod_beta controller_defs split: if_splits)

lemma k_wakeup [dest!]: "isr_wakeup E s = Returns t \<Longrightarrow> I s \<Longrightarrow> I t"
  by (auto simp: isr_wakeup_def and_then_Returns case_prod_beta controller_defs split: if_splits)

lemma k_reset [dest!]: "isr_reset E s = Returns t \<Longrightarrow> I s \<Longrightarrow> I t"
  by (auto simp: isr_reset_def Let_def case_prod_beta number state split: if_splits)

lemma k_sof [simp, intro]: "I s \<Longrightarrow> I (isr_sof E s)"
  by (simp add: isr_sof_def case_prod_beta)

lemma k_suspend [simp, intro]: "I s \<Longrightarrow> I (isr_suspend E s)"
  by (auto simp: isr_suspend_def case_prod_beta controller_defs)

lemma k_isr: "GEN_vect E s = Returns t \<Longrightarrow> I s \<Longrightarrow> I t"
  by (auto simp: GEN_vect_def and_then_Returns)

subsubsection \<open>Requests\<close>

lemma k_configure_loop [dest!]: "configure_loop E C n k s = Returns (b, t) \<Longrightarrow> I s \<Longrightarrow> I t"
  by (induction k arbitrary: n s) (auto simp: and_then_Returns split: option.splits if_splits)

lemma k_cdc_configure [dest!]: "EVENT_USB_Device_ConfigurationChanged E s = Returns t \<Longrightarrow> I s \<Longrightarrow> I t"
  by (auto simp: EVENT_USB_Device_ConfigurationChanged_def CDC_Device_ConfigureEndpoints_def and_then_Returns)

lemma k_get_encoding [dest!]: "get_line_encoding E s = Returns t \<Longrightarrow> I s \<Longrightarrow> I t"
  by (auto simp: get_line_encoding_def and_then_Returns endpoint_defs Let_def)

lemma k_set_encoding [dest!]: "set_line_encoding E s = Returns t \<Longrightarrow> I s \<Longrightarrow> I t"
  by (auto simp: set_line_encoding_def and_then_Returns case_prod_beta endpoint_defs Let_def)

lemma k_line_state [dest!]: "set_control_line_state E s = Returns t \<Longrightarrow> I s \<Longrightarrow> I t"
  by (auto simp: set_control_line_state_def and_then_Returns endpoint_defs)

lemma k_cdc_request [dest!]: "EVENT_USB_Device_ControlRequest E s = Returns t \<Longrightarrow> I s \<Longrightarrow> I t"
  by (auto simp: EVENT_USB_Device_ControlRequest_def CDC_Device_ProcessControlRequest_def case_prod_beta
      endpoint_defs Let_def split: if_splits)

lemma k_address [dest!]: "USB_Device_SetAddress E s = Returns t \<Longrightarrow> I s \<Longrightarrow> I t"
  by (auto simp: USB_Device_SetAddress_def and_then_Returns case_prod_beta endpoint_defs controller_defs Let_def)

lemma k_set_configuration [dest!]: "USB_Device_SetConfiguration E (firmware_app E sig) s = Returns t \<Longrightarrow> I s \<Longrightarrow> I t"
  by (auto simp: USB_Device_SetConfiguration_def and_then_Returns endpoint_defs Let_def
      number not_less split: if_splits)

lemma k_get_configuration [dest!]: "USB_Device_GetConfiguration E s = Returns t \<Longrightarrow> I s \<Longrightarrow> I t"
  by (auto simp: USB_Device_GetConfiguration_def endpoint_defs Let_def)

lemma k_get_descriptor [dest!]: "USB_Device_GetDescriptor E (firmware_app E sig) s = Returns t \<Longrightarrow> I s \<Longrightarrow> I t"
  by (auto simp: USB_Device_GetDescriptor_def USB_Device_GetInternalSerialDescriptor_def
      Endpoint_Write_Control_Stream_LE_def Endpoint_Write_Control_PStream_LE_def template_control_w_def
      and_then_Returns endpoint_defs Let_def case_prod_beta split: if_splits)

lemma k_send_status [dest!]: "send_status E v s = Returns t \<Longrightarrow> I s \<Longrightarrow> I t"
  by (auto simp: send_status_def endpoint_defs)

lemma k_get_status [dest!]: "USB_Device_GetStatus E s = Returns t \<Longrightarrow> I s \<Longrightarrow> I t"
  by (auto simp: USB_Device_GetStatus_def endpoint_defs case_prod_beta Let_def split: if_splits)

lemma k_halt [simp, intro]: "I s \<Longrightarrow> I (halt_feature E i b s)"
  by (auto simp: halt_feature_def endpoint_defs case_prod_beta)

lemma k_feature [dest!]: "USB_Device_ClearSetFeature E s = Returns t \<Longrightarrow> I s \<Longrightarrow> I t"
  by (auto simp: USB_Device_ClearSetFeature_def feature_done_def endpoint_defs Let_def split: if_splits)

lemma k_standard [dest!]: "standard_request E (firmware_app E sig) s = Returns t \<Longrightarrow> I s \<Longrightarrow> I t"
  by (auto simp: standard_request_def Let_def split: if_splits)

lemma k_process [dest!]: "USB_Device_ProcessControlRequest E (firmware_app E sig) s = Returns t \<Longrightarrow> I s \<Longrightarrow> I t"
  by (auto simp: USB_Device_ProcessControlRequest_def and_then_Returns case_prod_beta
      endpoint_defs split: if_splits)

lemma k_task: "USB_USBTask E (firmware_app E sig) s = Returns t \<Longrightarrow> I s \<Longrightarrow> I t"
  by (auto simp: USB_USBTask_def USB_DeviceTask_def and_then_Returns case_prod_beta endpoint_defs split: if_splits)

subsubsection \<open>Data\<close>

lemma k_open [simp, intro]: "I s \<Longrightarrow> I (snd (cdc_open E s))"
  by (simp add: cdc_open_def case_prod_beta)

lemma k_ready_wait [dest!]: "Endpoint_WaitUntilReady E s = Returns (e, t) \<Longrightarrow> I s \<Longrightarrow> I t"
  by (auto simp: Endpoint_WaitUntilReady_def case_prod_beta endpoint_defs)

lemma k_flush [dest!]: "CDC_Device_Flush E C s = Returns (e, t) \<Longrightarrow> I s \<Longrightarrow> I t"
  by (auto simp: CDC_Device_Flush_def and_then_Returns case_prod_beta endpoint_defs Let_def split: if_splits)

lemma k_cdc_task: "CDC_Device_USBTask E C s = Returns t \<Longrightarrow> I s \<Longrightarrow> I t"
  by (auto simp: CDC_Device_USBTask_def and_then_Returns case_prod_beta split: if_splits)

lemma k_putchar: "CDC_Device_putchar E C c s = Returns (r, t) \<Longrightarrow> I s \<Longrightarrow> I t"
  by (auto simp: CDC_Device_putchar_def CDC_Device_SendByte_def and_then_Returns case_prod_beta endpoint_defs
      split: if_splits)

lemma k_bytes [simp]: "I s \<Longrightarrow> I (snd (Endpoint_BytesInEndpoint E s))"
  by (simp add: Endpoint_BytesInEndpoint_def case_prod_beta)

lemma k_receive: "I s \<Longrightarrow> I (snd (CDC_Device_ReceiveByte E C s))"
  by (simp add: CDC_Device_ReceiveByte_def case_prod_beta Endpoint_IsOUTReceived_def Endpoint_SelectEndpoint_def
      Endpoint_Read_8_def Endpoint_ClearOUT_def)

lemma k_getchar: "CDC_Device_getchar E C s = Returns (r, t) \<Longrightarrow> I s \<Longrightarrow> I t"
  using k_receive [of s C] by (auto simp: CDC_Device_getchar_def case_prod_beta)

end

subsection \<open>The states the firmware can reach\<close>

text \<open>
  The whole stack over an arbitrary controller: the interrupt that may come before an access is its
  own handler (left out where it would wait forever for the PLL).
\<close>

definition stack_world :: "(access list \<Rightarrow> usb_reg \<Rightarrow> u8) \<Rightarrow> lufa_env" where
  "stack_world h = \<lparr>hw = h, irq = \<lambda>s. case GEN_vect \<lparr>hw = h, irq = id\<rparr> s of Some (Inr t) \<Rightarrow> t | _ \<Rightarrow> s\<rparr>"

lemma hw_stack_world [simp]: "hw (stack_world h) = h"
  by (simp add: stack_world_def)

text \<open>The calls of the main program into the stack, and the interrupt between two of them.\<close>

inductive reachable :: "(access list \<Rightarrow> usb_reg \<Rightarrow> u8) \<Rightarrow> (u8 \<Rightarrow> u8) \<Rightarrow> lufa \<Rightarrow> bool"
  for h :: "access list \<Rightarrow> usb_reg \<Rightarrow> u8" and sig :: "u8 \<Rightarrow> u8" where
  start: "reachable h sig s"
    if "USB_Init (stack_world h) (lufa_zero\<lparr>USB_DeviceState := d, USB_IsInitialized := False\<rparr>) = Returns s"
| interrupt: "reachable h sig t" if "reachable h sig s" "GEN_vect (stack_world h) s = Returns t"
| task: "reachable h sig t" if "reachable h sig s"
    "USB_USBTask (stack_world h) (firmware_app (stack_world h) sig) s = Returns t"
| cdc_task: "reachable h sig t" if "reachable h sig s"
    "CDC_Device_USBTask (stack_world h) VirtualSerial_CDC_Interface s = Returns t"
| put: "reachable h sig t" if "reachable h sig s"
    "CDC_Device_putchar (stack_world h) VirtualSerial_CDC_Interface c s = Returns (r, t)"
| get: "reachable h sig t" if "reachable h sig s"
    "CDC_Device_getchar (stack_world h) VirtualSerial_CDC_Interface s = Returns (r, t)"

definition well_typed :: "lufa \<Rightarrow> bool" where
  "well_typed s \<longleftrightarrow> USB_Device_ConfigurationNumber s \<le> FIXED_NUM_CONFIGURATIONS \<and>
     \<not> USB_Device_CurrentlySelfPowered s"

interpretation masked: stack_property "\<lparr>hw = h, irq = id\<rparr>" well_typed for h
  by unfold_locales (simp_all add: well_typed_def)

interpretation stack: stack_property "stack_world h" well_typed for h
  by unfold_locales
    (auto simp: well_typed_def stack_world_def split: option.splits sum.splits dest!: masked.k_isr)

lemma reachable_well_typed: "reachable h sig s \<Longrightarrow> well_typed s"
proof (induction rule: reachable.induct)
  case (start d s)
  then show ?case
    by (rule stack.k_usb_init) (simp add: well_typed_def lufa_zero_def)
qed (blast dest: stack.k_isr stack.k_task stack.k_cdc_task stack.k_putchar stack.k_getchar)+

text \<open>
  C29: In every state the firmware reaches, whatever the controller answers and whenever its
  interrupt comes, the configuration number is one that exists and the device counts as powered by
  the bus: \<^verbatim>\<open>GET_STATUS\<close> never reports the own supply that the configuration descriptor announces.
\<close>

theorem stack_well_typed:
  assumes "reachable h sig s"
  shows "USB_Device_ConfigurationNumber s \<le> NumberOfConfigurations DeviceDescriptor \<and>
    \<not> USB_Device_CurrentlySelfPowered s \<and> bit (ConfigAttributes (Config ConfigurationDescriptor)) 6"
  using reachable_well_typed [OF assms]
  by (simp add: well_typed_def DeviceDescriptor_def FIXED_NUM_CONFIGURATIONS_def ConfigurationDescriptor_def)

theorem stack_well_typed_witness:
  "\<exists>s. reachable (\<lambda>_ _. 0) (\<lambda>_. 0) s \<and> USB_Device_ConfigurationNumber s \<le> NumberOfConfigurations DeviceDescriptor \<and>
    \<not> USB_Device_CurrentlySelfPowered s \<and> bit (ConfigAttributes (Config ConfigurationDescriptor)) 6"
proof -
  have "\<exists>s. USB_Init (stack_world (\<lambda>_ _. 0)) (lufa_zero\<lparr>USB_DeviceState := DEVICE_STATE_Powered, USB_IsInitialized := False\<rparr>) =
      Returns s"
    by (simp add: USB_Init_def USB_ResetInterface_def USB_Init_Device_def configure_control_def
        Endpoint_ConfigureEndpoint_def size_masks Endpoint_ConfigureEndpoint_Prv_def endpoint_ops
        USB_PLL_Off_def USB_CLK_Unfreeze_def USB_Device_SetFullSpeed_def USB_Attach_def USB_Controller_Reset_def
        USB_INT_ClearAllInterrupts_def USB_INT_DisableAllInterrupts_def USB_OTGPAD_On_def USB_REG_On_def
        USB_INT_Enable_def USB_INT_Clear_def lufa_zero_def gap_def Let_def)
  then obtain s where "reachable (\<lambda>_ _. 0) (\<lambda>_. 0) s"
    using reachable.start by blast
  with stack_well_typed [OF this] show ?thesis by blast
qed

subsection \<open>Deselecting the configuration\<close>

text \<open>
  The host takes a device back to the addressed state with configuration number 0; this device
  then counts as configured all the same.
\<close>

lemma set_configuration_zero:
  assumes "\<not> ien s" "\<And>l. bit (hw E l UESTA0X) CFGOK" "\<And>l. bit (hw E l UDADDR) 7" "\<And>l. bit (hw E l UEINTX) TXINI"
    and "bmRequestType (USB_ControlRequest s) = 0" "wValue (USB_ControlRequest s) = 0"
  shows "\<exists>t. USB_Device_SetConfiguration E (firmware_app E sig) s = Returns t \<and>
    USB_DeviceState t = DEVICE_STATE_Configured \<and> USB_Device_ConfigurationNumber t = 0"
proof -
  define s1 where "s1 = (Endpoint_ClearSETUP E s)\<lparr>USB_Device_ConfigurationNumber := 0\<rparr>"
  define s2 where "s2 = Endpoint_ClearIN E (s1\<lparr>io_log := Rd UEINTX (hw E (io_log s1) UEINTX) # io_log s1\<rparr>)"
  have m: "\<not> ien s1" "\<not> ien s2" "USB_Device_ConfigurationNumber s2 = 0" "USB_ControlRequest s1 = USB_ControlRequest s"
    using assms(1) by (simp_all add: s1_def s2_def endpoint_ops)
  have "wait_attached E TXINI s1 = Returns (True, s1\<lparr>io_log := Rd UEINTX (hw E (io_log s1) UEINTX) # io_log s1\<rparr>)"
    using m(1) assms(4) by (subst wait_attached.simps) simp
  then have "Endpoint_ClearStatusStage E s1 = Returns s2"
    using assms(5) m(4) by (simp add: Endpoint_ClearStatusStage_def s2_def)
  then have run: "USB_Device_SetConfiguration E (firmware_app E sig) s =
      EVENT_USB_Device_ConfigurationChanged E (configured_state E s2)"
    using assms(1,6) by (simp add: USB_Device_SetConfiguration_def gap_def s1_def endpoint_ops Let_def)
  have c: "\<not> ien (configured_state E s2)" "USB_DeviceState (configured_state E s2) = DEVICE_STATE_Configured"
      "USB_Device_ConfigurationNumber (configured_state E s2) = 0"
    using m assms(3) by (simp_all add: configured_state_def gap_def USB_Device_IsAddressSet_def)
  show ?thesis
    using configure_masked [OF c(1) assms(2)] c unfolding run EVENT_USB_Device_ConfigurationChanged_def by auto
qed

end
