(* ===== verification/UsbLine.thy ===== *)
theory UsbLine
  imports FirmwareClaims LufaStack
begin

text \<open>
  The firmware on its USB line: what \<^verbatim>\<open>fgetc\<close> and \<^verbatim>\<open>fputc\<close> on the CDC stream make of the packets
  of the two bulk endpoints, with the interrupts of the stack on, and the command loop on top.
\<close>

unbundle bit_operations_syntax

subsection \<open>The bulk endpoints\<close>

text \<open>
  What the controller makes of the accesses: the packets of the host that are still to be read from
  the receive endpoint, the first of them partly read, and the packets sent on an endpoint with the
  bytes of the next one.
\<close>

fun waiting :: "u8 list list \<Rightarrow> access list \<Rightarrow> u8 list list" where
  "waiting ps [] = ps"
| "waiting ps (Rd UEDATX v # l) =
     (if selected l = CDC_RX_EPNUM then (case waiting ps l of [] \<Rightarrow> [] | p # qs \<Rightarrow> tl p # qs) else waiting ps l)"
| "waiting ps (Wr UEINTX v # l) =
     (if selected l = CDC_RX_EPNUM \<and> \<not> bit v RXOUTI then tl (waiting ps l) else waiting ps l)"
| "waiting ps (_ # l) = waiting ps l"

fun sent_on :: "u8 \<Rightarrow> access list \<Rightarrow> u8 list list \<times> u8 list" where
  "sent_on e [] = ([], [])"
| "sent_on e (Wr UEDATX b # l) =
     (case sent_on e l of (ps, bs) \<Rightarrow> if selected l = e then (ps, bs @ [b]) else (ps, bs))"
| "sent_on e (Wr UEINTX v # l) =
     (case sent_on e l of (ps, bs) \<Rightarrow> if selected l = e \<and> \<not> bit v TXINI then (ps @ [bs], []) else (ps, bs))"
| "sent_on e (_ # l) = sent_on e l"

lemma sent_on_fed: "concat (fst (sent_on e l)) @ snd (sent_on e l) = fed e l"
  by (induction e l rule: sent_on.induct) (auto split: prod.splits)

lemma short_length:
  assumes "length p \<le> 16"
  shows "(of_nat (length p) :: u16) = 0 \<longleftrightarrow> p = []"
proof -
  have "(of_nat (length p) :: u16) = 0 \<longleftrightarrow> 65536 dvd length p"
    by (simp add: word_of_nat_eq_0_iff)
  also have "\<dots> \<longleftrightarrow> length p = 0"
    using assms dvd_imp_le [of 65536 "length p"] by auto
  finally show ?thesis by simp
qed

lemma in_set_tl: "x \<in> set (tl xs) \<Longrightarrow> x \<in> set xs"
  by (cases xs) auto

lemma waiting_small:
  "p \<in> set (waiting ps l) \<Longrightarrow> \<forall>p \<in> set ps. length p \<le> n \<Longrightarrow> length p \<le> n"
proof (induction ps l arbitrary: p rule: waiting.induct)
  case (2 ps v l)
  then show ?case by (cases "waiting ps l") (fastforce split: if_splits intro: order_trans [OF diff_le_self])+
next
  case (3 ps v l)
  then show ?case by (auto split: if_splits dest: in_set_tl)
qed auto

lemma clear_out_bit [simp]: "\<not> bit (v AND - 133 :: u8) 2"
  by (simp add: bit_and_iff)

text \<open>The accesses that touch neither the selection nor the data nor the flags of an endpoint.\<close>

fun harmless :: "access \<Rightarrow> bool" where
  "harmless (Rd r v) = (r \<noteq> UEDATX)"
| "harmless (Wr r v) = (r \<noteq> UENUM \<and> r \<noteq> UEDATX \<and> r \<noteq> UEINTX)"

lemma harmless_views:
  assumes "harmless a"
  shows "selected (a # l) = selected l" "waiting ps (a # l) = waiting ps l" "sent_on e (a # l) = sent_on e l"
    "fed e (a # l) = fed e l"
  using assms by (cases a; cases "case a of Rd r v \<Rightarrow> r | Wr r v \<Rightarrow> r"; simp)+

lemma harmless_append:
  "list_all harmless k \<Longrightarrow> selected (k @ l) = selected l \<and> waiting ps (k @ l) = waiting ps l \<and>
    sent_on e (k @ l) = sent_on e l \<and> fed e (k @ l) = fed e l"
  by (induction k) (simp_all add: harmless_views del: selected.simps waiting.simps sent_on.simps fed.simps)

definition calm :: "lufa \<Rightarrow> lufa \<Rightarrow> bool" where
  "calm s t \<longleftrightarrow> ien t = ien s \<and> (\<exists>k. list_all harmless k \<and> io_log t = k @ io_log s)"

lemma calm_refl [simp, intro]: "calm s s"
  by (auto simp: calm_def intro: exI [of _ "[]"])

lemma calm_trans [trans]: "calm s t \<Longrightarrow> calm t u \<Longrightarrow> calm s u"
  by (force simp: calm_def)

lemma calm_views:
  assumes "calm s t"
  shows "selected (io_log t) = selected (io_log s)" "waiting ps (io_log t) = waiting ps (io_log s)"
    "sent_on e (io_log t) = sent_on e (io_log s)" "fed e (io_log t) = fed e (io_log s)" "ien t = ien s"
  using assms by (auto simp: calm_def harmless_append)

lemma calm_log: "harmless a \<Longrightarrow> calm s (s\<lparr>io_log := a # io_log s\<rparr>)"
  by (auto simp: calm_def intro: exI [of _ "[a]"])

subsection \<open>A line without bus events\<close>

text \<open>While no bus event is pending the interrupts of the stack leave the bulk endpoints alone.\<close>

locale quiet_line =
  fixes E :: lufa_env
  assumes quiet: "ien s \<Longrightarrow> calm s (irq E s)"
begin

lemma calm_gap [simp, intro]: "calm u s \<Longrightarrow> calm u (gap E s)"
  by (cases "ien s") (auto simp: gap_def dest: quiet intro: calm_trans)

lemma calm_rd [simp, intro]: "calm u s \<Longrightarrow> r \<noteq> UEDATX \<Longrightarrow> calm u (snd (rd E r s))"
  by (auto simp: rd_def Let_def intro!: calm_trans [OF calm_gap calm_log])

lemma calm_test [simp, intro]: "calm u s \<Longrightarrow> r \<noteq> UEDATX \<Longrightarrow> calm u (snd (test_reg E r n s))"
  by (simp add: test_reg_def case_prod_beta)

lemma calm_state [simp, intro]: "calm u s \<Longrightarrow> calm u (snd (read_state E s))"
  by (simp add: read_state_def Let_def)

lemma calm_frame [simp, intro]: "calm u s \<Longrightarrow> calm u (snd (USB_Device_GetFrameNumber E s))"
  by (simp add: USB_Device_GetFrameNumber_def case_prod_beta)

lemma calm_direction [simp, intro]: "calm u s \<Longrightarrow> calm u (snd (Endpoint_GetEndpointDirection E s))"
  by (simp add: Endpoint_GetEndpointDirection_def case_prod_beta)

lemma calm_bytes [simp, intro]: "calm u s \<Longrightarrow> calm u (snd (Endpoint_BytesInEndpoint E s))"
  by (simp add: Endpoint_BytesInEndpoint_def case_prod_beta)

lemma calm_flags [simp, intro]:
  "calm u s \<Longrightarrow> calm u (snd (Endpoint_IsINReady E s))" "calm u s \<Longrightarrow> calm u (snd (Endpoint_IsOUTReceived E s))"
  "calm u s \<Longrightarrow> calm u (snd (Endpoint_IsStalled E s))" "calm u s \<Longrightarrow> calm u (snd (Endpoint_IsReadWriteAllowed E s))"
  by (simp_all add: Endpoint_IsINReady_def Endpoint_IsOUTReceived_def Endpoint_IsStalled_def
      Endpoint_IsReadWriteAllowed_def)

lemma calm_ready: "ready_loop E n f s = Returns (e, t) \<Longrightarrow> calm u s \<Longrightarrow> calm u t"
proof -
  assume a: "ready_loop E n f s = Returns (e, t)" and "calm u s"
  let ?Q = "\<lambda>(E' :: lufa_env) (n :: u8) (f :: u16) s (y :: fault + stream_error \<times> lufa).
    E' = E \<longrightarrow> calm u s \<longrightarrow> (\<forall>x. y = Inr x \<longrightarrow> calm u (snd x))"
  have "?Q E n f s (Inr (e, t))"
  proof (rule ready_loop.raw_induct [where P = ?Q, OF _ a])
    fix g and E' :: lufa_env and n f s y
    assume IH: "\<And>E' n f s y. g E' n f s = Some y \<Longrightarrow> ?Q E' n f s y"
      and eq: "(case Endpoint_GetEndpointDirection E' s of (d, s1) \<Rightarrow>
        case (if d = ENDPOINT_DIR_IN then Endpoint_IsINReady E' s1 else Endpoint_IsOUTReceived E' s1) of (ready, s2) \<Rightarrow>
          if ready then Returns (NoError, s2)
          else case read_state E' s2 of (ds, s3) \<Rightarrow>
            if ds = DEVICE_STATE_Unattached then Returns (DeviceDisconnected, s3)
            else if ds = DEVICE_STATE_Suspended then Returns (BusSuspended, s3)
            else case Endpoint_IsStalled E' s3 of (st, s4) \<Rightarrow>
              if st then Returns (EndpointStalled, s4)
              else case USB_Device_GetFrameNumber E' s4 of (fr, s5) \<Rightarrow>
                if fr \<noteq> f then if n = 0 then Returns (Timeout, s5) else g E' (n - 1) fr s5
                else g E' n f s5) = Some y"
    show "?Q E' n f s y"
      using eq by (auto simp: case_prod_beta split: if_splits dest!: IH)
  qed
  with \<open>calm u s\<close> show ?thesis by simp
qed

lemma calm_wait_ready: "Endpoint_WaitUntilReady E s = Returns (e, t) \<Longrightarrow> calm u s \<Longrightarrow> calm u t"
  by (auto simp: Endpoint_WaitUntilReady_def case_prod_beta intro: calm_ready [OF _ calm_frame])

text \<open>What the accesses that matter do.\<close>

lemma gap_views [simp]:
  "selected (io_log (gap E s)) = selected (io_log s)" "waiting ps (io_log (gap E s)) = waiting ps (io_log s)"
  "sent_on e (io_log (gap E s)) = sent_on e (io_log s)" "fed e (io_log (gap E s)) = fed e (io_log s)"
  "ien (gap E s) = ien s"
  by (rule calm_views [OF calm_gap [OF calm_refl]])+

lemma select_views [simp]:
  fixes s :: lufa
  shows "selected (io_log (Endpoint_SelectEndpoint E n s)) = n"
    "waiting ps (io_log (Endpoint_SelectEndpoint E n s)) = waiting ps (io_log s)"
    "sent_on e (io_log (Endpoint_SelectEndpoint E n s)) = sent_on e (io_log s)"
    "fed e (io_log (Endpoint_SelectEndpoint E n s)) = fed e (io_log s)"
    "ien (Endpoint_SelectEndpoint E n s) = ien s"
  by (simp_all add: Endpoint_SelectEndpoint_def wr_def Let_def)

lemma write_views [simp]:
  fixes s :: lufa
  shows "selected (io_log (Endpoint_Write_8 E b s)) = selected (io_log s)"
    "waiting ps (io_log (Endpoint_Write_8 E b s)) = waiting ps (io_log s)"
    "fed e (io_log (Endpoint_Write_8 E b s)) =
      (if selected (io_log s) = e then fed e (io_log s) @ [b] else fed e (io_log s))"
    "sent_on e (io_log (Endpoint_Write_8 E b s)) =
      (if selected (io_log s) = e then (fst (sent_on e (io_log s)), snd (sent_on e (io_log s)) @ [b])
       else sent_on e (io_log s))"
    "ien (Endpoint_Write_8 E b s) = ien s"
  by (simp_all add: Endpoint_Write_8_def wr_def Let_def split: prod.splits)

lemma clear_in_views [simp]:
  fixes s :: lufa
  shows "selected (io_log (Endpoint_ClearIN E s)) = selected (io_log s)"
    "selected (io_log s) \<noteq> CDC_RX_EPNUM \<Longrightarrow> waiting ps (io_log (Endpoint_ClearIN E s)) = waiting ps (io_log s)"
    "fed e (io_log (Endpoint_ClearIN E s)) = fed e (io_log s)"
    "sent_on e (io_log (Endpoint_ClearIN E s)) =
      (if selected (io_log s) = e then (fst (sent_on e (io_log s)) @ [snd (sent_on e (io_log s))], [])
       else sent_on e (io_log s))"
    "ien (Endpoint_ClearIN E s) = ien s"
proof -
  obtain v u where rd: "rd E UEINTX s = (v, u)" by (cases "rd E UEINTX s")
  then have u: "calm s u" using calm_rd [of s s UEINTX] by simp
  have t: "Endpoint_ClearIN E s =
      (gap E u)\<lparr>io_log := Wr UEINTX (v AND NOT (push_bit TXINI 1 OR push_bit FIFOCON 1)) # io_log (gap E u)\<rparr>"
    by (simp add: Endpoint_ClearIN_def rmw_def rd wr_def Let_def)
  show "selected (io_log (Endpoint_ClearIN E s)) = selected (io_log s)"
    "selected (io_log s) \<noteq> CDC_RX_EPNUM \<Longrightarrow> waiting ps (io_log (Endpoint_ClearIN E s)) = waiting ps (io_log s)"
    "fed e (io_log (Endpoint_ClearIN E s)) = fed e (io_log s)"
    "sent_on e (io_log (Endpoint_ClearIN E s)) =
      (if selected (io_log s) = e then (fst (sent_on e (io_log s)) @ [snd (sent_on e (io_log s))], [])
       else sent_on e (io_log s))"
    "ien (Endpoint_ClearIN E s) = ien s"
    by (simp_all add: t calm_views [OF u] split: prod.splits)
qed

subsubsection \<open>Output\<close>

text \<open>Whatever the controller answers, a character is stored for the host exactly when 0 is returned.\<close>

lemma putchar_feeds:
  assumes "CDC_Device_putchar E C c s = Returns (r, t)"
  shows "fed e (io_log t) = (if e = DataINEndpointNumber C \<and> r = 0 then fed e (io_log s) @ [c] else fed e (io_log s))"
    and "ien t = ien s"
proof -
  have st: "fed e (io_log (snd (cdc_open E s))) = fed e (io_log s)" "ien (snd (cdc_open E s)) = ien s" for e
    by (simp_all add: cdc_open_def case_prod_beta calm_views [OF calm_state [OF calm_refl]])
  define s1 where "s1 = Endpoint_SelectEndpoint E (DataINEndpointNumber C) (snd (cdc_open E s))"
  define s2 where "s2 = snd (Endpoint_IsReadWriteAllowed E s1)"
  have "calm s1 s2" by (simp add: s2_def)
  then have s2: "selected (io_log s2) = DataINEndpointNumber C" "fed e (io_log s2) = fed e (io_log s)" "ien s2 = ien s" for e
    using st by (simp_all add: calm_views s1_def)
  have "t = snd (cdc_open E s) \<and> r = -1 \<or> t = Endpoint_Write_8 E c s2 \<and> r = 0 \<or>
      (\<exists>x s3. Endpoint_WaitUntilReady E (Endpoint_ClearIN E s2) = Returns (x, s3) \<and>
        (if x \<noteq> NoError then t = s3 \<and> r = -1 else t = Endpoint_Write_8 E c s3 \<and> r = 0))"
    using assms
    by (auto simp: CDC_Device_putchar_def CDC_Device_SendByte_def and_then_Returns case_prod_beta
        s1_def [symmetric] s2_def [symmetric] split: if_splits)
  then have "(\<forall>e. fed e (io_log t) = (if e = DataINEndpointNumber C \<and> r = 0 then fed e (io_log s) @ [c] else fed e (io_log s)))
      \<and> ien t = ien s"
  proof (elim disjE exE conjE)
    fix x s3
    assume w: "Endpoint_WaitUntilReady E (Endpoint_ClearIN E s2) = Returns (x, s3)"
      and t: "if x \<noteq> NoError then t = s3 \<and> r = -1 else t = Endpoint_Write_8 E c s3 \<and> r = 0"
    have "calm (Endpoint_ClearIN E s2) s3" using calm_wait_ready [OF w] by blast
    with t s2 show ?thesis by (cases "x = NoError") (simp_all add: calm_views)
  qed (use st s2 in simp_all)
  then show "fed e (io_log t) = (if e = DataINEndpointNumber C \<and> r = 0 then fed e (io_log s) @ [c] else fed e (io_log s))"
    "ien t = ien s" by simp_all
qed

lemma clear_out_views:
  fixes s :: lufa
  assumes "selected (io_log s) = CDC_RX_EPNUM"
  shows "waiting ps (io_log (Endpoint_ClearOUT E s)) = tl (waiting ps (io_log s))"
    and "ien (Endpoint_ClearOUT E s) = ien s" and "fed e (io_log (Endpoint_ClearOUT E s)) = fed e (io_log s)"
    and "e \<noteq> CDC_RX_EPNUM \<Longrightarrow> sent_on e (io_log (Endpoint_ClearOUT E s)) = sent_on e (io_log s)"
proof -
  obtain v u where rd: "rd E UEINTX s = (v, u)" by (cases "rd E UEINTX s")
  then have u: "calm s u" using calm_rd [of s s UEINTX] by simp
  have "Endpoint_ClearOUT E s =
      (gap E u)\<lparr>io_log := Wr UEINTX (v AND NOT (push_bit RXOUTI 1 OR push_bit FIFOCON 1)) # io_log (gap E u)\<rparr>"
    by (simp add: Endpoint_ClearOUT_def rmw_def rd wr_def Let_def)
  then show "waiting ps (io_log (Endpoint_ClearOUT E s)) = tl (waiting ps (io_log s))"
    "ien (Endpoint_ClearOUT E s) = ien s" "fed e (io_log (Endpoint_ClearOUT E s)) = fed e (io_log s)"
    "e \<noteq> CDC_RX_EPNUM \<Longrightarrow> sent_on e (io_log (Endpoint_ClearOUT E s)) = sent_on e (io_log s)"
    using assms by (simp_all add: calm_views [OF u] split: prod.splits)
qed

end

text \<open>The functions of the CDC stream called for one character after the other.\<close>

fun put_chars :: "lufa_env \<Rightarrow> u8 list \<Rightarrow> lufa \<Rightarrow> (int list \<times> lufa) outcome" where
  "put_chars E [] s = Returns ([], s)"
| "put_chars E (c # cs) s =
     and_then (fput (CDC_Device_CreateStream E VirtualSerial_CDC_Interface) c s) (\<lambda>(r, s1).
     and_then (put_chars E cs s1) (\<lambda>(rs, s2). Returns (r # rs, s2)))"

fun get_chars :: "lufa_env \<Rightarrow> nat \<Rightarrow> lufa \<Rightarrow> (int list \<times> lufa) outcome" where
  "get_chars E 0 s = Returns ([], s)"
| "get_chars E (Suc n) s =
     and_then (fget (CDC_Device_CreateStream E VirtualSerial_CDC_Interface) s) (\<lambda>(c, s1).
     and_then (get_chars E n s1) (\<lambda>(cs, s2). Returns (c # cs, s2)))"

definition accepted :: "u8 list \<Rightarrow> int list \<Rightarrow> u8 list" where
  "accepted cs rs = map fst (filter (\<lambda>(c, r). r = 0) (zip cs rs))"

lemma put_chars_feed:
  assumes "quiet_line E"
  shows "put_chars E cs s = Returns (rs, t) \<Longrightarrow> length rs = length cs \<and> ien t = ien s \<and>
    fed e (io_log t) = fed e (io_log s) @ (if e = CDC_TX_EPNUM then accepted cs rs else [])"
proof (induction cs arbitrary: s rs)
  case (Cons c cs)
  then obtain r s1 rs' where 1: "CDC_Device_putchar E VirtualSerial_CDC_Interface c s = Returns (r, s1)"
    "put_chars E cs s1 = Returns (rs', t)" "rs = r # rs'"
    by (auto simp: and_then_Returns CDC_Device_CreateStream_def)
  note quiet_line.putchar_feeds(1) [OF assms 1(1), of e] quiet_line.putchar_feeds(2) [OF assms 1(1)]
  moreover have "DataINEndpointNumber VirtualSerial_CDC_Interface = CDC_TX_EPNUM"
    by (simp add: VirtualSerial_CDC_Interface_def)
  ultimately show ?case
    using Cons.IH [OF 1(2)] by (auto simp: 1(3) accepted_def)
qed (simp add: accepted_def)

subsubsection \<open>Input\<close>

definition line_open :: "lufa \<Rightarrow> bool" where
  "line_open s \<longleftrightarrow> USB_DeviceState s = DEVICE_STATE_Configured \<and> BaudRateBPS (LineEncoding (CDC_State s)) \<noteq> 0"

lemma open_log [simp]: "line_open (s\<lparr>io_log := l\<rparr>) = line_open s"
  by (simp add: line_open_def)

text \<open>A configured device that no interrupt takes out of this state.\<close>

locale open_line = quiet_line E for E :: lufa_env +
  assumes steady: "ien s \<Longrightarrow> USB_DeviceState (irq E s) = USB_DeviceState s \<and> CDC_State (irq E s) = CDC_State s"
begin

lemma open_gap [simp]: "line_open (gap E s) = line_open s"
  by (simp add: gap_def line_open_def steady)

lemma open_rd [simp]: "line_open (snd (rd E r s)) = line_open s"
  by (simp add: rd_def Let_def)

lemma open_wr [simp]: "line_open (wr E r v s) = line_open s"
  by (simp add: wr_def Let_def)

lemma open_ops [simp]:
  "line_open (snd (test_reg E r n s)) = line_open s" "line_open (rmw E r f s) = line_open s"
  "line_open (snd (read_state E s)) = line_open s"
  by (simp_all add: test_reg_def rmw_def read_state_def case_prod_beta Let_def)

lemma open_cdc: "line_open s \<Longrightarrow> fst (cdc_open E s) \<and> line_open (snd (cdc_open E s))"
  using open_gap [of s] by (simp add: cdc_open_def read_state_def Let_def line_open_def)

end

text \<open>
  A host that sends the packets \<open>ps\<close> in this order. A packet may arrive late: \<open>present\<close> says whether
  the next one is there; once there it stays until it is taken, and the controller shows its bytes.
\<close>

locale receiving_line = open_line E for E :: lufa_env +
  fixes ps :: "u8 list list" and present :: "access list \<Rightarrow> bool"
  assumes small: "p \<in> set ps \<Longrightarrow> length p \<le> 16"
    and received: "selected l = CDC_RX_EPNUM \<Longrightarrow> bit (hw E l UEINTX) RXOUTI = present l"
    and some: "present l \<Longrightarrow> waiting ps l \<noteq> []"
    and stays: "present l \<Longrightarrow> length (waiting ps (a # l)) = length (waiting ps l) \<Longrightarrow> present (a # l)"
    and count: "selected l = CDC_RX_EPNUM \<Longrightarrow> present l \<Longrightarrow>
      hw E l UEBCHX = 0 \<and> hw E l UEBCLX = of_nat (length (hd (waiting ps l)))"
    and data: "selected l = CDC_RX_EPNUM \<Longrightarrow> present l \<Longrightarrow> hd (waiting ps l) \<noteq> [] \<Longrightarrow>
      hw E l UEDATX = hd (hd (waiting ps l))"
begin

lemma present_calm:
  assumes "calm s t" "present (io_log s)"
  shows "present (io_log t)"
proof -
  have "list_all harmless k \<Longrightarrow> present (k @ io_log s)" for k
    using assms(2)
    by (induction k) (auto intro!: stays simp: harmless_views simp del: waiting.simps)
  then show ?thesis using assms(1) by (auto simp: calm_def)
qed

lemma bytes_present:
  assumes "selected (io_log s) = CDC_RX_EPNUM" "present (io_log s)" "waiting ps (io_log s) = p # q"
  shows "fst (Endpoint_BytesInEndpoint E s) = of_nat (length p)"
proof -
  define s1 where "s1 = snd (rd E UEBCHX s)"
  have "calm s (gap E s)" "calm s (gap E s1)" by (simp_all add: s1_def)
  moreover have "calm s s1" by (simp add: s1_def)
  ultimately have "hw E (io_log (gap E s)) UEBCHX = 0" "hw E (io_log (gap E s1)) UEBCLX = of_nat (length p)"
    using assms(1,3) count [of "io_log (gap E s)"] count [of "io_log (gap E s1)"] present_calm [OF _ assms(2)]
    by (simp_all add: calm_views)
  moreover have "length p \<le> 16" using waiting_small [of p ps "io_log s" 16] assms(3) small by simp
  then have "(ucast (of_nat (length p) :: u8) :: u16) = of_nat (length p)"
    by (simp add: unsigned_of_nat take_bit_nat_eq_self)
  ultimately show ?thesis
    by (simp add: Endpoint_BytesInEndpoint_def case_prod_beta s1_def [symmetric])
      (simp add: rd_def Let_def)
qed

text \<open>One character: the next byte of the first packet, or none; a packet read to its end is released.\<close>

lemma receive_byte:
  assumes "line_open s"
  obtains c t where "CDC_Device_ReceiveByte E VirtualSerial_CDC_Interface s = (c, t)" and "line_open t"
    and "sent_on CDC_TX_EPNUM (io_log t) = sent_on CDC_TX_EPNUM (io_log s)"
    and "c = -1 \<and> waiting ps (io_log t) = waiting ps (io_log s) \<and>
        (\<exists>l. waiting ps l = waiting ps (io_log s) \<and> \<not> present l) \<or>
      c = -1 \<and> (\<exists>q. waiting ps (io_log s) = [] # q \<and> waiting ps (io_log t) = q) \<or>
      (\<exists>b p q. c = uint b \<and> waiting ps (io_log s) = (b # p) # q \<and>
        waiting ps (io_log t) = (if p = [] then q else p # q))"
proof -
  define s1 where "s1 = Endpoint_SelectEndpoint E CDC_RX_EPNUM (snd (cdc_open E s))"
  define s2 where "s2 = snd (Endpoint_IsOUTReceived E s1)"
  define s3 where "s3 = snd (Endpoint_BytesInEndpoint E s2)"
  have open1: "fst (cdc_open E s)" "line_open s1" "line_open s2" "line_open s3"
    using open_cdc [OF assms]
    by (simp_all add: s1_def s2_def s3_def Endpoint_SelectEndpoint_def Endpoint_IsOUTReceived_def
        Endpoint_BytesInEndpoint_def case_prod_beta)
  have calm: "calm s1 s2" "calm s2 s3" by (simp_all add: s2_def s3_def)
  have v1: "selected (io_log s1) = CDC_RX_EPNUM" "waiting ps (io_log s1) = waiting ps (io_log s)"
    "sent_on e (io_log s1) = sent_on e (io_log s)" for e
    by (simp_all add: s1_def cdc_open_def case_prod_beta calm_views [OF calm_state [OF calm_refl]])
  note v2 = calm_views [OF calm(1), unfolded v1] and v3 = calm_views [OF calm(2)]
  have out: "fst (Endpoint_IsOUTReceived E s1) = present (io_log (gap E s1))"
    using received [of "io_log (gap E s1)"] v1
    by (simp add: Endpoint_IsOUTReceived_def test_reg_def case_prod_beta) (simp add: rd_def Let_def)
  have out_yes: "present (io_log s2)" if "present (io_log (gap E s1))"
    using that by (auto simp: s2_def Endpoint_IsOUTReceived_def test_reg_def rd_def Let_def case_prod_beta intro: stays)
  show thesis
  proof (cases "present (io_log (gap E s1))")
    case False
    then have "\<exists>l. waiting ps l = waiting ps (io_log s) \<and> \<not> present l"
      using v1 by (intro exI [of _ "io_log (gap E s1)"]) simp
    with False show thesis
      using that [of "-1" s2] open1 v1 v2 out
      by (simp add: CDC_Device_ReceiveByte_def case_prod_beta VirtualSerial_CDC_Interface_def
          s1_def [symmetric] s2_def [symmetric])
  next
    case True
    have p3: "present (io_log s3)" using present_calm [OF calm(2)] out_yes [OF True] by blast
    have w3: "waiting ps (io_log s3) = waiting ps (io_log s)" "selected (io_log s3) = CDC_RX_EPNUM"
      by (simp_all add: v1 v2 v3)
    then obtain p q where w: "waiting ps (io_log s) = p # q"
      using some [OF p3] by (cases "waiting ps (io_log s)") auto
    have n: "fst (Endpoint_BytesInEndpoint E s2) = of_nat (length p)"
      using bytes_present [of s2 p q] out_yes [OF True] by (simp add: v1 v2 w)
    have "length p \<le> 16" using waiting_small [of p ps "io_log s" 16] w small by simp
    have len: "(of_nat (length p) :: u16) = 0 \<longleftrightarrow> p = []" if "length p \<le> 16" for p :: "u8 list"
      by (rule short_length [OF that])
    define s4 where "s4 = (if p = [] then s3 else snd (Endpoint_Read_8 E s3))"
    define s6 where "s6 = snd (Endpoint_BytesInEndpoint E s4)"
    have read: "Endpoint_Read_8 E s3 = (hd p, (gap E s3)\<lparr>io_log := Rd UEDATX (hd p) # io_log (gap E s3)\<rparr>)"
      if "p \<noteq> []"
      using that data [of "io_log (gap E s3)"] present_calm [OF calm_gap [OF calm_refl] p3] w3 w
      by (simp add: Endpoint_Read_8_def rd_def Let_def)
    have v4: "selected (io_log s4) = CDC_RX_EPNUM" "waiting ps (io_log s4) = tl p # q" "line_open s4"
      "sent_on e (io_log s4) = sent_on e (io_log s)" for e
      using w3 w open1 read by (simp_all add: s4_def v1 v2 v3)
    have p4: "present (io_log s4)"
      using p3 present_calm [OF calm_gap [OF calm_refl] p3] read w3 w
      by (auto simp: s4_def intro!: stays)
    have m: "fst (Endpoint_BytesInEndpoint E s4) = of_nat (length (tl p))"
      by (rule bytes_present [OF v4(1) p4 v4(2)])
    have s6: "calm s4 s6" "line_open s6"
      using v4 by (simp_all add: s6_def Endpoint_BytesInEndpoint_def case_prod_beta)
    note v6 = calm_views [OF s6(1)]
    define t where "t = (if tl p = [] then Endpoint_ClearOUT E s6 else s6)"
    have "waiting ps (io_log t) = (if tl p = [] then q else tl p # q)" "line_open t"
      using clear_out_views(1) [of s6 ps] v4 v6 s6(2) by (simp_all add: t_def Endpoint_ClearOUT_def)
    moreover have "sent_on CDC_TX_EPNUM (io_log t) = sent_on CDC_TX_EPNUM (io_log s)"
      using clear_out_views(4) [of s6 CDC_TX_EPNUM] v4 v6 by (simp add: t_def CDC_TX_EPNUM_def CDC_RX_EPNUM_def)
    moreover have "CDC_Device_ReceiveByte E VirtualSerial_CDC_Interface s =
        (if p = [] then -1 else uint (hd p), if fst (Endpoint_BytesInEndpoint E s4) = 0 then Endpoint_ClearOUT E s6 else s6)"
      using open1(1) out True n len [OF \<open>length p \<le> 16\<close>] read
      by (cases "p = []") (simp_all add: CDC_Device_ReceiveByte_def case_prod_beta VirtualSerial_CDC_Interface_def
          s1_def [symmetric] s2_def [symmetric] s3_def [symmetric] s4_def s6_def)
    then have "CDC_Device_ReceiveByte E VirtualSerial_CDC_Interface s = (if p = [] then -1 else uint (hd p), t)"
      using len [of "tl p"] \<open>length p \<le> 16\<close> by (simp add: m t_def)
    ultimately show thesis
      using that [of "if p = [] then -1 else uint (hd p)" t] w by (cases p) auto
  qed
qed

definition is_prompt :: bool where
  "is_prompt \<longleftrightarrow> (\<forall>l. waiting ps l \<noteq> [] \<longrightarrow> present l)"

lemma getchar_line:
  assumes "line_open s"
  obtains c t where "CDC_Device_getchar E VirtualSerial_CDC_Interface s = Returns (c, t)" and "line_open t"
    and "sent_on CDC_TX_EPNUM (io_log t) = sent_on CDC_TX_EPNUM (io_log s)"
    and "c = -2 \<and> concat (waiting ps (io_log t)) = concat (waiting ps (io_log s)) \<or>
      (\<exists>b. c = uint b \<and> concat (waiting ps (io_log s)) = b # concat (waiting ps (io_log t)))"
    and "is_prompt \<Longrightarrow> [] \<notin> set (waiting ps (io_log s)) \<Longrightarrow> [] \<notin> set (waiting ps (io_log t)) \<and>
      (c = -2 \<longrightarrow> waiting ps (io_log s) = [])"
proof -
  obtain c t where r: "CDC_Device_ReceiveByte E VirtualSerial_CDC_Interface s = (c, t)" "line_open t" "sent_on CDC_TX_EPNUM (io_log t) = sent_on CDC_TX_EPNUM (io_log s)"
    and cases: "c = -1 \<and> waiting ps (io_log t) = waiting ps (io_log s) \<and>
        (\<exists>l. waiting ps l = waiting ps (io_log s) \<and> \<not> present l) \<or>
      c = -1 \<and> (\<exists>q. waiting ps (io_log s) = [] # q \<and> waiting ps (io_log t) = q) \<or>
      (\<exists>b p q. c = uint b \<and> waiting ps (io_log s) = (b # p) # q \<and>
        waiting ps (io_log t) = (if p = [] then q else p # q))"
    by (rule receive_byte [OF assms])
  have g: "CDC_Device_getchar E VirtualSerial_CDC_Interface s = Returns (if c < 0 then -2 else c, t)"
    by (simp add: CDC_Device_getchar_def r)
  have "0 \<le> uint b" "uint b \<noteq> -2" for b :: u8
    using uint_ge_0 [of b] by linarith+
  moreover have "w = []" if "is_prompt" "waiting ps l = w" "\<not> present l" for l w
    using that by (auto simp: is_prompt_def)
  ultimately show thesis
    using cases
    by (intro that [OF g r(2,3)]) (auto simp: not_less split: if_splits)
qed

end

definition received_bytes :: "int list \<Rightarrow> u8 list" where
  "received_bytes cs = map word_of_int (filter (\<lambda>c. 0 \<le> c) cs)"

lemma received_Cons [simp]:
  "received_bytes (c # cs) = (if 0 \<le> c then word_of_int c # received_bytes cs else received_bytes cs)"
  "received_bytes [] = []"
  by (simp_all add: received_bytes_def)

lemma get_chars_received:
  assumes "receiving_line E ps present"
  shows "line_open s \<Longrightarrow> \<exists>cs t. get_chars E n s = Returns (cs, t) \<and> line_open t \<and> length cs = n \<and>
    (\<forall>c \<in> set cs. c = -2 \<or> 0 \<le> c \<and> c < 256) \<and>
    concat (waiting ps (io_log s)) = received_bytes cs @ concat (waiting ps (io_log t))"
proof (induction n arbitrary: s)
  case (Suc n)
  obtain c t where c: "CDC_Device_getchar E VirtualSerial_CDC_Interface s = Returns (c, t)" "line_open t"
    "sent_on CDC_TX_EPNUM (io_log t) = sent_on CDC_TX_EPNUM (io_log s)"
    "c = -2 \<and> concat (waiting ps (io_log t)) = concat (waiting ps (io_log s)) \<or>
      (\<exists>b. c = uint b \<and> concat (waiting ps (io_log s)) = b # concat (waiting ps (io_log t)))"
    by (rule receiving_line.getchar_line [OF assms Suc.prems])
  from Suc.IH [OF c(2)] obtain cs u where u: "get_chars E n t = Returns (cs, u)" "line_open u" "length cs = n"
    "\<forall>c \<in> set cs. c = -2 \<or> 0 \<le> c \<and> c < 256"
    "concat (waiting ps (io_log t)) = received_bytes cs @ concat (waiting ps (io_log u))" by blast
  have "0 \<le> uint b \<and> uint b < 256" for b :: u8
    using unsigned_less [of b, where 'a = int] by simp
  with c u show ?case
    by (intro exI [of _ "c # cs"] exI [of _ u]) (auto simp: CDC_Device_CreateStream_def)
qed simp

lemma get_chars_prompt:
  assumes "receiving_line E ps present" and "\<forall>l. waiting ps l \<noteq> [] \<longrightarrow> present l"
  shows "line_open s \<Longrightarrow> [] \<notin> set (waiting ps (io_log s)) \<Longrightarrow>
    \<exists>t. get_chars E n s = Returns (map uint (take n (concat (waiting ps (io_log s)))) @
        replicate (n - length (concat (waiting ps (io_log s)))) (-2), t) \<and> line_open t \<and>
      sent_on CDC_TX_EPNUM (io_log t) = sent_on CDC_TX_EPNUM (io_log s)"
proof (induction n arbitrary: s)
  case (Suc n)
  obtain c t where c: "CDC_Device_getchar E VirtualSerial_CDC_Interface s = Returns (c, t)" "line_open t"
    "sent_on CDC_TX_EPNUM (io_log t) = sent_on CDC_TX_EPNUM (io_log s)"
    "c = -2 \<and> concat (waiting ps (io_log t)) = concat (waiting ps (io_log s)) \<or>
      (\<exists>b. c = uint b \<and> concat (waiting ps (io_log s)) = b # concat (waiting ps (io_log t)))"
    "receiving_line.is_prompt ps present \<Longrightarrow> [] \<notin> set (waiting ps (io_log s)) \<Longrightarrow>
      [] \<notin> set (waiting ps (io_log t)) \<and> (c = -2 \<longrightarrow> waiting ps (io_log s) = [])"
    by (rule receiving_line.getchar_line [OF assms(1) Suc.prems(1)]) auto
  have c4: "[] \<notin> set (waiting ps (io_log t)) \<and> (c = -2 \<longrightarrow> waiting ps (io_log s) = [])"
    using c(5) Suc.prems(2) assms(2) by (simp add: receiving_line.is_prompt_def [OF assms(1)])
  define bs bt where b: "bs = concat (waiting ps (io_log s))" "bt = concat (waiting ps (io_log t))"
  from Suc.IH [OF c(2) c4 [THEN conjunct1], folded b]
  obtain u where "get_chars E n t = Returns (map uint (take n bt) @ replicate (n - length bt) (-2), u)" "line_open u"
    "sent_on CDC_TX_EPNUM (io_log u) = sent_on CDC_TX_EPNUM (io_log t)"
    by blast
  moreover have "c = -2 \<and> bt = [] \<and> bs = [] \<or> (\<exists>b. c = uint b \<and> bs = b # bt)"
    using c(4) c4 by (auto simp: b)
  ultimately show ?case
    unfolding b(1) [symmetric] using c(1,3) by (auto simp: CDC_Device_CreateStream_def)
qed simp

end
