(* ===== verification/UsbLineClaims.thy ===== *)
theory UsbLineClaims
  imports UsbLine
begin

text \<open>
  What the two ends of the USB line can rely on: a host that takes what is sent gets every printed
  character, a command that arrives in one go is answered, and one that arrives in pieces is lost.
\<close>

unbundle bit_operations_syntax

subsection \<open>Output to a host that reads\<close>

abbreviation (input) unsent :: "lufa \<Rightarrow> u8 list" where
  "unsent s \<equiv> snd (sent_on CDC_TX_EPNUM (io_log s))"

text \<open>The transmit endpoint is ready, has one bank of 16 bytes and counts what is in it.\<close>

locale taking_line = open_line E for E :: lufa_env +
  assumes room: "selected l = CDC_TX_EPNUM \<Longrightarrow>
      bit (hw E l UEINTX) RWAL \<longleftrightarrow> length (snd (sent_on CDC_TX_EPNUM l)) < 16"
    and ready: "selected l = CDC_TX_EPNUM \<Longrightarrow> bit (hw E l UEINTX) TXINI"
    and direction: "selected l = CDC_TX_EPNUM \<Longrightarrow> bit (hw E l UECFG0X) EPDIR"
    and fill: "selected l = CDC_TX_EPNUM \<Longrightarrow>
      hw E l UEBCHX = 0 \<and> hw E l UEBCLX = of_nat (length (snd (sent_on CDC_TX_EPNUM l)))"
begin

lemma test_value: "fst (test_reg E r n s) = bit (hw E (io_log (gap E s)) r) n"
  by (simp add: test_reg_def rd_def Let_def)

lemma wait_takes:
  assumes "selected (io_log s) = CDC_TX_EPNUM" "line_open s"
  obtains t where "Endpoint_WaitUntilReady E s = Returns (NoError, t)" "calm s t" "line_open t"
proof -
  define s1 where "s1 = snd (USB_Device_GetFrameNumber E s)"
  define s2 where "s2 = snd (Endpoint_GetEndpointDirection E s1)"
  have c: "calm s s1" "calm s s2" by (simp_all add: s1_def s2_def)
  then have sel: "selected (io_log s1) = CDC_TX_EPNUM" "selected (io_log s2) = CDC_TX_EPNUM"
    using assms(1) by (simp_all add: calm_views)
  have o: "line_open s1" "line_open s2" using assms(2)
    by (simp_all add: s1_def s2_def USB_Device_GetFrameNumber_def Endpoint_GetEndpointDirection_def case_prod_beta)
  have "fst (Endpoint_GetEndpointDirection E s1) = ENDPOINT_DIR_IN"
    using direction [of "io_log (gap E s1)"] sel by (simp add: Endpoint_GetEndpointDirection_def case_prod_beta test_value)
  moreover have "fst (Endpoint_IsINReady E s2)"
    using ready [of "io_log (gap E s2)"] sel by (simp add: Endpoint_IsINReady_def test_value)
  ultimately have "Endpoint_WaitUntilReady E s = Returns (NoError, snd (Endpoint_IsINReady E s2))"
    by (simp add: Endpoint_WaitUntilReady_def case_prod_beta s1_def [symmetric])
      (subst ready_loop.simps, simp add: case_prod_beta s2_def [symmetric])
  moreover have "calm s (snd (Endpoint_IsINReady E s2))" "line_open (snd (Endpoint_IsINReady E s2))"
    using c o by (simp_all add: Endpoint_IsINReady_def)
  ultimately show thesis by (rule that)
qed

lemma putchar_takes:
  assumes "line_open s" "length (unsent s) \<le> 16"
  shows "\<exists>t. CDC_Device_putchar E VirtualSerial_CDC_Interface c s = Returns (0, t) \<and> line_open t \<and>
    length (unsent t) \<le> 16"
proof -
  define s1 where "s1 = Endpoint_SelectEndpoint E CDC_TX_EPNUM (snd (cdc_open E s))"
  define s2 where "s2 = snd (Endpoint_IsReadWriteAllowed E s1)"
  have o: "fst (cdc_open E s)" "line_open s1" "line_open s2"
    using open_cdc [OF assms(1)]
    by (simp_all add: s1_def s2_def Endpoint_SelectEndpoint_def Endpoint_IsReadWriteAllowed_def)
  have v1: "selected (io_log s1) = CDC_TX_EPNUM" "unsent s1 = unsent s"
    by (simp_all add: s1_def cdc_open_def case_prod_beta calm_views [OF calm_state [OF calm_refl]])
  have "calm s1 s2" by (simp add: s2_def)
  then have v2: "selected (io_log s2) = CDC_TX_EPNUM" "unsent s2 = unsent s"
    using v1 by (simp_all add: calm_views)
  have r: "fst (Endpoint_IsReadWriteAllowed E s1) \<longleftrightarrow> length (unsent s) < 16"
    using room [of "io_log (gap E s1)"] v1 by (simp add: Endpoint_IsReadWriteAllowed_def test_value)
  note run = CDC_Device_putchar_def CDC_Device_SendByte_def case_prod_beta VirtualSerial_CDC_Interface_def
    s1_def [symmetric] s2_def [symmetric]
  show ?thesis
  proof (cases "length (unsent s) < 16")
    case True
    then show ?thesis using o r v2 by (simp add: run) (simp add: Endpoint_Write_8_def)
  next
    case False
    define s3 where "s3 = Endpoint_ClearIN E s2"
    have "selected (io_log s3) = CDC_TX_EPNUM" "line_open s3" "unsent s3 = []"
      using v2 o by (simp_all add: s3_def) (simp add: Endpoint_ClearIN_def)
    moreover from this obtain t where "Endpoint_WaitUntilReady E s3 = Returns (NoError, t)" "calm s3 t" "line_open t"
      using wait_takes by metis
    ultimately show ?thesis
      using o r False by (simp add: run s3_def [symmetric] calm_views) (simp add: Endpoint_Write_8_def)
  qed
qed

lemma bytes_pending:
  assumes "selected (io_log s) = CDC_TX_EPNUM" "length (unsent s) \<le> 16"
  shows "fst (Endpoint_BytesInEndpoint E s) = of_nat (length (unsent s))"
proof -
  define s1 where "s1 = snd (rd E UEBCHX s)"
  have c: "calm s (gap E s)" "calm s (gap E s1)" by (simp_all add: s1_def)
  then have "hw E (io_log (gap E s)) UEBCHX = 0" "hw E (io_log (gap E s1)) UEBCLX = of_nat (length (unsent s))"
    using assms(1) fill [of "io_log (gap E s)"] fill [of "io_log (gap E s1)"] calm_views [OF c(2)] by simp_all
  moreover have "(ucast (of_nat (length (unsent s)) :: u8) :: u16) = of_nat (length (unsent s))"
    using assms(2) by (simp add: unsigned_of_nat take_bit_nat_eq_self)
  ultimately show ?thesis
    by (simp add: Endpoint_BytesInEndpoint_def case_prod_beta s1_def [symmetric]) (simp add: rd_def Let_def)
qed

lemma flush_takes:
  assumes "line_open s" "length (unsent s) \<le> 16"
  shows "\<exists>t. CDC_Device_USBTask E VirtualSerial_CDC_Interface s = Returns t \<and> line_open t \<and> unsent t = [] \<and>
    fed CDC_TX_EPNUM (io_log t) = fed CDC_TX_EPNUM (io_log s)"
proof -
  define s0 where "s0 = snd (cdc_open E s)"
  define s1 where "s1 = Endpoint_SelectEndpoint E CDC_TX_EPNUM (snd (cdc_open E s0))"
  define s2 where "s2 = snd (Endpoint_BytesInEndpoint E s1)"
  define s3 where "s3 = snd (Endpoint_IsReadWriteAllowed E s2)"
  define s4 where "s4 = Endpoint_ClearIN E s3"
  have c0: "calm s (snd (cdc_open E s))" for s by (simp add: cdc_open_def case_prod_beta)
  have o: "fst (cdc_open E s)" "line_open s0" using open_cdc [OF assms(1)] by (simp_all add: s0_def)
  have o1: "fst (cdc_open E s0)" "line_open s1" "line_open s2" "line_open s3" "line_open s4"
    using open_cdc [OF o(2)]
    by (simp_all add: s1_def s2_def s3_def s4_def Endpoint_SelectEndpoint_def Endpoint_BytesInEndpoint_def
        Endpoint_IsReadWriteAllowed_def Endpoint_ClearIN_def case_prod_beta)
  have v1: "selected (io_log s1) = CDC_TX_EPNUM" "unsent s1 = unsent s"
    "fed CDC_TX_EPNUM (io_log s1) = fed CDC_TX_EPNUM (io_log s)"
    by (simp_all add: s1_def s0_def calm_views [OF c0])
  have "calm s1 s2" "calm s1 s3" by (simp_all add: s2_def s3_def)
  note v2 = calm_views [OF this(1)] and v3 = calm_views [OF this(2)]
  have v4: "selected (io_log s4) = CDC_TX_EPNUM" "unsent s4 = []"
    "fed CDC_TX_EPNUM (io_log s4) = fed CDC_TX_EPNUM (io_log s)"
    using v1 v3 by (simp_all add: s4_def)
  have n: "fst (Endpoint_BytesInEndpoint E s1) = 0 \<longleftrightarrow> unsent s = []"
    using bytes_pending [of s1] short_length [OF assms(2)] v1 assms(2) by simp
  have r: "fst (Endpoint_IsReadWriteAllowed E s2) \<longleftrightarrow> length (unsent s) < 16"
    using room [of "io_log (gap E s2)"] v1 v2 by (simp add: Endpoint_IsReadWriteAllowed_def test_value)
  note run = CDC_Device_USBTask_def CDC_Device_Flush_def case_prod_beta VirtualSerial_CDC_Interface_def
    s0_def [symmetric] s1_def [symmetric] s2_def [symmetric] s3_def [symmetric] s4_def [symmetric]
  consider "unsent s = []" | "unsent s \<noteq> []" "length (unsent s) < 16" | "unsent s \<noteq> []" "\<not> length (unsent s) < 16"
    by blast
  then show ?thesis
  proof cases
    case 3
    obtain t where t: "Endpoint_WaitUntilReady E s4 = Returns (NoError, t)" "calm s4 t" "line_open t"
      using wait_takes [OF v4(1) o1(5)] by blast
    then have "line_open (Endpoint_ClearIN E t)" by (simp add: Endpoint_ClearIN_def)
    with 3 t o o1 n r v4 show ?thesis by (simp add: run Let_def calm_views [OF t(2)])
  qed (use o o1 n r v1 v2 v4 in \<open>simp_all add: run Let_def\<close>)
qed

end

text \<open>
  A whole text: every character is accepted, and the service of the USB line in the main loop sends
  what is left in the endpoint.
\<close>

lemma put_chars_takes:
  assumes "taking_line E"
  shows "line_open s \<Longrightarrow> length (unsent s) \<le> 16 \<Longrightarrow>
    \<exists>t. put_chars E cs s = Returns (replicate (length cs) 0, t) \<and> line_open t \<and> length (unsent t) \<le> 16"
proof (induction cs arbitrary: s)
  case (Cons c cs)
  from taking_line.putchar_takes [OF assms Cons.prems] obtain t where
    t: "CDC_Device_putchar E VirtualSerial_CDC_Interface c s = Returns (0, t)" "line_open t" "length (unsent t) \<le> 16"
    by blast
  from Cons.IH [OF t(2,3)] t(1) show ?case by (auto simp: CDC_Device_CreateStream_def)
qed simp

lemma text_sent:
  assumes "taking_line E" and "line_open s" "length (unsent s) \<le> 16"
  shows "\<exists>t u. put_chars E cs s = Returns (replicate (length cs) 0, t) \<and>
    CDC_Device_USBTask E VirtualSerial_CDC_Interface t = Returns u \<and> unsent u = [] \<and>
    concat (fst (sent_on CDC_TX_EPNUM (io_log u))) = fed CDC_TX_EPNUM (io_log s) @ cs"
proof -
  obtain t where t: "put_chars E cs s = Returns (replicate (length cs) 0, t)" "line_open t" "length (unsent t) \<le> 16"
    using put_chars_takes [OF assms] by blast
  obtain u where u: "CDC_Device_USBTask E VirtualSerial_CDC_Interface t = Returns u" "unsent u = []"
    "fed CDC_TX_EPNUM (io_log u) = fed CDC_TX_EPNUM (io_log t)"
    using taking_line.flush_takes [OF assms(1) t(2,3)] by blast
  have "accepted cs (replicate (length cs) 0) = cs"
    by (simp add: accepted_def zip_replicate2 filter_map o_def)
  then have "fed CDC_TX_EPNUM (io_log t) = fed CDC_TX_EPNUM (io_log s) @ cs"
    using put_chars_feed [OF _ t(1), of CDC_TX_EPNUM] assms(1)
    by (simp add: taking_line_def open_line_def)
  with t(1) u sent_on_fed [of CDC_TX_EPNUM "io_log u"] show ?thesis by auto
qed

subsection \<open>A controller with a host\<close>

text \<open>
  A controller without bus events whose host has the packets \<open>ps\<close>, cut to 16 bytes, to send: the
  first is there from the start, the others after \<open>n\<close> accesses, and everything sent is taken.
\<close>

definition cut :: "u8 list list \<Rightarrow> u8 list list" where
  "cut ps = map (take 16) ps"

definition arrived :: "nat \<Rightarrow> u8 list list \<Rightarrow> access list \<Rightarrow> bool" where
  "arrived n ps l \<longleftrightarrow> waiting (cut ps) l \<noteq> [] \<and> (length (waiting (cut ps) l) = length ps \<or> n < length l)"

definition bulk_host :: "nat \<Rightarrow> u8 list list \<Rightarrow> access list \<Rightarrow> usb_reg \<Rightarrow> u8" where
  "bulk_host n ps l r =
     (if r = UEINTX then
        if selected l = CDC_RX_EPNUM then (if arrived n ps l then 4 else 0)
        else if length (snd (sent_on CDC_TX_EPNUM l)) < 16 then 33 else 1
      else if r = UEBCLX then
        if selected l = CDC_RX_EPNUM then of_nat (length (hd (waiting (cut ps) l)))
        else of_nat (length (snd (sent_on CDC_TX_EPNUM l)))
      else if r = UEDATX then hd (hd (waiting (cut ps) l))
      else if r = UECFG0X then 1
      else 0)"

lemma quiet_interrupt:
  assumes "\<And>l. h l UDINT = 0" "\<And>l. h l USBINT = 0" and "ien s"
  shows "irq (stack_world h) s =
    s\<lparr>io_log := Rd UDINT 0 # Rd UDINT 0 # Rd UDINT 0 # Rd USBINT 0 # Rd UDINT 0 # io_log s\<rparr>"
  using assms
  by (simp add: stack_world_def GEN_vect_def isr_sof_def isr_vbus_def isr_suspend_def isr_wakeup_def isr_reset_def
      int_pending_def USB_INT_HasOccurred_def)

lemma bulk_host_quiet [simp]: "bulk_host n ps l UDINT = 0" "bulk_host n ps l USBINT = 0"
  by (simp_all add: bulk_host_def)

interpretation bulk_line: open_line "stack_world (bulk_host n ps)" for n ps
proof
  fix s :: lufa
  assume "ien s"
  note q = quiet_interrupt [of "bulk_host n ps" s, OF _ _ this, simplified]
  show "calm s (irq (stack_world (bulk_host n ps)) s)"
    by (auto simp: calm_def q intro!: exI [of _ "[Rd UDINT 0, Rd UDINT 0, Rd UDINT 0, Rd USBINT 0, Rd UDINT 0]"])
  show "USB_DeviceState (irq (stack_world (bulk_host n ps)) s) = USB_DeviceState s \<and>
      CDC_State (irq (stack_world (bulk_host n ps)) s) = CDC_State s"
    by (simp add: q)
qed

lemma endpoints_differ [simp]: "CDC_TX_EPNUM \<noteq> CDC_RX_EPNUM" "CDC_RX_EPNUM \<noteq> CDC_TX_EPNUM"
  by (simp_all add: CDC_TX_EPNUM_def CDC_RX_EPNUM_def)

interpretation bulk_in: receiving_line "stack_world (bulk_host n ps)" "cut ps" "arrived n ps" for n ps
  by unfold_locales (auto simp: cut_def bulk_host_def arrived_def)

interpretation bulk_out: taking_line "stack_world (bulk_host n ps)" for n ps
  by unfold_locales (auto simp: bulk_host_def)

text \<open>Without a delay every packet is there as soon as the one before is taken.\<close>

lemma waiting_start: "waiting ps l \<noteq> [] \<Longrightarrow> length (waiting ps l) = length ps \<or> 0 < length l"
  by (cases l) auto

lemma bulk_prompt: "waiting (cut ps) l \<noteq> [] \<longrightarrow> arrived 0 ps l"
  using waiting_start [of "cut ps" l] by (auto simp: arrived_def cut_def)

text \<open>A configured device with an open line.\<close>

definition lufa_open :: lufa where
  "lufa_open = lufa_zero\<lparr>USB_DeviceState := DEVICE_STATE_Configured, ien := True,
     CDC_State := cdc_state_zero\<lparr>LineEncoding := (LineEncoding cdc_state_zero)\<lparr>BaudRateBPS := 9600\<rparr>\<rparr>\<rparr>"

lemma lufa_open_start [simp]: "line_open lufa_open" "io_log lufa_open = []"
  by (simp_all add: line_open_def lufa_open_def lufa_zero_def cdc_state_zero_def)

subsection \<open>Commands over the line\<close>

text \<open>What \<^verbatim>\<open>fscanf\<close> sees of the results of the reads.\<close>

definition stdin_of :: "int list \<Rightarrow> istream" where
  "stdin_of cs = map (\<lambda>c. if c < 0 then None else Some (char_of (nat c))) cs"

lemma char_through_u8: "char_of (unat (of_char c :: u8)) = c"
proof -
  have "unat (of_nat (of_char c) :: u8) = (of_char c :: nat)"
    by (simp only: unat_of_nat) simp
  then show ?thesis by (simp only: of_nat_of_char) simp
qed

lemma chars_through_u8: "map (\<lambda>b. char_of (unat b)) (map of_char str :: u8 list) = str"
  by (simp add: char_through_u8 o_def)

lemma stdin_sent:
  "stdin_of (map uint (map of_char str :: u8 list) @ replicate k (-2)) = map Some str @ replicate k None"
  using char_through_u8 by (simp add: stdin_of_def not_less)



subsection \<open>What holds of every line\<close>





subsection \<open>A command in pieces\<close>

text \<open>The reads that found nothing, taken out.\<close>

definition heard :: "istream \<Rightarrow> string" where
  "heard i = map the (filter (\<lambda>x. x \<noteq> None) i)"

lemma heard_simps [simp]:
  "heard [] = []" "heard (None # i) = heard i" "heard (Some c # i) = c # heard i" "heard (i @ j) = heard i @ heard j"
  by (simp_all add: heard_def)

lemma heard_stdin:
  "\<forall>x \<in> set cs. x = -2 \<or> 0 \<le> x \<and> x < 256 \<Longrightarrow>
    heard (stdin_of cs) = map (\<lambda>b. char_of (unat b)) (received_bytes cs)"
proof (induction cs)
  case (Cons x cs)
  have "0 \<le> x \<and> x < 256 \<Longrightarrow> unat (word_of_int x :: u8) = nat x"
    by (simp add: unat_eq_nat_uint uint_word_of_int)
  with Cons show ?case by (auto simp: stdin_of_def)
qed (simp add: stdin_of_def)

lemma listen_pause: "usb_in s = None # r \<Longrightarrow> listen twr trd stack s = Returns (s\<lparr>usb_in := r\<rparr>)"
  by (simp add: listen_def scanf_def fscanf_def fmt_listen)

lemma listen_silence: "usb_in s = [] \<Longrightarrow> listen twr trd stack s = Returns s"
  by (simp add: listen_def scanf_def fscanf_def fmt_listen)

text \<open>A stream whose next character is not the I of a command.\<close>

definition stuck :: "istream \<Rightarrow> bool" where
  "stuck i \<longleftrightarrow> heard i \<noteq> [] \<and> hd (heard i) \<noteq> CHR ''I''"

lemma stuck_loop:
  "main_loop st twr trd stack evs s = Returns s' \<Longrightarrow> stuck (usb_in (fw s)) \<Longrightarrow>
    heard (usb_in (fw s')) = heard (usb_in (fw s)) \<and> usb_out (fw s') = usb_out (fw s)"
proof (induction evs arbitrary: s)
  case (Cons ev evs)
  from Cons.prems(1) obtain s1 where s1: "main_turn st twr trd stack ev s = Returns s1"
    "main_loop st twr trd stack evs s1 = Returns s'"
    by (auto simp: and_then_Returns)
  obtain f where f: "listen twr trd stack (fw (take_isrs (ev 0) s)) = Returns f"
    "usb_in (fw s1) = usb_in f" "usb_out (fw s1) = usb_out f"
    by (rule turn_after_listen [OF s1(1)])
  let ?g = "fw (take_isrs (ev 0) s)"
  have "heard (usb_in f) = heard (usb_in (fw s)) \<and> usb_out f = usb_out (fw s)"
  proof (cases "usb_in (fw s)")
    case (Cons x r)
    show ?thesis
    proof (cases x)
      case None
      then have "f = ?g\<lparr>usb_in := r\<rparr>" using f(1) Cons listen_pause [of ?g r] by simp
      then show ?thesis using Cons None by simp
    next
      case (Some c)
      then have "c \<noteq> CHR ''I''" using Cons.prems(2) Cons by (simp add: stuck_def)
      then have "f = ?g" using f(1) Cons Some listen_stray [of ?g c r] by simp
      then show ?thesis by simp
    qed
  next
    case Nil
    then have "f = ?g" using f(1) listen_silence [of ?g] by simp
    then show ?thesis by simp
  qed
  with f(2,3) Cons.IH [OF s1(2)] Cons.prems(2) show ?case by (simp add: stuck_def)
qed simp

text \<open>
  C5: a command that arrives in pieces is lost, and with it the line. When the first read that finds
  nothing comes after one, two or three characters of the host's ISS and command, and at least one
  character follows at any time later, then the command is never called, nothing is ever printed
  again and the rest of the command stays in the stream, however long the main loop runs.
\<close>

theorem split_command_lost:
  assumes "receiving_line E ps present" "line_open s" "get_chars E n s = Returns (cs, t)"
    and "concat (waiting ps (io_log s)) = map of_char (''ISS'' @ [c] @ text)" "c \<noteq> CHR ''I''"
    and "stdin_of cs = map Some xs @ None # later" "length xs \<in> {1, 2, 3}" "heard later \<noteq> []"
    and "usb_in (fw b) = stdin_of cs" "main_loop st twr trd stack (ev # evs) b = Returns b'"
  shows "usb_out (fw b') = usb_out (fw b) \<and> heard (usb_in (fw b')) = heard later"
proof -
  let ?chars = "map (\<lambda>b. char_of (unat (b :: u8)) :: char)"
  have range: "\<forall>x \<in> set cs. x = -2 \<or> 0 \<le> x \<and> x < 256"
    and bytes: "concat (waiting ps (io_log s)) = received_bytes cs @ concat (waiting ps (io_log t))"
    using get_chars_received [OF assms(1,2), of n] assms(3) by auto
  from range have "heard (stdin_of cs) = ?chars (received_bytes cs)" by (rule heard_stdin)
  moreover have "''ISS'' @ [c] @ text = ?chars (map of_char (''ISS'' @ [c] @ text))"
    by (simp only: chars_through_u8)
  ultimately have "''ISS'' @ [c] @ text = heard (stdin_of cs) @ ?chars (concat (waiting ps (io_log t)))"
    unfolding assms(4) [symmetric] bytes by simp
  moreover have "heard (map Some xs) = xs" by (simp add: heard_def)
  ultimately have all: "''ISS'' @ [c] @ text = xs @ heard later @ map (\<lambda>b. char_of (unat b)) (concat (waiting ps (io_log t)))"
    using assms(6) by simp
  obtain d ds where later: "heard later = d # ds" using assms(8) by (cases "heard later") auto
  have "xs = ''I'' \<and> d = CHR ''S'' \<or> xs = ''IS'' \<and> d = CHR ''S'' \<or> xs = ''ISS'' \<and> d = c"
    using all assms(7) unfolding later by (auto simp: length_Suc_conv numeral_2_eq_2 numeral_3_eq_3)
  then have xs: "xs = ''I'' \<or> xs = ''IS'' \<or> xs = ''ISS''" and st: "stuck later"
    using assms(5) by (auto simp: stuck_def later)
  obtain b1 where b1: "main_turn st twr trd stack ev b = Returns b1" "main_loop st twr trd stack evs b1 = Returns b'"
    using assms(10) by (auto simp: and_then_Returns)
  let ?g = "fw (take_isrs (ev 0) b)"
  have "listen twr trd stack ?g = Returns (?g\<lparr>usb_in := later\<rparr>)"
    using xs assms(6,9) by (auto simp: listen_def scanf_def fscanf_def fmt_listen)
  then have "usb_in (fw b1) = later" "usb_out (fw b1) = usb_out (fw b)"
    using turn_after_listen [OF b1(1)] by auto
  then show ?thesis using stuck_loop [OF b1(2)] st by simp
qed

text \<open>The host sends IS, and S a after a delay of a few accesses, during which the firmware reads once.\<close>

definition late_packets :: "u8 list list" where
  "late_packets = [[73, 83], [83, 97]]"

lemma late_reads:
  "\<exists>t. get_chars (stack_world (bulk_host 17 late_packets)) 4 (lufa_open\<lparr>ien := False\<rparr>) = Returns ([73, 83, -2, 83], t)"
proof -
  let ?E = "stack_world (bulk_host 17 late_packets)"
  have n: "4 = Suc (Suc (Suc (Suc 0)))" by simp
  show ?thesis
    unfolding n get_chars.simps CDC_Device_CreateStream_def
    by (simp add: CDC_Device_getchar_def CDC_Device_ReceiveByte_def cdc_open_def Endpoint_SelectEndpoint_def
        Endpoint_IsOUTReceived_def Endpoint_BytesInEndpoint_def Endpoint_Read_8_def Endpoint_ClearOUT_def
        VirtualSerial_CDC_Interface_def lufa_open_def lufa_zero_def cdc_state_zero_def bulk_host_def arrived_def
        late_packets_def cut_def CDC_RX_EPNUM_def)
qed

lemma split_command_lost_witness:
  "\<exists>b'. main_loop idle_stack (drv_write no_callbacks regfile) (drv_read no_callbacks regfile)
      (replicate 10 zero_pass) [\<lambda>_. []] (sample_board (stdin_of [73, 83, -2, 83])) = Returns b' \<and>
    usb_out (fw b') = [] \<and> heard (usb_in (fw b')) = ''S''"
proof -
  let ?E = "stack_world (bulk_host 17 late_packets)"
  obtain t where t: "get_chars ?E 4 (lufa_open\<lparr>ien := False\<rparr>) = Returns ([73, 83, -2, 83], t)"
    using late_reads by blast
  have chars: "char_of (73 :: nat) = CHR ''I''" "char_of (83 :: nat) = CHR ''S''" "char_of (97 :: nat) = CHR ''a''"
    by code_simp+
  then have i: "stdin_of [73, 83, -2, 83] = map Some ''IS'' @ None # [Some CHR ''S'']"
    by (simp add: stdin_of_def)
  have "command_char (sample_fw (stdin_of [73, 83, -2, 83])) = None"
    by (simp add: command_char_def fscanf_def fmt_listen fw_zero_def i)
  then obtain b' where "main_turn idle_stack (drv_write no_callbacks regfile) (drv_read no_callbacks regfile)
       (replicate 10 zero_pass) (\<lambda>_. []) (sample_board (stdin_of [73, 83, -2, 83])) = Returns b'"
    using turn_runs [OF regfile.reg_chip_axioms, of "sample_board (stdin_of [73, 83, -2, 83])" "replicate 10 zero_pass"
        idle_stack no_callbacks "\<lambda>_. []"] by (auto simp: sample_inv)
  then have run: "main_loop idle_stack (drv_write no_callbacks regfile) (drv_read no_callbacks regfile)
       (replicate 10 zero_pass) [\<lambda>_. []] (sample_board (stdin_of [73, 83, -2, 83])) = Returns b'" by simp
  have w: "concat (waiting (cut late_packets) (io_log (lufa_open\<lparr>ien := False\<rparr>))) = map of_char (''ISS'' @ [CHR ''a''] @ [])"
    by (simp add: late_packets_def cut_def)
  have "line_open (lufa_open\<lparr>ien := False\<rparr>)" using lufa_open_start(1) by (simp add: line_open_def)
  from split_command_lost [OF bulk_in.receiving_line_axioms this t w _ i _ _ _ run] run show ?thesis
    by (auto simp: fw_zero_def)
qed

end
