(* ===== verification/HidParser.thy ===== *)
theory HidParser
  imports Prelude
begin

text \<open>
  The HID report parser of LUFA, \<^verbatim>\<open>Class/Common/HIDParser.c\<close>: how a report descriptor becomes a
  table of report items, and how the value of an item is read from and written to a report. Pointers
  into the arrays of the result are indices; the local variables that the code leaves uninitialised
  are arguments.
\<close>

unbundle bit_operations_syntax

subsection \<open>Items of a report descriptor\<close>

abbreviation (input) HID_RI_DATA_SIZE_MASK :: u8 where "HID_RI_DATA_SIZE_MASK \<equiv> 0x03"
abbreviation (input) HID_RI_TYPE_MASK :: u8 where "HID_RI_TYPE_MASK \<equiv> 0x0C"
abbreviation (input) HID_RI_TAG_MASK :: u8 where "HID_RI_TAG_MASK \<equiv> 0xF0"
abbreviation (input) HID_RI_TYPE_MAIN :: u8 where "HID_RI_TYPE_MAIN \<equiv> 0x00"
abbreviation (input) HID_RI_INPUT :: u8 where "HID_RI_INPUT \<equiv> 0x80"
abbreviation (input) HID_RI_OUTPUT :: u8 where "HID_RI_OUTPUT \<equiv> 0x90"
abbreviation (input) HID_RI_COLLECTION :: u8 where "HID_RI_COLLECTION \<equiv> 0xA0"
abbreviation (input) HID_RI_FEATURE :: u8 where "HID_RI_FEATURE \<equiv> 0xB0"
abbreviation (input) HID_RI_END_COLLECTION :: u8 where "HID_RI_END_COLLECTION \<equiv> 0xC0"
abbreviation (input) HID_RI_USAGE_PAGE :: u8 where "HID_RI_USAGE_PAGE \<equiv> 0x04"
abbreviation (input) HID_RI_LOGICAL_MINIMUM :: u8 where "HID_RI_LOGICAL_MINIMUM \<equiv> 0x14"
abbreviation (input) HID_RI_LOGICAL_MAXIMUM :: u8 where "HID_RI_LOGICAL_MAXIMUM \<equiv> 0x24"
abbreviation (input) HID_RI_PHYSICAL_MINIMUM :: u8 where "HID_RI_PHYSICAL_MINIMUM \<equiv> 0x34"
abbreviation (input) HID_RI_PHYSICAL_MAXIMUM :: u8 where "HID_RI_PHYSICAL_MAXIMUM \<equiv> 0x44"
abbreviation (input) HID_RI_UNIT_EXPONENT :: u8 where "HID_RI_UNIT_EXPONENT \<equiv> 0x54"
abbreviation (input) HID_RI_UNIT :: u8 where "HID_RI_UNIT \<equiv> 0x64"
abbreviation (input) HID_RI_REPORT_SIZE :: u8 where "HID_RI_REPORT_SIZE \<equiv> 0x74"
abbreviation (input) HID_RI_REPORT_ID :: u8 where "HID_RI_REPORT_ID \<equiv> 0x84"
abbreviation (input) HID_RI_REPORT_COUNT :: u8 where "HID_RI_REPORT_COUNT \<equiv> 0x94"
abbreviation (input) HID_RI_PUSH :: u8 where "HID_RI_PUSH \<equiv> 0xA4"
abbreviation (input) HID_RI_POP :: u8 where "HID_RI_POP \<equiv> 0xB4"
abbreviation (input) HID_RI_USAGE :: u8 where "HID_RI_USAGE \<equiv> 0x08"
abbreviation (input) HID_RI_USAGE_MINIMUM :: u8 where "HID_RI_USAGE_MINIMUM \<equiv> 0x18"
abbreviation (input) HID_RI_USAGE_MAXIMUM :: u8 where "HID_RI_USAGE_MAXIMUM \<equiv> 0x28"
abbreviation (input) HID_IOF_CONSTANT :: u32 where "HID_IOF_CONSTANT \<equiv> 1"

abbreviation (input) HID_REPORT_ITEM_In :: u8 where "HID_REPORT_ITEM_In \<equiv> 0"
abbreviation (input) HID_REPORT_ITEM_Out :: u8 where "HID_REPORT_ITEM_Out \<equiv> 1"
abbreviation (input) HID_REPORT_ITEM_Feature :: u8 where "HID_REPORT_ITEM_Feature \<equiv> 2"

definition HID_STATETABLE_STACK_DEPTH :: nat where "HID_STATETABLE_STACK_DEPTH = 2"
definition HID_USAGE_STACK_DEPTH :: u8 where "HID_USAGE_STACK_DEPTH = 8"
definition HID_MAX_COLLECTIONS :: nat where "HID_MAX_COLLECTIONS = 10"
definition HID_MAX_REPORTITEMS :: u8 where "HID_MAX_REPORTITEMS = 20"
definition HID_MAX_REPORT_IDS :: u8 where "HID_MAX_REPORT_IDS = 10"

lemmas hid_limits = HID_STATETABLE_STACK_DEPTH_def HID_USAGE_STACK_DEPTH_def HID_MAX_COLLECTIONS_def
  HID_MAX_REPORTITEMS_def HID_MAX_REPORT_IDS_def

datatype HID_Parse_ErrorCodes_t =
    HID_PARSE_Successful | HID_PARSE_HIDStackOverflow | HID_PARSE_HIDStackUnderflow
  | HID_PARSE_InsufficientReportItems | HID_PARSE_UnexpectedEndCollection
  | HID_PARSE_InsufficientCollectionPaths | HID_PARSE_UsageListOverflow
  | HID_PARSE_InsufficientReportIDItems | HID_PARSE_NoUnfilteredReportItems

subsection \<open>The data of the parser\<close>

record HID_MinMax_t =
  Minimum :: u32
  Maximum :: u32

record HID_Unit_t =
  UnitType :: u32
  Exponent :: u8

record HID_Usage_t =
  Page :: u16
  Usage :: u16

record HID_CollectionPath_t =
  PathType :: u8
  PathUsage :: HID_Usage_t
  Parent :: "nat option"

record HID_ReportItem_Attributes_t =
  BitSize :: u8
  ItemUsage :: HID_Usage_t
  ItemUnit :: HID_Unit_t
  Logical :: HID_MinMax_t
  Physical :: HID_MinMax_t

record HID_ReportItem_t =
  BitOffset :: u16
  ItemType :: u8
  ItemFlags :: u16
  ItemReportID :: u8
  CollectionPath :: "nat option"
  Attributes :: HID_ReportItem_Attributes_t
  ItemValue :: u32
  PreviousValue :: u32

record HID_ReportSizeInfo_t =
  SizeReportID :: u8
  ReportSizeBits :: "u16 list"

record HID_ReportInfo_t =
  TotalReportItems :: u8
  ReportItems :: "HID_ReportItem_t list"
  CollectionPaths :: "HID_CollectionPath_t list"
  TotalDeviceReports :: u8
  ReportIDSizes :: "HID_ReportSizeInfo_t list"
  LargestReportSizeBits :: u16
  UsingReportIDs :: bool

record HID_StateTable_t =
  TableAttributes :: HID_ReportItem_Attributes_t
  ReportCount :: u8
  TableReportID :: u8

text \<open>The sizes of the two structures that \<^verbatim>\<open>memcpy\<close> confuses, without padding as on the AVR.\<close>

definition sizeof_HID_ReportItem_Attributes_t :: nat where
  "sizeof_HID_ReportItem_Attributes_t = 1 + (2 + 2) + (4 + 1) + (4 + 4) + (4 + 4)"

definition sizeof_HID_ReportItem_t :: nat where
  "sizeof_HID_ReportItem_t = 2 + 1 + 2 + 1 + 2 + sizeof_HID_ReportItem_Attributes_t + 4 + 4"

definition sizeof_HID_StateTable_t :: nat where
  "sizeof_HID_StateTable_t = sizeof_HID_ReportItem_Attributes_t + 1 + 1"

text \<open>What \<^verbatim>\<open>memset\<close> makes of them.\<close>

definition minmax_zero :: HID_MinMax_t where "minmax_zero = \<lparr>Minimum = 0, Maximum = 0\<rparr>"
definition usage_zero :: HID_Usage_t where "usage_zero = \<lparr>Page = 0, Usage = 0\<rparr>"
definition path_zero :: HID_CollectionPath_t where
  "path_zero = \<lparr>PathType = 0, PathUsage = usage_zero, Parent = None\<rparr>"
definition attributes_zero :: HID_ReportItem_Attributes_t where
  "attributes_zero = \<lparr>BitSize = 0, ItemUsage = usage_zero, ItemUnit = \<lparr>UnitType = 0, Exponent = 0\<rparr>,
     Logical = minmax_zero, Physical = minmax_zero\<rparr>"
definition item_zero :: HID_ReportItem_t where
  "item_zero = \<lparr>BitOffset = 0, ItemType = 0, ItemFlags = 0, ItemReportID = 0, CollectionPath = None,
     Attributes = attributes_zero, ItemValue = 0, PreviousValue = 0\<rparr>"
definition sizeinfo_zero :: HID_ReportSizeInfo_t where
  "sizeinfo_zero = \<lparr>SizeReportID = 0, ReportSizeBits = [0, 0, 0]\<rparr>"
definition info_zero :: HID_ReportInfo_t where
  "info_zero = \<lparr>TotalReportItems = 0, ReportItems = replicate (unat HID_MAX_REPORTITEMS) item_zero,
     CollectionPaths = replicate HID_MAX_COLLECTIONS path_zero, TotalDeviceReports = 0,
     ReportIDSizes = replicate (unat HID_MAX_REPORT_IDS) sizeinfo_zero, LargestReportSizeBits = 0,
     UsingReportIDs = False\<rparr>"
definition table_zero :: HID_StateTable_t where
  "table_zero = \<lparr>TableAttributes = attributes_zero, ReportCount = 0, TableReportID = 0\<rparr>"

text \<open>The variables of \<^verbatim>\<open>USB_ProcessHIDReport\<close>.\<close>

record hid_parser =
  StateTable :: "HID_StateTable_t list"
  CurrStateTable :: nat
  CurrCollectionPath :: "nat option"
  CurrReportIDInfo :: nat
  UsageList :: "u16 list"
  UsageListSize :: u8
  UsageMinMax :: HID_MinMax_t
  ParserData :: HID_ReportInfo_t

subsection \<open>One item\<close>

type_synonym hid_result = "(HID_Parse_ErrorCodes_t option \<times> hid_parser) outcome"

abbreviation (input) Goes :: "hid_parser \<Rightarrow> hid_result" where "Goes p \<equiv> Returns (None, p)"
abbreviation (input) Stops :: "HID_Parse_ErrorCodes_t \<Rightarrow> hid_parser \<Rightarrow> hid_result" where
  "Stops e p \<equiv> Returns (Some e, p)"

text \<open>\<^verbatim>\<open>memcpy(CurrStateTable + 1, CurrStateTable, sizeof(HID_ReportItem_t))\<close> must stay inside \<^verbatim>\<open>StateTable\<close>.\<close>

definition hid_push :: "hid_parser \<Rightarrow> hid_result" where
  "hid_push p =
     (let i = CurrStateTable p in
      if i = HID_STATETABLE_STACK_DEPTH - 1 then Stops HID_PARSE_HIDStackOverflow p
      else if sizeof_HID_StateTable_t * (i + 1) + sizeof_HID_ReportItem_t
             > sizeof_HID_StateTable_t * HID_STATETABLE_STACK_DEPTH then Faults OutOfBounds
      else and_then (fetch (StateTable p) i) (\<lambda>t. and_then (store (StateTable p) (i + 1) t) (\<lambda>ts.
        Goes (p\<lparr>StateTable := ts, CurrStateTable := i + 1\<rparr>))))"

definition hid_pop :: "hid_parser \<Rightarrow> hid_result" where
  "hid_pop p =
     (if CurrStateTable p = 0 then Stops HID_PARSE_HIDStackUnderflow p
      else Goes (p\<lparr>CurrStateTable := CurrStateTable p - 1\<rparr>))"

definition set_table :: "(HID_StateTable_t \<Rightarrow> HID_StateTable_t) \<Rightarrow> hid_parser \<Rightarrow> hid_parser outcome" where
  "set_table f p = and_then (fetch (StateTable p) (CurrStateTable p)) (\<lambda>t.
     Returns (p\<lparr>StateTable := (StateTable p)[CurrStateTable p := f t]\<rparr>))"

definition set_attributes ::
  "(HID_ReportItem_Attributes_t \<Rightarrow> HID_ReportItem_Attributes_t) \<Rightarrow> hid_parser \<Rightarrow> hid_result" where
  "set_attributes f p = and_then (set_table (TableAttributes_update f) p) (\<lambda>p1. Goes p1)"

text \<open>The report of an ID: the first of the table that has it.\<close>

fun find_report :: "HID_ReportSizeInfo_t list \<Rightarrow> u8 \<Rightarrow> nat \<Rightarrow> nat \<Rightarrow> nat option outcome" where
  "find_report rs r 0 i = Returns None"
| "find_report rs r (Suc k) i = and_then (fetch rs i) (\<lambda>s.
     if SizeReportID s = r then Returns (Some i) else find_report rs r k (Suc i))"

definition use_report :: "u8 \<Rightarrow> nat \<Rightarrow> hid_parser \<Rightarrow> hid_result" where
  "use_report r i p =
     (let d = ParserData p in
      and_then (fetch (ReportIDSizes d) i) (\<lambda>s.
        Goes (p\<lparr>CurrReportIDInfo := i, ParserData := d\<lparr>UsingReportIDs := True,
          ReportIDSizes := (ReportIDSizes d)[i := s\<lparr>SizeReportID := r\<rparr>]\<rparr>\<rparr>)))"

definition hid_report_id :: "u32 \<Rightarrow> hid_parser \<Rightarrow> hid_result" where
  "hid_report_id v p = and_then (set_table (TableReportID_update (\<lambda>_. ucast v)) p) (\<lambda>p1.
     let d = ParserData p1; r = ucast v in
     if \<not> UsingReportIDs d then use_report r (CurrReportIDInfo p1) p1
     else and_then (find_report (ReportIDSizes d) r (unat (TotalDeviceReports d)) 0) (\<lambda>f.
       case f of
         Some i \<Rightarrow> use_report r i p1
       | None \<Rightarrow>
           if TotalDeviceReports d = HID_MAX_REPORT_IDS then Stops HID_PARSE_InsufficientReportIDItems p1
           else let n = unat (TotalDeviceReports d) in
             and_then (store (ReportIDSizes d) n sizeinfo_zero) (\<lambda>rs.
               use_report r n (p1\<lparr>ParserData :=
                 d\<lparr>ReportIDSizes := rs, TotalDeviceReports := TotalDeviceReports d + 1\<rparr>\<rparr>))))"

definition hid_usage :: "u32 \<Rightarrow> hid_parser \<Rightarrow> hid_result" where
  "hid_usage v p =
     (if UsageListSize p = HID_USAGE_STACK_DEPTH then Stops HID_PARSE_UsageListOverflow p
      else and_then (store (UsageList p) (unat (UsageListSize p)) (ucast v)) (\<lambda>us.
        Goes (p\<lparr>UsageList := us, UsageListSize := UsageListSize p + 1\<rparr>)))"

text \<open>The next usage: from the list, which moves up, or from the range; otherwise the field keeps what it had.\<close>

fun shift_usages :: "nat \<Rightarrow> nat \<Rightarrow> u16 list \<Rightarrow> u16 list outcome" where
  "shift_usages 0 i us = Returns us"
| "shift_usages (Suc k) i us =
     and_then (fetch us (i + 1)) (\<lambda>u. and_then (store us i u) (shift_usages k (i + 1)))"

definition next_usage :: "u16 \<Rightarrow> hid_parser \<Rightarrow> (u16 \<times> hid_parser) outcome" where
  "next_usage old p =
     (if UsageListSize p \<noteq> 0 then
        and_then (fetch (UsageList p) 0) (\<lambda>u.
        and_then (shift_usages (unat (UsageListSize p)) 0 (UsageList p)) (\<lambda>us.
          Returns (u, p\<lparr>UsageList := us, UsageListSize := UsageListSize p - 1\<rparr>)))
      else if Minimum (UsageMinMax p) \<le> Maximum (UsageMinMax p) then
        Returns (ucast (Minimum (UsageMinMax p)),
          p\<lparr>UsageMinMax := Minimum_update (\<lambda>m. m + 1) (UsageMinMax p)\<rparr>)
      else Returns (old, p))"

text \<open>The first collection after the root that has no parent yet.\<close>

fun free_path :: "HID_CollectionPath_t list \<Rightarrow> nat \<Rightarrow> nat \<Rightarrow> nat option outcome" where
  "free_path cs 0 i = Returns None"
| "free_path cs (Suc k) i = and_then (fetch cs i) (\<lambda>c.
     if Parent c = None then Returns (Some i)
     else if i = HID_MAX_COLLECTIONS - 1 then Returns None
     else free_path cs k (i + 1))"

definition open_path :: "hid_parser \<Rightarrow> (nat option \<times> hid_parser) outcome" where
  "open_path p =
     (case CurrCollectionPath p of
        None \<Rightarrow> Returns (Some 0, p)
      | Some parent \<Rightarrow>
          let d = ParserData p; cs = CollectionPaths d in
          and_then (free_path cs HID_MAX_COLLECTIONS 1) (\<lambda>f. case f of
            None \<Rightarrow> Returns (None, p\<lparr>CurrCollectionPath := Some (HID_MAX_COLLECTIONS - 1)\<rparr>)
          | Some i \<Rightarrow> Returns (Some i, p\<lparr>ParserData := d\<lparr>CollectionPaths :=
              cs[i := (cs ! i)\<lparr>Parent := Some parent\<rparr>]\<rparr>\<rparr>)))"

definition hid_collection :: "u32 \<Rightarrow> hid_parser \<Rightarrow> hid_result" where
  "hid_collection v p =
     and_then (open_path p) (\<lambda>(f, p1). case f of
       None \<Rightarrow> Stops HID_PARSE_InsufficientCollectionPaths p1
     | Some i \<Rightarrow>
         and_then (fetch (StateTable p1) (CurrStateTable p1)) (\<lambda>t.
         and_then (fetch (CollectionPaths (ParserData p1)) i) (\<lambda>c.
         and_then (next_usage (Usage (PathUsage c)) p1) (\<lambda>(u, p2).
           let d = ParserData p2 in
           Goes (p2\<lparr>CurrCollectionPath := Some i, ParserData := d\<lparr>CollectionPaths := (CollectionPaths d)[i :=
             c\<lparr>PathType := ucast v, PathUsage := \<lparr>Page = Page (ItemUsage (TableAttributes t)), Usage = u\<rparr>\<rparr>]\<rparr>\<rparr>)))))"

definition hid_end_collection :: "hid_parser \<Rightarrow> hid_result" where
  "hid_end_collection p =
     (case CurrCollectionPath p of
        None \<Rightarrow> Stops HID_PARSE_UnexpectedEndCollection p
      | Some i \<Rightarrow> and_then (fetch (CollectionPaths (ParserData p)) i) (\<lambda>c.
          Goes (p\<lparr>CurrCollectionPath := Parent c\<rparr>)))"

text \<open>One of the \<^verbatim>\<open>ReportCount\<close> items of an INPUT, OUTPUT or FEATURE.\<close>

definition item_type :: "u8 \<Rightarrow> u8" where
  "item_type tag =
     (if tag = HID_RI_INPUT then HID_REPORT_ITEM_In
      else if tag = HID_RI_OUTPUT then HID_REPORT_ITEM_Out else HID_REPORT_ITEM_Feature)"

definition new_item ::
  "HID_ReportItem_t \<Rightarrow> (HID_ReportItem_t \<Rightarrow> bool) \<Rightarrow> u8 \<Rightarrow> u32 \<Rightarrow> hid_parser \<Rightarrow> hid_result" where
  "new_item raw accept tag v p =
     and_then (fetch (StateTable p) (CurrStateTable p)) (\<lambda>t.
     and_then (next_usage (Usage (ItemUsage (TableAttributes t))) p) (\<lambda>(u, p1).
     and_then (fetch (ReportIDSizes (ParserData p1)) (CurrReportIDInfo p1)) (\<lambda>s.
     and_then (fetch (ReportSizeBits s) (unat (item_type tag))) (\<lambda>off.
       let d = ParserData p1;
         item = raw\<lparr>Attributes := (TableAttributes t)\<lparr>ItemUsage := (ItemUsage (TableAttributes t))\<lparr>Usage := u\<rparr>\<rparr>,
           ItemFlags := ucast v, CollectionPath := CurrCollectionPath p1, ItemReportID := TableReportID t,
           ItemType := item_type tag, BitOffset := off\<rparr>;
         end' = off + ucast (BitSize (TableAttributes t));
         d1 = d\<lparr>ReportIDSizes := (ReportIDSizes d)[CurrReportIDInfo p1 :=
                  s\<lparr>ReportSizeBits := (ReportSizeBits s)[unat (item_type tag) := end']\<rparr>],
                LargestReportSizeBits := max (LargestReportSizeBits d) end'\<rparr>
       in if TotalReportItems d1 = HID_MAX_REPORTITEMS
          then Stops HID_PARSE_InsufficientReportItems (p1\<lparr>ParserData := d1\<rparr>)
          else and_then (store (ReportItems d1) (unat (TotalReportItems d1)) item) (\<lambda>is.
            let d2 = d1\<lparr>ReportItems := is\<rparr> in
            Goes (p1\<lparr>ParserData :=
              if v AND HID_IOF_CONSTANT = 0 \<and> accept item then d2\<lparr>TotalReportItems := TotalReportItems d2 + 1\<rparr>
              else d2\<rparr>))))))"

fun new_items ::
  "HID_ReportItem_t \<Rightarrow> (HID_ReportItem_t \<Rightarrow> bool) \<Rightarrow> u8 \<Rightarrow> u32 \<Rightarrow> nat \<Rightarrow> hid_parser \<Rightarrow> hid_result" where
  "new_items raw accept tag v 0 p = Goes p"
| "new_items raw accept tag v (Suc n) p =
     and_then (new_item raw accept tag v p) (\<lambda>(r, p1).
       if r \<noteq> None then Returns (r, p1) else new_items raw accept tag v n p1)"

definition hid_main ::
  "HID_ReportItem_t \<Rightarrow> (HID_ReportItem_t \<Rightarrow> bool) \<Rightarrow> u8 \<Rightarrow> u32 \<Rightarrow> hid_parser \<Rightarrow> hid_result" where
  "hid_main raw accept tag v p =
     and_then (fetch (StateTable p) (CurrStateTable p)) (\<lambda>t.
       new_items raw accept tag v (unat (ReportCount t)) p)"

text \<open>The switch over the items.\<close>

definition hid_item ::
  "HID_ReportItem_t \<Rightarrow> (HID_ReportItem_t \<Rightarrow> bool) \<Rightarrow> u8 \<Rightarrow> u32 \<Rightarrow> hid_parser \<Rightarrow> hid_result" where
  "hid_item raw accept i v p =
     (let tag = i AND (HID_RI_TYPE_MASK OR HID_RI_TAG_MASK) in
      if tag = HID_RI_PUSH then hid_push p
      else if tag = HID_RI_POP then hid_pop p
      else if tag = HID_RI_USAGE_PAGE then
        and_then (if i AND HID_RI_DATA_SIZE_MASK = 3
                  then set_attributes (ItemUsage_update (Page_update (\<lambda>_. ucast (drop_bit 16 v)))) p else Goes p)
          (\<lambda>(_, p1). set_attributes (ItemUsage_update (Page_update (\<lambda>_. ucast v))) p1)
      else if tag = HID_RI_LOGICAL_MINIMUM then set_attributes (Logical_update (Minimum_update (\<lambda>_. v))) p
      else if tag = HID_RI_LOGICAL_MAXIMUM then set_attributes (Logical_update (Maximum_update (\<lambda>_. v))) p
      else if tag = HID_RI_PHYSICAL_MINIMUM then set_attributes (Physical_update (Minimum_update (\<lambda>_. v))) p
      else if tag = HID_RI_PHYSICAL_MAXIMUM then set_attributes (Physical_update (Maximum_update (\<lambda>_. v))) p
      else if tag = HID_RI_UNIT_EXPONENT then set_attributes (ItemUnit_update (Exponent_update (\<lambda>_. ucast v))) p
      else if tag = HID_RI_UNIT then set_attributes (ItemUnit_update (UnitType_update (\<lambda>_. v))) p
      else if tag = HID_RI_REPORT_SIZE then set_attributes (BitSize_update (\<lambda>_. ucast v)) p
      else if tag = HID_RI_REPORT_COUNT then
        and_then (set_table (ReportCount_update (\<lambda>_. ucast v)) p) (\<lambda>p1. Goes p1)
      else if tag = HID_RI_REPORT_ID then hid_report_id v p
      else if tag = HID_RI_USAGE then hid_usage v p
      else if tag = HID_RI_USAGE_MINIMUM then Goes (p\<lparr>UsageMinMax := (UsageMinMax p)\<lparr>Minimum := v\<rparr>\<rparr>)
      else if tag = HID_RI_USAGE_MAXIMUM then Goes (p\<lparr>UsageMinMax := (UsageMinMax p)\<lparr>Maximum := v\<rparr>\<rparr>)
      else if tag = HID_RI_COLLECTION then hid_collection v p
      else if tag = HID_RI_END_COLLECTION then hid_end_collection p
      else if tag \<in> {HID_RI_INPUT, HID_RI_OUTPUT, HID_RI_FEATURE} then hid_main raw accept tag v p
      else Goes p)"

definition end_item :: "u8 \<Rightarrow> hid_parser \<Rightarrow> hid_parser" where
  "end_item i p =
     (if i AND HID_RI_TYPE_MASK = HID_RI_TYPE_MAIN then p\<lparr>UsageMinMax := minmax_zero, UsageListSize := 0\<rparr> else p)"

subsection \<open>The parser\<close>

text \<open>The data of an item, little end first; reading past the descriptor is a fault.\<close>

definition data_length :: "u8 \<Rightarrow> nat" where
  "data_length i = (if i AND HID_RI_DATA_SIZE_MASK = 3 then 4 else unat (i AND HID_RI_DATA_SIZE_MASK))"

definition le_bytes :: "u8 list \<Rightarrow> u32" where
  "le_bytes bs = foldr (\<lambda>b v. ucast b OR push_bit 8 v) bs 0"

lemma and_then_cong [fundef_cong]:
  "m = m' \<Longrightarrow> (\<And>x. m' = Returns x \<Longrightarrow> f x = f' x) \<Longrightarrow> and_then m f = and_then m' f'"
  by (auto simp: and_then_def split: option.splits sum.splits)

function hid_loop ::
  "HID_ReportItem_t \<Rightarrow> (HID_ReportItem_t \<Rightarrow> bool) \<Rightarrow> u8 list \<Rightarrow> u16 \<Rightarrow> hid_parser \<Rightarrow>
     (HID_Parse_ErrorCodes_t \<times> HID_ReportInfo_t) outcome" where
  "hid_loop raw accept rest sz p =
     (if sz = 0 then
        Returns (if TotalReportItems (ParserData p) = 0 then HID_PARSE_NoUnfilteredReportItems
                 else HID_PARSE_Successful, ParserData p)
      else case rest of [] \<Rightarrow> Faults OutOfBounds
      | i # bs \<Rightarrow>
          if length bs < data_length i then Faults OutOfBounds
          else and_then (hid_item raw accept i (le_bytes (take (data_length i) bs)) p) (\<lambda>(r, p1). case r of
              Some e \<Rightarrow> Returns (e, ParserData p1)
            | None \<Rightarrow> hid_loop raw accept (drop (data_length i) bs) (sz - 1 - of_nat (data_length i)) (end_item i p1)))"
  by pat_completeness auto
termination by (relation "measure (\<lambda>(_, _, rest, _). length rest)") auto

declare hid_loop.simps [simp del]

definition USB_ProcessHIDReport ::
  "HID_ReportItem_t \<Rightarrow> (HID_ReportItem_t \<Rightarrow> bool) \<Rightarrow> hid_parser \<Rightarrow> u8 list \<Rightarrow> u16 \<Rightarrow>
     (HID_Parse_ErrorCodes_t \<times> HID_ReportInfo_t) outcome" where
  "USB_ProcessHIDReport raw accept vars ReportData ReportSize =
     hid_loop raw accept ReportData ReportSize
       (vars\<lparr>StateTable := (StateTable vars)[0 := table_zero], CurrStateTable := 0, CurrCollectionPath := None,
         CurrReportIDInfo := 0, UsageListSize := 0, UsageMinMax := minmax_zero,
         ParserData := info_zero\<lparr>TotalDeviceReports := 1\<rparr>\<rparr>)"

subsection \<open>Values in a report\<close>

text \<open>
  The loops over the bits of an item. \<^verbatim>\<open>CurrentBit\<close> wraps at 16 bits and \<^verbatim>\<open>BitMask\<close> is shifted out of its
  32; \<^verbatim>\<open>ReportData[..] |= BitMask\<close> stores the low byte of the mask.
\<close>

fun get_bits :: "u8 list \<Rightarrow> nat \<Rightarrow> u16 \<Rightarrow> u32 \<Rightarrow> u32 \<Rightarrow> u32 outcome" where
  "get_bits bs 0 c m v = Returns v"
| "get_bits bs (Suc n) c m v = and_then (fetch bs (unat c div 8)) (\<lambda>b.
     get_bits bs n (c + 1) (push_bit 1 m) (if bit b (unat c mod 8) then v OR m else v))"

definition USB_GetHIDReportItemInfo ::
  "u8 list \<Rightarrow> HID_ReportItem_t option \<Rightarrow> (bool \<times> HID_ReportItem_t option) outcome" where
  "USB_GetHIDReportItemInfo ReportData item =
     (case item of None \<Rightarrow> Returns (False, None)
      | Some it \<Rightarrow>
          and_then (if ItemReportID it \<noteq> 0 then fetch ReportData 0 else Returns 0) (\<lambda>r.
            if ItemReportID it \<noteq> r then Returns (False, Some it)
            else and_then (get_bits (if ItemReportID it \<noteq> 0 then tl ReportData else ReportData)
                (unat (BitSize (Attributes it))) (BitOffset it) 1 0) (\<lambda>v.
              Returns (True, Some (it\<lparr>PreviousValue := ItemValue it, ItemValue := v\<rparr>)))))"

fun set_bits :: "u32 \<Rightarrow> nat \<Rightarrow> u16 \<Rightarrow> u32 \<Rightarrow> u8 list \<Rightarrow> u8 list outcome" where
  "set_bits v 0 c m bs = Returns bs"
| "set_bits v (Suc n) c m bs =
     and_then (if bit v (unat c mod 8)
               then and_then (fetch bs (unat c div 8)) (\<lambda>b. store bs (unat c div 8) (b OR ucast m))
               else Returns bs)
       (set_bits v n (c + 1) (push_bit 1 m))"

definition USB_SetHIDReportItemInfo ::
  "u8 list \<Rightarrow> HID_ReportItem_t option \<Rightarrow> (u8 list \<times> HID_ReportItem_t option) outcome" where
  "USB_SetHIDReportItemInfo ReportData item =
     (case item of None \<Rightarrow> Returns (ReportData, None)
      | Some it \<Rightarrow>
          let it1 = it\<lparr>PreviousValue := ItemValue it\<rparr>; n = unat (BitSize (Attributes it)) in
          if ItemReportID it = 0 then
            and_then (set_bits (ItemValue it) n (BitOffset it) 1 ReportData) (\<lambda>bs. Returns (bs, Some it1))
          else and_then (store ReportData 0 (ItemReportID it)) (\<lambda>bs0.
            and_then (set_bits (ItemValue it) n (BitOffset it) 1 (tl bs0)) (\<lambda>bs.
              Returns (hd bs0 # bs, Some it1))))"

fun report_size :: "HID_ReportSizeInfo_t list \<Rightarrow> u8 \<Rightarrow> u8 \<Rightarrow> nat \<Rightarrow> nat \<Rightarrow> u16 outcome" where
  "report_size rs r ty 0 i = Returns 0"
| "report_size rs r ty (Suc k) i =
     and_then (fetch rs i) (\<lambda>s. and_then (fetch (ReportSizeBits s) (unat ty)) (\<lambda>bits.
       if SizeReportID s = r then Returns (bits div 8 + (if bits mod 8 \<noteq> 0 then 1 else 0))
       else report_size rs r ty k (Suc i)))"

definition USB_GetHIDReportSize :: "HID_ReportInfo_t \<Rightarrow> u8 \<Rightarrow> u8 \<Rightarrow> u16 outcome" where
  "USB_GetHIDReportSize d ReportID ReportType =
     report_size (ReportIDSizes d) ReportID ReportType (unat HID_MAX_REPORT_IDS) 0"

end
