(* ===== verification/HidClaims.thy ===== *)
theory HidClaims
  imports HidParser
begin

text \<open>
  What the HID report parser makes of a report descriptor: for which descriptors it stays inside its
  arrays, how it lays out the items, and what reading and writing an item does to a report.
\<close>

unbundle bit_operations_syntax

subsection \<open>Descriptors as lists of items\<close>

type_synonym report_item = "u8 \<times> u8 list"

definition encode_items :: "report_item list \<Rightarrow> u8 list" where
  "encode_items is = concat (map (\<lambda>(i, bs). i # bs) is)"

definition whole_items :: "report_item list \<Rightarrow> bool" where
  "whole_items = list_all (\<lambda>(i, bs). length bs = data_length i)"

abbreviation (input) tag_of :: "u8 \<Rightarrow> u8" where
  "tag_of i \<equiv> i AND (HID_RI_TYPE_MASK OR HID_RI_TAG_MASK)"

abbreviation (input) main_type :: "u8 \<Rightarrow> bool" where
  "main_type i \<equiv> i AND HID_RI_TYPE_MASK = HID_RI_TYPE_MAIN"

lemma encode_items_simps [simp]:
  "encode_items [] = []" "encode_items ((i, bs) # is) = i # bs @ encode_items is"
  by (simp_all add: encode_items_def)

fun run_items ::
  "HID_ReportItem_t \<Rightarrow> (HID_ReportItem_t \<Rightarrow> bool) \<Rightarrow> report_item list \<Rightarrow> hid_parser \<Rightarrow> hid_result" where
  "run_items raw accept [] p = Goes p"
| "run_items raw accept ((i, bs) # is) p =
     and_then (hid_item raw accept i (le_bytes bs) p) (\<lambda>(r, p1).
       if r \<noteq> None then Returns (r, p1) else run_items raw accept is (end_item i p1))"

definition hid_finish :: "HID_Parse_ErrorCodes_t option \<times> hid_parser \<Rightarrow> HID_Parse_ErrorCodes_t \<times> HID_ReportInfo_t" where
  "hid_finish = (\<lambda>(r, p). (case r of
     Some e \<Rightarrow> e
   | None \<Rightarrow> if TotalReportItems (ParserData p) = 0 then HID_PARSE_NoUnfilteredReportItems
       else HID_PARSE_Successful, ParserData p))"

lemma hid_loop_items:
  "whole_items is \<Longrightarrow> length (encode_items is) < 65536 \<Longrightarrow>
    hid_loop raw accept (encode_items is @ rest) (of_nat (length (encode_items is))) p =
      and_then (run_items raw accept is p) (\<lambda>x. Returns (hid_finish x))"
proof (induction "is" arbitrary: p)
  case Nil
  then show ?case by (simp add: hid_loop.simps hid_finish_def)
next
  case (Cons a "is")
  obtain i bs where a: "a = (i, bs)" by (cases a)
  from Cons.prems a have bs: "length bs = data_length i" and w: "whole_items is"
    and l: "length (encode_items is) < 65536" by (simp_all add: whole_items_def)
  let ?n = "of_nat (length (encode_items (a # is))) :: u16"
  have n: "?n \<noteq> 0"
    using Cons.prems(2) by (auto simp: a word_of_nat_eq_0_iff simp del: of_nat_add of_nat_Suc dest!: dvd_imp_le)
  have m: "?n - 1 - of_nat (data_length i) = of_nat (length (encode_items is))"
    by (simp add: a bs)
  have "hid_loop raw accept (encode_items (a # is) @ rest) ?n p =
      and_then (hid_item raw accept i (le_bytes bs) p) (\<lambda>(r, p1). case r of
          Some e \<Rightarrow> Returns (e, ParserData p1)
        | None \<Rightarrow> hid_loop raw accept (encode_items is @ rest) (?n - 1 - of_nat (data_length i)) (end_item i p1))"
    using n by (subst hid_loop.simps) (auto simp: a bs intro!: and_then_cong split: option.split)
  also have "\<dots> = and_then (hid_item raw accept i (le_bytes bs) p) (\<lambda>(r, p1). case r of
          Some e \<Rightarrow> Returns (e, ParserData p1)
        | None \<Rightarrow> and_then (run_items raw accept is (end_item i p1)) (\<lambda>x. Returns (hid_finish x)))"
    unfolding m Cons.IH [OF w l] ..
  also have "\<dots> = and_then (run_items raw accept (a # is) p) (\<lambda>x. Returns (hid_finish x))"
    unfolding a run_items.simps and_then_assoc
    by (rule and_then_cong) (auto simp: hid_finish_def split: option.splits)
  finally show ?case .
qed

subsection \<open>Inside the arrays\<close>

definition info_ok :: "HID_ReportInfo_t \<Rightarrow> bool" where
  "info_ok d \<longleftrightarrow> length (ReportItems d) = 20 \<and> TotalReportItems d \<le> 20 \<and>
     length (ReportIDSizes d) = 10 \<and> TotalDeviceReports d \<le> 10 \<and>
     (\<forall>i < 10. length (ReportSizeBits (ReportIDSizes d ! i)) = 3) \<and>
     length (CollectionPaths d) = 10 \<and>
     (\<forall>i < 10. \<forall>j. Parent (CollectionPaths d ! i) = Some j \<longrightarrow> j < i) \<and>
     (\<forall>k < unat (TotalReportItems d). \<forall>i. CollectionPath (ReportItems d ! k) = Some i \<longrightarrow> i < 10)"

definition path_ok :: "HID_CollectionPath_t list \<Rightarrow> nat option \<Rightarrow> bool" where
  "path_ok cs cur \<longleftrightarrow>
     (\<forall>i j. 0 < i \<longrightarrow> i < j \<longrightarrow> j < 10 \<longrightarrow> Parent (cs ! j) \<noteq> None \<longrightarrow> Parent (cs ! i) \<noteq> None) \<and>
     (\<forall>i. cur = Some i \<longrightarrow> i = 0 \<or> i < 10 \<and> Parent (cs ! i) \<noteq> None)"

definition parser_ok :: "hid_parser \<Rightarrow> bool" where
  "parser_ok p \<longleftrightarrow> length (StateTable p) = 2 \<and> CurrStateTable p = 0 \<and> length (UsageList p) = 8 \<and>
     UsageListSize p \<le> 8 \<and> info_ok (ParserData p) \<and> CurrReportIDInfo p < 10 \<and>
     path_ok (CollectionPaths (ParserData p)) (CurrCollectionPath p)"

text \<open>A step that stays inside the arrays; when it goes on, at most \<open>n\<close> usages are listed.\<close>

definition step_ok :: "hid_result \<Rightarrow> u8 \<Rightarrow> bool" where
  "step_ok m n \<longleftrightarrow> (\<exists>r p. m = Returns (r, p) \<and> info_ok (ParserData p) \<and>
     (r = None \<longrightarrow> parser_ok p \<and> UsageListSize p \<le> n))"

lemma step_ok_Goes [simp]: "step_ok (Goes p) n \<longleftrightarrow> parser_ok p \<and> UsageListSize p \<le> n"
  by (auto simp: step_ok_def parser_ok_def)

lemma step_ok_Stops [simp]: "step_ok (Stops e p) n \<longleftrightarrow> info_ok (ParserData p)"
  by (auto simp: step_ok_def)

lemma parser_info: "parser_ok p \<Longrightarrow> info_ok (ParserData p)"
  by (simp add: parser_ok_def)

lemma shift_usages_ok:
  "i + k < length us \<Longrightarrow> \<exists>us'. shift_usages k i us = Returns us' \<and> length us' = length us"
proof (induction k i us rule: shift_usages.induct)
  case (2 k i us)
  have "\<exists>us'. shift_usages k (i + 1) (us[i := us ! (i + 1)]) = Returns us' \<and> length us' = length us"
    using 2(1) [of "us[i := us ! (i + 1)]"] 2(2) by (metis add.commute add_Suc_right length_list_update plus_1_eq_Suc)
  with 2(2) show ?case by simp
qed simp

lemma next_usage_ok:
  assumes "length (UsageList p) = 8" "UsageListSize p \<le> 7"
  shows "\<exists>u us n m. next_usage old p = Returns (u, p\<lparr>UsageList := us, UsageListSize := n, UsageMinMax := m\<rparr>) \<and>
    length us = 8 \<and> n \<le> 7"
proof (cases "UsageListSize p = 0")
  case False
  have "unat (UsageListSize p) \<le> 7" using assms(2) by (simp add: word_le_nat_alt)
  then obtain us where us: "shift_usages (unat (UsageListSize p)) 0 (UsageList p) = Returns us" "length us = 8"
    using shift_usages_ok [of 0 "unat (UsageListSize p)" "UsageList p"] assms(1) by auto
  have "UsageListSize p - 1 \<le> 7" using assms(2) False by (simp add: word_le_nat_alt unat_minus_one)
  moreover have "next_usage old p = Returns (UsageList p ! 0, p\<lparr>UsageList := us, UsageListSize := UsageListSize p - 1\<rparr>)"
    using False us assms(1) by (simp add: next_usage_def)
  moreover have "p\<lparr>UsageList := us, UsageListSize := UsageListSize p - 1\<rparr> =
      p\<lparr>UsageList := us, UsageListSize := UsageListSize p - 1, UsageMinMax := UsageMinMax p\<rparr>" by simp
  ultimately show ?thesis using us(2) by metis
next
  case True
  have "next_usage old p = Returns (u, p\<lparr>UsageMinMax := m\<rparr>) \<Longrightarrow> ?thesis" for u m
    using assms by (intro exI [of _ u] exI [of _ "UsageList p"] exI [of _ "UsageListSize p"] exI [of _ m]) simp
  moreover have "\<exists>u m. next_usage old p = Returns (u, p\<lparr>UsageMinMax := m\<rparr>)"
  proof (cases "Minimum (UsageMinMax p) \<le> Maximum (UsageMinMax p)")
    case False
    then have "next_usage old p = Returns (old, p\<lparr>UsageMinMax := UsageMinMax p\<rparr>)" using True by (simp add: next_usage_def)
    then show ?thesis by blast
  qed (use True in \<open>auto simp: next_usage_def\<close>)
  ultimately show ?thesis by blast
qed

lemma find_report_ok:
  "i + k \<le> length rs \<Longrightarrow> \<exists>f. find_report rs r k i = Returns f \<and>
    (\<forall>j. f = Some j \<longrightarrow> i \<le> j \<and> j < i + k \<and> SizeReportID (rs ! j) = r) \<and>
    (f = None \<longrightarrow> (\<forall>j. i \<le> j \<and> j < i + k \<longrightarrow> SizeReportID (rs ! j) \<noteq> r))"
proof (induction rs r k i rule: find_report.induct)
  case (2 rs r k i)
  show ?case
  proof (cases "SizeReportID (rs ! i) = r")
    case False
    with 2 obtain f where f: "find_report rs r k (Suc i) = Returns f"
      "\<forall>j. f = Some j \<longrightarrow> Suc i \<le> j \<and> j < Suc i + k \<and> SizeReportID (rs ! j) = r"
      "f = None \<longrightarrow> (\<forall>j. Suc i \<le> j \<and> j < Suc i + k \<longrightarrow> SizeReportID (rs ! j) \<noteq> r)"
      by fastforce
    have "find_report rs r (Suc k) i = Returns f" using f(1) False 2(2) by simp
    moreover have "\<forall>j. f = Some j \<longrightarrow> i \<le> j \<and> j < i + Suc k \<and> SizeReportID (rs ! j) = r" using f(2) by auto
    moreover have "f = None \<longrightarrow> (\<forall>j. i \<le> j \<and> j < i + Suc k \<longrightarrow> SizeReportID (rs ! j) \<noteq> r)"
      using f(3) False by (metis Suc_le_eq add_Suc_right add_Suc le_neq_implies_less)
    ultimately show ?thesis by blast
  qed (use 2(2) in auto)
qed auto

lemma free_path_ok:
  assumes "length cs = 10" "i + k = 11" "1 \<le> i" "i \<le> 9"
  shows "\<exists>f. free_path cs k i = Returns f \<and> (\<forall>j. f = Some j \<longrightarrow> i \<le> j \<and> j < 10 \<and> Parent (cs ! j) = None \<and>
    (\<forall>l. i \<le> l \<and> l < j \<longrightarrow> Parent (cs ! l) \<noteq> None))"
  using assms
proof (induction cs k i rule: free_path.induct)
  case (2 cs k i)
  show ?case
  proof (cases "Parent (cs ! i) = None \<or> i = 9")
    case False
    then have "i + 1 \<le> 9" using 2(5) by simp
    then obtain f where f: "free_path cs k (i + 1) = Returns f"
      "\<forall>j. f = Some j \<longrightarrow> i + 1 \<le> j \<and> j < 10 \<and> Parent (cs ! j) = None \<and> (\<forall>l. i + 1 \<le> l \<and> l < j \<longrightarrow> Parent (cs ! l) \<noteq> None)"
      using 2(1) [of "cs ! i"] 2(2-) False by (auto simp: hid_limits)
    have "free_path cs (Suc k) i = Returns f" using f(1) False 2(2-) by (auto simp: hid_limits)
    moreover have "\<forall>j. f = Some j \<longrightarrow> i \<le> j \<and> j < 10 \<and> Parent (cs ! j) = None \<and> (\<forall>l. i \<le> l \<and> l < j \<longrightarrow> Parent (cs ! l) \<noteq> None)"
      using f(2) False by (metis Suc_eq_plus1 Suc_leD Suc_leI le_neq_implies_less)
    ultimately show ?thesis by blast
  qed (use 2(2-) in \<open>auto simp: hid_limits\<close>)
qed simp

lemma u8_next: "unat (w :: u8) < 255 \<Longrightarrow> unat (w + 1) = unat w + 1"
  by (simp add: unat_word_ariths)

lemma u8_below: "w \<le> n \<Longrightarrow> w \<noteq> n \<Longrightarrow> unat w < unat n" for w n :: u8
  by (metis order.strict_iff_order word_less_nat_alt)

lemma set_table_ok:
  assumes "parser_ok p"
  shows "set_table f p = Returns (p\<lparr>StateTable := (StateTable p)[0 := f (StateTable p ! 0)]\<rparr>)"
    and "parser_ok (p\<lparr>StateTable := (StateTable p)[0 := t]\<rparr>)"
  using assms by (simp_all add: set_table_def parser_ok_def)

lemma set_attributes_ok: "parser_ok p \<Longrightarrow> UsageListSize p \<le> n \<Longrightarrow> step_ok (set_attributes f p) n"
  by (simp add: set_attributes_def set_table_ok)

lemma use_report_ok:
  "parser_ok p \<Longrightarrow> UsageListSize p \<le> n \<Longrightarrow> i < 10 \<Longrightarrow> step_ok (use_report r i p) n"
  by (auto simp: use_report_def parser_ok_def info_ok_def Let_def nth_list_update)

lemma hid_report_id_ok:
  assumes "parser_ok p" "UsageListSize p \<le> n"
  shows "step_ok (hid_report_id v p) n"
proof -
  let ?p = "p\<lparr>StateTable := (StateTable p)[0 := TableReportID_update (\<lambda>_. ucast v) (StateTable p ! 0)]\<rparr>"
  let ?d = "ParserData p"
  have ok: "parser_ok ?p" "UsageListSize ?p \<le> n" and t: "set_table (TableReportID_update (\<lambda>_. ucast v)) p = Returns ?p"
    using assms set_table_ok by simp_all
  have d: "info_ok ?d" "length (ReportIDSizes ?d) = 10" "CurrReportIDInfo p < 10" "unat (TotalDeviceReports ?d) \<le> 10"
    using assms(1) by (auto simp: parser_ok_def info_ok_def word_le_nat_alt)
  obtain f where f: "find_report (ReportIDSizes ?d) (ucast v) (unat (TotalDeviceReports ?d)) 0 = Returns f"
    "\<forall>j. f = Some j \<longrightarrow> j < 10"
    using find_report_ok [of 0 "unat (TotalDeviceReports ?d)" "ReportIDSizes ?d" "ucast v"] d by fastforce
  show ?thesis
  proof (cases "UsingReportIDs ?d")
    case False
    then show ?thesis using use_report_ok [OF ok d(3)] by (simp add: hid_report_id_def t Let_def)
  next
    case ids: True
    show ?thesis
    proof (cases f)
      case (Some i)
      then show ?thesis using ids use_report_ok [OF ok, of i] f by (simp add: hid_report_id_def t Let_def)
    next
      case None
      show ?thesis
      proof (cases "TotalDeviceReports ?d = HID_MAX_REPORT_IDS")
        case True
        then show ?thesis using None ids f d(1) by (simp add: hid_report_id_def t Let_def)
      next
        case False
        then have lt: "unat (TotalDeviceReports ?d) < 10"
          using u8_below [of "TotalDeviceReports ?d" 10] d(1) by (simp add: hid_limits info_ok_def)
        let ?q = "?p\<lparr>ParserData := ?d\<lparr>ReportIDSizes := (ReportIDSizes ?d)[unat (TotalDeviceReports ?d) := sizeinfo_zero],
          TotalDeviceReports := TotalDeviceReports ?d + 1\<rparr>\<rparr>"
        have "unat (TotalDeviceReports ?d + 1) = unat (TotalDeviceReports ?d) + 1"
          using lt by (simp add: u8_next)
        then have "TotalDeviceReports ?d + 1 \<le> 10" using lt by (simp add: word_le_nat_alt)
        then have "parser_ok ?q" "UsageListSize ?q \<le> n"
          using ok lt by (auto simp: parser_ok_def info_ok_def nth_list_update sizeinfo_zero_def)
        then show ?thesis using use_report_ok [of ?q n "unat (TotalDeviceReports ?d)"] lt None ids f d False
          by (simp add: hid_report_id_def t Let_def)
      qed
    qed
  qed
qed

lemma hid_usage_ok:
  assumes "parser_ok p" "UsageListSize p \<le> n" "n \<le> 7"
  shows "step_ok (hid_usage v p) (n + 1)"
proof -
  have u: "unat (UsageListSize p) \<le> 7" "unat n \<le> 7" using assms(2,3) by (simp_all add: word_le_nat_alt)
  have "unat (UsageListSize p + 1) = unat (UsageListSize p) + 1" "unat (n + 1) = unat n + 1"
    using u by (simp_all add: u8_next)
  then have "UsageListSize p + 1 \<le> n + 1" "UsageListSize p + 1 \<le> 8"
    using assms(2) u by (simp_all add: word_le_nat_alt)
  with assms(1) u show ?thesis by (auto simp: hid_usage_def parser_ok_def)
qed

lemma next_usage_step:
  assumes "parser_ok p" "UsageListSize p \<le> 7"
  shows "\<exists>u p1. next_usage old p = Returns (u, p1) \<and> parser_ok p1 \<and> UsageListSize p1 \<le> 7 \<and>
    ParserData p1 = ParserData p \<and> CurrCollectionPath p1 = CurrCollectionPath p \<and>
    CurrReportIDInfo p1 = CurrReportIDInfo p \<and> StateTable p1 = StateTable p \<and> CurrStateTable p1 = CurrStateTable p"
proof -
  obtain u us n m where n: "next_usage old p = Returns (u, p\<lparr>UsageList := us, UsageListSize := n, UsageMinMax := m\<rparr>)"
    "length us = 8" "n \<le> 7"
    using next_usage_ok [of p old] assms by (auto simp: parser_ok_def)
  moreover have "n \<le> 8" using n(3) by (simp add: word_le_nat_alt)
  ultimately show ?thesis using assms(1) by (fastforce simp: parser_ok_def)
qed

lemma open_path_ok:
  assumes "parser_ok p"
  shows "\<exists>f p1. open_path p = Returns (f, p1) \<and> info_ok (ParserData p1) \<and> UsageListSize p1 = UsageListSize p \<and>
    (\<forall>i. f = Some i \<longrightarrow> i < 10 \<and> parser_ok p1 \<and> path_ok (CollectionPaths (ParserData p1)) (Some i))"
proof (cases "CurrCollectionPath p")
  case None
  with assms show ?thesis by (simp add: open_path_def parser_ok_def path_ok_def)
next
  case (Some c)
  let ?d = "ParserData p" and ?cs = "CollectionPaths (ParserData p)"
  have cs: "length ?cs = 10" "\<forall>i < 10. \<forall>j. Parent (?cs ! i) = Some j \<longrightarrow> j < i"
    "\<forall>i j. 0 < i \<longrightarrow> i < j \<longrightarrow> j < 10 \<longrightarrow> Parent (?cs ! j) \<noteq> None \<longrightarrow> Parent (?cs ! i) \<noteq> None"
    "c = 0 \<or> c < 10 \<and> Parent (?cs ! c) \<noteq> None"
    using assms Some by (auto simp: parser_ok_def info_ok_def path_ok_def)
  obtain f where f: "free_path ?cs 10 1 = Returns f"
    "\<forall>j. f = Some j \<longrightarrow> 1 \<le> j \<and> j < 10 \<and> Parent (?cs ! j) = None \<and> (\<forall>l. 1 \<le> l \<and> l < j \<longrightarrow> Parent (?cs ! l) \<noteq> None)"
    using free_path_ok [OF cs(1), of 1 10] by auto
  show ?thesis
  proof (cases f)
    case None
    then show ?thesis using Some f(1) parser_info [OF assms] by (simp add: open_path_def hid_limits)
  next
    case i: (Some i)
    then have i': "1 \<le> i" "i < 10" "Parent (?cs ! i) = None" "\<forall>l. 1 \<le> l \<and> l < i \<longrightarrow> Parent (?cs ! l) \<noteq> None"
      using f(2) by auto
    have c: "c < i"
    proof (rule ccontr)
      assume "\<not> c < i"
      with cs(4) i'(1) have "i \<le> c" "c < 10" "Parent (?cs ! c) \<noteq> None" by auto
      then show False using cs(3) [rule_format, of i c] i'(1,3) by (cases "i = c") auto
    qed
    let ?new = "?cs[i := (?cs ! i)\<lparr>Parent := Some c\<rparr>]"
    let ?p = "p\<lparr>ParserData := ?d\<lparr>CollectionPaths := ?new\<rparr>\<rparr>"
    have run: "open_path p = Returns (Some i, ?p)"
      using Some f(1) i by (simp add: open_path_def hid_limits Let_def)
    have par: "Parent (?new ! k) = (if k = i then Some c else Parent (?cs ! k))" if "k < 10" for k
      using that cs(1) by (simp add: nth_list_update)
    have "info_ok ?d" using assms by (rule parser_info)
    then have info: "info_ok (ParserData ?p)" using c par by (auto simp: info_ok_def)
    have pre: "\<forall>k l. 0 < k \<longrightarrow> k < l \<longrightarrow> l < 10 \<longrightarrow> Parent (?new ! l) \<noteq> None \<longrightarrow> Parent (?new ! k) \<noteq> None"
      using cs(3) i' par by (metis (no_types, lifting) One_nat_def Suc_leI less_trans option.distinct(1))
    have "path_ok ?new (Some i)" "path_ok ?new (Some c)"
      using pre par i' c cs(4) by (auto simp: path_ok_def)
    with info run assms i' Some show ?thesis by (auto simp: parser_ok_def)
  qed
qed

lemma hid_collection_ok:
  assumes "parser_ok p" "UsageListSize p \<le> 7"
  shows "step_ok (hid_collection v p) 7"
proof -
  obtain f p1 where o: "open_path p = Returns (f, p1)" "info_ok (ParserData p1)" "UsageListSize p1 = UsageListSize p"
    "\<forall>i. f = Some i \<longrightarrow> i < 10 \<and> parser_ok p1 \<and> path_ok (CollectionPaths (ParserData p1)) (Some i)"
    using open_path_ok [OF assms(1)] by blast
  show ?thesis
  proof (cases f)
    case None
    then show ?thesis using o by (simp add: hid_collection_def)
  next
    case (Some i)
    let ?c = "CollectionPaths (ParserData p1) ! i"
    have p1: "i < 10" "parser_ok p1" "path_ok (CollectionPaths (ParserData p1)) (Some i)"
      using o(4) Some by auto
    obtain u p2 where n: "next_usage (Usage (PathUsage ?c)) p1 = Returns (u, p2)" "parser_ok p2" "UsageListSize p2 \<le> 7"
      "ParserData p2 = ParserData p1"
      using next_usage_step [OF p1(2), of "Usage (PathUsage ?c)"] o(3) assms(2) by auto
    let ?cs = "CollectionPaths (ParserData p1)"
    have par: "Parent (?cs[i := ?c\<lparr>PathType := t, PathUsage := w\<rparr>] ! k) = Parent (?cs ! k)" if "k < 10" for k t w
      using that p1(1,2) by (auto simp: nth_list_update parser_ok_def info_ok_def)
    have "path_ok (?cs[i := ?c\<lparr>PathType := t, PathUsage := w\<rparr>]) (Some i)" for t w
      using p1(1,3) par by (auto simp: path_ok_def)
    then have "parser_ok (p2\<lparr>CurrCollectionPath := Some i, ParserData := (ParserData p1)\<lparr>CollectionPaths :=
        ?cs[i := ?c\<lparr>PathType := t, PathUsage := w\<rparr>]\<rparr>\<rparr>)" for t w
      using n(2,4) par by (simp add: parser_ok_def info_ok_def)
    then have "step_ok (Goes (p2\<lparr>CurrCollectionPath := Some i, ParserData := (ParserData p1)\<lparr>CollectionPaths :=
        ?cs[i := ?c\<lparr>PathType := t, PathUsage := w\<rparr>]\<rparr>\<rparr>)) 7" for t w
      using n(3) by simp
    moreover have "StateTable p1 \<noteq> [] \<and> CurrStateTable p1 = 0" "i < length ?cs"
      using p1(1,2) by (auto simp: parser_ok_def info_ok_def)
    ultimately show ?thesis using Some o(1) n(1,4) by (simp add: hid_collection_def Let_def)
  qed
qed

lemma hid_end_collection_ok:
  assumes "parser_ok p" "UsageListSize p \<le> n"
  shows "step_ok (hid_end_collection p) n"
proof (cases "CurrCollectionPath p")
  case None
  then show ?thesis using parser_info [OF assms(1)] by (simp add: hid_end_collection_def)
next
  case (Some i)
  let ?cs = "CollectionPaths (ParserData p)"
  have cs: "length ?cs = 10" "\<forall>i < 10. \<forall>j. Parent (?cs ! i) = Some j \<longrightarrow> j < i" "i < 10"
    "\<forall>i j. 0 < i \<longrightarrow> i < j \<longrightarrow> j < 10 \<longrightarrow> Parent (?cs ! j) \<noteq> None \<longrightarrow> Parent (?cs ! i) \<noteq> None"
    using assms(1) Some by (auto simp: parser_ok_def info_ok_def path_ok_def)
  have "j = 0 \<or> j < 10 \<and> Parent (?cs ! j) \<noteq> None" if "Parent (?cs ! i) = Some j" for j
    using cs that by (metis gr_zeroI less_trans option.distinct(1))
  then have "path_ok ?cs (Parent (?cs ! i))" using cs(4) by (auto simp: path_ok_def)
  then show ?thesis using assms Some cs by (auto simp: hid_end_collection_def parser_ok_def)
qed

lemma new_item_ok:
  assumes "parser_ok p" "UsageListSize p \<le> 7"
  shows "step_ok (new_item raw accept tag v p) 7"
proof -
  let ?t = "StateTable p ! 0"
  obtain u p1 where n: "next_usage (Usage (ItemUsage (TableAttributes ?t))) p = Returns (u, p1)" "parser_ok p1"
    "UsageListSize p1 \<le> 7" "ParserData p1 = ParserData p" "CurrCollectionPath p1 = CurrCollectionPath p"
    "CurrReportIDInfo p1 = CurrReportIDInfo p"
    using next_usage_step [OF assms, of "Usage (ItemUsage (TableAttributes ?t))"] by auto
  have p: "info_ok (ParserData p)" "CurrReportIDInfo p < 10" "length (StateTable p) = 2" "CurrStateTable p = 0"
    "\<forall>i. CurrCollectionPath p = Some i \<longrightarrow> i < 10"
    using assms(1) by (auto simp: parser_ok_def path_ok_def)
  have ty: "unat (item_type tag) < 3" by (simp add: item_type_def)
  have upd: "info_ok (ParserData p\<lparr>ReportIDSizes := (ReportIDSizes (ParserData p))[CurrReportIDInfo p :=
      (ReportIDSizes (ParserData p) ! CurrReportIDInfo p)\<lparr>ReportSizeBits :=
        (ReportSizeBits (ReportIDSizes (ParserData p) ! CurrReportIDInfo p))[unat (item_type tag) := e]\<rparr>],
      LargestReportSizeBits := l\<rparr>)" for e l
    using p(1,2) by (auto simp: info_ok_def nth_list_update)
  have add: "info_ok (d\<lparr>ReportItems := (ReportItems d)[unat (TotalReportItems d) := it]\<rparr>)"
    "info_ok (d\<lparr>ReportItems := (ReportItems d)[unat (TotalReportItems d) := it],
      TotalReportItems := TotalReportItems d + 1\<rparr>)"
    "unat (TotalReportItems d) < 20"
    if "info_ok d" "TotalReportItems d \<noteq> 20" "\<forall>i. CollectionPath it = Some i \<longrightarrow> i < 10" for d it
  proof -
    have l: "unat (TotalReportItems d) < 20" using u8_below [of "TotalReportItems d" 20] that by (simp add: info_ok_def)
    then have s: "unat (TotalReportItems d + 1) = Suc (unat (TotalReportItems d))" by (simp add: u8_next)
    with l have "TotalReportItems d + 1 \<le> 20" by (simp add: word_le_nat_alt)
    with l s that show "info_ok (d\<lparr>ReportItems := (ReportItems d)[unat (TotalReportItems d) := it]\<rparr>)"
      "info_ok (d\<lparr>ReportItems := (ReportItems d)[unat (TotalReportItems d) := it], TotalReportItems := TotalReportItems d + 1\<rparr>)"
      "unat (TotalReportItems d) < 20"
      by (auto simp: info_ok_def nth_list_update less_Suc_eq)
  qed
  define d1 where "d1 = ParserData p\<lparr>ReportIDSizes := (ReportIDSizes (ParserData p))[CurrReportIDInfo p :=
      (ReportIDSizes (ParserData p) ! CurrReportIDInfo p)\<lparr>ReportSizeBits :=
        (ReportSizeBits (ReportIDSizes (ParserData p) ! CurrReportIDInfo p))[unat (item_type tag) :=
          ReportSizeBits (ReportIDSizes (ParserData p) ! CurrReportIDInfo p) ! unat (item_type tag) +
            ucast (BitSize (TableAttributes ?t))]\<rparr>],
      LargestReportSizeBits := max (LargestReportSizeBits (ParserData p))
        (ReportSizeBits (ReportIDSizes (ParserData p) ! CurrReportIDInfo p) ! unat (item_type tag) +
            ucast (BitSize (TableAttributes ?t)))\<rparr>"
  have d1: "info_ok d1" "TotalReportItems d1 = TotalReportItems (ParserData p)" "ReportItems d1 = ReportItems (ParserData p)"
    "CollectionPaths d1 = CollectionPaths (ParserData p)"
    unfolding d1_def by (rule upd) simp_all
  define it where "it = raw\<lparr>Attributes := (TableAttributes ?t)\<lparr>ItemUsage := (ItemUsage (TableAttributes ?t))\<lparr>Usage := u\<rparr>\<rparr>,
      ItemFlags := ucast v, CollectionPath := CurrCollectionPath p, ItemReportID := TableReportID ?t,
      ItemType := item_type tag,
      BitOffset := ReportSizeBits (ReportIDSizes (ParserData p) ! CurrReportIDInfo p) ! unat (item_type tag)\<rparr>"
  have path: "CollectionPath it = CurrCollectionPath p" by (simp add: it_def)
  have it: "new_item raw accept tag v p =
      (if TotalReportItems d1 = HID_MAX_REPORTITEMS then Stops HID_PARSE_InsufficientReportItems (p1\<lparr>ParserData := d1\<rparr>)
       else and_then (store (ReportItems d1) (unat (TotalReportItems d1)) it) (\<lambda>is.
         let d2 = d1\<lparr>ReportItems := is\<rparr> in
         Goes (p1\<lparr>ParserData :=
           if v AND HID_IOF_CONSTANT = 0 \<and> accept it then d2\<lparr>TotalReportItems := TotalReportItems d2 + 1\<rparr> else d2\<rparr>)))"
    using p(1,2,3,4) n ty unfolding d1_def it_def
    by (simp add: new_item_def info_ok_def Let_def cong: if_cong)
  show ?thesis
  proof (cases "TotalReportItems d1 = 20")
    case True
    then show ?thesis using d1(1) by (simp add: it hid_limits)
  next
    case False
    note a = add [OF d1(1) False, of it]
    have "length (ReportItems d1) = 20" using d1(1) by (simp add: info_ok_def)
    then show ?thesis using False a path p(5) n(2,3,4,5) d1(4)
      by (auto simp: it hid_limits Let_def parser_ok_def)
  qed
qed

lemma new_items_ok:
  "parser_ok p \<Longrightarrow> UsageListSize p \<le> 7 \<Longrightarrow> step_ok (new_items raw accept tag v k p) 7"
proof (induction k arbitrary: p)
  case (Suc k)
  then have "step_ok (new_item raw accept tag v p) 7" by (intro new_item_ok)
  then obtain r p1 where "new_item raw accept tag v p = Returns (r, p1)" "info_ok (ParserData p1)"
    "r = None \<longrightarrow> parser_ok p1 \<and> UsageListSize p1 \<le> 7"
    by (auto simp: step_ok_def)
  with Suc.IH [of p1] show ?case by (cases r) auto
qed simp

text \<open>A PUSH never succeeds, and eight listed usages are one too many.\<close>

lemma tag_type: "i AND HID_RI_TYPE_MASK = tag_of i AND HID_RI_TYPE_MASK" for i :: u8
  by (simp add: and.assoc)

lemma hid_item_ok:
  assumes "parser_ok p" "UsageListSize p \<le> n" "n \<le> 7" "tag_of i \<noteq> HID_RI_PUSH"
  shows "step_ok (hid_item raw accept i v p) (if main_type i then 7 else if tag_of i = HID_RI_USAGE then n + 1 else n)"
proof -
  define t where "t = tag_of i"
  have l: "UsageListSize p \<le> 7" "info_ok (ParserData p)" "length (StateTable p) = 2" "CurrStateTable p = 0"
    using assms by (auto simp: parser_ok_def)
  have m: "main_type i \<longleftrightarrow> t AND 12 = 0" unfolding t_def by (subst tag_type) rule
  have range: "parser_ok (p\<lparr>UsageMinMax := m\<rparr>)" for m using assms(1) by (simp add: parser_ok_def)
  have page: "step_ok (and_then (if b then set_attributes f p else Goes p) (\<lambda>(_, p1). set_attributes g p1)) n" for b f g
    using assms(1,2) by (auto simp: set_attributes_def set_table_ok)
  have count: "step_ok (and_then (set_table f p) (\<lambda>p1. Goes p1)) n" for f
    using assms(1,2) by (simp add: set_table_ok)
  have main: "step_ok (hid_main raw accept tag v p) 7" for tag
    using new_items_ok [OF assms(1) l(1)] l by (simp add: hid_main_def)
  have pop: "step_ok (hid_pop p) n" using l by (simp add: hid_pop_def)
  show ?thesis
    using assms(4) unfolding m hid_item_def Let_def t_def [symmetric]
    by (auto simp: assms(1,2) l range page count main pop set_attributes_ok [OF assms(1,2)]
        hid_report_id_ok [OF assms(1,2)] hid_usage_ok [OF assms(1-3)] hid_collection_ok [OF assms(1) l(1)]
        hid_end_collection_ok [OF assms(1) l(1)])
qed

text \<open>No PUSH, and at most seven usages before each main item.\<close>

fun fits :: "u8 \<Rightarrow> report_item list \<Rightarrow> bool" where
  "fits n [] = True"
| "fits n ((i, bs) # is) =
     (tag_of i \<noteq> HID_RI_PUSH \<and>
      (if main_type i then fits 0 is
       else if tag_of i = HID_RI_USAGE then n < 7 \<and> fits (n + 1) is else fits n is))"

lemma end_item_ok:
  assumes "parser_ok p"
  shows "parser_ok (end_item i p)" "UsageListSize (end_item i p) = (if main_type i then 0 else UsageListSize p)"
  using assms by (simp_all add: end_item_def parser_ok_def)

lemma run_items_ok:
  "parser_ok p \<Longrightarrow> UsageListSize p \<le> n \<Longrightarrow> n \<le> 7 \<Longrightarrow> fits n is \<Longrightarrow>
    \<exists>r q. run_items raw accept is p = Returns (r, q) \<and> info_ok (ParserData q) \<and>
      (r = None \<longrightarrow> parser_ok q \<and> (is \<noteq> [] \<longrightarrow> main_type (fst (last is)) \<longrightarrow> UsageListSize q = 0))"
proof (induction "is" arbitrary: p n)
  case Nil
  then show ?case by (simp add: parser_info)
next
  case (Cons a "is")
  obtain i bs where a: "a = (i, bs)" by (cases a)
  let ?n = "if main_type i then 7 else if tag_of i = HID_RI_USAGE then n + 1 else n"
  have "step_ok (hid_item raw accept i (le_bytes bs) p) ?n"
    using Cons.prems a by (intro hid_item_ok) simp_all
  then obtain r q where q: "hid_item raw accept i (le_bytes bs) p = Returns (r, q)" "info_ok (ParserData q)"
    "r = None \<longrightarrow> parser_ok q \<and> UsageListSize q \<le> ?n"
    unfolding step_ok_def by blast
  show ?case
  proof (cases r)
    case (Some e)
    then show ?thesis using q a by simp
  next
    case None
    then have ok: "parser_ok q" "UsageListSize q \<le> ?n" using q(3) by simp_all
    let ?m = "if main_type i then 0 else if tag_of i = HID_RI_USAGE then n + 1 else n"
    have "n < 7 \<Longrightarrow> n + 1 \<le> 7" using u8_next [of n] by (simp add: word_le_nat_alt word_less_nat_alt)
    then have "UsageListSize (end_item i q) \<le> ?m" "?m \<le> 7" "fits ?m is"
      using ok Cons.prems(3,4) a end_item_ok(2) [OF ok(1)] by (auto split: if_splits)
    from Cons.IH [OF end_item_ok(1) [OF ok(1)] this] show ?thesis
      using q(1) a None end_item_ok(2) [OF ok(1), of i] by (cases "is") auto
  qed
qed

definition variables_ok :: "hid_parser \<Rightarrow> bool" where
  "variables_ok vars \<longleftrightarrow> length (StateTable vars) = HID_STATETABLE_STACK_DEPTH \<and>
     length (UsageList vars) = unat HID_USAGE_STACK_DEPTH"

abbreviation start_of :: "hid_parser \<Rightarrow> hid_parser" where
  "start_of vars \<equiv> vars\<lparr>StateTable := (StateTable vars)[0 := table_zero], CurrStateTable := 0, CurrCollectionPath := None,
     CurrReportIDInfo := 0, UsageListSize := 0, UsageMinMax := minmax_zero,
     ParserData := info_zero\<lparr>TotalDeviceReports := 1\<rparr>\<rparr>"

lemma start_ok: "variables_ok vars \<Longrightarrow> parser_ok (start_of vars)"
  by (auto simp: variables_ok_def hid_limits parser_ok_def info_ok_def info_zero_def sizeinfo_zero_def
      path_ok_def path_zero_def)

lemma process_items:
  assumes "whole_items is" "length (encode_items is) < 65536"
  shows "USB_ProcessHIDReport raw accept vars (encode_items is @ rest) (of_nat (length (encode_items is))) =
    and_then (run_items raw accept is (start_of vars)) (\<lambda>x. Returns (hid_finish x))"
  unfolding USB_ProcessHIDReport_def by (rule hid_loop_items [OF assms])

text \<open>
  C31: the parser stays inside its arrays and returns for every report descriptor of complete items
  that has no PUSH and lists at most seven usages in a row, whatever the filter accepts and whatever
  its local variables held. It stores at most 20 items, every item refers to one of the ten
  collections, and from each collection the parents lead down to a root.
\<close>

theorem hid_parser_in_bounds:
  assumes "whole_items is" "fits 0 is" "length (encode_items is) < 65536" "variables_ok vars"
  shows "\<exists>e d. USB_ProcessHIDReport raw accept vars (encode_items is @ rest) (of_nat (length (encode_items is))) =
      Returns (e, d) \<and> TotalReportItems d \<le> 20 \<and> length (ReportItems d) = 20 \<and> length (CollectionPaths d) = 10 \<and>
    (\<forall>k < unat (TotalReportItems d). \<forall>i. CollectionPath (ReportItems d ! k) = Some i \<longrightarrow> i < 10) \<and>
    (\<forall>i < 10. \<forall>j. Parent (CollectionPaths d ! i) = Some j \<longrightarrow> j < i)"
proof -
  have "UsageListSize (start_of vars) \<le> 0" by simp
  from run_items_ok [OF start_ok [OF assms(4)] this _ assms(2), of raw accept]
  obtain r q where "run_items raw accept is (start_of vars) = Returns (r, q)" "info_ok (ParserData q)" by auto
  then show ?thesis
    unfolding process_items [OF assms(1,3)] by (auto simp: hid_finish_def info_ok_def)
qed

text \<open>A mouse: usage page and usage, a collection with three buttons, padding and two axes.\<close>

definition mouse_items :: "report_item list" where
  "mouse_items = [(0x05, [1]), (0x09, [2]), (0xA1, [1]), (0x05, [9]), (0x19, [1]), (0x29, [3]), (0x75, [1]),
     (0x95, [3]), (0x81, [2]), (0x75, [5]), (0x95, [1]), (0x81, [1]), (0x05, [1]), (0x09, [0x30]), (0x09, [0x31]),
     (0x75, [8]), (0x95, [2]), (0x81, [6]), (0xC0, [])]"

definition sample_variables :: hid_parser where
  "sample_variables = \<lparr>StateTable = replicate 2 table_zero, CurrStateTable = 0, CurrCollectionPath = None,
     CurrReportIDInfo = 0, UsageList = replicate 8 0, UsageListSize = 0, UsageMinMax = minmax_zero, ParserData = info_zero\<rparr>"

lemma sample_variables_ok: "variables_ok sample_variables"
  by (simp add: variables_ok_def sample_variables_def hid_limits)

lemma mouse_ok: "whole_items mouse_items" "fits 0 mouse_items" "length (encode_items mouse_items) = 37"
  by code_simp+

lemma hid_parser_in_bounds_witness:
  "\<exists>e d. USB_ProcessHIDReport item_zero (\<lambda>_. True) sample_variables (encode_items mouse_items) 37 = Returns (e, d) \<and>
    TotalReportItems d \<le> 20"
  using hid_parser_in_bounds [OF mouse_ok(1,2) _ sample_variables_ok, of item_zero "\<lambda>_. True" "[]"] mouse_ok(3) by auto

subsection \<open>Outside the arrays\<close>

lemma run_items_append:
  "run_items raw accept (xs @ ys) p = and_then (run_items raw accept xs p) (\<lambda>(r, q).
     if r \<noteq> None then Returns (r, q) else run_items raw accept ys q)"
  by (induction raw accept xs p rule: run_items.induct)
    (auto simp: and_then_assoc intro!: and_then_cong)

text \<open>The codes that stop the loop are not those of its end.\<close>

definition stop_code :: "hid_result \<Rightarrow> bool" where
  "stop_code m \<longleftrightarrow> (\<forall>e p. m = Stops e p \<longrightarrow> e \<noteq> HID_PARSE_Successful \<and> e \<noteq> HID_PARSE_NoUnfilteredReportItems)"

lemma stop_code_simps [simp]:
  "stop_code (Goes p)" "stop_code (Faults x)" "stop_code Hangs"
  "stop_code (Stops e p) \<longleftrightarrow> e \<noteq> HID_PARSE_Successful \<and> e \<noteq> HID_PARSE_NoUnfilteredReportItems"
  by (auto simp: stop_code_def)

lemma stop_code_and_then: "(\<And>x. m = Returns x \<Longrightarrow> stop_code (f x)) \<Longrightarrow> stop_code (and_then m f)"
  by (auto simp: and_then_def split: option.split sum.split)

lemma stop_code_if: "(b \<Longrightarrow> stop_code m) \<Longrightarrow> (\<not> b \<Longrightarrow> stop_code n) \<Longrightarrow> stop_code (if b then m else n)"
  by simp

lemma stop_code_option: "(x = None \<Longrightarrow> stop_code m) \<Longrightarrow> (\<And>y. x = Some y \<Longrightarrow> stop_code (n y)) \<Longrightarrow>
    stop_code (case x of None \<Rightarrow> m | Some y \<Rightarrow> n y)"
  by (cases x) auto

lemmas stop_code_rules = stop_code_and_then stop_code_if stop_code_option

lemma stop_code_ops:
  "stop_code (hid_push p)" "stop_code (hid_pop p)" "stop_code (set_attributes f p)" "stop_code (use_report r k p)"
  "stop_code (hid_usage v p)" "stop_code (hid_end_collection p)" "stop_code (new_item raw accept tag v p)"
  by (auto simp: hid_push_def hid_pop_def set_attributes_def use_report_def hid_usage_def hid_end_collection_def
      new_item_def Let_def split: option.split intro!: stop_code_rules)

lemma stop_code_report_id: "stop_code (hid_report_id v p)"
  by (auto simp: hid_report_id_def Let_def stop_code_ops split: option.split intro!: stop_code_rules)

lemma stop_code_collection: "stop_code (hid_collection v p)"
  by (auto simp: hid_collection_def Let_def split: option.split intro!: stop_code_rules)

lemma stop_code_items: "stop_code (new_items raw accept tag v n p)"
proof (induction n arbitrary: p)
  case (Suc n)
  have "stop_code (Returns (r, q))" if "new_item raw accept tag v p = Returns (r, q)" for r q
    using stop_code_ops(7) [of raw accept tag v p] that by simp
  with Suc show ?case by (auto intro!: stop_code_rules)
qed simp

lemma stop_code_item: "stop_code (hid_item raw accept i v p)"
  unfolding hid_item_def Let_def hid_main_def
  by (intro stop_code_if; auto simp: stop_code_ops stop_code_report_id stop_code_collection stop_code_items
      intro!: stop_code_rules)

lemma stop_code_run: "stop_code (run_items raw accept is p)"
proof (induction "is" arbitrary: p)
  case (Cons a "is")
  obtain i bs where a: "a = (i, bs)" by (cases a)
  have "stop_code (Returns (r, q))" if "hid_item raw accept i (le_bytes bs) p = Returns (r, q)" for r q
    using stop_code_item [of raw accept i "le_bytes bs" p] that by simp
  with Cons show ?case by (auto simp: a intro!: stop_code_rules)
qed simp

text \<open>A descriptor that the parser reads to its end leaves it ready for another item.\<close>

lemma process_goes_on:
  assumes "whole_items is" "fits 0 is" "length (encode_items is) < 65536" "variables_ok vars"
    and "USB_ProcessHIDReport raw accept vars (encode_items is) (of_nat (length (encode_items is))) = Returns (e, d)"
    and "e \<in> {HID_PARSE_Successful, HID_PARSE_NoUnfilteredReportItems}"
  shows "\<exists>q. run_items raw accept is (start_of vars) = Goes q \<and> parser_ok q \<and>
    (is = [] \<or> main_type (fst (last is)) \<longrightarrow> UsageListSize q = 0)"
proof -
  have "UsageListSize (start_of vars) \<le> 0" by simp
  from run_items_ok [OF start_ok [OF assms(4)] this _ assms(2), of raw accept]
  obtain r q where q: "run_items raw accept is (start_of vars) = Returns (r, q)"
    "r = None \<longrightarrow> parser_ok q \<and> (is \<noteq> [] \<longrightarrow> main_type (fst (last is)) \<longrightarrow> UsageListSize q = 0)" by auto
  have "r = None"
  proof (cases r)
    case (Some x)
    then have "e = x" using assms(5) process_items [OF assms(1,3), of raw accept vars "[]"] q(1)
      by (simp add: hid_finish_def)
    then show ?thesis using assms(6) Some q(1) stop_code_run [of raw accept "is" "start_of vars"] by auto
  qed simp
  moreover have "UsageListSize q = 0" if "is = []" using q(1) that by auto
  ultimately show ?thesis using q by auto
qed

lemma push_faults: "parser_ok q \<Longrightarrow> tag_of i = HID_RI_PUSH \<Longrightarrow> hid_item raw accept i v q = Faults OutOfBounds"
  by (simp add: hid_item_def Let_def hid_push_def parser_ok_def hid_limits sizeof_HID_StateTable_t_def
      sizeof_HID_ReportItem_t_def sizeof_HID_ReportItem_Attributes_t_def)

lemma end_item_local [simp]: "\<not> main_type i \<Longrightarrow> end_item i p = p"
  by (simp add: end_item_def)

lemma tag_not_main: "tag_of i = t \<Longrightarrow> t AND HID_RI_TYPE_MASK \<noteq> 0 \<Longrightarrow> \<not> main_type i" for i t :: u8
  by (metis tag_type)

lemma usages_listed:
  "list_all (\<lambda>(i, _). tag_of i = HID_RI_USAGE) us \<Longrightarrow> unat (UsageListSize q) + length us \<le> 8 \<Longrightarrow>
    length (UsageList q) = 8 \<Longrightarrow> \<exists>us' m. run_items raw accept us q = Goes (q\<lparr>UsageList := us', UsageListSize := m\<rparr>) \<and>
      unat m = unat (UsageListSize q) + length us \<and> length us' = 8"
proof (induction us arbitrary: q)
  case Nil
  show ?case using Nil(3) by (intro exI [of _ "UsageList q"] exI [of _ "UsageListSize q"]) simp
next
  case (Cons a us)
  obtain i bs where a: "a = (i, bs)" by (cases a)
  have t: "tag_of i = HID_RI_USAGE" and nm: "\<not> main_type i" using Cons.prems(1) a tag_not_main [of i HID_RI_USAGE] by auto
  have lt: "unat (UsageListSize q) < 8" "UsageListSize q \<noteq> 8" using Cons.prems(2) by auto
  let ?q = "q\<lparr>UsageList := (UsageList q)[unat (UsageListSize q) := ucast (le_bytes bs)], UsageListSize := UsageListSize q + 1\<rparr>"
  have s: "hid_item raw accept i (le_bytes bs) q = Goes ?q"
    using t lt Cons.prems(3) by (simp add: hid_item_def Let_def hid_usage_def hid_limits)
  have n: "unat (UsageListSize ?q) = unat (UsageListSize q) + 1" using lt by (simp add: u8_next)
  obtain us' m where "run_items raw accept us ?q = Goes (?q\<lparr>UsageList := us', UsageListSize := m\<rparr>)"
    "unat m = unat (UsageListSize ?q) + length us" "length us' = 8"
    using Cons.IH [of ?q] Cons.prems n by auto
  then show ?case using s n nm by (intro exI [of _ us'] exI [of _ m]) (simp add: a)
qed

lemma full_list_faults:
  assumes "UsageListSize p = 8" "length (UsageList p) = 8"
  shows "next_usage old p = Faults OutOfBounds"
proof -
  have "shift_usages k i us = Faults OutOfBounds" if "length us = i + k" "0 < k" for k i and us :: "u16 list"
    using that by (induction k i us rule: shift_usages.induct) (auto simp: fetch_def)
  then show ?thesis using assms by (simp add: next_usage_def)
qed

lemma eight_usages_fault:
  assumes "parser_ok q" "UsageListSize q = 0"
    and "tag_of c = HID_RI_REPORT_COUNT" "(ucast (le_bytes cbs) :: u8) \<noteq> 0"
    and "list_all (\<lambda>(i, _). tag_of i = HID_RI_USAGE) us" "length us = 8"
    and "tag_of i \<in> {HID_RI_INPUT, HID_RI_OUTPUT, HID_RI_FEATURE}"
  shows "run_items raw accept ((c, cbs) # us @ (i, bs) # post) q = Faults OutOfBounds"
proof -
  let ?q = "q\<lparr>StateTable := (StateTable q)[0 := ReportCount_update (\<lambda>_. ucast (le_bytes cbs)) (StateTable q ! 0)]\<rparr>"
  have "hid_item raw accept c (le_bytes cbs) q = Goes ?q" and nm: "\<not> main_type c"
    using assms(1,3) tag_not_main [OF assms(3)] by (simp_all add: hid_item_def Let_def set_table_ok)
  moreover obtain us' m where u: "run_items raw accept us ?q = Goes (?q\<lparr>UsageList := us', UsageListSize := m\<rparr>)"
    "unat m = 8" "length us' = 8"
    using usages_listed [OF assms(5), of ?q raw accept] assms(1,2,6) by (auto simp: parser_ok_def)
  let ?r = "?q\<lparr>UsageList := us', UsageListSize := m\<rparr>"
  have "m = 8" using u(2) by (intro unsigned_word_eqI) simp
  then have "next_usage old ?r = Faults OutOfBounds" for old using u(3) by (intro full_list_faults) simp_all
  moreover obtain k where "unat (ucast (le_bytes cbs) :: u8) = Suc k"
    using assms(4) by (metis not0_implies_Suc unat_eq_0)
  ultimately show ?thesis using assms(1,7) nm u(1)
    by (auto simp: run_items_append hid_item_def Let_def hid_main_def parser_ok_def new_item_def)
qed

text \<open>
  C32: two kinds of legal descriptor make the parser leave its arrays. After any descriptor it reads
  to its end, a PUSH copies the 42 bytes of a report item over the 28 bytes of a state, past the end
  of the state stack; and a field with eight usages, as many as the usage list is made for, shifts
  the list from one place behind its end.
\<close>

theorem hid_descriptor_overruns:
  assumes "whole_items pre" "fits 0 pre" "variables_ok vars"
    and "USB_ProcessHIDReport raw accept vars (encode_items pre) (of_nat (length (encode_items pre))) = Returns (e, d)"
    and "e \<in> {HID_PARSE_Successful, HID_PARSE_NoUnfilteredReportItems}"
    and "x = [(i, bs)] \<and> tag_of i = HID_RI_PUSH \<or>
      (pre = [] \<or> main_type (fst (last pre))) \<and> x = (c, [n]) # us @ [(i, bs)] \<and> tag_of c = HID_RI_REPORT_COUNT \<and>
        n \<noteq> 0 \<and> length us = 8 \<and> list_all (\<lambda>(j, _). tag_of j = HID_RI_USAGE) us \<and>
        tag_of i \<in> {HID_RI_INPUT, HID_RI_OUTPUT, HID_RI_FEATURE}"
    and "whole_items (pre @ x @ post)" "length (encode_items (pre @ x @ post)) < 65536"
  shows "USB_ProcessHIDReport raw accept vars (encode_items (pre @ x @ post))
      (of_nat (length (encode_items (pre @ x @ post)))) = Faults OutOfBounds"
proof -
  have "length (encode_items pre) < 65536" using assms(8) by (simp add: encode_items_def)
  from process_goes_on [OF assms(1,2) this assms(3-5)]
  obtain q where q: "run_items raw accept pre (start_of vars) = Goes q" "parser_ok q"
    "pre = [] \<or> main_type (fst (last pre)) \<longrightarrow> UsageListSize q = 0" by blast
  have "(ucast (le_bytes [n]) :: u8) = n"
    by (rule bit_word_eqI) (auto simp: le_bytes_def bit_simps dest: bit_imp_le_length)
  then have n: "(ucast (le_bytes [n]) :: u8) \<noteq> 0" if "n \<noteq> 0" using that by simp
  have "run_items raw accept (x @ post) q = Faults OutOfBounds"
  proof (cases "x = [(i, bs)] \<and> tag_of i = HID_RI_PUSH")
    case True
    then show ?thesis using q(2) by (simp add: push_faults)
  next
    case False
    with assms(6) have x: "x = (c, [n]) # us @ [(i, bs)]" "tag_of c = HID_RI_REPORT_COUNT" "n \<noteq> 0" "length us = 8"
      "list_all (\<lambda>(j, _). tag_of j = HID_RI_USAGE) us" "tag_of i \<in> {HID_RI_INPUT, HID_RI_OUTPUT, HID_RI_FEATURE}"
      "UsageListSize q = 0" using q(3) by blast+
    from eight_usages_fault [OF q(2) x(7,2) n [OF x(3)] x(5,4,6), of raw accept bs post] show ?thesis by (simp add: x(1))
  qed
  then show ?thesis
    using process_items [OF assms(7,8), of raw accept vars "[]"] q(1) by (simp add: run_items_append)
qed

lemma hid_descriptor_overruns_witness:
  "USB_ProcessHIDReport item_zero (\<lambda>_. True) sample_variables (encode_items ([(0x75, [1]), (0x95, [8])] @ [(0xA4, [])])) 5 =
     Faults OutOfBounds"
proof -
  have p: "whole_items [(0x75, [1]), (0x95, [8])]" "fits 0 [(0x75, [1]), (0x95, [8])]"
    "whole_items ([(0x75, [1]), (0x95, [8])] @ [(0xA4, [])] @ [])" by code_simp+
  have "\<exists>d. USB_ProcessHIDReport item_zero (\<lambda>_. True) sample_variables (encode_items [(0x75, [1]), (0x95, [8])])
      (of_nat (length (encode_items [(0x75, [1]), (0x95, [8])]))) = Returns (HID_PARSE_NoUnfilteredReportItems, d)"
    using process_items [OF p(1), of item_zero "\<lambda>_. True" sample_variables "[]"]
    by (simp add: hid_item_def set_attributes_def set_table_def sample_variables_def hid_finish_def info_zero_def end_item_def)
  then show ?thesis
    using hid_descriptor_overruns [OF p(1,2) sample_variables_ok _ _ _ p(3), where i = "0xA4" and bs = "[]"] by auto
qed

end
