(* ===== verification/HidReports.thy ===== *)
theory HidReports
  imports HidClaims
begin

text \<open>
  Where the HID report parser places the items of a descriptor in their reports, and what reading
  and writing an item does to the bytes of a report.
\<close>

unbundle bit_operations_syntax

subsection \<open>The layout of the reports\<close>

record hid_view =
  sizes :: "HID_ReportSizeInfo_t list"
  stored :: "HID_ReportItem_t list"
  reports :: nat
  total :: nat
  ids :: bool
  current :: nat
  table_id :: u8
  field :: nat
  count :: nat

definition view :: "hid_parser \<Rightarrow> hid_view" where
  "view p =
     \<lparr>sizes = ReportIDSizes (ParserData p), stored = ReportItems (ParserData p),
      reports = unat (TotalDeviceReports (ParserData p)), total = unat (TotalReportItems (ParserData p)),
      ids = UsingReportIDs (ParserData p), current = CurrReportIDInfo p,
      table_id = TableReportID (StateTable p ! 0), field = unat (BitSize (TableAttributes (StateTable p ! 0))),
      count = unat (ReportCount (StateTable p ! 0))\<rparr>"

lemma view_sel:
  "sizes (view p) = ReportIDSizes (ParserData p)" "stored (view p) = ReportItems (ParserData p)"
  "reports (view p) = unat (TotalDeviceReports (ParserData p))" "total (view p) = unat (TotalReportItems (ParserData p))"
  "ids (view p) = UsingReportIDs (ParserData p)" "current (view p) = CurrReportIDInfo p"
  "table_id (view p) = TableReportID (StateTable p ! 0)"
  "field (view p) = unat (BitSize (TableAttributes (StateTable p ! 0)))" "count (view p) = unat (ReportCount (StateTable p ! 0))"
  by (simp_all add: view_def)

definition item_end :: "HID_ReportItem_t \<Rightarrow> nat" where
  "item_end it = unat (BitOffset it) + unat (BitSize (Attributes it))"

definition same_report :: "HID_ReportItem_t \<Rightarrow> HID_ReportItem_t \<Rightarrow> bool" where
  "same_report a b \<longleftrightarrow> ItemReportID a = ItemReportID b \<and> ItemType a = ItemType b"

text \<open>The report of an item is long enough, and the items of a report follow one another.\<close>

definition item_covered :: "hid_view \<Rightarrow> HID_ReportItem_t \<Rightarrow> bool" where
  "item_covered w it \<longleftrightarrow> ItemType it \<le> 2 \<and> (\<exists>r < reports w. SizeReportID (sizes w ! r) = ItemReportID it \<and>
     item_end it \<le> unat (ReportSizeBits (sizes w ! r) ! unat (ItemType it)))"

definition laid_out :: "hid_view \<Rightarrow> nat \<Rightarrow> bool" where
  "laid_out w b \<longleftrightarrow> current w < reports w \<and>
     (\<forall>i j. i < j \<longrightarrow> j < reports w \<longrightarrow> SizeReportID (sizes w ! i) \<noteq> SizeReportID (sizes w ! j)) \<and>
     SizeReportID (sizes w ! current w) = table_id w \<and>
     (\<forall>r < 10. \<forall>t < 3. unat (ReportSizeBits (sizes w ! r) ! t) \<le> b) \<and>
     (\<not> ids w \<longrightarrow> reports w = 1) \<and>
     (\<forall>k < total w. item_covered w (stored w ! k)) \<and>
     (\<forall>k < total w. \<forall>l < k. same_report (stored w ! l) (stored w ! k) \<longrightarrow>
        item_end (stored w ! l) \<le> unat (BitOffset (stored w ! k)))"

lemma laid_out_sizes [simp]:
  "laid_out (w\<lparr>field := x\<rparr>) b = laid_out w b" "laid_out (w\<lparr>count := x\<rparr>) b = laid_out w b"
  by (simp_all add: laid_out_def item_covered_def)

lemma laid_out_mono: "laid_out w b \<Longrightarrow> b \<le> c \<Longrightarrow> laid_out w c"
  unfolding laid_out_def by (meson order_trans)

text \<open>Operations that leave the view alone.\<close>

lemma view_locals [simp]:
  "view (p\<lparr>UsageList := us\<rparr>) = view p" "view (p\<lparr>UsageListSize := n\<rparr>) = view p"
  "view (p\<lparr>UsageMinMax := m\<rparr>) = view p" "view (p\<lparr>CurrCollectionPath := c\<rparr>) = view p"
  "view (p\<lparr>CurrStateTable := i\<rparr>) = view p"
  "view (p\<lparr>ParserData := d\<lparr>CollectionPaths := cs\<rparr>\<rparr>) = view (p\<lparr>ParserData := d\<rparr>)"
  by (simp_all add: view_def)

lemma view_table:
  assumes "parser_ok p" "set_table f p = Returns p1"
  shows "view p1 = (view p)\<lparr>table_id := TableReportID (f (StateTable p ! 0)),
    field := unat (BitSize (TableAttributes (f (StateTable p ! 0)))), count := unat (ReportCount (f (StateTable p ! 0)))\<rparr>"
proof -
  have "p1 = p\<lparr>StateTable := (StateTable p)[0 := f (StateTable p ! 0)]\<rparr>" "StateTable p \<noteq> []"
    using assms set_table_ok(1) [OF assms(1), of f] by (auto simp: parser_ok_def)
  then show ?thesis by (simp add: view_def)
qed

lemma view_attributes:
  assumes "parser_ok p" "set_attributes f p = Goes p1"
  shows "view p1 = (view p)\<lparr>field := unat (BitSize (f (TableAttributes (StateTable p ! 0))))\<rparr>"
proof -
  from assms(2) have "set_table (TableAttributes_update f) p = Returns p1" by (auto simp: set_attributes_def and_then_Returns)
  from view_table [OF assms(1) this] show ?thesis by (simp add: view_def)
qed

lemma view_usage: "hid_usage v p = Goes p1 \<Longrightarrow> view p1 = view p"
  by (auto simp: hid_usage_def and_then_Returns split: if_splits)

lemma view_end_collection: "hid_end_collection p = Goes p1 \<Longrightarrow> view p1 = view p"
  by (auto simp: hid_end_collection_def and_then_Returns split: option.splits)

lemma view_next_usage: "next_usage old p = Returns (u, p1) \<Longrightarrow>
    view p1 = view p \<and> StateTable p1 = StateTable p \<and> ParserData p1 = ParserData p \<and> CurrReportIDInfo p1 = CurrReportIDInfo p \<and>
    CurrStateTable p1 = CurrStateTable p"
  by (auto simp: next_usage_def and_then_Returns split: if_splits)

lemma view_open_path: "open_path p = Returns (f, p1) \<Longrightarrow> view p1 = view p \<and> StateTable p1 = StateTable p"
proof (cases "CurrCollectionPath p")
  case (Some c)
  assume "open_path p = Returns (f, p1)"
  then obtain g where "free_path (CollectionPaths (ParserData p)) HID_MAX_COLLECTIONS 1 = Returns g"
    "Returns (f, p1) = (case g of None \<Rightarrow> Returns (None, p\<lparr>CurrCollectionPath := Some (HID_MAX_COLLECTIONS - 1)\<rparr>)
      | Some i \<Rightarrow> Returns (Some i, p\<lparr>ParserData := ParserData p\<lparr>CollectionPaths :=
          (CollectionPaths (ParserData p))[i := (CollectionPaths (ParserData p) ! i)\<lparr>Parent := Some c\<rparr>]\<rparr>\<rparr>))"
    unfolding open_path_def Some Let_def and_then_Returns option.case by (elim exE conjE) simp
  then show ?thesis by (cases g) (simp_all add: view_def)
qed (simp add: open_path_def)

lemma view_collection: "hid_collection v p = Goes p1 \<Longrightarrow> view p1 = view p"
  by (auto simp: hid_collection_def and_then_Returns Let_def split: option.splits dest!: view_open_path view_next_usage)
    (simp add: view_def)

subsection \<open>Operations that place items\<close>

lemma find_report_from_0:
  assumes "k \<le> length rs"
  obtains f where "find_report rs r k 0 = Returns f" "\<And>j. f = Some j \<Longrightarrow> j < k \<and> SizeReportID (rs ! j) = r"
    "f = None \<Longrightarrow> \<forall>j < k. SizeReportID (rs ! j) \<noteq> r"
proof -
  have "0 + k \<le> length rs" using assms by simp
  from find_report_ok [OF this, of r] that show ?thesis by fastforce
qed

lemma laid_out_use:
  assumes "laid_out w b" "length (sizes w) = 10" "reports w \<le> 10" "i < reports w" "ids w \<or> total w = 0"
    and "if ids w then SizeReportID (sizes w ! i) = r else i = current w"
  shows "laid_out (w\<lparr>sizes := (sizes w)[i := (sizes w ! i)\<lparr>SizeReportID := r\<rparr>], current := i, table_id := r, ids := True\<rparr>) b"
proof (cases "ids w")
  case True
  then have "(sizes w)[i := (sizes w ! i)\<lparr>SizeReportID := r\<rparr>] = sizes w"
    using assms(6) by (metis HID_ReportSizeInfo_t.surjective HID_ReportSizeInfo_t.update_convs(1) list_update_id)
  then show ?thesis using assms True by (simp add: laid_out_def item_covered_def)
next
  case False
  then have "reports w = 1" "total w = 0" "i = 0" using assms by (auto simp: laid_out_def)
  then show ?thesis using assms by (auto simp: laid_out_def nth_list_update)
qed

lemma laid_out_new_report:
  assumes "laid_out w b" "length (sizes w) = 10" "reports w < 10" "ids w"
    and "\<forall>j < reports w. SizeReportID (sizes w ! j) \<noteq> r"
  shows "laid_out (w\<lparr>sizes := (sizes w)[reports w := sizeinfo_zero\<lparr>SizeReportID := r\<rparr>], reports := reports w + 1,
      current := reports w, table_id := r\<rparr>) b"
proof -
  let ?s = "(sizes w)[reports w := sizeinfo_zero\<lparr>SizeReportID := r\<rparr>]"
  have n: "?s ! i = (if i = reports w then sizeinfo_zero\<lparr>SizeReportID := r\<rparr> else sizes w ! i)" if "i < 10" for i
    using that assms(2) by (simp add: nth_list_update)
  have z: "ReportSizeBits (sizeinfo_zero\<lparr>SizeReportID := r\<rparr>) ! t = 0" if "t < 3" for t
    using that by (auto simp: sizeinfo_zero_def less_Suc_eq numeral_3_eq_3)
  have "item_covered (w\<lparr>sizes := ?s, reports := reports w + 1, current := reports w, table_id := r\<rparr>) it"
    if c: "item_covered w it" for it
  proof -
    obtain k where "k < reports w" "SizeReportID (sizes w ! k) = ItemReportID it"
      "item_end it \<le> unat (ReportSizeBits (sizes w ! k) ! unat (ItemType it))" "ItemType it \<le> 2"
      using c by (auto simp: item_covered_def)
    then show ?thesis using assms(3) n by (auto simp: item_covered_def intro!: exI [of _ k])
  qed
  moreover have "\<forall>k < 10. \<forall>t < 3. unat (ReportSizeBits (?s ! k) ! t) \<le> b"
    using assms(1) n z by (simp add: laid_out_def)
  moreover have "\<forall>i j. i < j \<longrightarrow> j < reports w + 1 \<longrightarrow> SizeReportID (?s ! i) \<noteq> SizeReportID (?s ! j)"
    using assms(1,3,5) n by (auto simp: laid_out_def less_Suc_eq)
  ultimately show ?thesis
    using assms(1,2,3,4) by (simp add: laid_out_def)
qed

lemma hid_report_id_laid_out:
  assumes "parser_ok p" "laid_out (view p) b" "UsingReportIDs (ParserData p) \<or> TotalReportItems (ParserData p) = 0"
    and "hid_report_id v p = Goes p1"
  shows "laid_out (view p1) b \<and> UsingReportIDs (ParserData p1) \<and> TotalReportItems (ParserData p1) = TotalReportItems (ParserData p) \<and>
    field (view p1) = field (view p) \<and> count (view p1) = count (view p)"
proof -
  let ?r = "ucast v :: u8" and ?d = "ParserData p"
  let ?p = "p\<lparr>StateTable := (StateTable p)[0 := TableReportID_update (\<lambda>_. ?r) (StateTable p ! 0)]\<rparr>"
  have t: "set_table (TableReportID_update (\<lambda>_. ?r)) p = Returns ?p" using assms(1) by (rule set_table_ok(1))
  have l: "StateTable p \<noteq> []" "length (ReportIDSizes ?d) = 10" "unat (TotalDeviceReports ?d) \<le> 10"
    using assms(1) by (auto simp: parser_ok_def info_ok_def word_le_nat_alt)
  have use: "laid_out (view q) b \<and> UsingReportIDs (ParserData q) \<and> TotalReportItems (ParserData q) = TotalReportItems ?d \<and>
      field (view q) = field (view p) \<and> count (view q) = count (view p)"
    if "use_report ?r i ?p = Goes q" "i < reports (view p)"
      "if ids (view p) then SizeReportID (sizes (view p) ! i) = ?r else i = current (view p)" for i q
  proof -
    have "view q = (view p)\<lparr>sizes := (sizes (view p))[i := (sizes (view p) ! i)\<lparr>SizeReportID := ?r\<rparr>],
        current := i, table_id := ?r, ids := True\<rparr>" "ParserData q = ?d\<lparr>UsingReportIDs := True, ReportIDSizes := ReportIDSizes (ParserData q)\<rparr>"
      using that(1) l by (auto simp: use_report_def Let_def and_then_Returns fetch_def view_def split: if_splits)
    moreover have "ids (view p) \<or> total (view p) = 0" using assms(3) by (auto simp: view_def)
    ultimately show ?thesis
      using laid_out_use [OF assms(2) _ _ that(2) _ that(3)] l by (simp add: view_def)
  qed
  have run: "hid_report_id v p =
     (if \<not> UsingReportIDs ?d then use_report ?r (CurrReportIDInfo p) ?p
      else and_then (find_report (ReportIDSizes ?d) ?r (unat (TotalDeviceReports ?d)) 0) (\<lambda>f. case f of
        Some i \<Rightarrow> use_report ?r i ?p
      | None \<Rightarrow>
          if TotalDeviceReports ?d = HID_MAX_REPORT_IDS then Stops HID_PARSE_InsufficientReportIDItems ?p
          else let n = unat (TotalDeviceReports ?d) in
            and_then (store (ReportIDSizes ?d) n sizeinfo_zero) (\<lambda>rs.
              use_report ?r n (?p\<lparr>ParserData := ?d\<lparr>ReportIDSizes := rs, TotalDeviceReports := TotalDeviceReports ?d + 1\<rparr>\<rparr>))))"
    by (simp add: hid_report_id_def t Let_def)
  have "unat (TotalDeviceReports ?d) \<le> length (ReportIDSizes ?d)" using l by simp
  then obtain f where f: "find_report (ReportIDSizes ?d) ?r (unat (TotalDeviceReports ?d)) 0 = Returns f"
    "\<And>j. f = Some j \<Longrightarrow> j < reports (view p) \<and> SizeReportID (sizes (view p) ! j) = ?r"
    "f = None \<Longrightarrow> \<forall>j < reports (view p). SizeReportID (sizes (view p) ! j) \<noteq> ?r"
    unfolding view_sel by (rule find_report_from_0 [where r = ?r]) blast
  show ?thesis
  proof (cases "UsingReportIDs ?d")
    case False
    then have "use_report ?r (CurrReportIDInfo p) ?p = Goes p1" using assms(4) unfolding run by simp
    moreover have "CurrReportIDInfo p < reports (view p)" using assms(2) by (simp add: laid_out_def view_sel)
    ultimately show ?thesis by (rule use) (use False in \<open>simp add: view_sel\<close>)
  next
    case ids: True
    show ?thesis
    proof (cases f)
      case (Some i)
      then have "use_report ?r i ?p = Goes p1" using assms(4) ids f(1) unfolding run by simp
      then show ?thesis by (rule use) (use ids f(2) [OF Some] in \<open>simp_all add: view_sel\<close>)
    next
      case None
      then have u: "TotalDeviceReports ?d \<noteq> 10" using assms(4) ids f(1) by (auto simp: run hid_limits)
      then have lt: "unat (TotalDeviceReports ?d) < 10"
        using u8_below [of "TotalDeviceReports ?d" 10] l(3) by (simp add: word_le_nat_alt)
      have n: "unat (TotalDeviceReports ?d + 1) = unat (TotalDeviceReports ?d) + 1" using lt by (simp add: u8_next)
      have v: "view p1 = (view p)\<lparr>sizes := (sizes (view p))[reports (view p) := sizeinfo_zero\<lparr>SizeReportID := ?r\<rparr>],
          reports := reports (view p) + 1, current := reports (view p), table_id := ?r\<rparr> \<and>
          UsingReportIDs (ParserData p1) \<and> TotalReportItems (ParserData p1) = TotalReportItems ?d"
        using assms(4) ids f(1) None u lt l n
        by (auto simp: run hid_limits use_report_def Let_def view_def)
      show ?thesis
        using laid_out_new_report [OF assms(2), of ?r] v lt l(2) f(3) None ids by (simp add: view_def)
    qed
  qed
qed

lemma laid_out_item:
  assumes "laid_out w b" "length (sizes w) = 10" "reports w \<le> 10" "length (ReportSizeBits (sizes w ! current w)) = 3"
    and "ItemType it \<le> 2" "BitOffset it = ReportSizeBits (sizes w ! current w) ! unat (ItemType it)"
    and "ItemReportID it = table_id w" "b + unat (BitSize (Attributes it)) < 65536"
    and "total w < length (stored w)"
  shows "laid_out (w\<lparr>sizes := (sizes w)[current w := (sizes w ! current w)\<lparr>ReportSizeBits :=
      (ReportSizeBits (sizes w ! current w))[unat (ItemType it) := BitOffset it + ucast (BitSize (Attributes it))]\<rparr>],
      stored := (stored w)[total w := it], total := if keep then total w + 1 else total w\<rparr>)
    (b + unat (BitSize (Attributes it)))"
proof -
  let ?c = "current w" and ?t = "unat (ItemType it)"
  let ?new = "BitOffset it + ucast (BitSize (Attributes it))"
  let ?s = "(sizes w)[?c := (sizes w ! ?c)\<lparr>ReportSizeBits := (ReportSizeBits (sizes w ! ?c))[?t := ?new]\<rparr>]"
  have c: "?c < reports w" "?c < 10" using assms(1,3) by (auto simp: laid_out_def)
  have t: "?t < 3" using assms(5) by (simp add: word_le_nat_alt)
  have bound: "unat (BitOffset it) \<le> b" using assms(1,6) c t by (auto simp: laid_out_def)
  then have new: "unat ?new = unat (BitOffset it) + unat (BitSize (Attributes it))"
    using assms(8) by (simp add: unat_word_ariths)
  have id: "SizeReportID (?s ! i) = SizeReportID (sizes w ! i)" if "i < 10" for i
    using that c assms(2) by (auto simp: nth_list_update)
  have bits: "ReportSizeBits (?s ! i) ! u = (if i = ?c \<and> u = ?t then ?new else ReportSizeBits (sizes w ! i) ! u)"
    if "i < 10" "u < 3" for i u
    using that c t assms(2,4) by (auto simp: nth_list_update)
  have grow: "unat (ReportSizeBits (sizes w ! i) ! u) \<le> unat (ReportSizeBits (?s ! i) ! u)" if "i < 10" "u < 3" for i u
    using bits [OF that] new assms(6) by simp
  define w' where "w' = w\<lparr>sizes := ?s, stored := (stored w)[total w := it], total := if keep then total w + 1 else total w\<rparr>"
  have cov: "item_covered w' x" if x: "item_covered w x" for x
  proof -
    obtain k where k: "k < reports w" "SizeReportID (sizes w ! k) = ItemReportID x" "ItemType x \<le> 2"
      "item_end x \<le> unat (ReportSizeBits (sizes w ! k) ! unat (ItemType x))"
      using x by (auto simp: item_covered_def)
    have "k < 10" "unat (ItemType x) < 3" using k assms(3) by (simp_all add: word_le_nat_alt)
    then show ?thesis using k id grow [of k "unat (ItemType x)"]
      by (auto simp: item_covered_def w'_def intro!: exI [of _ k])
  qed
  have this_cov: "item_covered w' it"
    using c t assms(1,5,7) id [OF c(2)] bits [OF c(2) t] new
    by (auto simp: item_covered_def w'_def item_end_def laid_out_def intro!: exI [of _ ?c])
  have before: "item_end x \<le> unat (BitOffset it)" if x: "item_covered w x" and same: "same_report x it" for x
  proof -
    obtain k where k: "k < reports w" "SizeReportID (sizes w ! k) = ItemReportID x"
      "item_end x \<le> unat (ReportSizeBits (sizes w ! k) ! unat (ItemType x))"
      using x by (auto simp: item_covered_def)
    have "SizeReportID (sizes w ! k) = SizeReportID (sizes w ! ?c)"
      using k(2) same assms(1,7) by (simp add: same_report_def laid_out_def)
    then have "k = ?c" using assms(1) k(1) c(1) by (cases k ?c rule: linorder_cases) (fastforce simp: laid_out_def)+
    then show ?thesis using k(3) same assms(6) by (simp add: same_report_def)
  qed
  have nth: "stored w' ! k = (if k = total w then it else stored w ! k)" if "k \<le> total w" for k
    using assms(9) that by (simp add: w'_def nth_list_update)
  have old: "\<forall>k < total w. item_covered w (stored w ! k)"
    "\<forall>k < total w. \<forall>l < k. same_report (stored w ! l) (stored w ! k) \<longrightarrow> item_end (stored w ! l) \<le> unat (BitOffset (stored w ! k))"
    using assms(1) by (auto simp: laid_out_def)
  have tot: "total w' \<le> total w + 1" by (simp add: w'_def)
  have "\<forall>k < total w'. item_covered w' (stored w' ! k)"
    using old(1) cov this_cov nth tot by (metis Suc_eq_plus1 less_Suc_eq less_Suc_eq_le less_le_trans nat_neq_iff)
  moreover have "\<forall>k < total w'. \<forall>l < k. same_report (stored w' ! l) (stored w' ! k) \<longrightarrow>
      item_end (stored w' ! l) \<le> unat (BitOffset (stored w' ! k))"
  proof (intro allI impI)
    fix k l assume k: "k < total w'" "l < k" "same_report (stored w' ! l) (stored w' ! k)"
    then have le: "k \<le> total w" "l < total w" using tot by auto
    show "item_end (stored w' ! l) \<le> unat (BitOffset (stored w' ! k))"
      using le k old before nth [OF le(1)] nth [of l] by (cases "k = total w") auto
  qed
  moreover have "\<forall>i < 10. \<forall>u < 3. unat (ReportSizeBits (?s ! i) ! u) \<le> b + unat (BitSize (Attributes it))"
    using assms(1) bits new bound by (auto simp: laid_out_def intro: trans_le_add1)
  moreover have "\<forall>i j. i < j \<longrightarrow> j < reports w \<longrightarrow> SizeReportID (?s ! i) \<noteq> SizeReportID (?s ! j)"
    using assms(1,3) id by (auto simp: laid_out_def)
  moreover have "SizeReportID (?s ! ?c) = table_id w" using assms(1) id [OF c(2)] by (simp add: laid_out_def)
  ultimately have "laid_out w' (b + unat (BitSize (Attributes it)))"
    using assms(1) c by (simp add: laid_out_def w'_def)
  then show ?thesis by (simp add: w'_def)
qed

lemma new_item_laid_out:
  assumes "parser_ok p" "laid_out (view p) b" "b + field (view p) < 65536"
    and "new_item raw accept tag v p = Goes q"
  shows "laid_out (view q) (b + field (view p)) \<and> field (view q) = field (view p) \<and>
    count (view q) = count (view p) \<and> ids (view q) = ids (view p)"
proof -
  let ?t = "StateTable p ! 0"
  have l: "length (StateTable p) = 2" "CurrStateTable p = 0" "length (ReportIDSizes (ParserData p)) = 10"
    "unat (TotalDeviceReports (ParserData p)) \<le> 10" "CurrReportIDInfo p < 10" "length (ReportItems (ParserData p)) = 20"
    "length (ReportSizeBits (ReportIDSizes (ParserData p) ! CurrReportIDInfo p)) = 3"
    using assms(1) by (auto simp: parser_ok_def info_ok_def word_le_nat_alt)
  have ty: "unat (item_type tag) < 3" "item_type tag \<le> 2" by (simp_all add: item_type_def)
  obtain u p1 where n: "next_usage (Usage (ItemUsage (TableAttributes ?t))) p = Returns (u, p1)"
    using assms(4) l by (auto simp: new_item_def and_then_Returns)
  note v = view_next_usage [OF n]
  define it where "it = raw\<lparr>Attributes := (TableAttributes ?t)\<lparr>ItemUsage := (ItemUsage (TableAttributes ?t))\<lparr>Usage := u\<rparr>\<rparr>,
      ItemFlags := ucast v, CollectionPath := CurrCollectionPath p1, ItemReportID := TableReportID ?t,
      ItemType := item_type tag,
      BitOffset := ReportSizeBits (ReportIDSizes (ParserData p) ! CurrReportIDInfo p) ! unat (item_type tag)\<rparr>"
  let ?keep = "v AND HID_IOF_CONSTANT = 0 \<and> accept it"
  have tot: "TotalReportItems (ParserData p) \<noteq> 20"
    using assms(4) n ty l v by (auto simp: new_item_def Let_def hid_limits)
  then have lt: "unat (TotalReportItems (ParserData p)) < 20"
    using u8_below [of "TotalReportItems (ParserData p)" 20] assms(1) by (simp add: parser_ok_def info_ok_def)
  have "laid_out ((view p)\<lparr>sizes := (sizes (view p))[current (view p) := (sizes (view p) ! current (view p))\<lparr>ReportSizeBits :=
      (ReportSizeBits (sizes (view p) ! current (view p)))[unat (ItemType it) := BitOffset it + ucast (BitSize (Attributes it))]\<rparr>],
      stored := (stored (view p))[total (view p) := it], total := if ?keep then total (view p) + 1 else total (view p)\<rparr>)
    (b + unat (BitSize (Attributes it)))"
    by (rule laid_out_item [OF assms(2)]) (use l ty lt assms(3) in \<open>simp_all add: view_sel it_def\<close>)
  moreover have "view q = (view p)\<lparr>sizes := (sizes (view p))[current (view p) := (sizes (view p) ! current (view p))\<lparr>ReportSizeBits :=
      (ReportSizeBits (sizes (view p) ! current (view p)))[unat (ItemType it) := BitOffset it + ucast (BitSize (Attributes it))]\<rparr>],
      stored := (stored (view p))[total (view p) := it], total := if ?keep then total (view p) + 1 else total (view p)\<rparr> \<and>
      field (view q) = field (view p) \<and> count (view q) = count (view p) \<and> ids (view q) = ids (view p)"
    using assms(4) n ty l v tot lt unfolding it_def
    by (auto simp: new_item_def Let_def hid_limits view_def u8_next split: if_splits)
  moreover have "unat (BitSize (Attributes it)) = field (view p)" by (simp add: it_def view_sel)
  ultimately show ?thesis by simp
qed

lemma new_items_laid_out:
  "parser_ok p \<Longrightarrow> UsageListSize p \<le> 7 \<Longrightarrow> laid_out (view p) b \<Longrightarrow> b + n * field (view p) < 65536 \<Longrightarrow>
    new_items raw accept tag v n p = Goes q \<Longrightarrow>
    laid_out (view q) (b + n * field (view p)) \<and> field (view q) = field (view p) \<and>
    count (view q) = count (view p) \<and> ids (view q) = ids (view p)"
proof (induction n arbitrary: p b)
  case (Suc n)
  from Suc.prems(5) obtain p1 where p1: "new_item raw accept tag v p = Goes p1" "new_items raw accept tag v n p1 = Goes q"
    by (auto simp: and_then_Returns split: if_splits)
  have "step_ok (Goes p1) 7" using new_item_ok [OF Suc.prems(1,2)] p1(1) by metis
  then have ok: "parser_ok p1" "UsageListSize p1 \<le> 7" by simp_all
  have st: "laid_out (view p1) (b + field (view p))" "field (view p1) = field (view p)"
    "count (view p1) = count (view p)" "ids (view p1) = ids (view p)"
    using new_item_laid_out [OF Suc.prems(1,3) _ p1(1)] Suc.prems(4) by simp_all
  have "b + field (view p) + n * field (view p1) < 65536" using Suc.prems(4) st(2) by simp
  from Suc.IH [OF ok st(1) this p1(2)] st show ?case by (simp add: algebra_simps)
qed simp

lemma hid_item_laid_out:
  assumes "parser_ok p" "UsageListSize p \<le> 7" "laid_out (view p) b" "hid_item raw accept i v p = Goes q"
    and "tag_of i = HID_RI_REPORT_ID \<Longrightarrow> ids (view p) \<or> total (view p) = 0"
    and "tag_of i \<in> {HID_RI_INPUT, HID_RI_OUTPUT, HID_RI_FEATURE} \<Longrightarrow> b + count (view p) * field (view p) < 65536"
    and "tag_of i \<noteq> HID_RI_PUSH"
  shows "laid_out (view q) (if tag_of i \<in> {HID_RI_INPUT, HID_RI_OUTPUT, HID_RI_FEATURE}
        then b + count (view p) * field (view p) else b) \<and>
    field (view q) = (if tag_of i = HID_RI_REPORT_SIZE then unat (ucast v :: u8) else field (view p)) \<and>
    count (view q) = (if tag_of i = HID_RI_REPORT_COUNT then unat (ucast v :: u8) else count (view p)) \<and>
    ids (view q) = (ids (view p) \<or> tag_of i = HID_RI_REPORT_ID) \<and>
    (tag_of i \<notin> {HID_RI_INPUT, HID_RI_OUTPUT, HID_RI_FEATURE} \<longrightarrow> total (view q) = total (view p))"
proof -
  define t where "t = tag_of i"
  let ?data = "t \<in> {HID_RI_INPUT, HID_RI_OUTPUT, HID_RI_FEATURE}"
  have l: "StateTable p \<noteq> []" "CurrStateTable p = 0" using assms(1) by (auto simp: parser_ok_def)
  let ?plain = "{HID_RI_REPORT_SIZE, HID_RI_LOGICAL_MINIMUM, HID_RI_LOGICAL_MAXIMUM, HID_RI_PHYSICAL_MINIMUM,
    HID_RI_PHYSICAL_MAXIMUM, HID_RI_UNIT_EXPONENT, HID_RI_UNIT}"
  have item: "hid_item raw accept i v p = Goes q" by (rule assms(4))
  have plain: "\<exists>f. set_attributes f p = Goes q \<and> (t = HID_RI_REPORT_SIZE \<and> f = BitSize_update (\<lambda>_. ucast v) \<or>
          t \<noteq> HID_RI_REPORT_SIZE \<and> (\<forall>a. BitSize (f a) = BitSize a))" if "t \<in> ?plain"
    using item that unfolding hid_item_def Let_def t_def [symmetric]
    by (elim insertE emptyE) (simp; (intro exI conjI, assumption, simp)?)+
  have page: "view q = view p" if pg: "t = HID_RI_USAGE_PAGE"
  proof -
    obtain p1 f g where f: "p1 = p \<or> set_attributes f p = Goes p1" "set_attributes g p1 = Goes q"
      "\<forall>a. BitSize (f a) = BitSize a" "\<forall>a. BitSize (g a) = BitSize a"
    proof -
      let ?f = "ItemUsage_update (Page_update (\<lambda>_. ucast (drop_bit 16 v)))"
      let ?g = "ItemUsage_update (Page_update (\<lambda>_. ucast v))"
      have "and_then (if i AND HID_RI_DATA_SIZE_MASK = 3 then set_attributes ?f p else Goes p)
          (\<lambda>(_, p1). set_attributes ?g p1) = Goes q"
        using item pg unfolding hid_item_def Let_def t_def [symmetric] by simp
      then obtain r p1 where "(if i AND HID_RI_DATA_SIZE_MASK = 3 then set_attributes ?f p else Goes p) = Returns (r, p1)"
        "set_attributes ?g p1 = Goes q" by (auto simp: and_then_Returns)
      moreover from this(1) have "r = None" by (auto simp: set_attributes_def and_then_Returns split: if_splits)
      ultimately show ?thesis by (intro that [of p1 ?f ?g]) (auto split: if_splits)
    qed
    have "parser_ok p1" using f(1) assms(1) set_attributes_ok [OF assms(1,2), of f] by auto
    have "view p1 = view p" using f(1,3) view_attributes [OF assms(1)] by (auto simp: view_def)
    with view_attributes [OF \<open>parser_ok p1\<close> f(2)] f(4) show ?thesis by (auto simp: view_def)
  qed
  have other: "view q = view p"
    if "t \<notin> ?plain" "\<not> ?data" "t \<noteq> HID_RI_REPORT_ID" "t \<noteq> HID_RI_REPORT_COUNT"
    using item that assms(7) page unfolding hid_item_def Let_def t_def [symmetric]
    by (auto simp: hid_pop_def split: if_splits dest: view_usage view_collection view_end_collection)
  consider (data) "?data" | (rid) "t = HID_RI_REPORT_ID" | (count) "t = HID_RI_REPORT_COUNT"
    | (attr) f where "set_attributes f p = Goes q" "\<not> ?data" "t \<noteq> HID_RI_REPORT_ID"
        "t \<noteq> HID_RI_REPORT_COUNT" "t = HID_RI_REPORT_SIZE \<and> f = BitSize_update (\<lambda>_. ucast v) \<or>
          t \<noteq> HID_RI_REPORT_SIZE \<and> (\<forall>a. BitSize (f a) = BitSize a)"
    | (same) "view q = view p" "\<not> ?data" "t \<notin> {HID_RI_REPORT_ID, HID_RI_REPORT_COUNT, HID_RI_REPORT_SIZE}"
  proof (cases "t \<in> ?plain")
    case True
    with plain attr show ?thesis by fastforce
  next
    case False
    with other same data rid count show ?thesis by fastforce
  qed
  then show ?thesis
  proof cases
    case data
    then have "new_items raw accept t v (count (view p)) p = Goes q"
      using item l unfolding t_def by (auto simp: hid_item_def Let_def hid_main_def view_sel)
    from new_items_laid_out [OF assms(1-3) _ this] assms(6) data show ?thesis unfolding t_def [symmetric] by auto
  next
    case rid
    then have "hid_report_id v p = Goes q" using item unfolding t_def by (simp add: hid_item_def Let_def)
    moreover have "UsingReportIDs (ParserData p) \<or> TotalReportItems (ParserData p) = 0"
      using assms(5) rid unfolding t_def by (simp add: view_sel unat_eq_0)
    ultimately have "laid_out (view q) b \<and> UsingReportIDs (ParserData q) \<and> TotalReportItems (ParserData q) = TotalReportItems (ParserData p) \<and>
        field (view q) = field (view p) \<and> count (view q) = count (view p)"
      using hid_report_id_laid_out [OF assms(1,3)] by metis
    then show ?thesis unfolding t_def [symmetric] using rid by (simp add: view_sel)
  next
    case count
    then have "set_table (ReportCount_update (\<lambda>_. ucast v)) p = Returns q"
      using item unfolding t_def by (auto simp: hid_item_def Let_def and_then_Returns)
    from view_table [OF assms(1) this] have "view q = (view p)\<lparr>count := unat (ucast v :: u8)\<rparr>"
      by (simp add: view_def)
    then show ?thesis unfolding t_def [symmetric] using assms(3) count by (simp add: view_sel) 
  next
    case attr
    then show ?thesis unfolding t_def [symmetric] using view_attributes [OF assms(1) attr(1)] assms(3) by (auto simp: view_sel)
  next
    case same
    then show ?thesis unfolding t_def [symmetric] using assms(3) by auto
  qed
qed

text \<open>The bits of all fields of a descriptor, and whether its report IDs precede its fields.\<close>

fun field_bits :: "nat \<Rightarrow> nat \<Rightarrow> report_item list \<Rightarrow> nat" where
  "field_bits f c [] = 0"
| "field_bits f c ((i, bs) # is) =
     (if tag_of i \<in> {HID_RI_INPUT, HID_RI_OUTPUT, HID_RI_FEATURE} then c * f + field_bits f c is
      else if tag_of i = HID_RI_REPORT_SIZE then field_bits (unat (ucast (le_bytes bs) :: u8)) c is
      else if tag_of i = HID_RI_REPORT_COUNT then field_bits f (unat (ucast (le_bytes bs) :: u8)) is
      else field_bits f c is)"

fun ids_first :: "bool \<Rightarrow> bool \<Rightarrow> report_item list \<Rightarrow> bool" where
  "ids_first used seen [] = True"
| "ids_first used seen ((i, bs) # is) =
     (if tag_of i = HID_RI_REPORT_ID then (used \<or> \<not> seen) \<and> ids_first True seen is
      else if tag_of i \<in> {HID_RI_INPUT, HID_RI_OUTPUT, HID_RI_FEATURE} then ids_first used True is
      else ids_first used seen is)"

lemma view_end_item [simp]: "view (end_item i p) = view p"
  by (simp add: end_item_def view_def)

lemma run_items_laid_out:
  "parser_ok p \<Longrightarrow> UsageListSize p \<le> n \<Longrightarrow> n \<le> 7 \<Longrightarrow> fits n is \<Longrightarrow> laid_out (view p) b \<Longrightarrow>
    b + field_bits (field (view p)) (count (view p)) is < 65536 \<Longrightarrow> ids_first (ids (view p)) fd is \<Longrightarrow>
    fd \<or> total (view p) = 0 \<Longrightarrow> run_items raw accept is p = Goes q \<Longrightarrow>
    \<exists>c. laid_out (view q) c"
proof (induction "is" arbitrary: p n b fd)
  case Nil
  then show ?case by auto
next
  case (Cons a "is")
  obtain i bs where a: "a = (i, bs)" by (cases a)
  obtain p1 where p1: "hid_item raw accept i (le_bytes bs) p = Goes p1" "run_items raw accept is (end_item i p1) = Goes q"
    using Cons.prems(9) by (auto simp: a and_then_Returns split: if_splits)
  let ?n = "if main_type i then 7 else if tag_of i = HID_RI_USAGE then n + 1 else n"
  let ?m = "if main_type i then 0 else if tag_of i = HID_RI_USAGE then n + 1 else n"
  let ?data = "tag_of i \<in> {HID_RI_INPUT, HID_RI_OUTPUT, HID_RI_FEATURE}"
  have "step_ok (hid_item raw accept i (le_bytes bs) p) ?n"
    using Cons.prems a by (intro hid_item_ok) simp_all
  then have ok: "parser_ok p1" "UsageListSize p1 \<le> ?n" unfolding p1(1) step_ok_Goes by simp_all
  have "n < 7 \<Longrightarrow> n + 1 \<le> 7" using u8_next [of n] by (simp add: word_le_nat_alt word_less_nat_alt)
  then have m: "UsageListSize (end_item i p1) \<le> ?m" "?m \<le> 7" "fits ?m is"
    using ok Cons.prems(3,4) a end_item_ok(2) [OF ok(1)] by (auto split: if_splits)
  have "UsageListSize p \<le> 7" using Cons.prems(2,3) by simp
  note st = hid_item_laid_out [OF Cons.prems(1) this Cons.prems(5) p1(1)]
  have rid: "ids (view p) \<or> total (view p) = 0" if "tag_of i = HID_RI_REPORT_ID"
    using Cons.prems(7,8) that by (auto simp: a)
  have size: "b + count (view p) * field (view p) < 65536" if ?data
    using Cons.prems(6) that by (auto simp: a)
  have "tag_of i \<noteq> HID_RI_PUSH" using Cons.prems(4) by (simp add: a)
  note st = st [OF rid size this]
  let ?b = "if ?data then b + count (view p) * field (view p) else b"
  have "laid_out (view (end_item i p1)) ?b" using st by simp
  moreover have "?b + field_bits (field (view (end_item i p1))) (count (view (end_item i p1))) is < 65536"
    using st Cons.prems(6) by (auto simp: a split: if_splits)
  moreover have "ids_first (ids (view (end_item i p1))) (fd \<or> ?data) is"
    using st Cons.prems(7) by (auto simp: a split: if_splits)
  moreover have "(fd \<or> ?data) \<or> total (view (end_item i p1)) = 0" using st Cons.prems(8) by auto
  ultimately show ?case using Cons.IH [OF end_item_ok(1) [OF ok(1)] m] p1(2) by blast
qed

lemma start_laid_out: "variables_ok vars \<Longrightarrow> laid_out (view (start_of vars)) 0 \<and> total (view (start_of vars)) = 0 \<and>
    ids (view (start_of vars)) = False \<and> field (view (start_of vars)) = 0 \<and> count (view (start_of vars)) = 0"
  by (auto simp: variables_ok_def hid_limits laid_out_def view_def info_zero_def sizeinfo_zero_def table_zero_def
      attributes_zero_def less_Suc_eq numeral_3_eq_3)

lemma whole_bytes: "unat b \<le> 8 * unat (b div 8 + (if b mod 8 \<noteq> 0 then 1 else 0))" for b :: u16
proof -
  have "unat b div 8 < 8192" by (rule less_mult_imp_div_less) simp
  then have u: "unat (b div 8 + (if b mod 8 \<noteq> 0 then 1 else 0)) = unat b div 8 + (if b mod 8 \<noteq> 0 then 1 else 0)"
    by (simp add: unat_word_ariths)
  have "b mod 8 = 0 \<Longrightarrow> unat b mod 8 = 0"
    using unat_mod [of b 8] by simp
  moreover have "unat b = 8 * (unat b div 8) + unat b mod 8" "unat b mod 8 < 8" by simp_all
  ultimately show ?thesis unfolding u by (cases "b mod 8 = 0") (simp_all del: mod_mult_div_eq mult_div_mod_eq)
qed

lemma report_size_of:
  assumes "length rs = 10" "\<forall>i < 10. length (ReportSizeBits (rs ! i)) = 3" "unat ty < 3"
    and "r < 10" "\<forall>i < r. SizeReportID (rs ! i) \<noteq> rid" "SizeReportID (rs ! r) = rid"
  shows "i + k = 10 \<Longrightarrow> i \<le> r \<Longrightarrow> \<exists>n. report_size rs rid ty k i = Returns n \<and> unat (ReportSizeBits (rs ! r) ! unat ty) \<le> 8 * unat n"
proof (induction k arbitrary: i)
  case (Suc k)
  let ?b = "ReportSizeBits (rs ! r) ! unat ty"
  show ?case
  proof (cases "i = r")
    case True
    have "unat ?b \<le> 8 * unat (?b div 8 + (if ?b mod 8 \<noteq> 0 then 1 else 0))" by (rule whole_bytes)
    then show ?thesis using True Suc.prems assms by (simp add: fetch_def)
  next
    case False
    then show ?thesis using Suc assms by (simp add: fetch_def)
  qed
qed (use assms(4) in simp)

text \<open>
  C30: the fields of a report never overlap. For a descriptor that the parser accepts, with report
  IDs before fields and reports of less than 64 kbit, every stored item ends inside the report whose
  size the parser gives for its ID and type, and an item stored earlier in the same report ends
  before it begins.
\<close>

theorem hid_items_laid_out:
  assumes "whole_items is" "fits 0 is" "ids_first False False is" "field_bits 0 0 is < 65536"
    and "length (encode_items is) < 65536" "variables_ok vars"
    and "USB_ProcessHIDReport raw accept vars (encode_items is) (of_nat (length (encode_items is))) =
      Returns (HID_PARSE_Successful, d)"
    and "k < unat (TotalReportItems d)"
  shows "\<exists>n. USB_GetHIDReportSize d (ItemReportID (ReportItems d ! k)) (ItemType (ReportItems d ! k)) = Returns n \<and>
    item_end (ReportItems d ! k) \<le> 8 * unat n \<and>
    (\<forall>l < k. same_report (ReportItems d ! l) (ReportItems d ! k) \<longrightarrow>
      item_end (ReportItems d ! l) \<le> unat (BitOffset (ReportItems d ! k)))"
proof -
  obtain q where q: "run_items raw accept is (start_of vars) = Goes q" "parser_ok q"
    using process_goes_on [OF assms(1,2,5,6,7)] by auto
  then have d: "d = ParserData q"
    using assms(7) process_items [OF assms(1,5), of raw accept vars "[]"] by (simp add: hid_finish_def)
  note start = start_laid_out [OF assms(6)]
  have "UsageListSize (start_of vars) \<le> 0" by simp
  then obtain c where c: "laid_out (view q) c"
    using run_items_laid_out [OF start_ok [OF assms(6)] _ _ assms(2), where b = 0 and fd = False, OF _ _ _ _ _ _ q(1)] start assms(3,4) by auto
  let ?it = "ReportItems d ! k" and ?rs = "ReportIDSizes d"
  have "item_covered (view q) ?it" using c assms(8) by (simp add: laid_out_def view_sel d)
  then obtain r where r: "r < unat (TotalDeviceReports d)" "SizeReportID (?rs ! r) = ItemReportID ?it"
    "item_end ?it \<le> unat (ReportSizeBits (?rs ! r) ! unat (ItemType ?it))" "ItemType ?it \<le> 2"
    by (auto simp: item_covered_def view_sel d)
  have i: "length ?rs = 10" "\<forall>i < 10. length (ReportSizeBits (?rs ! i)) = 3" "unat (TotalDeviceReports d) \<le> 10"
    using q(2) by (auto simp: parser_ok_def info_ok_def d word_le_nat_alt)
  have "unat (ItemType ?it) < 3" using r(4) by (simp add: word_le_nat_alt)
  moreover have "r < 10" using r(1) i(3) by simp
  moreover have "\<forall>i < r. SizeReportID (?rs ! i) \<noteq> ItemReportID ?it"
  proof -
    have "\<forall>i j. i < j \<longrightarrow> j < unat (TotalDeviceReports d) \<longrightarrow> SizeReportID (?rs ! i) \<noteq> SizeReportID (?rs ! j)"
      using c by (simp add: laid_out_def view_sel d)
    with r(1,2) show ?thesis by metis
  qed
  ultimately obtain n where "USB_GetHIDReportSize d (ItemReportID ?it) (ItemType ?it) = Returns n"
    "unat (ReportSizeBits (?rs ! r) ! unat (ItemType ?it)) \<le> 8 * unat n"
    using report_size_of [OF i(1,2) _ _ _ r(2), of "ItemType ?it" 0 10]
    by (auto simp: USB_GetHIDReportSize_def hid_limits)
  moreover have "\<forall>l < k. same_report (ReportItems d ! l) ?it \<longrightarrow> item_end (ReportItems d ! l) \<le> unat (BitOffset ?it)"
    using c assms(8) by (simp add: laid_out_def view_sel d)
  ultimately show ?thesis using r(3) by auto
qed

lemma returned:
  "(case x of Some (Inr (e, d)) \<Rightarrow> e = c \<and> P d | _ \<Rightarrow> False) \<Longrightarrow> \<exists>d. x = Returns (c, d) \<and> P d"
  by (auto split: option.splits sum.splits)

lemma mouse_returns:
  "\<exists>d. USB_ProcessHIDReport item_zero (\<lambda>_. True) sample_variables (encode_items mouse_items) 37 =
     Returns (HID_PARSE_Successful, d) \<and> TotalReportItems d = 5"
  by (rule returned) code_simp

lemma hid_items_laid_out_witness:
  "\<exists>d n. USB_ProcessHIDReport item_zero (\<lambda>_. True) sample_variables (encode_items mouse_items) 37 =
      Returns (HID_PARSE_Successful, d) \<and> TotalReportItems d = 5 \<and>
    USB_GetHIDReportSize d (ItemReportID (ReportItems d ! 4)) (ItemType (ReportItems d ! 4)) = Returns n \<and>
    item_end (ReportItems d ! 4) \<le> 8 * unat n"
proof -
  obtain d where d: "USB_ProcessHIDReport item_zero (\<lambda>_. True) sample_variables (encode_items mouse_items) 37 =
      Returns (HID_PARSE_Successful, d)" "TotalReportItems d = 5"
    using mouse_returns by (elim exE conjE) (rule that)
  have "ids_first False False mouse_items" by code_simp
  moreover have "field_bits 0 0 mouse_items = 24" by (simp add: mouse_items_def le_bytes_def)
  then have "field_bits 0 0 mouse_items < 65536" by simp
  moreover have "length (encode_items mouse_items) < 65536" "of_nat (length (encode_items mouse_items)) = (37 :: u16)"
    "4 < unat (TotalReportItems d)"
    using d(2) unfolding mouse_ok(3) by simp_all
  ultimately have "\<exists>n. USB_GetHIDReportSize d (ItemReportID (ReportItems d ! 4)) (ItemType (ReportItems d ! 4)) = Returns n \<and>
      item_end (ReportItems d ! 4) \<le> 8 * unat n"
    using hid_items_laid_out [OF mouse_ok(1,2) _ _ _ sample_variables_ok, of item_zero "\<lambda>_. True" d 4] d(1) by metis
  with d show ?thesis by blast
qed

subsection \<open>Values in reports\<close>

text \<open>A report: the ID, when there is one, and the bytes with the bits of the fields.\<close>

definition report_of :: "u8 \<Rightarrow> u8 list \<Rightarrow> u8 list" where
  "report_of r bs = (if r = 0 then bs else r # bs)"

definition report_bit :: "u8 list \<Rightarrow> nat \<Rightarrow> bool" where
  "report_bit bs n = bit (bs ! (n div 8)) (n mod 8)"

lemma u16_next: "unat (c :: u16) < 65535 \<Longrightarrow> unat (c + 1) = Suc (unat c)"
  by (simp add: unat_word_ariths)

lemma get_bits_value:
  "unat c + n \<le> 8 * length bs \<Longrightarrow> unat c + n \<le> 65536 \<Longrightarrow>
    \<exists>w. get_bits bs n c (push_bit j 1) v = Returns w \<and>
      (\<forall>i < 32. bit w i \<longleftrightarrow> bit v i \<or> j \<le> i \<and> i - j < n \<and> report_bit bs (unat c + (i - j)))"
proof (induction n arbitrary: c j v)
  case (Suc n)
  let ?v = "if bit (bs ! (unat c div 8)) (unat c mod 8) then v OR push_bit j 1 else v"
  have in_: "unat c div 8 < length bs" using Suc.prems(1) by (simp add: less_mult_imp_div_less mult.commute)
  have "\<exists>w. get_bits bs n (c + 1) (push_bit (Suc j) 1) ?v = Returns w \<and>
      (\<forall>i < 32. bit w i \<longleftrightarrow> bit ?v i \<or> Suc j \<le> i \<and> i - Suc j < n \<and> report_bit bs (Suc (unat c) + (i - Suc j)))"
  proof (cases n)
    case 0
    then show ?thesis by simp
  next
    case (Suc m)
    then have "unat (c + 1) = Suc (unat c)" using Suc.prems(2) by (simp add: u16_next)
    then show ?thesis using Suc.IH [of "c + 1" "Suc j" ?v] Suc.prems by simp
  qed
  then obtain w where w: "get_bits bs n (c + 1) (push_bit (Suc j) 1) ?v = Returns w"
    "\<forall>i < 32. bit w i \<longleftrightarrow> bit ?v i \<or> Suc j \<le> i \<and> i - Suc j < n \<and> report_bit bs (Suc (unat c) + (i - Suc j))" by blast
  have v: "bit ?v i \<longleftrightarrow> bit v i \<or> i = j \<and> report_bit bs (unat c)" if "i < 32" for i
    using that by (auto simp: bit_or_iff bit_exp_iff report_bit_def)
  have "\<forall>i < 32. bit w i \<longleftrightarrow> bit v i \<or> j \<le> i \<and> i - j < Suc n \<and> report_bit bs (unat c + (i - j))"
  proof (intro allI impI)
    fix i :: nat assume i: "i < 32"
    show "bit w i \<longleftrightarrow> bit v i \<or> j \<le> i \<and> i - j < Suc n \<and> report_bit bs (unat c + (i - j))"
    proof (cases "j < i")
      case True
      then obtain k where "i = Suc (j + k)" using less_imp_Suc_add by blast
      then show ?thesis using w(2) v i by simp
    next
      case False
      then show ?thesis using w(2) v i by auto
    qed
  qed
  moreover have "get_bits bs (Suc n) c (push_bit j 1) v = Returns w"
    using w(1) in_ by (cases "bit (bs ! (unat c div 8)) (unat c mod 8)") (simp_all add: mult.commute)
  ultimately show ?case by blast
qed auto

text \<open>
  Reading an item returns its field: bit i of the value is bit i of the field in the report, the 32
  lowest bits of it if it is longer, whatever else the report holds.
\<close>

lemma get_report:
  assumes "unat (BitOffset it) + unat (BitSize (Attributes it)) \<le> 8 * length bs"
    and "unat (BitOffset it) + unat (BitSize (Attributes it)) \<le> 65536"
  shows "\<exists>w. USB_GetHIDReportItemInfo (report_of (ItemReportID it) bs) (Some it) =
      Returns (True, Some (it\<lparr>PreviousValue := ItemValue it, ItemValue := w\<rparr>)) \<and>
    (\<forall>i < 32. bit w i \<longleftrightarrow> i < unat (BitSize (Attributes it)) \<and> report_bit bs (unat (BitOffset it) + i))"
proof -
  obtain w where "get_bits bs (unat (BitSize (Attributes it))) (BitOffset it) (push_bit 0 1) 0 = Returns w"
    "\<forall>i < 32. bit w i \<longleftrightarrow> bit (0 :: u32) i \<or> 0 \<le> i \<and> i - 0 < unat (BitSize (Attributes it)) \<and>
      report_bit bs (unat (BitOffset it) + (i - 0))"
    using get_bits_value [OF assms, of 0 0] by blast
  then show ?thesis by (auto simp: USB_GetHIDReportItemInfo_def report_of_def)
qed

definition button :: HID_ReportItem_t where
  "button = item_zero\<lparr>BitOffset := 9, Attributes := attributes_zero\<lparr>BitSize := 2\<rparr>\<rparr>"

text \<open>Writing: bit i of the field is set from bit \<open>(offset + i) mod 8\<close> of the value, in bit i of the byte.\<close>

lemma set_bits_bytes:
  "unat c + n \<le> 8 * length bs \<Longrightarrow> unat c + n \<le> 65536 \<Longrightarrow>
    \<exists>bs'. set_bits v n c (push_bit j 1) bs = Returns bs' \<and> length bs' = length bs \<and>
      (\<forall>k < length bs. \<forall>b < 8. bit (bs' ! k) b \<longleftrightarrow> bit (bs ! k) b \<or>
        j \<le> b \<and> b - j < n \<and> (unat c + (b - j)) div 8 = k \<and> bit v ((unat c + (b - j)) mod 8))"
proof (induction n arbitrary: c j bs)
  case (Suc n)
  let ?k = "unat c div 8"
  let ?bs = "if bit v (unat c mod 8) then bs[?k := bs ! ?k OR ucast (push_bit j 1 :: u32)] else bs"
  have in_: "?k < length bs" using Suc.prems(1) by (simp add: less_mult_imp_div_less mult.commute)
  have b1: "bit (?bs ! k) b \<longleftrightarrow> bit (bs ! k) b \<or> k = ?k \<and> b = j \<and> bit v (unat c mod 8)" if "k < length bs" "b < 8" for k b
    using that in_ by (auto simp: nth_list_update bit_or_iff bit_ucast_iff bit_exp_iff)
  have "\<exists>bs'. set_bits v n (c + 1) (push_bit (Suc j) 1) ?bs = Returns bs' \<and> length bs' = length ?bs \<and>
      (\<forall>k < length ?bs. \<forall>b < 8. bit (bs' ! k) b \<longleftrightarrow> bit (?bs ! k) b \<or>
        Suc j \<le> b \<and> b - Suc j < n \<and> (Suc (unat c) + (b - Suc j)) div 8 = k \<and> bit v ((Suc (unat c) + (b - Suc j)) mod 8))"
  proof (cases n)
    case 0
    then show ?thesis by simp
  next
    case (Suc m)
    then have "unat (c + 1) = Suc (unat c)" using Suc.prems(2) by (simp add: u16_next)
    then show ?thesis using Suc.IH [of "c + 1" ?bs "Suc j"] Suc.prems by simp
  qed
  then obtain bs' where w: "set_bits v n (c + 1) (push_bit (Suc j) 1) ?bs = Returns bs'" "length bs' = length bs"
    "\<And>k b. k < length bs \<Longrightarrow> b < 8 \<Longrightarrow> bit (bs' ! k) b \<longleftrightarrow> bit (?bs ! k) b \<or>
        Suc j \<le> b \<and> b - Suc j < n \<and> (Suc (unat c) + (b - Suc j)) div 8 = k \<and> bit v ((Suc (unat c) + (b - Suc j)) mod 8)"
    by auto
  have "\<forall>k < length bs. \<forall>b < 8. bit (bs' ! k) b \<longleftrightarrow> bit (bs ! k) b \<or>
        j \<le> b \<and> b - j < Suc n \<and> (unat c + (b - j)) div 8 = k \<and> bit v ((unat c + (b - j)) mod 8)"
  proof (intro allI impI)
    fix k b :: nat assume kb: "k < length bs" "b < 8"
    show "bit (bs' ! k) b \<longleftrightarrow> bit (bs ! k) b \<or>
        j \<le> b \<and> b - j < Suc n \<and> (unat c + (b - j)) div 8 = k \<and> bit v ((unat c + (b - j)) mod 8)"
    proof (cases "j < b")
      case True
      then obtain l where "b = Suc (j + l)" using less_imp_Suc_add by blast
      then show ?thesis unfolding w(3) [OF kb] b1 [OF kb] by simp
    next
      case False
      then show ?thesis unfolding w(3) [OF kb] b1 [OF kb] by auto
    qed
  qed
  moreover have "set_bits v (Suc n) c (push_bit j 1) bs = Returns bs'"
    using w(1) in_ by (cases "bit v (unat c mod 8)") (simp_all add: mult.commute)
  ultimately show ?case using w(2) by blast
qed auto

lemma set_report:
  assumes "unat (BitOffset it) + unat (BitSize (Attributes it)) \<le> 8 * length bs"
    and "unat (BitOffset it) + unat (BitSize (Attributes it)) \<le> 65536"
  shows "\<exists>bs'. USB_SetHIDReportItemInfo (report_of r bs) (Some (it\<lparr>ItemReportID := r\<rparr>)) =
      Returns (report_of r bs', Some (it\<lparr>ItemReportID := r, PreviousValue := ItemValue it\<rparr>)) \<and> length bs' = length bs \<and>
    (\<forall>k < length bs. \<forall>b < 8. bit (bs' ! k) b \<longleftrightarrow> bit (bs ! k) b \<or>
      b < unat (BitSize (Attributes it)) \<and> (unat (BitOffset it) + b) div 8 = k \<and>
      bit (ItemValue it) ((unat (BitOffset it) + b) mod 8))"
proof -
  obtain bs' where "set_bits (ItemValue it) (unat (BitSize (Attributes it))) (BitOffset it) (push_bit 0 1) bs = Returns bs'"
    "length bs' = length bs" "\<forall>k < length bs. \<forall>b < 8. bit (bs' ! k) b \<longleftrightarrow> bit (bs ! k) b \<or>
      0 \<le> b \<and> b - 0 < unat (BitSize (Attributes it)) \<and> (unat (BitOffset it) + (b - 0)) div 8 = k \<and>
      bit (ItemValue it) ((unat (BitOffset it) + (b - 0)) mod 8)"
    using set_bits_bytes [OF assms, of "ItemValue it" 0] by blast
  then show ?thesis
    by (intro exI [of _ bs']) (auto simp: USB_SetHIDReportItemInfo_def report_of_def Let_def)
qed

text \<open>
  C33: what becomes of a value that is written to a cleared report and read back. A field of at most
  eight bits that begins on a byte comes back complete; of a longer one only the low eight bits do.
  A flag of one bit that does not begin on a byte is never written: the report stays cleared and the
  flag reads as 0.
\<close>

theorem hid_set_then_get:
  fixes it :: HID_ReportItem_t and bs :: "u8 list" and v :: u32
  defines "n \<equiv> unat (BitSize (Attributes it))" and "off \<equiv> unat (BitOffset it)"
  assumes "off + n \<le> 8 * length bs" and "off + n \<le> 65536" and "\<forall>i < n. \<not> report_bit bs (off + i)"
  shows "\<exists>bs' it' it''.
    USB_SetHIDReportItemInfo (report_of (ItemReportID it) bs) (Some (it\<lparr>ItemValue := v\<rparr>)) =
      Returns (report_of (ItemReportID it) bs', Some it') \<and>
    USB_GetHIDReportItemInfo (report_of (ItemReportID it) bs') (Some it') = Returns (True, Some it'') \<and>
    PreviousValue it'' = v \<and>
    (off mod 8 = 0 \<longrightarrow> ItemValue it'' = take_bit (min n 8) v) \<and>
    (off mod 8 \<noteq> 0 \<and> n = 1 \<and> v = 1 \<longrightarrow> bs' = bs \<and> ItemValue it'' = 0)"
proof -
  let ?it = "it\<lparr>ItemValue := v\<rparr>"
  have nn: "unat (BitOffset ?it) + unat (BitSize (Attributes ?it)) \<le> 8 * length bs"
    "unat (BitOffset ?it) + unat (BitSize (Attributes ?it)) \<le> 65536" using assms(3,4) by (simp_all add: n_def off_def)
  obtain bs' where s: "USB_SetHIDReportItemInfo (report_of (ItemReportID it) bs) (Some ?it) =
      Returns (report_of (ItemReportID it) bs', Some (?it\<lparr>PreviousValue := v\<rparr>))" "length bs' = length bs"
    "\<And>k b. k < length bs \<Longrightarrow> b < 8 \<Longrightarrow> bit (bs' ! k) b \<longleftrightarrow> bit (bs ! k) b \<or>
      b < n \<and> (off + b) div 8 = k \<and> bit v ((off + b) mod 8)"
    using set_report [OF nn, of "ItemReportID it"] by (auto simp: n_def off_def)
  let ?it' = "?it\<lparr>PreviousValue := v\<rparr>"
  have in_: "(off + i) div 8 < length bs" if "i < n" for i
    using that assms(3) by (intro less_mult_imp_div_less) (simp add: mult.commute)
  have rb: "report_bit bs' (off + i) \<longleftrightarrow> (off + i) mod 8 < n \<and>
      (off + (off + i) mod 8) div 8 = (off + i) div 8 \<and> bit v ((off + (off + i) mod 8) mod 8)" if "i < n" for i
    using s(3) [OF in_ [OF that], of "(off + i) mod 8"] assms(5) that by (simp add: report_bit_def)
  have nn': "unat (BitOffset ?it') + unat (BitSize (Attributes ?it')) \<le> 8 * length bs'"
    "unat (BitOffset ?it') + unat (BitSize (Attributes ?it')) \<le> 65536" using nn s(2) by simp_all
  obtain w where g: "USB_GetHIDReportItemInfo (report_of (ItemReportID it) bs') (Some ?it') =
      Returns (True, Some (?it'\<lparr>PreviousValue := v, ItemValue := w\<rparr>))"
    and w: "\<And>i. i < 32 \<Longrightarrow> bit w i \<longleftrightarrow> i < n \<and> report_bit bs' (off + i)"
    using get_report [OF nn'] by (auto simp: n_def off_def)
  have "w = take_bit (min n 8) v" if a: "off mod 8 = 0"
  proof (rule bit_word_eqI)
    fix i assume i: "i < LENGTH(32)"
    obtain q where q: "off = 8 * q" using a by (auto simp: mod_eq_0_iff_dvd)
    show "bit w i = bit (take_bit (min n 8) v) i"
      using i w [of i] rb [of i] by (cases "i < 8") (auto simp: bit_take_bit_iff q div_add1_eq)
  qed
  moreover have "bs' = bs \<and> w = 0" if "off mod 8 \<noteq> 0" "n = 1" "v = 1"
  proof
    have "\<not> bit (1 :: u32) (off mod 8)" using that(1) by (simp add: bit_1_iff)
    then show "bs' = bs" using s(2,3) that
      by (intro nth_equalityI bit_word_eqI) auto
    then show "w = 0" using w assms(5) by (intro bit_word_eqI) simp
  qed
  ultimately show ?thesis using s(1) g by (intro exI conjI) auto
qed

lemma hid_set_then_get_witness:
  "\<exists>bs' it' it''. USB_SetHIDReportItemInfo [0, 0] (Some (button\<lparr>BitOffset := 8, ItemValue := 3\<rparr>)) = Returns (bs', Some it') \<and>
    USB_GetHIDReportItemInfo bs' (Some it') = Returns (True, Some it'') \<and> ItemValue it'' = 3"
proof -
  let ?it = "button\<lparr>BitOffset := 8\<rparr>"
  have "unat (BitOffset ?it) + unat (BitSize (Attributes ?it)) \<le> 8 * length [0, 0 :: u8]"
    "unat (BitOffset ?it) + unat (BitSize (Attributes ?it)) \<le> 65536"
    by (simp_all add: button_def)
  moreover have "\<forall>i < unat (BitSize (Attributes ?it)). \<not> report_bit [0, 0] (unat (BitOffset ?it) + i)"
  proof (intro allI impI)
    fix i assume "i < unat (BitSize (Attributes ?it))"
    then have "i = 0 \<or> i = 1" by (auto simp: button_def)
    then show "\<not> report_bit [0, 0] (unat (BitOffset ?it) + i)" by (auto simp: button_def report_bit_def)
  qed
  ultimately show ?thesis using hid_set_then_get [of ?it "[0, 0]" 3]
    by (auto simp: button_def item_zero_def report_of_def take_bit_eq_mod)
qed

end
