(* ===== verification/ClassDevice.thy ===== *)
theory ClassDevice
  imports LufaDevice
begin

text \<open>
  What the device class drivers of LUFA share: transfers between an endpoint and a structure in their
  state, the loop over the endpoints of \<^verbatim>\<open>x_Device_ConfigureEndpoints\<close>, and access to their state.
\<close>

unbundle bit_operations_syntax

subsection \<open>The state of one interface\<close>

definition upd_hid :: "(hid_device_state \<Rightarrow> hid_device_state) \<Rightarrow> lufa \<Rightarrow> lufa" where
  "upd_hid f s = s\<lparr>Class_States := (Class_States s)\<lparr>HID_Device := f (HID_Device (Class_States s))\<rparr>\<rparr>"

definition upd_ms :: "(ms_state \<Rightarrow> ms_state) \<Rightarrow> lufa \<Rightarrow> lufa" where
  "upd_ms f s = s\<lparr>Class_States := (Class_States s)\<lparr>MS_Device := f (MS_Device (Class_States s))\<rparr>\<rparr>"

definition upd_rndis :: "(rndis_state \<Rightarrow> rndis_state) \<Rightarrow> lufa \<Rightarrow> lufa" where
  "upd_rndis f s = s\<lparr>Class_States := (Class_States s)\<lparr>RNDIS_Device := f (RNDIS_Device (Class_States s))\<rparr>\<rparr>"

abbreviation hid_of :: "lufa \<Rightarrow> hid_device_state" where "hid_of s \<equiv> HID_Device (Class_States s)"
abbreviation ms_of :: "lufa \<Rightarrow> ms_state" where "ms_of s \<equiv> MS_Device (Class_States s)"
abbreviation rndis_of :: "lufa \<Rightarrow> rndis_state" where "rndis_of s \<equiv> RNDIS_Device (Class_States s)"

subsection \<open>Transfers to and from the state\<close>

text \<open>
  The transfers of the stream templates on an array in the state of the driver: each byte is fetched
  or stored where the state is at that moment.
\<close>

definition from_state :: "lufa_env \<Rightarrow> (lufa \<Rightarrow> u8 list) \<Rightarrow> transfer" where
  "from_state E get buffer i s =
     (if 0 \<le> i \<and> i < int (length (get s)) then Returns (buffer, Endpoint_Write_8 E (get s ! nat i) s)
      else Faults OutOfBounds)"

definition into_state :: "lufa_env \<Rightarrow> (lufa \<Rightarrow> u8 list) \<Rightarrow> (u8 list \<Rightarrow> lufa \<Rightarrow> lufa) \<Rightarrow> transfer" where
  "into_state E get put buffer i s =
     (case Endpoint_Read_8 E s of (b, s1) \<Rightarrow>
        if 0 \<le> i \<and> i < int (length (get s1)) then Returns (buffer, put ((get s1)[nat i := b]) s1)
        else Faults OutOfBounds)"

text \<open>\<^verbatim>\<open>Endpoint_Write_Stream_LE\<close>, \<^verbatim>\<open>Endpoint_Read_Stream_LE\<close> and the control streams on such an array.\<close>

definition write_stream_from ::
    "lufa_env \<Rightarrow> app \<Rightarrow> (lufa \<Rightarrow> u8 list) \<Rightarrow> u16 \<Rightarrow> u16 option \<Rightarrow> lufa \<Rightarrow> stream_result" where
  "write_stream_from E A get Length bp =
     template_rw E (USB_USBTask E A) (Endpoint_ClearIN E) (from_state E get) 1 [] Length bp"

definition read_stream_into ::
    "lufa_env \<Rightarrow> app \<Rightarrow> (lufa \<Rightarrow> u8 list) \<Rightarrow> (u8 list \<Rightarrow> lufa \<Rightarrow> lufa) \<Rightarrow> u16 \<Rightarrow> u16 option \<Rightarrow> lufa \<Rightarrow> stream_result" where
  "read_stream_into E A get put Length bp =
     template_rw E (USB_USBTask E A) (Endpoint_ClearOUT E) (into_state E get put) 1 [] Length bp"

definition write_control_from :: "lufa_env \<Rightarrow> (lufa \<Rightarrow> u8 list) \<Rightarrow> u16 \<Rightarrow> lufa \<Rightarrow> control_result" where
  "write_control_from E get = template_control_w E (from_state E get) 1 []"

definition read_control_into ::
    "lufa_env \<Rightarrow> (lufa \<Rightarrow> u8 list) \<Rightarrow> (u8 list \<Rightarrow> lufa \<Rightarrow> lufa) \<Rightarrow> u16 \<Rightarrow> lufa \<Rightarrow> control_result" where
  "read_control_into E get put = template_control_r E (into_state E get put) 1 []"

subsection \<open>Endpoints of an interface\<close>

abbreviation (input) EP_TYPE_ISOCHRONOUS :: u8 where "EP_TYPE_ISOCHRONOUS \<equiv> 1"

text \<open>Type, direction, size and double banking of the endpoint with a number, if the driver has it.\<close>

type_synonym endpoint_table = "u8 \<Rightarrow> (u8 \<times> u8 \<times> u16 \<times> bool) option"

fun configure_table :: "lufa_env \<Rightarrow> endpoint_table \<Rightarrow> u8 \<Rightarrow> nat \<Rightarrow> lufa \<Rightarrow> (bool \<times> lufa) outcome" where
  "configure_table E table n 0 s = Returns (True, s)"
| "configure_table E table n (Suc k) s =
     (case table n of
        None \<Rightarrow> configure_table E table (n + 1) k s
      | Some (T, dir, sz, dbl) \<Rightarrow>
          and_then (Endpoint_ConfigureEndpoint E n T dir sz
            (if dbl then ENDPOINT_BANK_DOUBLE else ENDPOINT_BANK_SINGLE) s) (\<lambda>(ok, s1).
          if \<not> ok then Returns (False, s1) else configure_table E table (n + 1) k s1))"

definition configure_class_endpoints :: "lufa_env \<Rightarrow> endpoint_table \<Rightarrow> lufa \<Rightarrow> (bool \<times> lufa) outcome" where
  "configure_class_endpoints E table = configure_table E table 1 (ENDPOINT_TOTAL_ENDPOINTS - 1)"

text \<open>\<^verbatim>\<open>REQDIR_x | REQTYPE_CLASS | REQREC_INTERFACE\<close>\<close>

abbreviation (input) DEVICETOHOST_CLASS_INTERFACE :: u8 where "DEVICETOHOST_CLASS_INTERFACE \<equiv> 0xA1"
abbreviation (input) HOSTTODEVICE_CLASS_INTERFACE :: u8 where "HOSTTODEVICE_CLASS_INTERFACE \<equiv> 0x21"

text \<open>\<^verbatim>\<open>Endpoint_ClearSETUP(); while (!(Endpoint_IsINReady())); Endpoint_Write_8(b); Endpoint_ClearIN(); Endpoint_ClearStatusStage();\<close>\<close>

definition answer_byte :: "lufa_env \<Rightarrow> (lufa \<Rightarrow> u8) \<Rightarrow> lufa \<Rightarrow> lufa outcome" where
  "answer_byte E b s =
     and_then (wait_for E UEINTX (push_bit TXINI 1) (Endpoint_ClearSETUP E s)) (\<lambda>(_, s1).
       Endpoint_ClearStatusStage E (Endpoint_ClearIN E (Endpoint_Write_8 E (b s1) s1)))"

text \<open>\<^verbatim>\<open>Endpoint_ClearSETUP(); Endpoint_ClearStatusStage();\<close>\<close>

definition acknowledge :: "lufa_env \<Rightarrow> lufa \<Rightarrow> lufa outcome" where
  "acknowledge E s = Endpoint_ClearStatusStage E (Endpoint_ClearSETUP E s)"

end
