(* ===== verification/RndisDevice.thy ===== *)
theory RndisDevice
  imports ClassDevice
begin

text \<open>
  The RNDIS class driver of LUFA, \<^verbatim>\<open>Class/Device/RNDISClassDevice.c\<close>: a network adapter that is
  controlled by messages in one buffer of 128 bytes, which holds the host's message and then the
  answer. A message structure is its list of fields, all of 32 bits; an access to the buffer outside
  of it is a fault.
\<close>

unbundle bit_operations_syntax

subsection \<open>Constants\<close>

abbreviation (input) REMOTE_NDIS_VERSION_MAJOR :: u32 where "REMOTE_NDIS_VERSION_MAJOR \<equiv> 1"
abbreviation (input) REMOTE_NDIS_VERSION_MINOR :: u32 where "REMOTE_NDIS_VERSION_MINOR \<equiv> 0"

abbreviation (input) REMOTE_NDIS_PACKET_MSG :: u32 where "REMOTE_NDIS_PACKET_MSG \<equiv> 1"
abbreviation (input) REMOTE_NDIS_INITIALIZE_MSG :: u32 where "REMOTE_NDIS_INITIALIZE_MSG \<equiv> 2"
abbreviation (input) REMOTE_NDIS_HALT_MSG :: u32 where "REMOTE_NDIS_HALT_MSG \<equiv> 3"
abbreviation (input) REMOTE_NDIS_QUERY_MSG :: u32 where "REMOTE_NDIS_QUERY_MSG \<equiv> 4"
abbreviation (input) REMOTE_NDIS_SET_MSG :: u32 where "REMOTE_NDIS_SET_MSG \<equiv> 5"
abbreviation (input) REMOTE_NDIS_RESET_MSG :: u32 where "REMOTE_NDIS_RESET_MSG \<equiv> 6"
abbreviation (input) REMOTE_NDIS_KEEPALIVE_MSG :: u32 where "REMOTE_NDIS_KEEPALIVE_MSG \<equiv> 8"

abbreviation (input) REMOTE_NDIS_INITIALIZE_CMPLT :: u32 where "REMOTE_NDIS_INITIALIZE_CMPLT \<equiv> 0x80000002"
abbreviation (input) REMOTE_NDIS_QUERY_CMPLT :: u32 where "REMOTE_NDIS_QUERY_CMPLT \<equiv> 0x80000004"
abbreviation (input) REMOTE_NDIS_SET_CMPLT :: u32 where "REMOTE_NDIS_SET_CMPLT \<equiv> 0x80000005"
abbreviation (input) REMOTE_NDIS_RESET_CMPLT :: u32 where "REMOTE_NDIS_RESET_CMPLT \<equiv> 0x80000006"
abbreviation (input) REMOTE_NDIS_KEEPALIVE_CMPLT :: u32 where "REMOTE_NDIS_KEEPALIVE_CMPLT \<equiv> 0x80000008"

abbreviation (input) REMOTE_NDIS_STATUS_SUCCESS :: u32 where "REMOTE_NDIS_STATUS_SUCCESS \<equiv> 0"
abbreviation (input) REMOTE_NDIS_STATUS_NOT_SUPPORTED :: u32 where "REMOTE_NDIS_STATUS_NOT_SUPPORTED \<equiv> 0xC00000BB"
abbreviation (input) REMOTE_NDIS_MEDIA_STATE_CONNECTED :: u32 where "REMOTE_NDIS_MEDIA_STATE_CONNECTED \<equiv> 0"
abbreviation (input) REMOTE_NDIS_MEDIUM_802_3 :: u32 where "REMOTE_NDIS_MEDIUM_802_3 \<equiv> 0"
abbreviation (input) REMOTE_NDIS_DF_CONNECTIONLESS :: u32 where "REMOTE_NDIS_DF_CONNECTIONLESS \<equiv> 1"
abbreviation (input) NDIS_HardwareStatus_Ready :: u32 where "NDIS_HardwareStatus_Ready \<equiv> 0"

abbreviation (input) OID_GEN_SUPPORTED_LIST :: u32 where "OID_GEN_SUPPORTED_LIST \<equiv> 0x00010101"
abbreviation (input) OID_GEN_HARDWARE_STATUS :: u32 where "OID_GEN_HARDWARE_STATUS \<equiv> 0x00010102"
abbreviation (input) OID_GEN_MEDIA_SUPPORTED :: u32 where "OID_GEN_MEDIA_SUPPORTED \<equiv> 0x00010103"
abbreviation (input) OID_GEN_MEDIA_IN_USE :: u32 where "OID_GEN_MEDIA_IN_USE \<equiv> 0x00010104"
abbreviation (input) OID_GEN_MAXIMUM_FRAME_SIZE :: u32 where "OID_GEN_MAXIMUM_FRAME_SIZE \<equiv> 0x00010106"
abbreviation (input) OID_GEN_LINK_SPEED :: u32 where "OID_GEN_LINK_SPEED \<equiv> 0x00010107"
abbreviation (input) OID_GEN_TRANSMIT_BLOCK_SIZE :: u32 where "OID_GEN_TRANSMIT_BLOCK_SIZE \<equiv> 0x0001010A"
abbreviation (input) OID_GEN_RECEIVE_BLOCK_SIZE :: u32 where "OID_GEN_RECEIVE_BLOCK_SIZE \<equiv> 0x0001010B"
abbreviation (input) OID_GEN_VENDOR_ID :: u32 where "OID_GEN_VENDOR_ID \<equiv> 0x0001010C"
abbreviation (input) OID_GEN_VENDOR_DESCRIPTION :: u32 where "OID_GEN_VENDOR_DESCRIPTION \<equiv> 0x0001010D"
abbreviation (input) OID_GEN_CURRENT_PACKET_FILTER :: u32 where "OID_GEN_CURRENT_PACKET_FILTER \<equiv> 0x0001010E"
abbreviation (input) OID_GEN_MAXIMUM_TOTAL_SIZE :: u32 where "OID_GEN_MAXIMUM_TOTAL_SIZE \<equiv> 0x00010111"
abbreviation (input) OID_GEN_MEDIA_CONNECT_STATUS :: u32 where "OID_GEN_MEDIA_CONNECT_STATUS \<equiv> 0x00010114"
abbreviation (input) OID_GEN_PHYSICAL_MEDIUM :: u32 where "OID_GEN_PHYSICAL_MEDIUM \<equiv> 0x00010202"
abbreviation (input) OID_GEN_XMIT_OK :: u32 where "OID_GEN_XMIT_OK \<equiv> 0x00020101"
abbreviation (input) OID_GEN_RCV_OK :: u32 where "OID_GEN_RCV_OK \<equiv> 0x00020102"
abbreviation (input) OID_GEN_XMIT_ERROR :: u32 where "OID_GEN_XMIT_ERROR \<equiv> 0x00020103"
abbreviation (input) OID_GEN_RCV_ERROR :: u32 where "OID_GEN_RCV_ERROR \<equiv> 0x00020104"
abbreviation (input) OID_GEN_RCV_NO_BUFFER :: u32 where "OID_GEN_RCV_NO_BUFFER \<equiv> 0x00020105"
abbreviation (input) OID_802_3_PERMANENT_ADDRESS :: u32 where "OID_802_3_PERMANENT_ADDRESS \<equiv> 0x01010101"
abbreviation (input) OID_802_3_CURRENT_ADDRESS :: u32 where "OID_802_3_CURRENT_ADDRESS \<equiv> 0x01010102"
abbreviation (input) OID_802_3_MULTICAST_LIST :: u32 where "OID_802_3_MULTICAST_LIST \<equiv> 0x01010103"
abbreviation (input) OID_802_3_MAXIMUM_LIST_SIZE :: u32 where "OID_802_3_MAXIMUM_LIST_SIZE \<equiv> 0x01010104"
abbreviation (input) OID_802_3_RCV_ERROR_ALIGNMENT :: u32 where "OID_802_3_RCV_ERROR_ALIGNMENT \<equiv> 0x01020101"
abbreviation (input) OID_802_3_XMIT_ONE_COLLISION :: u32 where "OID_802_3_XMIT_ONE_COLLISION \<equiv> 0x01020102"
abbreviation (input) OID_802_3_XMIT_MORE_COLLISIONS :: u32 where "OID_802_3_XMIT_MORE_COLLISIONS \<equiv> 0x01020103"

abbreviation (input) RNDIS_MESSAGE_BUFFER_SIZE :: u32 where "RNDIS_MESSAGE_BUFFER_SIZE \<equiv> 128"
abbreviation (input) ETHERNET_FRAME_SIZE_MAX :: u32 where "ETHERNET_FRAME_SIZE_MAX \<equiv> 1500"

abbreviation (input) RNDIS_REQ_SendEncapsulatedCommand :: u8 where "RNDIS_REQ_SendEncapsulatedCommand \<equiv> 0"
abbreviation (input) RNDIS_REQ_GetEncapsulatedResponse :: u8 where "RNDIS_REQ_GetEncapsulatedResponse \<equiv> 1"
abbreviation (input) RNDIS_Uninitialized :: u8 where "RNDIS_Uninitialized \<equiv> 0"
abbreviation (input) RNDIS_Initialized :: u8 where "RNDIS_Initialized \<equiv> 1"
abbreviation (input) RNDIS_Data_Initialized :: u8 where "RNDIS_Data_Initialized \<equiv> 2"
abbreviation (input) RNDIS_NOTIF_ResponseAvailable :: u8 where "RNDIS_NOTIF_ResponseAvailable \<equiv> 1"

definition AdapterSupportedOIDList :: "u32 list" where
  "AdapterSupportedOIDList =
     [OID_GEN_SUPPORTED_LIST,
      OID_GEN_PHYSICAL_MEDIUM,
      OID_GEN_HARDWARE_STATUS,
      OID_GEN_MEDIA_SUPPORTED,
      OID_GEN_MEDIA_IN_USE,
      OID_GEN_MAXIMUM_FRAME_SIZE,
      OID_GEN_MAXIMUM_TOTAL_SIZE,
      OID_GEN_LINK_SPEED,
      OID_GEN_TRANSMIT_BLOCK_SIZE,
      OID_GEN_RECEIVE_BLOCK_SIZE,
      OID_GEN_VENDOR_ID,
      OID_GEN_VENDOR_DESCRIPTION,
      OID_GEN_CURRENT_PACKET_FILTER,
      OID_GEN_MAXIMUM_TOTAL_SIZE,
      OID_GEN_MEDIA_CONNECT_STATUS,
      OID_GEN_XMIT_OK,
      OID_GEN_RCV_OK,
      OID_GEN_XMIT_ERROR,
      OID_GEN_RCV_ERROR,
      OID_GEN_RCV_NO_BUFFER,
      OID_802_3_PERMANENT_ADDRESS,
      OID_802_3_CURRENT_ADDRESS,
      OID_802_3_MULTICAST_LIST,
      OID_802_3_MAXIMUM_LIST_SIZE,
      OID_802_3_RCV_ERROR_ALIGNMENT,
      OID_802_3_XMIT_ONE_COLLISION,
      OID_802_3_XMIT_MORE_COLLISIONS]"

subsection \<open>Messages\<close>

datatype rndis_field = MessageType | MessageLength | RequestId | Status | MajorVersion | MinorVersion
  | DeviceFlags | Medium | MaxPacketsPerTransfer | MaxTransferSize | PacketAlignmentFactor | AFListOffset
  | AFListSize | AddressingReset | Oid | InformationBufferLength | InformationBufferOffset | DeviceVcHandle
  | DataOffset | DataLength | OOBDataOffset | OOBDataLength | NumOOBDataElements | PerPacketInfoOffset
  | PerPacketInfoLength | VcHandle | Reserved

type_synonym rndis_struct = "rndis_field list"

definition RNDIS_Message_Header_t :: rndis_struct where
  "RNDIS_Message_Header_t = [MessageType, MessageLength]"

definition RNDIS_Packet_Message_t :: rndis_struct where
  "RNDIS_Packet_Message_t = [MessageType, MessageLength, DataOffset, DataLength, OOBDataOffset, OOBDataLength,
     NumOOBDataElements, PerPacketInfoOffset, PerPacketInfoLength, VcHandle, Reserved]"

definition RNDIS_Initialize_Message_t :: rndis_struct where
  "RNDIS_Initialize_Message_t = [MessageType, MessageLength, RequestId, MajorVersion, MinorVersion, MaxTransferSize]"

definition RNDIS_Initialize_Complete_t :: rndis_struct where
  "RNDIS_Initialize_Complete_t = [MessageType, MessageLength, RequestId, Status, MajorVersion, MinorVersion,
     DeviceFlags, Medium, MaxPacketsPerTransfer, MaxTransferSize, PacketAlignmentFactor, AFListOffset, AFListSize]"

definition RNDIS_KeepAlive_Message_t :: rndis_struct where
  "RNDIS_KeepAlive_Message_t = [MessageType, MessageLength, RequestId]"

definition RNDIS_KeepAlive_Complete_t :: rndis_struct where
  "RNDIS_KeepAlive_Complete_t = [MessageType, MessageLength, RequestId, Status]"

definition RNDIS_Reset_Complete_t :: rndis_struct where
  "RNDIS_Reset_Complete_t = [MessageType, MessageLength, Status, AddressingReset]"

definition RNDIS_Set_Message_t :: rndis_struct where
  "RNDIS_Set_Message_t = [MessageType, MessageLength, RequestId, Oid, InformationBufferLength,
     InformationBufferOffset, DeviceVcHandle]"

definition RNDIS_Set_Complete_t :: rndis_struct where
  "RNDIS_Set_Complete_t = [MessageType, MessageLength, RequestId, Status]"

definition RNDIS_Query_Message_t :: rndis_struct where
  "RNDIS_Query_Message_t = [MessageType, MessageLength, RequestId, Oid, InformationBufferLength,
     InformationBufferOffset, DeviceVcHandle]"

definition RNDIS_Query_Complete_t :: rndis_struct where
  "RNDIS_Query_Complete_t = [MessageType, MessageLength, RequestId, Status, InformationBufferLength,
     InformationBufferOffset]"

definition sizeof :: "rndis_struct \<Rightarrow> nat" where
  "sizeof S = 4 * length S"

definition offsetof :: "rndis_struct \<Rightarrow> rndis_field \<Rightarrow> nat" where
  "offsetof S f = 4 * length (takeWhile (\<lambda>g. g \<noteq> f) S)"

text \<open>Memory accesses in the buffer.\<close>

definition store_bytes :: "nat \<Rightarrow> u8 list \<Rightarrow> u8 list \<Rightarrow> u8 list outcome" where
  "store_bytes i d b =
     (if i + length d \<le> length b then Returns (take i b @ d @ drop (i + length d) b) else Faults OutOfBounds)"

definition load32 :: "nat \<Rightarrow> u8 list \<Rightarrow> u32 outcome" where
  "load32 i b = (if i + 4 \<le> length b then Returns (le32 (drop i b)) else Faults OutOfBounds)"

definition set_field :: "rndis_struct \<Rightarrow> rndis_field \<Rightarrow> u32 \<Rightarrow> u8 list \<Rightarrow> u8 list outcome" where
  "set_field S f v = store_bytes (offsetof S f) (bytes32 v)"

definition get_field :: "rndis_struct \<Rightarrow> rndis_field \<Rightarrow> u8 list \<Rightarrow> u32 outcome" where
  "get_field S f = load32 (offsetof S f)"

fun set_fields :: "rndis_struct \<Rightarrow> (rndis_field \<times> u32) list \<Rightarrow> u8 list \<Rightarrow> u8 list outcome" where
  "set_fields S [] b = Returns b"
| "set_fields S ((f, v) # fs) b = and_then (set_field S f v b) (set_fields S fs)"

subsection \<open>The interface\<close>

record rndis_config =
  ControlInterfaceNumber :: u8
  DataINEndpointNumber :: u8
  DataINEndpointSize :: u16
  DataINEndpointDoubleBank :: bool
  DataOUTEndpointNumber :: u8
  DataOUTEndpointSize :: u16
  DataOUTEndpointDoubleBank :: bool
  NotificationEndpointNumber :: u8
  NotificationEndpointSize :: u16
  NotificationEndpointDoubleBank :: bool
  AdapterVendorDescription :: "u8 list"
  AdapterMACAddress :: "u8 list"

subsection \<open>Properties of the adapter\<close>

text \<open>
  \<^verbatim>\<open>RNDIS_Device_ProcessNDISQuery\<close>: the answer goes to the offset \<open>ResponseData\<close> of the buffer; the
  result is whether the property is known, the size of its value, and the state.
\<close>

definition query_bytes :: "nat \<Rightarrow> u8 list \<Rightarrow> rndis_state \<Rightarrow> (bool \<times> u16 \<times> rndis_state) outcome" where
  "query_bytes ResponseData d st =
     and_then (store_bytes ResponseData d (RNDISMessageBuffer st)) (\<lambda>b.
       Returns (True, of_nat (length d), st\<lparr>RNDISMessageBuffer := b\<rparr>))"

definition query_word :: "nat \<Rightarrow> u32 \<Rightarrow> rndis_state \<Rightarrow> (bool \<times> u16 \<times> rndis_state) outcome" where
  "query_word ResponseData v = query_bytes ResponseData (bytes32 v)"

definition RNDIS_Device_ProcessNDISQuery ::
    "rndis_config \<Rightarrow> u32 \<Rightarrow> nat \<Rightarrow> rndis_state \<Rightarrow> (bool \<times> u16 \<times> rndis_state) outcome" where
  "RNDIS_Device_ProcessNDISQuery C OId ResponseData st =
     (if OId = OID_GEN_SUPPORTED_LIST then
        query_bytes ResponseData (concat (map bytes32 AdapterSupportedOIDList)) st
      else if OId = OID_GEN_PHYSICAL_MEDIUM then query_word ResponseData 0 st
      else if OId = OID_GEN_HARDWARE_STATUS then query_word ResponseData NDIS_HardwareStatus_Ready st
      else if OId = OID_GEN_MEDIA_SUPPORTED \<or> OId = OID_GEN_MEDIA_IN_USE then
        query_word ResponseData REMOTE_NDIS_MEDIUM_802_3 st
      else if OId = OID_GEN_VENDOR_ID then query_word ResponseData 0x00FFFFFF st
      else if OId = OID_GEN_MAXIMUM_FRAME_SIZE \<or> OId = OID_GEN_TRANSMIT_BLOCK_SIZE \<or>
              OId = OID_GEN_RECEIVE_BLOCK_SIZE then
        query_word ResponseData ETHERNET_FRAME_SIZE_MAX st
      else if OId = OID_GEN_VENDOR_DESCRIPTION then
        (let n = of_nat (length (AdapterVendorDescription C)) + 1 :: u16 in
         query_bytes ResponseData (take (unat n) (AdapterVendorDescription C @ [0])) st)
      else if OId = OID_GEN_MEDIA_CONNECT_STATUS then
        query_word ResponseData REMOTE_NDIS_MEDIA_STATE_CONNECTED st
      else if OId = OID_GEN_LINK_SPEED then query_word ResponseData 100000 st
      else if OId = OID_802_3_PERMANENT_ADDRESS \<or> OId = OID_802_3_CURRENT_ADDRESS then
        query_bytes ResponseData (AdapterMACAddress C) st
      else if OId = OID_802_3_MAXIMUM_LIST_SIZE then query_word ResponseData 1 st
      else if OId = OID_GEN_CURRENT_PACKET_FILTER then query_word ResponseData (CurrPacketFilter st) st
      else if OId = OID_GEN_XMIT_OK \<or> OId = OID_GEN_RCV_OK \<or> OId = OID_GEN_XMIT_ERROR \<or>
              OId = OID_GEN_RCV_ERROR \<or> OId = OID_GEN_RCV_NO_BUFFER \<or> OId = OID_802_3_RCV_ERROR_ALIGNMENT \<or>
              OId = OID_802_3_XMIT_ONE_COLLISION \<or> OId = OID_802_3_XMIT_MORE_COLLISIONS then
        query_word ResponseData 0 st
      else if OId = OID_GEN_MAXIMUM_TOTAL_SIZE then
        query_word ResponseData (RNDIS_MESSAGE_BUFFER_SIZE + ETHERNET_FRAME_SIZE_MAX) st
      else Returns (False, 0, st))"

text \<open>Both branches of the choice of the new state are \<^verbatim>\<open>RNDIS_Data_Initialized\<close> in the code.\<close>

definition RNDIS_Device_ProcessNDISSet ::
    "u32 \<Rightarrow> nat \<Rightarrow> rndis_state \<Rightarrow> (bool \<times> rndis_state) outcome" where
  "RNDIS_Device_ProcessNDISSet OId SetData st =
     (if OId = OID_GEN_CURRENT_PACKET_FILTER then
        and_then (load32 SetData (RNDISMessageBuffer st)) (\<lambda>v.
          Returns (True, st\<lparr>CurrPacketFilter := v,
            CurrRNDISState := if v \<noteq> 0 then RNDIS_Data_Initialized else RNDIS_Data_Initialized\<rparr>))
      else if OId = OID_802_3_MULTICAST_LIST then Returns (True, st)
      else Returns (False, st))"

subsection \<open>Control messages\<close>

text \<open>
  The branches of \<^verbatim>\<open>RNDIS_Device_ProcessRNDISControlMessage\<close>. A field of the answer is stored over
  the message it answers, in the order of the code.
\<close>

definition in_buffer :: "(u8 list \<Rightarrow> u8 list outcome) \<Rightarrow> rndis_state \<Rightarrow> rndis_state outcome" where
  "in_buffer f st = and_then (f (RNDISMessageBuffer st)) (\<lambda>b. Returns (st\<lparr>RNDISMessageBuffer := b\<rparr>))"

definition process_initialize :: "rndis_state \<Rightarrow> rndis_state outcome" where
  "process_initialize st =
     and_then (in_buffer (\<lambda>b.
         and_then (set_fields RNDIS_Initialize_Complete_t
           [(MessageType, REMOTE_NDIS_INITIALIZE_CMPLT),
            (MessageLength, of_nat (sizeof RNDIS_Initialize_Complete_t))] b) (\<lambda>b.
         and_then (get_field RNDIS_Initialize_Message_t RequestId b) (\<lambda>request.
         set_fields RNDIS_Initialize_Complete_t
           [(RequestId, request), (Status, REMOTE_NDIS_STATUS_SUCCESS),
            (MajorVersion, REMOTE_NDIS_VERSION_MAJOR), (MinorVersion, REMOTE_NDIS_VERSION_MINOR),
            (DeviceFlags, REMOTE_NDIS_DF_CONNECTIONLESS), (Medium, REMOTE_NDIS_MEDIUM_802_3),
            (MaxPacketsPerTransfer, 1),
            (MaxTransferSize, of_nat (sizeof RNDIS_Packet_Message_t) + ETHERNET_FRAME_SIZE_MAX),
            (PacketAlignmentFactor, 0), (AFListOffset, 0), (AFListSize, 0)] b)))
         (st\<lparr>ResponseReady := True\<rparr>)) (\<lambda>st.
       Returns (st\<lparr>CurrRNDISState := RNDIS_Initialized\<rparr>))"

definition process_halt :: "rndis_state \<Rightarrow> rndis_state outcome" where
  "process_halt st =
     and_then (in_buffer (set_field RNDIS_Message_Header_t MessageLength 0) (st\<lparr>ResponseReady := False\<rparr>)) (\<lambda>st.
       Returns (st\<lparr>CurrRNDISState := RNDIS_Uninitialized\<rparr>))"

definition process_query :: "rndis_config \<Rightarrow> rndis_state \<Rightarrow> rndis_state outcome" where
  "process_query C st =
     and_then (get_field RNDIS_Query_Message_t Oid (RNDISMessageBuffer st)) (\<lambda>Query_Oid.
     and_then (in_buffer (set_field RNDIS_Query_Complete_t MessageType REMOTE_NDIS_QUERY_CMPLT)
       (st\<lparr>ResponseReady := True\<rparr>)) (\<lambda>st.
     and_then (RNDIS_Device_ProcessNDISQuery C Query_Oid (sizeof RNDIS_Query_Complete_t) st) (\<lambda>(ok, ResponseSize, st).
       in_buffer (set_fields RNDIS_Query_Complete_t
         (if ok then
            [(Status, REMOTE_NDIS_STATUS_SUCCESS),
             (MessageLength, ucast (of_nat (sizeof RNDIS_Query_Complete_t) + ResponseSize)),
             (InformationBufferLength, ucast ResponseSize),
             (InformationBufferOffset, of_nat (sizeof RNDIS_Query_Complete_t - sizeof RNDIS_Message_Header_t))]
          else
            [(Status, REMOTE_NDIS_STATUS_NOT_SUPPORTED),
             (MessageLength, of_nat (sizeof RNDIS_Query_Complete_t)),
             (InformationBufferLength, 0), (InformationBufferOffset, 0)])) st)))"

definition process_set :: "rndis_state \<Rightarrow> rndis_state outcome" where
  "process_set st =
     and_then (get_field RNDIS_Set_Message_t Oid (RNDISMessageBuffer st)) (\<lambda>SET_Oid.
     and_then (in_buffer (\<lambda>b.
         and_then (set_fields RNDIS_Set_Complete_t
           [(MessageType, REMOTE_NDIS_SET_CMPLT), (MessageLength, of_nat (sizeof RNDIS_Set_Complete_t))] b) (\<lambda>b.
         and_then (get_field RNDIS_Set_Message_t RequestId b) (\<lambda>request.
         set_field RNDIS_Set_Complete_t RequestId request b)))
       (st\<lparr>ResponseReady := True\<rparr>)) (\<lambda>st.
     and_then (get_field RNDIS_Set_Message_t InformationBufferOffset (RNDISMessageBuffer st)) (\<lambda>off.
     and_then (RNDIS_Device_ProcessNDISSet SET_Oid
         (unat (of_nat (sizeof RNDIS_Message_Header_t) + off)) st) (\<lambda>(ok, st).
       in_buffer (set_field RNDIS_Set_Complete_t Status
         (if ok then REMOTE_NDIS_STATUS_SUCCESS else REMOTE_NDIS_STATUS_NOT_SUPPORTED)) st))))"

definition process_reset :: "rndis_state \<Rightarrow> rndis_state outcome" where
  "process_reset st =
     in_buffer (set_fields RNDIS_Reset_Complete_t
       [(MessageType, REMOTE_NDIS_RESET_CMPLT), (MessageLength, of_nat (sizeof RNDIS_Reset_Complete_t)),
        (Status, REMOTE_NDIS_STATUS_SUCCESS), (AddressingReset, 0)]) (st\<lparr>ResponseReady := True\<rparr>)"

definition process_keepalive :: "rndis_state \<Rightarrow> rndis_state outcome" where
  "process_keepalive st =
     in_buffer (\<lambda>b.
       and_then (set_fields RNDIS_KeepAlive_Complete_t
         [(MessageType, REMOTE_NDIS_KEEPALIVE_CMPLT),
          (MessageLength, of_nat (sizeof RNDIS_KeepAlive_Complete_t))] b) (\<lambda>b.
       and_then (get_field RNDIS_KeepAlive_Message_t RequestId b) (\<lambda>request.
       set_fields RNDIS_KeepAlive_Complete_t
         [(RequestId, request), (Status, REMOTE_NDIS_STATUS_SUCCESS)] b)))
       (st\<lparr>ResponseReady := True\<rparr>)"

definition RNDIS_Device_ProcessRNDISControlMessage :: "rndis_config \<Rightarrow> rndis_state \<Rightarrow> rndis_state outcome" where
  "RNDIS_Device_ProcessRNDISControlMessage C st =
     and_then (get_field RNDIS_Message_Header_t MessageType (RNDISMessageBuffer st)) (\<lambda>t.
       if t = REMOTE_NDIS_INITIALIZE_MSG then process_initialize st
       else if t = REMOTE_NDIS_HALT_MSG then process_halt st
       else if t = REMOTE_NDIS_QUERY_MSG then process_query C st
       else if t = REMOTE_NDIS_SET_MSG then process_set st
       else if t = REMOTE_NDIS_RESET_MSG then process_reset st
       else if t = REMOTE_NDIS_KEEPALIVE_MSG then process_keepalive st
       else Returns st)"

subsection \<open>Requests of the host\<close>

abbreviation message_of :: "lufa \<Rightarrow> u8 list" where
  "message_of s \<equiv> RNDISMessageBuffer (rndis_of s)"

definition set_message :: "u8 list \<Rightarrow> lufa \<Rightarrow> lufa" where
  "set_message b = upd_rndis (\<lambda>st. st\<lparr>RNDISMessageBuffer := b\<rparr>)"

text \<open>A function on the state of the driver, applied to the state of the stack.\<close>

definition on_rndis :: "(rndis_state \<Rightarrow> rndis_state outcome) \<Rightarrow> lufa \<Rightarrow> lufa outcome" where
  "on_rndis f s = and_then (f (rndis_of s)) (\<lambda>st. Returns (upd_rndis (\<lambda>_. st) s))"

definition send_encapsulated_command :: "lufa_env \<Rightarrow> rndis_config \<Rightarrow> lufa \<Rightarrow> lufa outcome" where
  "send_encapsulated_command E C s =
     (let s1 = Endpoint_ClearSETUP E s in
      and_then (read_control_into E message_of set_message (wLength (USB_ControlRequest s1)) s1) (\<lambda>(_, _, s2).
        on_rndis (RNDIS_Device_ProcessRNDISControlMessage C) (Endpoint_ClearIN E s2)))"

definition get_encapsulated_response :: "lufa_env \<Rightarrow> lufa \<Rightarrow> lufa outcome" where
  "get_encapsulated_response E s =
     and_then (on_rndis (\<lambda>st.
         and_then (get_field RNDIS_Message_Header_t MessageLength (RNDISMessageBuffer st)) (\<lambda>n.
           if n = 0 then in_buffer (\<lambda>b. and_then (store_bytes 0 [0] b) (set_field RNDIS_Message_Header_t MessageLength 1)) st
           else Returns st)) s) (\<lambda>s1.
     let s2 = Endpoint_ClearSETUP E s1 in
     and_then (get_field RNDIS_Message_Header_t MessageLength (message_of s2)) (\<lambda>n.
     and_then (write_control_from E message_of (ucast n) s2) (\<lambda>(_, _, s3).
       on_rndis (in_buffer (set_field RNDIS_Message_Header_t MessageLength 0)) (Endpoint_ClearOUT E s3))))"

definition RNDIS_Device_ProcessControlRequest :: "lufa_env \<Rightarrow> rndis_config \<Rightarrow> lufa \<Rightarrow> lufa outcome" where
  "RNDIS_Device_ProcessControlRequest E C s =
     (case Endpoint_IsSETUPReceived E s of (setup, s1) \<Rightarrow>
        if \<not> setup then Returns s1
        else
          let r = USB_ControlRequest s1 in
          if wIndex r \<noteq> ucast (ControlInterfaceNumber C) then Returns s1
          else if bRequest r = RNDIS_REQ_SendEncapsulatedCommand then
            if bmRequestType r = HOSTTODEVICE_CLASS_INTERFACE then send_encapsulated_command E C s1 else Returns s1
          else if bRequest r = RNDIS_REQ_GetEncapsulatedResponse then
            if bmRequestType r = DEVICETOHOST_CLASS_INTERFACE then get_encapsulated_response E s1 else Returns s1
          else Returns s1)"

definition rndis_endpoint :: "rndis_config \<Rightarrow> endpoint_table" where
  "rndis_endpoint C n =
     (if n = DataINEndpointNumber C then
        Some (EP_TYPE_BULK, ENDPOINT_DIR_IN, DataINEndpointSize C, DataINEndpointDoubleBank C)
      else if n = DataOUTEndpointNumber C then
        Some (EP_TYPE_BULK, ENDPOINT_DIR_OUT, DataOUTEndpointSize C, DataOUTEndpointDoubleBank C)
      else if n = NotificationEndpointNumber C then
        Some (EP_TYPE_INTERRUPT, ENDPOINT_DIR_IN, NotificationEndpointSize C, NotificationEndpointDoubleBank C)
      else None)"

definition RNDIS_Device_ConfigureEndpoints :: "lufa_env \<Rightarrow> rndis_config \<Rightarrow> lufa \<Rightarrow> (bool \<times> lufa) outcome" where
  "RNDIS_Device_ConfigureEndpoints E C s =
     configure_class_endpoints E (rndis_endpoint C) (upd_rndis (\<lambda>_. rndis_state_zero) s)"

definition response_notification :: "u8 list" where
  "response_notification =
     [DEVICETOHOST_CLASS_INTERFACE, RNDIS_NOTIF_ResponseAvailable] @ bytes16 0 @ bytes16 0 @ bytes16 0"

definition RNDIS_Device_USBTask :: "lufa_env \<Rightarrow> app \<Rightarrow> rndis_config \<Rightarrow> lufa \<Rightarrow> lufa outcome" where
  "RNDIS_Device_USBTask E A C s =
     (case read_state E s of (d, s1) \<Rightarrow>
        if d \<noteq> DEVICE_STATE_Configured then Returns s1
        else case Endpoint_IsINReady E (Endpoint_SelectEndpoint E (NotificationEndpointNumber C) s1) of (ready, s2) \<Rightarrow>
          if ready \<and> ResponseReady (rndis_of s2) then
            and_then (Endpoint_Write_Stream_LE E (USB_USBTask E A) response_notification 8 None s2) (\<lambda>(_, _, _, s3).
              Returns (upd_rndis (\<lambda>st. st\<lparr>ResponseReady := False\<rparr>) (Endpoint_ClearIN E s3)))
          else Returns s2)"

subsection \<open>Packets\<close>

text \<open>The adapter carries data once the host has set a packet filter.\<close>

definition rndis_open :: "lufa_env \<Rightarrow> lufa \<Rightarrow> bool \<times> lufa" where
  "rndis_open E s = (case read_state E s of (d, s1) \<Rightarrow>
     (d = DEVICE_STATE_Configured \<and> CurrRNDISState (rndis_of s1) = RNDIS_Data_Initialized, s1))"

definition RNDIS_Device_IsPacketReceived :: "lufa_env \<Rightarrow> rndis_config \<Rightarrow> lufa \<Rightarrow> bool \<times> lufa" where
  "RNDIS_Device_IsPacketReceived E C s =
     (case rndis_open E s of (ok, s1) \<Rightarrow>
        if \<not> ok then (False, s1)
        else Endpoint_IsOUTReceived E (Endpoint_SelectEndpoint E (DataOUTEndpointNumber C) s1))"

datatype rndis_error = RWSTREAM stream_error | RNDIS_ERROR_LOGICAL_CMD_FAILED

text \<open>
  Code, the caller's buffer and packet length, and the state. \<open>junk\<close> is what the local header holds
  before it is read.
\<close>

definition RNDIS_Device_ReadPacket ::
    "lufa_env \<Rightarrow> app \<Rightarrow> rndis_config \<Rightarrow> u8 list \<Rightarrow> u8 list \<Rightarrow> u16 \<Rightarrow> lufa \<Rightarrow>
     (rndis_error \<times> u8 list \<times> u16 \<times> lufa) outcome" where
  "RNDIS_Device_ReadPacket E A C junk Buffer PacketLength s =
     (case rndis_open E s of (ok, s1) \<Rightarrow>
        if \<not> ok then Returns (RWSTREAM DeviceDisconnected, Buffer, PacketLength, s1)
        else case Endpoint_IsOUTReceived E (Endpoint_SelectEndpoint E (DataOUTEndpointNumber C) s1) of (out, s2) \<Rightarrow>
          if \<not> out then Returns (RWSTREAM NoError, Buffer, 0, s2)
          else and_then (Endpoint_Read_Stream_LE E (USB_USBTask E A) junk
              (of_nat (sizeof RNDIS_Packet_Message_t)) None s2) (\<lambda>(_, header, _, s3).
            and_then (get_field RNDIS_Packet_Message_t DataLength header) (\<lambda>n.
              if n > ETHERNET_FRAME_SIZE_MAX then
                Returns (RNDIS_ERROR_LOGICAL_CMD_FAILED, Buffer, 0, Endpoint_StallTransaction E s3)
              else and_then (Endpoint_Read_Stream_LE E (USB_USBTask E A) Buffer (ucast n) None s3) (\<lambda>(_, Buffer, _, s4).
                Returns (RWSTREAM NoError, Buffer, ucast n, Endpoint_ClearOUT E s4)))))"

definition packet_header :: "u16 \<Rightarrow> u8 list outcome" where
  "packet_header PacketLength =
     set_fields RNDIS_Packet_Message_t
       [(MessageType, REMOTE_NDIS_PACKET_MSG),
        (MessageLength, ucast (of_nat (sizeof RNDIS_Packet_Message_t) + PacketLength)),
        (DataOffset, of_nat (sizeof RNDIS_Packet_Message_t - sizeof RNDIS_Message_Header_t)),
        (DataLength, ucast PacketLength)]
       (replicate (sizeof RNDIS_Packet_Message_t) 0)"

definition RNDIS_Device_SendPacket ::
    "lufa_env \<Rightarrow> app \<Rightarrow> rndis_config \<Rightarrow> u8 list \<Rightarrow> u16 \<Rightarrow> lufa \<Rightarrow> (stream_error \<times> lufa) outcome" where
  "RNDIS_Device_SendPacket E A C Buffer PacketLength s =
     (case rndis_open E s of (ok, s1) \<Rightarrow>
        if \<not> ok then Returns (DeviceDisconnected, s1)
        else and_then (Endpoint_WaitUntilReady E (Endpoint_SelectEndpoint E (DataINEndpointNumber C) s1)) (\<lambda>(e, s2).
          if e \<noteq> NoError then Returns (e, s2)
          else and_then (packet_header PacketLength) (\<lambda>header.
            and_then (Endpoint_Write_Stream_LE E (USB_USBTask E A) header
              (of_nat (sizeof RNDIS_Packet_Message_t)) None s2) (\<lambda>(_, _, _, s3).
            and_then (Endpoint_Write_Stream_LE E (USB_USBTask E A) Buffer PacketLength None s3) (\<lambda>(_, _, _, s4).
              Returns (NoError, Endpoint_ClearIN E s4))))))"

end
