(* ===== verification/RndisClaims.thy ===== *)
theory RndisClaims
  imports LufaCdcClaims RndisDevice
begin

text \<open>
  What the RNDIS driver answers to a control message, the messages that make it leave its buffer, and
  the command of the host that does.
\<close>

unbundle bit_operations_syntax

subsection \<open>Words in the buffer\<close>

definition word_at :: "nat \<Rightarrow> u8 list \<Rightarrow> u32" where
  "word_at i b = le32 (drop i b)"

definition put_at :: "nat \<Rightarrow> u8 list \<Rightarrow> u8 list \<Rightarrow> u8 list" where
  "put_at i d b = take i b @ d @ drop (i + length d) b"

lemma length_bytes32 [simp]: "length (bytes32 v) = 4"
  by (simp add: bytes32_def)

lemma le32_bytes32 [simp]: "le32 (bytes32 v @ b) = v"
proof (rule bit_word_eqI)
  fix n assume "n < LENGTH(32)"
  then consider "n < 8" | "8 \<le> n" "n < 16" | "16 \<le> n" "n < 24" | "24 \<le> n" "n < 32" by force
  then show "bit (le32 (bytes32 v @ b)) n = bit v n"
    by cases (auto simp: le32_def bytes32_def bit_simps)
qed

lemma store_put [simp]: "i + length d \<le> length b \<Longrightarrow> store_bytes i d b = Returns (put_at i d b)"
  by (simp add: store_bytes_def put_at_def)

lemma store_fails: "length b < i + length d \<Longrightarrow> store_bytes i d b = Faults OutOfBounds"
  by (simp add: store_bytes_def)

lemma load_word [simp]: "i + 4 \<le> length b \<Longrightarrow> load32 i b = Returns (word_at i b)"
  by (simp add: load32_def word_at_def)

lemma length_put [simp]: "i + length d \<le> length b \<Longrightarrow> length (put_at i d b) = length b"
  by (simp add: put_at_def)

lemma word_put_same [simp]: "i \<le> length b \<Longrightarrow> word_at i (put_at i (bytes32 v) b) = v"
  by (simp add: word_at_def put_at_def)

lemma le32_cong: "(\<And>j. j < 4 \<Longrightarrow> a ! j = b ! j) \<Longrightarrow> le32 a = le32 b"
  by (simp add: le32_def)

lemma word_put_other:
  assumes "i + 4 \<le> j \<or> j + length d \<le> i" "j + length d \<le> length b" "i + 4 \<le> length b"
  shows "word_at i (put_at j d b) = word_at i b"
  unfolding word_at_def
  by (rule le32_cong) (use assms in \<open>auto simp: put_at_def nth_append min_def\<close>)

text \<open>The fields of the messages, by their place.\<close>

lemmas rndis_structs = RNDIS_Message_Header_t_def RNDIS_Initialize_Message_t_def RNDIS_Initialize_Complete_t_def
  RNDIS_KeepAlive_Message_t_def RNDIS_KeepAlive_Complete_t_def RNDIS_Reset_Complete_t_def RNDIS_Set_Message_t_def
  RNDIS_Set_Complete_t_def RNDIS_Query_Message_t_def RNDIS_Query_Complete_t_def RNDIS_Packet_Message_t_def
  sizeof_def offsetof_def

lemma set_fields_step [simp]:
  "offsetof S f + 4 \<le> length b \<Longrightarrow> set_fields S ((f, v) # fs) b = set_fields S fs (put_at (offsetof S f) (bytes32 v) b)"
  by (simp add: set_field_def)

lemma set_field_put [simp]:
  "offsetof S f + 4 \<le> length b \<Longrightarrow> set_field S f v b = Returns (put_at (offsetof S f) (bytes32 v) b)"
  by (simp add: set_field_def)

text \<open>The word at a place after a list of assignments: the last one to that place.\<close>

definition assigned :: "rndis_struct \<Rightarrow> nat \<Rightarrow> (rndis_field \<times> u32) list \<Rightarrow> u32 \<Rightarrow> u32" where
  "assigned S i fs w = foldl (\<lambda>w (f, v). if offsetof S f = i then v else w) w fs"

lemma set_fields_assign:
  assumes "\<forall>(f, v) \<in> set fs. offsetof S f + 4 \<le> length b"
  shows "\<exists>b'. set_fields S fs b = Returns b' \<and> length b' = length b \<and>
    (\<forall>i. 4 dvd i \<longrightarrow> i + 4 \<le> length b \<longrightarrow> word_at i b' = assigned S i fs (word_at i b))"
  using assms
proof (induction fs arbitrary: b)
  case Nil
  then show ?case by (simp add: assigned_def)
next
  case (Cons fv fs)
  obtain f v where fv: "fv = (f, v)" by (cases fv)
  define c where "c = put_at (offsetof S f) (bytes32 v) b"
  have c: "length c = length b" "set_fields S (fv # fs) b = set_fields S fs c"
    using Cons.prems by (simp_all add: fv c_def)
  have word: "word_at i c = (if offsetof S f = i then v else word_at i b)" if "4 dvd i" "i + 4 \<le> length b" for i
  proof (cases "offsetof S f = i")
    case True
    then show ?thesis using that by (auto simp: c_def)
  next
    case False
    have "4 dvd offsetof S f" by (simp add: offsetof_def)
    with False that have "i + 4 \<le> offsetof S f \<or> offsetof S f + 4 \<le> i"
      by (auto elim!: dvdE)
    then show ?thesis
      using False that Cons.prems by (auto simp: c_def fv word_put_other)
  qed
  have "\<exists>b'. set_fields S fs c = Returns b' \<and> length b' = length c \<and>
      (\<forall>i. 4 dvd i \<longrightarrow> i + 4 \<le> length c \<longrightarrow> word_at i b' = assigned S i fs (word_at i c))"
    by (rule Cons.IH) (use Cons.prems c(1) in auto)
  moreover have "assigned S i (fv # fs) w = assigned S i fs (if offsetof S f = i then v else w)" for i w
    by (simp add: assigned_def fv)
  ultimately show ?case
    unfolding c(2) using word c(1) by auto
qed

lemma get_field_word [simp]:
  "offsetof S f + 4 \<le> length b \<Longrightarrow> get_field S f b = Returns (word_at (offsetof S f) b)"
  by (simp add: get_field_def)

subsection \<open>Answers\<close>

text \<open>The structure of the answer to a message.\<close>

definition answer_struct :: "u32 \<Rightarrow> rndis_struct" where
  "answer_struct t =
     (if t = REMOTE_NDIS_INITIALIZE_MSG then RNDIS_Initialize_Complete_t
      else if t = REMOTE_NDIS_QUERY_MSG then RNDIS_Query_Complete_t
      else if t = REMOTE_NDIS_SET_MSG then RNDIS_Set_Complete_t
      else if t = REMOTE_NDIS_RESET_MSG then RNDIS_Reset_Complete_t
      else RNDIS_KeepAlive_Complete_t)"

definition field_of :: "rndis_struct \<Rightarrow> rndis_field \<Rightarrow> rndis_state \<Rightarrow> u32" where
  "field_of S f st = word_at (offsetof S f) (RNDISMessageBuffer st)"

text \<open>
  The messages that make the driver leave its buffer: a query for the list of properties, whose 108
  bytes do not fit behind the 24 of the header, and a packet filter placed too far back.
\<close>

definition leaves_buffer :: "rndis_state \<Rightarrow> bool" where
  "leaves_buffer st \<longleftrightarrow>
     (let t = field_of RNDIS_Message_Header_t MessageType st in
      t = REMOTE_NDIS_QUERY_MSG \<and> field_of RNDIS_Query_Message_t Oid st = OID_GEN_SUPPORTED_LIST \<or>
      t = REMOTE_NDIS_SET_MSG \<and> field_of RNDIS_Set_Message_t Oid st = OID_GEN_CURRENT_PACKET_FILTER \<and>
        124 < unat (8 + field_of RNDIS_Set_Message_t InformationBufferOffset st))"

text \<open>The properties the adapter knows: those of its list that can be read, and the two that can be set.\<close>

definition known :: "rndis_state \<Rightarrow> bool" where
  "known st \<longleftrightarrow>
     (let t = field_of RNDIS_Message_Header_t MessageType st; oid = field_of RNDIS_Query_Message_t Oid st in
      if t = REMOTE_NDIS_QUERY_MSG then oid \<in> set AdapterSupportedOIDList - {OID_802_3_MULTICAST_LIST}
      else if t = REMOTE_NDIS_SET_MSG then oid \<in> {OID_GEN_CURRENT_PACKET_FILTER, OID_802_3_MULTICAST_LIST}
      else True)"

lemma oid_list_bytes: "length (concat (map bytes32 AdapterSupportedOIDList)) = 108"
  by (simp add: AdapterSupportedOIDList_def)

text \<open>What a query leaves: whether the property is known, and the bytes of its value.\<close>

definition queried :: "rndis_state \<Rightarrow> bool \<Rightarrow> (bool \<times> u16 \<times> rndis_state) outcome \<Rightarrow> bool" where
  "queried st ok r \<longleftrightarrow> (\<exists>d. r = Returns (ok, of_nat (length d),
     st\<lparr>RNDISMessageBuffer := put_at 24 d (RNDISMessageBuffer st)\<rparr>) \<and> length d \<le> 104)"

lemma queried_intros:
  assumes "length (RNDISMessageBuffer st) = 128"
  shows "length d \<le> 104 \<Longrightarrow> queried st True (query_bytes 24 d st)"
    and "queried st True (query_word 24 v st)" and "queried st False (Returns (False, 0, st))"
proof -
  show bytes: "length d \<le> 104 \<Longrightarrow> queried st True (query_bytes 24 d st)" for d
    using assms by (auto simp: queried_def query_bytes_def)
  show "queried st True (query_word 24 v st)"
    unfolding query_word_def by (rule bytes) simp
  show "queried st False (Returns (False, 0, st))"
    unfolding queried_def by (rule exI [of _ "[]"]) (simp add: put_at_def)
qed

lemma query_result:
  assumes "length (RNDISMessageBuffer st) = 128" "length (AdapterMACAddress C) = 6"
    and "length (AdapterVendorDescription C) < 104" "oid \<noteq> OID_GEN_SUPPORTED_LIST"
  shows "queried st (oid \<in> set AdapterSupportedOIDList - {OID_802_3_MULTICAST_LIST})
    (RNDIS_Device_ProcessNDISQuery C oid 24 st)"
proof -
  have "queried st True (query_bytes 24
      (take (unat (of_nat (length (AdapterVendorDescription C)) + 1 :: u16)) (AdapterVendorDescription C @ [0])) st)"
    by (rule queried_intros [OF assms(1)]) (use assms(3) in simp)
  moreover have "queried st True (query_bytes 24 (AdapterMACAddress C) st)"
    by (rule queried_intros [OF assms(1)]) (use assms(2) in simp)
  ultimately show ?thesis
    using assms(4) unfolding RNDIS_Device_ProcessNDISQuery_def Let_def
    by (simp add: AdapterSupportedOIDList_def queried_intros [OF assms(1)])
qed

lemma supported_list_overruns:
  "length (RNDISMessageBuffer st) = 128 \<Longrightarrow>
    RNDIS_Device_ProcessNDISQuery C OID_GEN_SUPPORTED_LIST 24 st = Faults OutOfBounds"
  by (simp add: RNDIS_Device_ProcessNDISQuery_def query_bytes_def store_fails AdapterSupportedOIDList_def)

text \<open>
  A complete answer: marked ready, of the type that belongs to the message, with its request number,
  a length that covers the structure and stays in the buffer, and the status.
\<close>

definition answers :: "rndis_state \<Rightarrow> rndis_state \<Rightarrow> bool" where
  "answers st st' \<longleftrightarrow>
     (let t = field_of RNDIS_Message_Header_t MessageType st; S = answer_struct t;
          len = unat (field_of S MessageLength st') in
      length (RNDISMessageBuffer st') = 128 \<and> ResponseReady st' \<and>
      field_of S MessageType st' = t OR 0x80000000 \<and>
      sizeof S \<le> len \<and> len \<le> 128 \<and>
      (t = REMOTE_NDIS_QUERY_MSG \<longrightarrow> len = sizeof S + unat (field_of S InformationBufferLength st')) \<and>
      (t \<noteq> REMOTE_NDIS_RESET_MSG \<longrightarrow> field_of S RequestId st' = field_of S RequestId st) \<and>
      field_of S Status st' =
        (if known st then REMOTE_NDIS_STATUS_SUCCESS else REMOTE_NDIS_STATUS_NOT_SUPPORTED))"

lemmas answer_defs = answers_def answer_struct_def field_of_def known_def in_buffer_def
  rndis_structs word_put_other Let_def

lemma initialize_answers:
  assumes "length (RNDISMessageBuffer st) = 128" "field_of RNDIS_Message_Header_t MessageType st = REMOTE_NDIS_INITIALIZE_MSG"
  shows "\<exists>st'. process_initialize st = Returns st' \<and> answers st st'"
proof -
  let ?S = RNDIS_Initialize_Complete_t
  define b where "b = RNDISMessageBuffer st"
  define fs where "fs = [(MessageType, REMOTE_NDIS_INITIALIZE_CMPLT), (MessageLength, of_nat (sizeof ?S))]"
  define gs where "gs = [(RequestId, word_at 8 b), (Status, REMOTE_NDIS_STATUS_SUCCESS),
      (MajorVersion, REMOTE_NDIS_VERSION_MAJOR), (MinorVersion, REMOTE_NDIS_VERSION_MINOR),
      (DeviceFlags, REMOTE_NDIS_DF_CONNECTIONLESS), (Medium, REMOTE_NDIS_MEDIUM_802_3), (MaxPacketsPerTransfer, 1),
      (MaxTransferSize, of_nat (sizeof RNDIS_Packet_Message_t) + ETHERNET_FRAME_SIZE_MAX),
      (PacketAlignmentFactor, 0), (AFListOffset, 0), (AFListSize, 0)]"
  have b: "length b = 128" using assms(1) by (simp add: b_def)
  have "\<exists>b1. set_fields ?S fs b = Returns b1 \<and> length b1 = length b \<and>
      (\<forall>i. 4 dvd i \<longrightarrow> i + 4 \<le> length b \<longrightarrow> word_at i b1 = assigned ?S i fs (word_at i b))"
    by (rule set_fields_assign) (simp add: fs_def rndis_structs b)
  then obtain b1 where b1: "set_fields ?S fs b = Returns b1" "length b1 = 128"
      "\<And>i. 4 dvd i \<Longrightarrow> i + 4 \<le> 128 \<Longrightarrow> word_at i b1 = assigned ?S i fs (word_at i b)"
    using b by auto
  have request: "get_field RNDIS_Initialize_Message_t RequestId b1 = Returns (word_at 8 b)"
    using b1(2) b1(3) [of 8] by (simp add: fs_def assigned_def rndis_structs)
  have "\<exists>b2. set_fields ?S gs b1 = Returns b2 \<and> length b2 = length b1 \<and>
      (\<forall>i. 4 dvd i \<longrightarrow> i + 4 \<le> length b1 \<longrightarrow> word_at i b2 = assigned ?S i gs (word_at i b1))"
    by (rule set_fields_assign) (simp add: gs_def rndis_structs b1(2))
  then obtain b2 where b2: "set_fields ?S gs b1 = Returns b2" "length b2 = 128"
      "\<And>i. 4 dvd i \<Longrightarrow> i + 4 \<le> 128 \<Longrightarrow> word_at i b2 = assigned ?S i gs (assigned ?S i fs (word_at i b))"
    using b1(2,3) by auto
  have "process_initialize st =
      Returns (st\<lparr>ResponseReady := True, RNDISMessageBuffer := b2, CurrRNDISState := RNDIS_Initialized\<rparr>)"
    by (simp add: process_initialize_def in_buffer_def fs_def [symmetric] b_def [symmetric] b1(1) request
        gs_def [symmetric] b2(1) del: set_fields.simps)
  moreover have "word_at 0 b2 = REMOTE_NDIS_INITIALIZE_CMPLT" "word_at 4 b2 = 52" "word_at 8 b2 = word_at 8 b"
      "word_at 12 b2 = REMOTE_NDIS_STATUS_SUCCESS"
    using b2(3) [of 0] b2(3) [of 4] b2(3) [of 8] b2(3) [of 12]
    by (simp_all add: fs_def gs_def assigned_def rndis_structs)
  ultimately show ?thesis
    using assms(2) b2(2) by (simp add: answer_defs b_def)
qed

lemma reset_answers:
  assumes "length (RNDISMessageBuffer st) = 128" "field_of RNDIS_Message_Header_t MessageType st = REMOTE_NDIS_RESET_MSG"
  shows "\<exists>st'. process_reset st = Returns st' \<and> answers st st'"
  using assms by (simp add: process_reset_def answer_defs)

lemma keepalive_answers:
  assumes "length (RNDISMessageBuffer st) = 128" "field_of RNDIS_Message_Header_t MessageType st = REMOTE_NDIS_KEEPALIVE_MSG"
  shows "\<exists>st'. process_keepalive st = Returns st' \<and> answers st st'"
  using assms by (simp add: process_keepalive_def answer_defs)

lemma set_answers:
  assumes "length (RNDISMessageBuffer st) = 128" "field_of RNDIS_Message_Header_t MessageType st = REMOTE_NDIS_SET_MSG"
  shows "if leaves_buffer st then process_set st = Faults OutOfBounds
    else \<exists>st'. process_set st = Returns st' \<and> answers st st'"
proof -
  define b where "b = RNDISMessageBuffer st"
  define off where "off = unat (8 + word_at 20 b)"
  define c where "c = put_at 8 (bytes32 (word_at 8 b)) (put_at 4 (bytes32 16) (put_at 0 (bytes32 REMOTE_NDIS_SET_CMPLT) b))"
  define st1 where "st1 = st\<lparr>ResponseReady := True, RNDISMessageBuffer := c\<rparr>"
  have b: "length b = 128" using assms(1) by (simp add: b_def)
  then have c: "length c = 128" "word_at 0 c = REMOTE_NDIS_SET_CMPLT" "word_at 4 c = 16" "word_at 8 c = word_at 8 b"
      "word_at 20 c = word_at 20 b"
    by (simp_all add: c_def word_put_other)
  have run: "process_set st = and_then (RNDIS_Device_ProcessNDISSet (word_at 12 b) off st1) (\<lambda>(ok, st).
      in_buffer (set_field RNDIS_Set_Complete_t Status
        (if ok then REMOTE_NDIS_STATUS_SUCCESS else REMOTE_NDIS_STATUS_NOT_SUPPORTED)) st)"
    using b c(1,5) unfolding process_set_def
    by (simp add: in_buffer_def rndis_structs b_def [symmetric] st1_def off_def c_def word_put_other split_def)
  have leaves: "leaves_buffer st \<longleftrightarrow> word_at 12 b = OID_GEN_CURRENT_PACKET_FILTER \<and> 124 < off"
    using assms(2) by (simp add: leaves_buffer_def field_of_def rndis_structs b_def off_def)
  have finished: "\<exists>st'. in_buffer (set_field RNDIS_Set_Complete_t Status
        (if ok then REMOTE_NDIS_STATUS_SUCCESS else REMOTE_NDIS_STATUS_NOT_SUPPORTED)) t = Returns st' \<and> answers st st'"
    if "RNDISMessageBuffer t = c" "ResponseReady t" "ok \<longleftrightarrow> known st" for ok t
    using that c assms(2) by (simp add: answer_defs b_def)
  have known: "known st \<longleftrightarrow> word_at 12 b \<in> {OID_GEN_CURRENT_PACKET_FILTER, OID_802_3_MULTICAST_LIST}"
    using assms(2) by (simp add: known_def field_of_def rndis_structs b_def Let_def)
  consider "word_at 12 b = OID_GEN_CURRENT_PACKET_FILTER" "124 < off"
    | "word_at 12 b = OID_GEN_CURRENT_PACKET_FILTER" "off \<le> 124"
    | "word_at 12 b \<noteq> OID_GEN_CURRENT_PACKET_FILTER" by linarith
  then show ?thesis
  proof cases
    case 1
    then show ?thesis
      using c(1) by (simp add: run leaves RNDIS_Device_ProcessNDISSet_def load32_def st1_def)
  next
    case 2
    then show ?thesis
      using c(1) by (simp add: run leaves RNDIS_Device_ProcessNDISSet_def st1_def)
        (rule finished [of _ True, simplified]; simp add: known)
  next
    case 3
    then show ?thesis
      using finished [of st1 "known st"] by (auto simp: run leaves RNDIS_Device_ProcessNDISSet_def known st1_def)
  qed
qed

lemma query_answers:
  assumes "length (RNDISMessageBuffer st) = 128" "field_of RNDIS_Message_Header_t MessageType st = REMOTE_NDIS_QUERY_MSG"
    and "length (AdapterMACAddress C) = 6" "length (AdapterVendorDescription C) < 104"
  shows "if leaves_buffer st then process_query C st = Faults OutOfBounds
    else \<exists>st'. process_query C st = Returns st' \<and> answers st st'"
proof -
  define b where "b = RNDISMessageBuffer st"
  define c where "c = put_at 0 (bytes32 REMOTE_NDIS_QUERY_CMPLT) b"
  define st1 where "st1 = st\<lparr>ResponseReady := True, RNDISMessageBuffer := c\<rparr>"
  have b: "length b = 128" using assms(1) by (simp add: b_def)
  then have c: "length c = 128" "word_at 0 c = REMOTE_NDIS_QUERY_CMPLT" "word_at 8 c = word_at 8 b"
    by (simp_all add: c_def word_put_other)
  define finish where "finish = (\<lambda>(ok, ResponseSize :: u16, st).
      in_buffer (set_fields RNDIS_Query_Complete_t
         (if ok then
            [(Status, REMOTE_NDIS_STATUS_SUCCESS),
             (MessageLength, ucast (of_nat (sizeof RNDIS_Query_Complete_t) + ResponseSize)),
             (InformationBufferLength, ucast ResponseSize),
             (InformationBufferOffset, of_nat (sizeof RNDIS_Query_Complete_t - sizeof RNDIS_Message_Header_t))]
          else
            [(Status, REMOTE_NDIS_STATUS_NOT_SUPPORTED),
             (MessageLength, of_nat (sizeof RNDIS_Query_Complete_t)),
             (InformationBufferLength, 0), (InformationBufferOffset, 0)])) st)"
  have run: "process_query C st = and_then (RNDIS_Device_ProcessNDISQuery C (word_at 12 b) 24 st1) finish"
    using b unfolding process_query_def finish_def
    by (simp add: in_buffer_def rndis_structs b_def [symmetric] st1_def c_def)
  have leaves: "leaves_buffer st \<longleftrightarrow> word_at 12 b = OID_GEN_SUPPORTED_LIST"
    using assms(2) by (simp add: leaves_buffer_def field_of_def rndis_structs b_def)
  have st1: "length (RNDISMessageBuffer st1) = 128" by (simp add: st1_def c)
  show ?thesis
  proof (cases "word_at 12 b = OID_GEN_SUPPORTED_LIST")
    case True
    then show ?thesis using st1 by (simp add: run leaves supported_list_overruns)
  next
    case False
    obtain d where d: "RNDIS_Device_ProcessNDISQuery C (word_at 12 b) 24 st1 =
        Returns (word_at 12 b \<in> set AdapterSupportedOIDList - {OID_802_3_MULTICAST_LIST}, of_nat (length d),
          st1\<lparr>RNDISMessageBuffer := put_at 24 d c\<rparr>)" "length d \<le> 104"
      using query_result [OF st1 assms(3,4) False] by (auto simp: queried_def st1_def)
    define e where "e = put_at 24 d c"
    have e: "length e = 128" "word_at 0 e = REMOTE_NDIS_QUERY_CMPLT" "word_at 8 e = word_at 8 b"
      using c d(2) by (simp_all add: e_def word_put_other)
    define ok where "ok \<longleftrightarrow> word_at 12 b \<in> set AdapterSupportedOIDList - {OID_802_3_MULTICAST_LIST}"
    have "\<exists>st'. finish (ok, of_nat (length d), st1\<lparr>RNDISMessageBuffer := e\<rparr>) = Returns st' \<and> answers st st'"
    proof (cases ok)
      case True
      have "unat (ucast (24 + of_nat (length d) :: u16) :: u32) = 24 + length d"
        using d(2) by (simp add: unsigned_ucast_eq take_bit_eq_mod unat_word_ariths unat_of_nat)
      moreover have "unat (ucast (of_nat (length d) :: u16) :: u32) = length d"
        using d(2) by (simp add: unsigned_ucast_eq take_bit_eq_mod unat_of_nat)
      moreover have "known st"
        using True assms(2) by (simp add: known_def field_of_def rndis_structs b_def ok_def)
      ultimately show ?thesis
        using True e d(2) assms(2) by (simp add: finish_def answer_defs b_def st1_def)
    next
      case no: False
      moreover have "\<not> known st"
        using no assms(2) by (simp add: known_def field_of_def rndis_structs b_def ok_def Let_def)
      ultimately show ?thesis
        using e assms(2) by (simp add: finish_def answer_defs b_def st1_def)
    qed
    then show ?thesis
      using False unfolding ok_def by (simp add: run leaves d(1) e_def [symmetric])
  qed
qed


text \<open>A query for the link speed, and one for the list of properties.\<close>

definition example_config :: rndis_config where
  "example_config = \<lparr>ControlInterfaceNumber = 0, DataINEndpointNumber = 1, DataINEndpointSize = 64,
     DataINEndpointDoubleBank = False, DataOUTEndpointNumber = 2, DataOUTEndpointSize = 64,
     DataOUTEndpointDoubleBank = False, NotificationEndpointNumber = 3, NotificationEndpointSize = 8,
     NotificationEndpointDoubleBank = False, AdapterVendorDescription = [76, 85, 70, 65],
     AdapterMACAddress = [2, 0, 2, 0, 2, 0]\<rparr>"

definition query_for :: "u32 \<Rightarrow> rndis_state" where
  "query_for oid = rndis_state_zero\<lparr>RNDISMessageBuffer :=
     concat (map bytes32 [REMOTE_NDIS_QUERY_MSG, 28, 7, oid, 0, 0, 0]) @ replicate 100 0\<rparr>"


subsection \<open>Commands of the host\<close>

text \<open>
  A host that has made a request and sends \<open>bytes\<close> in packets of eight: what is left of the packet in
  the endpoint, and whether the request has been taken.
\<close>

fun bank8 :: "access list \<Rightarrow> nat" where
  "bank8 [] = 8"
| "bank8 (Rd UEDATX b # l) = bank8 l - 1"
| "bank8 (Wr UEINTX v # l) = (if bit v RXOUTI then bank8 l else 8)"
| "bank8 (_ # l) = bank8 l"

fun taken :: "access list \<Rightarrow> bool" where
  "taken [] = False"
| "taken (Wr UEINTX v # l) = (\<not> bit v RXSTPI \<or> taken l)"
| "taken (_ # l) = taken l"

definition host_delivers :: "lufa_env \<Rightarrow> u8 list \<Rightarrow> bool" where
  "host_delivers E bytes \<longleftrightarrow> (\<forall>l.
     bit (hw E l UEINTX) TXINI \<and> bit (hw E l UEINTX) RXOUTI \<and> (bit (hw E l UEINTX) RXSTPI \<longleftrightarrow> \<not> taken l) \<and>
     hw E l UEBCHX = 0 \<and> hw E l UEBCLX = of_nat (bank8 l) \<and>
     (data_reads l < length bytes \<longrightarrow> hw E l UEDATX = bytes ! data_reads l))"

text \<open>The state while the bytes of the command arrive; \<open>i\<close> of them are in the buffer.\<close>

definition receiving :: "u8 list \<Rightarrow> rndis_state \<Rightarrow> nat \<Rightarrow> nat \<Rightarrow> lufa \<Rightarrow> bool" where
  "receiving bytes st i k s \<longleftrightarrow> \<not> ien s \<and> taken (io_log s) \<and> data_reads (io_log s) = i \<and> bank8 (io_log s) = k \<and>
     USB_DeviceState s \<noteq> DEVICE_STATE_Unattached \<and> USB_DeviceState s \<noteq> DEVICE_STATE_Suspended \<and>
     rndis_of s = st\<lparr>RNDISMessageBuffer := take i bytes @ drop i (RNDISMessageBuffer st)\<rparr>"

abbreviation store_message :: "lufa_env \<Rightarrow> transfer" where
  "store_message E \<equiv> into_state E message_of set_message"

lemma take_next: "i < length bs \<Longrightarrow> i < length b \<Longrightarrow>
    (take i bs @ drop i b)[i := bs ! i] = take (Suc i) bs @ drop (Suc i) b"
  by (simp add: list_update_append take_Suc_conv_app_nth Cons_nth_drop_Suc [symmetric])

lemma rndis_upd [simp]: "rndis_of (upd_rndis f s) = f (rndis_of s)" "io_log (upd_rndis f s) = io_log s"
  "ien (upd_rndis f s) = ien s" "USB_DeviceState (upd_rndis f s) = USB_DeviceState s"
  "USB_ControlRequest (upd_rndis f s) = USB_ControlRequest s"
  by (simp_all add: upd_rndis_def)

lemma drain_receives:
  assumes host: "host_delivers E bytes" and st: "length (RNDISMessageBuffer st) = 128"
  shows "receiving bytes st i k s \<Longrightarrow> i \<le> 128 \<Longrightarrow> k \<le> 8 \<Longrightarrow> i + unat n = length bytes \<Longrightarrow>
    (if 128 < i + min k (unat n) then drain_packet E (store_message E) 1 [] (int i) n s = Faults OutOfBounds
     else \<exists>n' s'. drain_packet E (store_message E) 1 [] (int i) n s = Returns ([], int (i + min k (unat n)), n', s') \<and>
       unat n' = unat n - min k (unat n) \<and> receiving bytes st (i + min k (unat n)) (k - min k (unat n)) s')"
proof (induction k arbitrary: i n s)
  case 0
  let ?c = "\<lambda>s. s\<lparr>io_log := Rd UEBCLX 0 # Rd UEBCHX 0 # io_log s\<rparr>"
  have "drain_packet E (store_message E) 1 [] (int i) n s = Returns ([], int i, n, if n = 0 then s else ?c s)"
    using host 0 by (subst drain_packet.simps) (simp add: receiving_def host_delivers_def Endpoint_BytesInEndpoint_def)
  moreover have "receiving bytes st i 0 (if n = 0 then s else ?c s)"
    using 0 by (simp add: receiving_def)
  ultimately show ?case
    using 0 by auto
next
  case (Suc k)
  show ?case
  proof (cases "n = 0")
    case True
    then show ?thesis
      using Suc.prems by (subst drain_packet.simps) auto
  next
    case False
    then have n: "0 < unat n" "unat (n - 1) = unat n - 1"
      by (simp add: unsigned_eq_0_iff neq0_conv [symmetric] del: neq0_conv, rule unat_minus_one)
    let ?c = "s\<lparr>io_log := Rd UEBCLX (of_nat (Suc k)) # Rd UEBCHX 0 # io_log s\<rparr>"
    define t where "t = set_message (take (Suc i) bytes @ drop (Suc i) (RNDISMessageBuffer st))
      (?c\<lparr>io_log := Rd UEDATX (bytes ! i) # io_log ?c\<rparr>)"
    have some: "(of_nat (Suc k) :: u8) \<noteq> 0" "i < length bytes"
      using Suc.prems(3,4) n by (auto simp: word_unat_eq_iff unat_of_nat simp del: of_nat_Suc)
    define m :: u16 where "m = ucast (of_nat (Suc k) :: u8)"
    have m: "m \<noteq> 0"
      using some(1) unat_ucast_u8 [of "of_nat (Suc k)"] by (metis m_def unsigned_eq_0_iff unsigned_0)
    have count: "Endpoint_BytesInEndpoint E s = (m, ?c)"
      using host Suc.prems(1) by (simp add: Endpoint_BytesInEndpoint_def receiving_def host_delivers_def m_def)
    have byte: "Endpoint_Read_8 E ?c = (bytes ! i, ?c\<lparr>io_log := Rd UEDATX (bytes ! i) # io_log ?c\<rparr>)"
      using host Suc.prems(1) some(2) by (simp add: Endpoint_Read_8_def receiving_def host_delivers_def)
    show ?thesis
    proof (cases "i = 128")
      case True
      then show ?thesis
        using False Suc.prems(1) st m count byte n
        by (subst drain_packet.simps) (simp add: into_state_def receiving_def)
    next
      case room: False
      then have "i < 128" using Suc.prems(2) by simp
      then have store: "store_message E [] (int i) ?c = Returns ([], t)"
        using Suc.prems(1) st some(2) byte
        by (simp add: into_state_def receiving_def t_def take_next)
      have run: "drain_packet E (store_message E) 1 [] (int i) n s =
          drain_packet E (store_message E) 1 [] (int (Suc i)) (n - 1) t"
        using False m count store by (subst drain_packet.simps) (simp add: add.commute)
      have "receiving bytes st (Suc i) k t"
        using Suc.prems(1) by (simp add: receiving_def t_def set_message_def)
      then have rest: "if 128 < Suc i + min k (unat (n - 1))
          then drain_packet E (store_message E) 1 [] (int (Suc i)) (n - 1) t = Faults OutOfBounds
          else \<exists>n' s'. drain_packet E (store_message E) 1 [] (int (Suc i)) (n - 1) t =
            Returns ([], int (Suc i + min k (unat (n - 1))), n', s') \<and>
            unat n' = unat (n - 1) - min k (unat (n - 1)) \<and>
            receiving bytes st (Suc i + min k (unat (n - 1))) (k - min k (unat (n - 1))) s'"
        by (rule Suc.IH) (use Suc.prems \<open>i < 128\<close> n in auto)
      have "i + min (Suc k) (unat n) = Suc i + min k (unat (n - 1))"
        "unat n - min (Suc k) (unat n) = unat (n - 1) - min k (unat (n - 1))"
        "Suc k - min (Suc k) (unat n) = k - min k (unat (n - 1))"
        using n by linarith+
      then show ?thesis
        using rest unfolding run by presburger
    qed
  qed
qed

lemma acknowledge_out:
  assumes "host_delivers E bytes" "receiving bytes st i k s"
  shows "receiving bytes st i 8 (Endpoint_ClearOUT E s)"
  using assms by (simp add: receiving_def Endpoint_ClearOUT_def host_delivers_def)

lemma loop_receives:
  assumes host: "host_delivers E bytes" and st: "length (RNDISMessageBuffer st) = 128"
  shows "receiving bytes st i 8 s \<Longrightarrow> i \<le> 128 \<Longrightarrow> i + unat n = length bytes \<Longrightarrow>
    (if 128 < length bytes then control_r_loop E (store_message E) 1 [] (int i) n s = Faults OutOfBounds
     else \<exists>s'. control_r_loop E (store_message E) 1 [] (int i) n s = Returns (NoError, [], s') \<and>
       receiving bytes st (length bytes) 8 s')"
proof (induction "unat n" arbitrary: i n s rule: less_induct)
  case less
  let ?v = "hw E (io_log s) UEINTX"
  show ?case
  proof (cases "n = 0")
    case True
    then have "control_r_loop E (store_message E) 1 [] (int i) n s = Returns (NoError, [], s\<lparr>io_log := Rd UEINTX ?v # io_log s\<rparr>)"
      using host less.prems(1)
      by (subst control_r_loop.simps, subst status_wait.simps) (simp add: host_delivers_def receiving_def)
    then show ?thesis
      using True less.prems by (simp add: receiving_def)
  next
    case False
    define s3 where "s3 = s\<lparr>io_log := Rd UEINTX (hw E (Rd UEINTX ?v # io_log s) UEINTX) # Rd UEINTX ?v # io_log s\<rparr>"
    have s3: "receiving bytes st i 8 s3"
      using less.prems(1) by (simp add: receiving_def s3_def)
    have run: "control_r_loop E (store_message E) 1 [] (int i) n s =
        and_then (drain_packet E (store_message E) 1 [] (int i) n s3) (\<lambda>(buffer', i', l, s4).
          control_r_loop E (store_message E) 1 buffer' i' l (Endpoint_ClearOUT E s4))"
      using host False less.prems(1)
      by (subst control_r_loop.simps) (simp add: receiving_def host_delivers_def endpoint_ops s3_def)
    define m where "m = min 8 (unat n)"
    have "0 < unat n"
      using False by (simp add: unsigned_eq_0_iff neq0_conv [symmetric] del: neq0_conv)
    then have m: "0 < m" "m \<le> unat n" by (simp_all add: m_def)
    show ?thesis
    proof (cases "128 < i + m")
      case True
      then show ?thesis
        using drain_receives [OF host st s3 less.prems(2) _ less.prems(3)] less.prems(3) m(2) by (simp add: run m_def)
    next
      case room: False
      then obtain n' t where t: "drain_packet E (store_message E) 1 [] (int i) n s3 = Returns ([], int (i + m), n', t)"
          "unat n' = unat n - m" "receiving bytes st (i + m) (8 - m) t"
        using drain_receives [OF host st s3 less.prems(2) _ less.prems(3)] by (auto simp: m_def)
      have "if 128 < length bytes
          then control_r_loop E (store_message E) 1 [] (int (i + m)) n' (Endpoint_ClearOUT E t) = Faults OutOfBounds
          else \<exists>s'. control_r_loop E (store_message E) 1 [] (int (i + m)) n' (Endpoint_ClearOUT E t) =
            Returns (NoError, [], s') \<and> receiving bytes st (length bytes) 8 s'"
        by (rule less.hyps) (use t m room less.prems acknowledge_out [OF host t(3)] in auto)
      then show ?thesis
        by (simp add: run t(1) del: of_nat_add)
    qed
  qed
qed

text \<open>
  C35: A command of at most 128 bytes that the host sends in packets of eight is in the buffer, byte for
  byte, when the driver processes it; a longer one makes the driver write past its buffer, whatever it
  says.
\<close>

theorem rndis_command_received:
  assumes "host_delivers E bytes" "length bytes < 65536" "length (message_of s) = 128"
    and "\<not> ien s" "\<not> taken (io_log s)" "data_reads (io_log s) = 0" "bank8 (io_log s) = 8"
    and "USB_DeviceState s \<noteq> DEVICE_STATE_Unattached" "USB_DeviceState s \<noteq> DEVICE_STATE_Suspended"
    and "USB_ControlRequest s = \<lparr>bmRequestType = HOSTTODEVICE_CLASS_INTERFACE,
      bRequest = RNDIS_REQ_SendEncapsulatedCommand, wValue = v, wIndex = ucast (ControlInterfaceNumber C),
      wLength = of_nat (length bytes)\<rparr>"
  shows "if 128 < length bytes then RNDIS_Device_ProcessControlRequest E C s = Faults OutOfBounds
    else \<exists>s'. RNDIS_Device_ProcessControlRequest E C s = on_rndis (RNDIS_Device_ProcessRNDISControlMessage C) s' \<and>
      rndis_of s' = (rndis_of s)\<lparr>RNDISMessageBuffer := bytes @ drop (length bytes) (message_of s)\<rparr>"
proof -
  let ?v = "hw E (io_log s) UEINTX"
  define n :: u16 where "n = of_nat (length bytes)"
  have n: "unat n = length bytes" using assms(2) by (simp add: n_def unat_of_nat)
  define s1 where "s1 = Endpoint_ClearSETUP E (s\<lparr>io_log := Rd UEINTX ?v # io_log s\<rparr>)"
  define s2 where "s2 = (if n = 0 then Endpoint_ClearOUT E s1 else s1)"
  have "receiving bytes (rndis_of s) 0 8 s1"
    using assms by (simp add: receiving_def s1_def Endpoint_ClearSETUP_def host_delivers_def)
  then have s2: "receiving bytes (rndis_of s) 0 8 s2"
    using acknowledge_out [OF assms(1)] by (simp add: s2_def)
  have "RNDIS_Device_ProcessControlRequest E C s = send_encapsulated_command E C (s\<lparr>io_log := Rd UEINTX ?v # io_log s\<rparr>)"
    using assms by (simp add: RNDIS_Device_ProcessControlRequest_def Endpoint_IsSETUPReceived_def host_delivers_def)
  also have "\<dots> = and_then (control_r_loop E (store_message E) 1 [] (int 0) n s2) (\<lambda>(_, _, t).
      on_rndis (RNDIS_Device_ProcessRNDISControlMessage C) (Endpoint_ClearIN E t))"
    using assms(4,10) by (simp add: send_encapsulated_command_def read_control_into_def template_control_r_def
        s1_def [symmetric] s2_def n_def) (simp add: s1_def Endpoint_ClearSETUP_def n_def [symmetric] s2_def)
  finally have run: "RNDIS_Device_ProcessControlRequest E C s =
      and_then (control_r_loop E (store_message E) 1 [] (int 0) n s2) (\<lambda>(_, _, t).
      on_rndis (RNDIS_Device_ProcessRNDISControlMessage C) (Endpoint_ClearIN E t))" .
  have loop: "if 128 < length bytes then control_r_loop E (store_message E) 1 [] (int 0) n s2 = Faults OutOfBounds
     else \<exists>s'. control_r_loop E (store_message E) 1 [] (int 0) n s2 = Returns (NoError, [], s') \<and>
       receiving bytes (rndis_of s) (length bytes) 8 s'"
    by (rule loop_receives [OF assms(1,3) s2]) (simp_all add: n)
  have "rndis_of (Endpoint_ClearIN E t) = rndis_of t" if "\<not> ien t" for t :: lufa
    using that by (simp add: Endpoint_ClearIN_def)
  then show ?thesis
    using loop unfolding run by (auto simp: receiving_def split: if_splits)
qed

text \<open>A host that asks for the link speed, and one that sends 130 bytes.\<close>

definition delivering_host :: "u8 list \<Rightarrow> lufa_env" where
  "delivering_host bytes = \<lparr>hw = \<lambda>l r. case r of
       UEINTX \<Rightarrow> if taken l then 5 else 13
     | UEBCLX \<Rightarrow> of_nat (bank8 l)
     | UEDATX \<Rightarrow> bytes ! data_reads l
     | _ \<Rightarrow> 0, irq = id\<rparr>"

definition commanded :: "u16 \<Rightarrow> lufa" where
  "commanded n = lufa_zero\<lparr>USB_ControlRequest := \<lparr>bmRequestType = HOSTTODEVICE_CLASS_INTERFACE,
     bRequest = RNDIS_REQ_SendEncapsulatedCommand, wValue = 0, wIndex = 0, wLength = n\<rparr>\<rparr>"

theorem rndis_command_received_witness:
  "let q = concat (map bytes32 [REMOTE_NDIS_QUERY_MSG, 28, 7, OID_GEN_LINK_SPEED, 0, 0, 0]) in
   (\<exists>s'. RNDIS_Device_ProcessControlRequest (delivering_host q) example_config (commanded 28) =
      on_rndis (RNDIS_Device_ProcessRNDISControlMessage example_config) s' \<and>
      message_of s' = q @ replicate 100 0) \<and>
   RNDIS_Device_ProcessControlRequest (delivering_host (replicate 130 0)) example_config (commanded 130) =
      Faults OutOfBounds"
proof -
  define q where "q = concat (map bytes32 [REMOTE_NDIS_QUERY_MSG, 28, 7, OID_GEN_LINK_SPEED, 0, 0, 0])"
  have host: "host_delivers (delivering_host bytes) bytes" for bytes
    by (simp add: host_delivers_def delivering_host_def)
  have start: "length (message_of (commanded n)) = 128" "\<not> ien (commanded n)" "io_log (commanded n) = []"
    "USB_DeviceState (commanded n) = DEVICE_STATE_Addressed" "message_of (commanded n) = replicate 128 0"
    "USB_ControlRequest (commanded n) = \<lparr>bmRequestType = HOSTTODEVICE_CLASS_INTERFACE,
      bRequest = RNDIS_REQ_SendEncapsulatedCommand, wValue = 0, wIndex = ucast (ControlInterfaceNumber example_config),
      wLength = n\<rparr>" for n
    by (simp_all add: commanded_def lufa_zero_def class_states_zero_def rndis_state_zero_def example_config_def)
  have "length q = 28" by (simp add: q_def)
  then have "\<exists>s'. RNDIS_Device_ProcessControlRequest (delivering_host q) example_config (commanded 28) =
      on_rndis (RNDIS_Device_ProcessRNDISControlMessage example_config) s' \<and> message_of s' = q @ replicate 100 0"
    using rndis_command_received [OF host, of q "commanded 28" 0 example_config] start by auto
  moreover have "RNDIS_Device_ProcessControlRequest (delivering_host (replicate 130 0)) example_config (commanded 130) =
      Faults OutOfBounds"
    using rndis_command_received [OF host, of "replicate 130 0" "commanded 130" 0 example_config] start by simp
  ultimately show ?thesis
    unfolding Let_def q_def by (rule conjI)
qed

end
