(* ===== verification/ClassStreams.thy ===== *)
theory ClassStreams
  imports LufaCdcClaims ClassDevice
begin

text \<open>
  Streams between an endpoint and an array in the state of a class driver, with interrupts off and a
  controller that is ready: a locale for the array, and what a whole stream stores or fetches.
\<close>

unbundle bit_operations_syntax

subsection \<open>A ready controller\<close>

text \<open>
  Every endpoint has room or data, and the data that is read are the given bytes.
\<close>

definition controller_ready :: "lufa_env \<Rightarrow> u8 list \<Rightarrow> bool" where
  "controller_ready E bytes \<longleftrightarrow> (\<forall>l.
     bit (hw E l UEINTX) RWAL \<and> bit (hw E l UEINTX) RXOUTI \<and> bit (hw E l UEINTX) TXINI \<and>
     (data_reads l < length bytes \<longrightarrow> hw E l UEDATX = bytes ! data_reads l))"

text \<open>Accesses that move no data.\<close>

definition same_bytes :: "access list \<Rightarrow> access list \<Rightarrow> bool" where
  "same_bytes l l' \<longleftrightarrow> data_reads l' = data_reads l \<and> selected l' = selected l \<and> (\<forall>e. fed e l' = fed e l)"

lemma same_bytes_refl [simp]: "same_bytes l l"
  by (simp add: same_bytes_def)

lemma same_bytes_reg [simp]:
  "r \<noteq> UEDATX \<Longrightarrow> same_bytes l (Rd r v # l') \<longleftrightarrow> same_bytes l l'"
  "r \<noteq> UEDATX \<Longrightarrow> r \<noteq> UENUM \<Longrightarrow> same_bytes l (Wr r v # l') \<longleftrightarrow> same_bytes l l'"
  by (cases r; simp add: same_bytes_def)+

text \<open>Accesses that only read.\<close>

definition only_reads :: "access list \<Rightarrow> bool" where
  "only_reads l \<longleftrightarrow> (\<forall>a \<in> set l. \<exists>r v. a = Rd r v)"

lemma only_reads_simps [simp]:
  "only_reads []" "only_reads (Rd r v # l) = only_reads l" "\<not> only_reads (Wr r v # l)"
  "only_reads (l @ l') \<longleftrightarrow> only_reads l \<and> only_reads l'"
  by (auto simp: only_reads_def)

lemma only_reads_keep: "only_reads l \<Longrightarrow> selected (l @ l') = selected l' \<and> fed e (l @ l') = fed e l'"
  by (induction l) (auto simp: only_reads_def)

lemma wait_ready_quiet:
  assumes "controller_ready E bytes" "\<not> ien s"
  shows "\<exists>l. Endpoint_WaitUntilReady E s = Returns (NoError, s\<lparr>io_log := l\<rparr>) \<and> same_bytes (io_log s) l"
proof -
  have "bit (hw E l UEINTX) TXINI" "bit (hw E l UEINTX) RXOUTI" for l
    using assms(1) by (simp_all add: controller_ready_def)
  then show ?thesis
    using assms(2)
    by (simp add: Endpoint_WaitUntilReady_def USB_Device_GetFrameNumber_def, subst ready_loop.simps)
      (simp add: Endpoint_GetEndpointDirection_def endpoint_ops, rule exI, rule conjI, rule refl, simp)
qed

subsection \<open>Arrays in the state\<close>

text \<open>An array in the state of a driver, apart from the registers.\<close>

locale state_array =
  fixes get :: "lufa \<Rightarrow> u8 list" and put :: "u8 list \<Rightarrow> lufa \<Rightarrow> lufa"
  assumes get_put: "length d = length (get s) \<Longrightarrow> get (put d s) = d"
    and put_put: "length c = length (get s) \<Longrightarrow> put d (put c s) = put d s"
    and put_get: "put (get s) s = s"
    and get_log: "get (s\<lparr>io_log := l\<rparr>) = get s"
    and put_log: "put d (s\<lparr>io_log := l\<rparr>) = (put d s)\<lparr>io_log := l\<rparr>"
    and put_keeps: "io_log (put d s) = io_log s" "ien (put d s) = ien s"
begin

lemmas laws = get_put put_put put_get get_log put_log put_keeps

text \<open>The next \<open>m\<close> bytes of a stream that reads, while the endpoint has data.\<close>

lemma read_progress:
  assumes "\<And>l. data_reads l < length bytes \<Longrightarrow> bit (hw E l UEINTX) RWAL \<and> hw E l UEDATX = bytes ! data_reads l"
  shows "\<not> ien s \<Longrightarrow> i + m \<le> length (get s) \<Longrightarrow> data_reads (io_log s) + m \<le> length bytes \<Longrightarrow> m \<le> unat n \<Longrightarrow>
    \<exists>l n'. rw_loop E task clear (into_state E get put) 1 [] (int i) n k bp s =
        rw_loop E task clear (into_state E get put) 1 [] (int (i + m)) n' (k + of_nat m) bp
          ((put (take i (get s) @ take m (drop (data_reads (io_log s)) bytes) @ drop (i + m) (get s)) s)
            \<lparr>io_log := l @ io_log s\<rparr>) \<and>
      unat n' = unat n - m \<and> data_reads (l @ io_log s) = data_reads (io_log s) + m \<and> only_reads l"
proof (induction m arbitrary: i n k s)
  case 0
  then show ?case
    by (auto simp: put_get intro!: exI [of _ "[]"] exI [of _ n])
next
  case (Suc m)
  let ?r = "data_reads (io_log s)"
  have nz: "n \<noteq> 0" using Suc.prems(4) by auto
  then have n: "unat (n - 1) = unat n - 1"
    by (rule unat_minus_one)
  let ?v = "hw E (io_log s) UEINTX"
  define d where "d = (get s)[i := bytes ! ?r]"
  define t where "t = (put d s)\<lparr>io_log := Rd UEDATX (bytes ! ?r) # Rd UEINTX ?v # io_log s\<rparr>"
  have len: "length d = length (get s)" by (simp add: d_def)
  then have twice: "put c (put d s) = put c s" for c by (rule put_put)
  have i: "i < length (get s)" "?r < length bytes" using Suc.prems(2,3) by auto
  have t: "\<not> ien t" "get t = d" "io_log t = Rd UEDATX (bytes ! ?r) # Rd UEINTX ?v # io_log s"
    using Suc.prems(1) by (simp_all add: t_def laws len)
  have run: "rw_loop E task clear (into_state E get put) 1 [] (int i) n k bp s =
      rw_loop E task clear (into_state E get put) 1 [] (int (Suc i)) (n - 1) (k + 1) bp t"
    using assms [of "io_log s"] assms [of "Rd UEINTX ?v # io_log s"] nz i Suc.prems(1)
    by (subst rw_loop.simps)
      (simp add: Endpoint_IsReadWriteAllowed_def into_state_def Endpoint_Read_8_def laws t_def d_def add.commute)
  have "\<exists>l n'. rw_loop E task clear (into_state E get put) 1 [] (int (Suc i)) (n - 1) (k + 1) bp t =
        rw_loop E task clear (into_state E get put) 1 [] (int (Suc i + m)) n' (k + 1 + of_nat m) bp
          ((put (take (Suc i) (get t) @ take m (drop (data_reads (io_log t)) bytes) @ drop (Suc i + m) (get t)) t)
            \<lparr>io_log := l @ io_log t\<rparr>) \<and>
      unat n' = unat (n - 1) - m \<and> data_reads (l @ io_log t) = data_reads (io_log t) + m \<and> only_reads l"
    by (rule Suc.IH) (use Suc.prems n t len in auto)
  then obtain l n' where l: "rw_loop E task clear (into_state E get put) 1 [] (int (Suc i)) (n - 1) (k + 1) bp t =
        rw_loop E task clear (into_state E get put) 1 [] (int (Suc i + m)) n' (k + 1 + of_nat m) bp
          ((put (take (Suc i) d @ take m (drop (Suc ?r) bytes) @ drop (Suc i + m) d) t)\<lparr>io_log := l @ io_log t\<rparr>)"
      "unat n' = unat (n - 1) - m" "data_reads (l @ io_log t) = Suc ?r + m" "only_reads l"
    by (auto simp: t)
  have "take (Suc i) d @ take m (drop (Suc ?r) bytes) @ drop (Suc i + m) d =
      take i (get s) @ take (Suc m) (drop ?r bytes) @ drop (i + Suc m) (get s)"
    using i by (simp add: d_def take_Suc_conv_app_nth Cons_nth_drop_Suc [symmetric])
  then have state: "(put (take (Suc i) d @ take m (drop (Suc ?r) bytes) @ drop (Suc i + m) d) t)\<lparr>io_log := l @ io_log t\<rparr> =
      (put (take i (get s) @ take (Suc m) (drop ?r bytes) @ drop (i + Suc m) (get s)) s)
        \<lparr>io_log := (l @ [Rd UEDATX (bytes ! ?r), Rd UEINTX ?v]) @ io_log s\<rparr>"
    by (simp add: t_def laws twice)
  show ?case
    by (rule exI [of _ "l @ [Rd UEDATX (bytes ! ?r), Rd UEINTX ?v]"], rule exI [of _ n'])
      (use l t n Suc.prems(4) state in \<open>simp add: run ac_simps\<close>)
qed

lemma read_loop:
  assumes "controller_ready E bytes" "\<not> ien s" "i + unat n \<le> length (get s)"
    and "data_reads (io_log s) + unat n \<le> length bytes"
  shows "\<exists>l. rw_loop E task clear (into_state E get put) 1 [] (int i) n k bp s =
        Returns (NoError, [], bp, (put (take i (get s) @ take (unat n) (drop (data_reads (io_log s)) bytes) @
          drop (i + unat n) (get s)) s)\<lparr>io_log := l\<rparr>) \<and>
      data_reads l = data_reads (io_log s) + unat n \<and> selected l = selected (io_log s) \<and>
      (\<forall>e. fed e l = fed e (io_log s))"
proof -
  define t where "t = (put (take i (get s) @ take (unat n) (drop (data_reads (io_log s)) bytes) @ drop (i + unat n) (get s)) s)"
  obtain l n' where l: "rw_loop E task clear (into_state E get put) 1 [] (int i) n k bp s =
        rw_loop E task clear (into_state E get put) 1 [] (int (i + unat n)) n' (k + of_nat (unat n)) bp
          (t\<lparr>io_log := l @ io_log s\<rparr>)"
      "unat n' = unat n - unat n" "data_reads (l @ io_log s) = data_reads (io_log s) + unat n" "only_reads l"
    using read_progress [OF _ assms(2-4) le_refl, where E = E and task = task and clear = clear and k = k and bp = bp] assms(1) by (auto simp: controller_ready_def t_def)
  have "n' = 0" using l(2) by (simp add: unsigned_eq_0_iff)
  then have "rw_loop E task clear (into_state E get put) 1 [] (int i) n k bp s =
      Returns (NoError, [], bp, t\<lparr>io_log := l @ io_log s\<rparr>)"
    unfolding l(1) by (subst rw_loop.simps) simp
  then show ?thesis
    using l(3) only_reads_keep [OF l(4)] by (auto simp: t_def)
qed

lemma write_loop:
  assumes "controller_ready E bytes"
  shows "\<not> ien s \<Longrightarrow> i + unat n \<le> length (get s) \<Longrightarrow>
    \<exists>l. rw_loop E task clear (from_state E get) 1 [] (int i) n k bp s = Returns (NoError, [], bp, s\<lparr>io_log := l\<rparr>) \<and>
      data_reads l = data_reads (io_log s) \<and> selected l = selected (io_log s) \<and>
      (\<forall>e. fed e l = fed e (io_log s) @ (if e = selected (io_log s) then take (unat n) (drop i (get s)) else []))"
proof (induction "unat n" arbitrary: i n k s)
  case 0
  then have "n = 0" by (simp add: unsigned_eq_0_iff)
  then show ?case
    by (subst rw_loop.simps) (auto intro!: exI [of _ "io_log s"])
next
  case (Suc m)
  have nz: "n \<noteq> 0" using Suc.hyps(2) by auto
  then have n: "n \<noteq> 0" "unat (n - 1) = m"
    using Suc.hyps(2) unat_minus_one [OF nz] by simp_all
  let ?v = "hw E (io_log s) UEINTX"
  define t where "t = s\<lparr>io_log := Wr UEDATX (get s ! i) # Rd UEINTX ?v # io_log s\<rparr>"
  have i: "i < length (get s)" using Suc.prems(2) Suc.hyps(2) by auto
  have run: "rw_loop E task clear (from_state E get) 1 [] (int i) n k bp s =
      rw_loop E task clear (from_state E get) 1 [] (int (Suc i)) (n - 1) (k + 1) bp t"
    using assms n(1) i Suc.prems(1)
    by (subst rw_loop.simps)
      (simp add: controller_ready_def Endpoint_IsReadWriteAllowed_def from_state_def Endpoint_Write_8_def laws
        t_def add.commute)
  have "\<exists>l. rw_loop E task clear (from_state E get) 1 [] (int (Suc i)) (n - 1) (k + 1) bp t =
        Returns (NoError, [], bp, t\<lparr>io_log := l\<rparr>) \<and>
      data_reads l = data_reads (io_log t) \<and> selected l = selected (io_log t) \<and>
      (\<forall>e. fed e l = fed e (io_log t) @ (if e = selected (io_log t) then take (unat (n - 1)) (drop (Suc i) (get t)) else []))"
    by (rule Suc.hyps(1)) (use Suc.prems Suc.hyps(2) n in \<open>auto simp: t_def get_log\<close>)
  moreover have "take (unat n) (drop i (get s)) = get s ! i # take m (drop (Suc i) (get s))"
    using i Suc.hyps(2) [symmetric] by (simp add: Cons_nth_drop_Suc [symmetric])
  ultimately show ?case
    using n by (auto simp: run t_def get_log)
qed

text \<open>Whole streams, with a counter that starts at 0.\<close>

lemma whole_read:
  assumes "controller_ready E bytes" "\<not> ien s" "unat n \<le> length (get s)"
    and "data_reads (io_log s) + unat n \<le> length bytes"
  shows "\<exists>l. read_stream_into E A get put n (Some 0) s = Returns (NoError, [], Some 0,
        (put (take (unat n) (drop (data_reads (io_log s)) bytes) @ drop (unat n) (get s)) s)\<lparr>io_log := l\<rparr>) \<and>
      data_reads l = data_reads (io_log s) + unat n \<and> selected l = selected (io_log s) \<and>
      (\<forall>e. fed e l = fed e (io_log s))"
proof -
  obtain k where k: "Endpoint_WaitUntilReady E s = Returns (NoError, s\<lparr>io_log := k\<rparr>)" "same_bytes (io_log s) k"
    using wait_ready_quiet [OF assms(1,2)] by blast
  have "\<exists>l. rw_loop E (USB_USBTask E A) (Endpoint_ClearOUT E) (into_state E get put) 1 [] (int 0) n 0 (Some 0) (s\<lparr>io_log := k\<rparr>) =
        Returns (NoError, [], Some 0, (put (take 0 (get (s\<lparr>io_log := k\<rparr>)) @
          take (unat n) (drop (data_reads (io_log (s\<lparr>io_log := k\<rparr>))) bytes) @
          drop (0 + unat n) (get (s\<lparr>io_log := k\<rparr>))) (s\<lparr>io_log := k\<rparr>))\<lparr>io_log := l\<rparr>) \<and>
      data_reads l = data_reads (io_log (s\<lparr>io_log := k\<rparr>)) + unat n \<and> selected l = selected (io_log (s\<lparr>io_log := k\<rparr>)) \<and>
      (\<forall>e. fed e l = fed e (io_log (s\<lparr>io_log := k\<rparr>)))"
    by (rule read_loop [OF assms(1)]) (use assms(2-4) k(2) in \<open>simp_all add: get_log same_bytes_def\<close>)
  then show ?thesis
    using k by (simp add: read_stream_into_def template_rw_def laws same_bytes_def)
qed

lemma whole_write:
  assumes "controller_ready E bytes" "\<not> ien s" "unat n \<le> length (get s)"
  shows "\<exists>l. write_stream_from E A get n (Some 0) s = Returns (NoError, [], Some 0, s\<lparr>io_log := l\<rparr>) \<and>
      data_reads l = data_reads (io_log s) \<and> selected l = selected (io_log s) \<and>
      (\<forall>e. fed e l = fed e (io_log s) @ (if e = selected (io_log s) then take (unat n) (get s) else []))"
proof -
  obtain k where k: "Endpoint_WaitUntilReady E s = Returns (NoError, s\<lparr>io_log := k\<rparr>)" "same_bytes (io_log s) k"
    using wait_ready_quiet [OF assms(1,2)] by blast
  have "\<exists>l. rw_loop E (USB_USBTask E A) (Endpoint_ClearIN E) (from_state E get) 1 [] (int 0) n 0 (Some 0) (s\<lparr>io_log := k\<rparr>) =
        Returns (NoError, [], Some 0, s\<lparr>io_log := k\<rparr>\<lparr>io_log := l\<rparr>) \<and>
      data_reads l = data_reads (io_log (s\<lparr>io_log := k\<rparr>)) \<and> selected l = selected (io_log (s\<lparr>io_log := k\<rparr>)) \<and>
      (\<forall>e. fed e l = fed e (io_log (s\<lparr>io_log := k\<rparr>)) @
        (if e = selected (io_log (s\<lparr>io_log := k\<rparr>)) then take (unat n) (drop 0 (get (s\<lparr>io_log := k\<rparr>))) else []))"
    by (rule write_loop [OF assms(1)]) (use assms(2,3) in \<open>simp_all add: get_log\<close>)
  then show ?thesis
    using k by (simp add: write_stream_from_def template_rw_def laws same_bytes_def cong: if_cong)
qed

end

subsection \<open>An application for examples\<close>

definition idle_app :: app where
  "idle_app = \<lparr>EVENT_ControlRequest = Returns, EVENT_ConfigurationChanged = Returns,
     GetDescriptor = (\<lambda>v i. ([], 0)), signature_byte = (\<lambda>n. 0)\<rparr>"

end
