(* ===== verification/HidDevice.thy ===== *)
theory HidDevice
  imports ClassDevice
begin

text \<open>
  The HID class driver of LUFA, \<^verbatim>\<open>Class/Device/HIDClassDevice.c\<close>. The two callbacks of the
  application are a record of functions, which may change the state of the stack; a local array that
  the code does not set is an argument (\<open>junk\<close>).
\<close>

unbundle bit_operations_syntax

subsection \<open>The interface\<close>

record hid_config =
  InterfaceNumber :: u8
  ReportINEndpointNumber :: u8
  ReportINEndpointSize :: u16
  ReportINEndpointDoubleBank :: bool
  PrevReportINBufferSize :: u8

abbreviation (input) HID_REQ_GetReport :: u8 where "HID_REQ_GetReport \<equiv> 0x01"
abbreviation (input) HID_REQ_GetIdle :: u8 where "HID_REQ_GetIdle \<equiv> 0x02"
abbreviation (input) HID_REQ_GetProtocol :: u8 where "HID_REQ_GetProtocol \<equiv> 0x03"
abbreviation (input) HID_REQ_SetReport :: u8 where "HID_REQ_SetReport \<equiv> 0x09"
abbreviation (input) HID_REQ_SetIdle :: u8 where "HID_REQ_SetIdle \<equiv> 0x0A"
abbreviation (input) HID_REQ_SetProtocol :: u8 where "HID_REQ_SetProtocol \<equiv> 0x0B"

text \<open>
  \<open>CreateHIDReport\<close> gets the report number, the type, the array and the state; it returns whether to
  send the report, its number, the array, its size and the state. \<open>ProcessHIDReport\<close> gets the whole
  array that was read and the place in it where the report starts.
\<close>

record hid_app =
  CreateHIDReport :: "u8 \<Rightarrow> u8 \<Rightarrow> u8 list \<Rightarrow> lufa \<Rightarrow> (bool \<times> u8 \<times> u8 list \<times> u16 \<times> lufa) outcome"
  ProcessHIDReport :: "u8 \<Rightarrow> u8 \<Rightarrow> u8 list \<Rightarrow> nat \<Rightarrow> u16 \<Rightarrow> lufa \<Rightarrow> lufa outcome"

subsection \<open>Control requests\<close>

text \<open>\<^verbatim>\<open>memcpy(Config.PrevReportINBuffer, ReportData, Config.PrevReportINBufferSize)\<close>, unless it is null.\<close>

definition keep_report :: "hid_config \<Rightarrow> u8 list \<Rightarrow> lufa \<Rightarrow> lufa outcome" where
  "keep_report C d s =
     (let n = unat (PrevReportINBufferSize C) in
      case PrevReportINBuffer (hid_of s) of
        None \<Rightarrow> Returns s
      | Some b \<Rightarrow>
          if length d < n \<or> length b < n then Faults OutOfBounds
          else Returns (upd_hid (\<lambda>h. h\<lparr>PrevReportINBuffer := Some (take n d @ drop n b)\<rparr>) s))"

definition get_report :: "lufa_env \<Rightarrow> hid_app \<Rightarrow> hid_config \<Rightarrow> lufa \<Rightarrow> lufa outcome" where
  "get_report E H C s =
     (let r = USB_ControlRequest s;
          ReportID = ucast (wValue r AND 0xFF);
          ReportType = ucast (drop_bit 8 (wValue r)) - 1 in
      and_then (CreateHIDReport H ReportID ReportType (replicate (unat (PrevReportINBufferSize C)) 0) s)
        (\<lambda>(_, _, ReportData, ReportSize, s1).
      and_then (keep_report C ReportData s1) (\<lambda>s2.
      and_then (Endpoint_Write_Control_Stream_LE E ReportData ReportSize
        (Endpoint_ClearSETUP E (Endpoint_SelectEndpoint E ENDPOINT_CONTROLEP s2))) (\<lambda>(_, _, s3).
        Returns (Endpoint_ClearOUT E s3)))))"

definition set_report :: "lufa_env \<Rightarrow> hid_app \<Rightarrow> (nat \<Rightarrow> u8 list) \<Rightarrow> lufa \<Rightarrow> lufa outcome" where
  "set_report E H junk s =
     (let r = USB_ControlRequest s;
          ReportSize = wLength r;
          ReportID = ucast (wValue r AND 0xFF);
          ReportType = ucast (drop_bit 8 (wValue r)) - 1 in
      and_then (Endpoint_Read_Control_Stream_LE E (junk (unat ReportSize)) ReportSize (Endpoint_ClearSETUP E s))
        (\<lambda>(_, ReportData, s1).
          ProcessHIDReport H ReportID ReportType ReportData (if ReportID \<noteq> 0 then 1 else 0)
            (ReportSize - (if ReportID \<noteq> 0 then 1 else 0)) (Endpoint_ClearIN E s1)))"

definition set_protocol :: "lufa_env \<Rightarrow> lufa \<Rightarrow> lufa outcome" where
  "set_protocol E s =
     and_then (acknowledge E s) (\<lambda>s1.
       Returns (upd_hid (\<lambda>h. h\<lparr>UsingReportProtocol := wValue (USB_ControlRequest s1) AND 0xFF \<noteq> 0\<rparr>) s1))"

definition set_idle :: "lufa_env \<Rightarrow> lufa \<Rightarrow> lufa outcome" where
  "set_idle E s =
     and_then (acknowledge E s) (\<lambda>s1.
       Returns (upd_hid (\<lambda>h. h\<lparr>IdleCount := drop_bit 6 (wValue (USB_ControlRequest s1) AND 0xFF00)\<rparr>) s1))"

definition get_protocol :: "lufa_env \<Rightarrow> lufa \<Rightarrow> lufa outcome" where
  "get_protocol E = answer_byte E (\<lambda>s. if UsingReportProtocol (hid_of s) then 1 else 0)"

definition get_idle :: "lufa_env \<Rightarrow> lufa \<Rightarrow> lufa outcome" where
  "get_idle E = answer_byte E (\<lambda>s. ucast (drop_bit 2 (IdleCount (hid_of s))))"

definition HID_Device_ProcessControlRequest ::
    "lufa_env \<Rightarrow> hid_app \<Rightarrow> (nat \<Rightarrow> u8 list) \<Rightarrow> hid_config \<Rightarrow> lufa \<Rightarrow> lufa outcome" where
  "HID_Device_ProcessControlRequest E H junk C s =
     (case Endpoint_IsSETUPReceived E s of (setup, s1) \<Rightarrow>
        if \<not> setup then Returns s1
        else
          let r = USB_ControlRequest s1; t = bmRequestType r; q = bRequest r in
          if wIndex r \<noteq> ucast (InterfaceNumber C) then Returns s1
          else if q = HID_REQ_GetReport then
            if t = DEVICETOHOST_CLASS_INTERFACE then get_report E H C s1 else Returns s1
          else if q = HID_REQ_SetReport then
            if t = HOSTTODEVICE_CLASS_INTERFACE then set_report E H junk s1 else Returns s1
          else if q = HID_REQ_GetProtocol then
            if t = DEVICETOHOST_CLASS_INTERFACE then get_protocol E s1 else Returns s1
          else if q = HID_REQ_SetProtocol then
            if t = HOSTTODEVICE_CLASS_INTERFACE then set_protocol E s1 else Returns s1
          else if q = HID_REQ_SetIdle then
            if t = HOSTTODEVICE_CLASS_INTERFACE then set_idle E s1 else Returns s1
          else if q = HID_REQ_GetIdle then
            if t = DEVICETOHOST_CLASS_INTERFACE then get_idle E s1 else Returns s1
          else Returns s1)"

subsection \<open>Configuration and reports\<close>

definition HID_Device_ConfigureEndpoints :: "lufa_env \<Rightarrow> hid_config \<Rightarrow> lufa \<Rightarrow> (bool \<times> lufa) outcome" where
  "HID_Device_ConfigureEndpoints E C s =
     Endpoint_ConfigureEndpoint E (ReportINEndpointNumber C) EP_TYPE_INTERRUPT ENDPOINT_DIR_IN
       (ReportINEndpointSize C)
       (if ReportINEndpointDoubleBank C then ENDPOINT_BANK_DOUBLE else ENDPOINT_BANK_SINGLE)
       (upd_hid (\<lambda>h. (hid_device_state_zero (PrevReportINBuffer h))\<lparr>UsingReportProtocol := True, IdleCount := 500\<rparr>) s)"

text \<open>\<^verbatim>\<open>memcmp(a, b, n) != 0\<close>, which may read up to \<open>n\<close> bytes of both.\<close>

definition memory_differs :: "u8 list \<Rightarrow> u8 list \<Rightarrow> nat \<Rightarrow> bool outcome" where
  "memory_differs a b n =
     (if length a < n \<or> length b < n then Faults OutOfBounds else Returns (take n a \<noteq> take n b))"

definition report_changed :: "u8 list \<Rightarrow> u16 \<Rightarrow> lufa \<Rightarrow> bool outcome" where
  "report_changed d n s =
     (case PrevReportINBuffer (hid_of s) of
        None \<Rightarrow> Returns False
      | Some b \<Rightarrow> memory_differs d b (unat n))"

definition send_report :: "lufa_env \<Rightarrow> app \<Rightarrow> hid_config \<Rightarrow> u8 \<Rightarrow> u8 list \<Rightarrow> u16 \<Rightarrow> lufa \<Rightarrow> lufa outcome" where
  "send_report E A C ReportID ReportINData ReportINSize s =
     (let s1 = Endpoint_SelectEndpoint E (ReportINEndpointNumber C)
            (upd_hid (\<lambda>h. h\<lparr>IdleMSRemaining := IdleCount h\<rparr>) s);
          s2 = (if ReportID \<noteq> 0 then Endpoint_Write_8 E ReportID s1 else s1) in
      and_then (Endpoint_Write_Stream_LE E (USB_USBTask E A) ReportINData ReportINSize None s2) (\<lambda>(_, _, _, s3).
        Returns (Endpoint_ClearIN E s3)))"

definition HID_Device_USBTask :: "lufa_env \<Rightarrow> app \<Rightarrow> hid_app \<Rightarrow> hid_config \<Rightarrow> lufa \<Rightarrow> lufa outcome" where
  "HID_Device_USBTask E A H C s =
     (case read_state E s of (d, s1) \<Rightarrow>
        if d \<noteq> DEVICE_STATE_Configured then Returns s1
        else case USB_Device_GetFrameNumber E s1 of (f, s2) \<Rightarrow>
          if PrevFrameNum (hid_of s2) = f then Returns s2
          else case Endpoint_IsReadWriteAllowed E (Endpoint_SelectEndpoint E (ReportINEndpointNumber C) s2) of (ok, s3) \<Rightarrow>
            if \<not> ok then Returns s3
            else and_then (CreateHIDReport H 0 0 (replicate (unat (PrevReportINBufferSize C)) 0) s3)
                (\<lambda>(ForceSend, ReportID, ReportINData, ReportINSize, s4).
              let IdlePeriodElapsed = (IdleCount (hid_of s4) \<noteq> 0 \<and> IdleMSRemaining (hid_of s4) = 0) in
              and_then (report_changed ReportINData ReportINSize s4) (\<lambda>StatesChanged.
              and_then (keep_report C ReportINData s4) (\<lambda>s5.
              and_then (if ReportINSize \<noteq> 0 \<and> (ForceSend \<or> StatesChanged \<or> IdlePeriodElapsed)
                then send_report E A C ReportID ReportINData ReportINSize s5 else Returns s5) (\<lambda>s6.
              case USB_Device_GetFrameNumber E s6 of (g, s7) \<Rightarrow>
                Returns (upd_hid (\<lambda>h. h\<lparr>PrevFrameNum := g\<rparr>) s7))))))"

definition HID_Device_MillisecondElapsed :: "lufa \<Rightarrow> lufa" where
  "HID_Device_MillisecondElapsed s =
     (if IdleMSRemaining (hid_of s) \<noteq> 0
      then upd_hid (\<lambda>h. h\<lparr>IdleMSRemaining := IdleMSRemaining h - 1\<rparr>) s else s)"

end
