(* ===== verification/HidDeviceClaims.thy ===== *)
theory HidDeviceClaims
  imports ClassStreams HidDevice
begin

text \<open>
  The HID device driver: when a report is sent and what of it, the idle period, and the requests that
  read back what the host has set.
\<close>

unbundle bit_operations_syntax

subsection \<open>Sending a local buffer\<close>

lemma buffer_loop:
  assumes "controller_ready E bytes"
  shows "\<not> ien s \<Longrightarrow> i + unat n \<le> length b \<Longrightarrow>
    \<exists>l. rw_loop E task clear (write_byte E) 1 b (int i) n k bp s = Returns (NoError, b, bp, s\<lparr>io_log := l\<rparr>) \<and>
      selected l = selected (io_log s) \<and>
      (\<forall>e. fed e l = fed e (io_log s) @ (if e = selected (io_log s) then take (unat n) (drop i b) else []))"
proof (induction "unat n" arbitrary: i n k s)
  case 0
  then have "n = 0" by (simp add: unsigned_eq_0_iff)
  then show ?case
    by (subst rw_loop.simps) (auto intro!: exI [of _ "io_log s"])
next
  case (Suc m)
  have nz: "n \<noteq> 0" using Suc.hyps(2) by auto
  then have n: "unat (n - 1) = m"
    using Suc.hyps(2) unat_minus_one [OF nz] by simp
  define t where "t = s\<lparr>io_log := Wr UEDATX (b ! i) # Rd UEINTX (hw E (io_log s) UEINTX) # io_log s\<rparr>"
  have i: "i < length b" using Suc.prems(2) Suc.hyps(2) by auto
  have run: "rw_loop E task clear (write_byte E) 1 b (int i) n k bp s =
      rw_loop E task clear (write_byte E) 1 b (int (Suc i)) (n - 1) (k + 1) bp t"
    using assms nz i Suc.prems(1)
    by (subst rw_loop.simps)
      (simp add: controller_ready_def Endpoint_IsReadWriteAllowed_def write_byte_def Endpoint_Write_8_def t_def add.commute)
  have "\<exists>l. rw_loop E task clear (write_byte E) 1 b (int (Suc i)) (n - 1) (k + 1) bp t = Returns (NoError, b, bp, t\<lparr>io_log := l\<rparr>) \<and>
      selected l = selected (io_log t) \<and>
      (\<forall>e. fed e l = fed e (io_log t) @ (if e = selected (io_log t) then take (unat (n - 1)) (drop (Suc i) b) else []))"
    by (rule Suc.hyps(1)) (use Suc.prems Suc.hyps(2) n in \<open>auto simp: t_def\<close>)
  moreover have "take (unat n) (drop i b) = b ! i # take m (drop (Suc i) b)"
    using i Suc.hyps(2) [symmetric] by (simp add: Cons_nth_drop_Suc [symmetric])
  ultimately show ?case
    using n by (auto simp: run t_def)
qed

lemma buffer_sent:
  assumes "controller_ready E bytes" "\<not> ien s" "unat n \<le> length b"
  shows "\<exists>l. Endpoint_Write_Stream_LE E task b n None s = Returns (NoError, b, None, s\<lparr>io_log := l\<rparr>) \<and>
      (\<forall>e. fed e l = fed e (io_log s) @ (if e = selected (io_log s) then take (unat n) b else []))"
proof -
  obtain k where k: "Endpoint_WaitUntilReady E s = Returns (NoError, s\<lparr>io_log := k\<rparr>)" "same_bytes (io_log s) k"
    using wait_ready_quiet [OF assms(1,2)] by blast
  have "\<exists>l. rw_loop E task (Endpoint_ClearIN E) (write_byte E) 1 b (int 0) n 0 None (s\<lparr>io_log := k\<rparr>) =
        Returns (NoError, b, None, s\<lparr>io_log := k\<rparr>\<lparr>io_log := l\<rparr>) \<and>
      selected l = selected (io_log (s\<lparr>io_log := k\<rparr>)) \<and>
      (\<forall>e. fed e l = fed e (io_log (s\<lparr>io_log := k\<rparr>)) @
        (if e = selected (io_log (s\<lparr>io_log := k\<rparr>)) then take (unat n) (drop 0 b) else []))"
    by (rule buffer_loop [OF assms(1)]) (use assms(2,3) in simp_all)
  then show ?thesis
    using k by (auto simp: Endpoint_Write_Stream_LE_def template_rw_def same_bytes_def)
qed

subsection \<open>Reports\<close>

lemma hid_upd [simp]: "hid_of (upd_hid f s) = f (hid_of s)" "io_log (upd_hid f s) = io_log s"
  "ien (upd_hid f s) = ien s" "USB_DeviceState (upd_hid f s) = USB_DeviceState s"
  by (simp_all add: upd_hid_def)

text \<open>
  Whether a report has to go out: there is one, and it is forced, differs from the last one, or the
  idle period that the host asked for is over.
\<close>

definition report_due :: "hid_device_state \<Rightarrow> bool \<Rightarrow> u8 list \<Rightarrow> u16 \<Rightarrow> bool" where
  "report_due h force d n \<longleftrightarrow> n \<noteq> 0 \<and> (force \<or>
     (\<exists>b. PrevReportINBuffer h = Some b \<and> take (unat n) d \<noteq> take (unat n) b) \<or>
     IdleCount h \<noteq> 0 \<and> IdleMSRemaining h = 0)"

lemma report_sent:
  assumes "controller_ready E bytes" "\<not> ien s" "unat n \<le> length d"
  shows "\<exists>t. send_report E A C ID d n s = Returns t \<and> \<not> ien t \<and>
    hid_of t = (hid_of s)\<lparr>IdleMSRemaining := IdleCount (hid_of s)\<rparr> \<and>
    fed (ReportINEndpointNumber C) (io_log t) = fed (ReportINEndpointNumber C) (io_log s) @
      (if ID \<noteq> 0 then [ID] else []) @ take (unat n) d"
proof -
  let ?e = "ReportINEndpointNumber C"
  define s1 where "s1 = Endpoint_SelectEndpoint E ?e (upd_hid (\<lambda>h. h\<lparr>IdleMSRemaining := IdleCount h\<rparr>) s)"
  define s2 where "s2 = (if ID \<noteq> 0 then Endpoint_Write_8 E ID s1 else s1)"
  have s2: "\<not> ien s2" "hid_of s2 = (hid_of s)\<lparr>IdleMSRemaining := IdleCount (hid_of s)\<rparr>" "selected (io_log s2) = ?e"
      "fed ?e (io_log s2) = fed ?e (io_log s) @ (if ID \<noteq> 0 then [ID] else [])"
    using assms(2) by (simp_all add: s2_def s1_def Endpoint_SelectEndpoint_def Endpoint_Write_8_def)
  obtain l where l: "Endpoint_Write_Stream_LE E (USB_USBTask E A) d n None s2 = Returns (NoError, d, None, s2\<lparr>io_log := l\<rparr>)"
      "fed ?e l = fed ?e (io_log s2) @ take (unat n) d"
    using buffer_sent [OF assms(1) s2(1) assms(3), of "USB_USBTask E A"] s2(3) by auto
  have "send_report E A C ID d n s = Returns (Endpoint_ClearIN E (s2\<lparr>io_log := l\<rparr>))"
    unfolding send_report_def Let_def s1_def [symmetric] s2_def [symmetric] by (simp add: l(1))
  then show ?thesis
    using s2 l(2) by (simp add: Endpoint_ClearIN_def)
qed

text \<open>
  C38: In a new frame the driver asks the application for a report. It sends it, after its number if
  there is one, exactly when it is due, and then restarts the idle period; it keeps the report for the
  next comparison and does nothing more in this frame.
\<close>

theorem hid_report_sent_when_due:
  assumes "controller_ready E bytes" "\<And>l. hw E l UDFNUML = f" "\<And>l. hw E l UDFNUMH = g"
    and "\<not> ien s" "USB_DeviceState s = DEVICE_STATE_Configured" "PrevFrameNum (hid_of s) \<noteq> le16 f g"
    and "\<And>t. CreateHIDReport H 0 0 (replicate (unat (PrevReportINBufferSize C)) 0) t = Returns (force, ID, d, n, t)"
    and "length d = unat (PrevReportINBufferSize C)" "unat n \<le> length d"
    and "\<And>b. PrevReportINBuffer (hid_of s) = Some b \<Longrightarrow> length b = length d"
  shows "\<exists>s'. HID_Device_USBTask E A H C s = Returns s' \<and>
    (let due = report_due (hid_of s) force d n in
     fed (ReportINEndpointNumber C) (io_log s') = fed (ReportINEndpointNumber C) (io_log s) @
       (if due then (if ID \<noteq> 0 then [ID] else []) @ take (unat n) d else []) \<and>
     hid_of s' = (hid_of s)\<lparr>PrevFrameNum := le16 f g,
       IdleMSRemaining := if due then IdleCount (hid_of s) else IdleMSRemaining (hid_of s),
       PrevReportINBuffer := map_option (\<lambda>_. d) (PrevReportINBuffer (hid_of s))\<rparr>)"
proof -
  let ?e = "ReportINEndpointNumber C"
  define h where "h = hid_of s"
  define due where "due = report_due h force d n"
  have frame: "USB_Device_GetFrameNumber E t = (le16 f g, t\<lparr>io_log := Rd UDFNUMH g # Rd UDFNUML f # io_log t\<rparr>)"
    if "\<not> ien t" for t :: lufa
    using that assms(2,3) by (simp add: USB_Device_GetFrameNumber_def)
  define s2 where "s2 = s\<lparr>io_log := Rd UDFNUMH g # Rd UDFNUML f # io_log s\<rparr>"
  define s3 where "s3 = snd (Endpoint_IsReadWriteAllowed E (Endpoint_SelectEndpoint E ?e s2))"
  have s3: "Endpoint_IsReadWriteAllowed E (Endpoint_SelectEndpoint E ?e s2) = (True, s3)" "\<not> ien s3" "hid_of s3 = h"
      "fed ?e (io_log s3) = fed ?e (io_log s)"
    using assms(1,4) by (simp_all add: s3_def s2_def h_def Endpoint_IsReadWriteAllowed_def Endpoint_SelectEndpoint_def
        controller_ready_def)
  define h5 where "h5 = h\<lparr>PrevReportINBuffer := map_option (\<lambda>_. d) (PrevReportINBuffer h)\<rparr>"
  obtain s5 where s5: "keep_report C d s3 = Returns s5" "\<not> ien s5" "hid_of s5 = h5" "fed ?e (io_log s5) = fed ?e (io_log s)"
    using s3(2-4) assms(8,10)
    by (cases "PrevReportINBuffer h") (auto simp: keep_report_def Let_def h_def h5_def)
  have changed: "report_changed d n s3 =
      Returns (\<exists>b. PrevReportINBuffer h = Some b \<and> take (unat n) d \<noteq> take (unat n) b)"
    using s3(3) assms(9,10) by (auto simp: report_changed_def memory_differs_def h_def split: option.split)
  define s6 where "s6 = (if due then send_report E A C ID d n s5 else Returns s5)"
  have "\<exists>t. s6 = Returns t \<and> \<not> ien t \<and> hid_of t = h5\<lparr>IdleMSRemaining := if due then IdleCount h else IdleMSRemaining h\<rparr> \<and>
      fed ?e (io_log t) = fed ?e (io_log s) @ (if due then (if ID \<noteq> 0 then [ID] else []) @ take (unat n) d else [])"
  proof (cases due)
    case False
    then show ?thesis
      using s5 by (simp add: s6_def h5_def)
  next
    case True
    then show ?thesis
      using report_sent [OF assms(1) s5(2) assms(9), of A C ID] s5(3,4) by (simp add: s6_def h5_def)
  qed
  then obtain t where t: "s6 = Returns t" "\<not> ien t" "hid_of t = h5\<lparr>IdleMSRemaining := if due then IdleCount h else IdleMSRemaining h\<rparr>"
      "fed ?e (io_log t) = fed ?e (io_log s) @ (if due then (if ID \<noteq> 0 then [ID] else []) @ take (unat n) d else [])"
    by blast
  have "hid_of s2 = h" by (simp add: s2_def h_def)
  then have "HID_Device_USBTask E A H C s = and_then s6 (\<lambda>s6. case USB_Device_GetFrameNumber E s6 of (g, s7) \<Rightarrow>
      Returns (upd_hid (\<lambda>h. h\<lparr>PrevFrameNum := g\<rparr>) s7))"
    using assms(4-7) s3 s5(1) changed
    by (simp add: HID_Device_USBTask_def frame s2_def [symmetric] h_def [symmetric] s6_def due_def report_due_def)
  then show ?thesis
    using t by (simp add: frame Let_def h_def [symmetric] due_def [symmetric] h5_def)
qed

text \<open>A mouse report that has not changed, in the middle of the idle period and at its end.\<close>

definition mouse_config :: hid_config where
  "mouse_config = \<lparr>InterfaceNumber = 0, ReportINEndpointNumber = 1, ReportINEndpointSize = 8,
     ReportINEndpointDoubleBank = False, PrevReportINBufferSize = 3\<rparr>"

definition mouse_app :: hid_app where
  "mouse_app = \<lparr>CreateHIDReport = (\<lambda>i t b s. Returns (False, 0, [1, 2, 3], 3, s)),
     ProcessHIDReport = (\<lambda>i t b p n s. Returns s)\<rparr>"

definition mouse :: "u16 \<Rightarrow> lufa" where
  "mouse rest = upd_hid (\<lambda>_. \<lparr>UsingReportProtocol = True, PrevFrameNum = 7, IdleCount = 500,
     IdleMSRemaining = rest, PrevReportINBuffer = Some [1, 2, 3]\<rparr>)
     (lufa_zero\<lparr>USB_DeviceState := DEVICE_STATE_Configured\<rparr>)"

theorem hid_report_sent_when_due_witness:
  "let E = \<lparr>hw = \<lambda>l r. if r = UEINTX then 0x25 else 0, irq = id\<rparr> in
   (\<exists>s'. HID_Device_USBTask E idle_app mouse_app mouse_config (mouse 200) = Returns s' \<and> fed 1 (io_log s') = []) \<and>
   (\<exists>s'. HID_Device_USBTask E idle_app mouse_app mouse_config (mouse 0) = Returns s' \<and> fed 1 (io_log s') = [1, 2, 3])"
proof -
  define E :: lufa_env where "E = \<lparr>hw = \<lambda>l r. if r = UEINTX then 0x25 else 0, irq = id\<rparr>"
  have ready: "controller_ready E []" "\<And>l. hw E l UDFNUML = 0" "\<And>l. hw E l UDFNUMH = 0"
    by (simp_all add: controller_ready_def E_def)
  have s: "\<not> ien (mouse r)" "USB_DeviceState (mouse r) = DEVICE_STATE_Configured" "PrevFrameNum (hid_of (mouse r)) \<noteq> le16 0 0"
    "fed 1 (io_log (mouse r)) = []" "hid_of (mouse r) = \<lparr>UsingReportProtocol = True, PrevFrameNum = 7, IdleCount = 500,
     IdleMSRemaining = r, PrevReportINBuffer = Some [1, 2, 3]\<rparr>" for r
    by (simp_all add: mouse_def lufa_zero_def le16_def)
  have app: "CreateHIDReport mouse_app 0 0 (replicate (unat (PrevReportINBufferSize mouse_config)) 0) t =
      Returns (False, 0, [1, 2, 3], 3, t)" for t
    by (simp add: mouse_app_def)
  have run: "\<exists>s'. HID_Device_USBTask E idle_app mouse_app mouse_config (mouse r) = Returns s' \<and>
      fed 1 (io_log s') = (if r = 0 then [1, 2, 3] else [])" for r
    using hid_report_sent_when_due [OF ready s(1,2,3) app, of r idle_app] s(4,5)
    by (auto simp: mouse_config_def Let_def report_due_def)
  show ?thesis
    unfolding Let_def E_def [symmetric] using run [of 200] run [of 0] by simp
qed

subsection \<open>Requests\<close>

text \<open>The idle period in milliseconds is four times the value of the request, which reads back as it was set.\<close>

lemma high_byte: "v AND 0xFF00 = push_bit 8 (drop_bit 8 v)" for v :: u16
proof -
  have "v AND push_bit 8 (mask 8) = push_bit 8 (drop_bit 8 v)"
    by (rule bit_word_eqI) (auto simp: bit_simps)
  then show ?thesis
    by (simp add: mask_eq_exp_minus_1)
qed

lemma idle_value:
  fixes v :: u16
  shows "unat (drop_bit 6 (v AND 0xFF00)) = 4 * (unat v div 256)"
    and "ucast (drop_bit 2 (drop_bit 6 (v AND 0xFF00))) = (ucast (drop_bit 8 v) :: u8)"
proof -
  show "ucast (drop_bit 2 (drop_bit 6 (v AND 0xFF00))) = (ucast (drop_bit 8 v) :: u8)"
    unfolding high_byte by (rule bit_word_eqI) (auto simp: bit_simps)
  have "drop_bit 6 (v AND 0xFF00) = push_bit 2 (drop_bit 8 v)"
    unfolding high_byte by (rule bit_word_eqI) (auto simp: bit_simps dest: bit_imp_le_length)
  moreover have "unat (drop_bit 8 v) = unat v div 256"
    by (simp add: drop_bit_eq_div unat_div)
  moreover have "unat v div 256 < 256"
    using unat_u16_less [of v] by linarith
  ultimately show "unat (drop_bit 6 (v AND 0xFF00)) = 4 * (unat v div 256)"
    by (simp add: push_bit_eq_mult unat_word_ariths)
qed

text \<open>Each millisecond that the application reports takes one from the period, down to zero.\<close>

lemma idle_countdown:
  "unat (IdleMSRemaining (hid_of ((HID_Device_MillisecondElapsed ^^ n) s))) = unat (IdleMSRemaining (hid_of s)) - n"
proof (induction n)
  case (Suc n)
  let ?t = "(HID_Device_MillisecondElapsed ^^ n) s"
  show ?case
  proof (cases "IdleMSRemaining (hid_of ?t) = 0")
    case True
    then show ?thesis using Suc by (simp add: HID_Device_MillisecondElapsed_def [of ?t])
  next
    case False
    then have "unat (IdleMSRemaining (hid_of ?t) - 1) = unat (IdleMSRemaining (hid_of ?t)) - 1"
      by (rule unat_minus_one)
    then show ?thesis using Suc False by (simp add: HID_Device_MillisecondElapsed_def [of ?t])
  qed
qed simp

end
