(* ===== verification/MassStorage.thy ===== *)
theory MassStorage
  imports ClassDevice
begin

text \<open>
  The mass storage class driver of LUFA, \<^verbatim>\<open>Class/Device/MassStorageClassDevice.c\<close>. The command block
  (31 bytes) and the status (13 bytes) are kept as they travel, and their fields read from the bytes.
  The callback of the application for a SCSI command is an argument.
\<close>

unbundle bit_operations_syntax

subsection \<open>The structures of the protocol\<close>

abbreviation (input) MS_CBW_SIGNATURE :: u32 where "MS_CBW_SIGNATURE \<equiv> 0x43425355"
abbreviation (input) MS_CSW_SIGNATURE :: u32 where "MS_CSW_SIGNATURE \<equiv> 0x53425355"
abbreviation (input) MS_COMMAND_DIR_DATA_IN :: u8 where "MS_COMMAND_DIR_DATA_IN \<equiv> 0x80"
abbreviation (input) MS_REQ_GetMaxLUN :: u8 where "MS_REQ_GetMaxLUN \<equiv> 0xFE"
abbreviation (input) MS_REQ_MassStorageReset :: u8 where "MS_REQ_MassStorageReset \<equiv> 0xFF"
abbreviation (input) MS_SCSI_COMMAND_Pass :: u8 where "MS_SCSI_COMMAND_Pass \<equiv> 0"
abbreviation (input) MS_SCSI_COMMAND_Fail :: u8 where "MS_SCSI_COMMAND_Fail \<equiv> 1"

text \<open>The fields of \<^verbatim>\<open>MS_CommandBlockWrapper_t\<close>; the SCSI command starts at byte 15.\<close>

definition cbw_Signature :: "u8 list \<Rightarrow> u32" where "cbw_Signature b = le32 b"
definition cbw_Tag :: "u8 list \<Rightarrow> u32" where "cbw_Tag b = le32 (drop 4 b)"
definition cbw_DataTransferLength :: "u8 list \<Rightarrow> u32" where "cbw_DataTransferLength b = le32 (drop 8 b)"
definition cbw_Flags :: "u8 list \<Rightarrow> u8" where "cbw_Flags b = b ! 12"
definition cbw_LUN :: "u8 list \<Rightarrow> u8" where "cbw_LUN b = b ! 13"
definition cbw_SCSICommandLength :: "u8 list \<Rightarrow> u8" where "cbw_SCSICommandLength b = b ! 14"

text \<open>A \<^verbatim>\<open>MS_CommandStatusWrapper_t\<close> with given fields.\<close>

definition csw_bytes :: "u32 \<Rightarrow> u32 \<Rightarrow> u32 \<Rightarrow> u8 \<Rightarrow> u8 list" where
  "csw_bytes Signature Tag DataTransferResidue Status =
     bytes32 Signature @ bytes32 Tag @ bytes32 DataTransferResidue @ [Status]"

subsection \<open>The interface\<close>

record ms_config =
  InterfaceNumber :: u8
  DataINEndpointNumber :: u8
  DataINEndpointSize :: u16
  DataINEndpointDoubleBank :: bool
  DataOUTEndpointNumber :: u8
  DataOUTEndpointSize :: u16
  DataOUTEndpointDoubleBank :: bool
  TotalLUNs :: u8

definition MS_Device_ProcessControlRequest :: "lufa_env \<Rightarrow> ms_config \<Rightarrow> lufa \<Rightarrow> lufa outcome" where
  "MS_Device_ProcessControlRequest E C s =
     (case Endpoint_IsSETUPReceived E s of (setup, s1) \<Rightarrow>
        if \<not> setup then Returns s1
        else
          let r = USB_ControlRequest s1; t = bmRequestType r; q = bRequest r in
          if wIndex r \<noteq> ucast (InterfaceNumber C) then Returns s1
          else if q = MS_REQ_MassStorageReset then
            if t = HOSTTODEVICE_CLASS_INTERFACE then
              and_then (acknowledge E s1) (\<lambda>s2. Returns (upd_ms (\<lambda>m. m\<lparr>IsMassStoreReset := True\<rparr>) s2))
            else Returns s1
          else if q = MS_REQ_GetMaxLUN then
            if t = DEVICETOHOST_CLASS_INTERFACE then answer_byte E (\<lambda>_. TotalLUNs C - 1) s1 else Returns s1
          else Returns s1)"

definition ms_endpoint :: "ms_config \<Rightarrow> endpoint_table" where
  "ms_endpoint C n =
     (if n = DataINEndpointNumber C then
        Some (EP_TYPE_BULK, ENDPOINT_DIR_IN, DataINEndpointSize C, DataINEndpointDoubleBank C)
      else if n = DataOUTEndpointNumber C then
        Some (EP_TYPE_BULK, ENDPOINT_DIR_OUT, DataOUTEndpointSize C, DataOUTEndpointDoubleBank C)
      else None)"

definition MS_Device_ConfigureEndpoints :: "lufa_env \<Rightarrow> ms_config \<Rightarrow> lufa \<Rightarrow> (bool \<times> lufa) outcome" where
  "MS_Device_ConfigureEndpoints E C s =
     configure_class_endpoints E (ms_endpoint C) (upd_ms (\<lambda>_. ms_state_zero) s)"

subsection \<open>Transfers that a reset interrupts\<close>

text \<open>
  \<^verbatim>\<open>while (stream(..., &BytesProcessed) == ENDPOINT_RWSTREAM_IncompleteTransfer) if (IsMassStoreReset) return\<close>:
  the result is \<open>False\<close> after a reset. Any other error ends the loop like success.
\<close>

partial_function (option) transfer_all ::
    "(u16 option \<Rightarrow> lufa \<Rightarrow> stream_result) \<Rightarrow> u16 option \<Rightarrow> lufa \<Rightarrow> (bool \<times> lufa) outcome" where
  "transfer_all stream bp s =
     and_then (stream bp s) (\<lambda>(e, _, bp', s1).
       if e = IncompleteTransfer then
         if IsMassStoreReset (ms_of s1) then Returns (False, s1) else transfer_all stream bp' s1
       else Returns (True, s1))"

text \<open>\<^verbatim>\<open>while (Endpoint_IsStalled()) { USB_USBTask(); if (IsMassStoreReset) return; }\<close>\<close>

partial_function (option) wait_unstalled :: "lufa_env \<Rightarrow> app \<Rightarrow> lufa \<Rightarrow> (bool \<times> lufa) outcome" where
  "wait_unstalled E A s =
     (case Endpoint_IsStalled E s of (st, s1) \<Rightarrow>
        if \<not> st then Returns (True, s1)
        else and_then (USB_USBTask E A s1) (\<lambda>s2.
          if IsMassStoreReset (ms_of s2) then Returns (False, s2) else wait_unstalled E A s2))"

abbreviation block_of :: "lufa \<Rightarrow> u8 list" where
  "block_of s \<equiv> CommandBlock (ms_of s)"

definition set_block :: "u8 list \<Rightarrow> lufa \<Rightarrow> lufa" where
  "set_block b = upd_ms (\<lambda>m. m\<lparr>CommandBlock := b\<rparr>)"

definition valid_block :: "ms_config \<Rightarrow> u8 list \<Rightarrow> bool" where
  "valid_block C b \<longleftrightarrow> \<not> (cbw_Signature b \<noteq> MS_CBW_SIGNATURE \<or> cbw_LUN b \<ge> TotalLUNs C \<or>
     cbw_Flags b AND 0x1F \<noteq> 0 \<or> cbw_SCSICommandLength b = 0 \<or> cbw_SCSICommandLength b > 16)"

text \<open>The two calls of \<^verbatim>\<open>Endpoint_Read_Stream_LE\<close>: the header, and the SCSI command behind it.\<close>

definition read_header :: "lufa_env \<Rightarrow> app \<Rightarrow> u16 option \<Rightarrow> lufa \<Rightarrow> stream_result" where
  "read_header E A = read_stream_into E A block_of set_block 15"

definition read_command :: "lufa_env \<Rightarrow> app \<Rightarrow> u16 option \<Rightarrow> lufa \<Rightarrow> stream_result" where
  "read_command E A bp s =
     read_stream_into E A (\<lambda>s. drop 15 (block_of s)) (\<lambda>d s. set_block (take 15 (block_of s) @ d) s)
       (ucast (cbw_SCSICommandLength (block_of s))) bp s"

definition MS_Device_ReadInCommandBlock :: "lufa_env \<Rightarrow> app \<Rightarrow> ms_config \<Rightarrow> lufa \<Rightarrow> (bool \<times> lufa) outcome" where
  "MS_Device_ReadInCommandBlock E A C s =
     and_then (transfer_all (read_header E A) (Some 0) (Endpoint_SelectEndpoint E (DataOUTEndpointNumber C) s)) (\<lambda>(ok, s1).
       if \<not> ok then Returns (False, s1)
       else if \<not> valid_block C (block_of s1) then
         Returns (False, Endpoint_StallTransaction E
           (Endpoint_SelectEndpoint E (DataINEndpointNumber C) (Endpoint_StallTransaction E s1)))
       else and_then (transfer_all (read_command E A) (Some 0) s1) (\<lambda>(ok, s2).
         if \<not> ok then Returns (False, s2) else Returns (True, Endpoint_ClearOUT E s2)))"

definition MS_Device_ReturnCommandStatus :: "lufa_env \<Rightarrow> app \<Rightarrow> ms_config \<Rightarrow> lufa \<Rightarrow> lufa outcome" where
  "MS_Device_ReturnCommandStatus E A C s =
     and_then (wait_unstalled E A (Endpoint_SelectEndpoint E (DataOUTEndpointNumber C) s)) (\<lambda>(ok, s1).
       if \<not> ok then Returns s1
       else and_then (wait_unstalled E A (Endpoint_SelectEndpoint E (DataINEndpointNumber C) s1)) (\<lambda>(ok, s2).
         if \<not> ok then Returns s2
         else and_then (transfer_all (write_stream_from E A (\<lambda>s. CommandStatus (ms_of s)) 13) (Some 0) s2) (\<lambda>(ok, s3).
           if \<not> ok then Returns s3 else Returns (Endpoint_ClearIN E s3))))"

subsection \<open>The task\<close>

definition execute_command ::
    "lufa_env \<Rightarrow> app \<Rightarrow> (lufa \<Rightarrow> (bool \<times> lufa) outcome) \<Rightarrow> ms_config \<Rightarrow> lufa \<Rightarrow> lufa outcome" where
  "execute_command E A SCSICommandReceived C s =
     (let s1 = (if cbw_Flags (block_of s) AND MS_COMMAND_DIR_DATA_IN \<noteq> 0
                then Endpoint_SelectEndpoint E (DataINEndpointNumber C) s else s) in
      and_then (SCSICommandReceived s1) (\<lambda>(SCSICommandResult, s2).
        let residue = cbw_DataTransferLength (block_of s2);
            status = csw_bytes MS_CSW_SIGNATURE (cbw_Tag (block_of s2)) residue
              (if SCSICommandResult then MS_SCSI_COMMAND_Pass else MS_SCSI_COMMAND_Fail);
            s3 = upd_ms (\<lambda>m. m\<lparr>CommandStatus := status\<rparr>) s2 in
        MS_Device_ReturnCommandStatus E A C
          (if \<not> SCSICommandResult \<and> residue \<noteq> 0 then Endpoint_StallTransaction E s3 else s3)))"

definition reset_interface :: "lufa_env \<Rightarrow> ms_config \<Rightarrow> lufa \<Rightarrow> lufa" where
  "reset_interface E C s =
     (let s1 = Endpoint_ResetEndpoint E (DataINEndpointNumber C)
            (Endpoint_ResetEndpoint E (DataOUTEndpointNumber C) s);
          s2 = Endpoint_ResetDataToggle E (Endpoint_ClearStall E
            (Endpoint_SelectEndpoint E (DataOUTEndpointNumber C) s1));
          s3 = Endpoint_ResetDataToggle E (Endpoint_ClearStall E
            (Endpoint_SelectEndpoint E (DataINEndpointNumber C) s2)) in
      upd_ms (\<lambda>m. m\<lparr>IsMassStoreReset := False\<rparr>) s3)"

definition MS_Device_USBTask ::
    "lufa_env \<Rightarrow> app \<Rightarrow> (lufa \<Rightarrow> (bool \<times> lufa) outcome) \<Rightarrow> ms_config \<Rightarrow> lufa \<Rightarrow> lufa outcome" where
  "MS_Device_USBTask E A SCSICommandReceived C s =
     (case read_state E s of (d, s1) \<Rightarrow>
        if d \<noteq> DEVICE_STATE_Configured then Returns s1
        else case Endpoint_IsReadWriteAllowed E (Endpoint_SelectEndpoint E (DataOUTEndpointNumber C) s1) of (ready, s2) \<Rightarrow>
          and_then
            (if ready then
               and_then (MS_Device_ReadInCommandBlock E A C s2) (\<lambda>(ok, s3).
                 if ok then execute_command E A SCSICommandReceived C s3 else Returns s3)
             else Returns s2)
            (\<lambda>s4. Returns (if IsMassStoreReset (ms_of s4) then reset_interface E C s4 else s4)))"

end
