(* ===== verification/MassStorageClaims.thy ===== *)
theory MassStorageClaims
  imports ClassStreams MassStorage
begin

text \<open>
  The mass storage driver: a command block that the host sends is checked, executed and answered with
  its status; and the command block of an earlier command that the driver takes for a new one.
\<close>

unbundle bit_operations_syntax

subsection \<open>The arrays of the driver\<close>

lemma ms_upd [simp]: "ms_of (upd_ms f s) = f (ms_of s)" "io_log (upd_ms f s) = io_log s"
  "ien (upd_ms f s) = ien s" "USB_DeviceState (upd_ms f s) = USB_DeviceState s"
  "upd_ms f (s\<lparr>io_log := l\<rparr>) = (upd_ms f s)\<lparr>io_log := l\<rparr>"
  by (simp_all add: upd_ms_def)

lemma upd_ms_twice: "upd_ms f (upd_ms g s) = upd_ms (f \<circ> g) s"
  by (simp add: upd_ms_def)

lemma upd_ms_same: "f (ms_of s) = ms_of s \<Longrightarrow> upd_ms f s = s"
  by (simp add: upd_ms_def)

lemma behind_header: "length d = n - 15 \<Longrightarrow> drop (15 - min n 15) d = d \<and> take (15 - min n 15) d = []"
  by (cases "15 \<le> n") auto

interpretation ms_block: state_array block_of set_block
  by unfold_locales (simp_all add: set_block_def upd_ms_twice upd_ms_same comp_def)

interpretation ms_command: state_array "\<lambda>s. drop 15 (block_of s)" "\<lambda>d s. set_block (take 15 (block_of s) @ d) s"
  by unfold_locales (auto simp: set_block_def upd_ms_twice upd_ms_same comp_def behind_header)

interpretation ms_status: state_array "\<lambda>s. CommandStatus (ms_of s)" "\<lambda>d. upd_ms (\<lambda>m. m\<lparr>CommandStatus := d\<rparr>)"
  by unfold_locales (simp_all add: upd_ms_twice upd_ms_same comp_def)

subsection \<open>Reading a command block\<close>

lemma transfer_done:
  "stream bp s = Returns (e, b, bp', s1) \<Longrightarrow> e \<noteq> IncompleteTransfer \<Longrightarrow> transfer_all stream bp s = Returns (True, s1)"
  by (subst transfer_all.simps) simp

lemma valid_block_cong: "take 15 a = take 15 b \<Longrightarrow> 15 \<le> length a \<Longrightarrow> 15 \<le> length b \<Longrightarrow> valid_block C a = valid_block C b"
proof -
  assume eq: "take 15 a = take 15 b" and "15 \<le> length a" "15 \<le> length b"
  have n: "a ! i = b ! i" if "i < 15" for i
    using eq that by (metis nth_take)
  then show ?thesis
    by (simp add: valid_block_def cbw_Signature_def cbw_LUN_def cbw_Flags_def cbw_SCSICommandLength_def le32_def)
qed

text \<open>Which endpoints have been stalled.\<close>

fun stalled :: "access list \<Rightarrow> u8 set" where
  "stalled [] = {}"
| "stalled (Wr UECONX v # l) = (if bit v STALLRQ then insert (selected l) (stalled l) else stalled l)"
| "stalled (_ # l) = stalled l"

lemma read_block:
  assumes ready: "controller_ready E block" and len: "length block = 31" "length (block_of s) = 31"
    and s: "\<not> ien s" "data_reads (io_log s) = 0"
  defines "n \<equiv> unat (cbw_SCSICommandLength block)"
  shows "if valid_block C block
    then \<exists>t. MS_Device_ReadInCommandBlock E A C s = Returns (True, t) \<and> \<not> ien t \<and>
      ms_of t = (ms_of s)\<lparr>CommandBlock := take (15 + n) block @ drop (15 + n) (block_of s)\<rparr> \<and>
      USB_DeviceState t = USB_DeviceState s
    else \<exists>t. MS_Device_ReadInCommandBlock E A C s = Returns (False, t) \<and> \<not> ien t \<and>
      (\<forall>e. fed e (io_log t) = fed e (io_log s)) \<and> IsMassStoreReset (ms_of t) = IsMassStoreReset (ms_of s) \<and>
      {DataINEndpointNumber C, DataOUTEndpointNumber C} \<subseteq> stalled (io_log t)"
proof -
  define s0 where "s0 = Endpoint_SelectEndpoint E (DataOUTEndpointNumber C) s"
  have s0: "\<not> ien s0" "data_reads (io_log s0) = 0" "block_of s0 = block_of s" "selected (io_log s0) = DataOUTEndpointNumber C"
    "\<And>e. fed e (io_log s0) = fed e (io_log s)" "ms_of s0 = ms_of s" "USB_DeviceState s0 = USB_DeviceState s"
    using s by (simp_all add: s0_def Endpoint_SelectEndpoint_def)
  define b1 where "b1 = take 15 block @ drop 15 (block_of s)"
  obtain l where l: "read_header E A (Some 0) s0 = Returns (NoError, [], Some 0, (set_block b1 s0)\<lparr>io_log := l\<rparr>)"
      "data_reads l = 15" "selected l = DataOUTEndpointNumber C" "\<And>e. fed e l = fed e (io_log s)"
    using ms_block.whole_read [OF ready s0(1), of 15 A] s0(2-5) len by (auto simp: read_header_def b1_def)
  define t1 where "t1 = (set_block b1 s0)\<lparr>io_log := l\<rparr>"
  have b1: "take 15 b1 = take 15 block" "length b1 = 31" using len by (simp_all add: b1_def)
  then have v: "valid_block C b1 = valid_block C block" by (intro valid_block_cong) (simp_all add: len)
  have t1: "\<not> ien t1" "ms_of t1 = (ms_of s)\<lparr>CommandBlock := b1\<rparr>" "io_log t1 = l" "USB_DeviceState t1 = USB_DeviceState s"
    using s0 by (simp_all add: t1_def set_block_def)
  have head: "transfer_all (read_header E A) (Some 0) s0 = Returns (True, t1)"
    by (rule transfer_done [of "read_header E A" "Some 0" s0, OF l(1) [folded t1_def]]) simp
  have bn: "cbw_SCSICommandLength b1 = cbw_SCSICommandLength block"
    using len by (simp add: b1_def cbw_SCSICommandLength_def nth_append)
  show ?thesis
  proof (cases "valid_block C block")
    case False
    define t2 where "t2 = Endpoint_StallTransaction E
      (Endpoint_SelectEndpoint E (DataINEndpointNumber C) (Endpoint_StallTransaction E t1))"
    have "MS_Device_ReadInCommandBlock E A C s = Returns (False, t2)"
      using False t1(2) v head by (simp add: MS_Device_ReadInCommandBlock_def s0_def [symmetric] t2_def)
    moreover have "\<not> ien t2" "\<And>e. fed e (io_log t2) = fed e (io_log s)"
      "IsMassStoreReset (ms_of t2) = IsMassStoreReset (ms_of s)"
      "{DataINEndpointNumber C, DataOUTEndpointNumber C} \<subseteq> stalled (io_log t2)"
      using t1 l(3,4) by (simp_all add: t2_def Endpoint_StallTransaction_def Endpoint_SelectEndpoint_def set_bit8_def bit_simps)
    ultimately show ?thesis
      using False by auto
  next
    case True
    then have "n \<le> 16" by (simp add: valid_block_def n_def word_le_nat_alt word_less_nat_alt)
    have "\<exists>k. read_stream_into E A (\<lambda>s. drop 15 (block_of s)) (\<lambda>d s. set_block (take 15 (block_of s) @ d) s)
          (ucast (cbw_SCSICommandLength block)) (Some 0) t1 =
        Returns (NoError, [], Some 0, (set_block (take 15 (block_of t1) @
          take n (drop 15 block) @ drop n (drop 15 (block_of t1))) t1)\<lparr>io_log := k\<rparr>)"
      using ms_command.whole_read [OF ready t1(1), of "ucast (cbw_SCSICommandLength block)" A] \<open>n \<le> 16\<close> t1 l(2) b1(2) len(1)
      by (auto simp: n_def)
    then obtain k where "read_command E A (Some 0) t1 = Returns (NoError, [], Some 0, (set_block (take 15 (block_of t1) @
          take n (drop 15 block) @ drop n (drop 15 (block_of t1))) t1)\<lparr>io_log := k\<rparr>)"
      by (auto simp: read_command_def t1(2) bn)
    moreover have "take 15 (block_of t1) @ take n (drop 15 block) @ drop n (drop 15 (block_of t1)) =
        take (15 + n) block @ drop (15 + n) (block_of s)"
      unfolding take_add using len by (simp add: t1(2) b1_def add.commute)
    ultimately have "read_command E A (Some 0) t1 = Returns (NoError, [], Some 0,
        (set_block (take (15 + n) block @ drop (15 + n) (block_of s)) t1)\<lparr>io_log := k\<rparr>)"
      by simp
    from transfer_done [of "read_command E A" "Some 0" t1, OF this] show ?thesis
      using True t1 v head
      by (simp add: MS_Device_ReadInCommandBlock_def s0_def [symmetric] Endpoint_ClearOUT_def set_block_def)
  qed
qed

subsection \<open>A command and its status\<close>

text \<open>
  A callback that returns, with interrupts off as it found them, and leaves the tag of the command and
  the reset flag alone; it may move data and change what is left to transfer.
\<close>

definition callback_keeps :: "(lufa \<Rightarrow> (bool \<times> lufa) outcome) \<Rightarrow> bool" where
  "callback_keeps Q \<longleftrightarrow> (\<forall>t. \<not> ien t \<longrightarrow> (\<exists>ok t'. Q t = Returns (ok, t') \<and> \<not> ien t' \<and>
     IsMassStoreReset (ms_of t') = IsMassStoreReset (ms_of t) \<and> cbw_Tag (block_of t') = cbw_Tag (block_of t)))"

lemma unstalled_now:
  assumes "\<And>l. \<not> bit (hw E l UECONX) STALLRQ" "\<not> ien s"
  shows "\<exists>l. wait_unstalled E A s = Returns (True, s\<lparr>io_log := l\<rparr>) \<and> same_bytes (io_log s) l"
  using assms by (subst wait_unstalled.simps) (simp add: Endpoint_IsStalled_def, rule exI, rule conjI, rule refl, simp)

lemma status_returned:
  assumes ready: "controller_ready E bytes" "\<And>l. \<not> bit (hw E l UECONX) STALLRQ"
    and s: "\<not> ien s" "length (CommandStatus (ms_of s)) = 13"
  shows "\<exists>t. MS_Device_ReturnCommandStatus E A C s = Returns t \<and> ms_of t = ms_of s \<and>
    fed (DataINEndpointNumber C) (io_log t) = fed (DataINEndpointNumber C) (io_log s) @ CommandStatus (ms_of s)"
proof -
  let ?e = "DataINEndpointNumber C"
  have select: "Endpoint_SelectEndpoint E e t = t\<lparr>io_log := Wr UENUM e # io_log t\<rparr>" if "\<not> ien t" for e and t :: lufa
    using that by (simp add: Endpoint_SelectEndpoint_def)
  obtain k where k: "wait_unstalled E A (Endpoint_SelectEndpoint E (DataOUTEndpointNumber C) s) = Returns (True, s\<lparr>io_log := k\<rparr>)"
      "fed ?e k = fed ?e (io_log s)"
    using unstalled_now [OF ready(2), of "Endpoint_SelectEndpoint E (DataOUTEndpointNumber C) s" A] s(1)
    by (auto simp: select same_bytes_def)
  obtain l where l: "wait_unstalled E A (Endpoint_SelectEndpoint E ?e (s\<lparr>io_log := k\<rparr>)) = Returns (True, s\<lparr>io_log := l\<rparr>)"
      "fed ?e l = fed ?e (io_log s)" "selected l = ?e"
    using unstalled_now [OF ready(2), of "Endpoint_SelectEndpoint E ?e (s\<lparr>io_log := k\<rparr>)" A] s(1) k(2)
    by (auto simp: select same_bytes_def)
  define t where "t = s\<lparr>io_log := l\<rparr>"
  have t: "\<not> ien t" "ms_of t = ms_of s" "selected (io_log t) = ?e" "fed ?e (io_log t) = fed ?e (io_log s)"
    using s(1) l by (simp_all add: t_def)
  obtain m where m: "write_stream_from E A (\<lambda>s. CommandStatus (ms_of s)) 13 (Some 0) t =
        Returns (NoError, [], Some 0, t\<lparr>io_log := m\<rparr>)"
      "fed ?e m = fed ?e (io_log s) @ CommandStatus (ms_of s)"
    using ms_status.whole_write [OF ready(1) t(1), of 13 A] t s(2) by auto
  have "transfer_all (write_stream_from E A (\<lambda>s. CommandStatus (ms_of s)) 13) (Some 0) t = Returns (True, t\<lparr>io_log := m\<rparr>)"
    by (rule transfer_done [of "write_stream_from E A (\<lambda>s. CommandStatus (ms_of s)) 13" "Some 0" t, OF m(1)]) simp
  then show ?thesis
    using s(1) m(2) by (simp add: MS_Device_ReturnCommandStatus_def k(1) l(1) t_def Endpoint_ClearIN_def)
qed

lemma command_executed:
  assumes ready: "controller_ready E bytes" "\<And>l. \<not> bit (hw E l UECONX) STALLRQ"
    and Q: "callback_keeps Q" and s: "\<not> ien s"
  shows "\<exists>t ok t' s'. Q t = Returns (ok, t') \<and> ms_of t = ms_of s \<and> execute_command E A Q C s = Returns s' \<and>
    IsMassStoreReset (ms_of s') = IsMassStoreReset (ms_of s) \<and>
    fed (DataINEndpointNumber C) (io_log s') = fed (DataINEndpointNumber C) (io_log t') @
      csw_bytes MS_CSW_SIGNATURE (cbw_Tag (block_of s)) (cbw_DataTransferLength (block_of t'))
        (if ok then MS_SCSI_COMMAND_Pass else MS_SCSI_COMMAND_Fail)"
proof -
  define t where "t = (if cbw_Flags (block_of s) AND MS_COMMAND_DIR_DATA_IN \<noteq> 0
                then Endpoint_SelectEndpoint E (DataINEndpointNumber C) s else s)"
  have t: "\<not> ien t" "ms_of t = ms_of s"
    using s by (simp_all add: t_def Endpoint_SelectEndpoint_def)
  obtain ok t' where t': "Q t = Returns (ok, t')" "\<not> ien t'" "IsMassStoreReset (ms_of t') = IsMassStoreReset (ms_of t)"
      "cbw_Tag (block_of t') = cbw_Tag (block_of t)"
    using Q t(1) by (auto simp: callback_keeps_def)
  define w where "w = csw_bytes MS_CSW_SIGNATURE (cbw_Tag (block_of s)) (cbw_DataTransferLength (block_of t'))
        (if ok then MS_SCSI_COMMAND_Pass else MS_SCSI_COMMAND_Fail)"
  define u where "u = upd_ms (\<lambda>m. m\<lparr>CommandStatus := w\<rparr>) t'"
  define v where "v = (if \<not> ok \<and> cbw_DataTransferLength (block_of t') \<noteq> 0 then Endpoint_StallTransaction E u else u)"
  have v: "\<not> ien v" "ms_of v = (ms_of t')\<lparr>CommandStatus := w\<rparr>" "\<And>e. fed e (io_log v) = fed e (io_log t')"
    using t'(2) by (simp_all add: v_def u_def Endpoint_StallTransaction_def)
  have "length w = 13" by (simp add: w_def csw_bytes_def bytes32_def)
  then obtain s' where s': "MS_Device_ReturnCommandStatus E A C v = Returns s'" "ms_of s' = ms_of v"
      "fed (DataINEndpointNumber C) (io_log s') = fed (DataINEndpointNumber C) (io_log t') @ w"
    using status_returned [OF ready v(1), of A C] v by auto
  have "execute_command E A Q C s = MS_Device_ReturnCommandStatus E A C v"
    unfolding v_def u_def w_def execute_command_def
    by (simp add: Let_def t_def [symmetric] t'(1) t'(4) t(2) cong: if_cong)
  then have "execute_command E A Q C s = Returns s'"
    using s'(1) by simp
  then have "Q t = Returns (ok, t') \<and> ms_of t = ms_of s \<and> execute_command E A Q C s = Returns s' \<and>
      IsMassStoreReset (ms_of s') = IsMassStoreReset (ms_of s) \<and>
      fed (DataINEndpointNumber C) (io_log s') = fed (DataINEndpointNumber C) (io_log t') @ w"
    using t t' s' v by simp
  then show ?thesis
    unfolding w_def by blast
qed

text \<open>
  C36: With a controller that is ready, a valid command block of the host reaches the callback byte for
  byte, and the host gets the status of exactly this command: its tag, what the callback left to
  transfer, and whether it succeeded. A block that is not valid never reaches the callback: both
  endpoints are stalled and nothing is sent.
\<close>

theorem ms_command_answered:
  assumes "controller_ready E block" "\<And>l. \<not> bit (hw E l UECONX) STALLRQ" "length block = 31" "callback_keeps Q"
    and "\<not> ien s" "USB_DeviceState s = DEVICE_STATE_Configured" "data_reads (io_log s) = 0"
    and "length (block_of s) = 31" "\<not> IsMassStoreReset (ms_of s)"
  shows "if valid_block C block
    then \<exists>t ok t' s'. Q t = Returns (ok, t') \<and> MS_Device_USBTask E A Q C s = Returns s' \<and>
      take (15 + unat (cbw_SCSICommandLength block)) (block_of t) = take (15 + unat (cbw_SCSICommandLength block)) block \<and>
      fed (DataINEndpointNumber C) (io_log s') = fed (DataINEndpointNumber C) (io_log t') @
        csw_bytes MS_CSW_SIGNATURE (cbw_Tag block) (cbw_DataTransferLength (block_of t'))
          (if ok then MS_SCSI_COMMAND_Pass else MS_SCSI_COMMAND_Fail)
    else \<exists>s'. (\<forall>Q. MS_Device_USBTask E A Q C s = Returns s') \<and> (\<forall>e. fed e (io_log s') = fed e (io_log s)) \<and>
      {DataINEndpointNumber C, DataOUTEndpointNumber C} \<subseteq> stalled (io_log s')"
proof -
  define n where "n = unat (cbw_SCSICommandLength block)"
  define s0 where "s0 = (Endpoint_SelectEndpoint E (DataOUTEndpointNumber C) s)"
  define s2 where "s2 = s0\<lparr>io_log := Rd UEINTX (hw E (io_log s0) UEINTX) # io_log s0\<rparr>"
  have s2: "\<not> ien s2" "data_reads (io_log s2) = 0" "ms_of s2 = ms_of s" "\<And>e. fed e (io_log s2) = fed e (io_log s)"
    using assms(5,7) by (simp_all add: s2_def s0_def Endpoint_SelectEndpoint_def)
  have "Endpoint_IsReadWriteAllowed E s0 = (True, s2)"
    using assms(1,5) by (simp add: s2_def s0_def Endpoint_SelectEndpoint_def Endpoint_IsReadWriteAllowed_def controller_ready_def)
  then have run: "MS_Device_USBTask E A Q C s =
      and_then (and_then (MS_Device_ReadInCommandBlock E A C s2) (\<lambda>(ok, s3).
        if ok then execute_command E A Q C s3 else Returns s3))
      (\<lambda>s4. Returns (if IsMassStoreReset (ms_of s4) then reset_interface E C s4 else s4))" for Q
    using assms(5,6) by (simp add: MS_Device_USBTask_def s0_def [symmetric])
  have block: "if valid_block C block
    then \<exists>t. MS_Device_ReadInCommandBlock E A C s2 = Returns (True, t) \<and> \<not> ien t \<and>
      ms_of t = (ms_of s2)\<lparr>CommandBlock := take (15 + n) block @ drop (15 + n) (block_of s2)\<rparr> \<and>
      USB_DeviceState t = USB_DeviceState s2
    else \<exists>t. MS_Device_ReadInCommandBlock E A C s2 = Returns (False, t) \<and> \<not> ien t \<and>
      (\<forall>e. fed e (io_log t) = fed e (io_log s2)) \<and> IsMassStoreReset (ms_of t) = IsMassStoreReset (ms_of s2) \<and>
      {DataINEndpointNumber C, DataOUTEndpointNumber C} \<subseteq> stalled (io_log t)"
    unfolding n_def by (rule read_block [OF assms(1,3)]) (use s2 assms(8) in simp_all)
  show ?thesis
  proof (cases "valid_block C block")
    case False
    then show ?thesis
      using block s2 assms(9) by (auto simp: run)
  next
    case True
    then obtain u where u: "MS_Device_ReadInCommandBlock E A C s2 = Returns (True, u)" "\<not> ien u"
        "block_of u = take (15 + n) block @ drop (15 + n) (block_of s2)" "\<not> IsMassStoreReset (ms_of u)"
      using block s2(3) assms(9) by auto
    have tag: "cbw_Tag (block_of u) = cbw_Tag block"
      using assms(3) by (simp add: u(3) cbw_Tag_def le32_def nth_append)
    obtain t ok t' s' where "Q t = Returns (ok, t')" "ms_of t = ms_of u" "execute_command E A Q C u = Returns s'"
        "IsMassStoreReset (ms_of s') = IsMassStoreReset (ms_of u)"
        "fed (DataINEndpointNumber C) (io_log s') = fed (DataINEndpointNumber C) (io_log t') @
          csw_bytes MS_CSW_SIGNATURE (cbw_Tag block) (cbw_DataTransferLength (block_of t'))
            (if ok then MS_SCSI_COMMAND_Pass else MS_SCSI_COMMAND_Fail)"
      using command_executed [OF assms(1,2,4) u(2), of A C] by (auto simp: tag)
    moreover have "n \<le> 16"
      using True by (simp add: valid_block_def n_def word_le_nat_alt word_less_nat_alt)
    ultimately have "Q t = Returns (ok, t') \<and> MS_Device_USBTask E A Q C s = Returns s' \<and>
      take (15 + n) (block_of t) = take (15 + n) block \<and>
      fed (DataINEndpointNumber C) (io_log s') = fed (DataINEndpointNumber C) (io_log t') @
        csw_bytes MS_CSW_SIGNATURE (cbw_Tag block) (cbw_DataTransferLength (block_of t'))
          (if ok then MS_SCSI_COMMAND_Pass else MS_SCSI_COMMAND_Fail)"
      using u(1,3,4) assms(3) by (simp add: run)
    then show ?thesis
      unfolding if_P [OF True] n_def by blast
  qed
qed

text \<open>
  A controller that gives the bytes of a command to read ten blocks, and an application that moves no data.
\<close>

definition block_host :: "u8 list \<Rightarrow> lufa_env" where
  "block_host block = \<lparr>hw = \<lambda>l r. case r of
     UEINTX \<Rightarrow> 0x25 | UEDATX \<Rightarrow> block ! data_reads l | _ \<Rightarrow> 0, irq = id\<rparr>"

definition read10 :: "u8 list" where
  "read10 = bytes32 MS_CBW_SIGNATURE @ bytes32 7 @ bytes32 512 @ [0x80, 0, 10] @
     [0x28, 0, 0, 0, 0, 3, 0, 0, 1, 0] @ replicate 6 0"

definition disk_config :: ms_config where
  "disk_config = \<lparr>InterfaceNumber = 0, DataINEndpointNumber = 3, DataINEndpointSize = 64,
     DataINEndpointDoubleBank = False, DataOUTEndpointNumber = 4, DataOUTEndpointSize = 64,
     DataOUTEndpointDoubleBank = False, TotalLUNs = 1\<rparr>"

definition ms_configured :: lufa where
  "ms_configured = lufa_zero\<lparr>USB_DeviceState := DEVICE_STATE_Configured\<rparr>"

theorem ms_command_answered_witness:
  "(\<exists>s'. MS_Device_USBTask (block_host read10) idle_app (\<lambda>s. Returns (True, s\<lparr>io_log := []\<rparr>)) disk_config ms_configured = Returns s' \<and>
      fed 3 (io_log s') = csw_bytes MS_CSW_SIGNATURE 7 512 MS_SCSI_COMMAND_Pass) \<and>
   (\<exists>s'. MS_Device_USBTask (block_host (replicate 31 0)) idle_app (\<lambda>s. Hangs) disk_config ms_configured = Returns s' \<and>
      {3, 4} \<subseteq> stalled (io_log s'))"
proof -
  let ?Q = "\<lambda>s. Returns (True, s\<lparr>io_log := []\<rparr>) :: (bool \<times> lufa) outcome"
  have E: "controller_ready (block_host b) b" "\<And>l. \<not> bit (hw (block_host b) l UECONX) STALLRQ" for b
    by (simp_all add: controller_ready_def block_host_def)
  have Q: "callback_keeps ?Q"
    by (auto simp: callback_keeps_def)
  have s: "\<not> ien ms_configured" "USB_DeviceState ms_configured = DEVICE_STATE_Configured" "data_reads (io_log ms_configured) = 0"
    "length (block_of ms_configured) = 31" "\<not> IsMassStoreReset (ms_of ms_configured)"
    by (simp_all add: ms_configured_def lufa_zero_def class_states_zero_def ms_state_zero_def)
  have len: "length read10 = 31"
    by (simp add: read10_def bytes32_def)
  have "valid_block disk_config read10" "cbw_Tag read10 = 7"
    by (simp_all add: valid_block_def read10_def disk_config_def cbw_Signature_def cbw_LUN_def cbw_Flags_def
        cbw_SCSICommandLength_def cbw_Tag_def bytes32_def le32_def)
  moreover have "cbw_DataTransferLength b = 512" if b: "take 25 b = take 25 read10" for b
  proof -
    have "b ! i = read10 ! i" if "i < 25" for i
      using b that by (metis nth_take)
    moreover have "25 \<le> length b"
      using arg_cong [OF b, of length] len by simp
    ultimately have "cbw_DataTransferLength b = cbw_DataTransferLength read10"
      using len by (simp add: cbw_DataTransferLength_def le32_def)
    then show ?thesis
      by (simp add: cbw_DataTransferLength_def read10_def bytes32_def le32_def)
  qed
  moreover have "unat (cbw_SCSICommandLength read10) = 10"
    by (simp add: read10_def bytes32_def cbw_SCSICommandLength_def)
  ultimately have "\<exists>s'. MS_Device_USBTask (block_host read10) idle_app ?Q disk_config ms_configured = Returns s' \<and>
      fed 3 (io_log s') = csw_bytes MS_CSW_SIGNATURE 7 512 MS_SCSI_COMMAND_Pass"
    using ms_command_answered [OF E len Q s, of disk_config idle_app] by (auto simp: disk_config_def)
  moreover have "\<not> valid_block disk_config (replicate 31 0)"
    by (simp add: valid_block_def cbw_SCSICommandLength_def)
  then have "\<exists>s'. MS_Device_USBTask (block_host (replicate 31 0)) idle_app (\<lambda>s. Hangs) disk_config ms_configured = Returns s' \<and>
      {3, 4} \<subseteq> stalled (io_log s')"
    using ms_command_answered [OF E _ Q s, of "replicate 31 0" disk_config idle_app] by (auto simp: disk_config_def)
  ultimately show ?thesis
    by (rule conjI)
qed

end
