(* ===== verification/MassStorageFaults.thy ===== *)
theory MassStorageFaults
  imports MassStorageClaims
begin

text \<open>
  A command block that breaks off: the driver completes it with what it holds of an earlier one.
\<close>

unbundle bit_operations_syntax

subsection \<open>A host that sends a short packet and then nothing\<close>

fun released :: "access list \<Rightarrow> bool" where
  "released [] = False"
| "released (Wr UEINTX v # l) = (\<not> bit v RXOUTI \<or> released l)"
| "released (_ # l) = released l"

fun ticks :: "access list \<Rightarrow> nat" where
  "ticks [] = 0"
| "ticks (Rd UDFNUML v # l) = Suc (ticks l)"
| "ticks (_ # l) = ticks l"

text \<open>
  The endpoint is an OUT endpoint; it has data until all of \<open>bytes\<close> are read, its packet is there until
  it is released, there is no new request, and time passes.
\<close>

definition host_breaks_off :: "lufa_env \<Rightarrow> u8 list \<Rightarrow> bool" where
  "host_breaks_off E bytes \<longleftrightarrow> (\<forall>l.
     (bit (hw E l UEINTX) RWAL \<longleftrightarrow> data_reads l < length bytes) \<and>
     (bit (hw E l UEINTX) RXOUTI \<longleftrightarrow> \<not> released l) \<and> \<not> bit (hw E l UEINTX) RXSTPI \<and>
     (data_reads l < length bytes \<longrightarrow> hw E l UEDATX = bytes ! data_reads l) \<and>
     \<not> bit (hw E l UECFG0X) EPDIR \<and> \<not> bit (hw E l UECONX) STALLRQ \<and>
     hw E l UDFNUML = of_nat (ticks l) \<and> hw E l UDFNUMH = 0)"

lemma released_append [simp]: "only_reads l \<Longrightarrow> released (l @ l') = released l'"
  by (induction l) (auto simp: only_reads_def)

lemma out_direction:
  assumes "host_breaks_off E bytes" "\<not> ien s"
  shows "Endpoint_GetEndpointDirection E s = (ENDPOINT_DIR_OUT, s\<lparr>io_log := Rd UECFG0X (hw E (io_log s) UECFG0X) # io_log s\<rparr>)"
  using assms by (simp add: Endpoint_GetEndpointDirection_def host_breaks_off_def)

lemma wait_packet:
  assumes host: "host_breaks_off E bytes" and s: "\<not> ien s" "\<not> released (io_log s)"
  shows "\<exists>l. Endpoint_WaitUntilReady E s = Returns (NoError, s\<lparr>io_log := l @ io_log s\<rparr>) \<and> only_reads l \<and>
    data_reads (l @ io_log s) = data_reads (io_log s)"
proof -
  let ?l1 = "Rd UDFNUML (hw E (io_log s) UDFNUML) # io_log s"
  let ?l2 = "Rd UDFNUMH (hw E ?l1 UDFNUMH) # ?l1"
  let ?l3 = "Rd UECFG0X (hw E ?l2 UECFG0X) # ?l2"
  have "Endpoint_WaitUntilReady E s = Returns (NoError, s\<lparr>io_log := Rd UEINTX (hw E ?l3 UEINTX) # ?l3\<rparr>)"
    using s host
    by (simp add: Endpoint_WaitUntilReady_def USB_Device_GetFrameNumber_def, subst ready_loop.simps)
      (simp add: out_direction [OF host] endpoint_ops host_breaks_off_def)
  then show ?thesis
    by (intro exI [of _ "[Rd UEINTX (hw E ?l3 UEINTX), Rd UECFG0X (hw E ?l2 UECFG0X), Rd UDFNUMH (hw E ?l1 UDFNUMH),
      Rd UDFNUML (hw E (io_log s) UDFNUML)]"]) simp
qed

lemma le16_neq: "a \<noteq> b \<Longrightarrow> le16 a h \<noteq> le16 b h"
proof
  assume "a \<noteq> b" and eq: "le16 a h = le16 b h"
  then obtain n where n: "bit a n \<noteq> bit b n" "n < 8" by (auto simp: bit_eq_iff dest: bit_imp_le_length)
  then have "bit (le16 a h) n \<noteq> bit (le16 b h) n" by (auto simp: le16_def bit_simps)
  with eq show False by simp
qed

lemma wait_a_frame:
  assumes host: "host_breaks_off E bytes"
    and s: "\<not> ien s" "released (io_log s)" "USB_DeviceState s = DEVICE_STATE_Configured"
    and f: "f = le16 (of_nat (ticks (io_log s)) - 1) 0"
  shows "\<exists>l. ready_loop E m f s =
      (if m = 0 then Returns (Timeout, s\<lparr>io_log := l @ io_log s\<rparr>)
       else ready_loop E (m - 1) (le16 (of_nat (ticks (l @ io_log s)) - 1) 0) (s\<lparr>io_log := l @ io_log s\<rparr>)) \<and>
    only_reads l \<and> data_reads (l @ io_log s) = data_reads (io_log s)"
proof -
  let ?n = "of_nat (ticks (io_log s)) :: u8"
  let ?l1 = "Rd UECFG0X (hw E (io_log s) UECFG0X) # io_log s"
  let ?l2 = "Rd UEINTX (hw E ?l1 UEINTX) # ?l1"
  let ?l3 = "Rd UECONX (hw E ?l2 UECONX) # ?l2"
  let ?l = "[Rd UDFNUMH 0, Rd UDFNUML ?n, Rd UECONX (hw E ?l2 UECONX), Rd UEINTX (hw E ?l1 UEINTX),
    Rd UECFG0X (hw E (io_log s) UECFG0X)]"
  have "?n \<noteq> ?n - 1" by simp
  then have "le16 ?n 0 \<noteq> f"
    unfolding f by (rule le16_neq)
  then have "ready_loop E m f s =
      (if m = 0 then Returns (Timeout, s\<lparr>io_log := ?l @ io_log s\<rparr>)
       else ready_loop E (m - 1) (le16 ?n 0) (s\<lparr>io_log := ?l @ io_log s\<rparr>))"
    using s host
    by (subst ready_loop.simps)
      (simp add: out_direction [OF host] endpoint_ops Endpoint_IsStalled_def USB_Device_GetFrameNumber_def host_breaks_off_def)
  then show ?thesis
    by (intro exI [of _ ?l]) simp
qed

lemma wait_in_vain:
  assumes host: "host_breaks_off E bytes"
  shows "\<not> ien s \<Longrightarrow> released (io_log s) \<Longrightarrow> USB_DeviceState s = DEVICE_STATE_Configured \<Longrightarrow>
    f = le16 (of_nat (ticks (io_log s)) - 1) 0 \<Longrightarrow>
    \<exists>l. ready_loop E m f s = Returns (Timeout, s\<lparr>io_log := l @ io_log s\<rparr>) \<and> only_reads l \<and>
      data_reads (l @ io_log s) = data_reads (io_log s)"
proof (induction "unat m" arbitrary: m f s)
  case 0
  then have "m = 0" by (simp add: unsigned_eq_0_iff)
  then show ?case
    using wait_a_frame [OF host 0(2-5), of m] by auto
next
  case (Suc k)
  have m: "m \<noteq> 0" using Suc.hyps(2) by auto
  then have "unat (m - 1) = k" using unat_minus_one [OF m] Suc.hyps(2) by simp
  obtain l where l: "ready_loop E m f s =
      ready_loop E (m - 1) (le16 (of_nat (ticks (l @ io_log s)) - 1) 0) (s\<lparr>io_log := l @ io_log s\<rparr>)"
      "only_reads l" "data_reads (l @ io_log s) = data_reads (io_log s)"
    using wait_a_frame [OF host Suc.prems, of m] m by auto
  define t where "t = s\<lparr>io_log := l @ io_log s\<rparr>"
  have "\<exists>k. ready_loop E (m - 1) (le16 (of_nat (ticks (io_log t)) - 1) 0) t = Returns (Timeout, t\<lparr>io_log := k @ io_log t\<rparr>) \<and>
      only_reads k \<and> data_reads (k @ io_log t) = data_reads (io_log t)"
    by (rule Suc.hyps(1)) (use \<open>unat (m - 1) = k\<close> Suc.prems l in \<open>simp_all add: t_def\<close>)
  then obtain k where "ready_loop E (m - 1) (le16 (of_nat (ticks (io_log t)) - 1) 0) t = Returns (Timeout, t\<lparr>io_log := k @ io_log t\<rparr>)"
      "only_reads k" "data_reads (k @ io_log t) = data_reads (io_log t)" by blast
  then show ?case
    using l by (intro exI [of _ "k @ l"]) (simp add: t_def)
qed

lemma timeout:
  assumes host: "host_breaks_off E bytes"
    and s: "\<not> ien s" "released (io_log s)" "USB_DeviceState s = DEVICE_STATE_Configured"
  shows "\<exists>l. Endpoint_WaitUntilReady E s = Returns (Timeout, s\<lparr>io_log := l @ io_log s\<rparr>) \<and> only_reads l \<and>
      data_reads (l @ io_log s) = data_reads (io_log s)"
proof -
  let ?n = "of_nat (ticks (io_log s)) :: u8"
  define t where "t = s\<lparr>io_log := Rd UDFNUMH 0 # Rd UDFNUML ?n # io_log s\<rparr>"
  have "Endpoint_WaitUntilReady E s = ready_loop E 100 (le16 ?n 0) t"
    using host s(1) by (simp add: Endpoint_WaitUntilReady_def USB_Device_GetFrameNumber_def host_breaks_off_def t_def)
  moreover have "\<exists>l. ready_loop E 100 (le16 ?n 0) t = Returns (Timeout, t\<lparr>io_log := l @ io_log t\<rparr>) \<and> only_reads l \<and>
      data_reads (l @ io_log t) = data_reads (io_log t)"
    by (rule wait_in_vain [OF host]) (use s in \<open>simp_all add: t_def\<close>)
  then obtain l where "ready_loop E 100 (le16 ?n 0) t = Returns (Timeout, t\<lparr>io_log := l @ io_log t\<rparr>)" "only_reads l"
      "data_reads (l @ io_log t) = data_reads (io_log t)" by blast
  ultimately show ?thesis
    by (intro exI [of _ "l @ [Rd UDFNUMH 0, Rd UDFNUML ?n]"]) (simp add: t_def)
qed

subsection \<open>The block that is executed\<close>

text \<open>The task of the stack has nothing to do where there is no request.\<close>

lemma task_idle:
  assumes "host_breaks_off E bytes" "\<not> ien s" "USB_DeviceState s = DEVICE_STATE_Configured"
  shows "\<exists>l. USB_USBTask E A s = Returns (s\<lparr>io_log := l\<rparr>) \<and> released l = released (io_log s) \<and>
    data_reads l = data_reads (io_log s)"
proof -
  let ?l1 = "Wr UENUM 0 # Rd UENUM (hw E (io_log s) UENUM) # io_log s"
  let ?l = "Wr UENUM (hw E (io_log s) UENUM AND 15) # Rd UEINTX (hw E ?l1 UEINTX) # ?l1"
  have "USB_USBTask E A s = Returns (s\<lparr>io_log := ?l\<rparr>)"
    using assms by (simp add: USB_USBTask_def USB_DeviceTask_def Endpoint_GetCurrentEndpoint_def endpoint_ops
      host_breaks_off_def)
  then show ?thesis by (intro exI [of _ ?l]) simp
qed

lemma transfer_again:
  "stream bp s = Returns (IncompleteTransfer, b, bp', s1) \<Longrightarrow> \<not> IsMassStoreReset (ms_of s1) \<Longrightarrow>
    transfer_all stream bp s = transfer_all stream bp' s1"
  by (subst transfer_all.simps) simp

lemma broken_header:
  assumes host: "host_breaks_off E bytes" and few: "0 < length bytes" "length bytes < 15"
    and s: "\<not> ien s" "USB_DeviceState s = DEVICE_STATE_Configured" "data_reads (io_log s) = 0" "\<not> released (io_log s)"
      "length (block_of s) = 31" "\<not> IsMassStoreReset (ms_of s)"
  shows "\<exists>l. transfer_all (read_header E A) (Some 0) s =
      Returns (True, (set_block (bytes @ drop (length bytes) (block_of s)) s)\<lparr>io_log := l\<rparr>) \<and> released l"
proof -
  let ?m = "length bytes"
  define t where "t = set_block (bytes @ drop ?m (block_of s)) s"
  have t: "\<not> ien t" "USB_DeviceState t = DEVICE_STATE_Configured" "\<not> IsMassStoreReset (ms_of t)"
    using s by (simp_all add: t_def set_block_def)
  obtain k where k: "Endpoint_WaitUntilReady E s = Returns (NoError, s\<lparr>io_log := k @ io_log s\<rparr>)" "only_reads k"
      "data_reads (k @ io_log s) = 0"
    using wait_packet [OF host s(1,4)] s(3) by auto
  define s1 where "s1 = s\<lparr>io_log := k @ io_log s\<rparr>"
  have s1: "\<not> ien s1" "0 + ?m \<le> length (block_of s1)" "data_reads (io_log s1) + ?m \<le> length bytes" "?m \<le> unat (15 :: u16)"
    using s few k by (simp_all add: s1_def)
  have data: "data_reads l < length bytes \<Longrightarrow> bit (hw E l UEINTX) RWAL \<and> hw E l UEDATX = bytes ! data_reads l" for l
    using host by (simp add: host_breaks_off_def)
  obtain l n' where l: "rw_loop E (USB_USBTask E A) (Endpoint_ClearOUT E) (into_state E block_of set_block) 1 [] (int 0) 15 0 (Some 0) s1 =
        rw_loop E (USB_USBTask E A) (Endpoint_ClearOUT E) (into_state E block_of set_block) 1 [] (int (0 + ?m)) n' (0 + of_nat ?m) (Some 0)
          ((set_block (take 0 (block_of s1) @ take ?m (drop (data_reads (io_log s1)) bytes) @ drop (0 + ?m) (block_of s1)) s1)
            \<lparr>io_log := l @ io_log s1\<rparr>)"
      "unat n' = unat (15 :: u16) - ?m" "data_reads (l @ io_log s1) = data_reads (io_log s1) + ?m" "only_reads l"
    using ms_block.read_progress [OF data s1, where task = "USB_USBTask E A" and clear = "Endpoint_ClearOUT E"
        and k = 0 and bp = "Some 0"] by blast
  define s2 where "s2 = t\<lparr>io_log := l @ io_log s1\<rparr>"
  have s2: "\<not> ien s2" "data_reads (io_log s2) = ?m" "\<not> released (io_log s2)"
    using t l(3,4) k(2,3) s(4) by (simp_all add: s2_def s1_def)
  obtain p where p: "USB_USBTask E A (Endpoint_ClearOUT E (s2\<lparr>io_log := Rd UEINTX (hw E (io_log s2) UEINTX) # io_log s2\<rparr>)) =
        Returns (t\<lparr>io_log := p\<rparr>)" "released p" "data_reads p = ?m"
    using task_idle [OF host, of "Endpoint_ClearOUT E (s2\<lparr>io_log := Rd UEINTX (hw E (io_log s2) UEINTX) # io_log s2\<rparr>)" A]
      s2 t by (auto simp: Endpoint_ClearOUT_def s2_def)
  have "n' \<noteq> 0" using l(2) few(2) by auto
  then have stop: "rw_loop E (USB_USBTask E A) (Endpoint_ClearOUT E) (into_state E block_of set_block) 1 [] (int ?m) n' (of_nat ?m) (Some 0) s2 =
      Returns (IncompleteTransfer, [], Some (of_nat ?m), t\<lparr>io_log := p\<rparr>)"
    using host s2 p(1)
    by (subst rw_loop.simps) (simp add: Endpoint_IsReadWriteAllowed_def host_breaks_off_def)
  have "read_header E A (Some 0) s = Returns (IncompleteTransfer, [], Some (of_nat ?m), t\<lparr>io_log := p\<rparr>)"
    using k(1) l(1) stop s(3,5) k(3)
    by (simp add: read_header_def read_stream_into_def template_rw_def s1_def [symmetric])
      (simp add: s1_def s2_def t_def set_block_def)
  moreover obtain q where q: "Endpoint_WaitUntilReady E (t\<lparr>io_log := p\<rparr>) = Returns (Timeout, t\<lparr>io_log := q @ p\<rparr>)" "only_reads q"
    using timeout [OF host, of "t\<lparr>io_log := p\<rparr>"] t p(2) by auto
  then have "read_header E A (Some (of_nat ?m)) (t\<lparr>io_log := p\<rparr>) = Returns (Timeout, [], Some (of_nat ?m), t\<lparr>io_log := q @ p\<rparr>)"
    by (simp add: read_header_def read_stream_into_def template_rw_def)
  ultimately have "transfer_all (read_header E A) (Some 0) s = Returns (True, t\<lparr>io_log := q @ p\<rparr>)"
    using transfer_again [of "read_header E A" "Some 0" s] t(3)
      transfer_done [of "read_header E A" "Some (of_nat ?m)" "t\<lparr>io_log := p\<rparr>" Timeout] by simp
  then show ?thesis
    using p(2) q(2) by (auto simp: t_def)
qed

text \<open>
  C37: When the host sends fewer than fifteen bytes of a command block and then nothing, the wait for the
  rest runs out; the driver does not look at that error: it completes the block with the bytes of the
  block before and, if the mixture is valid, gives it to the callback and answers it as a command.
\<close>

theorem ms_broken_block_executed:
  assumes "host_breaks_off E bytes" "0 < length bytes" "length bytes < 15"
    and "\<not> ien s" "USB_DeviceState s = DEVICE_STATE_Configured" "data_reads (io_log s) = 0" "\<not> released (io_log s)"
    and "length (block_of s) = 31" "\<not> IsMassStoreReset (ms_of s)"
    and "valid_block C (bytes @ drop (length bytes) (block_of s))"
  shows "\<exists>t. block_of t = bytes @ drop (length bytes) (block_of s) \<and>
    MS_Device_USBTask E A Q C s = and_then (execute_command E A Q C t)
      (\<lambda>s4. Returns (if IsMassStoreReset (ms_of s4) then reset_interface E C s4 else s4))"
proof -
  let ?b = "bytes @ drop (length bytes) (block_of s)"
  define s0 where "s0 = Endpoint_SelectEndpoint E (DataOUTEndpointNumber C) s"
  define s1 where "s1 = s0\<lparr>io_log := Rd UEINTX (hw E (io_log s0) UEINTX) # io_log s0\<rparr>"
  define s2 where "s2 = Endpoint_SelectEndpoint E (DataOUTEndpointNumber C) s1"
  have s2: "\<not> ien s2" "USB_DeviceState s2 = DEVICE_STATE_Configured" "data_reads (io_log s2) = 0" "\<not> released (io_log s2)"
      "ms_of s2 = ms_of s"
    using assms(4-7) by (simp_all add: s0_def s1_def s2_def Endpoint_SelectEndpoint_def)
  have rwal: "Endpoint_IsReadWriteAllowed E s0 = (True, s1)"
    using assms(1,2,4,6)
    by (simp add: s1_def s0_def Endpoint_SelectEndpoint_def Endpoint_IsReadWriteAllowed_def host_breaks_off_def)
  obtain l where l: "transfer_all (read_header E A) (Some 0) s2 = Returns (True, (set_block ?b s2)\<lparr>io_log := l\<rparr>)" "released l"
    using broken_header [OF assms(1-3) s2(1-4), of A] s2(5) assms(8,9) by auto
  define t where "t = (set_block ?b s2)\<lparr>io_log := l\<rparr>"
  have t: "\<not> ien t" "USB_DeviceState t = DEVICE_STATE_Configured" "block_of t = ?b" "released (io_log t)"
    using s2 l(2) by (simp_all add: t_def set_block_def)
  obtain q where q: "Endpoint_WaitUntilReady E t = Returns (Timeout, t\<lparr>io_log := q @ io_log t\<rparr>)"
    using timeout [OF assms(1) t(1,4,2)] by blast
  define u where "u = t\<lparr>io_log := q @ io_log t\<rparr>"
  have "read_command E A (Some 0) t = Returns (Timeout, [], Some 0, u)"
    by (simp add: read_command_def read_stream_into_def template_rw_def q u_def)
  then have "transfer_all (read_command E A) (Some 0) t = Returns (True, u)"
    using transfer_done [of "read_command E A" "Some 0" t Timeout] by simp
  then have read: "MS_Device_ReadInCommandBlock E A C s1 = Returns (True, Endpoint_ClearOUT E u)"
    using l(1) assms(10) t(3) by (simp add: MS_Device_ReadInCommandBlock_def s2_def [symmetric] t_def [symmetric])
  have "block_of (Endpoint_ClearOUT E u) = ?b"
    using t(1,3) by (simp add: u_def Endpoint_ClearOUT_def)
  moreover have "MS_Device_USBTask E A Q C s = and_then (execute_command E A Q C (Endpoint_ClearOUT E u))
      (\<lambda>s4. Returns (if IsMassStoreReset (ms_of s4) then reset_interface E C s4 else s4))"
    using assms(4,5) rwal read by (simp add: MS_Device_USBTask_def s0_def [symmetric])
  ultimately show ?thesis by blast
qed

text \<open>
  After a command to read block 3, a host sends the signature and a new tag, and no more: block 3 is
  read again for the new tag.
\<close>

definition breaking_host :: "u8 list \<Rightarrow> lufa_env" where
  "breaking_host bytes = \<lparr>hw = \<lambda>l r. case r of
     UEINTX \<Rightarrow> (if data_reads l < length bytes then 0x20 else 0) OR (if released l then 0 else 4)
   | UEDATX \<Rightarrow> bytes ! data_reads l | UDFNUML \<Rightarrow> of_nat (ticks l) | _ \<Rightarrow> 0, irq = id\<rparr>"

theorem ms_broken_block_executed_witness:
  "let s = set_block read10 ms_configured; bytes = bytes32 MS_CBW_SIGNATURE @ bytes32 8 in
   \<exists>t. block_of t = bytes @ drop 8 read10 \<and>
     MS_Device_USBTask (breaking_host bytes) idle_app (\<lambda>s. Returns (True, s)) disk_config s =
       and_then (execute_command (breaking_host bytes) idle_app (\<lambda>s. Returns (True, s)) disk_config t)
       (\<lambda>s4. Returns (if IsMassStoreReset (ms_of s4) then reset_interface (breaking_host bytes) disk_config s4 else s4))"
proof -
  define s where "s = set_block read10 ms_configured"
  define bytes where "bytes = bytes32 MS_CBW_SIGNATURE @ bytes32 8"
  have len: "length read10 = 31" "length bytes = 8"
    by (simp_all add: read10_def bytes_def bytes32_def)
  have host: "host_breaks_off (breaking_host bytes) bytes"
    by (simp add: host_breaks_off_def breaking_host_def)
  have s: "\<not> ien s" "USB_DeviceState s = DEVICE_STATE_Configured" "data_reads (io_log s) = 0" "\<not> released (io_log s)"
    "block_of s = read10" "\<not> IsMassStoreReset (ms_of s)"
    by (simp_all add: s_def set_block_def ms_configured_def lufa_zero_def class_states_zero_def ms_state_zero_def)
  have "valid_block disk_config (bytes @ drop 8 read10)"
    by (simp add: valid_block_def read10_def bytes_def disk_config_def cbw_Signature_def cbw_LUN_def cbw_Flags_def
        cbw_SCSICommandLength_def bytes32_def le32_def)
  then have "\<exists>t. block_of t = bytes @ drop 8 read10 \<and>
     MS_Device_USBTask (breaking_host bytes) idle_app (\<lambda>s. Returns (True, s)) disk_config s =
       and_then (execute_command (breaking_host bytes) idle_app (\<lambda>s. Returns (True, s)) disk_config t)
       (\<lambda>s4. Returns (if IsMassStoreReset (ms_of s4) then reset_interface (breaking_host bytes) disk_config s4 else s4))"
    using ms_broken_block_executed [OF host _ _ s(1-4) _ s(6), of disk_config idle_app "\<lambda>s. Returns (True, s)"] len s(5) by simp
  then show ?thesis
    unfolding Let_def s_def bytes_def .
qed

end
