(* ===== verification/AudioMidi.thy ===== *)
theory AudioMidi
  imports ClassStreams
begin

text \<open>
  The audio and MIDI class drivers of LUFA, \<^verbatim>\<open>Class/Device/AudioClassDevice\<close> and
  \<^verbatim>\<open>MIDIClassDevice\<close>. The callbacks of an audio application are a record of functions; a null pointer
  for length and data is \<open>None\<close>; a local array that the code does not set is an argument (\<open>junk\<close>).
  The state of a MIDI interface is one reserved byte, left out.
\<close>

unbundle bit_operations_syntax

subsection \<open>Audio interface\<close>

record audio_config =
  StreamingInterfaceNumber :: u8
  DataINEndpointNumber :: u8
  DataINEndpointSize :: u16
  DataOUTEndpointNumber :: u8
  DataOUTEndpointSize :: u16

abbreviation (input) REQ_SetInterface :: u8 where "REQ_SetInterface \<equiv> 11"
abbreviation (input) AUDIO_REQ_SetCurrent :: u8 where "AUDIO_REQ_SetCurrent \<equiv> 0x01"
abbreviation (input) AUDIO_REQ_SetMinimum :: u8 where "AUDIO_REQ_SetMinimum \<equiv> 0x02"
abbreviation (input) AUDIO_REQ_SetMaximum :: u8 where "AUDIO_REQ_SetMaximum \<equiv> 0x03"
abbreviation (input) AUDIO_REQ_SetResolution :: u8 where "AUDIO_REQ_SetResolution \<equiv> 0x04"
abbreviation (input) AUDIO_REQ_GetCurrent :: u8 where "AUDIO_REQ_GetCurrent \<equiv> 0x81"
abbreviation (input) AUDIO_REQ_GetMinimum :: u8 where "AUDIO_REQ_GetMinimum \<equiv> 0x82"
abbreviation (input) AUDIO_REQ_GetMaximum :: u8 where "AUDIO_REQ_GetMaximum \<equiv> 0x83"
abbreviation (input) AUDIO_REQ_GetResolution :: u8 where "AUDIO_REQ_GetResolution \<equiv> 0x84"
abbreviation (input) AUDIO_REQ_GetStatus :: u8 where "AUDIO_REQ_GetStatus \<equiv> 0xFF"

text \<open>\<^verbatim>\<open>REQDIR_x | REQTYPE_y | REQREC_z\<close>\<close>

abbreviation (input) HOSTTODEVICE_STANDARD_INTERFACE :: u8 where "HOSTTODEVICE_STANDARD_INTERFACE \<equiv> 0x01"
abbreviation (input) HOSTTODEVICE_CLASS_ENDPOINT :: u8 where "HOSTTODEVICE_CLASS_ENDPOINT \<equiv> 0x22"
abbreviation (input) DEVICETOHOST_CLASS_ENDPOINT :: u8 where "DEVICETOHOST_CLASS_ENDPOINT \<equiv> 0xA2"

text \<open>A callback gets a value and its length, or nothing, and returns whether it worked, with both.\<close>

type_synonym property_call = "(u16 \<times> u8 list) option \<Rightarrow> lufa \<Rightarrow> (bool \<times> u16 \<times> u8 list \<times> lufa) outcome"

record audio_app =
  GetSetEndpointProperty :: "u8 \<Rightarrow> u8 \<Rightarrow> u8 \<Rightarrow> property_call"
  GetSetInterfaceProperty :: "u8 \<Rightarrow> u8 \<Rightarrow> u16 \<Rightarrow> property_call"
  StreamStartStop :: "lufa \<Rightarrow> lufa outcome"

subsection \<open>Audio requests\<close>

text \<open>Whether a request is for this interface, or for one of its endpoints.\<close>

definition audio_addressed :: "audio_config \<Rightarrow> usb_request \<Rightarrow> bool" where
  "audio_addressed C r =
     (let recipient = bmRequestType r AND 0x1F; index = ucast (wIndex r AND 0xFF) :: u8 in
      if recipient = 1 then index = StreamingInterfaceNumber C
      else if recipient = 2 then
        \<not> (index \<noteq> ENDPOINT_DIR_IN OR DataINEndpointNumber C \<and> index \<noteq> ENDPOINT_DIR_OUT OR DataOUTEndpointNumber C)
      else True)"

definition set_interface :: "lufa_env \<Rightarrow> audio_app \<Rightarrow> lufa \<Rightarrow> lufa outcome" where
  "set_interface E H s =
     and_then (acknowledge E s) (\<lambda>s1.
       StreamStartStop H (s1\<lparr>Class_States :=
         (Class_States s1)\<lparr>InterfaceEnabled := wValue (USB_ControlRequest s1) AND 0xFF \<noteq> 0\<rparr>\<rparr>))"

text \<open>The first call asks whether the property can be set; \<open>second\<close> is the call with the value.\<close>

definition set_property ::
    "lufa_env \<Rightarrow> property_call \<Rightarrow> (u16 \<times> u8 list \<Rightarrow> lufa \<Rightarrow> (bool \<times> u16 \<times> u8 list \<times> lufa) outcome) \<Rightarrow>
     (nat \<Rightarrow> u8 list) \<Rightarrow> lufa \<Rightarrow> lufa outcome" where
  "set_property E first second junk s =
     and_then (first None s) (\<lambda>(ok, _, _, s1).
       if \<not> ok then Returns s1
       else
         let ValueLength = wLength (USB_ControlRequest s1) in
         and_then (Endpoint_Read_Control_Stream_LE E (junk (unat ValueLength)) ValueLength (Endpoint_ClearSETUP E s1))
           (\<lambda>(_, Value, s2).
         and_then (second (ValueLength, Value) (Endpoint_ClearIN E s2)) (\<lambda>(_, _, _, s3). Returns s3)))"

definition get_property ::
    "lufa_env \<Rightarrow> property_call \<Rightarrow> (nat \<Rightarrow> u8 list) \<Rightarrow> lufa \<Rightarrow> lufa outcome" where
  "get_property E call junk s =
     (let ValueLength = wLength (USB_ControlRequest s) in
      and_then (call (Some (ValueLength, junk (unat ValueLength))) s) (\<lambda>(ok, ValueLength, Value, s1).
        if \<not> ok then Returns s1
        else and_then (Endpoint_Write_Control_Stream_LE E Value ValueLength (Endpoint_ClearSETUP E s1)) (\<lambda>(_, _, s2).
          Returns (Endpoint_ClearOUT E s2))))"

text \<open>
  For an interface the second call of a set request gets null pointers too, as in the code.
\<close>

definition Audio_Device_ProcessControlRequest ::
    "lufa_env \<Rightarrow> audio_app \<Rightarrow> (nat \<Rightarrow> u8 list) \<Rightarrow> audio_config \<Rightarrow> lufa \<Rightarrow> lufa outcome" where
  "Audio_Device_ProcessControlRequest E H junk C s =
     (case Endpoint_IsSETUPReceived E s of (setup, s1) \<Rightarrow>
        if \<not> setup then Returns s1
        else
          let r = USB_ControlRequest s1; t = bmRequestType r; q = bRequest r;
              on_endpoint = GetSetEndpointProperty H q (ucast (wIndex r)) (ucast (drop_bit 8 (wValue r)));
              on_interface = GetSetInterfaceProperty H q (ucast (drop_bit 8 (wIndex r))) (wValue r) in
          if \<not> audio_addressed C r then Returns s1
          else if q = REQ_SetInterface then
            if t = HOSTTODEVICE_STANDARD_INTERFACE then set_interface E H s1 else Returns s1
          else if q = AUDIO_REQ_GetStatus then
            if t = HOSTTODEVICE_CLASS_INTERFACE \<or> t = HOSTTODEVICE_CLASS_ENDPOINT then acknowledge E s1
            else Returns s1
          else if q = AUDIO_REQ_SetCurrent \<or> q = AUDIO_REQ_SetMinimum \<or> q = AUDIO_REQ_SetMaximum \<or>
                  q = AUDIO_REQ_SetResolution then
            if t = HOSTTODEVICE_CLASS_ENDPOINT then
              set_property E on_endpoint (\<lambda>v. on_endpoint (Some v)) junk s1
            else if t = HOSTTODEVICE_CLASS_INTERFACE then
              set_property E on_interface (\<lambda>v. on_interface None) junk s1
            else Returns s1
          else if q = AUDIO_REQ_GetCurrent \<or> q = AUDIO_REQ_GetMinimum \<or> q = AUDIO_REQ_GetMaximum \<or>
                  q = AUDIO_REQ_GetResolution then
            if t = DEVICETOHOST_CLASS_ENDPOINT then get_property E on_endpoint junk s1
            else if t = DEVICETOHOST_CLASS_INTERFACE then get_property E on_interface junk s1
            else Returns s1
          else Returns s1)"

definition audio_endpoint :: "audio_config \<Rightarrow> endpoint_table" where
  "audio_endpoint C n =
     (if n = DataINEndpointNumber C then Some (EP_TYPE_ISOCHRONOUS, ENDPOINT_DIR_IN, DataINEndpointSize C, True)
      else if n = DataOUTEndpointNumber C then Some (EP_TYPE_ISOCHRONOUS, ENDPOINT_DIR_OUT, DataOUTEndpointSize C, True)
      else None)"

definition Audio_Device_ConfigureEndpoints :: "lufa_env \<Rightarrow> audio_config \<Rightarrow> lufa \<Rightarrow> (bool \<times> lufa) outcome" where
  "Audio_Device_ConfigureEndpoints E C s =
     configure_class_endpoints E (audio_endpoint C) (s\<lparr>Class_States := (Class_States s)\<lparr>InterfaceEnabled := False\<rparr>\<rparr>)"

subsection \<open>Audio samples\<close>

definition audio_open :: "lufa_env \<Rightarrow> lufa \<Rightarrow> bool \<times> lufa" where
  "audio_open E s = (case read_state E s of (d, s1) \<Rightarrow>
     (\<not> (d \<noteq> DEVICE_STATE_Configured \<or> \<not> InterfaceEnabled (Class_States s1)), s1))"

definition Audio_Device_IsSampleReceived :: "lufa_env \<Rightarrow> audio_config \<Rightarrow> lufa \<Rightarrow> bool \<times> lufa" where
  "Audio_Device_IsSampleReceived E C s =
     (case audio_open E s of (ok, s1) \<Rightarrow>
        if \<not> ok then (False, s1)
        else Endpoint_IsOUTReceived E (Endpoint_SelectEndpoint E (DataOUTEndpointNumber C) s1))"

definition Audio_Device_IsReadyForNextSample :: "lufa_env \<Rightarrow> audio_config \<Rightarrow> lufa \<Rightarrow> bool \<times> lufa" where
  "Audio_Device_IsReadyForNextSample E C s =
     (case audio_open E s of (ok, s1) \<Rightarrow>
        if \<not> ok then (False, s1)
        else Endpoint_IsINReady E (Endpoint_SelectEndpoint E (DataINEndpointNumber C) s1))"

text \<open>\<^verbatim>\<open>if (!(Endpoint_BytesInEndpoint())) Endpoint_ClearOUT();\<close> and its counterpart for a full endpoint.\<close>

definition out_done :: "lufa_env \<Rightarrow> lufa \<Rightarrow> lufa" where
  "out_done E s = (case Endpoint_BytesInEndpoint E s of (n, s1) \<Rightarrow> if n = 0 then Endpoint_ClearOUT E s1 else s1)"

definition in_done :: "lufa_env \<Rightarrow> audio_config \<Rightarrow> lufa \<Rightarrow> lufa" where
  "in_done E C s = (case Endpoint_BytesInEndpoint E s of (n, s1) \<Rightarrow>
     if n = DataINEndpointSize C then Endpoint_ClearIN E s1 else s1)"

text \<open>Samples are the bits of the signed integers of the code; the operands of \<^verbatim>\<open>|\<close> are taken from left to right.\<close>

definition Audio_Device_ReadSample8 :: "lufa_env \<Rightarrow> lufa \<Rightarrow> u8 \<times> lufa" where
  "Audio_Device_ReadSample8 E s = (case Endpoint_Read_8 E s of (b, s1) \<Rightarrow> (b, out_done E s1))"

definition Audio_Device_ReadSample16 :: "lufa_env \<Rightarrow> lufa \<Rightarrow> u16 \<times> lufa" where
  "Audio_Device_ReadSample16 E s = (case Endpoint_Read_16_LE E s of (w, s1) \<Rightarrow> (w, out_done E s1))"

definition Audio_Device_ReadSample24 :: "lufa_env \<Rightarrow> lufa \<Rightarrow> u32 \<times> lufa" where
  "Audio_Device_ReadSample24 E s =
     (case Endpoint_Read_8 E s of (b, s1) \<Rightarrow> case Endpoint_Read_16_LE E s1 of (w, s2) \<Rightarrow>
        (push_bit 16 (ucast b) OR ucast w, out_done E s2))"

definition Audio_Device_WriteSample8 :: "lufa_env \<Rightarrow> audio_config \<Rightarrow> u8 \<Rightarrow> lufa \<Rightarrow> lufa" where
  "Audio_Device_WriteSample8 E C Sample s = in_done E C (Endpoint_Write_8 E Sample s)"

definition Audio_Device_WriteSample16 :: "lufa_env \<Rightarrow> audio_config \<Rightarrow> u16 \<Rightarrow> lufa \<Rightarrow> lufa" where
  "Audio_Device_WriteSample16 E C Sample s = in_done E C (Endpoint_Write_16_LE E Sample s)"

definition Audio_Device_WriteSample24 :: "lufa_env \<Rightarrow> audio_config \<Rightarrow> u32 \<Rightarrow> lufa \<Rightarrow> lufa" where
  "Audio_Device_WriteSample24 E C Sample s =
     in_done E C (Endpoint_Write_8 E (ucast (drop_bit 16 Sample)) (Endpoint_Write_16_LE E (ucast Sample) s))"

subsection \<open>MIDI\<close>

record midi_config =
  MIDI_DataINEndpointNumber :: u8
  MIDI_DataINEndpointSize :: u16
  MIDI_DataINEndpointDoubleBank :: bool
  MIDI_DataOUTEndpointNumber :: u8
  MIDI_DataOUTEndpointSize :: u16
  MIDI_DataOUTEndpointDoubleBank :: bool

definition midi_endpoint :: "midi_config \<Rightarrow> endpoint_table" where
  "midi_endpoint C n =
     (if n = MIDI_DataINEndpointNumber C then
        Some (EP_TYPE_BULK, ENDPOINT_DIR_IN, MIDI_DataINEndpointSize C, MIDI_DataINEndpointDoubleBank C)
      else if n = MIDI_DataOUTEndpointNumber C then
        Some (EP_TYPE_BULK, ENDPOINT_DIR_OUT, MIDI_DataOUTEndpointSize C, MIDI_DataOUTEndpointDoubleBank C)
      else None)"

definition MIDI_Device_ConfigureEndpoints :: "lufa_env \<Rightarrow> midi_config \<Rightarrow> lufa \<Rightarrow> (bool \<times> lufa) outcome" where
  "MIDI_Device_ConfigureEndpoints E C = configure_class_endpoints E (midi_endpoint C)"

text \<open>An event packet is its four bytes.\<close>

definition MIDI_Device_SendEventPacket ::
    "lufa_env \<Rightarrow> app \<Rightarrow> midi_config \<Rightarrow> u8 list \<Rightarrow> lufa \<Rightarrow> (stream_error \<times> lufa) outcome" where
  "MIDI_Device_SendEventPacket E A C Event s =
     (case read_state E s of (d, s1) \<Rightarrow>
        if d \<noteq> DEVICE_STATE_Configured then Returns (DeviceDisconnected, s1)
        else and_then (Endpoint_Write_Stream_LE E (USB_USBTask E A) Event 4 None
            (Endpoint_SelectEndpoint E (MIDI_DataINEndpointNumber C) s1)) (\<lambda>(e, _, _, s2).
          if e \<noteq> NoError then Returns (e, s2)
          else case Endpoint_IsReadWriteAllowed E s2 of (room, s3) \<Rightarrow>
            Returns (NoError, if \<not> room then Endpoint_ClearIN E s3 else s3)))"

definition MIDI_Device_Flush :: "lufa_env \<Rightarrow> midi_config \<Rightarrow> lufa \<Rightarrow> (stream_error \<times> lufa) outcome" where
  "MIDI_Device_Flush E C s =
     (case read_state E s of (d, s1) \<Rightarrow>
        if d \<noteq> DEVICE_STATE_Configured then Returns (DeviceDisconnected, s1)
        else case Endpoint_BytesInEndpoint E (Endpoint_SelectEndpoint E (MIDI_DataINEndpointNumber C) s1) of (n, s2) \<Rightarrow>
          if n = 0 then Returns (NoError, s2) else Endpoint_WaitUntilReady E (Endpoint_ClearIN E s2))"

definition MIDI_Device_USBTask :: "lufa_env \<Rightarrow> midi_config \<Rightarrow> lufa \<Rightarrow> lufa outcome" where
  "MIDI_Device_USBTask E C s =
     (case read_state E s of (d, s1) \<Rightarrow>
        if d \<noteq> DEVICE_STATE_Configured then Returns s1
        else and_then (MIDI_Device_Flush E C s1) (\<lambda>(_, s2). Returns s2))"

definition MIDI_Device_ReceiveEventPacket ::
    "lufa_env \<Rightarrow> app \<Rightarrow> midi_config \<Rightarrow> u8 list \<Rightarrow> lufa \<Rightarrow> (bool \<times> u8 list \<times> lufa) outcome" where
  "MIDI_Device_ReceiveEventPacket E A C Event s =
     (case read_state E s of (d, s1) \<Rightarrow>
        if d \<noteq> DEVICE_STATE_Configured then Returns (False, Event, s1)
        else case Endpoint_IsReadWriteAllowed E (Endpoint_SelectEndpoint E (MIDI_DataOUTEndpointNumber C) s1) of (ok, s2) \<Rightarrow>
          if \<not> ok then Returns (False, Event, s2)
          else and_then (Endpoint_Read_Stream_LE E (USB_USBTask E A) Event 4 None s2) (\<lambda>(_, Event, _, s3).
            case Endpoint_IsReadWriteAllowed E s3 of (left, s4) \<Rightarrow>
              Returns (True, Event, if \<not> left then Endpoint_ClearOUT E s4 else s4)))"

subsection \<open>Samples on the wire\<close>

text \<open>
  A sample is sent with its low byte first; a 24-bit one is read back with its bytes in another order,
  and without its sign.
\<close>

lemma sample_bytes:
  assumes "\<not> ien s"
  shows "fed (selected (io_log s)) (io_log (Audio_Device_WriteSample16 E C w s)) =
      fed (selected (io_log s)) (io_log s) @ [lo8 w, hi8 w]"
    and "fed (selected (io_log s)) (io_log (Audio_Device_WriteSample24 E C x s)) =
      fed (selected (io_log s)) (io_log s) @ take 3 (bytes32 x)"
proof -
  have same: "fed e (io_log (in_done E C t)) = fed e (io_log t)" if "\<not> ien t" for e t
    using that by (simp add: in_done_def endpoint_ops)
  have bytes: "lo8 (ucast x) = ucast x" "hi8 (ucast x) = ucast (drop_bit 8 x)"
    by (rule bit_word_eqI; auto simp: lo8_def hi8_def bit_simps)+
  show "fed (selected (io_log s)) (io_log (Audio_Device_WriteSample16 E C w s)) =
      fed (selected (io_log s)) (io_log s) @ [lo8 w, hi8 w]"
    using assms by (simp add: Audio_Device_WriteSample16_def same Endpoint_Write_16_LE_def)
  show "fed (selected (io_log s)) (io_log (Audio_Device_WriteSample24 E C x s)) =
      fed (selected (io_log s)) (io_log s) @ take 3 (bytes32 x)"
    using assms by (simp add: Audio_Device_WriteSample24_def same Endpoint_Write_16_LE_def Endpoint_Write_8_def
        bytes32_def bytes)
qed

lemma sample_read:
  assumes "controller_ready E [a, b, c]" "\<not> ien s" "data_reads (io_log s) = 0"
  shows "fst (Audio_Device_ReadSample16 E s) = le16 a b" and "fst (Audio_Device_ReadSample24 E s) = le32 [b, c, a, 0]"
proof -
  have byte: "hw E l UEDATX = [a, b, c] ! i" if "data_reads l = i" "i < 3" for l i
    using assms(1) that by (simp add: controller_ready_def)
  have two: "read_fifo E 2 t = read_fifo E (Suc (Suc 0)) t" for t :: lufa
    by (simp add: numeral_eq_Suc)
  show "fst (Audio_Device_ReadSample16 E s) = le16 a b"
    using assms(2,3) byte [of _ 0] byte [of _ 1]
    by (simp add: Audio_Device_ReadSample16_def Endpoint_Read_16_LE_def two)
  have "push_bit 16 (ucast a) OR ucast (le16 b c) = le32 [b, c, a, 0]"
    by (rule bit_word_eqI) (auto simp: le32_def le16_def bit_simps dest: bit_imp_le_length)
  then show "fst (Audio_Device_ReadSample24 E s) = le32 [b, c, a, 0]"
    using assms(2,3) byte [of _ 0] byte [of _ 1] byte [of _ 2]
    by (simp add: Audio_Device_ReadSample24_def Endpoint_Read_16_LE_def Endpoint_Read_8_def two)
qed

end
