(* ===== verification/HostPipe.thy ===== *)
theory HostPipe
  imports LufaEndpoint
begin

text \<open>
  The pipes of LUFA's host mode: the register functions of \<^verbatim>\<open>Core/AVR8/Pipe_AVR8.h\<close> and
  \<^verbatim>\<open>Pipe_AVR8.c\<close>, and the streams of \<^verbatim>\<open>PipeStream_AVR8.c\<close>, for a host-only build on the
  AT90USB1287. A pipe is an endpoint seen from the other end of the line.
\<close>

unbundle bit_operations_syntax

subsection \<open>State of the host\<close>

datatype host_state = HOST_STATE_WaitForDevice | HOST_STATE_Unattached | HOST_STATE_Powered
  | HOST_STATE_Powered_WaitForDeviceSettle | HOST_STATE_Powered_WaitForConnect
  | HOST_STATE_Powered_DoReset | HOST_STATE_Powered_ConfigPipe | HOST_STATE_Default
  | HOST_STATE_Default_PostReset | HOST_STATE_Default_PostAddressSet | HOST_STATE_Addressed
  | HOST_STATE_Configured

text \<open>\<open>WaitMSRemaining\<close> and \<open>PostWaitState\<close> are the static variables of \<^verbatim>\<open>USB_Host_ProcessNextHostState\<close>.\<close>

record host = usb_port +
  USB_HostState :: host_state
  USB_ControlRequest :: usb_request
  USB_IsInitialized :: bool
  USB_Host_ConfigurationNumber :: u8
  USB_Host_ControlPipeSize :: u8
  WaitMSRemaining :: u16
  PostWaitState :: host_state

type_synonym host_env = "host usb_world"

definition read_host_state :: "host_env \<Rightarrow> host \<Rightarrow> host_state \<times> host" where
  "read_host_state E s = (let s1 = gap E s in (USB_HostState s1, s1))"

definition set_host_state :: "host_env \<Rightarrow> host_state \<Rightarrow> host \<Rightarrow> host" where
  "set_host_state E h s = (gap E s)\<lparr>USB_HostState := h\<rparr>"

subsection \<open>Constants\<close>

abbreviation (input) PEN :: nat where "PEN \<equiv> 0"
abbreviation (input) INMODE :: nat where "INMODE \<equiv> 5"
abbreviation (input) PFREEZE :: nat where "PFREEZE \<equiv> 6"
abbreviation (input) ALLOC :: nat where "ALLOC \<equiv> 1"
abbreviation (input) PERRI :: nat where "PERRI \<equiv> 4"
abbreviation (input) RXINI :: nat where "RXINI \<equiv> 0"
abbreviation (input) RXSTALLI :: nat where "RXSTALLI \<equiv> 1"
abbreviation (input) TXOUTI :: nat where "TXOUTI \<equiv> 2"
abbreviation (input) TXSTPI :: nat where "TXSTPI \<equiv> 3"
abbreviation (input) NAKEDI :: nat where "NAKEDI \<equiv> 6"

abbreviation (input) PIPE_CONTROLPIPE :: u8 where "PIPE_CONTROLPIPE \<equiv> 0"
abbreviation (input) PIPE_PIPENUM_MASK :: u8 where "PIPE_PIPENUM_MASK \<equiv> 0x0F"
abbreviation (input) PIPE_EPNUM_MASK :: u8 where "PIPE_EPNUM_MASK \<equiv> 0x0F"
abbreviation (input) PIPE_EPDIR_MASK :: u8 where "PIPE_EPDIR_MASK \<equiv> 0x80"
abbreviation (input) PIPE_ERRORFLAG_OVERFLOW :: u8 where "PIPE_ERRORFLAG_OVERFLOW \<equiv> 0x40"
abbreviation (input) PIPE_ERRORFLAG_UNDERFLOW :: u8 where "PIPE_ERRORFLAG_UNDERFLOW \<equiv> 0x20"
abbreviation (input) PIPE_ERRORFLAG_CRC16 :: u8 where "PIPE_ERRORFLAG_CRC16 \<equiv> 0x10"
abbreviation (input) PIPE_ERRORFLAG_TIMEOUT :: u8 where "PIPE_ERRORFLAG_TIMEOUT \<equiv> 0x08"
abbreviation (input) PIPE_ERRORFLAG_PID :: u8 where "PIPE_ERRORFLAG_PID \<equiv> 0x04"
abbreviation (input) PIPE_ERRORFLAG_DATAPID :: u8 where "PIPE_ERRORFLAG_DATAPID \<equiv> 0x02"
abbreviation (input) PIPE_ERRORFLAG_DATATGL :: u8 where "PIPE_ERRORFLAG_DATATGL \<equiv> 0x01"

definition PIPE_TOKEN_SETUP :: u8 where "PIPE_TOKEN_SETUP = push_bit 4 0"
definition PIPE_TOKEN_IN :: u8 where "PIPE_TOKEN_IN = push_bit 4 1"
definition PIPE_TOKEN_OUT :: u8 where "PIPE_TOKEN_OUT = push_bit 4 2"
definition PIPE_BANK_SINGLE :: u8 where "PIPE_BANK_SINGLE = push_bit 2 0"
definition PIPE_BANK_DOUBLE :: u8 where "PIPE_BANK_DOUBLE = push_bit 2 1"

abbreviation (input) PIPE_CONTROLPIPE_DEFAULT_SIZE :: u8 where "PIPE_CONTROLPIPE_DEFAULT_SIZE \<equiv> 64"
abbreviation (input) PIPE_TOTAL_PIPES :: nat where "PIPE_TOTAL_PIPES \<equiv> 7"
abbreviation (input) PIPE_MAX_SIZE :: u16 where "PIPE_MAX_SIZE \<equiv> 256"

subsection \<open>Register functions\<close>

definition Pipe_BytesInPipe :: "'a usb_env \<Rightarrow> 'a usb_port_scheme \<Rightarrow> u16 \<times> 'a usb_port_scheme" where
  "Pipe_BytesInPipe E s =
     (case rd E UPBCLX s of (l, s1) \<Rightarrow> case rd E UPBCHX s1 of (h, s2) \<Rightarrow> (le16 l h, s2))"

definition Pipe_GetCurrentPipe :: "'a usb_env \<Rightarrow> 'a usb_port_scheme \<Rightarrow> u8 \<times> 'a usb_port_scheme" where
  "Pipe_GetCurrentPipe E s = (case rd E UPNUM s of (v, s1) \<Rightarrow> (v AND PIPE_PIPENUM_MASK, s1))"

definition Pipe_SelectPipe :: "'a usb_env \<Rightarrow> u8 \<Rightarrow> 'a usb_port_scheme \<Rightarrow> 'a usb_port_scheme" where
  "Pipe_SelectPipe E n = wr E UPNUM n"

definition Pipe_ResetPipe :: "'a usb_env \<Rightarrow> u8 \<Rightarrow> 'a usb_port_scheme \<Rightarrow> 'a usb_port_scheme" where
  "Pipe_ResetPipe E n s = wr E UPRST 0 (wr E UPRST (push_bit (unat n) 1) s)"

definition Pipe_EnablePipe :: "'a usb_env \<Rightarrow> 'a usb_port_scheme \<Rightarrow> 'a usb_port_scheme" where
  "Pipe_EnablePipe E = rmw E UPCONX (set_bit8 PEN)"

definition Pipe_DisablePipe :: "'a usb_env \<Rightarrow> 'a usb_port_scheme \<Rightarrow> 'a usb_port_scheme" where
  "Pipe_DisablePipe E = rmw E UPCONX (clr_bit8 PEN)"

definition Pipe_IsEnabled :: "'a usb_env \<Rightarrow> 'a usb_port_scheme \<Rightarrow> bool \<times> 'a usb_port_scheme" where
  "Pipe_IsEnabled E = test_reg E UPCONX PEN"

definition Pipe_GetPipeToken :: "'a usb_env \<Rightarrow> 'a usb_port_scheme \<Rightarrow> u8 \<times> 'a usb_port_scheme" where
  "Pipe_GetPipeToken E s = (case rd E UPCFG0X s of (v, s1) \<Rightarrow> (v AND push_bit 4 3, s1))"

definition Pipe_SetPipeToken :: "'a usb_env \<Rightarrow> u8 \<Rightarrow> 'a usb_port_scheme \<Rightarrow> 'a usb_port_scheme" where
  "Pipe_SetPipeToken E Token = rmw E UPCFG0X (\<lambda>v. (v AND NOT (push_bit 4 3)) OR Token)"

definition Pipe_SetInfiniteINRequests :: "'a usb_env \<Rightarrow> 'a usb_port_scheme \<Rightarrow> 'a usb_port_scheme" where
  "Pipe_SetInfiniteINRequests E = rmw E UPCONX (set_bit8 INMODE)"

definition Pipe_SetFiniteINRequests :: "'a usb_env \<Rightarrow> u8 \<Rightarrow> 'a usb_port_scheme \<Rightarrow> 'a usb_port_scheme" where
  "Pipe_SetFiniteINRequests E n s = wr E UPINRQX n (rmw E UPCONX (clr_bit8 INMODE) s)"

definition Pipe_IsConfigured :: "'a usb_env \<Rightarrow> 'a usb_port_scheme \<Rightarrow> bool \<times> 'a usb_port_scheme" where
  "Pipe_IsConfigured E = test_reg E UPSTAX CFGOK"

definition Pipe_GetBoundEndpointAddress :: "'a usb_env \<Rightarrow> 'a usb_port_scheme \<Rightarrow> u8 \<times> 'a usb_port_scheme" where
  "Pipe_GetBoundEndpointAddress E s =
     (case rd E UPCFG0X s of (v, s1) \<Rightarrow> case Pipe_GetPipeToken E s1 of (t, s2) \<Rightarrow>
        ((drop_bit 0 v AND PIPE_EPNUM_MASK) OR (if t = PIPE_TOKEN_IN then PIPE_EPDIR_MASK else 0), s2))"

definition Pipe_SetInterruptPeriod :: "'a usb_env \<Rightarrow> u8 \<Rightarrow> 'a usb_port_scheme \<Rightarrow> 'a usb_port_scheme" where
  "Pipe_SetInterruptPeriod E ms = wr E UPCFG2X ms"

definition Pipe_GetPipeInterrupts :: "'a usb_env \<Rightarrow> 'a usb_port_scheme \<Rightarrow> u8 \<times> 'a usb_port_scheme" where
  "Pipe_GetPipeInterrupts E = rd E UPINT"

definition Pipe_HasPipeInterrupted :: "'a usb_env \<Rightarrow> u8 \<Rightarrow> 'a usb_port_scheme \<Rightarrow> bool \<times> 'a usb_port_scheme" where
  "Pipe_HasPipeInterrupted E n s = (case rd E UPINT s of (v, s1) \<Rightarrow> (v AND push_bit (unat n) 1 \<noteq> 0, s1))"

definition Pipe_Unfreeze :: "'a usb_env \<Rightarrow> 'a usb_port_scheme \<Rightarrow> 'a usb_port_scheme" where
  "Pipe_Unfreeze E = rmw E UPCONX (clr_bit8 PFREEZE)"

definition Pipe_Freeze :: "'a usb_env \<Rightarrow> 'a usb_port_scheme \<Rightarrow> 'a usb_port_scheme" where
  "Pipe_Freeze E = rmw E UPCONX (set_bit8 PFREEZE)"

definition Pipe_IsFrozen :: "'a usb_env \<Rightarrow> 'a usb_port_scheme \<Rightarrow> bool \<times> 'a usb_port_scheme" where
  "Pipe_IsFrozen E = test_reg E UPCONX PFREEZE"

definition Pipe_ClearError :: "'a usb_env \<Rightarrow> 'a usb_port_scheme \<Rightarrow> 'a usb_port_scheme" where
  "Pipe_ClearError E s = rmw E UPINTX (clr_bit8 PERRI) (wr E UPERRX 0 s)"

definition Pipe_IsError :: "'a usb_env \<Rightarrow> 'a usb_port_scheme \<Rightarrow> bool \<times> 'a usb_port_scheme" where
  "Pipe_IsError E = test_reg E UPINTX PERRI"

definition Pipe_GetErrorFlags :: "'a usb_env \<Rightarrow> 'a usb_port_scheme \<Rightarrow> u8 \<times> 'a usb_port_scheme" where
  "Pipe_GetErrorFlags E s =
     (case rd E UPERRX s of (e, s1) \<Rightarrow> case rd E UPSTAX s1 of (v, s2) \<Rightarrow>
        ((e AND (PIPE_ERRORFLAG_CRC16 OR PIPE_ERRORFLAG_TIMEOUT OR PIPE_ERRORFLAG_PID OR PIPE_ERRORFLAG_DATAPID OR
            PIPE_ERRORFLAG_DATATGL)) OR
         (v AND (PIPE_ERRORFLAG_OVERFLOW OR PIPE_ERRORFLAG_UNDERFLOW)), s2))"

definition Pipe_GetBusyBanks :: "'a usb_env \<Rightarrow> 'a usb_port_scheme \<Rightarrow> u8 \<times> 'a usb_port_scheme" where
  "Pipe_GetBusyBanks E s = (case rd E UPSTAX s of (v, s1) \<Rightarrow> (v AND 3, s1))"

definition Pipe_IsReadWriteAllowed :: "'a usb_env \<Rightarrow> 'a usb_port_scheme \<Rightarrow> bool \<times> 'a usb_port_scheme" where
  "Pipe_IsReadWriteAllowed E = test_reg E UPINTX RWAL"

definition Pipe_IsINReceived :: "'a usb_env \<Rightarrow> 'a usb_port_scheme \<Rightarrow> bool \<times> 'a usb_port_scheme" where
  "Pipe_IsINReceived E = test_reg E UPINTX RXINI"

definition Pipe_IsOUTReady :: "'a usb_env \<Rightarrow> 'a usb_port_scheme \<Rightarrow> bool \<times> 'a usb_port_scheme" where
  "Pipe_IsOUTReady E = test_reg E UPINTX TXOUTI"

definition Pipe_IsSETUPSent :: "'a usb_env \<Rightarrow> 'a usb_port_scheme \<Rightarrow> bool \<times> 'a usb_port_scheme" where
  "Pipe_IsSETUPSent E = test_reg E UPINTX TXSTPI"

definition Pipe_ClearSETUP :: "'a usb_env \<Rightarrow> 'a usb_port_scheme \<Rightarrow> 'a usb_port_scheme" where
  "Pipe_ClearSETUP E = rmw E UPINTX (\<lambda>v. v AND NOT (push_bit TXSTPI 1 OR push_bit FIFOCON 1))"

definition Pipe_ClearIN :: "'a usb_env \<Rightarrow> 'a usb_port_scheme \<Rightarrow> 'a usb_port_scheme" where
  "Pipe_ClearIN E = rmw E UPINTX (\<lambda>v. v AND NOT (push_bit RXINI 1 OR push_bit FIFOCON 1))"

definition Pipe_ClearOUT :: "'a usb_env \<Rightarrow> 'a usb_port_scheme \<Rightarrow> 'a usb_port_scheme" where
  "Pipe_ClearOUT E = rmw E UPINTX (\<lambda>v. v AND NOT (push_bit TXOUTI 1 OR push_bit FIFOCON 1))"

definition Pipe_IsNAKReceived :: "'a usb_env \<Rightarrow> 'a usb_port_scheme \<Rightarrow> bool \<times> 'a usb_port_scheme" where
  "Pipe_IsNAKReceived E = test_reg E UPINTX NAKEDI"

definition Pipe_ClearNAKReceived :: "'a usb_env \<Rightarrow> 'a usb_port_scheme \<Rightarrow> 'a usb_port_scheme" where
  "Pipe_ClearNAKReceived E = rmw E UPINTX (clr_bit8 NAKEDI)"

definition Pipe_IsStalled :: "'a usb_env \<Rightarrow> 'a usb_port_scheme \<Rightarrow> bool \<times> 'a usb_port_scheme" where
  "Pipe_IsStalled E = test_reg E UPINTX RXSTALLI"

definition Pipe_ClearStall :: "'a usb_env \<Rightarrow> 'a usb_port_scheme \<Rightarrow> 'a usb_port_scheme" where
  "Pipe_ClearStall E = rmw E UPINTX (clr_bit8 RXSTALLI)"

subsection \<open>Data\<close>

definition Pipe_Read_8 :: "'a usb_env \<Rightarrow> 'a usb_port_scheme \<Rightarrow> u8 \<times> 'a usb_port_scheme" where
  "Pipe_Read_8 E = rd E UPDATX"

definition Pipe_Write_8 :: "'a usb_env \<Rightarrow> u8 \<Rightarrow> 'a usb_port_scheme \<Rightarrow> 'a usb_port_scheme" where
  "Pipe_Write_8 E b = wr E UPDATX b"

definition Pipe_Discard_8 :: "'a usb_env \<Rightarrow> 'a usb_port_scheme \<Rightarrow> 'a usb_port_scheme" where
  "Pipe_Discard_8 E s = snd (rd E UPDATX s)"

text \<open>\<open>n\<close> reads of \<^verbatim>\<open>UPDATX\<close> in a row.\<close>

fun pipe_bytes :: "'a usb_env \<Rightarrow> nat \<Rightarrow> 'a usb_port_scheme \<Rightarrow> u8 list \<times> 'a usb_port_scheme" where
  "pipe_bytes E 0 s = ([], s)"
| "pipe_bytes E (Suc n) s =
     (case rd E UPDATX s of (b, s1) \<Rightarrow> case pipe_bytes E n s1 of (bs, s2) \<Rightarrow> (b # bs, s2))"

definition Pipe_Read_16_LE :: "'a usb_env \<Rightarrow> 'a usb_port_scheme \<Rightarrow> u16 \<times> 'a usb_port_scheme" where
  "Pipe_Read_16_LE E s = (case pipe_bytes E 2 s of (b, s1) \<Rightarrow> (le16 (b ! 0) (b ! 1), s1))"

definition Pipe_Read_16_BE :: "'a usb_env \<Rightarrow> 'a usb_port_scheme \<Rightarrow> u16 \<times> 'a usb_port_scheme" where
  "Pipe_Read_16_BE E s = (case pipe_bytes E 2 s of (b, s1) \<Rightarrow> (le16 (b ! 1) (b ! 0), s1))"

definition Pipe_Write_16_LE :: "'a usb_env \<Rightarrow> u16 \<Rightarrow> 'a usb_port_scheme \<Rightarrow> 'a usb_port_scheme" where
  "Pipe_Write_16_LE E w s = wr E UPDATX (hi8 w) (wr E UPDATX (lo8 w) s)"

definition Pipe_Write_16_BE :: "'a usb_env \<Rightarrow> u16 \<Rightarrow> 'a usb_port_scheme \<Rightarrow> 'a usb_port_scheme" where
  "Pipe_Write_16_BE E w s = wr E UPDATX (lo8 w) (wr E UPDATX (hi8 w) s)"

definition Pipe_Discard_16 :: "'a usb_env \<Rightarrow> 'a usb_port_scheme \<Rightarrow> 'a usb_port_scheme" where
  "Pipe_Discard_16 E s = snd (pipe_bytes E 2 s)"

definition Pipe_Read_32_LE :: "'a usb_env \<Rightarrow> 'a usb_port_scheme \<Rightarrow> u32 \<times> 'a usb_port_scheme" where
  "Pipe_Read_32_LE E s = (case pipe_bytes E 4 s of (b, s1) \<Rightarrow> (le32 b, s1))"

definition Pipe_Read_32_BE :: "'a usb_env \<Rightarrow> 'a usb_port_scheme \<Rightarrow> u32 \<times> 'a usb_port_scheme" where
  "Pipe_Read_32_BE E s = (case pipe_bytes E 4 s of (b, s1) \<Rightarrow> (le32 (rev b), s1))"

definition Pipe_Write_32_LE :: "'a usb_env \<Rightarrow> u32 \<Rightarrow> 'a usb_port_scheme \<Rightarrow> 'a usb_port_scheme" where
  "Pipe_Write_32_LE E w s = fold (wr E UPDATX) (bytes32 w) s"

definition Pipe_Write_32_BE :: "'a usb_env \<Rightarrow> u32 \<Rightarrow> 'a usb_port_scheme \<Rightarrow> 'a usb_port_scheme" where
  "Pipe_Write_32_BE E w s = fold (wr E UPDATX) (rev (bytes32 w)) s"

definition Pipe_Discard_32 :: "'a usb_env \<Rightarrow> 'a usb_port_scheme \<Rightarrow> 'a usb_port_scheme" where
  "Pipe_Discard_32 E s = snd (pipe_bytes E 4 s)"

subsection \<open>Configuration\<close>

text \<open>The loop that finds the size code ends at the largest size, unlike the one for endpoints.\<close>

partial_function (option) pipe_mask :: "u8 \<Rightarrow> u16 \<Rightarrow> u16 \<Rightarrow> u8 outcome" where
  "pipe_mask MaskVal CheckBytes Bytes =
     (if CheckBytes < Bytes \<and> CheckBytes < PIPE_MAX_SIZE
      then pipe_mask (MaskVal + 1) (push_bit 1 CheckBytes) Bytes else Returns MaskVal)"

definition Pipe_BytesToEPSizeMask :: "u16 \<Rightarrow> u8 outcome" where
  "Pipe_BytesToEPSizeMask Bytes = and_then (pipe_mask 0 8 Bytes) (\<lambda>m. Returns (push_bit 4 m))"

definition pipe_cfg0 :: "u8 \<Rightarrow> u8 \<Rightarrow> u8 \<Rightarrow> u8" where
  "pipe_cfg0 Type Token EndpointNumber = push_bit 6 Type OR Token OR push_bit 0 (EndpointNumber AND PIPE_EPNUM_MASK)"

text \<open>With \<^verbatim>\<open>ORDERED_EP_CONFIG\<close>, as in the Makefile.\<close>

definition Pipe_ConfigurePipe ::
    "'a usb_env \<Rightarrow> u8 \<Rightarrow> u8 \<Rightarrow> u8 \<Rightarrow> u8 \<Rightarrow> u16 \<Rightarrow> u8 \<Rightarrow> 'a usb_port_scheme \<Rightarrow> (bool \<times> 'a usb_port_scheme) outcome" where
  "Pipe_ConfigurePipe E Number Type Token EndpointNumber Size Banks s =
     and_then (Pipe_BytesToEPSizeMask Size) (\<lambda>m.
       Returns (Pipe_IsConfigured E (Pipe_SetInfiniteINRequests E
         (wr E UPCFG1X (push_bit ALLOC 1 OR Banks OR m)
         (wr E UPCFG0X (pipe_cfg0 Type Token EndpointNumber) (wr E UPCFG1X 0
           (Pipe_EnablePipe E (Pipe_SelectPipe E Number s))))))))"

text \<open>
  Without it, every pipe above the new one is allocated again behind it: \<open>pipe_config\<close> gives the four
  registers of pipe \<open>n\<close>.
\<close>

definition pipe_config ::
    "'a usb_env \<Rightarrow> u8 \<Rightarrow> (u8 \<times> u8) \<Rightarrow> u8 \<Rightarrow> 'a usb_port_scheme \<Rightarrow> (u8 \<times> u8 \<times> u8 \<times> u8) \<times> 'a usb_port_scheme" where
  "pipe_config E Number cfg n s =
     (if n = Number then ((fst cfg, snd cfg, 0, 0), s)
      else case rd E UPCFG0X s of (c0, s1) \<Rightarrow> case rd E UPCFG1X s1 of (c1, s2) \<Rightarrow>
        case rd E UPCFG2X s2 of (c2, s3) \<Rightarrow> case rd E UPIENX s3 of (ie, s4) \<Rightarrow> ((c0, c1, c2, ie), s4))"

fun configure_from ::
    "'a usb_env \<Rightarrow> u8 \<Rightarrow> (u8 \<times> u8) \<Rightarrow> u8 \<Rightarrow> nat \<Rightarrow> 'a usb_port_scheme \<Rightarrow> bool \<times> 'a usb_port_scheme" where
  "configure_from E Number cfg n 0 s = (True, Pipe_SelectPipe E Number s)"
| "configure_from E Number cfg n (Suc k) s =
     (case pipe_config E Number cfg n (Pipe_SelectPipe E n s) of ((c0, c1, c2, ie), s1) \<Rightarrow>
        if \<not> bit c1 ALLOC then configure_from E Number cfg (n + 1) k s1
        else
          let s2 = rmw E UPCFG1X (clr_bit8 ALLOC) (Pipe_DisablePipe E s1);
              s3 = wr E UPIENX ie (wr E UPCFG2X c2 (wr E UPCFG1X c1 (wr E UPCFG0X c0 (Pipe_EnablePipe E s2)))) in
          case Pipe_IsConfigured E (Pipe_SetInfiniteINRequests E s3) of (ok, s4) \<Rightarrow>
            if \<not> ok then (False, s4) else configure_from E Number cfg (n + 1) k s4)"

definition configure_reordering ::
    "'a usb_env \<Rightarrow> u8 \<Rightarrow> u8 \<Rightarrow> u8 \<Rightarrow> u8 \<Rightarrow> u16 \<Rightarrow> u8 \<Rightarrow> 'a usb_port_scheme \<Rightarrow> (bool \<times> 'a usb_port_scheme) outcome" where
  "configure_reordering E Number Type Token EndpointNumber Size Banks s =
     and_then (Pipe_BytesToEPSizeMask Size) (\<lambda>m.
       Returns (configure_from E Number (pipe_cfg0 Type Token EndpointNumber, push_bit ALLOC 1 OR Banks OR m)
         Number (PIPE_TOTAL_PIPES - unat Number) s))"

fun clear_pipes :: "'a usb_env \<Rightarrow> u8 \<Rightarrow> nat \<Rightarrow> 'a usb_port_scheme \<Rightarrow> 'a usb_port_scheme" where
  "clear_pipes E n 0 s = s"
| "clear_pipes E n (Suc k) s =
     clear_pipes E (n + 1) k
       (Pipe_DisablePipe E (wr E UPCFG1X 0 (wr E UPINTX 0 (wr E UPIENX 0 (Pipe_SelectPipe E n s)))))"

definition Pipe_ClearPipes :: "'a usb_env \<Rightarrow> 'a usb_port_scheme \<Rightarrow> 'a usb_port_scheme" where
  "Pipe_ClearPipes E s = clear_pipes E 0 PIPE_TOTAL_PIPES (wr E UPINT 0 s)"

fun bound_pipe :: "'a usb_env \<Rightarrow> u8 \<Rightarrow> u8 \<Rightarrow> nat \<Rightarrow> 'a usb_port_scheme \<Rightarrow> bool \<times> 'a usb_port_scheme" where
  "bound_pipe E a n 0 s = (False, s)"
| "bound_pipe E a n (Suc k) s =
     (case Pipe_IsConfigured E (Pipe_SelectPipe E n s) of (ok, s1) \<Rightarrow>
        if \<not> ok then bound_pipe E a (n + 1) k s1
        else case Pipe_GetBoundEndpointAddress E s1 of (b, s2) \<Rightarrow>
          if b = a then (True, s2) else bound_pipe E a (n + 1) k s2)"

text \<open>The pipe that is bound stays selected.\<close>

definition Pipe_IsEndpointBound :: "'a usb_env \<Rightarrow> u8 \<Rightarrow> 'a usb_port_scheme \<Rightarrow> bool \<times> 'a usb_port_scheme" where
  "Pipe_IsEndpointBound E EndpointAddress s =
     (case Pipe_GetCurrentPipe E s of (prev, s1) \<Rightarrow>
      case bound_pipe E EndpointAddress 0 PIPE_TOTAL_PIPES s1 of (found, s2) \<Rightarrow>
        if found then (True, s2) else (False, Pipe_SelectPipe E prev s2))"

subsection \<open>Waiting\<close>

definition USB_Host_GetFrameNumber :: "'a usb_env \<Rightarrow> 'a usb_port_scheme \<Rightarrow> u16 \<times> 'a usb_port_scheme" where
  "USB_Host_GetFrameNumber E s =
     (case rd E UHFNUML s of (l, s1) \<Rightarrow> case rd E UHFNUMH s1 of (h, s2) \<Rightarrow> (le16 l h, s2))"

text \<open>The codes of \<^verbatim>\<open>Pipe_WaitUntilReady_ErrorCodes_t\<close> and \<^verbatim>\<open>Pipe_Stream_RW_ErrorCodes_t\<close>.\<close>

datatype pipe_error = PIPE_NoError | PIPE_PipeStalled | PIPE_DeviceDisconnected | PIPE_Timeout | PIPE_IncompleteTransfer

partial_function (option) pipe_ready_loop :: "host_env \<Rightarrow> u8 \<Rightarrow> u16 \<Rightarrow> host \<Rightarrow> (pipe_error \<times> host) outcome" where
  "pipe_ready_loop E TimeoutMSRem PreviousFrameNumber s =
     (case Pipe_GetPipeToken E s of (t, s1) \<Rightarrow>
      case (if t = PIPE_TOKEN_IN then Pipe_IsINReceived E s1 else Pipe_IsOUTReady E s1) of (ready, s2) \<Rightarrow>
        if ready then Returns (PIPE_NoError, s2)
        else case Pipe_IsStalled E s2 of (st, s3) \<Rightarrow>
          if st then Returns (PIPE_PipeStalled, s3)
          else case read_host_state E s3 of (h, s4) \<Rightarrow>
            if h = HOST_STATE_Unattached then Returns (PIPE_DeviceDisconnected, s4)
            else case USB_Host_GetFrameNumber E s4 of (f, s5) \<Rightarrow>
              if f \<noteq> PreviousFrameNumber then
                if TimeoutMSRem = 0 then Returns (PIPE_Timeout, s5)
                else pipe_ready_loop E (TimeoutMSRem - 1) f s5
              else pipe_ready_loop E TimeoutMSRem PreviousFrameNumber s5)"

definition Pipe_WaitUntilReady :: "host_env \<Rightarrow> host \<Rightarrow> (pipe_error \<times> host) outcome" where
  "Pipe_WaitUntilReady E s = (case USB_Host_GetFrameNumber E s of (f, s1) \<Rightarrow> pipe_ready_loop E 100 f s1)"

subsection \<open>Streams\<close>

text \<open>
  The loop of all streams: \<open>transfer\<close> moves one byte between the pipe and the place \<open>i\<close> of the buffer,
  \<open>task\<close> runs between two packets, \<open>bp\<close> is \<^verbatim>\<open>*BytesProcessed\<close>, or \<open>None\<close> for a null pointer.
\<close>

type_synonym pipe_transfer = "u8 list \<Rightarrow> int \<Rightarrow> host \<Rightarrow> (u8 list \<times> host) outcome"
type_synonym pipe_result = "(pipe_error \<times> u8 list \<times> u16 option \<times> host) outcome"

partial_function (option) pipe_loop ::
    "host_env \<Rightarrow> (host \<Rightarrow> host outcome) \<Rightarrow> (host \<Rightarrow> host) \<Rightarrow> pipe_transfer \<Rightarrow> int \<Rightarrow>
     u8 list \<Rightarrow> int \<Rightarrow> u16 \<Rightarrow> u16 \<Rightarrow> u16 option \<Rightarrow> host \<Rightarrow> pipe_result" where
  "pipe_loop E task clear transfer move buffer i Length BytesInTransfer bp s =
     (if Length = 0 then Returns (PIPE_NoError, buffer, bp, s)
      else case Pipe_IsReadWriteAllowed E s of (ok, s1) \<Rightarrow>
        if \<not> ok then
          (case bp of
             Some b \<Rightarrow> Returns (PIPE_IncompleteTransfer, buffer, Some (b + BytesInTransfer), clear s1)
           | None \<Rightarrow>
               and_then (task (clear s1)) (\<lambda>s2.
               and_then (Pipe_WaitUntilReady E s2) (\<lambda>(e, s3).
                 if e \<noteq> PIPE_NoError then Returns (e, buffer, bp, s3)
                 else pipe_loop E task clear transfer move buffer i Length BytesInTransfer bp s3)))
        else
          and_then (transfer buffer i s1) (\<lambda>(buffer', s2).
            pipe_loop E task clear transfer move buffer' (i + move) (Length - 1) (BytesInTransfer + 1) bp s2))"

definition pipe_stream ::
    "host_env \<Rightarrow> (host \<Rightarrow> host outcome) \<Rightarrow> u8 \<Rightarrow> (host \<Rightarrow> host) \<Rightarrow> pipe_transfer \<Rightarrow> int \<Rightarrow>
     u8 list \<Rightarrow> u16 \<Rightarrow> u16 option \<Rightarrow> host \<Rightarrow> pipe_result" where
  "pipe_stream E task token clear transfer move buffer Length bp s =
     (let i = (if move = 1 then 0 else int (unat Length) - 1) in
      and_then (Pipe_WaitUntilReady E (Pipe_SetPipeToken E token s)) (\<lambda>(e, s1).
        if e \<noteq> PIPE_NoError then Returns (e, buffer, bp, s1)
        else case bp of
          None \<Rightarrow> pipe_loop E task clear transfer move buffer i Length 0 bp s1
        | Some b \<Rightarrow> pipe_loop E task clear transfer move buffer (i + move * int (unat b)) (Length - b) 0 bp s1))"

definition Pipe_Discard_Stream :: "host_env \<Rightarrow> u16 \<Rightarrow> u16 option \<Rightarrow> host \<Rightarrow> pipe_result" where
  "Pipe_Discard_Stream E =
     pipe_stream E Returns PIPE_TOKEN_IN (Pipe_ClearIN E) (\<lambda>b i s. Returns (b, Pipe_Discard_8 E s)) 1 []"

definition Pipe_Null_Stream :: "host_env \<Rightarrow> (host \<Rightarrow> host outcome) \<Rightarrow> u16 \<Rightarrow> u16 option \<Rightarrow> host \<Rightarrow> pipe_result" where
  "Pipe_Null_Stream E task =
     pipe_stream E task PIPE_TOKEN_OUT (Pipe_ClearOUT E) (\<lambda>b i s. Returns (b, Pipe_Write_8 E 0 s)) 1 []"

text \<open>The template \<^verbatim>\<open>Template_Pipe_RW.c\<close>, where nothing runs between two packets, and its instances.\<close>

definition pipe_write_byte :: "host_env \<Rightarrow> pipe_transfer" where
  "pipe_write_byte E buffer i s =
     (if 0 \<le> i \<and> i < int (length buffer) then Returns (buffer, Pipe_Write_8 E (buffer ! nat i) s)
      else Faults OutOfBounds)"

definition pipe_read_byte :: "host_env \<Rightarrow> pipe_transfer" where
  "pipe_read_byte E buffer i s =
     (case Pipe_Read_8 E s of (b, s1) \<Rightarrow>
        if 0 \<le> i \<and> i < int (length buffer) then Returns (buffer[nat i := b], s1) else Faults OutOfBounds)"

definition template_pipe_w :: "host_env \<Rightarrow> int \<Rightarrow> u8 list \<Rightarrow> u16 \<Rightarrow> u16 option \<Rightarrow> host \<Rightarrow> pipe_result" where
  "template_pipe_w E = pipe_stream E Returns PIPE_TOKEN_OUT (Pipe_ClearOUT E) (pipe_write_byte E)"

definition template_pipe_r :: "host_env \<Rightarrow> int \<Rightarrow> u8 list \<Rightarrow> u16 \<Rightarrow> u16 option \<Rightarrow> host \<Rightarrow> pipe_result" where
  "template_pipe_r E = pipe_stream E Returns PIPE_TOKEN_IN (Pipe_ClearIN E) (pipe_read_byte E)"

type_synonym pipe_rw = "host_env \<Rightarrow> u8 list \<Rightarrow> u16 \<Rightarrow> u16 option \<Rightarrow> host \<Rightarrow> pipe_result"

definition Pipe_Write_Stream_LE :: pipe_rw where "Pipe_Write_Stream_LE E = template_pipe_w E 1"
definition Pipe_Write_Stream_BE :: pipe_rw where "Pipe_Write_Stream_BE E = template_pipe_w E (-1)"
definition Pipe_Read_Stream_LE :: pipe_rw where "Pipe_Read_Stream_LE E = template_pipe_r E 1"
definition Pipe_Read_Stream_BE :: pipe_rw where "Pipe_Read_Stream_BE E = template_pipe_r E (-1)"

text \<open>The instances on flash and EEPROM do the same with the contents of that memory.\<close>

definition Pipe_Write_PStream_LE :: pipe_rw where "Pipe_Write_PStream_LE E = template_pipe_w E 1"
definition Pipe_Write_PStream_BE :: pipe_rw where "Pipe_Write_PStream_BE E = template_pipe_w E (-1)"
definition Pipe_Write_EStream_LE :: pipe_rw where "Pipe_Write_EStream_LE E = template_pipe_w E 1"
definition Pipe_Write_EStream_BE :: pipe_rw where "Pipe_Write_EStream_BE E = template_pipe_w E (-1)"
definition Pipe_Read_EStream_LE :: pipe_rw where "Pipe_Read_EStream_LE E = template_pipe_r E 1"
definition Pipe_Read_EStream_BE :: pipe_rw where "Pipe_Read_EStream_BE E = template_pipe_r E (-1)"

end
