(* ===== verification/HostStack.thy ===== *)
theory HostStack
  imports LufaDevice HostPipe
begin

text \<open>
  The host side of LUFA: controller and interrupts, the enumeration of a device
  (\<^verbatim>\<open>Core/AVR8/Host_AVR8\<close>), control requests (\<^verbatim>\<open>Core/HostStandardReq\<close>) and
  \<^verbatim>\<open>Core/USBTask.c\<close>, for a host-only build on the AT90USB1287 with automatic PLL and regulator. The
  events of the application are a record of functions. Delays take no time.
\<close>

unbundle bit_operations_syntax

subsection \<open>Events of the application\<close>

text \<open>
  The codes of \<^verbatim>\<open>USB_Host_SendControlErrorCodes_t\<close>; the first four are those of
  \<^verbatim>\<open>USB_Host_WaitMSErrorCodes_t\<close>, which the code returns as such.
\<close>

datatype send_control = HOST_SENDCONTROL_Successful | HOST_SENDCONTROL_DeviceDisconnected
  | HOST_SENDCONTROL_PipeError | HOST_SENDCONTROL_SetupStalled | HOST_SENDCONTROL_SoftwareTimeOut

datatype enum_error = HOST_ENUMERROR_NoError | HOST_ENUMERROR_WaitStage | HOST_ENUMERROR_NoDeviceDetected
  | HOST_ENUMERROR_ControlError | HOST_ENUMERROR_PipeConfigError

record host_app =
  EVENT_DeviceAttached :: "host \<Rightarrow> host outcome"
  EVENT_DeviceUnattached :: "host \<Rightarrow> host outcome"
  EVENT_EnumerationFailed :: "enum_error \<Rightarrow> send_control \<Rightarrow> host \<Rightarrow> host outcome"
  EVENT_EnumerationComplete :: "host \<Rightarrow> host outcome"
  EVENT_HostError :: "host \<Rightarrow> host outcome"
  EVENT_HostStartOfFrame :: "host \<Rightarrow> host outcome"

subsection \<open>Interrupt flags\<close>

datatype host_int = USB_INT_HSOFI | USB_INT_DCONNI | USB_INT_DDISCI | USB_INT_RSTI | USB_INT_BCERRI
  | USB_INT_VBERRI | USB_INT_SRPI

fun host_int_bit :: "host_int \<Rightarrow> usb_reg \<Rightarrow> usb_reg \<Rightarrow> usb_reg \<times> nat" where
  "host_int_bit USB_INT_HSOFI h otg = (h, 5)"
| "host_int_bit USB_INT_DCONNI h otg = (h, 0)"
| "host_int_bit USB_INT_DDISCI h otg = (h, 1)"
| "host_int_bit USB_INT_RSTI h otg = (h, 2)"
| "host_int_bit USB_INT_BCERRI h otg = (otg, 2)"
| "host_int_bit USB_INT_VBERRI h otg = (otg, 1)"
| "host_int_bit USB_INT_SRPI h otg = (otg, 0)"

definition HOST_INT_Enable :: "'a usb_env \<Rightarrow> host_int \<Rightarrow> 'a usb_port_scheme \<Rightarrow> 'a usb_port_scheme" where
  "HOST_INT_Enable E i = (case host_int_bit i UHIEN OTGIEN of (r, n) \<Rightarrow> rmw E r (set_bit8 n))"

definition HOST_INT_Disable :: "'a usb_env \<Rightarrow> host_int \<Rightarrow> 'a usb_port_scheme \<Rightarrow> 'a usb_port_scheme" where
  "HOST_INT_Disable E i = (case host_int_bit i UHIEN OTGIEN of (r, n) \<Rightarrow> rmw E r (clr_bit8 n))"

definition HOST_INT_Clear :: "'a usb_env \<Rightarrow> host_int \<Rightarrow> 'a usb_port_scheme \<Rightarrow> 'a usb_port_scheme" where
  "HOST_INT_Clear E i = (case host_int_bit i UHINT OTGINT of (r, n) \<Rightarrow> rmw E r (clr_bit8 n))"

definition HOST_INT_IsEnabled :: "'a usb_env \<Rightarrow> host_int \<Rightarrow> 'a usb_port_scheme \<Rightarrow> bool \<times> 'a usb_port_scheme" where
  "HOST_INT_IsEnabled E i = (case host_int_bit i UHIEN OTGIEN of (r, n) \<Rightarrow> test_reg E r n)"

definition HOST_INT_HasOccurred :: "'a usb_env \<Rightarrow> host_int \<Rightarrow> 'a usb_port_scheme \<Rightarrow> bool \<times> 'a usb_port_scheme" where
  "HOST_INT_HasOccurred E i = (case host_int_bit i UHINT OTGINT of (r, n) \<Rightarrow> test_reg E r n)"

definition host_int_pending :: "'a usb_env \<Rightarrow> host_int \<Rightarrow> 'a usb_port_scheme \<Rightarrow> bool \<times> 'a usb_port_scheme" where
  "host_int_pending E i s =
     (case HOST_INT_HasOccurred E i s of (o', s1) \<Rightarrow> if \<not> o' then (False, s1) else HOST_INT_IsEnabled E i s1)"

definition host_DisableAllInterrupts :: "'a usb_env \<Rightarrow> 'a usb_port_scheme \<Rightarrow> 'a usb_port_scheme" where
  "host_DisableAllInterrupts E s = wr E UHIEN 0 (rmw E USBCON (\<lambda>v. v AND NOT (push_bit 0 1 OR push_bit 1 1)) s)"

definition host_ClearAllInterrupts :: "'a usb_env \<Rightarrow> 'a usb_port_scheme \<Rightarrow> 'a usb_port_scheme" where
  "host_ClearAllInterrupts E s = wr E UHINT 0 (wr E USBINT 0 s)"

subsection \<open>Bus and power\<close>

definition USB_Host_EnableSOFEvents :: "'a usb_env \<Rightarrow> 'a usb_port_scheme \<Rightarrow> 'a usb_port_scheme" where
  "USB_Host_EnableSOFEvents E = HOST_INT_Enable E USB_INT_HSOFI"

definition USB_Host_DisableSOFEvents :: "'a usb_env \<Rightarrow> 'a usb_port_scheme \<Rightarrow> 'a usb_port_scheme" where
  "USB_Host_DisableSOFEvents E = HOST_INT_Disable E USB_INT_HSOFI"

definition USB_Host_ResetBus :: "'a usb_env \<Rightarrow> 'a usb_port_scheme \<Rightarrow> 'a usb_port_scheme" where
  "USB_Host_ResetBus E = rmw E UHCON (set_bit8 1)"

definition USB_Host_IsBusResetComplete :: "'a usb_env \<Rightarrow> 'a usb_port_scheme \<Rightarrow> bool \<times> 'a usb_port_scheme" where
  "USB_Host_IsBusResetComplete E s = (case test_reg E UHCON 1 s of (b, s1) \<Rightarrow> (\<not> b, s1))"

definition USB_Host_ResumeBus :: "'a usb_env \<Rightarrow> 'a usb_port_scheme \<Rightarrow> 'a usb_port_scheme" where
  "USB_Host_ResumeBus E = rmw E UHCON (set_bit8 0)"

definition USB_Host_SuspendBus :: "'a usb_env \<Rightarrow> 'a usb_port_scheme \<Rightarrow> 'a usb_port_scheme" where
  "USB_Host_SuspendBus E = rmw E UHCON (clr_bit8 0)"

definition USB_Host_IsBusSuspended :: "'a usb_env \<Rightarrow> 'a usb_port_scheme \<Rightarrow> bool \<times> 'a usb_port_scheme" where
  "USB_Host_IsBusSuspended E s = (case test_reg E UHCON 0 s of (b, s1) \<Rightarrow> (\<not> b, s1))"

definition USB_Host_IsDeviceFullSpeed :: "'a usb_env \<Rightarrow> 'a usb_port_scheme \<Rightarrow> bool \<times> 'a usb_port_scheme" where
  "USB_Host_IsDeviceFullSpeed E = test_reg E USBSTA 3"

definition USB_Host_IsRemoteWakeupSent :: "'a usb_env \<Rightarrow> 'a usb_port_scheme \<Rightarrow> bool \<times> 'a usb_port_scheme" where
  "USB_Host_IsRemoteWakeupSent E = test_reg E UHINT 4"

definition USB_Host_ClearRemoteWakeupSent :: "'a usb_env \<Rightarrow> 'a usb_port_scheme \<Rightarrow> 'a usb_port_scheme" where
  "USB_Host_ClearRemoteWakeupSent E = rmw E UHINT (clr_bit8 4)"

definition USB_Host_ResumeFromWakeupRequest :: "'a usb_env \<Rightarrow> 'a usb_port_scheme \<Rightarrow> 'a usb_port_scheme" where
  "USB_Host_ResumeFromWakeupRequest E = rmw E UHCON (set_bit8 2)"

definition USB_Host_IsResumeFromWakeupRequestSent :: "'a usb_env \<Rightarrow> 'a usb_port_scheme \<Rightarrow> bool \<times> 'a usb_port_scheme" where
  "USB_Host_IsResumeFromWakeupRequestSent E s = (case test_reg E UHCON 2 s of (b, s1) \<Rightarrow> (\<not> b, s1))"

definition USB_Host_HostMode_On :: "'a usb_env \<Rightarrow> 'a usb_port_scheme \<Rightarrow> 'a usb_port_scheme" where
  "USB_Host_HostMode_On E = rmw E USBCON (set_bit8 6)"

definition USB_Host_HostMode_Off :: "'a usb_env \<Rightarrow> 'a usb_port_scheme \<Rightarrow> 'a usb_port_scheme" where
  "USB_Host_HostMode_Off E = rmw E USBCON (clr_bit8 6)"

definition USB_Host_VBUS_Auto_Enable :: "'a usb_env \<Rightarrow> 'a usb_port_scheme \<Rightarrow> 'a usb_port_scheme" where
  "USB_Host_VBUS_Auto_Enable E s = rmw E UHWCON (set_bit8 4) (rmw E OTGCON (clr_bit8 2) s)"

definition USB_Host_VBUS_Manual_Enable :: "'a usb_env \<Rightarrow> 'a usb_port_scheme \<Rightarrow> 'a usb_port_scheme" where
  "USB_Host_VBUS_Manual_Enable E s = rmw E DDRE (set_bit8 7) (rmw E UHWCON (clr_bit8 4) (rmw E OTGCON (set_bit8 2) s))"

definition USB_Host_VBUS_Auto_On :: "'a usb_env \<Rightarrow> 'a usb_port_scheme \<Rightarrow> 'a usb_port_scheme" where
  "USB_Host_VBUS_Auto_On E = rmw E OTGCON (set_bit8 1)"

definition USB_Host_VBUS_Manual_On :: "'a usb_env \<Rightarrow> 'a usb_port_scheme \<Rightarrow> 'a usb_port_scheme" where
  "USB_Host_VBUS_Manual_On E = rmw E PORTE (set_bit8 7)"

definition USB_Host_VBUS_Auto_Off :: "'a usb_env \<Rightarrow> 'a usb_port_scheme \<Rightarrow> 'a usb_port_scheme" where
  "USB_Host_VBUS_Auto_Off E = rmw E OTGCON (set_bit8 0)"

definition USB_Host_VBUS_Manual_Off :: "'a usb_env \<Rightarrow> 'a usb_port_scheme \<Rightarrow> 'a usb_port_scheme" where
  "USB_Host_VBUS_Manual_Off E = rmw E PORTE (clr_bit8 7)"

definition USB_Host_SetDeviceAddress :: "'a usb_env \<Rightarrow> u8 \<Rightarrow> 'a usb_port_scheme \<Rightarrow> 'a usb_port_scheme" where
  "USB_Host_SetDeviceAddress E a = wr E UHADDR (a AND 0x7F)"

subsection \<open>Waiting and reset\<close>

partial_function (option) wait_ms_loop :: "host_env \<Rightarrow> u8 \<Rightarrow> host \<Rightarrow> (send_control \<times> host) outcome" where
  "wait_ms_loop E MS s =
     (if MS = 0 then Returns (HOST_SENDCONTROL_Successful, s)
      else case HOST_INT_HasOccurred E USB_INT_HSOFI s of (sof, s1) \<Rightarrow>
      case read_host_state E (if sof then HOST_INT_Clear E USB_INT_HSOFI s1 else s1) of (h, s2) \<Rightarrow>
        if h = HOST_STATE_Unattached then Returns (HOST_SENDCONTROL_DeviceDisconnected, s2)
        else case Pipe_IsError E s2 of (err, s3) \<Rightarrow>
          if err then Returns (HOST_SENDCONTROL_PipeError, Pipe_ClearError E s3)
          else case Pipe_IsStalled E s3 of (st, s4) \<Rightarrow>
            if st then Returns (HOST_SENDCONTROL_SetupStalled, Pipe_ClearStall E s4)
            else wait_ms_loop E (if sof then MS - 1 else MS) s4)"

definition USB_Host_WaitMS :: "host_env \<Rightarrow> u8 \<Rightarrow> host \<Rightarrow> (send_control \<times> host) outcome" where
  "USB_Host_WaitMS E MS s =
     (case USB_Host_IsBusSuspended E s of (suspended, s1) \<Rightarrow>
      case HOST_INT_IsEnabled E USB_INT_HSOFI s1 of (HSOFIEnabled, s2) \<Rightarrow>
      and_then (wait_ms_loop E MS (USB_Host_ResumeBus E (HOST_INT_Clear E USB_INT_HSOFI
        (HOST_INT_Disable E USB_INT_HSOFI s2)))) (\<lambda>(e, s3).
        let s4 = (if suspended then USB_Host_SuspendBus E s3 else s3) in
        Returns (e, if HSOFIEnabled then HOST_INT_Enable E USB_INT_HSOFI s4 else s4)))"

text \<open>The wait for the first frame after a reset, at most ten delays of a millisecond.\<close>

fun reset_delay :: "host_env \<Rightarrow> nat \<Rightarrow> host \<Rightarrow> host" where
  "reset_delay E 0 s = s"
| "reset_delay E (Suc MSRem) s =
     (case HOST_INT_HasOccurred E USB_INT_HSOFI s of (sof, s1) \<Rightarrow>
        if sof then HOST_INT_Clear E USB_INT_DDISCI (HOST_INT_Clear E USB_INT_HSOFI s1)
        else reset_delay E MSRem s1)"

definition USB_Host_ResetDevice :: "host_env \<Rightarrow> host \<Rightarrow> host outcome" where
  "USB_Host_ResetDevice E s =
     (case USB_Host_IsBusSuspended E s of (suspended, s1) \<Rightarrow>
      and_then (wait_clear E UHCON 1 (USB_Host_ResetBus E (HOST_INT_Disable E USB_INT_DDISCI s1))) (\<lambda>s2.
      case HOST_INT_IsEnabled E USB_INT_HSOFI ((USB_Host_ResumeBus E s2)\<lparr>USB_Host_ConfigurationNumber := 0\<rparr>) of
        (HSOFIEnabled, s3) \<Rightarrow>
      let s4 = reset_delay E 10 (HOST_INT_Clear E USB_INT_HSOFI (HOST_INT_Disable E USB_INT_HSOFI s3));
          s5 = (if HSOFIEnabled then HOST_INT_Enable E USB_INT_HSOFI s4 else s4);
          s6 = (if suspended then USB_Host_SuspendBus E s5 else s5) in
      Returns (HOST_INT_Enable E USB_INT_DDISCI s6)))"

subsection \<open>Control requests\<close>

datatype wait_type = USB_HOST_WAITFOR_SetupSent | USB_HOST_WAITFOR_InReceived | USB_HOST_WAITFOR_OutReady

definition ios_ready :: "host_env \<Rightarrow> wait_type \<Rightarrow> host \<Rightarrow> bool \<times> host" where
  "ios_ready E w = (case w of
     USB_HOST_WAITFOR_SetupSent \<Rightarrow> Pipe_IsSETUPSent E
   | USB_HOST_WAITFOR_InReceived \<Rightarrow> Pipe_IsINReceived E
   | USB_HOST_WAITFOR_OutReady \<Rightarrow> Pipe_IsOUTReady E)"

partial_function (option) wait_for_ios :: "host_env \<Rightarrow> wait_type \<Rightarrow> u16 \<Rightarrow> host \<Rightarrow> (send_control \<times> host) outcome" where
  "wait_for_ios E w TimeoutCounter s =
     (case ios_ready E w s of (ready, s1) \<Rightarrow>
        if ready then Returns (HOST_SENDCONTROL_Successful, s1)
        else and_then (USB_Host_WaitMS E 1 s1) (\<lambda>(e, s2).
          if e \<noteq> HOST_SENDCONTROL_Successful then Returns (e, s2)
          else if TimeoutCounter = 0 then Returns (HOST_SENDCONTROL_SoftwareTimeOut, s2)
          else wait_for_ios E w (TimeoutCounter - 1) s2))"

abbreviation (input) USB_HOST_TIMEOUT_MS :: u16 where "USB_HOST_TIMEOUT_MS \<equiv> 1000"

definition USB_Host_WaitForIOS :: "host_env \<Rightarrow> wait_type \<Rightarrow> host \<Rightarrow> (send_control \<times> host) outcome" where
  "USB_Host_WaitForIOS E w = wait_for_ios E w USB_HOST_TIMEOUT_MS"

text \<open>
  A call whose error code ends the request (\<^verbatim>\<open>goto End_Of_Control_Send\<close>), with the buffer as it is then.
\<close>

type_synonym control_request_result = "(send_control \<times> u8 list \<times> host) outcome"

definition or_end ::
    "(send_control \<times> host) outcome \<Rightarrow> u8 list \<Rightarrow> (host \<Rightarrow> control_request_result) \<Rightarrow> control_request_result" where
  "or_end call buffer f =
     and_then call (\<lambda>(e, s). if e \<noteq> HOST_SENDCONTROL_Successful then Returns (e, buffer, s) else f s)"

lemma or_end_mono [partial_function_mono]:
  "(\<And>y. mono_option (\<lambda>g. C y g)) \<Longrightarrow> mono_option (\<lambda>g. or_end call buffer (\<lambda>y. C y g))"
  unfolding or_end_def split_def by (intro partial_function_mono)

text \<open>The bytes of one packet: \<^verbatim>\<open>while (Pipe_BytesInPipe() && DataLen)\<close>.\<close>

fun take_packet :: "host_env \<Rightarrow> u8 list \<Rightarrow> nat \<Rightarrow> nat \<Rightarrow> host \<Rightarrow> (u8 list \<times> nat \<times> nat \<times> host) outcome" where
  "take_packet E buffer i 0 s = (case Pipe_BytesInPipe E s of (n, s1) \<Rightarrow> Returns (buffer, i, 0, s1))"
| "take_packet E buffer i (Suc DataLen) s =
     (case Pipe_BytesInPipe E s of (n, s1) \<Rightarrow>
        if n = 0 then Returns (buffer, i, Suc DataLen, s1)
        else case Pipe_Read_8 E s1 of (b, s2) \<Rightarrow>
          if i < length buffer then take_packet E (buffer[i := b]) (i + 1) DataLen s2 else Faults OutOfBounds)"

partial_function (option) control_in ::
    "host_env \<Rightarrow> u8 list \<Rightarrow> nat \<Rightarrow> nat \<Rightarrow> host \<Rightarrow> control_request_result" where
  "control_in E buffer i DataLen s =
     (if DataLen = 0 then Returns (HOST_SENDCONTROL_Successful, buffer, s)
      else or_end (USB_Host_WaitForIOS E USB_HOST_WAITFOR_InReceived (Pipe_Unfreeze E s)) buffer (\<lambda>s1.
        case Pipe_BytesInPipe E s1 of (n, s2) \<Rightarrow>
        and_then (take_packet E buffer i (if n = 0 then 0 else DataLen) s2) (\<lambda>(buffer', i', l, s3).
          control_in E buffer' i' l (Pipe_ClearIN E (Pipe_Freeze E s3)))))"

text \<open>\<^verbatim>\<open>while (DataLen && (Pipe_BytesInPipe() < USB_Host_ControlPipeSize))\<close>\<close>

fun give_packet :: "host_env \<Rightarrow> u8 list \<Rightarrow> nat \<Rightarrow> nat \<Rightarrow> host \<Rightarrow> (nat \<times> nat \<times> host) outcome" where
  "give_packet E buffer i 0 s = Returns (i, 0, s)"
| "give_packet E buffer i (Suc DataLen) s =
     (case Pipe_BytesInPipe E s of (n, s1) \<Rightarrow>
        if n < ucast (USB_Host_ControlPipeSize s1) then
          if i < length buffer then give_packet E buffer (i + 1) DataLen (Pipe_Write_8 E (buffer ! i) s1)
          else Faults OutOfBounds
        else Returns (i, Suc DataLen, s1))"

partial_function (option) control_out ::
    "host_env \<Rightarrow> u8 list \<Rightarrow> nat \<Rightarrow> nat \<Rightarrow> host \<Rightarrow> control_request_result" where
  "control_out E buffer i DataLen s =
     (if DataLen = 0 then Returns (HOST_SENDCONTROL_Successful, buffer, s)
      else or_end (USB_Host_WaitForIOS E USB_HOST_WAITFOR_OutReady s) buffer (\<lambda>s1.
        and_then (give_packet E buffer i DataLen s1) (\<lambda>(i', l, s2).
          control_out E buffer i' l (Pipe_ClearOUT E s2))))"

definition request_bytes :: "usb_request \<Rightarrow> u8 list" where
  "request_bytes r = [bmRequestType r, bRequest r] @ bytes16 (wValue r) @ bytes16 (wIndex r) @ bytes16 (wLength r)"

text \<open>The data and status stages of a request in the two directions; \<open>None\<close> is a null pointer.\<close>

definition stages_in :: "host_env \<Rightarrow> u8 list option \<Rightarrow> nat \<Rightarrow> host \<Rightarrow> control_request_result" where
  "stages_in E Buffer DataLen s =
     (let s1 = Pipe_SetPipeToken E PIPE_TOKEN_IN s in
      and_then (case Buffer of None \<Rightarrow> Returns (HOST_SENDCONTROL_Successful, [], s1)
                | Some b \<Rightarrow> control_in E b 0 DataLen s1) (\<lambda>(e, buffer, s2).
        if e \<noteq> HOST_SENDCONTROL_Successful then Returns (e, buffer, s2)
        else or_end (USB_Host_WaitForIOS E USB_HOST_WAITFOR_OutReady
            (Pipe_Unfreeze E (Pipe_SetPipeToken E PIPE_TOKEN_OUT s2))) buffer (\<lambda>s3.
          or_end (USB_Host_WaitForIOS E USB_HOST_WAITFOR_OutReady (Pipe_ClearOUT E s3)) buffer (\<lambda>s4.
            Returns (HOST_SENDCONTROL_Successful, buffer, s4)))))"

definition stages_out :: "host_env \<Rightarrow> u8 list option \<Rightarrow> nat \<Rightarrow> host \<Rightarrow> control_request_result" where
  "stages_out E Buffer DataLen s =
     and_then (case Buffer of None \<Rightarrow> Returns (HOST_SENDCONTROL_Successful, [], s)
               | Some b \<Rightarrow>
                   and_then (control_out E b 0 DataLen (Pipe_Unfreeze E (Pipe_SetPipeToken E PIPE_TOKEN_OUT s)))
                     (\<lambda>(e, buffer, s1).
                     if e \<noteq> HOST_SENDCONTROL_Successful then Returns (e, buffer, s1)
                     else or_end (USB_Host_WaitForIOS E USB_HOST_WAITFOR_OutReady s1) buffer (\<lambda>s2.
                       Returns (HOST_SENDCONTROL_Successful, buffer, Pipe_Freeze E s2)))) (\<lambda>(e, buffer, s3).
       if e \<noteq> HOST_SENDCONTROL_Successful then Returns (e, buffer, s3)
       else or_end (USB_Host_WaitForIOS E USB_HOST_WAITFOR_InReceived
           (Pipe_Unfreeze E (Pipe_SetPipeToken E PIPE_TOKEN_IN s3))) buffer (\<lambda>s4.
         Returns (HOST_SENDCONTROL_Successful, buffer, Pipe_ClearIN E s4)))"

definition setup_stage :: "host_env \<Rightarrow> host \<Rightarrow> host" where
  "setup_stage E s =
     (let s1 = Pipe_Unfreeze E (Pipe_ClearError E (Pipe_SetPipeToken E PIPE_TOKEN_SETUP s)) in
      Pipe_ClearSETUP E (fold (Pipe_Write_8 E) (request_bytes (USB_ControlRequest s1)) s1))"

definition USB_Host_SendControlRequest :: "host_env \<Rightarrow> u8 list option \<Rightarrow> host \<Rightarrow> control_request_result" where
  "USB_Host_SendControlRequest E Buffer s =
     (let buffer = (case Buffer of None \<Rightarrow> [] | Some b \<Rightarrow> b) in
      case USB_Host_IsBusSuspended E s of (suspended, s1) \<Rightarrow>
      let DataLen = unat (wLength (USB_ControlRequest s1)) in
      and_then
        (or_end (USB_Host_WaitMS E 1 (USB_Host_ResumeBus E s1)) buffer (\<lambda>s2.
         or_end (USB_Host_WaitForIOS E USB_HOST_WAITFOR_SetupSent (setup_stage E s2)) buffer (\<lambda>s3.
         or_end (USB_Host_WaitMS E 1 (Pipe_Freeze E s3)) buffer (\<lambda>s4.
           if bit (bmRequestType (USB_ControlRequest s4)) 7 then stages_in E Buffer DataLen s4
           else stages_out E Buffer DataLen s4))))
        (\<lambda>(e, buffer', s5).
          let s6 = Pipe_Freeze E s5; s7 = (if suspended then USB_Host_SuspendBus E s6 else s6) in
          Returns (e, buffer', Pipe_ResetPipe E PIPE_CONTROLPIPE s7)))"

subsection \<open>Standard requests\<close>

definition host_request :: "host_env \<Rightarrow> usb_request \<Rightarrow> u8 list option \<Rightarrow> host \<Rightarrow> control_request_result" where
  "host_request E r Buffer s =
     USB_Host_SendControlRequest E Buffer (Pipe_SelectPipe E PIPE_CONTROLPIPE (s\<lparr>USB_ControlRequest := r\<rparr>))"

definition USB_Host_SetDeviceConfiguration :: "host_env \<Rightarrow> u8 \<Rightarrow> host \<Rightarrow> (send_control \<times> host) outcome" where
  "USB_Host_SetDeviceConfiguration E ConfigNumber s =
     and_then (host_request E \<lparr>bmRequestType = 0x00, bRequest = 9, wValue = ucast ConfigNumber, wIndex = 0, wLength = 0\<rparr> None s)
       (\<lambda>(e, _, s1).
         if e = HOST_SENDCONTROL_Successful then
           Returns (e, set_host_state E (if ConfigNumber \<noteq> 0 then HOST_STATE_Configured else HOST_STATE_Addressed)
             (s1\<lparr>USB_Host_ConfigurationNumber := ConfigNumber\<rparr>))
         else Returns (e, s1))"

definition USB_Host_GetDeviceConfiguration :: "host_env \<Rightarrow> u8 list \<Rightarrow> host \<Rightarrow> control_request_result" where
  "USB_Host_GetDeviceConfiguration E ConfigNumber =
     host_request E \<lparr>bmRequestType = 0x80, bRequest = 8, wValue = 0, wIndex = 0, wLength = 1\<rparr> (Some ConfigNumber)"

definition USB_Host_GetDescriptor :: "host_env \<Rightarrow> u8 \<Rightarrow> u8 \<Rightarrow> u8 list \<Rightarrow> u8 \<Rightarrow> host \<Rightarrow> control_request_result" where
  "USB_Host_GetDescriptor E typ i Buffer BufferLength =
     host_request E \<lparr>bmRequestType = 0x80, bRequest = 6, wValue = push_bit 8 (ucast typ) OR ucast i,
       wIndex = 0, wLength = ucast BufferLength\<rparr> (Some Buffer)"

definition USB_Host_GetDeviceStatus :: "host_env \<Rightarrow> u8 list \<Rightarrow> host \<Rightarrow> control_request_result" where
  "USB_Host_GetDeviceStatus E FeatureStatus =
     host_request E \<lparr>bmRequestType = 0x80, bRequest = 0, wValue = 0, wIndex = 0, wLength = 0\<rparr> (Some FeatureStatus)"

definition USB_Host_ClearEndpointStall :: "host_env \<Rightarrow> u8 \<Rightarrow> host \<Rightarrow> control_request_result" where
  "USB_Host_ClearEndpointStall E address =
     host_request E \<lparr>bmRequestType = 0x02, bRequest = 1, wValue = 0, wIndex = ucast address, wLength = 0\<rparr> None"

definition USB_Host_SetInterfaceAltSetting :: "host_env \<Rightarrow> u8 \<Rightarrow> u8 \<Rightarrow> host \<Rightarrow> control_request_result" where
  "USB_Host_SetInterfaceAltSetting E interface setting =
     host_request E \<lparr>bmRequestType = 0x01, bRequest = 11, wValue = ucast setting,
       wIndex = ucast interface, wLength = 0\<rparr> None"

definition USB_Host_GetInterfaceAltSetting :: "host_env \<Rightarrow> u8 \<Rightarrow> u8 list \<Rightarrow> host \<Rightarrow> control_request_result" where
  "USB_Host_GetInterfaceAltSetting E interface setting =
     host_request E \<lparr>bmRequestType = 0x81, bRequest = 10, wValue = 0,
       wIndex = ucast interface, wLength = 1\<rparr> (Some setting)"

definition USB_Host_GetDeviceDescriptor :: "host_env \<Rightarrow> u8 list \<Rightarrow> host \<Rightarrow> control_request_result" where
  "USB_Host_GetDeviceDescriptor E DeviceDescriptorPtr = USB_Host_GetDescriptor E 1 0 DeviceDescriptorPtr 18"

definition USB_Host_GetDeviceStringDescriptor :: "host_env \<Rightarrow> u8 \<Rightarrow> u8 list \<Rightarrow> u8 \<Rightarrow> host \<Rightarrow> control_request_result" where
  "USB_Host_GetDeviceStringDescriptor E i Buffer BufferLength = USB_Host_GetDescriptor E 3 i Buffer BufferLength"

subsection \<open>Initialisation\<close>

text \<open>The PLL prescaler for 8 MHz.\<close>

definition host_PLL_On :: "'a usb_env \<Rightarrow> 'a usb_port_scheme \<Rightarrow> 'a usb_port_scheme" where
  "host_PLL_On E s = wr E PLLCSR (0x0C OR push_bit 1 1) (wr E PLLCSR 0x0C s)"

definition USB_Init_Host :: "host_env \<Rightarrow> host \<Rightarrow> host" where
  "USB_Init_Host E s =
     (let s1 = (set_host_state E HOST_STATE_Unattached s)\<lparr>USB_Host_ConfigurationNumber := 0,
            USB_Host_ControlPipeSize := PIPE_CONTROLPIPE_DEFAULT_SIZE\<rparr>;
          s2 = USB_Host_VBUS_Manual_On E (USB_Host_VBUS_Manual_Enable E (USB_Host_VBUS_Auto_Off E
            (USB_Host_HostMode_On E s1))) in
      USB_Attach E (HOST_INT_Enable E USB_INT_BCERRI (HOST_INT_Enable E USB_INT_SRPI s2)))"

definition host_ResetInterface :: "host_env \<Rightarrow> host \<Rightarrow> host outcome" where
  "host_ResetInterface E s =
     (let s1 = rmw E UHWCON (clr_bit8 7) (USB_CLK_Unfreeze E (USB_Controller_Reset E
            (host_ClearAllInterrupts E (host_DisableAllInterrupts E s)))) in
      and_then (wait_for E PLLCSR (push_bit PLOCK 1) (host_PLL_On E s1)) (\<lambda>(_, s2).
        Returns (USB_OTGPAD_On E (USB_Init_Host E s2))))"

definition host_Init :: "host_env \<Rightarrow> host \<Rightarrow> host outcome" where
  "host_Init E s = host_ResetInterface E ((USB_REG_On E s)\<lparr>USB_IsInitialized := True\<rparr>)"

definition host_Disable :: "host_env \<Rightarrow> host \<Rightarrow> host" where
  "host_Disable E s =
     (USB_OTGPAD_Off E (USB_REG_Off E (USB_PLL_Off E (USB_Controller_Disable E (USB_Detach E
       (host_ClearAllInterrupts E (host_DisableAllInterrupts E s)))))))\<lparr>USB_IsInitialized := False\<rparr>"

subsection \<open>Enumeration\<close>

text \<open>\<^verbatim>\<open>HOST_TASK_NONBLOCK_WAIT\<close>\<close>

definition host_wait :: "host_env \<Rightarrow> u16 \<Rightarrow> host_state \<Rightarrow> host \<Rightarrow> host" where
  "host_wait E Duration NextState s =
     (set_host_state E HOST_STATE_WaitForDevice s)\<lparr>WaitMSRemaining := Duration, PostWaitState := NextState\<rparr>"

abbreviation (input) HOST_DEVICE_SETTLE_DELAY_MS :: u16 where "HOST_DEVICE_SETTLE_DELAY_MS \<equiv> 1000"
abbreviation (input) USB_HOST_DEVICEADDRESS :: u8 where "USB_HOST_DEVICEADDRESS \<equiv> 1"

text \<open>
  The branches of the switch. Each gives the error code, its sub-code and the state. \<open>junk\<close> is what the
  local buffer for the descriptor holds before it is filled.
\<close>

type_synonym enum_result = "(enum_error \<times> send_control \<times> host) outcome"

definition no_error :: "host \<Rightarrow> enum_result" where
  "no_error s = Returns (HOST_ENUMERROR_NoError, HOST_SENDCONTROL_Successful, s)"

definition enum_waiting :: "host_env \<Rightarrow> host \<Rightarrow> enum_result" where
  "enum_waiting E s =
     (if WaitMSRemaining s = 0 then no_error s
      else and_then (USB_Host_WaitMS E 1 s) (\<lambda>(e, s1).
        if e \<noteq> HOST_SENDCONTROL_Successful then
          Returns (HOST_ENUMERROR_WaitStage, e, set_host_state E (PostWaitState s1) s1)
        else
          let s2 = s1\<lparr>WaitMSRemaining := WaitMSRemaining s1 - 1\<rparr> in
          no_error (if WaitMSRemaining s2 = 0 then set_host_state E (PostWaitState s2) s2 else s2)))"

definition enum_settle :: "host_env \<Rightarrow> host \<Rightarrow> host" where
  "enum_settle E s =
     (let s1 = s\<lparr>WaitMSRemaining := WaitMSRemaining s - 1\<rparr> in
      if WaitMSRemaining s \<noteq> 0 then s1
      else set_host_state E HOST_STATE_Powered_WaitForConnect (USB_Host_VBUS_Auto_On E
        (USB_Host_VBUS_Auto_Enable E (USB_OTGPAD_On E (USB_Host_VBUS_Manual_Off E s1)))))"

definition enum_connect :: "host_env \<Rightarrow> host \<Rightarrow> host" where
  "enum_connect E s =
     (case HOST_INT_HasOccurred E USB_INT_DCONNI s of (conn, s1) \<Rightarrow>
        if \<not> conn then s1
        else host_wait E 100 HOST_STATE_Powered_DoReset (Pipe_ClearPipes E (USB_Host_ResumeBus E
          (HOST_INT_Enable E USB_INT_VBERRI (HOST_INT_Clear E USB_INT_VBERRI (HOST_INT_Clear E USB_INT_DDISCI
            (HOST_INT_Clear E USB_INT_DCONNI s1)))))))"

definition enum_control_pipe :: "host_env \<Rightarrow> u16 \<Rightarrow> host \<Rightarrow> (bool \<times> host) outcome" where
  "enum_control_pipe E size' s =
     and_then (Pipe_ConfigurePipe E PIPE_CONTROLPIPE EP_TYPE_CONTROL PIPE_TOKEN_SETUP ENDPOINT_CONTROLEP size'
       PIPE_BANK_SINGLE s) (\<lambda>(_, s1). Returns (Pipe_IsConfigured E s1))"

definition enum_config :: "host_env \<Rightarrow> host \<Rightarrow> enum_result" where
  "enum_config E s =
     and_then (enum_control_pipe E (ucast PIPE_CONTROLPIPE_DEFAULT_SIZE) s) (\<lambda>(ok, s1).
       if \<not> ok then Returns (HOST_ENUMERROR_PipeConfigError, HOST_SENDCONTROL_Successful, s1)
       else no_error (set_host_state E HOST_STATE_Default s1))"

definition enum_default :: "host_env \<Rightarrow> u8 list \<Rightarrow> host \<Rightarrow> enum_result" where
  "enum_default E junk s =
     and_then (USB_Host_SendControlRequest E (Some junk) (s\<lparr>USB_ControlRequest :=
       \<lparr>bmRequestType = 0x80, bRequest = 6, wValue = push_bit 8 1, wIndex = 0, wLength = 8\<rparr>\<rparr>)) (\<lambda>(e, DataBuffer, s1).
       if e \<noteq> HOST_SENDCONTROL_Successful then Returns (HOST_ENUMERROR_ControlError, e, s1)
       else and_then (USB_Host_ResetDevice E (s1\<lparr>USB_Host_ControlPipeSize := DataBuffer ! 7\<rparr>)) (\<lambda>s2.
         no_error (host_wait E 200 HOST_STATE_Default_PostReset s2)))"

definition enum_address :: "host_env \<Rightarrow> host \<Rightarrow> enum_result" where
  "enum_address E s =
     and_then (enum_control_pipe E (ucast (USB_Host_ControlPipeSize s)) s) (\<lambda>(ok, s1).
       if \<not> ok then Returns (HOST_ENUMERROR_PipeConfigError, HOST_SENDCONTROL_Successful, s1)
       else and_then (USB_Host_SendControlRequest E None (s1\<lparr>USB_ControlRequest :=
           \<lparr>bmRequestType = 0x00, bRequest = 5, wValue = ucast USB_HOST_DEVICEADDRESS, wIndex = 0, wLength = 0\<rparr>\<rparr>))
         (\<lambda>(e, _, s2).
         if e \<noteq> HOST_SENDCONTROL_Successful then Returns (HOST_ENUMERROR_ControlError, e, s2)
         else no_error (host_wait E 100 HOST_STATE_Default_PostAddressSet s2)))"

definition enum_step :: "host_env \<Rightarrow> host_app \<Rightarrow> u8 list \<Rightarrow> host \<Rightarrow> enum_result" where
  "enum_step E A junk s =
     (case read_host_state E s of (h, s1) \<Rightarrow>
      case h of
        HOST_STATE_WaitForDevice \<Rightarrow> enum_waiting E s1
      | HOST_STATE_Powered \<Rightarrow>
          no_error (set_host_state E HOST_STATE_Powered_WaitForDeviceSettle
            (s1\<lparr>WaitMSRemaining := HOST_DEVICE_SETTLE_DELAY_MS\<rparr>))
      | HOST_STATE_Powered_WaitForDeviceSettle \<Rightarrow> no_error (enum_settle E s1)
      | HOST_STATE_Powered_WaitForConnect \<Rightarrow> no_error (enum_connect E s1)
      | HOST_STATE_Powered_DoReset \<Rightarrow>
          and_then (USB_Host_ResetDevice E s1) (\<lambda>s2. no_error (host_wait E 200 HOST_STATE_Powered_ConfigPipe s2))
      | HOST_STATE_Powered_ConfigPipe \<Rightarrow> enum_config E s1
      | HOST_STATE_Default \<Rightarrow> enum_default E junk s1
      | HOST_STATE_Default_PostReset \<Rightarrow> enum_address E s1
      | HOST_STATE_Default_PostAddressSet \<Rightarrow>
          and_then (EVENT_EnumerationComplete A
            (set_host_state E HOST_STATE_Addressed (USB_Host_SetDeviceAddress E USB_HOST_DEVICEADDRESS s1))) no_error
      | HOST_STATE_Unattached \<Rightarrow> no_error s1
      | HOST_STATE_Addressed \<Rightarrow> no_error s1
      | HOST_STATE_Configured \<Rightarrow> no_error s1)"

definition USB_Host_ProcessNextHostState :: "host_env \<Rightarrow> host_app \<Rightarrow> u8 list \<Rightarrow> host \<Rightarrow> host outcome" where
  "USB_Host_ProcessNextHostState E A junk s =
     and_then (enum_step E A junk s) (\<lambda>(ErrorCode, SubErrorCode, s1).
       if ErrorCode = HOST_ENUMERROR_NoError then Returns s1
       else case read_host_state E s1 of (h, s2) \<Rightarrow>
         if h = HOST_STATE_Unattached then Returns s2
         else and_then (EVENT_EnumerationFailed A ErrorCode SubErrorCode s2) (\<lambda>s3.
           and_then (EVENT_DeviceUnattached A (USB_Host_VBUS_Auto_Off E s3)) (host_ResetInterface E)))"

definition USB_HostTask :: "host_env \<Rightarrow> host_app \<Rightarrow> u8 list \<Rightarrow> host \<Rightarrow> host outcome" where
  "USB_HostTask E A junk s =
     (case Pipe_GetCurrentPipe E s of (PrevPipe, s1) \<Rightarrow>
      and_then (USB_Host_ProcessNextHostState E A junk (Pipe_SelectPipe E PIPE_CONTROLPIPE s1)) (\<lambda>s2.
        Returns (Pipe_SelectPipe E PrevPipe s2)))"

subsection \<open>The host interrupt\<close>

definition isr_host_sof :: "host_env \<Rightarrow> host_app \<Rightarrow> host \<Rightarrow> host outcome" where
  "isr_host_sof E A s =
     (case host_int_pending E USB_INT_HSOFI s of (p, s1) \<Rightarrow>
        if p then EVENT_HostStartOfFrame A (HOST_INT_Clear E USB_INT_HSOFI s1) else Returns s1)"

definition isr_disconnect :: "host_env \<Rightarrow> host_app \<Rightarrow> host \<Rightarrow> host outcome" where
  "isr_disconnect E A s =
     (case host_int_pending E USB_INT_DDISCI s of (p, s1) \<Rightarrow>
        if \<not> p then Returns s1
        else and_then (EVENT_DeviceUnattached A (HOST_INT_Disable E USB_INT_DDISCI (HOST_INT_Clear E USB_INT_DCONNI
          (HOST_INT_Clear E USB_INT_DDISCI s1)))) (host_ResetInterface E))"

definition isr_vbus_error :: "host_env \<Rightarrow> host_app \<Rightarrow> host \<Rightarrow> host outcome" where
  "isr_vbus_error E A s =
     (case host_int_pending E USB_INT_VBERRI s of (p, s1) \<Rightarrow>
        if \<not> p then Returns s1
        else and_then (EVENT_HostError A (USB_Host_VBUS_Auto_Off E (USB_Host_VBUS_Manual_Off E
            (HOST_INT_Clear E USB_INT_VBERRI s1)))) (\<lambda>s2.
          and_then (EVENT_DeviceUnattached A s2) (\<lambda>s3. Returns (s3\<lparr>USB_HostState := HOST_STATE_Unattached\<rparr>))))"

definition isr_attach :: "host_env \<Rightarrow> host_app \<Rightarrow> host \<Rightarrow> host outcome" where
  "isr_attach E A s =
     (case host_int_pending E USB_INT_SRPI s of (p, s1) \<Rightarrow>
        if \<not> p then Returns s1
        else and_then (EVENT_DeviceAttached A (HOST_INT_Disable E USB_INT_SRPI (HOST_INT_Clear E USB_INT_SRPI s1))) (\<lambda>s2.
          Returns ((HOST_INT_Enable E USB_INT_DDISCI s2)\<lparr>USB_HostState := HOST_STATE_Powered\<rparr>)))"

definition isr_no_device :: "host_env \<Rightarrow> host_app \<Rightarrow> host \<Rightarrow> host outcome" where
  "isr_no_device E A s =
     (case host_int_pending E USB_INT_BCERRI s of (p, s1) \<Rightarrow>
        if \<not> p then Returns s1
        else and_then (EVENT_EnumerationFailed A HOST_ENUMERROR_NoDeviceDetected HOST_SENDCONTROL_Successful
            (HOST_INT_Clear E USB_INT_BCERRI s1)) (\<lambda>s2.
          and_then (EVENT_DeviceUnattached A s2) (host_ResetInterface E)))"

definition host_GEN_vect :: "host_env \<Rightarrow> host_app \<Rightarrow> host \<Rightarrow> host outcome" where
  "host_GEN_vect E A s =
     and_then (isr_host_sof E A (s\<lparr>ien := False\<rparr>)) (\<lambda>s1.
     and_then (isr_disconnect E A s1) (\<lambda>s2.
     and_then (isr_vbus_error E A s2) (\<lambda>s3.
     and_then (isr_attach E A s3) (\<lambda>s4.
     and_then (isr_no_device E A s4) (\<lambda>s5. Returns (s5\<lparr>ien := True\<rparr>))))))"

end
