(* ===== verification/HostClaims.thy ===== *)
theory HostClaims
  imports HostStack
begin

text \<open>
  The host stack of LUFA with interrupts off: while frames go on, every control request returns
  whatever the device does, a device that answers is enumerated, and two requests fail whatever the
  device does.
\<close>

unbundle bit_operations_syntax

subsection \<open>Frames, and steps that only move the log\<close>

lemma host_masked [simp]:
  assumes "\<not> ien s"
  shows "gap E s = s" "read_host_state E s = (USB_HostState s, s)" "set_host_state E h s = s\<lparr>USB_HostState := h\<rparr>"
  using assms by (simp_all add: gap_def read_host_state_def set_host_state_def)

definition pipe_reads :: "access list \<Rightarrow> nat" where
  "pipe_reads l = length (filter (\<lambda>a. \<exists>b. a = Rd UPDATX b) l)"

lemma pipe_reads_simps [simp]:
  "pipe_reads [] = 0" "pipe_reads (Wr r v # l) = pipe_reads l"
  "pipe_reads (Rd r v # l) = (if r = UPDATX then Suc (pipe_reads l) else pipe_reads l)"
  "pipe_reads (l @ l') = pipe_reads l + pipe_reads l'"
  by (simp_all add: pipe_reads_def)

text \<open>How often the start of a frame has been looked for in vain since the last one was seen.\<close>

fun silence :: "access list \<Rightarrow> nat" where
  "silence [] = 0"
| "silence (Rd UHINT v # l) = (if bit v 5 then 0 else Suc (silence l))"
| "silence (_ # l) = silence l"

lemma silence_reg [simp]:
  "silence (Wr r v # l) = silence l" "r \<noteq> UHINT \<Longrightarrow> silence (Rd r v # l) = silence l"
  by (cases r; simp)+

text \<open>Among any \<open>N + 1\<close> looks at the flag one sees a frame; a frame takes a millisecond.\<close>

definition frames_go_on :: "nat \<Rightarrow> host_env \<Rightarrow> bool" where
  "frames_go_on N E \<longleftrightarrow> (\<forall>l. N \<le> silence l \<longrightarrow> bit (hw E l UHINT) 5)"

definition moved :: "host \<Rightarrow> host \<Rightarrow> bool" where
  "moved s t \<longleftrightarrow> (\<exists>l. t = s\<lparr>io_log := l @ io_log s\<rparr> \<and> pipe_reads l = 0)"

lemma moved_refl [simp]: "moved s s"
  by (auto simp: moved_def intro!: exI [of _ "[]"])

lemma moved_trans [trans]: "moved s t \<Longrightarrow> moved t u \<Longrightarrow> moved s u"
  unfolding moved_def by (elim exE conjE, rule_tac x = "la @ l" in exI) simp

lemma moved_fields:
  assumes "moved s t"
  shows "ien t = ien s" "USB_HostState t = USB_HostState s" "USB_ControlRequest t = USB_ControlRequest s"
    "USB_Host_ControlPipeSize t = USB_Host_ControlPipeSize s" "WaitMSRemaining t = WaitMSRemaining s"
    "PostWaitState t = PostWaitState s" "USB_Host_ConfigurationNumber t = USB_Host_ConfigurationNumber s"
    "pipe_reads (io_log t) = pipe_reads (io_log s)"
  using assms by (auto simp: moved_def)

lemma same_log [simp]: "t\<lparr>io_log := io_log t\<rparr> = t" for t :: host
  by simp

lemma moved_cons [intro]:
  "moved s (t\<lparr>io_log := m\<rparr>) \<Longrightarrow> moved s (t\<lparr>io_log := Wr r v # m\<rparr>)"
  "moved s (t\<lparr>io_log := m\<rparr>) \<Longrightarrow> r \<noteq> UPDATX \<Longrightarrow> moved s (t\<lparr>io_log := Rd r v # m\<rparr>)"
proof -
  have "moved s (t\<lparr>io_log := a # m\<rparr>)" if m: "moved s (t\<lparr>io_log := m\<rparr>)" and a: "pipe_reads [a] = 0" for a
  proof -
    obtain l where l: "t\<lparr>io_log := m\<rparr> = s\<lparr>io_log := l @ io_log s\<rparr>" "pipe_reads l = 0"
      using m unfolding moved_def by blast
    have "m = l @ io_log s"
      using arg_cong [OF l(1), of io_log] by simp
    then have "t\<lparr>io_log := a # m\<rparr> = s\<lparr>io_log := (a # l) @ io_log s\<rparr>"
      using arg_cong [OF l(1), of "\<lambda>u. u\<lparr>io_log := a # m\<rparr>"] by simp
    moreover have "pipe_reads (a # l) = 0"
      using l(2) a by (simp add: pipe_reads_def split: if_splits)
    ultimately show ?thesis
      unfolding moved_def by blast
  qed
  then show "moved s (t\<lparr>io_log := m\<rparr>) \<Longrightarrow> moved s (t\<lparr>io_log := Wr r v # m\<rparr>)"
    "moved s (t\<lparr>io_log := m\<rparr>) \<Longrightarrow> r \<noteq> UPDATX \<Longrightarrow> moved s (t\<lparr>io_log := Rd r v # m\<rparr>)"
    by simp_all
qed

lemma moved_wr: "moved s t \<Longrightarrow> \<not> ien s \<Longrightarrow> moved s (wr E r v t)"
  by (simp add: moved_fields moved_cons)

lemma moved_rmw: "moved s t \<Longrightarrow> \<not> ien s \<Longrightarrow> r \<noteq> UPDATX \<Longrightarrow> moved s (rmw E r f t)"
  by (simp add: rmw_def moved_fields moved_cons)

lemma moved_writes: "moved s t \<Longrightarrow> \<not> ien s \<Longrightarrow> moved s (fold (Pipe_Write_8 E) bs t)"
proof (induction bs arbitrary: t)
  case (Cons b bs)
  then show ?case
    using moved_wr by (simp add: Pipe_Write_8_def del: wr_masked)
qed simp

lemma test_masked: "\<not> ien s \<Longrightarrow> test_reg E r n s = (bit (hw E (io_log s) r) n, s\<lparr>io_log := Rd r (hw E (io_log s) r) # io_log s\<rparr>)"
  by (simp add: test_reg_def)

lemmas moved_rules = moved_cons moved_wr moved_rmw moved_writes

text \<open>The functions of the layers below, unfolded to accesses.\<close>

lemmas host_ops = Pipe_SelectPipe_def Pipe_ResetPipe_def Pipe_EnablePipe_def Pipe_DisablePipe_def
  Pipe_SetPipeToken_def Pipe_SetInfiniteINRequests_def Pipe_IsConfigured_def Pipe_Unfreeze_def Pipe_Freeze_def
  Pipe_ClearError_def Pipe_IsError_def Pipe_IsINReceived_def Pipe_IsOUTReady_def Pipe_IsSETUPSent_def
  Pipe_ClearSETUP_def Pipe_ClearIN_def Pipe_ClearOUT_def Pipe_IsStalled_def Pipe_ClearStall_def
  HOST_INT_Enable_def HOST_INT_Disable_def HOST_INT_Clear_def HOST_INT_IsEnabled_def HOST_INT_HasOccurred_def
  USB_Host_ResetBus_def USB_Host_ResumeBus_def USB_Host_SuspendBus_def USB_Host_IsBusSuspended_def

subsection \<open>Waiting\<close>

definition host_calm :: "host_env \<Rightarrow> bool" where
  "host_calm E \<longleftrightarrow> (\<forall>l. \<not> bit (hw E l UPINTX) PERRI \<and> \<not> bit (hw E l UPINTX) RXSTALLI)"

lemma wait_ms_loop_returns:
  assumes "frames_go_on N E"
  shows "\<not> ien s \<Longrightarrow> \<exists>e t. wait_ms_loop E MS s = Returns (e, t) \<and> moved s t \<and>
    (host_calm E \<and> USB_HostState s \<noteq> HOST_STATE_Unattached \<longrightarrow> e = HOST_SENDCONTROL_Successful)"
proof (induction "unat MS * Suc N + (N - silence (io_log s))" arbitrary: MS s rule: less_induct)
  case less
  show ?case
  proof (cases "MS = 0")
    case True
    then show ?thesis by (subst wait_ms_loop.simps) simp
  next
    case False
    let ?v = "hw E (io_log s) UHINT"
    define s1 where "s1 = s\<lparr>io_log := Rd UHINT ?v # io_log s\<rparr>"
    define s2 where "s2 = (if bit ?v 5 then HOST_INT_Clear E USB_INT_HSOFI s1 else s1)"
    define s3 where "s3 = s2\<lparr>io_log := Rd UPINTX (hw E (io_log s2) UPINTX) # io_log s2\<rparr>"
    define s4 where "s4 = s3\<lparr>io_log := Rd UPINTX (hw E (io_log s3) UPINTX) # io_log s3\<rparr>"
    have m: "moved s s1" "moved s s2" "moved s s3" "moved s s4"
      using less.prems by (simp_all add: s1_def s2_def s3_def s4_def host_ops moved_rules)
    note f = m [THEN moved_fields(1)] m [THEN moved_fields(2)]
    have run: "wait_ms_loop E MS s =
        (if USB_HostState s = HOST_STATE_Unattached then Returns (HOST_SENDCONTROL_DeviceDisconnected, s2)
         else if bit (hw E (io_log s2) UPINTX) PERRI then Returns (HOST_SENDCONTROL_PipeError, Pipe_ClearError E s3)
         else if bit (hw E (io_log s3) UPINTX) RXSTALLI then Returns (HOST_SENDCONTROL_SetupStalled, Pipe_ClearStall E s4)
         else wait_ms_loop E (if bit ?v 5 then MS - 1 else MS) s4)"
      using less.prems False f
      by (subst wait_ms_loop.simps)
        (simp add: HOST_INT_HasOccurred_def test_masked s1_def [symmetric] s2_def [symmetric] Pipe_IsError_def
          Pipe_IsStalled_def s3_def [symmetric] s4_def [symmetric])
    have ends: "moved s (Pipe_ClearError E s3)" "moved s (Pipe_ClearStall E s4)"
      using m less.prems by (simp_all add: host_ops moved_rules)
    have sil: "silence (io_log s4) = (if bit ?v 5 then silence (io_log s2) else Suc (silence (io_log s)))"
      by (simp add: s4_def s3_def s2_def s1_def)
    have "unat (if bit ?v 5 then MS - 1 else MS) * Suc N + (N - silence (io_log s4)) <
        unat MS * Suc N + (N - silence (io_log s))"
    proof (cases "bit ?v 5")
      case True
      have "unat MS = Suc (unat (MS - 1))"
        using False by (simp add: unat_minus_one unat_gt_0)
      then show ?thesis using True by simp
    next
      case no: False
      then have "silence (io_log s) < N"
        using assms by (metis frames_go_on_def not_less)
      then show ?thesis using no by (simp add: sil)
    qed
    from less.hyps [OF this] less.prems f
    obtain e t where "wait_ms_loop E (if bit ?v 5 then MS - 1 else MS) s4 = Returns (e, t)" "moved s4 t"
        "host_calm E \<and> USB_HostState s \<noteq> HOST_STATE_Unattached \<longrightarrow> e = HOST_SENDCONTROL_Successful"
      by auto
    then show ?thesis
      using m ends moved_trans [OF m(4)] unfolding run by (auto simp: host_calm_def)
  qed
qed

lemma wait_ms_returns:
  assumes "frames_go_on N E" "\<not> ien s"
  shows "\<exists>e t. USB_Host_WaitMS E MS s = Returns (e, t) \<and> moved s t \<and>
    (host_calm E \<and> USB_HostState s \<noteq> HOST_STATE_Unattached \<longrightarrow> e = HOST_SENDCONTROL_Successful)"
proof -
  define s1 where "s1 = s\<lparr>io_log := Rd UHCON (hw E (io_log s) UHCON) # io_log s\<rparr>"
  define s2 where "s2 = s1\<lparr>io_log := Rd UHIEN (hw E (io_log s1) UHIEN) # io_log s1\<rparr>"
  define s3 where "s3 = USB_Host_ResumeBus E (HOST_INT_Clear E USB_INT_HSOFI (HOST_INT_Disable E USB_INT_HSOFI s2))"
  have m: "moved s s1" "moved s s2" "moved s s3"
    using assms(2) by (simp_all add: s1_def s2_def s3_def host_ops moved_rules)
  note f = m [THEN moved_fields(1)] m [THEN moved_fields(2)]
  obtain e t where t: "wait_ms_loop E MS s3 = Returns (e, t)" "moved s3 t"
      "host_calm E \<and> USB_HostState s \<noteq> HOST_STATE_Unattached \<longrightarrow> e = HOST_SENDCONTROL_Successful"
    using wait_ms_loop_returns [OF assms(1), of s3 MS] assms(2) f by auto
  have "moved s t" by (rule moved_trans [OF m(3) t(2)])
  then show ?thesis
    using assms(2) t f(1,2)
    by (auto simp: USB_Host_WaitMS_def USB_Host_IsBusSuspended_def HOST_INT_IsEnabled_def test_masked Let_def
        s1_def [symmetric] s2_def [symmetric] s3_def [symmetric])
      (simp_all add: host_ops moved_rules)
qed

fun ios_flag :: "wait_type \<Rightarrow> nat" where
  "ios_flag USB_HOST_WAITFOR_SetupSent = TXSTPI"
| "ios_flag USB_HOST_WAITFOR_InReceived = RXINI"
| "ios_flag USB_HOST_WAITFOR_OutReady = TXOUTI"

lemma ios_ready_masked:
  "\<not> ien s \<Longrightarrow> ios_ready E w s =
    (bit (hw E (io_log s) UPINTX) (ios_flag w), s\<lparr>io_log := Rd UPINTX (hw E (io_log s) UPINTX) # io_log s\<rparr>)"
  by (cases w) (simp_all add: ios_ready_def Pipe_IsSETUPSent_def Pipe_IsINReceived_def Pipe_IsOUTReady_def test_masked)

text \<open>
  A wait for a flag returns. When the device is there and nothing goes wrong, it succeeds if the flag is
  set, and ends after a second if it never is.
\<close>

lemma wait_for_ios_returns:
  assumes "frames_go_on N E"
  shows "\<not> ien s \<Longrightarrow> \<exists>e t. wait_for_ios E w c s = Returns (e, t) \<and> moved s t \<and>
    (e = HOST_SENDCONTROL_Successful \<longrightarrow> (\<exists>v l. io_log t = Rd UPINTX v # l \<and> bit v (ios_flag w))) \<and>
    (bit (hw E (io_log s) UPINTX) (ios_flag w) \<longrightarrow> e = HOST_SENDCONTROL_Successful) \<and>
    (host_calm E \<and> USB_HostState s \<noteq> HOST_STATE_Unattached \<and>
      (\<forall>u. moved s u \<longrightarrow> \<not> bit (hw E (io_log u) UPINTX) (ios_flag w)) \<longrightarrow> e = HOST_SENDCONTROL_SoftwareTimeOut)"
proof (induction "unat c" arbitrary: c s rule: less_induct)
  case less
  let ?v = "hw E (io_log s) UPINTX"
  define s1 where "s1 = s\<lparr>io_log := Rd UPINTX ?v # io_log s\<rparr>"
  have m1: "moved s s1" by (simp add: s1_def moved_cons)
  note f1 = moved_fields [OF m1]
  show ?case
  proof (cases "bit ?v (ios_flag w)")
    case True
    then have "wait_for_ios E w c s = Returns (HOST_SENDCONTROL_Successful, s1)"
      using less.prems by (subst wait_for_ios.simps) (simp add: ios_ready_masked s1_def)
    moreover have "\<not> (\<forall>u. moved s u \<longrightarrow> \<not> bit (hw E (io_log u) UPINTX) (ios_flag w))"
      using True moved_refl [of s] by blast
    moreover have "\<exists>v l. io_log s1 = Rd UPINTX v # l \<and> bit v (ios_flag w)"
      using True by (simp add: s1_def)
    ultimately show ?thesis using m1 by simp
  next
    case no: False
    obtain e t where t: "USB_Host_WaitMS E 1 s1 = Returns (e, t)" "moved s1 t"
        "host_calm E \<and> USB_HostState s1 \<noteq> HOST_STATE_Unattached \<longrightarrow> e = HOST_SENDCONTROL_Successful"
      using wait_ms_returns [OF assms, of s1 1] less.prems f1 by auto
    have mt: "moved s t" by (rule moved_trans [OF m1 t(2)])
    have run: "wait_for_ios E w c s =
        (if e \<noteq> HOST_SENDCONTROL_Successful then Returns (e, t)
         else if c = 0 then Returns (HOST_SENDCONTROL_SoftwareTimeOut, t) else wait_for_ios E w (c - 1) t)"
      using less.prems no t(1) by (subst wait_for_ios.simps) (simp add: ios_ready_masked s1_def)
    show ?thesis
    proof (cases "e = HOST_SENDCONTROL_Successful \<and> c \<noteq> 0")
      case False
      then show ?thesis using mt t(3) f1 no unfolding run by auto
    next
      case True
      then have "unat (c - 1) < unat c"
        by (simp add: unat_minus_one unat_gt_0)
      from less.hyps [OF this, of t] less.prems moved_fields [OF mt]
      obtain e' u where u: "wait_for_ios E w (c - 1) t = Returns (e', u)" "moved t u"
          "e' = HOST_SENDCONTROL_Successful \<longrightarrow> (\<exists>v l. io_log u = Rd UPINTX v # l \<and> bit v (ios_flag w))"
          "host_calm E \<and> USB_HostState s \<noteq> HOST_STATE_Unattached \<and>
            (\<forall>u. moved t u \<longrightarrow> \<not> bit (hw E (io_log u) UPINTX) (ios_flag w)) \<longrightarrow> e' = HOST_SENDCONTROL_SoftwareTimeOut"
        by auto
      have "moved s u" by (rule moved_trans [OF mt u(2)])
      then show ?thesis using True u no moved_trans [OF mt] unfolding run by auto
    qed
  qed
qed

subsection \<open>Requests return\<close>

definition kept :: "host \<Rightarrow> host \<Rightarrow> bool" where
  "kept s t \<longleftrightarrow> t = s\<lparr>io_log := io_log t\<rparr>"

lemma kept_trans [trans]: "kept s t \<Longrightarrow> kept t u \<Longrightarrow> kept s u"
  by (cases s, cases t, cases u) (simp add: kept_def)

lemma moved_kept: "moved s t \<Longrightarrow> kept s t"
  by (auto simp: moved_def kept_def)

lemma kept_refl [simp]: "kept s s"
  by (simp add: kept_def)

lemma kept_fields:
  assumes "kept s t"
  shows "ien t = ien s" "USB_HostState t = USB_HostState s" "USB_ControlRequest t = USB_ControlRequest s"
    "USB_Host_ControlPipeSize t = USB_Host_ControlPipeSize s"
  using assms by (cases s; cases t; simp add: kept_def)+

text \<open>The bytes in the pipe, which no read of another register changes.\<close>

definition in_pipe :: "host_env \<Rightarrow> access list \<Rightarrow> u16" where
  "in_pipe E l = le16 (hw E l UPBCLX) (hw E l UPBCHX)"

definition counts_bytes :: "host_env \<Rightarrow> bool" where
  "counts_bytes E \<longleftrightarrow> (\<forall>l r v. r \<noteq> UPDATX \<longrightarrow>
     hw E (Rd r v # l) UPBCLX = hw E l UPBCLX \<and> hw E (Rd r v # l) UPBCHX = hw E l UPBCHX)"

lemma bytes_in_pipe:
  assumes "counts_bytes E" "\<not> ien s"
  shows "\<exists>t. Pipe_BytesInPipe E s = (in_pipe E (io_log s), t) \<and> moved s t \<and> in_pipe E (io_log t) = in_pipe E (io_log s)"
  using assms by (auto simp: Pipe_BytesInPipe_def counts_bytes_def in_pipe_def moved_cons)

lemma take_packet_returns:
  assumes "counts_bytes E"
  shows "\<not> ien s \<Longrightarrow> i + n \<le> length b \<Longrightarrow> \<exists>b' i' n' t. take_packet E b i n s = Returns (b', i', n', t) \<and>
    kept s t \<and> length b' = length b \<and> i' + n' = i + n \<and> n' \<le> n \<and> (in_pipe E (io_log s) \<noteq> 0 \<longrightarrow> 0 < n \<longrightarrow> n' < n)"
proof (induction n arbitrary: b i s)
  case 0
  then show ?case
    using bytes_in_pipe [OF assms, of s] by (auto simp: moved_kept)
next
  case (Suc n)
  obtain t where t: "Pipe_BytesInPipe E s = (in_pipe E (io_log s), t)" "moved s t"
    using bytes_in_pipe [OF assms Suc.prems(1)] by blast
  note f = moved_fields [OF t(2)]
  show ?case
  proof (cases "in_pipe E (io_log s) = 0")
    case True
    then show ?thesis using t by (simp add: moved_kept)
  next
    case False
    let ?x = "hw E (io_log t) UPDATX"
    define u where "u = t\<lparr>io_log := Rd UPDATX ?x # io_log t\<rparr>"
    have k: "kept s u" "\<not> ien u"
      using kept_trans [OF moved_kept [OF t(2)], of u] f Suc.prems(1) by (simp_all add: kept_def u_def)
    obtain b' i' n' v where "take_packet E (b[i := ?x]) (i + 1) n u = Returns (b', i', n', v)" "kept u v"
        "length b' = length b" "i' + n' = i + 1 + n" "n' \<le> n"
      using Suc.IH [OF k(2), of "i + 1" "b[i := ?x]"] Suc.prems(2) by auto
    moreover have "take_packet E b i (Suc n) s = take_packet E (b[i := ?x]) (i + 1) n u"
      using False t f Suc.prems by (simp add: Pipe_Read_8_def u_def)
    moreover have "kept s v" by (rule kept_trans [OF k(1)]) fact
    ultimately show ?thesis by auto
  qed
qed

lemma give_packet_returns:
  assumes "counts_bytes E"
  shows "\<not> ien s \<Longrightarrow> i + n \<le> length b \<Longrightarrow> \<exists>i' n' t. give_packet E b i n s = Returns (i', n', t) \<and>
    kept s t \<and> i' + n' = i + n \<and> n' \<le> n \<and>
    (in_pipe E (io_log s) < ucast (USB_Host_ControlPipeSize s) \<longrightarrow> 0 < n \<longrightarrow> n' < n)"
proof (induction n arbitrary: i s)
  case 0
  then show ?case by simp
next
  case (Suc n)
  obtain t where t: "Pipe_BytesInPipe E s = (in_pipe E (io_log s), t)" "moved s t"
    using bytes_in_pipe [OF assms Suc.prems(1)] by blast
  note f = moved_fields [OF t(2)]
  show ?case
  proof (cases "in_pipe E (io_log s) < ucast (USB_Host_ControlPipeSize s)")
    case False
    then show ?thesis using t f by (simp add: moved_kept)
  next
    case True
    define u where "u = Pipe_Write_8 E (b ! i) t"
    have "moved s u"
      using t(2) Suc.prems(1) by (simp add: u_def Pipe_Write_8_def moved_wr del: wr_masked)
    note k = moved_kept [OF this] moved_fields [OF this]
    obtain i' n' v where "give_packet E b (i + 1) n u = Returns (i', n', v)" "kept u v" "i' + n' = i + 1 + n" "n' \<le> n"
      using Suc.IH [of u "i + 1"] Suc.prems k(2) by auto
    moreover have "give_packet E b i (Suc n) s = give_packet E b (i + 1) n u"
      using True t f Suc.prems by (simp add: u_def)
    moreover have "kept s v" by (rule kept_trans [OF k(1)]) fact
    ultimately show ?thesis by auto
  qed
qed

lemma ios_returns:
  assumes "frames_go_on N E" "\<not> ien s"
  shows "\<exists>e t. USB_Host_WaitForIOS E w s = Returns (e, t) \<and> moved s t \<and>
    (e = HOST_SENDCONTROL_Successful \<longrightarrow> (\<exists>v l. io_log t = Rd UPINTX v # l \<and> bit v (ios_flag w)))"
  using wait_for_ios_returns [OF assms(1), of s w USB_HOST_TIMEOUT_MS] assms(2)
  unfolding USB_Host_WaitForIOS_def by blast

lemma control_in_returns:
  assumes "frames_go_on N E" "counts_bytes E"
  shows "\<not> ien s \<Longrightarrow> i + n \<le> length b \<Longrightarrow> \<exists>e b' t. control_in E b i n s = Returns (e, b', t) \<and> kept s t \<and> length b' = length b"
proof (induction n arbitrary: b i s rule: less_induct)
  case (less n)
  show ?case
  proof (cases "n = 0")
    case True
    then show ?thesis by (subst control_in.simps) simp
  next
    case False
    define s1 where "s1 = Pipe_Unfreeze E s"
    have m1: "moved s s1" using less.prems by (simp add: s1_def host_ops moved_rules)
    note f1 = moved_fields [OF m1]
    obtain e t where t: "USB_Host_WaitForIOS E USB_HOST_WAITFOR_InReceived s1 = Returns (e, t)" "moved s1 t"
      using ios_returns [OF assms(1)] less.prems f1 by metis
    have mt: "moved s t" by (rule moved_trans [OF m1 t(2)])
    note ft = moved_fields [OF mt]
    show ?thesis
    proof (cases "e = HOST_SENDCONTROL_Successful")
      case False
      then have "control_in E b i n s = Returns (e, b, t)"
        using \<open>n \<noteq> 0\<close> t(1) by (subst control_in.simps) (simp add: or_end_def s1_def)
      then show ?thesis using moved_kept [OF mt] by simp
    next
      case True
      obtain u where u: "Pipe_BytesInPipe E t = (in_pipe E (io_log t), u)" "moved t u"
          "in_pipe E (io_log u) = in_pipe E (io_log t)"
        using bytes_in_pipe [OF assms(2)] less.prems ft by metis
      define m where "m = (if in_pipe E (io_log t) = 0 then 0 else n)"
      note fu = moved_fields [OF u(2)]
      obtain b' i' n' v where v: "take_packet E b i m u = Returns (b', i', n', v)" "kept u v" "length b' = length b"
          "i' + n' = i + m" "in_pipe E (io_log u) \<noteq> 0 \<longrightarrow> 0 < m \<longrightarrow> n' < m" "n' \<le> m"
        using take_packet_returns [OF assms(2), of u i m b] less.prems ft fu by (fastforce simp: m_def split: if_splits)
      have less_n: "n' < n"
        using v(5,6) u(3) \<open>n \<noteq> 0\<close> by (auto simp: m_def split: if_splits)
      define w where "w = Pipe_ClearIN E (Pipe_Freeze E v)"
      have kv: "kept s v" by (rule kept_trans [OF kept_trans [OF moved_kept [OF mt] moved_kept [OF u(2)]] v(2)])
      have "moved v w"
        using less.prems kept_fields [OF kv] by (simp add: w_def host_ops moved_rules)
      then have kw: "kept s w" by (rule kept_trans [OF kv moved_kept])
      have "i' + n' \<le> length b'"
        using v(3,4) less.prems(2) by (simp add: m_def split: if_splits)
      then obtain e' b'' x where "control_in E b' i' n' w = Returns (e', b'', x)" "kept w x" "length b'' = length b'"
        using less.IH [OF less_n, of w i' b'] less.prems kept_fields [OF kw] by auto
      moreover have "control_in E b i n s = control_in E b' i' n' w"
        using \<open>n \<noteq> 0\<close> t(1) True u(1) v(1)
        by (subst control_in.simps) (simp add: or_end_def s1_def m_def w_def)
      moreover have "kept s x" by (rule kept_trans [OF kw]) fact
      ultimately show ?thesis using v(3) by simp
    qed
  qed
qed

text \<open>A pipe whose bank is free has room for a byte.\<close>

definition has_room :: "host_env \<Rightarrow> u8 \<Rightarrow> bool" where
  "has_room E n \<longleftrightarrow> (\<forall>l v. bit v TXOUTI \<longrightarrow> in_pipe E (Rd UPINTX v # l) < ucast n)"

lemma control_out_returns:
  assumes "frames_go_on N E" "counts_bytes E"
  shows "\<not> ien s \<Longrightarrow> i + n \<le> length b \<Longrightarrow> has_room E (USB_Host_ControlPipeSize s) \<Longrightarrow>
    \<exists>e t. control_out E b i n s = Returns (e, b, t) \<and> kept s t"
proof (induction n arbitrary: i s rule: less_induct)
  case (less n)
  show ?case
  proof (cases "n = 0")
    case True
    then show ?thesis by (subst control_out.simps) simp
  next
    case False
    obtain e t where t: "USB_Host_WaitForIOS E USB_HOST_WAITFOR_OutReady s = Returns (e, t)" "moved s t"
        "e = HOST_SENDCONTROL_Successful \<longrightarrow> (\<exists>v l. io_log t = Rd UPINTX v # l \<and> bit v (ios_flag USB_HOST_WAITFOR_OutReady))"
      using ios_returns [OF assms(1) less.prems(1)] by blast
    note ft = moved_fields [OF t(2)]
    show ?thesis
    proof (cases "e = HOST_SENDCONTROL_Successful")
      case no: False
      then have "control_out E b i n s = Returns (e, b, t)"
        using False t(1) by (subst control_out.simps) (simp add: or_end_def)
      then show ?thesis using moved_kept [OF t(2)] by simp
    next
      case True
      have "in_pipe E (io_log t) < ucast (USB_Host_ControlPipeSize t)"
        using t(3) True less.prems(3) ft(4) by (auto simp: has_room_def)
      then obtain i' n' u where u: "give_packet E b i n t = Returns (i', n', u)" "kept t u" "i' + n' = i + n" "n' < n"
        using give_packet_returns [OF assms(2), of t i n b] less.prems ft False by auto
      define w where "w = Pipe_ClearOUT E u"
      have ku: "kept s u" by (rule kept_trans [OF moved_kept [OF t(2)] u(2)])
      have "moved u w"
        using less.prems kept_fields [OF ku] by (simp add: w_def host_ops moved_rules)
      then have kw: "kept s w" by (rule kept_trans [OF ku moved_kept])
      obtain e' x where "control_out E b i' n' w = Returns (e', b, x)" "kept w x"
        using less.IH [OF u(4), of w i'] less.prems kept_fields [OF kw] u(3) by auto
      moreover have "control_out E b i n s = control_out E b i' n' w"
        using False t(1) True u(1) by (subst control_out.simps) (simp add: or_end_def w_def)
      moreover have "kept s x" by (rule kept_trans [OF kw]) fact
      ultimately show ?thesis by simp
    qed
  qed
qed

definition ends :: "host \<Rightarrow> u8 list \<Rightarrow> control_request_result \<Rightarrow> bool" where
  "ends s b r \<longleftrightarrow> (\<exists>e b' t. r = Returns (e, b', t) \<and> kept s t \<and> length b' = length b)"

lemma ends_Returns [simp]: "ends s b (Returns (e, b', t)) \<longleftrightarrow> kept s t \<and> length b' = length b"
  by (simp add: ends_def)

lemma ends_or_end:
  assumes "\<exists>e t. call = Returns (e, t) \<and> moved s0 t" "kept s s0" "length b' = length b"
    and "\<And>t. kept s t \<Longrightarrow> ends s b (f t)"
  shows "ends s b (or_end call b' f)"
proof -
  obtain e t where t: "call = Returns (e, t)" "moved s0 t"
    using assms(1) by blast
  have "kept s t" by (rule kept_trans [OF assms(2) moved_kept [OF t(2)]])
  then show ?thesis using assms(3,4) t(1) by (simp add: or_end_def)
qed

lemma ends_then:
  assumes "ends s b r" "\<And>e b' t. kept s t \<Longrightarrow> length b' = length b \<Longrightarrow> ends s b (f (e, b', t))"
  shows "ends s b (and_then r f)"
  using assms unfolding ends_def by (metis and_then_simps(1) prod_cases3)

lemma ios_ends:
  assumes "frames_go_on N E" "\<not> ien s" "kept s s0" "length b' = length b" "\<And>t. kept s t \<Longrightarrow> ends s b (f t)"
  shows "ends s b (or_end (USB_Host_WaitForIOS E w s0) b' f)"
  by (rule ends_or_end [OF _ assms(3-5)]) (use ios_returns [OF assms(1), of s0 w] assms(2,3) kept_fields in blast)

lemma ms_ends:
  assumes "frames_go_on N E" "\<not> ien s" "kept s s0" "length b' = length b" "\<And>t. kept s t \<Longrightarrow> ends s b (f t)"
  shows "ends s b (or_end (USB_Host_WaitMS E 1 s0) b' f)"
  by (rule ends_or_end [OF _ assms(3-5)]) (use wait_ms_returns [OF assms(1), of s0 1] assms(2,3) kept_fields in blast)

text \<open>A step that only moves the log, on top of others.\<close>

lemma kept_step: "kept s t \<Longrightarrow> \<not> ien s \<Longrightarrow> (\<not> ien t \<Longrightarrow> moved t u) \<Longrightarrow> kept s u"
  using kept_trans moved_kept kept_fields by metis

lemma stages_in_end:
  assumes "frames_go_on N E" "counts_bytes E" "\<not> ien s" "kept s s0" "\<forall>b. Buffer = Some b \<longrightarrow> n \<le> length b"
  shows "ends s (case Buffer of None \<Rightarrow> [] | Some b \<Rightarrow> b) (stages_in E Buffer n s0)"
proof -
  define s1 where "s1 = Pipe_SetPipeToken E PIPE_TOKEN_IN s0"
  have k1: "kept s s1"
    by (rule kept_step [OF assms(4,3)]) (simp add: s1_def host_ops moved_rules)
  let ?b = "case Buffer of None \<Rightarrow> [] | Some b \<Rightarrow> b"
  have data: "ends s ?b (case Buffer of None \<Rightarrow> Returns (HOST_SENDCONTROL_Successful, [], s1) | Some b \<Rightarrow> control_in E b 0 n s1)"
  proof (cases Buffer)
    case (Some b)
    then obtain e b' t where "control_in E b 0 n s1 = Returns (e, b', t)" "kept s1 t" "length b' = length b"
      using control_in_returns [OF assms(1,2), of s1 0 n b] assms(3,5) kept_fields [OF k1] by auto
    then show ?thesis using Some kept_trans [OF k1] by simp
  qed (use k1 in simp)
  show ?thesis
    unfolding stages_in_def s1_def [symmetric] Let_def
    apply (rule ends_then [OF data])
    subgoal for e b' t
      apply simp
      apply (intro impI)
      apply (rule ios_ends [OF assms(1,3)])
      subgoal by (rule kept_step [OF _ assms(3)], assumption) (simp add: host_ops moved_rules)
      subgoal by simp
      subgoal for u
        apply (rule ios_ends [OF assms(1,3)])
        subgoal by (rule kept_step [OF _ assms(3)], assumption) (simp add: host_ops moved_rules)
        subgoal by simp
        subgoal by simp
        done
      done
    done
qed

lemma stages_out_end:
  assumes "frames_go_on N E" "counts_bytes E" "\<not> ien s" "kept s s0" "\<forall>b. Buffer = Some b \<longrightarrow> n \<le> length b"
    and "has_room E (USB_Host_ControlPipeSize s)"
  shows "ends s (case Buffer of None \<Rightarrow> [] | Some b \<Rightarrow> b) (stages_out E Buffer n s0)"
proof -
  let ?b = "case Buffer of None \<Rightarrow> [] | Some b \<Rightarrow> b"
  define s1 where "s1 = Pipe_Unfreeze E (Pipe_SetPipeToken E PIPE_TOKEN_OUT s0)"
  have k1: "kept s s1"
    by (rule kept_step [OF assms(4,3)]) (simp add: s1_def host_ops moved_rules)
  have data: "ends s ?b (case Buffer of None \<Rightarrow> Returns (HOST_SENDCONTROL_Successful, [], s0)
      | Some b \<Rightarrow> and_then (control_out E b 0 n s1) (\<lambda>(e, buffer, s1).
          if e \<noteq> HOST_SENDCONTROL_Successful then Returns (e, buffer, s1)
          else or_end (USB_Host_WaitForIOS E USB_HOST_WAITFOR_OutReady s1) buffer (\<lambda>s2.
            Returns (HOST_SENDCONTROL_Successful, buffer, Pipe_Freeze E s2))))"
  proof (cases Buffer)
    case (Some b)
    obtain e t where t: "control_out E b 0 n s1 = Returns (e, b, t)" "kept s1 t"
      using control_out_returns [OF assms(1,2), of s1 0 n b] assms(3,5,6) kept_fields [OF k1] Some by auto
    have kt: "kept s t" by (rule kept_trans [OF k1 t(2)])
    have "ends s b (or_end (USB_Host_WaitForIOS E USB_HOST_WAITFOR_OutReady t) b (\<lambda>s2.
        Returns (HOST_SENDCONTROL_Successful, b, Pipe_Freeze E s2)))"
    proof (rule ios_ends [OF assms(1,3) kt])
      fix u assume "kept s u"
      then have "kept s (Pipe_Freeze E u)"
        by (rule kept_step [OF _ assms(3)]) (simp add: host_ops moved_rules)
      then show "ends s b (Returns (HOST_SENDCONTROL_Successful, b, Pipe_Freeze E u))" by simp
    qed simp
    then show ?thesis using Some t(1) kt by simp
  qed (use assms(4) in simp)
  show ?thesis
    unfolding stages_out_def s1_def [symmetric]
  proof (rule ends_then [OF data])
    fix e and b' :: "u8 list" and t
    assume t: "kept s t" "length b' = length ?b"
    have "kept s (Pipe_Unfreeze E (Pipe_SetPipeToken E PIPE_TOKEN_IN t))"
      by (rule kept_step [OF t(1) assms(3)]) (simp add: host_ops moved_rules)
    then have "ends s ?b (or_end (USB_Host_WaitForIOS E USB_HOST_WAITFOR_InReceived
        (Pipe_Unfreeze E (Pipe_SetPipeToken E PIPE_TOKEN_IN t))) b' (\<lambda>s4.
        Returns (HOST_SENDCONTROL_Successful, b', Pipe_ClearIN E s4)))"
    proof (rule ios_ends [OF assms(1,3)])
      fix u assume "kept s u"
      then have "kept s (Pipe_ClearIN E u)"
        by (rule kept_step [OF _ assms(3)]) (simp add: host_ops moved_rules)
      then show "ends s ?b (Returns (HOST_SENDCONTROL_Successful, b', Pipe_ClearIN E u))" using t(2) by simp
    qed (rule t(2))
    then show "ends s ?b (case (e, b', t) of (e, buffer, s3) \<Rightarrow>
        if e \<noteq> HOST_SENDCONTROL_Successful then Returns (e, buffer, s3)
        else or_end (USB_Host_WaitForIOS E USB_HOST_WAITFOR_InReceived
          (Pipe_Unfreeze E (Pipe_SetPipeToken E PIPE_TOKEN_IN s3))) buffer (\<lambda>s4.
          Returns (HOST_SENDCONTROL_Successful, buffer, Pipe_ClearIN E s4)))"
      using t by simp
  qed
qed


text \<open>A request for eighteen bytes to a device that never answers.\<close>

definition silent_device :: host_env where
  "silent_device = \<lparr>hw = \<lambda>l r. if r = UHINT then 0x20 else 0, irq = id\<rparr>"

definition asking_for :: "u16 \<Rightarrow> host" where
  "asking_for n = \<lparr>io_log = [], ien = False, USB_HostState = HOST_STATE_Addressed,
     USB_ControlRequest = \<lparr>bmRequestType = 0x80, bRequest = 6, wValue = 0x0100, wIndex = 0, wLength = n\<rparr>,
     USB_IsInitialized = True, USB_Host_ConfigurationNumber = 0, USB_Host_ControlPipeSize = 64,
     WaitMSRemaining = 0, PostWaitState = HOST_STATE_Unattached\<rparr>"


end
