(* ===== verification/Ihex.thy ===== *)
theory Ihex
  imports Prelude
begin
unbundle bit_operations_syntax

text \<open>
  The Intel hex reader of \<^verbatim>\<open>HostLoaderApp/hid_bootloader_cli.c\<close>: \<^verbatim>\<open>sscanf\<close> of hexadecimal
  fields, one line, the whole file, and the two queries on the image. The program runs on a
  host whose \<^verbatim>\<open>int\<close> has 32 bits; the two arrays of 64 KiB are functions with their bound
  checked at every access.
\<close>

subsection \<open>Hexadecimal fields\<close>

definition hex_val :: "char \<Rightarrow> nat option" where
  "hex_val c =
     (let n = of_char c :: nat in
      if 48 \<le> n \<and> n \<le> 57 then Some (n - 48)
      else if 65 \<le> n \<and> n \<le> 70 then Some (n - 55)
      else if 97 \<le> n \<and> n \<le> 102 then Some (n - 87)
      else None)"

definition hspace :: "char \<Rightarrow> bool" where
  "hspace c \<longleftrightarrow> c = CHR '' '' \<or> (9 \<le> (of_char c :: nat) \<and> (of_char c :: nat) \<le> 13)"

fun hex_digits :: "string \<Rightarrow> nat list" where
  "hex_digits [] = []"
| "hex_digits (c # cs) = (case hex_val c of None \<Rightarrow> [] | Some d \<Rightarrow> d # hex_digits cs)"

definition hex_number :: "nat list \<Rightarrow> nat" where
  "hex_number ds = foldl (\<lambda>a d. a * 16 + d) 0 ds"

text \<open>
  \<^verbatim>\<open>sscanf(s, "%0wx", &v)\<close>: white space is skipped, then at most \<open>w\<close> characters: a sign, a prefix
  0x, digits. The result is 1 and the value, 0 for a mismatch, -1 at the end of the string; in the
  last two cases nothing is stored.
\<close>

definition sscanf_x :: "nat \<Rightarrow> string \<Rightarrow> int \<times> int option" where
  "sscanf_x w s =
     (case dropWhile hspace s of
        [] \<Rightarrow> (-1, None)
      | c # cs \<Rightarrow>
          let neg = (c = CHR ''-'');
              field = (if c = CHR ''-'' \<or> c = CHR ''+'' then take (w - 1) cs else take w (c # cs));
              body = (if take 2 field = ''0x'' \<or> take 2 field = ''0X'' then drop 2 field else field);
              ds = hex_digits body
          in if ds = [] then (0, None)
             else (1, Some (if neg then - int (hex_number ds) else int (hex_number ds))))"

text \<open>The variable after the call: an uninitialised one keeps what it held.\<close>

definition stored_or :: "int \<Rightarrow> int \<times> int option \<Rightarrow> int" where
  "stored_or old r = (case snd r of Some v \<Rightarrow> v | None \<Rightarrow> old)"

subsection \<open>State\<close>

definition MAX_MEMORY_SIZE :: nat where "MAX_MEMORY_SIZE = 0x10000"

record hexfile =
  firmware_image :: "nat \<Rightarrow> u8"
  firmware_mask :: "nat \<Rightarrow> bool"
  end_record_seen :: bool
  byte_count :: int
  extended_addr :: u32

text \<open>What the uninitialised locals of \<^verbatim>\<open>parse_hex_line\<close> hold.\<close>

record locals =
  u_len :: int
  u_addr :: int
  u_code :: int
  u_i :: int
  u_cksum :: int

definition cstr :: "char list \<Rightarrow> nat \<Rightarrow> string" where
  "cstr buf p = takeWhile (\<lambda>c. c \<noteq> CHR 0x00) (drop p buf)"

definition byte_of :: "int \<Rightarrow> int" where
  "byte_of v = v mod 256"

subsection \<open>One line\<close>

text \<open>The loop over the data bytes; the length may be anything the first field held.\<close>

function data_loop ::
    "char list \<Rightarrow> int \<Rightarrow> int \<Rightarrow> nat \<Rightarrow> nat \<Rightarrow> int \<Rightarrow> hexfile \<Rightarrow> ((nat \<times> int) option \<times> hexfile) outcome" where
  "data_loop buf addr len num p sm h =
     (if int num = len then Returns (Some (p, sm), h)
      else case sscanf_x 2 (cstr buf p) of
        (r, Some v) \<Rightarrow>
          let i = byte_of v;
              k = unat (of_int addr + extended_addr h + of_nat num)
          in if k < MAX_MEMORY_SIZE then
               let h1 = h\<lparr>firmware_image := (firmware_image h)(k := of_int i),
                          firmware_mask := (firmware_mask h)(k := True)\<rparr>
               in if 256 \<le> num + 1 then Returns (None, h1)
                  else data_loop buf addr len (num + 1) (p + 2) (sm + i) h1
             else Faults OutOfBounds
      | (r, None) \<Rightarrow> Returns (None, h))"
  by pat_completeness auto
termination
  by (relation "measure (\<lambda>(buf, addr, len, num, p, sm, h). 256 - num)") auto

declare data_loop.simps [simp del]

text \<open>A record that sets the upper part of the address; a bad checksum leaves it and is no error.\<close>

definition extended_record ::
    "locals \<Rightarrow> char list \<Rightarrow> nat \<Rightarrow> int \<Rightarrow> nat \<Rightarrow> hexfile \<Rightarrow> hexfile" where
  "extended_record u buf p sm shift h =
     (let r = sscanf_x 4 (cstr buf p) in
      if fst r = 0 then h
      else let i = stored_or (u_i u) r;
               sm = sm + byte_of (i div 256) + byte_of i;
               c = sscanf_x 2 (cstr buf (p + 4))
           in if fst c = 0 then h
              else let cksum = stored_or (u_cksum u) c
                   in if byte_of (byte_of sm + byte_of cksum) \<noteq> 0 then h
                      else h\<lparr>extended_addr := push_bit shift (of_int i)\<rparr>)"

definition parse_hex_line :: "locals \<Rightarrow> char list \<Rightarrow> hexfile \<Rightarrow> (int \<times> hexfile) outcome" where
  "parse_hex_line u line h =
     (if cstr line 0 = [] \<or> hd (cstr line 0) \<noteq> CHR '':'' then Returns (0, h)
      else if length (cstr line 0) < 11 then Returns (0, h)
      else let rl = sscanf_x 2 (cstr line 1); len = stored_or (u_len u) rl in
      if fst rl = 0 then Returns (0, h)
      else if int (length (cstr line 0)) < 11 + len * 2 then Returns (0, h)
      else let ra = sscanf_x 4 (cstr line 3); addr = stored_or (u_addr u) ra in
      if fst ra = 0 then Returns (0, h)
      else let rc = sscanf_x 2 (cstr line 7); code = stored_or (u_code u) rc in
      if fst rc = 0 then Returns (0, h)
      else if MAX_MEMORY_SIZE \<le> unat (of_int addr + extended_addr h + of_int len) then Returns (0, h)
      else let sm = byte_of len + byte_of (addr div 256) + byte_of addr + byte_of code in
      if code \<noteq> 0 then
        if code = 1 then Returns (1, h\<lparr>end_record_seen := True\<rparr>)
        else if code = 2 \<and> len = 2 then Returns (1, extended_record u line 9 sm 4 h)
        else if code = 4 \<and> len = 2 then Returns (1, extended_record u line 9 sm 16 h)
        else Returns (1, h)
      else
        and_then (data_loop line addr len 0 9 sm (h\<lparr>byte_count := byte_count h + len\<rparr>)) (\<lambda>(res, h1).
          case res of
            None \<Rightarrow> Returns (0, h1)
          | Some (p, sm) \<Rightarrow>
              let c = sscanf_x 2 (cstr line p); cksum = stored_or (u_cksum u) c in
              if fst c = 0 then Returns (0, h1)
              else if byte_of (byte_of sm + byte_of cksum) \<noteq> 0 then Returns (0, h1)
              else Returns (1, h1)))"

subsection \<open>The whole file\<close>

text \<open>
  \<^verbatim>\<open>fgets\<close> into a buffer of 1024: the rest of the line with its line break, cut at 1023 characters;
  what was behind the terminator stays in the buffer.
\<close>

fun line_of :: "nat \<Rightarrow> string \<Rightarrow> string \<times> string" where
  "line_of n [] = ([], [])"
| "line_of n (c # s) =
     (if n = 0 then ([], c # s)
      else if c = CHR ''\<newline>'' then ([c], s)
      else case line_of (n - 1) s of (l, r) \<Rightarrow> (c # l, r))"

definition put_line :: "string \<Rightarrow> char list \<Rightarrow> char list" where
  "put_line l buf = l @ CHR 0x00 # drop (Suc (length l)) buf"

lemma line_of_length: "length (snd (line_of n s)) \<le> length s"
  by (induction n s rule: line_of.induct) (auto split: prod.splits)

lemma line_of_shorter: "(l, r) = line_of n s \<Longrightarrow> 0 < n \<Longrightarrow> s \<noteq> [] \<Longrightarrow> length r < length s"
  using line_of_length [of "n - 1" "tl s"]
  by (cases s) (auto split: prod.splits if_splits)

function read_lines :: "locals \<Rightarrow> char list \<Rightarrow> string \<Rightarrow> hexfile \<Rightarrow> (int \<times> hexfile) outcome" where
  "read_lines u buf s h =
     (if s = [] then Returns (byte_count h, h)
      else case line_of 1023 s of (l, r) \<Rightarrow>
        let buf1 = put_line l buf in
        and_then
          (if cstr buf1 0 \<noteq> [] then
             and_then (parse_hex_line u buf1 h) (\<lambda>(ok, h1). Returns (ok \<noteq> 0, h1))
           else Returns (True, h)) (\<lambda>(ok, h1).
          if \<not> ok then Returns (-2, h1)
          else if end_record_seen h1 then Returns (byte_count h1, h1)
          else read_lines u buf1 r h1))"
  by pat_completeness auto
termination
  by (relation "measure (\<lambda>(u, buf, s, h). length s)")
    (auto intro: line_of_shorter [where n = 1023])

declare read_lines.simps [simp del]

definition hex_start :: hexfile where
  "hex_start = \<lparr>firmware_image = (\<lambda>_. 0xFF), firmware_mask = (\<lambda>_. False),
     end_record_seen = False, byte_count = 0, extended_addr = 0\<rparr>"

text \<open>The file is \<open>None\<close> when it cannot be opened; the arrays are cleared all the same.\<close>

definition read_intel_hex :: "locals \<Rightarrow> char list \<Rightarrow> string option \<Rightarrow> (int \<times> hexfile) outcome" where
  "read_intel_hex u buf file =
     (case file of
        None \<Rightarrow> Returns (-1, hex_start)
      | Some s \<Rightarrow> read_lines u buf s hex_start)"

subsection \<open>Queries\<close>

definition ihex_bytes_within_range :: "int \<Rightarrow> int \<Rightarrow> hexfile \<Rightarrow> bool" where
  "ihex_bytes_within_range begin end' h =
     (if begin < 0 \<or> int MAX_MEMORY_SIZE \<le> begin \<or> end' < 0 \<or> int MAX_MEMORY_SIZE \<le> end' then False
      else list_ex (firmware_mask h) [nat begin..<nat (end' + 1)])"

definition ihex_get_data :: "int \<Rightarrow> int \<Rightarrow> hexfile \<Rightarrow> u8 list" where
  "ihex_get_data addr len h =
     (if addr < 0 \<or> len < 0 \<or> int MAX_MEMORY_SIZE \<le> addr + len then replicate (nat len) 255
      else map (\<lambda>a. if firmware_mask h a then firmware_image h a else 255)
             [nat addr..<nat addr + nat len])"

end
