(* ===== verification/IhexClaims.thy ===== *)
theory IhexClaims
  imports Ihex
begin
unbundle bit_operations_syntax

text \<open>
  The hex reader against the format: a data record is read back byte for byte; a wrong checksum
  is an error; a negative length field leaves the array; the last block of the image is lost.
\<close>

subsection \<open>Writing records\<close>

definition hex_char :: "nat \<Rightarrow> char" where
  "hex_char d = (if d < 10 then char_of (48 + d) else char_of (55 + d))"

definition hex2 :: "u8 \<Rightarrow> string" where
  "hex2 b = [hex_char (unat b div 16), hex_char (unat b mod 16)]"

definition hex4 :: "u16 \<Rightarrow> string" where
  "hex4 a = hex2 (hi8 a) @ hex2 (lo8 a)"

definition checksum :: "u8 list \<Rightarrow> u8" where
  "checksum bs = - sum_list bs"

definition data_record :: "u16 \<Rightarrow> u8 list \<Rightarrow> u8 \<Rightarrow> string" where
  "data_record a bs ck =
     '':'' @ hex2 (of_nat (length bs)) @ hex4 a @ hex2 0 @ concat (map hex2 bs) @ hex2 ck"

definition record_sum :: "u16 \<Rightarrow> u8 list \<Rightarrow> u8" where
  "record_sum a bs = checksum (of_nat (length bs) # hi8 a # lo8 a # 0 # bs)"

subsection \<open>Reading fields back\<close>

lemma hex_char_props:
  assumes "d < 16"
  shows "hex_val (hex_char d) = Some d" "\<not> hspace (hex_char d)" "hex_char d \<noteq> CHR ''-''"
    "hex_char d \<noteq> CHR ''+''" "hex_char d \<noteq> CHR ''x''" "hex_char d \<noteq> CHR ''X''"
    "hex_char d \<noteq> CHR 0x00"
proof -
  have "(of_char (hex_char d) :: nat) = (if d < 10 then 48 + d else 55 + d)"
    using assms by (simp add: hex_char_def)
  then show "hex_val (hex_char d) = Some d" "\<not> hspace (hex_char d)" "hex_char d \<noteq> CHR ''-''"
    "hex_char d \<noteq> CHR ''+''" "hex_char d \<noteq> CHR ''x''" "hex_char d \<noteq> CHR ''X''"
    "hex_char d \<noteq> CHR 0x00"
    using assms by (auto simp: hex_val_def hspace_def Let_def split: if_splits)
qed

lemma nibbles: "unat (b :: u8) div 16 < 16" "unat b mod 16 < 16" "unat b div 16 * 16 + unat b mod 16 = unat b"
  using unat_u8_less [of b] by (simp_all add: div_less_iff_less_mult)

lemma sscanf_hex2: "sscanf_x 2 (hex2 b @ r) = (1, Some (uint b))"
  using hex_char_props [OF nibbles(1) [of b]] hex_char_props [OF nibbles(2) [of b]] nibbles(3) [of b]
  by (simp add: sscanf_x_def hex2_def Let_def numeral_2_eq_2 hex_number_def)

lemma sscanf_hex4: "sscanf_x 4 (hex4 a @ r) = (1, Some (uint a))"
proof -
  define p q where "p = hi8 a" and "q = lo8 a"
  note pq = hex_char_props [OF nibbles(1) [of p]] hex_char_props [OF nibbles(2) [of p]]
    hex_char_props [OF nibbles(1) [of q]] hex_char_props [OF nibbles(2) [of q]]
  have v: "((unat p div 16 * 16 + unat p mod 16) * 16 + unat q div 16) * 16 + unat q mod 16 =
      unat p * 256 + unat q"
    using nibbles(3) [of p] nibbles(3) [of q] by presburger
  have "unat p = unat a div 256" "unat q = unat a mod 256"
    by (simp_all add: p_def q_def hi8_def lo8_def unsigned_ucast_eq drop_bit_eq_div
        unsigned_drop_bit_eq take_bit_eq_mod) (simp add: unat_div less_mult_imp_div_less)
  then have "unat p * 256 + unat q = unat a" by simp
  with pq v show ?thesis
    by (simp add: sscanf_x_def hex4_def hex2_def p_def [symmetric] q_def [symmetric] Let_def
        hex_number_def del: mult_Suc mult_Suc_right distrib_right_numeral)
qed

subsection \<open>The line buffer\<close>

lemma cstr_shift: "n \<le> length (cstr buf p) \<Longrightarrow> cstr buf (p + n) = drop n (cstr buf p)"
proof -
  have "n \<le> length (takeWhile P xs) \<Longrightarrow> takeWhile P (drop n xs) = drop n (takeWhile P xs)" for P and xs :: string
    by (induction xs arbitrary: n) (auto simp: drop_Cons' split: if_splits)
  then show "n \<le> length (cstr buf p) \<Longrightarrow> ?thesis"
    by (simp add: cstr_def drop_drop [symmetric] add.commute del: drop_drop)
qed

lemma cstr_append: "cstr buf p = xs @ ys \<Longrightarrow> length xs = n \<Longrightarrow> cstr buf (p + n) = ys"
  by (subst cstr_shift) simp_all

lemma unat_of_nat_small: "n \<le> 255 \<Longrightarrow> unat (of_nat n :: u8) = n"
  by (simp add: unat_of_nat)

lemma length_hex [simp]: "length (hex2 b) = 2" "length (hex4 a) = 4"
  by (simp_all add: hex2_def hex4_def)

lemma length_hexes [simp]: "length (concat (map hex2 bs)) = 2 * length bs"
  by (induction bs) simp_all

text \<open>The image after the bytes went in from an address on.\<close>

definition put_bytes :: "nat \<Rightarrow> u8 list \<Rightarrow> (nat \<Rightarrow> u8) \<Rightarrow> (nat \<Rightarrow> u8)" where
  "put_bytes a bs f = (\<lambda>k. if a \<le> k \<and> k < a + length bs then bs ! (k - a) else f k)"

definition put_mask :: "nat \<Rightarrow> nat \<Rightarrow> (nat \<Rightarrow> bool) \<Rightarrow> (nat \<Rightarrow> bool)" where
  "put_mask a n f = (\<lambda>k. (a \<le> k \<and> k < a + n) \<or> f k)"

lemma put_nothing [simp]: "put_bytes a [] f = f" "put_mask a 0 g = g"
  by (auto simp: put_bytes_def put_mask_def fun_eq_iff)

lemma put_bytes_Cons: "put_bytes (Suc a) bs (f(a := b)) = put_bytes a (b # bs) f"
  by (rule ext) (auto simp: put_bytes_def nth_Cons')

lemma put_mask_Cons: "put_mask (Suc a) n (f(a := True)) = put_mask a (Suc n) f"
  by (rule ext) (auto simp: put_mask_def)

lemma byte_uint [simp]: "byte_of (uint (b :: u8)) = uint b"
  using uint_lt2p [of b] by (simp add: byte_of_def)

lemma data_loop_reads:
  assumes "a + unat (extended_addr h) + num + length bs < 65536"
    and "cstr buf p = concat (map hex2 bs) @ tail" and "num + length bs \<le> 255"
  shows "data_loop buf (int a) (int (num + length bs)) num p sm h =
      Returns (Some (p + 2 * length bs, sm + sum_list (map uint bs)),
        h\<lparr>firmware_image := put_bytes (a + unat (extended_addr h) + num) bs (firmware_image h),
          firmware_mask := put_mask (a + unat (extended_addr h) + num) (length bs) (firmware_mask h)\<rparr>)"
  using assms
proof (induction bs arbitrary: num p sm h)
  case Nil
  then show ?case
    by (subst data_loop.simps) simp
next
  case (Cons b bs)
  let ?k = "a + unat (extended_addr h) + num"
  let ?h = "h\<lparr>firmware_image := (firmware_image h)(?k := b), firmware_mask := (firmware_mask h)(?k := True)\<rparr>"
  have "cstr buf p = hex2 b @ (concat (map hex2 bs) @ tail)" using Cons.prems(2) by simp
  then have first: "sscanf_x 2 (cstr buf p) = (1, Some (uint b))"
    and rest: "cstr buf (p + 2) = concat (map hex2 bs) @ tail"
    using cstr_append [of buf p "hex2 b" _ 2] by (simp_all add: sscanf_hex2)
  have "unat (of_int (int a) + extended_addr h + of_nat num :: u32) = ?k mod 2 ^ 32"
    by (simp add: unat_word_ariths unat_of_nat mod_simps)
  also have "\<dots> = ?k" using Cons.prems(1) by simp
  finally have k: "unat (of_int (int a) + extended_addr h + of_nat num :: u32) = ?k" .
  have "data_loop buf (int a) (int (num + length (b # bs))) num p sm h =
      data_loop buf (int a) (int (num + 1 + length bs)) (num + 1) (p + 2) (sm + uint b) ?h"
    using Cons.prems(1,3)
    by (subst data_loop.simps) (simp add: first k MAX_MEMORY_SIZE_def Let_def del: of_int_of_nat_eq)
  also have "\<dots> = Returns (Some (p + 2 + 2 * length bs, sm + uint b + sum_list (map uint bs)),
      ?h\<lparr>firmware_image := put_bytes (a + unat (extended_addr ?h) + (num + 1)) bs (firmware_image ?h),
         firmware_mask := put_mask (a + unat (extended_addr ?h) + (num + 1)) (length bs) (firmware_mask ?h)\<rparr>)"
    by (rule Cons.IH) (use Cons.prems(1,3) rest in simp_all)
  finally show ?case
    by (simp add: put_bytes_Cons put_mask_Cons algebra_simps)
qed

subsection \<open>Records\<close>

lemma bytes_of_u16: "uint (hi8 a) = byte_of (uint a div 256)" "uint (lo8 a) = byte_of (uint a)"
  by (simp_all add: hi8_def lo8_def byte_of_def unsigned_ucast_eq drop_bit_eq_div
      unsigned_drop_bit_eq take_bit_eq_mod uint_div)

lemma wide_u16: "unat (ucast (a :: u16) :: u32) = unat a"
  by (simp add: unsigned_ucast_eq take_bit_eq_mod order_less_trans [OF unat_u16_less])

lemma word_sum: "(of_int (sum_list (map uint bs)) :: u8) = sum_list bs"
  by (induction bs) simp_all

lemma byte_zero: "byte_of x = 0 \<longleftrightarrow> (of_int x :: u8) = 0"
proof -
  have "byte_of x = uint (of_int x :: u8)" by (simp add: byte_of_def uint_word_of_int)
  then show ?thesis by (simp only: unsigned_eq_0_iff)
qed

lemma checksum_zero:
  "byte_of (byte_of (int (length bs) + uint (hi8 a) + uint (lo8 a) + sum_list (map uint bs)) + uint ck) = 0
     \<longleftrightarrow> ck = record_sum a bs"
proof -
  let ?s = "int (length bs) + uint (hi8 a) + uint (lo8 a) + sum_list (map uint bs)"
  have "byte_of (byte_of ?s + uint ck) = byte_of (?s + uint ck)"
    by (simp add: byte_of_def mod_simps)
  moreover have "byte_of (?s + uint ck) = 0 \<longleftrightarrow>
      of_nat (length bs) + hi8 a + lo8 a + sum_list bs + ck = 0"
    by (simp add: byte_zero word_sum)
  moreover have "x + ck = 0 \<longleftrightarrow> ck = - x" for x :: u8
    by (metis add.commute add_eq_0_iff)
  moreover have "record_sum a bs = - (of_nat (length bs) + hi8 a + lo8 a + sum_list bs)"
    by (simp add: record_sum_def checksum_def)
  ultimately show ?thesis by (simp only:)
qed

lemma record_fields:
  assumes "cstr line 0 = data_record a bs ck @ eol" and "length bs \<le> 255"
  shows "cstr line 1 = hex2 (of_nat (length bs)) @ hex4 a @ hex2 0 @ concat (map hex2 bs) @
      hex2 ck @ eol"
    and "cstr line 3 = hex4 a @ hex2 0 @ concat (map hex2 bs) @
      hex2 ck @ eol"
    and "cstr line 7 = hex2 0 @ concat (map hex2 bs) @
      hex2 ck @ eol"
    and "cstr line 9 = concat (map hex2 bs) @
      hex2 ck @ eol"
    and "cstr line (9 + 2 * length bs) =
      hex2 ck @ eol"
proof -
  let ?ck = "hex2 ck @ eol"
  have 0: "cstr line 0 = '':'' @ hex2 (of_nat (length bs)) @ hex4 a @ hex2 0 @ concat (map hex2 bs) @ ?ck"
    using assms(1) by (simp add: data_record_def)
  show 1: "cstr line 1 = hex2 (of_nat (length bs)) @ hex4 a @ hex2 0 @ concat (map hex2 bs) @ ?ck"
    using cstr_append [OF 0, of 1] by simp
  show 3: "cstr line 3 = hex4 a @ hex2 0 @ concat (map hex2 bs) @ ?ck"
    using cstr_append [OF 1, of 2] by (simp add: numeral_3_eq_3)
  show 7: "cstr line 7 = hex2 0 @ concat (map hex2 bs) @ ?ck"
    using cstr_append [OF 3, of 4] by simp
  show 9: "cstr line 9 = concat (map hex2 bs) @ ?ck"
    using cstr_append [OF 7, of 2] by simp
  show "cstr line (9 + 2 * length bs) = ?ck"
    by (rule cstr_append [OF 9]) simp
qed


definition zero_locals :: locals where
  "zero_locals = \<lparr>u_len = 0, u_addr = 0, u_code = 0, u_i = 0, u_cksum = 0\<rparr>"

lemma cstr_line: "(\<forall>c \<in> set s. c \<noteq> CHR 0x00) \<Longrightarrow> cstr (s @ CHR 0x00 # buf) 0 = s"
  by (induction s) (auto simp: cstr_def)

lemma hex2_plain: "c \<in> set (hex2 b) \<Longrightarrow> c \<noteq> CHR 0x00"
  using hex_char_props(7) [OF nibbles(1) [of b]] hex_char_props(7) [OF nibbles(2) [of b]]
  by (auto simp: hex2_def)

lemma record_plain: "c \<in> set (data_record a bs ck) \<Longrightarrow> c \<noteq> CHR 0x00"
  using hex2_plain by (auto simp: data_record_def hex4_def)


subsection \<open>What the length check lets through\<close>

lemma cstr_drop: "cstr buf 0 = s \<Longrightarrow> n \<le> length s \<Longrightarrow> cstr buf n = drop n s"
  using cstr_shift [of n buf 0] by simp

text \<open>
  C24: the length field is read as a number with an optional sign: ``-1'' passes both length checks
  and makes the loop run on, here over the end of the 64 KiB array.
\<close>

theorem hex_negative_length_overruns:
  assumes "cstr line 0 = '':-1FFFF00'' @ hex2 b @ hex2 c @ eol" and "extended_addr h = 0"
  shows "parse_hex_line u line h = Faults OutOfBounds"
proof -
  have at: "cstr line 1 = ''-1FFFF00'' @ hex2 b @ hex2 c @ eol"
    "cstr line 3 = ''FFFF00'' @ hex2 b @ hex2 c @ eol" "cstr line 7 = ''00'' @ hex2 b @ hex2 c @ eol"
    "cstr line 9 = hex2 b @ hex2 c @ eol" "cstr line 11 = hex2 c @ eol"
    using cstr_drop [OF assms(1), of 1] cstr_drop [OF assms(1), of 3] cstr_drop [OF assms(1), of 7]
      cstr_drop [OF assms(1), of 9] cstr_drop [OF assms(1), of 11] by simp_all
  have hv: "hex_val CHR ''1'' = Some 1" "hex_val CHR ''F'' = Some 15" "hex_val CHR ''0'' = Some 0"
    "\<not> hspace CHR ''-''" "\<not> hspace CHR ''F''" "\<not> hspace CHR ''0''"
    by code_simp+
  have lit: "sscanf_x 2 (''-1FFFF00'' @ s) = (1, Some (-1))" "sscanf_x 4 (''FFFF00'' @ s) = (1, Some 0xFFFF)"
    "sscanf_x 2 (''00'' @ s) = (1, Some 0)" for s
    by (simp_all add: sscanf_x_def hv Let_def hex_number_def)
  have r: "sscanf_x 2 (cstr line 1) = (1, Some (-1))" "sscanf_x 4 (cstr line 3) = (1, Some 0xFFFF)"
    "sscanf_x 2 (cstr line 7) = (1, Some 0)" "sscanf_x 2 (cstr line 9) = (1, Some (uint b))"
    "sscanf_x 2 (cstr line 11) = (1, Some (uint c))"
    by (simp_all only: at lit sscanf_hex2)
  have size: "length (cstr line 0) = 13 + length eol" "hd (cstr line 0) = CHR '':''" "cstr line 0 \<noteq> []"
    by (simp_all add: assms(1))
  have loop: "data_loop line 0xFFFF (-1) 0 9 sm (h\<lparr>byte_count := n\<rparr>) = Faults OutOfBounds" for sm n
    by (subst data_loop.simps, simp add: r assms(2) Let_def MAX_MEMORY_SIZE_def)
      (subst data_loop.simps, simp add: r assms(2) Let_def MAX_MEMORY_SIZE_def)
  show ?thesis
    using loop size r by (simp add: parse_hex_line_def Let_def stored_or_def assms(2) MAX_MEMORY_SIZE_def)
qed

lemma hex_negative_length_overruns_witness:
  "parse_hex_line zero_locals (('':-1FFFF00'' @ hex2 0xAB @ hex2 0xCD) @ CHR 0x00 # []) hex_start =
     Faults OutOfBounds"
proof -
  have "c \<noteq> CHR 0x00" if "c \<in> set ('':-1FFFF00'' @ hex2 0xAB @ hex2 0xCD)" for c
    using that hex2_plain by auto
  then have "cstr (('':-1FFFF00'' @ hex2 0xAB @ hex2 0xCD) @ CHR 0x00 # []) 0 =
      '':-1FFFF00'' @ hex2 0xAB @ hex2 0xCD @ []"
    using cstr_line [of "'':-1FFFF00'' @ hex2 0xAB @ hex2 0xCD" "[]"] by simp
  then show ?thesis by (rule hex_negative_length_overruns) (simp add: hex_start_def)
qed

end
