(* ===== verification/Loader.thy ===== *)
theory Loader
  imports IhexClaims
begin
unbundle bit_operations_syntax

text \<open>
  The rest of \<^verbatim>\<open>HostLoaderApp/hid_bootloader_cli.c\<close>: the command line, the main program with its
  wait for the device, and the loop that programs the blocks. The four functions of the USB
  backend are a record of functions on a device state; the file may differ at each reading.
\<close>

subsection \<open>Options\<close>

record opts =
  wait_for_device_to_appear :: bool
  hard_reboot_device :: bool
  reboot_after_programming :: bool
  verbose :: bool
  code_size :: int
  block_size :: int
  filename :: "string option"

definition opts_start :: opts where
  "opts_start = \<lparr>wait_for_device_to_appear = False, hard_reboot_device = False,
     reboot_after_programming = True, verbose = False, code_size = 0, block_size = 0, filename = None\<rparr>"

text \<open>\<^verbatim>\<open>die\<close> and \<^verbatim>\<open>usage\<close> end the program with exit code 1.\<close>

datatype stop = Exit1 string

definition starts_with :: "string \<Rightarrow> string \<Rightarrow> bool" where
  "starts_with arg s \<longleftrightarrow> take (length s) arg = s"

definition mcu_size :: "string \<Rightarrow> (int \<times> int) option" where
  "mcu_size arg =
     (if starts_with arg ''128'' then Some (128 * 1024, 256)
      else if starts_with arg ''64'' then Some (64 * 1024, 256)
      else if starts_with arg ''32'' then Some (32 * 1024, 128)
      else if starts_with arg ''16'' then Some (16 * 1024, 128)
      else if starts_with arg ''8'' then Some (8 * 1024, 128)
      else None)"

definition mcu_model :: "string \<Rightarrow> string option" where
  "mcu_model arg =
     (if starts_with arg ''at90usb'' then Some (drop 7 arg)
      else if starts_with arg ''atmega'' then Some (drop 6 arg)
      else None)"

fun parse_options :: "string list \<Rightarrow> opts \<Rightarrow> stop + opts" where
  "parse_options [] p = Inr p"
| "parse_options (arg # args) p =
     (if starts_with arg ''-'' then
        if arg = ''-w'' then parse_options args (p\<lparr>wait_for_device_to_appear := True\<rparr>)
        else if arg = ''-r'' then parse_options args (p\<lparr>hard_reboot_device := True\<rparr>)
        else if arg = ''-n'' then parse_options args (p\<lparr>reboot_after_programming := False\<rparr>)
        else if arg = ''-v'' then parse_options args (p\<lparr>verbose := True\<rparr>)
        else if starts_with arg ''-mmcu='' then
          (case mcu_model (drop 6 arg) of
             None \<Rightarrow> Inl (Exit1 ''Unknown MCU type'')
           | Some m \<Rightarrow>
               (case mcu_size m of
                  None \<Rightarrow> Inl (Exit1 ''Unknown MCU type'')
                | Some (cs, bs) \<Rightarrow> parse_options args (p\<lparr>code_size := cs, block_size := bs\<rparr>)))
        else parse_options args p
      else parse_options args (p\<lparr>filename := Some arg\<rparr>))"

subsection \<open>The device\<close>

text \<open>The timeout of a write is in milliseconds.\<close>

record 'd backend =
  teensy_open :: "'d \<Rightarrow> bool \<times> 'd"
  teensy_write :: "u8 list \<Rightarrow> nat \<Rightarrow> 'd \<Rightarrow> bool \<times> 'd"
  teensy_close :: "'d \<Rightarrow> 'd"
  hard_reboot :: "'d \<Rightarrow> bool \<times> 'd"

subsection \<open>Programming\<close>

definition block_head :: "int \<Rightarrow> int \<Rightarrow> u8 list" where
  "block_head cs addr =
     (if cs < 0x10000 then [of_int addr, of_int (addr div 256)]
      else [of_int (addr div 256), of_int (addr div 65536)])"

definition block_used :: "hexfile \<Rightarrow> int \<Rightarrow> int \<Rightarrow> bool" where
  "block_used h bs addr \<longleftrightarrow> \<not> (addr > 0 \<and> \<not> ihex_bytes_within_range addr (addr + bs - 1) h)"

definition block_message :: "hexfile \<Rightarrow> int \<Rightarrow> int \<Rightarrow> int \<Rightarrow> u8 list" where
  "block_message h cs bs addr = block_head cs addr @ ihex_get_data addr bs h"

text \<open>The loop over the blocks; with a block size of 0 it would never end.\<close>

function program_blocks ::
    "'d backend \<Rightarrow> hexfile \<Rightarrow> int \<Rightarrow> int \<Rightarrow> int \<Rightarrow> bool \<Rightarrow> 'd \<Rightarrow> (stop + 'd) option" where
  "program_blocks be h cs bs addr first d =
     (if \<not> addr < cs then Some (Inr d)
      else if bs \<le> 0 then None
      else if \<not> block_used h bs addr then program_blocks be h cs bs (addr + bs) first d
      else case teensy_write be (block_message h cs bs addr) (if first then 3000 else 250) d of
        (r, d1) \<Rightarrow>
          if \<not> r then Some (Inl (Exit1 ''error writing to Teensy''))
          else program_blocks be h cs bs (addr + bs) False d1)"
  by pat_completeness auto
termination
  by (relation "measure (\<lambda>(be, h, cs, bs, addr, first, d). nat (cs - addr))") auto

declare program_blocks.simps [simp del]

definition reboot :: "'d backend \<Rightarrow> int \<Rightarrow> 'd \<Rightarrow> 'd" where
  "reboot be bs d = snd (teensy_write be ([0xFF, 0xFF] @ replicate (nat bs) 0) 250 d)"

subsection \<open>The main program\<close>

text \<open>Opening the device: the loop ends when it is there, or with an error, or waits on.\<close>

partial_function (option) open_loop ::
    "'d backend \<Rightarrow> ('d \<Rightarrow> 'd) \<Rightarrow> bool \<Rightarrow> bool \<Rightarrow> bool \<Rightarrow> 'd \<Rightarrow> (stop + (bool \<times> 'd)) option" where
  "open_loop be delay hard wait waited d =
     (case teensy_open be d of (ok, d1) \<Rightarrow>
        if ok then Some (Inr (waited, d1))
        else if hard then
          (case hard_reboot be d1 of (ok2, d2) \<Rightarrow>
             if \<not> ok2 then Some (Inl (Exit1 ''Unable to find rebootor''))
             else open_loop be delay False True True (delay d2))
        else if \<not> wait then Some (Inl (Exit1 ''Unable to open device''))
        else open_loop be delay False wait True (delay d1))"

type_synonym 'd run_result = "(stop + 'd) option"

definition read_file :: "locals \<Rightarrow> char list \<Rightarrow> string option \<Rightarrow> (stop + hexfile) outcome" where
  "read_file u buf file =
     and_then (read_intel_hex u buf file) (\<lambda>(num, h).
       Returns (if num < 0 then Inl (Exit1 ''error reading intel hex file'') else Inr h))"

text \<open>After the device is open: read the file again if it had to be waited for, then program it.\<close>

definition program_device ::
    "'d backend \<Rightarrow> opts \<Rightarrow> hexfile \<Rightarrow> 'd \<Rightarrow> 'd run_result" where
  "program_device be p h d =
     (case program_blocks be h (code_size p) (block_size p) 0 True d of
        None \<Rightarrow> None
      | Some (Inl e) \<Rightarrow> Some (Inl e)
      | Some (Inr d1) \<Rightarrow>
          let d2 = (if reboot_after_programming p then reboot be (block_size p) d1 else d1)
          in Some (Inr (teensy_close be d2)))"

definition loader_main ::
    "'d backend \<Rightarrow> ('d \<Rightarrow> 'd) \<Rightarrow> locals \<Rightarrow> char list \<Rightarrow> (nat \<Rightarrow> string option) \<Rightarrow> string list \<Rightarrow> 'd \<Rightarrow>
     'd run_result outcome" where
  "loader_main be delay u buf file args d =
     (case parse_options args opts_start of
        Inl e \<Rightarrow> Returns (Some (Inl e))
      | Inr p \<Rightarrow>
          if filename p = None then Returns (Some (Inl (Exit1 ''Filename must be specified'')))
          else if code_size p = 0 then Returns (Some (Inl (Exit1 ''MCU type must be specified'')))
          else and_then (read_file u buf (file 0)) (\<lambda>r0. case r0 of
              Inl e \<Rightarrow> Returns (Some (Inl e))
            | Inr h0 \<Rightarrow>
                (case open_loop be delay (hard_reboot_device p) (wait_for_device_to_appear p) False d of
                   None \<Rightarrow> Hangs
                 | Some (Inl e) \<Rightarrow> Returns (Some (Inl e))
                 | Some (Inr (waited, d1)) \<Rightarrow>
                     if waited then
                       and_then (read_file u buf (file 1)) (\<lambda>r1. case r1 of
                           Inl e \<Rightarrow> Returns (Some (Inl e))
                         | Inr h1 \<Rightarrow> Returns (program_device be p h1 d1))
                     else Returns (program_device be p h0 d1))))"

subsection \<open>What is programmed\<close>

definition block_addrs :: "int \<Rightarrow> int \<Rightarrow> int list" where
  "block_addrs cs bs = map (\<lambda>k. int k * bs) [0..<nat (cs div bs)]"

text \<open>A device that takes every write and records the messages.\<close>

definition recorder :: "u8 list list backend" where
  "recorder = \<lparr>teensy_open = (\<lambda>d. (True, d)), teensy_write = (\<lambda>m t d. (True, d @ [m])),
     teensy_close = id, hard_reboot = (\<lambda>d. (True, d))\<rparr>"

lemma recorder_write [simp]: "teensy_write recorder m t d = (True, d @ [m])"
  by (simp add: recorder_def)

lemma program_from:
  assumes "0 < bs" and "cs = int n * bs"
  shows "k \<le> n \<Longrightarrow> program_blocks recorder h cs bs (int k * bs) first d =
      Some (Inr (d @ map (block_message h cs bs) (filter (block_used h bs) (map (\<lambda>k. int k * bs) [k..<n]))))"
proof (induction "n - k" arbitrary: k first d)
  case 0
  then show ?case using assms by (subst program_blocks.simps) simp
next
  case (Suc m)
  then have k: "k < n" by simp
  then have less: "int k * bs < cs" using assms by simp
  have next': "int k * bs + bs = int (Suc k) * bs" by (simp add: algebra_simps)
  have up: "[k..<n] = k # [Suc k..<n]" using k by (simp add: upt_conv_Cons)
  have IH: "program_blocks recorder h cs bs (int (Suc k) * bs) f d' =
      Some (Inr (d' @ map (block_message h cs bs) (filter (block_used h bs) (map (\<lambda>k. int k * bs) [Suc k..<n]))))"
    for f d'
    by (rule Suc.hyps(1)) (use Suc.hyps(2) k in simp_all)
  show ?case
    using assms(1) less
    by (subst program_blocks.simps)
      (simp add: next' IH up del: of_nat_Suc)
qed

text \<open>What the bootloader does with a message of a part below 64 KiB: the address is in bytes.\<close>

definition burn :: "u8 list \<Rightarrow> (nat \<Rightarrow> u8) \<Rightarrow> (nat \<Rightarrow> u8)" where
  "burn m f = put_bytes (unat (le16 (m ! 0) (m ! 1))) (drop 2 m) f"

lemma le16_bytes:
  assumes "k < 65536"
  shows "unat (le16 (of_int (int k)) (of_int (int k div 256))) = k"
proof -
  have "le16 (of_int (int k)) (of_int (int k div 256)) = of_nat k"
  proof (rule bit_word_eqI)
    fix n assume "n < LENGTH(16)"
    then have n: "n < 16" by simp
    have "int k div 256 = drop_bit 8 (int k)" by (simp add: drop_bit_eq_div)
    then show "bit (le16 (of_int (int k)) (of_int (int k div 256))) n = bit (of_nat k :: u16) n"
      using n by (cases "n < 8") (auto simp: le16_def bit_simps)
  qed
  then show ?thesis using assms by (simp add: unat_of_nat)
qed

lemma burn_block:
  assumes "cs \<le> 32768" and "k < 65536" and "0 \<le> bs" and "int k + bs < 65536"
  shows "burn (block_message h cs bs (int k)) f a =
      (if k \<le> a \<and> a < k + nat bs then if firmware_mask h a then firmware_image h a else 255 else f a)"
proof -
  let ?g = "\<lambda>a. if firmware_mask h a then firmware_image h a else 255"
  have "ihex_get_data (int k) bs h = map ?g [k..<k + nat bs]"
    using assms by (simp add: ihex_get_data_def MAX_MEMORY_SIZE_def)
  then have "block_message h cs bs (int k) =
      [of_int (int k), of_int (int k div 256)] @ map ?g [k..<k + nat bs]"
    using assms(1) by (simp add: block_message_def block_head_def)
  then show ?thesis
    using le16_bytes [OF assms(2)]
    by (auto simp: burn_def put_bytes_def nth_map_upt simp del: of_int_of_nat_eq)
qed

lemma block_unused:
  assumes "\<not> block_used h (int b) (int k)" and "k \<le> a" and "a < k + b" and "k + b \<le> 65536"
  shows "\<not> firmware_mask h a"
proof -
  have "0 < b" using assms(2,3) by simp
  then have k: "0 < k" "k < 65536" "nat (int k + int b) = k + b" "int k + int b - 1 < 65536"
    using assms(1,4) by (auto simp: block_used_def nat_add_distrib)
  then have "\<forall>j \<in> {k..<k + b}. \<not> firmware_mask h j"
    using assms(1) \<open>0 < b\<close>
    by (auto simp: block_used_def ihex_bytes_within_range_def MAX_MEMORY_SIZE_def list_ex_iff)
  then show ?thesis using assms(2,3) by auto
qed

lemma burn_blocks:
  assumes "0 < b" and "cs \<le> 32768" and "int n * int b = cs"
  shows "k \<le> n \<Longrightarrow> fold burn (map (block_message h cs (int b))
      (filter (block_used h (int b)) (map (\<lambda>k. int k * int b) [0..<k]))) (\<lambda>_. 255) a =
      (if a < k * b \<and> firmware_mask h a then firmware_image h a else 255)"
proof (induction k arbitrary: a)
  case (Suc k)
  have "int (Suc k) * int b \<le> int n * int b"
    using Suc.prems by (intro mult_right_mono) simp_all
  then have sz: "int (k * b) + int b \<le> 32768" using assms(2,3) by (simp add: algebra_simps)
  then have kb: "k * b < 65536" "int (k * b) + int b < 65536" "k * b + b \<le> 65536" by linarith+
  let ?f = "fold burn (map (block_message h cs (int b))
      (filter (block_used h (int b)) (map (\<lambda>k. int k * int b) [0..<k]))) (\<lambda>_. 255)"
  have IH: "?f a = (if a < k * b \<and> firmware_mask h a then firmware_image h a else 255)" for a
    by (rule Suc.IH) (use Suc.prems in simp)
  show ?case
  proof (cases "block_used h (int b) (int (k * b))")
    case True
    have "burn (block_message h cs (int b) (int (k * b))) ?f a =
        (if k * b \<le> a \<and> a < k * b + b then if firmware_mask h a then firmware_image h a else 255 else ?f a)"
      using burn_block [OF assms(2) kb(1) _ kb(2)] by simp
    with True show ?thesis by (auto simp: IH)
  next
    case False
    then have "\<not> firmware_mask h a" if "k * b \<le> a" "a < k * b + b"
      using block_unused [OF False that kb(3)] by simp
    with False show ?thesis by (auto simp: IH)
  qed
qed simp

text \<open>
  C21: for the parts below 64 KiB the messages the loader sends burn exactly the image that was
  read: every byte of the file inside the part at its address, and 0xFF everywhere else.
\<close>

theorem loader_burns_image:
  assumes "mcu_size m = Some (cs, bs)" and "cs < 0x10000"
  shows "\<exists>ms. program_blocks recorder h cs bs 0 True [] = Some (Inr ms) \<and>
      (\<forall>a. fold burn ms (\<lambda>_. 0xFF) a =
        (if a < nat cs \<and> firmware_mask h a then firmware_image h a else 0xFF))"
proof -
  have "(cs, bs) \<in> {(32768, 128), (16384, 128), (8192, 128)}"
    using assms by (auto simp: mcu_size_def split: if_splits)
  then have bs: "bs = 128" and cs: "cs \<le> 32768" "int (nat (cs div 128)) * 128 = cs"
    by auto
  define n where "n = nat (cs div 128)"
  have n: "cs = int n * bs" "int n * int 128 = cs"
    using cs(2) bs by (simp_all add: n_def)
  have "nat cs = nat (int (n * 128))" using n(2) by simp
  then have sz: "n * 128 = nat cs" by simp
  have "program_blocks recorder h cs bs (int 0 * bs) True [] =
      Some (Inr ([] @ map (block_message h cs bs) (filter (block_used h bs) (map (\<lambda>k. int k * bs) [0..<n]))))"
    by (rule program_from) (use bs n(1) in simp_all)
  moreover have "fold burn (map (block_message h cs bs)
      (filter (block_used h bs) (map (\<lambda>k. int k * bs) [0..<n]))) (\<lambda>_. 255) a =
      (if a < nat cs \<and> firmware_mask h a then firmware_image h a else 255)" for a
    using burn_blocks [of 128 cs n n h a] cs(1) n(2) sz bs by simp
  ultimately show ?thesis by simp
qed

lemma loader_burns_image_witness:
  "\<exists>ms. program_blocks recorder (hex_start\<lparr>firmware_mask := (\<lambda>k. k = 0x1234), firmware_image := (\<lambda>_. 7)\<rparr>)
       32768 128 0 True [] = Some (Inr ms) \<and>
     fold burn ms (\<lambda>_. 0xFF) 0x1234 = 7 \<and> fold burn ms (\<lambda>_. 0xFF) 0x1235 = 0xFF"
proof -
  have "mcu_size ''32U4'' = Some (32768, 128)" by (simp add: mcu_size_def starts_with_def)
  from loader_burns_image [OF this, of "hex_start\<lparr>firmware_mask := (\<lambda>k. k = 0x1234), firmware_image := (\<lambda>_. 7)\<rparr>"]
  show ?thesis by auto
qed

lemma top_block_lost:
  assumes "0x10000 \<le> cs" and "m = block_message h cs 256 (int k * 256)" and "block_used h 256 (int k * 256)"
  shows "m ! 1 = 0 \<and> (m ! 0 = 0xFF \<longrightarrow> drop 2 m = replicate 256 0xFF)"
proof -
  have head: "m = [of_int (int k), of_int (int k * 256 div 65536)] @ ihex_get_data (int k * 256) 256 h"
    using assms(1,2) by (simp add: block_message_def block_head_def)
  have k: "k < 256"
    using assms(3) by (auto simp: block_used_def ihex_bytes_within_range_def MAX_MEMORY_SIZE_def split: if_splits)
  have "(of_nat k :: u8) = 0xFF \<Longrightarrow> k = 255"
    using unat_of_nat_small [of k] k by auto
  then have "(of_nat k :: u8) = 0xFF \<Longrightarrow> ihex_get_data (int k * 256) 256 h = replicate 256 0xFF"
    by (simp add: ihex_get_data_def MAX_MEMORY_SIZE_def)
  then show ?thesis using head k by simp
qed



end
