(* ===== verification/Backends.thy ===== *)
theory Backends
  imports Loader
begin

text \<open>
  The four USB backends of \<^verbatim>\<open>HostLoaderApp/hid_bootloader_cli.c\<close> (libusb, WIN32, IOKit, UHID) on
  the functions of their platform, which are parameters, and the contract the main program has
  with each of them.
\<close>

subsection \<open>The contract\<close>

locale loader_port =
  fixes port :: "'s backend"
    and is_open :: "'s \<Rightarrow> bool"
  assumes open_result: "teensy_open port s = (r, s') \<Longrightarrow> r = is_open s'"
    and write_closed: "\<not> is_open s \<Longrightarrow> fst (teensy_write port m t s) = False"
    and write_keeps: "teensy_write port m t s = (r, s') \<Longrightarrow> is_open s' = is_open s"
    and close_closed: "\<not> is_open (teensy_close port s)"
begin

lemma program_closed:
  assumes "\<not> is_open s" and "0 < cs" and "0 < bs"
  shows "program_blocks port h cs bs 0 True s = Some (Inl (Exit1 ''error writing to Teensy''))"
proof -
  obtain r s' where w: "teensy_write port (block_message h cs bs 0) 3000 s = (r, s')"
    by (cases "teensy_write port (block_message h cs bs 0) 3000 s")
  with write_closed [OF assms(1), of "block_message h cs bs 0" 3000] have "\<not> r" by simp
  with w assms(2,3) show ?thesis
    by (subst program_blocks.simps) (simp add: block_used_def)
qed

lemma program_keeps: "program_blocks port h cs bs addr f s = Some (Inr s') \<Longrightarrow> is_open s' = is_open s"
proof (induction "nat (cs - addr)" arbitrary: addr f s rule: less_induct)
  case less
  let ?w = "teensy_write port (block_message h cs bs addr) (if f then 3000 else 250) s"
  obtain r s1 where w: "?w = (r, s1)" by (cases ?w)
  note eq = program_blocks.simps [of port h cs bs addr f s]
  consider "\<not> addr < cs" | "addr < cs" "bs \<le> 0" | "addr < cs" "0 < bs" "\<not> block_used h bs addr"
    | "addr < cs" "0 < bs" "block_used h bs addr" by fastforce
  then show ?case
  proof cases
    case 3
    then have "program_blocks port h cs bs (addr + bs) f s = Some (Inr s')"
      using less.prems eq by simp
    then show ?thesis by (rule less.hyps [rotated]) (use 3 in simp)
  next
    case 4
    then have "program_blocks port h cs bs (addr + bs) False s1 = Some (Inr s')"
      using less.prems eq w by (auto split: if_splits)
    then have "is_open s' = is_open s1" by (rule less.hyps [rotated]) (use 4 in simp)
    with write_keeps [OF w] show ?thesis by simp
  qed (use less.prems eq in auto)
qed

text \<open>What a successful run leaves is a device that was open and is now closed.\<close>

lemma program_closes_open:
  assumes "is_open s" and "program_device port p h s = Some (Inr s')"
  shows "\<exists>s0. is_open s0 \<and> s' = teensy_close port s0"
proof -
  obtain s1 where s1: "program_blocks port h (code_size p) (block_size p) 0 True s = Some (Inr s1)"
    and s': "s' = teensy_close port (if reboot_after_programming p then reboot port (block_size p) s1 else s1)"
    using assms(2) by (auto simp: program_device_def Let_def split: option.splits sum.splits)
  have "is_open s1" using program_keeps [OF s1] assms(1) by simp
  moreover have "is_open (reboot port b s1) = is_open s1" for b
    unfolding reboot_def by (rule write_keeps [OF prod.collapse [symmetric]])
  ultimately show ?thesis using s' by (auto split: if_splits)
qed

lemma program_ends_closed: "program_device port p h s = Some (Inr s') \<Longrightarrow> \<not> is_open s'"
  by (auto simp: program_device_def close_closed Let_def split: option.splits sum.splits)

lemma open_loop_open:
  assumes "open_loop port delay hard wait waited s = Some r"
  shows "\<forall>w s'. r = Inr (w, s') \<longrightarrow> is_open s'"
proof -
  let ?Q = "\<lambda>(port' :: 's backend) (delay :: 's \<Rightarrow> 's) (hard :: bool) (wait :: bool) (waited :: bool) (s :: 's)
      (r :: stop + bool \<times> 's). port' = port \<longrightarrow> (\<forall>w s'. r = Inr (w, s') \<longrightarrow> is_open s')"
  have "?Q port delay hard wait waited s r"
  proof (rule open_loop.raw_induct [where P = ?Q, OF _ assms])
    fix ol be delay hard wait waited s r
    assume IH: "\<And>be delay hard wait waited s r. ol be delay hard wait waited s = Some r \<Longrightarrow>
        ?Q be delay hard wait waited s r"
      and eq: "(case teensy_open be s of (ok, d1) \<Rightarrow>
        if ok then Some (Inr (waited, d1))
        else if hard then
          (case hard_reboot be d1 of (ok2, d2) \<Rightarrow>
             if \<not> ok2 then Some (Inl (Exit1 ''Unable to find rebootor''))
             else ol be delay False True True (delay d2))
        else if \<not> wait then Some (Inl (Exit1 ''Unable to open device''))
        else ol be delay False wait True (delay d1)) = Some r"
    show "?Q be delay hard wait waited s r"
    proof (intro impI)
      assume "be = port"
      then show "\<forall>w s'. r = Inr (w, s') \<longrightarrow> is_open s'"
        using eq IH open_result by (auto split: prod.splits if_splits)
    qed
  qed
  then show ?thesis by simp
qed

end

subsection \<open>libusb\<close>

type_synonym handle = nat

text \<open>The functions of libusb that are used; \<open>lu_np\<close> is \<^verbatim>\<open>LIBUSB_HAS_GET_DRIVER_NP\<close>.\<close>

record 'd libusb =
  lu_np :: bool
  lu_busses :: "'d \<Rightarrow> (nat \<times> int \<times> int) list list"
  lu_open :: "nat \<Rightarrow> 'd \<Rightarrow> handle option \<times> 'd"
  lu_get_driver :: "handle \<Rightarrow> 'd \<Rightarrow> int \<times> 'd"
  lu_detach :: "handle \<Rightarrow> 'd \<Rightarrow> int \<times> 'd"
  lu_claim :: "handle \<Rightarrow> 'd \<Rightarrow> int \<times> 'd"
  lu_release :: "handle \<Rightarrow> 'd \<Rightarrow> 'd"
  lu_close :: "handle \<Rightarrow> 'd \<Rightarrow> 'd"
  lu_control :: "handle \<Rightarrow> u8 list \<Rightarrow> nat \<Rightarrow> 'd \<Rightarrow> int \<times> 'd"

text \<open>The kernel driver is taken away where the library can say which it is.\<close>

definition libusb_detach :: "'d libusb \<Rightarrow> handle \<Rightarrow> 'd \<Rightarrow> bool \<times> 'd" where
  "libusb_detach L h d =
     (if lu_np L then
        case lu_get_driver L h d of (r, d1) \<Rightarrow>
          if 0 \<le> r then
            case lu_detach L h d1 of (r2, d2) \<Rightarrow>
              if r2 < 0 then (False, lu_close L h d2) else (True, d2)
          else (True, d1)
      else (True, d))"

fun libusb_search :: "'d libusb \<Rightarrow> int \<Rightarrow> int \<Rightarrow> (nat \<times> int \<times> int) list \<Rightarrow> 'd \<Rightarrow> handle option \<times> 'd" where
  "libusb_search L vid pid [] d = (None, d)"
| "libusb_search L vid pid ((dev, v, p) # devs) d =
     (if v \<noteq> vid then libusb_search L vid pid devs d
      else if p \<noteq> pid then libusb_search L vid pid devs d
      else case lu_open L dev d of
        (None, d1) \<Rightarrow> libusb_search L vid pid devs d1
      | (Some h, d1) \<Rightarrow>
          (case libusb_detach L h d1 of (ok, d2) \<Rightarrow>
             if \<not> ok then libusb_search L vid pid devs d2
             else case lu_claim L h d2 of (r, d3) \<Rightarrow>
               if r < 0 then libusb_search L vid pid devs (lu_close L h d3)
               else (Some h, d3)))"

definition libusb_open_usb_device :: "'d libusb \<Rightarrow> int \<Rightarrow> int \<Rightarrow> 'd \<Rightarrow> handle option \<times> 'd" where
  "libusb_open_usb_device L vid pid d = libusb_search L vid pid (concat (lu_busses L d)) d"

definition libusb_teensy_close :: "'d libusb \<Rightarrow> handle option \<times> 'd \<Rightarrow> handle option \<times> 'd" where
  "libusb_teensy_close L = (\<lambda>(hh, d). case hh of
     None \<Rightarrow> (None, d)
   | Some h \<Rightarrow> (None, lu_close L h (lu_release L h d)))"

text \<open>Both pairs of identifiers are tried in turn.\<close>

definition open_either :: "(int \<Rightarrow> int \<Rightarrow> 'd \<Rightarrow> 'h option \<times> 'd) \<Rightarrow> int \<Rightarrow> 'd \<Rightarrow> 'h option \<times> 'd" where
  "open_either opn pid d =
     (case opn 0x16C0 pid d of
        (Some h, d1) \<Rightarrow> (Some h, d1)
      | (None, d1) \<Rightarrow> opn 0x03eb 0x2067 d1)"

definition libusb_teensy_open :: "'d libusb \<Rightarrow> handle option \<times> 'd \<Rightarrow> bool \<times> (handle option \<times> 'd)" where
  "libusb_teensy_open L s =
     (case libusb_teensy_close L s of (_, d) \<Rightarrow>
      case open_either (libusb_open_usb_device L) 0x0478 d of (hh, d1) \<Rightarrow> (hh \<noteq> None, (hh, d1)))"

definition libusb_teensy_write ::
    "'d libusb \<Rightarrow> u8 list \<Rightarrow> nat \<Rightarrow> handle option \<times> 'd \<Rightarrow> bool \<times> (handle option \<times> 'd)" where
  "libusb_teensy_write L m t = (\<lambda>(hh, d). case hh of
     None \<Rightarrow> (False, (hh, d))
   | Some h \<Rightarrow> (case lu_control L h m t d of (r, d1) \<Rightarrow> (\<not> r < 0, (hh, d1))))"

definition reboot_bytes :: "u8 list" where
  "reboot_bytes = [0x72, 0x65, 0x62, 0x6F, 0x6F, 0x74]"

definition libusb_hard_reboot :: "'d libusb \<Rightarrow> handle option \<times> 'd \<Rightarrow> bool \<times> (handle option \<times> 'd)" where
  "libusb_hard_reboot L = (\<lambda>(hh, d).
     case open_either (libusb_open_usb_device L) 0x0477 d of
       (None, d1) \<Rightarrow> (False, (hh, d1))
     | (Some h, d1) \<Rightarrow>
         (case lu_control L h reboot_bytes 100 d1 of (r, d2) \<Rightarrow>
            (\<not> r < 0, (hh, lu_close L h (lu_release L h d2)))))"

definition libusb_backend :: "'d libusb \<Rightarrow> (handle option \<times> 'd) backend" where
  "libusb_backend L = \<lparr>teensy_open = libusb_teensy_open L, teensy_write = libusb_teensy_write L,
     teensy_close = libusb_teensy_close L, hard_reboot = libusb_hard_reboot L\<rparr>"

definition has_handle :: "'h option \<times> 'd \<Rightarrow> bool" where
  "has_handle s \<longleftrightarrow> fst s \<noteq> None"

interpretation libusb: loader_port "libusb_backend L" has_handle for L
  by unfold_locales
    (auto simp: libusb_backend_def libusb_teensy_open_def libusb_teensy_write_def
      libusb_teensy_close_def has_handle_def split: prod.splits option.splits)

subsection \<open>WIN32\<close>

text \<open>One entry of the interface list: each call on it may fail.\<close>

record win_iface =
  wi_malloc :: bool
  wi_detail :: bool
  wi_handle :: "handle option"
  wi_attributes :: "(int \<times> int) option"

record 'd win32 =
  w_class_devs :: "'d \<Rightarrow> win_iface list option"
  w_close :: "handle \<Rightarrow> 'd \<Rightarrow> 'd"
  w_event :: "'d \<Rightarrow> bool"
  w_write_file :: "handle \<Rightarrow> u8 list \<Rightarrow> 'd \<Rightarrow> bool \<times> 'd"
  w_pending :: "'d \<Rightarrow> bool"
  w_wait :: "nat \<Rightarrow> 'd \<Rightarrow> bool \<times> bool"    \<comment> \<open>timed out; signalled\<close>
  w_cancel :: "handle \<Rightarrow> 'd \<Rightarrow> 'd"
  w_result :: "'d \<Rightarrow> nat option"

fun win_search :: "'d win32 \<Rightarrow> int \<Rightarrow> int \<Rightarrow> win_iface list \<Rightarrow> 'd \<Rightarrow> handle option \<times> 'd" where
  "win_search W vid pid [] d = (None, d)"
| "win_search W vid pid (f # fs) d =
     (if \<not> wi_malloc f then win_search W vid pid fs d
      else if \<not> wi_detail f then win_search W vid pid fs d
      else case wi_handle f of
        None \<Rightarrow> win_search W vid pid fs d
      | Some h \<Rightarrow>
          (case wi_attributes f of
             None \<Rightarrow> win_search W vid pid fs (w_close W h d)
           | Some (v, p) \<Rightarrow>
               if v \<noteq> vid \<or> p \<noteq> pid then win_search W vid pid fs (w_close W h d)
               else (Some h, d)))"

definition win_open_usb_device :: "'d win32 \<Rightarrow> int \<Rightarrow> int \<Rightarrow> 'd \<Rightarrow> handle option \<times> 'd" where
  "win_open_usb_device W vid pid d =
     (case w_class_devs W d of
        None \<Rightarrow> (None, d)
      | Some fs \<Rightarrow> win_search W vid pid fs d)"

definition write_usb_device :: "'d win32 \<Rightarrow> handle \<Rightarrow> u8 list \<Rightarrow> nat \<Rightarrow> 'd \<Rightarrow> bool \<times> 'd" where
  "write_usb_device W h buf timeout d =
     (if 1040 - 1 < length buf then (False, d)
      else if \<not> w_event W d then (False, d)
      else case w_write_file W h (0 # buf) d of (ok, d1) \<Rightarrow>
        if \<not> ok \<and> \<not> w_pending W d1 then (False, d1)
        else if \<not> ok \<and> fst (w_wait W timeout d1) then (False, w_cancel W h d1)
        else if \<not> ok \<and> \<not> snd (w_wait W timeout d1) then (False, d1)
        else case w_result W d1 of
          None \<Rightarrow> (False, d1)
        | Some n \<Rightarrow> (0 < n, d1))"

definition win_teensy_close :: "'d win32 \<Rightarrow> handle option \<times> 'd \<Rightarrow> handle option \<times> 'd" where
  "win_teensy_close W = (\<lambda>(hh, d). case hh of None \<Rightarrow> (None, d) | Some h \<Rightarrow> (None, w_close W h d))"

definition win_teensy_open :: "'d win32 \<Rightarrow> handle option \<times> 'd \<Rightarrow> bool \<times> (handle option \<times> 'd)" where
  "win_teensy_open W s =
     (case win_teensy_close W s of (_, d) \<Rightarrow>
      case open_either (win_open_usb_device W) 0x0478 d of (hh, d1) \<Rightarrow> (hh \<noteq> None, (hh, d1)))"

definition win_teensy_write ::
    "'d win32 \<Rightarrow> u8 list \<Rightarrow> nat \<Rightarrow> handle option \<times> 'd \<Rightarrow> bool \<times> (handle option \<times> 'd)" where
  "win_teensy_write W m t = (\<lambda>(hh, d). case hh of
     None \<Rightarrow> (False, (hh, d))
   | Some h \<Rightarrow> (case write_usb_device W h m t d of (r, d1) \<Rightarrow> (r, (hh, d1))))"

definition win_hard_reboot :: "'d win32 \<Rightarrow> handle option \<times> 'd \<Rightarrow> bool \<times> (handle option \<times> 'd)" where
  "win_hard_reboot W = (\<lambda>(hh, d).
     case open_either (win_open_usb_device W) 0x0477 d of
       (None, d1) \<Rightarrow> (False, (hh, d1))
     | (Some h, d1) \<Rightarrow>
         (case write_usb_device W h reboot_bytes 100 d1 of (r, d2) \<Rightarrow> (r, (hh, w_close W h d2))))"

definition win_backend :: "'d win32 \<Rightarrow> (handle option \<times> 'd) backend" where
  "win_backend W = \<lparr>teensy_open = win_teensy_open W, teensy_write = win_teensy_write W,
     teensy_close = win_teensy_close W, hard_reboot = win_hard_reboot W\<rparr>"

interpretation win32: loader_port "win_backend W" has_handle for W
  by unfold_locales
    (auto simp: win_backend_def win_teensy_open_def win_teensy_write_def win_teensy_close_def
      has_handle_def split: prod.splits option.splits)

subsection \<open>IOKit\<close>

text \<open>
  The list of attached devices that the two callbacks maintain. A device property is missing, not
  a number, or a value; \<^verbatim>\<open>malloc\<close> may fail.
\<close>

record usb_list_struct =
  ref :: nat
  pid :: int
  vid :: int

definition attach_callback ::
    "nat option \<Rightarrow> int option \<Rightarrow> int option \<Rightarrow> bool \<Rightarrow> usb_list_struct list \<Rightarrow> usb_list_struct list" where
  "attach_callback dev v p mem us =
     (case dev of
        None \<Rightarrow> us
      | Some r \<Rightarrow>
          (case v of
             None \<Rightarrow> us
           | Some v' \<Rightarrow>
               (case p of
                  None \<Rightarrow> us
                | Some p' \<Rightarrow> if \<not> mem then us else us @ [\<lparr>ref = r, pid = p', vid = v'\<rparr>])))"

fun detach_callback :: "nat \<Rightarrow> usb_list_struct list \<Rightarrow> usb_list_struct list" where
  "detach_callback dev [] = []"
| "detach_callback dev (u # us) =
     (if ref u = dev then detach_callback dev us else u # detach_callback dev us)"

text \<open>
  \<open>io_loop\<close> delivers the events that are pending; \<open>io_init\<close> creates the manager the first time.
\<close>

record 'd iokit =
  io_init :: "'d \<Rightarrow> 'd"
  io_loop :: "usb_list_struct list \<times> 'd \<Rightarrow> usb_list_struct list \<times> 'd"
  io_open :: "nat \<Rightarrow> 'd \<Rightarrow> bool \<times> 'd"
  io_close :: "nat \<Rightarrow> 'd \<Rightarrow> 'd"
  io_report :: "nat \<Rightarrow> u8 list \<Rightarrow> 'd \<Rightarrow> bool \<times> 'd"

type_synonym 'd io_state = "usb_list_struct list \<times> 'd"

fun io_search :: "'d iokit \<Rightarrow> int \<Rightarrow> int \<Rightarrow> usb_list_struct list \<Rightarrow> 'd \<Rightarrow> handle option \<times> 'd" where
  "io_search K v p [] d = (None, d)"
| "io_search K v p (u # us) d =
     (if vid u = v \<and> pid u = p then
        case io_open K (ref u) d of (ok, d1) \<Rightarrow>
          if ok then (Some (ref u), d1) else io_search K v p us d1
      else io_search K v p us d)"

definition io_open_usb_device :: "'d iokit \<Rightarrow> int \<Rightarrow> int \<Rightarrow> 'd io_state \<Rightarrow> handle option \<times> 'd io_state" where
  "io_open_usb_device K v p s =
     (case io_loop K (fst s, io_init K (snd s)) of (us, d) \<Rightarrow>
      case io_search K v p us d of (h, d1) \<Rightarrow> (h, (us, d1)))"

definition close_usb_device :: "'d iokit \<Rightarrow> handle \<Rightarrow> 'd io_state \<Rightarrow> 'd io_state" where
  "close_usb_device K h s =
     (case io_loop K s of (us, d) \<Rightarrow>
        if list_ex (\<lambda>u. ref u = h) us then (us, io_close K h d) else (us, d))"

definition io_teensy_close :: "'d iokit \<Rightarrow> handle option \<times> 'd io_state \<Rightarrow> handle option \<times> 'd io_state" where
  "io_teensy_close K = (\<lambda>(hh, s). case hh of None \<Rightarrow> (None, s) | Some h \<Rightarrow> (None, close_usb_device K h s))"

definition io_teensy_open ::
    "'d iokit \<Rightarrow> handle option \<times> 'd io_state \<Rightarrow> bool \<times> (handle option \<times> 'd io_state)" where
  "io_teensy_open K st =
     (case io_teensy_close K st of (_, s) \<Rightarrow>
      case open_either (io_open_usb_device K) 0x0478 s of (hh, s1) \<Rightarrow> (hh \<noteq> None, (hh, s1)))"

definition io_teensy_write ::
    "'d iokit \<Rightarrow> u8 list \<Rightarrow> nat \<Rightarrow> handle option \<times> 'd io_state \<Rightarrow> bool \<times> (handle option \<times> 'd io_state)" where
  "io_teensy_write K m t = (\<lambda>(hh, us, d). case hh of
     None \<Rightarrow> (False, (hh, us, d))
   | Some h \<Rightarrow> (case io_report K h m d of (r, d1) \<Rightarrow> (r, (hh, us, d1))))"

definition io_hard_reboot ::
    "'d iokit \<Rightarrow> handle option \<times> 'd io_state \<Rightarrow> bool \<times> (handle option \<times> 'd io_state)" where
  "io_hard_reboot K = (\<lambda>(hh, s).
     case open_either (io_open_usb_device K) 0x0477 s of
       (None, s1) \<Rightarrow> (False, (hh, s1))
     | (Some h, (us, d)) \<Rightarrow>
         (case io_report K h reboot_bytes d of (r, d1) \<Rightarrow> (r, (hh, close_usb_device K h (us, d1)))))"

definition io_backend :: "'d iokit \<Rightarrow> (handle option \<times> 'd io_state) backend" where
  "io_backend K = \<lparr>teensy_open = io_teensy_open K, teensy_write = io_teensy_write K,
     teensy_close = io_teensy_close K, hard_reboot = io_hard_reboot K\<rparr>"

interpretation iokit: loader_port "io_backend K" has_handle for K
  by unfold_locales
    (auto simp: io_backend_def io_teensy_open_def io_teensy_write_def io_teensy_close_def
      has_handle_def split: prod.splits option.splits)

text \<open>
  The manager behind \<open>io_init\<close>: \<^verbatim>\<open>hid_manager\<close> is the first component of the state. The functions of
  the platform are in the order of their calls; a failure of creation is \<open>None\<close>.
\<close>

record 'd hid_api =
  hm_create :: "'d \<Rightarrow> nat option \<times> 'd"
  hm_is_manager :: "nat \<Rightarrow> 'd \<Rightarrow> bool"
  hm_release :: "nat \<Rightarrow> 'd \<Rightarrow> 'd"
  hm_dict :: "'d \<Rightarrow> nat option \<times> 'd"
  hm_set_matching :: "nat \<Rightarrow> nat \<Rightarrow> 'd \<Rightarrow> 'd"
  hm_schedule :: "nat \<Rightarrow> 'd \<Rightarrow> 'd"
  hm_on_attach :: "nat \<Rightarrow> 'd \<Rightarrow> 'd"
  hm_on_detach :: "nat \<Rightarrow> 'd \<Rightarrow> 'd"
  hm_open :: "nat \<Rightarrow> 'd \<Rightarrow> bool \<times> 'd"
  hm_unschedule :: "nat \<Rightarrow> 'd \<Rightarrow> 'd"

definition init_hid_manager :: "'d hid_api \<Rightarrow> nat option \<times> 'd \<Rightarrow> nat option \<times> 'd" where
  "init_hid_manager A = (\<lambda>(hid_manager, d). case hid_manager of
     Some h \<Rightarrow> (Some h, d)
   | None \<Rightarrow>
       (case hm_create A d of
          (None, d1) \<Rightarrow> (None, d1)
        | (Some h, d1) \<Rightarrow>
            if \<not> hm_is_manager A h d1 then (Some h, hm_release A h d1)
            else (case hm_dict A d1 of
                (None, d2) \<Rightarrow> (Some h, d2)
              | (Some dict, d2) \<Rightarrow>
                  (let d3 = hm_schedule A h (hm_release A dict (hm_set_matching A h dict d2));
                       d4 = hm_on_detach A h (hm_on_attach A h d3)
                   in case hm_open A h d4 of (ok, d5) \<Rightarrow>
                        (Some h, if ok then d5 else hm_release A h (hm_unschedule A h d5))))))"

definition managed :: "'d hid_api \<Rightarrow> (nat option \<times> 'd) iokit \<Rightarrow> (nat option \<times> 'd) iokit" where
  "managed A K = K\<lparr>io_init := init_hid_manager A\<rparr>"

text \<open>
  A manager is set up once: after any failure but that of its creation the released or unopened
  manager stays in \<^verbatim>\<open>hid_manager\<close> and the later searches, which the loader makes while it waits for
  the device, do not set it up again.
\<close>

lemma init_hid_manager_once:
  assumes "fst (init_hid_manager A s) = Some h"
  shows "init_hid_manager A (Some h, d) = (Some h, d)"
    and "init_hid_manager A (init_hid_manager A s) = init_hid_manager A s"
  using assms by (cases "init_hid_manager A s"; simp add: init_hid_manager_def)+

subsection \<open>UHID\<close>

text \<open>A directory entry: its name, its descriptor if it opens, its identifiers if the driver has them.\<close>

record dirent =
  d_name :: string
  d_fd :: "nat option"
  d_info :: "(int \<times> int) option"

record 'd uhid =
  uh_dir :: "'d \<Rightarrow> dirent list option"
  uh_close :: "nat \<Rightarrow> 'd \<Rightarrow> 'd"
  uh_write :: "nat \<Rightarrow> u8 list \<Rightarrow> 'd \<Rightarrow> int \<times> 'd"

text \<open>A driver without device information ends the program.\<close>

fun uhid_search :: "'d uhid \<Rightarrow> int \<Rightarrow> int \<Rightarrow> dirent list \<Rightarrow> 'd \<Rightarrow> stop + (nat option \<times> 'd)" where
  "uhid_search U v p [] d = Inr (None, d)"
| "uhid_search U v p (e # es) d =
     (if \<not> starts_with (d_name e) ''uhid'' then uhid_search U v p es d
      else case d_fd e of
        None \<Rightarrow> uhid_search U v p es d
      | Some fd \<Rightarrow>
          (case d_info e of
             None \<Rightarrow> Inl (Exit1 ''Error: your uhid driver does not support USB_GET_DEVICEINFO'')
           | Some (v', p') \<Rightarrow>
               if v' = v \<and> p' = p then Inr (Some fd, d) else uhid_search U v p es (uh_close U fd d)))"

definition uhid_open_usb_device :: "'d uhid \<Rightarrow> int \<Rightarrow> int \<Rightarrow> 'd \<Rightarrow> stop + (nat option \<times> 'd)" where
  "uhid_open_usb_device U v p d =
     (case uh_dir U d of None \<Rightarrow> Inr (None, d) | Some es \<Rightarrow> uhid_search U v p es d)"

definition uhid_open_either :: "'d uhid \<Rightarrow> int \<Rightarrow> 'd \<Rightarrow> stop + (nat option \<times> 'd)" where
  "uhid_open_either U p d =
     (case uhid_open_usb_device U 0x16C0 p d of
        Inl e \<Rightarrow> Inl e
      | Inr (Some fd, d1) \<Rightarrow> Inr (Some fd, d1)
      | Inr (None, d1) \<Rightarrow> uhid_open_usb_device U 0x03eb 0x2067 d1)"

definition uhid_teensy_close :: "'d uhid \<Rightarrow> nat option \<times> 'd \<Rightarrow> nat option \<times> 'd" where
  "uhid_teensy_close U = (\<lambda>(fd, d). case fd of None \<Rightarrow> (None, d) | Some f \<Rightarrow> (None, uh_close U f d))"

definition uhid_teensy_open :: "'d uhid \<Rightarrow> nat option \<times> 'd \<Rightarrow> stop + (bool \<times> (nat option \<times> 'd))" where
  "uhid_teensy_open U s =
     (case uhid_teensy_close U s of (_, d) \<Rightarrow>
      case uhid_open_either U 0x0478 d of
        Inl e \<Rightarrow> Inl e
      | Inr (fd, d1) \<Rightarrow> Inr (fd \<noteq> None, (fd, d1)))"

text \<open>A write to the closed descriptor -1 fails with -1 and so never has the length asked for.\<close>

definition uhid_teensy_write ::
    "'d uhid \<Rightarrow> u8 list \<Rightarrow> nat \<Rightarrow> nat option \<times> 'd \<Rightarrow> bool \<times> (nat option \<times> 'd)" where
  "uhid_teensy_write U m t = (\<lambda>(fd, d). case fd of
     None \<Rightarrow> (int (length m) = -1, (fd, d))
   | Some f \<Rightarrow> (case uh_write U f m d of (r, d1) \<Rightarrow> (r = int (length m), (fd, d1))))"

definition uhid_hard_reboot :: "'d uhid \<Rightarrow> nat option \<times> 'd \<Rightarrow> stop + (bool \<times> (nat option \<times> 'd))" where
  "uhid_hard_reboot U = (\<lambda>(fd, d).
     case uhid_open_either U 0x0477 d of
       Inl e \<Rightarrow> Inl e
     | Inr (None, d1) \<Rightarrow> Inr (False, (fd, d1))
     | Inr (Some f, d1) \<Rightarrow>
         (case uh_write U f reboot_bytes d1 of (r, d2) \<Rightarrow> Inr (r = 6, (fd, uh_close U f d2))))"

subsection \<open>Properties\<close>

text \<open>The callbacks as events.\<close>

datatype io_event = Attach nat int int | Detach nat

fun io_deliver :: "io_event \<Rightarrow> usb_list_struct list \<Rightarrow> usb_list_struct list" where
  "io_deliver (Attach r v p) us = attach_callback (Some r) (Some v) (Some p) True us"
| "io_deliver (Detach r) us = detach_callback r us"

fun attached :: "io_event list \<Rightarrow> nat \<Rightarrow> bool" where
  "attached [] r = False"
| "attached (Attach r' v p # es) r = (r' = r \<or> attached es r)"
| "attached (Detach r' # es) r = (r' \<noteq> r \<and> attached es r)"

lemma detach_filter: "detach_callback r us = filter (\<lambda>u. ref u \<noteq> r) us"
  by (induction us) auto

text \<open>
  The list of the IOKit backend holds a device exactly when it was attached after it was last
  detached, whatever the order of the callbacks.
\<close>

lemma io_list_tracks:
  "(\<exists>u \<in> set (fold io_deliver es []). ref u = r) \<longleftrightarrow> attached (rev es) r"
proof (induction es rule: rev_induct)
  case (snoc e es)
  then show ?case by (cases e) (auto simp: attach_callback_def detach_filter)
qed simp

lemma loader_main_ends:
  assumes "loader_main be delay u buf file args d = Returns (Some (Inr d'))"
  obtains p h d1 w where "parse_options args opts_start = Inr p"
    and "open_loop be delay (hard_reboot_device p) (wait_for_device_to_appear p) False d = Some (Inr (w, d1))"
    and "program_device be p h d1 = Some (Inr d')"
proof -
  obtain p where p: "parse_options args opts_start = Inr p"
    using assms by (cases "parse_options args opts_start") (auto simp: loader_main_def)
  then obtain r0 where r: "read_file u buf (file 0) = Returns r0"
    using assms by (auto simp: loader_main_def and_then_Returns split: if_splits)
  then obtain h0 where h: "r0 = Inr h0"
    using assms p by (cases r0) (auto simp: loader_main_def split: if_splits)
  let ?o = "open_loop be delay (hard_reboot_device p) (wait_for_device_to_appear p) False d"
  obtain w d1 where o: "?o = Some (Inr (w, d1))"
    using assms p r h by (cases ?o) (auto simp: loader_main_def split: if_splits sum.splits)
  show thesis
  proof (cases w)
    case True
    then obtain r1 where "read_file u buf (file 1) = Returns r1"
      using assms p r h o by (auto simp: loader_main_def and_then_Returns split: if_splits)
    with True assms p r h o that show thesis
      by (cases r1) (auto simp: loader_main_def split: if_splits)
  next
    case False
    with assms p r h o that show thesis by (auto simp: loader_main_def split: if_splits)
  qed
qed

text \<open>
  A run of the loader on libusb that succeeds ends with the device released and closed: the
  handle is gone, and the last calls to the library were a release and a close of one handle.
\<close>

lemma libusb_run_closes:
  assumes "loader_main (libusb_backend L) delay u buf file args s = Returns (Some (Inr (hh, d)))"
  shows "hh = None \<and> (\<exists>h d0. d = lu_close L h (lu_release L h d0))"
proof -
  from assms obtain p h s1 w where
    o: "open_loop (libusb_backend L) delay (hard_reboot_device p) (wait_for_device_to_appear p) False s =
      Some (Inr (w, s1))"
    and p: "program_device (libusb_backend L) p h s1 = Some (Inr (hh, d))"
    by (rule loader_main_ends)
  have "has_handle s1" using libusb.open_loop_open [OF o] by blast
  from libusb.program_closes_open [OF this p]
  obtain s0 where "has_handle s0" and "(hh, d) = libusb_teensy_close L s0"
    by (auto simp: libusb_backend_def)
  then show ?thesis
    by (cases s0; cases "fst s0") (simp_all add: libusb_teensy_close_def has_handle_def, blast)
qed

end
