(* ===== verification/UsbSerial.thy ===== *)
theory UsbSerial
  imports UsbPort
begin

text \<open>
  The serial port on the USB controller of \<^verbatim>\<open>library/usb_serial.c\<close>, for the ATmega32U4, over the
  register accesses of the port.
\<close>

unbundle bit_operations_syntax

subsection \<open>State\<close>

record usb_serial = usb_port +
  usb_configuration :: u8
  transmit_flush_timer :: u8
  transmit_previous_timeout :: u8
  cdc_line_coding :: "u8 list"
  cdc_line_rtsdtr :: u8

definition usb_serial_zero :: usb_serial where
  "usb_serial_zero = \<lparr>io_log = [], ien = False, usb_configuration = 0, transmit_flush_timer = 0,
     transmit_previous_timeout = 0, cdc_line_coding = [0x00, 0xE1, 0x00, 0x00, 0x00, 0x00, 0x08],
     cdc_line_rtsdtr = 0\<rparr>"

definition configured :: "usb_serial usb_world \<Rightarrow> usb_serial \<Rightarrow> bool \<times> usb_serial" where
  "configured E s = (let s1 = gap E s in (usb_configuration s1 \<noteq> 0, s1))"

definition set_flush :: "usb_serial usb_world \<Rightarrow> u8 \<Rightarrow> usb_serial \<Rightarrow> usb_serial" where
  "set_flush E v s = (gap E s)\<lparr>transmit_flush_timer := v\<rparr>"

subsection \<open>Configuration\<close>

abbreviation (input) "ENDPOINT0_SIZE \<equiv> 16 :: nat"
abbreviation (input) "CDC_ACM_ENDPOINT \<equiv> 2 :: u8"
abbreviation (input) "CDC_RX_ENDPOINT \<equiv> 3 :: u8"
abbreviation (input) "CDC_TX_ENDPOINT \<equiv> 4 :: u8"
abbreviation (input) "CDC_ACM_SIZE \<equiv> 16 :: nat"
abbreviation (input) "CDC_RX_SIZE \<equiv> 64 :: nat"
abbreviation (input) "CDC_TX_SIZE \<equiv> 64 :: nat"
abbreviation (input) "TRANSMIT_FLUSH_TIMEOUT \<equiv> 5 :: u8"
abbreviation (input) "TRANSMIT_TIMEOUT \<equiv> 25 :: u8"

definition EP_SIZE :: "nat \<Rightarrow> u8" where
  "EP_SIZE s = (if s = 64 then 0x30 else if s = 32 then 0x20 else if s = 16 then 0x10 else 0x00)"

definition EP_SINGLE_BUFFER :: u8 where "EP_SINGLE_BUFFER = 0x02"
definition EP_DOUBLE_BUFFER :: u8 where "EP_DOUBLE_BUFFER = 0x06"

definition endpoint_config_table :: "u8 list" where
  "endpoint_config_table =
     [0,
      1, 0xC1, EP_SIZE CDC_ACM_SIZE OR EP_SINGLE_BUFFER,
      1, 0x80, EP_SIZE CDC_RX_SIZE OR EP_DOUBLE_BUFFER,
      1, 0x81, EP_SIZE CDC_TX_SIZE OR EP_DOUBLE_BUFFER]"

definition VENDOR_ID :: u16 where "VENDOR_ID = 0x16C0"
definition PRODUCT_ID :: u16 where "PRODUCT_ID = 0x047A"

definition device_descriptor :: "u8 list" where
  "device_descriptor =
     [18, 1, 0x00, 0x02, 2, 0, 0, of_nat ENDPOINT0_SIZE,
      lo8 VENDOR_ID, hi8 VENDOR_ID, lo8 PRODUCT_ID, hi8 PRODUCT_ID,
      0x00, 0x01, 1, 2, 3, 1]"

definition CONFIG1_DESC_SIZE :: u16 where
  "CONFIG1_DESC_SIZE = 9 + 9 + 5 + 5 + 4 + 5 + 7 + 9 + 7 + 7"

definition config1_descriptor :: "u8 list" where
  "config1_descriptor =
     [9, 2, lo8 CONFIG1_DESC_SIZE, hi8 CONFIG1_DESC_SIZE, 2, 1, 0, 0xC0, 50,
      9, 4, 0, 0, 1, 0x02, 0x02, 0x01, 0,
      5, 0x24, 0x00, 0x10, 0x01,
      5, 0x24, 0x01, 0x01, 1,
      4, 0x24, 0x02, 0x06,
      5, 0x24, 0x06, 0, 1,
      7, 5, CDC_ACM_ENDPOINT OR 0x80, 0x03, of_nat CDC_ACM_SIZE, 0, 64,
      9, 4, 1, 0, 2, 0x0A, 0x00, 0x00, 0,
      7, 5, CDC_RX_ENDPOINT, 0x02, of_nat CDC_RX_SIZE, 0, 0,
      7, 5, CDC_TX_ENDPOINT OR 0x80, 0x02, of_nat CDC_TX_SIZE, 0, 0]"

text \<open>A wide string literal: 16-bit characters and a terminator; \<^verbatim>\<open>sizeof\<close> counts both.\<close>

definition wide :: "string \<Rightarrow> u8 list" where
  "wide s = concat (map (\<lambda>c. [of_char c, 0]) s) @ [0, 0]"

definition string_descriptor :: "string \<Rightarrow> u8 list" where
  "string_descriptor s = [of_nat (length (wide s)), 3] @ wide s"

definition STR_MANUFACTURER :: string where "STR_MANUFACTURER = ''Your Name''"
definition STR_PRODUCT :: string where "STR_PRODUCT = ''USB Serial''"
definition STR_SERIAL_NUMBER :: string where "STR_SERIAL_NUMBER = ''12345''"

record descriptor_list_struct =
  dl_wValue :: u16
  dl_wIndex :: u16
  dl_addr :: "u8 list"
  dl_length :: u8

definition descriptor_list :: "descriptor_list_struct list" where
  "descriptor_list =
     [\<lparr>dl_wValue = 0x0100, dl_wIndex = 0x0000, dl_addr = device_descriptor, dl_length = of_nat (length device_descriptor)\<rparr>,
      \<lparr>dl_wValue = 0x0200, dl_wIndex = 0x0000, dl_addr = config1_descriptor, dl_length = of_nat (length config1_descriptor)\<rparr>,
      \<lparr>dl_wValue = 0x0300, dl_wIndex = 0x0000, dl_addr = [4, 3, 0x09, 0x04], dl_length = 4\<rparr>,
      \<lparr>dl_wValue = 0x0301, dl_wIndex = 0x0409, dl_addr = string_descriptor STR_MANUFACTURER, dl_length = of_nat (length (wide STR_MANUFACTURER))\<rparr>,
      \<lparr>dl_wValue = 0x0302, dl_wIndex = 0x0409, dl_addr = string_descriptor STR_PRODUCT, dl_length = of_nat (length (wide STR_PRODUCT))\<rparr>,
      \<lparr>dl_wValue = 0x0303, dl_wIndex = 0x0409, dl_addr = string_descriptor STR_SERIAL_NUMBER, dl_length = of_nat (length (wide STR_SERIAL_NUMBER))\<rparr>]"

subsection \<open>Public functions\<close>

definition usb_init :: "usb_serial usb_world \<Rightarrow> usb_serial \<Rightarrow> usb_serial outcome" where
  "usb_init E s =
     and_then (wait_for E PLLCSR (push_bit PLOCK 1)
         (wr E PLLCSR 0x02 (wr E USBCON (push_bit 7 1 OR push_bit 5 1) (wr E UHWCON 0x01 s)))) (\<lambda>(_, s1).
       let s2 = wr E UDCON 0 (wr E USBCON (push_bit 7 1 OR push_bit 4 1) s1);
           s3 = s2\<lparr>usb_configuration := 0, cdc_line_rtsdtr := 0\<rparr>
       in Returns ((wr E UDIEN (push_bit 3 1 OR push_bit 2 1) s3)\<lparr>ien := True\<rparr>))"

definition usb_configured :: "usb_serial \<Rightarrow> u8" where
  "usb_configured s = usb_configuration s"

partial_function (option) getchar_retry ::
    "usb_serial usb_world \<Rightarrow> bool \<Rightarrow> usb_serial \<Rightarrow> (int \<times> usb_serial) outcome" where
  "getchar_retry E intr s =
     (case rd E UEINTX s of (c, s1) \<Rightarrow>
        if \<not> bit c RWAL then
          if bit c RXOUTI then getchar_retry E intr (wr E UEINTX 0x6B s1)
          else Returns (-1, restore intr s1)
        else case rd E UEDATX s1 of (c, s2) \<Rightarrow>
          case rd E UEINTX s2 of (u, s3) \<Rightarrow>
            Returns (uint c, restore intr (if \<not> bit u RWAL then wr E UEINTX 0x6B s3 else s3)))"

definition usb_serial_getchar :: "usb_serial usb_world \<Rightarrow> usb_serial \<Rightarrow> (int \<times> usb_serial) outcome" where
  "usb_serial_getchar E s =
     (case save_cli E s of (intr, s1) \<Rightarrow>
        if usb_configuration s1 = 0 then Returns (-1, restore intr s1)
        else getchar_retry E intr (wr E UENUM CDC_RX_ENDPOINT s1))"

definition usb_serial_available :: "usb_serial usb_world \<Rightarrow> usb_serial \<Rightarrow> u8 \<times> usb_serial" where
  "usb_serial_available E s =
     (case save_cli E s of (intr, s1) \<Rightarrow>
        if usb_configuration s1 = 0 then (0, restore intr s1)
        else case rd E UEBCLX (wr E UENUM CDC_RX_ENDPOINT s1) of (n, s2) \<Rightarrow>
          if n = 0 then
            case rd E UEINTX s2 of (i, s3) \<Rightarrow>
              (n, restore intr (if bit i RXOUTI \<and> \<not> bit i RWAL then wr E UEINTX 0x6B s3 else s3))
          else (n, restore intr s2))"

partial_function (option) flush_input_loop :: "usb_serial usb_world \<Rightarrow> usb_serial \<Rightarrow> usb_serial outcome" where
  "flush_input_loop E s =
     (case rd E UEINTX s of (i, s1) \<Rightarrow>
        if bit i RWAL then flush_input_loop E (wr E UEINTX 0x6B s1) else Returns s1)"

definition usb_serial_flush_input :: "usb_serial usb_world \<Rightarrow> usb_serial \<Rightarrow> usb_serial outcome" where
  "usb_serial_flush_input E s =
     (case configured E s of (on, s1) \<Rightarrow>
        if on then
          case save_cli E s1 of (intr, s2) \<Rightarrow>
            and_then (flush_input_loop E (wr E UENUM CDC_RX_ENDPOINT s2)) (\<lambda>s3. Returns (restore intr s3))
        else Returns s1)"

text \<open>
  The start that \<^verbatim>\<open>usb_serial_putchar\<close> and \<^verbatim>\<open>usb_serial_write\<close> share (the results: go on or return
  -1, the saved interrupt flag), and their wait for a free buffer.
\<close>

definition tx_begin :: "usb_serial usb_world \<Rightarrow> usb_serial \<Rightarrow> bool \<times> bool \<times> usb_serial" where
  "tx_begin E s =
     (case configured E s of (on, s1) \<Rightarrow>
        if \<not> on then (False, ien s1, s1)
        else case save_cli E s1 of (intr, s2) \<Rightarrow>
          let s3 = wr E UENUM CDC_TX_ENDPOINT s2 in
          if transmit_previous_timeout s3 \<noteq> 0 then
            case rd E UEINTX s3 of (c, s4) \<Rightarrow>
              if \<not> bit c RWAL then (False, intr, restore intr s4)
              else (True, intr, s4\<lparr>transmit_previous_timeout := 0\<rparr>)
          else (True, intr, s3))"

partial_function (option) tx_wait ::
    "usb_serial usb_world \<Rightarrow> u8 \<Rightarrow> bool \<Rightarrow> usb_serial \<Rightarrow> (bool \<times> bool \<times> usb_serial) outcome" where
  "tx_wait E timeout intr s =
     (case rd E UEINTX s of (c, s1) \<Rightarrow>
        if bit c RWAL then Returns (True, intr, s1)
        else case rd E UDFNUML (restore intr s1) of (f, s2) \<Rightarrow>
          if f = timeout then Returns (False, intr, s2\<lparr>transmit_previous_timeout := 1\<rparr>)
          else case configured E s2 of (on, s3) \<Rightarrow>
            if \<not> on then Returns (False, intr, s3)
            else case save_cli E s3 of (intr', s4) \<Rightarrow>
              tx_wait E timeout intr' (wr E UENUM CDC_TX_ENDPOINT s4))"

definition tx_end :: "usb_serial usb_world \<Rightarrow> bool \<Rightarrow> usb_serial \<Rightarrow> usb_serial" where
  "tx_end E intr s =
     (case rd E UEINTX s of (c, s1) \<Rightarrow>
        restore intr (set_flush E TRANSMIT_FLUSH_TIMEOUT
          (if \<not> bit c RWAL then wr E UEINTX 0x3A s1 else s1)))"

definition usb_serial_putchar :: "usb_serial usb_world \<Rightarrow> u8 \<Rightarrow> usb_serial \<Rightarrow> (int \<times> usb_serial) outcome" where
  "usb_serial_putchar E c s =
     (case tx_begin E s of (go, intr, s1) \<Rightarrow>
        if \<not> go then Returns (-1, s1)
        else case rd E UDFNUML s1 of (f, s2) \<Rightarrow>
          and_then (tx_wait E (f + TRANSMIT_TIMEOUT) intr s2) (\<lambda>(ready, intr, s3).
            if \<not> ready then Returns (-1, s3)
            else Returns (0, tx_end E intr (wr E UEDATX c s3))))"

definition usb_serial_putchar_nowait :: "usb_serial usb_world \<Rightarrow> u8 \<Rightarrow> usb_serial \<Rightarrow> int \<times> usb_serial" where
  "usb_serial_putchar_nowait E c s =
     (case configured E s of (on, s1) \<Rightarrow>
        if \<not> on then (-1, s1)
        else case save_cli E s1 of (intr, s2) \<Rightarrow>
          case rd E UEINTX (wr E UENUM CDC_TX_ENDPOINT s2) of (u, s3) \<Rightarrow>
            if \<not> bit u RWAL then (-1, restore intr s3)
            else (0, tx_end E intr (wr E UEDATX c s3)))"

text \<open>The jump table of \<^verbatim>\<open>usb_serial_write\<close>: the label \<^verbatim>\<open>default\<close> stands before \<^verbatim>\<open>case 1\<close>.\<close>

definition table_count :: "u8 \<Rightarrow> nat" where
  "table_count write_size = (if unat write_size \<le> CDC_TX_SIZE then unat write_size else 1)"

partial_function (option) write_loop ::
    "usb_serial usb_world \<Rightarrow> bool \<Rightarrow> u8 list \<Rightarrow> u16 \<Rightarrow> usb_serial \<Rightarrow> (int \<times> usb_serial) outcome" where
  "write_loop E intr buffer sz s =
     (if sz = 0 then Returns (0, s)
      else case rd E UDFNUML s of (f, s1) \<Rightarrow>
        and_then (tx_wait E (f + TRANSMIT_TIMEOUT) intr s1) (\<lambda>(ready, intr, s2).
          if \<not> ready then Returns (-1, s2)
          else case rd E UEBCLX s2 of (n, s3) \<Rightarrow>
            let w = of_nat CDC_TX_SIZE - n;
                write_size = (if unat w > unat sz then ucast sz else w) in
            and_then (fifo_fill E (table_count write_size) buffer s3) (\<lambda>(buffer', s4).
              write_loop E intr buffer' (sz - ucast write_size) (tx_end E intr s4))))"

definition usb_serial_write :: "usb_serial usb_world \<Rightarrow> u8 list \<Rightarrow> u16 \<Rightarrow> usb_serial \<Rightarrow> (int \<times> usb_serial) outcome" where
  "usb_serial_write E buffer sz s =
     (case tx_begin E s of (go, intr, s1) \<Rightarrow>
        if \<not> go then Returns (-1, s1) else write_loop E intr buffer sz s1)"

definition usb_serial_flush_output :: "usb_serial usb_world \<Rightarrow> usb_serial \<Rightarrow> usb_serial" where
  "usb_serial_flush_output E s =
     (case save_cli E s of (intr, s1) \<Rightarrow>
        restore intr
          (if transmit_flush_timer s1 \<noteq> 0
           then (wr E UEINTX 0x3A (wr E UENUM CDC_TX_ENDPOINT s1))\<lparr>transmit_flush_timer := 0\<rparr>
           else s1))"

definition usb_serial_get_baud :: "usb_serial \<Rightarrow> u32" where
  "usb_serial_get_baud s =
     (let c = cdc_line_coding s in
      ucast (c ! 0) OR push_bit 8 (ucast (c ! 1)) OR push_bit 16 (ucast (c ! 2)) OR push_bit 24 (ucast (c ! 3)))"

definition usb_serial_get_stopbits :: "usb_serial \<Rightarrow> u8" where
  "usb_serial_get_stopbits s = cdc_line_coding s ! 4"

definition usb_serial_get_paritytype :: "usb_serial \<Rightarrow> u8" where
  "usb_serial_get_paritytype s = cdc_line_coding s ! 5"

definition usb_serial_get_numbits :: "usb_serial \<Rightarrow> u8" where
  "usb_serial_get_numbits s = cdc_line_coding s ! 6"

definition usb_serial_get_control :: "usb_serial \<Rightarrow> u8" where
  "usb_serial_get_control s = cdc_line_rtsdtr s"

definition usb_serial_set_control :: "usb_serial usb_world \<Rightarrow> u8 \<Rightarrow> usb_serial \<Rightarrow> int \<times> usb_serial" where
  "usb_serial_set_control E signals s =
     (case save_cli E s of (intr, s1) \<Rightarrow>
        if usb_configuration s1 = 0 then (-1, restore intr s1)
        else case rd E UEINTX (wr E UENUM CDC_ACM_ENDPOINT s1) of (u, s2) \<Rightarrow>
          if \<not> bit u RWAL then (-1, restore intr s2)
          else (0, restore intr (wr E UEINTX 0x3A
            (fold (wr E UEDATX) [0xA1, 0x20, 0, 0, 0, 0, 1, 0, signals] s2))))"

subsection \<open>Interrupt handlers\<close>

text \<open>The controller clears the interrupt flag at the entry of a handler and \<^verbatim>\<open>reti\<close> sets it.\<close>

definition USB_GEN_vect :: "usb_serial usb_world \<Rightarrow> usb_serial \<Rightarrow> usb_serial" where
  "USB_GEN_vect E s =
     (case rd E UDINT (s\<lparr>ien := False\<rparr>) of (intbits, s1) \<Rightarrow>
        let s2 = wr E UDINT 0 s1;
            s3 = (if bit intbits EORSTI then
                    (wr E UEIENX (push_bit 3 1)
                      (wr E UECFG1X (EP_SIZE ENDPOINT0_SIZE OR EP_SINGLE_BUFFER)
                        (wr E UECFG0X 0x00 (wr E UECONX 1 (wr E UENUM 0 s2)))))
                      \<lparr>usb_configuration := 0, cdc_line_rtsdtr := 0\<rparr>
                  else s2);
            t = transmit_flush_timer s3 - 1;
            s4 = (if bit intbits SOFI \<and> usb_configuration s3 \<noteq> 0 \<and> transmit_flush_timer s3 \<noteq> 0 then
                    if t = 0 then wr E UEINTX 0x3A (wr E UENUM CDC_TX_ENDPOINT (s3\<lparr>transmit_flush_timer := t\<rparr>))
                    else s3\<lparr>transmit_flush_timer := t\<rparr>
                  else s3)
        in s4\<lparr>ien := True\<rparr>)"

definition usb_wait_in_ready :: "usb_serial usb_world \<Rightarrow> usb_serial \<Rightarrow> usb_serial outcome" where
  "usb_wait_in_ready E s = and_then (wait_for E UEINTX (push_bit TXINI 1) s) (\<lambda>(_, s1). Returns s1)"

definition usb_send_in :: "usb_serial usb_world \<Rightarrow> usb_serial \<Rightarrow> usb_serial" where
  "usb_send_in E s = wr E UEINTX (NOT (push_bit TXINI 1)) s"

definition usb_wait_receive_out :: "usb_serial usb_world \<Rightarrow> usb_serial \<Rightarrow> usb_serial outcome" where
  "usb_wait_receive_out E s = and_then (wait_for E UEINTX (push_bit RXOUTI 1) s) (\<lambda>(_, s1). Returns s1)"

definition usb_ack_out :: "usb_serial usb_world \<Rightarrow> usb_serial \<Rightarrow> usb_serial" where
  "usb_ack_out E s = wr E UEINTX (NOT (push_bit RXOUTI 1)) s"

definition stall :: "usb_serial usb_world \<Rightarrow> usb_serial \<Rightarrow> usb_serial" where
  "stall E s = wr E UECONX (push_bit STALLRQ 1 OR 1) s"

fun find_descriptor :: "descriptor_list_struct list \<Rightarrow> u16 \<Rightarrow> u16 \<Rightarrow> (u8 list \<times> u8) option" where
  "find_descriptor [] v i = None"
| "find_descriptor (d # ds) v i =
     (if dl_wValue d \<noteq> v then find_descriptor ds v i
      else if dl_wIndex d \<noteq> i then find_descriptor ds v i
      else Some (dl_addr d, dl_length d))"

text \<open>The packets of a descriptor; a packet of the host in the other direction aborts.\<close>

function send_descriptor :: "usb_serial usb_world \<Rightarrow> u8 list \<Rightarrow> u8 \<Rightarrow> usb_serial \<Rightarrow> usb_serial outcome" where
  "send_descriptor E addr len s =
     and_then (wait_for E UEINTX (push_bit TXINI 1 OR push_bit RXOUTI 1) s) (\<lambda>(i, s1).
       if bit i RXOUTI then Returns s1
       else let n = (if len < of_nat ENDPOINT0_SIZE then len else of_nat ENDPOINT0_SIZE) in
         and_then (fifo_fill E (unat n) addr s1) (\<lambda>(addr', s2).
           let s3 = usb_send_in E s2 in
           if len - n \<noteq> 0 \<or> n = of_nat ENDPOINT0_SIZE then send_descriptor E addr' (len - n) s3
           else Returns s3))"
  by pat_completeness auto
termination
proof (relation "measure (\<lambda>(E, addr, len, s). unat len)")
  fix E addr s i and len n :: u8
  assume n: "n = (if len < of_nat ENDPOINT0_SIZE then len else of_nat ENDPOINT0_SIZE)"
    and "len - n \<noteq> 0 \<or> n = of_nat ENDPOINT0_SIZE"
  then have "16 \<le> len" "n = 16" by (auto split: if_splits)
  then have "unat (len - n) = unat len - 16" "16 \<le> unat len"
    by (auto simp: unat_sub word_le_nat_alt)
  then show "((E, addr', len - n, s'), (E, addr, len, s)) \<in> measure (\<lambda>(E, addr, len, s). unat len)"
    for E :: "usb_serial usb_world" and addr' addr :: "u8 list" and s' s :: usb_serial by simp
qed auto

declare send_descriptor.simps [simp del]

fun configure_endpoints :: "usb_serial usb_world \<Rightarrow> nat \<Rightarrow> u8 \<Rightarrow> u8 list \<Rightarrow> usb_serial \<Rightarrow> usb_serial outcome" where
  "configure_endpoints E 0 i cfg s = Returns s"
| "configure_endpoints E (Suc k) i [] s = Faults OutOfBounds"
| "configure_endpoints E (Suc k) i (en # cfg) s =
     (let s1 = wr E UECONX en (wr E UENUM i s) in
      if en \<noteq> 0 then
        (case cfg of
           c0 # c1 # cfg' \<Rightarrow> configure_endpoints E k (i + 1) cfg' (wr E UECFG1X c1 (wr E UECFG0X c0 s1))
         | _ \<Rightarrow> Faults OutOfBounds)
      else configure_endpoints E k (i + 1) cfg s1)"

abbreviation (input) "GET_STATUS \<equiv> 0 :: u8"
abbreviation (input) "CLEAR_FEATURE \<equiv> 1 :: u8"
abbreviation (input) "SET_FEATURE \<equiv> 3 :: u8"
abbreviation (input) "SET_ADDRESS \<equiv> 5 :: u8"
abbreviation (input) "GET_DESCRIPTOR \<equiv> 6 :: u8"
abbreviation (input) "GET_CONFIGURATION \<equiv> 8 :: u8"
abbreviation (input) "SET_CONFIGURATION \<equiv> 9 :: u8"
abbreviation (input) "CDC_SET_LINE_CODING \<equiv> 0x20 :: u8"
abbreviation (input) "CDC_GET_LINE_CODING \<equiv> 0x21 :: u8"
abbreviation (input) "CDC_SET_CONTROL_LINE_STATE \<equiv> 0x22 :: u8"
abbreviation (input) "MAX_ENDPOINT \<equiv> 4 :: u8"

definition get_descriptor :: "usb_serial usb_world \<Rightarrow> u16 \<Rightarrow> u16 \<Rightarrow> u16 \<Rightarrow> usb_serial \<Rightarrow> usb_serial outcome" where
  "get_descriptor E wValue wIndex wLength s =
     (case find_descriptor descriptor_list wValue wIndex of
        None \<Rightarrow> Returns (stall E s)
      | Some (desc_addr, desc_length) \<Rightarrow>
          let len = (if wLength < 256 then ucast wLength else 255 :: u8);
              len = (if len > desc_length then desc_length else len)
          in send_descriptor E desc_addr len s)"

definition set_configuration :: "usb_serial usb_world \<Rightarrow> u16 \<Rightarrow> usb_serial \<Rightarrow> usb_serial outcome" where
  "set_configuration E wValue s =
     and_then (configure_endpoints E 4 1 endpoint_config_table
       (usb_send_in E (s\<lparr>usb_configuration := ucast wValue, cdc_line_rtsdtr := 0, transmit_flush_timer := 0\<rparr>)))
       (\<lambda>s1. Returns (wr E UERST 0 (wr E UERST 0x1E s1)))"

definition get_status :: "usb_serial usb_world \<Rightarrow> u8 \<Rightarrow> u16 \<Rightarrow> usb_serial \<Rightarrow> usb_serial outcome" where
  "get_status E bmRequestType wIndex s =
     and_then (usb_wait_in_ready E s) (\<lambda>s1.
       if bmRequestType = 0x82 then
         case rd E UECONX (wr E UENUM (ucast wIndex) s1) of (c, s2) \<Rightarrow>
           Returns (usb_send_in E (wr E UEDATX 0 (wr E UEDATX (if bit c STALLRQ then 1 else 0) (wr E UENUM 0 s2))))
       else Returns (usb_send_in E (wr E UEDATX 0 (wr E UEDATX 0 s1))))"

definition endpoint_feature :: "usb_serial usb_world \<Rightarrow> u8 \<Rightarrow> u8 \<Rightarrow> usb_serial \<Rightarrow> usb_serial" where
  "endpoint_feature E bRequest i s =
     (let s1 = wr E UENUM i (usb_send_in E s) in
      if bRequest = SET_FEATURE then stall E s1
      else wr E UERST 0 (wr E UERST (push_bit (unat i) 1) (wr E UECONX (push_bit 4 1 OR push_bit 3 1 OR 1) s1)))"

definition handle_request ::
    "usb_serial usb_world \<Rightarrow> u8 \<Rightarrow> u8 \<Rightarrow> u16 \<Rightarrow> u16 \<Rightarrow> u16 \<Rightarrow> usb_serial \<Rightarrow> usb_serial outcome" where
  "handle_request E bmRequestType bRequest wValue wIndex wLength s =
     (if bRequest = GET_DESCRIPTOR then get_descriptor E wValue wIndex wLength s
      else if bRequest = SET_ADDRESS then
        and_then (usb_wait_in_ready E (usb_send_in E s)) (\<lambda>s1.
          Returns (wr E UDADDR (ucast (wValue OR push_bit 7 1)) s1))
      else if bRequest = SET_CONFIGURATION \<and> bmRequestType = 0 then set_configuration E wValue s
      else if bRequest = GET_CONFIGURATION \<and> bmRequestType = 0x80 then
        and_then (usb_wait_in_ready E s) (\<lambda>s1. Returns (usb_send_in E (wr E UEDATX (usb_configuration s1) s1)))
      else if bRequest = CDC_GET_LINE_CODING \<and> bmRequestType = 0xA1 then
        and_then (usb_wait_in_ready E s) (\<lambda>s1.
          and_then (fifo_fill E 7 (cdc_line_coding s1) s1) (\<lambda>(_, s2). Returns (usb_send_in E s2)))
      else if bRequest = CDC_SET_LINE_CODING \<and> bmRequestType = 0x21 then
        and_then (usb_wait_receive_out E s) (\<lambda>s1.
          case read_fifo E 7 s1 of (bs, s2) \<Rightarrow>
            Returns (usb_send_in E (usb_ack_out E (s2\<lparr>cdc_line_coding := bs\<rparr>))))
      else if bRequest = CDC_SET_CONTROL_LINE_STATE \<and> bmRequestType = 0x21 then
        and_then (usb_wait_in_ready E (s\<lparr>cdc_line_rtsdtr := ucast wValue\<rparr>)) (\<lambda>s1. Returns (usb_send_in E s1))
      else if bRequest = GET_STATUS then get_status E bmRequestType wIndex s
      else if (bRequest = CLEAR_FEATURE \<or> bRequest = SET_FEATURE) \<and> bmRequestType = 0x02 \<and> wValue = 0
        \<and> 1 \<le> (ucast wIndex AND 0x7F :: u8) \<and> (ucast wIndex AND 0x7F :: u8) \<le> MAX_ENDPOINT
      then Returns (endpoint_feature E bRequest (ucast wIndex AND 0x7F) s)
      else Returns (stall E s))"

definition USB_COM_vect :: "usb_serial usb_world \<Rightarrow> usb_serial \<Rightarrow> usb_serial outcome" where
  "USB_COM_vect E s =
     (case rd E UEINTX (wr E UENUM 0 (s\<lparr>ien := False\<rparr>)) of (intbits, s1) \<Rightarrow>
        and_then
          (if bit intbits RXSTPI then
             case read_fifo E 8 s1 of (p, s2) \<Rightarrow>
               handle_request E (p ! 0) (p ! 1) (le16 (p ! 2) (p ! 3)) (le16 (p ! 4) (p ! 5)) (le16 (p ! 6) (p ! 7))
                 (wr E UEINTX (NOT (push_bit RXSTPI 1 OR push_bit RXOUTI 1 OR push_bit TXINI 1)) s2)
           else Returns (stall E s1))
          (\<lambda>s3. Returns (s3\<lparr>ien := True\<rparr>)))"

text \<open>
  \<^verbatim>\<open>send_str\<close> of \<^verbatim>\<open>hardware/usb.c\<close>: the characters up to the terminating zero, and what
  \<^verbatim>\<open>usb_serial_putchar\<close> returns is ignored.
\<close>

fun send_str :: "usb_serial usb_world \<Rightarrow> u8 list \<Rightarrow> usb_serial \<Rightarrow> usb_serial outcome" where
  "send_str E [] s = Faults OutOfBounds"
| "send_str E (c # flash) s =
     (if c = 0 then Returns s
      else and_then (usb_serial_putchar E c s) (\<lambda>(_, s1). send_str E flash s1))"

text \<open>Without a configuration a string is dropped without a trace, whatever it says.\<close>

lemma send_str_unconfigured:
  "irq E = (\<lambda>s. s) \<Longrightarrow> usb_configuration s = 0 \<Longrightarrow> 0 \<in> set flash \<Longrightarrow> send_str E flash s = Returns s"
  by (induction flash) (auto simp: usb_serial_putchar_def tx_begin_def configured_def gap_def)

end
