(* ===== verification/UsbSerialClaims.thy ===== *)
theory UsbSerialClaims
  imports UsbSerial
begin

text \<open>
  What the controller makes of the recorded accesses: the bytes stored in the buffer of each
  endpoint and the packets sent on endpoint 0, and what the functions of the serial port do in
  these terms.
\<close>

unbundle bit_operations_syntax

lemma configured_masked [simp]: "\<not> ien s \<Longrightarrow> configured E s = (usb_configuration s \<noteq> 0, s)"
  by (simp add: configured_def gap_def)

lemma set_flush_masked [simp]: "\<not> ien s \<Longrightarrow> set_flush E v s = s\<lparr>transmit_flush_timer := v\<rparr>"
  by (simp add: set_flush_def gap_def)

lemma timer_restore [simp]: "transmit_flush_timer (restore i s) = transmit_flush_timer s"
  by (simp add: restore_def)

subsection \<open>Writing a buffer\<close>

definition same_data :: "usb_serial \<Rightarrow> usb_serial \<Rightarrow> bool" where
  "same_data s s' \<longleftrightarrow> \<not> ien s' \<and> selected (io_log s') = CDC_TX_ENDPOINT \<and> (\<forall>e. fed e (io_log s') = fed e (io_log s))"

lemma tx_wait_quiet:
  assumes "tx_wait E t intr s = Some y" and "\<not> intr" "\<not> ien s" "selected (io_log s) = CDC_TX_ENDPOINT"
  shows "\<exists>ready s'. y = Inr (ready, False, s') \<and> same_data s s'"
proof -
  let ?Q = "\<lambda>(E :: usb_serial usb_world) (t :: u8) (intr :: bool) (s :: usb_serial) (y :: fault + bool \<times> bool \<times> usb_serial).
    \<not> intr \<longrightarrow> \<not> ien s \<longrightarrow> selected (io_log s) = CDC_TX_ENDPOINT \<longrightarrow>
    (\<exists>ready s'. y = Inr (ready, False, s') \<and> same_data s s')"
  have "?Q E t intr s y"
  proof (rule tx_wait.raw_induct [where P = ?Q, OF _ assms(1)])
    fix f E t intr s y
    assume IH: "\<And>E t intr s y. f E t intr s = Some y \<Longrightarrow> ?Q E t intr s y"
      and eq: "(case rd E UEINTX s of (c, s1) \<Rightarrow>
        if bit c RWAL then Returns (True, intr, s1)
        else case rd E UDFNUML (restore intr s1) of (g, s2) \<Rightarrow>
          if g = t then Returns (False, intr, s2\<lparr>transmit_previous_timeout := 1\<rparr>)
          else case configured E s2 of (on, s3) \<Rightarrow>
            if \<not> on then Returns (False, intr, s3)
            else case save_cli E s3 of (intr', s4) \<Rightarrow>
              f E t intr' (wr E UENUM CDC_TX_ENDPOINT s4)) = Some y"
    show "?Q E t intr s y"
    proof (intro impI)
      assume a: "\<not> intr" "\<not> ien s" "selected (io_log s) = CDC_TX_ENDPOINT"
      then show "\<exists>ready s'. y = Inr (ready, False, s') \<and> same_data s s'"
        using eq by (auto simp: same_data_def split: if_splits dest!: IH)
    qed
  qed
  with assms show ?thesis by blast
qed

lemma tx_end_masked:
  assumes "\<not> ien s"
  shows "\<not> ien (tx_end E False s) \<and> selected (io_log (tx_end E False s)) = selected (io_log s) \<and>
    fed e (io_log (tx_end E False s)) = fed e (io_log s)"
  using assms by (simp add: tx_end_def restore_def split: prod.splits)

lemma write_size:
  assumes "unat n \<le> 64" and "ws = (if unat (64 - n :: u8) > unat sz then ucast sz else 64 - n)"
  shows "table_count ws = unat ws" and "unat ws \<le> unat (sz :: u16)" and "unat (sz - ucast ws) = unat sz - unat ws"
    and "unat ws \<le> 64"
proof -
  have n: "unat (64 - n) = 64 - unat n"
    using assms(1) by (simp add: unat_sub word_le_nat_alt)
  have "unat (ucast sz :: u8) = unat sz" if "unat sz < 64"
    using that by (simp add: unsigned_ucast_eq take_bit_nat_eq_self)
  then have w: "unat ws = min (64 - unat n) (unat sz)"
    using n assms(2) by auto
  then show "unat ws \<le> 64" and ws: "unat ws \<le> unat sz" by auto
  then show "table_count ws = unat ws" by (simp add: table_count_def)
  show "unat (sz - ucast ws) = unat sz - unat ws"
    using ws by (simp add: unat_sub word_le_nat_alt)
qed

definition feeds :: "u8 list \<Rightarrow> nat \<Rightarrow> usb_serial \<Rightarrow> int \<Rightarrow> usb_serial \<Rightarrow> bool" where
  "feeds buffer n s c s' \<longleftrightarrow>
     (\<exists>k \<le> n. fed CDC_TX_ENDPOINT (io_log s') = fed CDC_TX_ENDPOINT (io_log s) @ take k buffer \<and> (c = 0 \<longrightarrow> k = n)) \<and>
     (\<forall>e. e \<noteq> CDC_TX_ENDPOINT \<longrightarrow> fed e (io_log s') = fed e (io_log s))"

lemma feeds_step:
  assumes "feeds (drop k buffer) (n - k) s1 c s'" and "k \<le> n" "n \<le> length buffer"
    and "fed CDC_TX_ENDPOINT (io_log s1) = fed CDC_TX_ENDPOINT (io_log s) @ take k buffer"
    and "\<And>e. e \<noteq> CDC_TX_ENDPOINT \<Longrightarrow> fed e (io_log s1) = fed e (io_log s)"
  shows "feeds buffer n s c s'"
proof -
  obtain j where j: "j \<le> n - k" "c = 0 \<longrightarrow> j = n - k"
    "fed CDC_TX_ENDPOINT (io_log s') = fed CDC_TX_ENDPOINT (io_log s1) @ take j (drop k buffer)"
    using assms(1) by (auto simp: feeds_def)
  then have "fed CDC_TX_ENDPOINT (io_log s') = fed CDC_TX_ENDPOINT (io_log s) @ take (k + j) buffer"
    using assms(4) by (simp add: take_add)
  with j assms show ?thesis
    by (auto simp: feeds_def intro!: exI [of _ "k + j"])
qed

lemma write_loop_feeds:
  assumes "write_loop E intr buffer sz s = Some y" and "\<not> intr" "\<not> ien s"
    and "selected (io_log s) = CDC_TX_ENDPOINT" "unat sz \<le> length buffer" "\<forall>l. unat (hw E l UEBCLX) \<le> 64"
  shows "\<exists>c s'. y = Inr (c, s') \<and> feeds buffer (unat sz) s c s'"
proof -
  let ?Q = "\<lambda>(E :: usb_serial usb_world) (intr :: bool) (buffer :: u8 list) (sz :: u16) (s :: usb_serial)
      (y :: fault + int \<times> usb_serial). \<not> intr \<longrightarrow> \<not> ien s \<longrightarrow> selected (io_log s) = CDC_TX_ENDPOINT \<longrightarrow>
    unat sz \<le> length buffer \<longrightarrow> (\<forall>l. unat (hw E l UEBCLX) \<le> 64) \<longrightarrow>
    (\<exists>c s'. y = Inr (c, s') \<and> feeds buffer (unat sz) s c s')"
  have "?Q E intr buffer sz s y"
  proof (rule write_loop.raw_induct [where P = ?Q, OF _ assms(1)])
    fix f E intr buffer sz s y
    assume IH: "\<And>E intr buffer sz s y. f E intr buffer sz s = Some y \<Longrightarrow> ?Q E intr buffer sz s y"
      and eq: "(if sz = 0 then Returns (0, s)
      else case rd E UDFNUML s of (g, s1) \<Rightarrow>
        and_then (tx_wait E (g + TRANSMIT_TIMEOUT) intr s1) (\<lambda>(ready, intr, s2).
          if \<not> ready then Returns (-1, s2)
          else case rd E UEBCLX s2 of (n, s3) \<Rightarrow>
            let w = of_nat CDC_TX_SIZE - n;
                write_size = (if unat w > unat sz then ucast sz else w) in
            and_then (fifo_fill E (table_count write_size) buffer s3) (\<lambda>(buffer', s4).
              f E intr buffer' (sz - ucast write_size) (tx_end E intr s4)))) = Some y"
    show "?Q E intr buffer sz s y"
    proof (intro impI)
      assume a: "\<not> intr" "\<not> ien s" "selected (io_log s) = CDC_TX_ENDPOINT" "unat sz \<le> length buffer"
        "\<forall>l. unat (hw E l UEBCLX) \<le> 64"
      show "\<exists>c s'. y = Inr (c, s') \<and> feeds buffer (unat sz) s c s'"
      proof (cases "sz = 0")
        case True
        with eq show ?thesis by (auto simp: feeds_def)
      next
        case False
        define s1 where "s1 = s\<lparr>io_log := Rd UDFNUML (hw E (io_log s) UDFNUML) # io_log s\<rparr>"
        define t where "t = hw E (io_log s) UDFNUML + TRANSMIT_TIMEOUT"
        have s1: "\<not> ien s1" "selected (io_log s1) = CDC_TX_ENDPOINT" "fed e (io_log s1) = fed e (io_log s)" for e
          using a by (simp_all add: s1_def)
        obtain z where z: "tx_wait E t intr s1 = Some z"
          using eq False a by (cases "tx_wait E t intr s1") (auto simp: s1_def t_def)
        obtain ready s2 where w: "z = Inr (ready, False, s2)" and sd: "same_data s1 s2"
          using tx_wait_quiet [OF z a(1) s1(1,2)] by auto
        have s2: "\<not> ien s2" "selected (io_log s2) = CDC_TX_ENDPOINT" "fed e (io_log s2) = fed e (io_log s)" for e
          using sd s1(3) by (simp_all add: same_data_def)
        show ?thesis
        proof (cases ready)
          case False
          with eq \<open>sz \<noteq> 0\<close> a z w s2 show ?thesis
            by (auto simp: s1_def t_def feeds_def)
        next
          case True
          define n where "n = hw E (io_log s2) UEBCLX"
          define s3 where "s3 = s2\<lparr>io_log := Rd UEBCLX n # io_log s2\<rparr>"
          define ws where "ws = (if unat (64 - n) > unat sz then ucast sz else 64 - n)"
          have n: "unat n \<le> 64" using a(5) by (simp add: n_def)
          note ws = write_size [OF n ws_def]
          define s4 where "s4 = s3\<lparr>io_log := rev (map (Wr UEDATX) (take (unat ws) buffer)) @ io_log s3\<rparr>"
          have s3: "\<not> ien s3" "selected (io_log s3) = CDC_TX_ENDPOINT" "fed e (io_log s3) = fed e (io_log s)" for e
            using s2 by (simp_all add: s3_def)
          have fill: "fifo_fill E (unat ws) buffer s3 = Returns (drop (unat ws) buffer, s4)"
            unfolding s4_def by (rule fill_ok) (use s3 ws(2) a(4) in auto)
          have s4: "\<not> ien s4" "selected (io_log s4) = CDC_TX_ENDPOINT"
            "fed e (io_log s4) = (if e = CDC_TX_ENDPOINT then fed e (io_log s) @ take (unat ws) buffer else fed e (io_log s))" for e
            using s3 by (auto simp: s4_def)
          note e5 = tx_end_masked [OF s4(1)]
          have "and_then (fifo_fill E (table_count ws) buffer s3) (\<lambda>(b, s4).
              f E False b (sz - ucast ws) (tx_end E False s4)) = Some y"
            using eq \<open>sz \<noteq> 0\<close> a z w True s2(1)
            by (simp add: s1_def t_def n_def s3_def ws_def Let_def split del: if_split cong: if_cong)
          then have "f E False (drop (unat ws) buffer) (sz - ucast ws) (tx_end E False s4) = Some y"
            by (simp add: ws(1) fill)
          then obtain c s' where y: "y = Inr (c, s')"
            and f: "feeds (drop (unat ws) buffer) (unat sz - unat ws) (tx_end E False s4) c s'"
            using IH [of E False "drop (unat ws) buffer" "sz - ucast ws" "tx_end E False s4" y] e5 s4(2) a(4,5) ws(2,3)
            by auto
          have "feeds buffer (unat sz) s c s'"
            by (rule feeds_step [OF f ws(2) a(4)]) (use e5 s4(3) in simp_all)
          with y show ?thesis by blast
        qed
      qed
    qed
  qed
  with assms show ?thesis by blast
qed

text \<open>A controller that always has room.\<close>

definition takes_data :: "usb_serial usb_world \<Rightarrow> bool" where
  "takes_data E \<longleftrightarrow> (\<forall>l. bit (hw E l UEINTX) RWAL \<and> unat (hw E l UEBCLX) < 64)"

lemma write_loop_returns:
  assumes "takes_data E"
  shows "\<not> ien s \<Longrightarrow> unat sz \<le> length buffer \<Longrightarrow>
    \<exists>s'. write_loop E False buffer sz s = Returns (0, s')"
proof (induction "unat sz" arbitrary: sz buffer s rule: less_induct)
  case less
  show ?case
  proof (cases "sz = 0")
    case True
    then show ?thesis by (subst write_loop.simps) simp
  next
    case False
    define s1 where "s1 = s\<lparr>io_log := Rd UDFNUML (hw E (io_log s) UDFNUML) # io_log s\<rparr>"
    define s2 where "s2 = s1\<lparr>io_log := Rd UEINTX (hw E (io_log s1) UEINTX) # io_log s1\<rparr>"
    define n where "n = hw E (io_log s2) UEBCLX"
    define s3 where "s3 = s2\<lparr>io_log := Rd UEBCLX n # io_log s2\<rparr>"
    define ws where "ws = (if unat (64 - n) > unat sz then ucast sz else 64 - n)"
    have n: "unat n \<le> 64" "unat n < 64" using assms by (simp_all add: n_def takes_data_def less_imp_le)
    note ws = write_size [OF n(1) ws_def]
    have "unat (64 - n) = 64 - unat n" using n by (simp add: unat_sub word_le_nat_alt)
    moreover have "unat sz \<noteq> 0" using False by (simp add: unat_eq_zero)
    ultimately have pos: "0 < unat ws"
      using n(2) by (auto simp: ws_def unsigned_ucast_eq take_bit_nat_eq_self)
    have m: "\<not> ien s1" "\<not> ien s2" "\<not> ien s3" using less.prems by (simp_all add: s1_def s2_def s3_def)
    define s4 where "s4 = s3\<lparr>io_log := rev (map (Wr UEDATX) (take (unat ws) buffer)) @ io_log s3\<rparr>"
    have wait: "tx_wait E t False s1 = Returns (True, False, s2)" for t
      using m(1) assms by (subst tx_wait.simps) (simp add: s2_def takes_data_def)
    have fill: "fifo_fill E (table_count ws) buffer s3 = Returns (drop (unat ws) buffer, s4)"
      unfolding s4_def ws(1) by (rule fill_ok) (use m ws(2) less.prems(2) in auto)
    have "write_loop E False buffer sz s = write_loop E False (drop (unat ws) buffer) (sz - ucast ws) (tx_end E False s4)"
      using False less.prems(1)
      by (subst write_loop.simps)
        (simp add: s1_def [symmetric] wait m n_def [symmetric] s3_def [symmetric] ws_def [symmetric] fill Let_def
          split del: if_split)
    moreover have "\<exists>s'. write_loop E False (drop (unat ws) buffer) (sz - ucast ws) (tx_end E False s4) = Returns (0, s')"
      by (rule less.hyps)
        (use ws pos tx_end_masked [of s4] m(3) less.prems(2) in \<open>simp_all add: s4_def\<close>)
    ultimately show ?thesis by simp
  qed
qed

lemma tx_begin_masked:
  assumes "\<not> ien s" and "tx_begin E s = (True, intr, s1)"
  shows "\<not> intr \<and> \<not> ien s1 \<and> selected (io_log s1) = CDC_TX_ENDPOINT \<and> (\<forall>e. fed e (io_log s1) = fed e (io_log s))"
  using assms by (auto simp: tx_begin_def Let_def split: if_splits)

lemma tx_begin_refused:
  assumes "\<not> ien s" and "tx_begin E s = (False, intr, s1)"
  shows "fed e (io_log s1) = fed e (io_log s)"
  using assms by (auto simp: tx_begin_def Let_def split: if_splits)

text \<open>
  With interrupts off \<^verbatim>\<open>usb_serial_write\<close> never reads past its buffer; what it stores in the
  buffer of the transmit endpoint is a prefix of the data, the whole of it when 0 is returned, and
  no other endpoint gets a byte. On a configured device whose controller takes data it returns 0.
\<close>

lemma usb_serial_write_delivers:
  assumes "\<not> ien s" and "unat sz \<le> length buffer" and "\<forall>l. unat (hw E l UEBCLX) \<le> 64"
  shows "(\<forall>y. usb_serial_write E buffer sz s = Some y \<longrightarrow> (\<exists>c s' k. y = Inr (c, s') \<and> k \<le> unat sz \<and>
      (c = 0 \<longrightarrow> k = unat sz) \<and> fed 4 (io_log s') = fed 4 (io_log s) @ take k buffer \<and>
      (\<forall>e. e \<noteq> 4 \<longrightarrow> fed e (io_log s') = fed e (io_log s)))) \<and>
    (takes_data E \<and> usb_configuration s \<noteq> 0 \<longrightarrow> (\<exists>s'. usb_serial_write E buffer sz s = Returns (0, s')))"
proof (intro conjI allI impI)
  fix y assume y: "usb_serial_write E buffer sz s = Some y"
  obtain go intr s1 where b: "tx_begin E s = (go, intr, s1)" by (metis prod_cases3)
  show "\<exists>c s' k. y = Inr (c, s') \<and> k \<le> unat sz \<and> (c = 0 \<longrightarrow> k = unat sz) \<and>
      fed 4 (io_log s') = fed 4 (io_log s) @ take k buffer \<and>
      (\<forall>e. e \<noteq> 4 \<longrightarrow> fed e (io_log s') = fed e (io_log s))"
  proof (cases go)
    case False
    with b have b: "tx_begin E s = (False, intr, s1)" by simp
    with y tx_begin_refused [OF assms(1) b] show ?thesis
      by (auto simp: usb_serial_write_def intro!: exI [of _ "0 :: nat"])
  next
    case True
    with b have b: "tx_begin E s = (True, intr, s1)" by simp
    note m = tx_begin_masked [OF assms(1) b]
    have "write_loop E intr buffer sz s1 = Some y" using y b by (simp add: usb_serial_write_def)
    then have "\<exists>c s'. y = Inr (c, s') \<and> feeds buffer (unat sz) s1 c s'"
      by (rule write_loop_feeds) (use m assms in simp_all)
    with m show ?thesis by (fastforce simp: feeds_def)
  qed
next
  assume t: "takes_data E \<and> usb_configuration s \<noteq> 0"
  then have "\<exists>s1. tx_begin E s = (True, False, s1) \<and> \<not> ien s1"
    using assms(1) by (simp add: tx_begin_def takes_data_def Let_def)
  then obtain s1 where b: "tx_begin E s = (True, False, s1)" and "\<not> ien s1" by blast
  then show "\<exists>s'. usb_serial_write E buffer sz s = Returns (0, s')"
    using write_loop_returns [of E s1 sz buffer] t assms(2) by (simp add: usb_serial_write_def)
qed

text \<open>A controller whose registers read as constants.\<close>

definition const_regs :: "u8 \<Rightarrow> u8 \<Rightarrow> access list \<Rightarrow> usb_reg \<Rightarrow> u8" where
  "const_regs intx dat l r = (case r of UEINTX \<Rightarrow> intx | UEDATX \<Rightarrow> dat | _ \<Rightarrow> 0)"

subsection \<open>An interrupt between two packets\<close>

text \<open>A host that asks for the status of the device once 64 bytes have been stored.\<close>

definition asking_regs :: "access list \<Rightarrow> usb_reg \<Rightarrow> u8" where
  "asking_regs = const_regs 0x29 0"

definition status_irq :: "usb_serial \<Rightarrow> usb_serial" where
  "status_irq s =
     (if length (fed 4 (io_log s)) = 64 \<and> selected (io_log s) = 4 then
        (case USB_COM_vect \<lparr>hw = asking_regs, irq = id\<rparr> s of Some (Inr s') \<Rightarrow> s' | _ \<Rightarrow> s)
      else s)"

definition asking :: "usb_serial usb_world" where
  "asking = \<lparr>hw = asking_regs, irq = status_irq\<rparr>"

lemma asking_regs [simp]:
  "asking_regs l UEINTX = 0x29" "asking_regs l UEDATX = 0" "asking_regs l UEBCLX = 0" "asking_regs l UDFNUML = 0"
  by (simp_all add: asking_regs_def const_regs_def)

lemma status_isr:
  assumes "selected (io_log s) = 4" and "length (fed 4 (io_log s)) = 64"
  shows "ien (status_irq s) \<and> selected (io_log (status_irq s)) = 0 \<and>
    fed 4 (io_log (status_irq s)) = fed 4 (io_log s) \<and> fed 0 (io_log (status_irq s)) = fed 0 (io_log s) @ [0, 0]"
proof -
  let ?E = "\<lparr>hw = asking_regs, irq = id\<rparr>"
  have w: "wait_for ?E UEINTX 1 t = Returns (0x29, t\<lparr>io_log := Rd UEINTX 0x29 # io_log t\<rparr>)" if "\<not> ien t" for t
    using that by (subst wait_for.simps) simp
  have d: "hw ?E l UEDATX = 0" for l by simp
  have "\<exists>t. USB_COM_vect ?E s = Returns t \<and> ien t \<and> selected (io_log t) = 0 \<and>
      fed 4 (io_log t) = fed 4 (io_log s) \<and> fed 0 (io_log t) = fed 0 (io_log s) @ [0, 0]"
    by (simp add: USB_COM_vect_def read_constant [OF _ d] handle_request_def get_status_def
      usb_wait_in_ready_def usb_send_in_def le16_def w)
  then show ?thesis using assms by (auto simp: status_irq_def)
qed

lemma gap_asking:
  "gap asking s = (if ien s then status_irq s else s)"
  by (simp add: gap_def asking_def)

lemma no_irq: "length (fed 4 (io_log s)) \<noteq> 64 \<or> selected (io_log s) \<noteq> 4 \<Longrightarrow> status_irq s = s"
  by (auto simp: status_irq_def)

lemma idle:
  assumes "selected (io_log s) \<noteq> 4"
  shows "rd asking r s = (asking_regs (io_log s) r, s\<lparr>io_log := Rd r (asking_regs (io_log s) r) # io_log s\<rparr>)"
    and "wr asking r v s = s\<lparr>io_log := Wr r v # io_log s\<rparr>"
    and "set_flush asking v s = s\<lparr>transmit_flush_timer := v\<rparr>"
  using assms by (simp_all add: rd_def wr_def set_flush_def gap_asking no_irq Let_def) (simp_all add: asking_def)

lemma write_second:
  assumes "ien s" "selected (io_log s) = 4" "fed 4 (io_log s) = replicate 64 7" "fed 0 (io_log s) = []"
  shows "\<exists>s'. write_loop asking True [7] 1 s = Returns (0, s') \<and>
    fed 4 (io_log s') = replicate 64 7 \<and> fed 0 (io_log s') = [0, 0, 7]"
proof -
  define t where "t = status_irq s"
  have t: "selected (io_log t) = 0" "fed 4 (io_log t) = replicate 64 7" "fed 0 (io_log t) = [0, 0]"
    using status_isr [of s] assms by (simp_all add: t_def)
  define v where "v = asking_regs (io_log t) UDFNUML"
  define t1 where "t1 = t\<lparr>io_log := Rd UDFNUML v # io_log t\<rparr>"
  have "rd asking UDFNUML s = (v, t1)"
    using assms(1) by (simp add: rd_def gap_asking t_def v_def t1_def Let_def) (simp add: asking_def)
  moreover have "selected (io_log t1) \<noteq> 4" by (simp add: t1_def t(1))
  then have "tx_wait asking (v + TRANSMIT_TIMEOUT) True t1 =
      Returns (True, True, t1\<lparr>io_log := Rd UEINTX 0x29 # io_log t1\<rparr>)"
    by (subst tx_wait.simps) (simp add: idle)
  ultimately have "write_loop asking True [7] 1 s =
      write_loop asking True [] 0 (tx_end asking True
        (t1\<lparr>io_log := Wr UEDATX 7 # Rd UEBCLX 0 # Rd UEINTX 0x29 # io_log t1\<rparr>))"
    by (subst write_loop.simps) (simp add: idle t1_def t(1) table_count_def numeral_eq_Suc [of num.One] Let_def)
  also have "\<dots> = Returns (0, tx_end asking True
        (t1\<lparr>io_log := Wr UEDATX 7 # Rd UEBCLX 0 # Rd UEINTX 0x29 # io_log t1\<rparr>))"
    by (subst write_loop.simps) simp
  finally show ?thesis
    by (simp add: tx_end_def idle t1_def t)
qed


subsection \<open>Descriptors\<close>

fun packets_of :: "u8 list \<Rightarrow> u8 list list" where
  "packets_of bs = (if length bs < 16 then [bs] else take 16 bs # packets_of (drop 16 bs))"

declare packets_of.simps [simp del]

lemma packets_short: "length bs < 16 \<Longrightarrow> packets_of bs = [bs]"
  by (simp add: packets_of.simps)

text \<open>A host that takes every packet.\<close>

definition host_reads :: "usb_serial usb_world \<Rightarrow> bool" where
  "host_reads E \<longleftrightarrow> (\<forall>l. bit (hw E l UEINTX) TXINI \<and> \<not> bit (hw E l UEINTX) RXOUTI)"

definition first_n :: "u8 \<Rightarrow> u8" where "first_n len = (if len < 16 then len else 16)"

lemma send_step:
  "send_descriptor E addr len s =
     and_then (wait_for E UEINTX 5 s) (\<lambda>(i, s1).
       if bit i RXOUTI then Returns s1
       else and_then (fifo_fill E (unat (first_n len)) addr s1) (\<lambda>(addr', s2).
         if len - first_n len \<noteq> 0 \<or> first_n len = 16
         then send_descriptor E addr' (len - first_n len) (usb_send_in E s2)
         else Returns (usb_send_in E s2)))"
proof -
  have "(of_nat ENDPOINT0_SIZE :: u8) = 16" "push_bit TXINI 1 OR push_bit RXOUTI 1 = (5 :: u8)" by simp_all
  then show ?thesis
    unfolding first_n_def by (subst send_descriptor.simps) (simp only: Let_def)
qed

lemma send_descriptor_sends:
  assumes "host_reads E"
  shows "\<not> ien s \<Longrightarrow> selected (io_log s) = 0 \<Longrightarrow> sent_in (io_log s) = (ps, []) \<Longrightarrow> unat len \<le> length addr \<Longrightarrow>
    \<exists>s'. send_descriptor E addr len s = Returns s' \<and>
      sent_in (io_log s') = (ps @ packets_of (take (unat len) addr), [])"
proof (induction "unat len" arbitrary: addr len s ps rule: less_induct)
  case less
  define v where "v = hw E (io_log s) UEINTX"
  define s1 where "s1 = s\<lparr>io_log := Rd UEINTX v # io_log s\<rparr>"
  have "\<not> ien s1" using less.prems(1) by (simp add: s1_def)
  have v: "bit v TXINI" "\<not> bit v RXOUTI" using assms by (simp_all add: v_def host_reads_def)
  have w: "wait_for E UEINTX 5 s = Returns (v, s1)"
    using wait_ready [OF less.prems(1), of E UEINTX TXINI 5] v(1) by (simp add: v_def s1_def)
  define n where "n = first_n len"
  have n: "unat n = min (unat len) 16" by (auto simp: n_def first_n_def word_less_nat_alt)
  define s3 where "s3 = s1\<lparr>io_log := Wr UEINTX (NOT 1) # rev (map (Wr UEDATX) (take (unat n) addr)) @ io_log s1\<rparr>"
  have fill: "and_then (fifo_fill E (unat n) addr s1) g =
      g (drop (unat n) addr, s1\<lparr>io_log := rev (map (Wr UEDATX) (take (unat n) addr)) @ io_log s1\<rparr>)"
    for g :: "u8 list \<times> usb_serial \<Rightarrow> usb_serial outcome"
    using fill_ok [of s1 "unat n" addr E] less.prems n by (simp add: s1_def)
  have step: "send_descriptor E addr len s =
      (if len - n \<noteq> 0 \<or> n = 16 then send_descriptor E (drop (unat n) addr) (len - n) s3 else Returns s3)"
    using \<open>\<not> ien s1\<close>
    by (subst send_step) (simp add: w v(2) n_def [symmetric] fill usb_send_in_def s3_def)
  have s3: "\<not> ien s3" "selected (io_log s3) = 0" "sent_in (io_log s3) = (ps @ [take (unat n) addr], [])"
    using less.prems by (simp_all add: s3_def s1_def)
  show ?case
  proof (cases "len < 16")
    case True
    then have nl: "n = len" by (simp add: n_def first_n_def)
    have small: "unat len < 16" using True by (simp add: word_less_nat_alt)
    then have "len \<noteq> 16" by auto
    then have "send_descriptor E addr len s = Returns s3" using step by (simp add: nl)
    moreover have "packets_of (take (unat len) addr) = [take (unat len) addr]"
      using small by (simp add: packets_short)
    ultimately show ?thesis using s3(3) by (simp add: nl)
  next
    case False
    then have len: "16 \<le> unat len" "n = 16" by (auto simp: n_def first_n_def word_less_nat_alt)
    then have sub: "unat (len - n) = unat len - 16" by (simp add: unat_sub word_le_nat_alt)
    have "\<exists>s'. send_descriptor E (drop 16 addr) (len - n) s3 = Returns s' \<and>
        sent_in (io_log s') = ((ps @ [take 16 addr]) @ packets_of (take (unat (len - n)) (drop 16 addr)), [])"
      by (rule less.hyps) (use s3 len sub less.prems(4) in simp_all)
    moreover have "packets_of (take (unat len) addr) = take 16 addr # packets_of (take (unat len - 16) (drop 16 addr))"
      using len less.prems(4) by (subst packets_of.simps) (simp add: drop_take min_def)
    ultimately show ?thesis using step len sub by simp
  qed
qed

lemma descriptor_sizes:
  "find_descriptor descriptor_list v i = Some (addr, n) \<Longrightarrow> unat n \<le> length addr"
  by (auto simp: descriptor_list_def device_descriptor_def config1_descriptor_def string_descriptor_def wide_def
    STR_MANUFACTURER_def STR_PRODUCT_def STR_SERIAL_NUMBER_def split: if_splits)

text \<open>
  A descriptor request that names an entry of the table is answered with the first
  \<open>wLength\<close> bytes of that descriptor in packets of 16, ended by a shorter packet (empty when the
  length is a multiple of 16).
\<close>

lemma get_descriptor_answers:
  assumes "\<not> ien s" and "selected (io_log s) = 0" and "sent_in (io_log s) = (ps, [])" and "host_reads E"
    and "find_descriptor descriptor_list wValue wIndex = Some (addr, n)"
  shows "\<exists>s'. handle_request E rt GET_DESCRIPTOR wValue wIndex wLength s = Returns s' \<and>
    sent_in (io_log s') = (ps @ packets_of (take (unat wLength) (take (unat n) addr)), [])"
proof -
  define len where "len = (if wLength < 256 then ucast wLength else 255 :: u8)"
  have len: "unat len = min (unat wLength) 255"
    by (auto simp: len_def word_less_nat_alt unsigned_ucast_eq take_bit_nat_eq_self)
  define k where "k = (if len > n then n else len)"
  have k: "unat k = min (unat wLength) (unat n)"
  proof -
    have "unat k = min (unat n) (unat len)" by (auto simp: k_def word_less_nat_alt)
    then show ?thesis using len unat_u8_less [of n] by linarith
  qed
  have size: "unat k \<le> length addr" using descriptor_sizes [OF assms(5)] k by simp
  have "handle_request E rt GET_DESCRIPTOR wValue wIndex wLength s = send_descriptor E addr k s"
    using assms(5) by (simp add: handle_request_def get_descriptor_def Let_def len_def k_def)
  with send_descriptor_sends [OF assms(4,1,2,3) size] k show ?thesis
    by (simp add: take_take min.commute)
qed

subsection \<open>One character and its flush\<close>

lemma tx_wait_ready:
  assumes "tx_wait E t intr s = Returns (True, intr', s')" and "\<not> ien s" "selected (io_log s) = CDC_TX_ENDPOINT"
  shows "\<not> ien s' \<and> selected (io_log s') = CDC_TX_ENDPOINT"
proof -
  let ?Q = "\<lambda>(E :: usb_serial usb_world) (t :: u8) (intr :: bool) (s :: usb_serial) (y :: fault + bool \<times> bool \<times> usb_serial).
    \<not> ien s \<longrightarrow> selected (io_log s) = CDC_TX_ENDPOINT \<longrightarrow>
    (\<forall>intr' s'. y = Inr (True, intr', s') \<longrightarrow> \<not> ien s' \<and> selected (io_log s') = CDC_TX_ENDPOINT)"
  have "?Q E t intr s (Inr (True, intr', s'))"
  proof (rule tx_wait.raw_induct [where P = ?Q, OF _ assms(1)])
    fix f E t intr s y
    assume IH: "\<And>E t intr s y. f E t intr s = Some y \<Longrightarrow> ?Q E t intr s y"
      and eq: "(case rd E UEINTX s of (c, s1) \<Rightarrow>
        if bit c RWAL then Returns (True, intr, s1)
        else case rd E UDFNUML (restore intr s1) of (g, s2) \<Rightarrow>
          if g = t then Returns (False, intr, s2\<lparr>transmit_previous_timeout := 1\<rparr>)
          else case configured E s2 of (on, s3) \<Rightarrow>
            if \<not> on then Returns (False, intr, s3)
            else case save_cli E s3 of (intr', s4) \<Rightarrow>
              f E t intr' (wr E UENUM CDC_TX_ENDPOINT s4)) = Some y"
    show "?Q E t intr s y"
    proof (intro impI)
      assume a: "\<not> ien s" "selected (io_log s) = CDC_TX_ENDPOINT"
      then show "\<forall>intr' s'. y = Inr (True, intr', s') \<longrightarrow> \<not> ien s' \<and> selected (io_log s') = CDC_TX_ENDPOINT"
        using eq
        by (auto simp: save_cli_def Let_def split: if_splits prod.splits dest!: IH)
    qed
  qed
  with assms show ?thesis by blast
qed

lemma tx_begin_ready:
  assumes "tx_begin E s = (True, intr, s1)"
  shows "\<not> ien s1 \<and> selected (io_log s1) = CDC_TX_ENDPOINT"
  using assms by (auto simp: tx_begin_def save_cli_def Let_def split: if_splits prod.splits)

lemma putchar_done:
  assumes "usb_serial_putchar E c s = Returns (0, s1)"
  shows "transmit_flush_timer s1 = 5 \<and> (\<exists>l l'. io_log s1 = l' @ Wr UEDATX c # l \<and> selected l = 4 \<and>
    (\<forall>b. Wr UEDATX b \<notin> set l'))"
proof -
  obtain intr s2 where b: "tx_begin E s = (True, intr, s2)"
    using assms by (cases "tx_begin E s") (auto simp: usb_serial_putchar_def split: if_splits)
  note m = tx_begin_ready [OF b]
  obtain t s3 where t: "tx_wait E t intr (s2\<lparr>io_log := Rd UDFNUML (t - TRANSMIT_TIMEOUT) # io_log s2\<rparr>) = Returns (True, s3)"
      "s1 = tx_end E (fst s3) (wr E UEDATX c (snd s3))"
    using assms b m
    by (auto simp: usb_serial_putchar_def and_then_Returns split: if_splits)
      (metis add_diff_cancel_right')
  obtain i s4 where s3: "s3 = (i, s4)" by (cases s3)
  have r: "\<not> ien s4" "selected (io_log s4) = CDC_TX_ENDPOINT"
    using tx_wait_ready [OF t(1) [unfolded s3]] m by simp_all
  define u where "u = hw E (Wr UEDATX c # io_log s4) UEINTX"
  have "io_log s1 = (if bit u RWAL then [] else [Wr UEINTX 0x3A]) @ [Rd UEINTX u] @ Wr UEDATX c # io_log s4"
    "transmit_flush_timer s1 = 5"
    using t(2) s3 r by (simp_all add: tx_end_def u_def)
  then show ?thesis
    using r(2)
    by (intro conjI exI [of _ "io_log s4"] exI [of _ "(if bit u RWAL then [] else [Wr UEINTX 0x3A]) @ [Rd UEINTX u]"])
      auto
qed

definition frame_log :: "access list" where
  "frame_log = [Wr UDINT 0, Rd UDINT 4]"

lemma frame_step:
  assumes "\<forall>l. hw E l UDINT = 4" and "usb_configuration s \<noteq> 0" and "transmit_flush_timer s \<noteq> 0"
  shows "usb_configuration (USB_GEN_vect E s) = usb_configuration s"
    "transmit_flush_timer (USB_GEN_vect E s) = transmit_flush_timer s - 1"
    "io_log (USB_GEN_vect E s) =
      (if transmit_flush_timer s - 1 = 0 then [Wr UEINTX 0x3A, Wr UENUM 4] else []) @ frame_log @ io_log s"
  using assms by (simp_all add: USB_GEN_vect_def frame_log_def Let_def)

lemma frames:
  assumes "\<forall>l. hw E l UDINT = 4" and "usb_configuration s \<noteq> 0" and "transmit_flush_timer s = 5"
  shows "k \<le> 4 \<Longrightarrow> usb_configuration ((USB_GEN_vect E ^^ k) s) \<noteq> 0 \<and>
    transmit_flush_timer ((USB_GEN_vect E ^^ k) s) = 5 - of_nat k \<and>
    io_log ((USB_GEN_vect E ^^ k) s) = concat (replicate k frame_log) @ io_log s"
proof (induction k)
  case (Suc k)
  let ?t = "(USB_GEN_vect E ^^ k) s"
  have "k = 0 \<or> k = 1 \<or> k = 2 \<or> k = 3" using Suc.prems by auto
  then have "(5 - of_nat k :: u8) \<noteq> 0" "(5 - of_nat k - 1 :: u8) \<noteq> 0" by auto
  moreover have t: "usb_configuration ?t \<noteq> 0" "transmit_flush_timer ?t = 5 - of_nat k"
    "io_log ?t = concat (replicate k frame_log) @ io_log s"
    using Suc by simp_all
  moreover have "(5 - of_nat (Suc k) :: u8) = 5 - of_nat k - 1" by simp
  ultimately show ?case
    using frame_step [OF assms(1) t(1)] by simp
qed (use assms in simp)

text \<open>
  A character for which \<^verbatim>\<open>usb_serial_putchar\<close> returns 0 was stored with the transmit endpoint
  selected and is the last byte stored, whatever interrupts came; if nothing follows, the buffer is
  released at exactly the fifth start of frame.
\<close>

lemma putchar_flushes:
  assumes "usb_serial_putchar E c s = Returns (0, s1)" and "\<forall>l. hw E l UDINT = 4" and "usb_configuration s1 \<noteq> 0"
  shows "(\<exists>l l'. io_log s1 = l' @ Wr UEDATX c # l \<and> selected l = 4 \<and> (\<forall>b. Wr UEDATX b \<notin> set l')) \<and>
    (\<forall>k \<le> 4. io_log ((USB_GEN_vect E ^^ k) s1) = concat (replicate k frame_log) @ io_log s1) \<and>
    io_log ((USB_GEN_vect E ^^ 5) s1) =
      [Wr UEINTX 0x3A, Wr UENUM 4] @ concat (replicate 5 frame_log) @ io_log s1"
proof -
  note d = putchar_done [OF assms(1)]
  note f = frames [OF assms(2,3) d [THEN conjunct1]]
  have "io_log (USB_GEN_vect E ((USB_GEN_vect E ^^ 4) s1)) =
      [Wr UEINTX 0x3A, Wr UENUM 4] @ frame_log @ concat (replicate 4 frame_log) @ io_log s1"
    using frame_step [OF assms(2), of "(USB_GEN_vect E ^^ 4) s1"] f [of 4] by simp
  moreover have "(USB_GEN_vect E ^^ 5) s1 = USB_GEN_vect E ((USB_GEN_vect E ^^ 4) s1)"
    and "concat (replicate 5 frame_log) = frame_log @ concat (replicate 4 frame_log)"
    by (simp_all add: numeral_eq_Suc)
  ultimately show ?thesis using d f by simp
qed

definition frame_regs :: "access list \<Rightarrow> usb_reg \<Rightarrow> u8" where
  "frame_regs l r = (case r of UEINTX \<Rightarrow> 0x20 | UDINT \<Rightarrow> 4 | _ \<Rightarrow> 0)"

end
