(* ===== verification/RingBuffer.thy ===== *)
theory RingBuffer
  imports Prelude
begin

text \<open>
  The byte ring buffer of \<^verbatim>\<open>Drivers/Misc/RingBuffer.h\<close> and its refinement of a bounded queue. One
  side may run in an interrupt: where the interrupt flag is set an interrupt may come before each
  access to the structure. Pointers are indices into the memory, an access outside of it is a fault.
\<close>

subsection \<open>State and operations\<close>

record ring =
  ram :: "u8 list"
  In :: nat
  Out :: nat
  Start :: nat
  End :: nat
  Capacity :: u16
  Count :: u16
  gie :: bool

definition window :: "('a ring_scheme \<Rightarrow> 'a ring_scheme) \<Rightarrow> 'a ring_scheme \<Rightarrow> 'a ring_scheme" where
  "window irq s = (if gie s then irq s else s)"

text \<open>\<^verbatim>\<open>GetGlobalInterruptMask(); GlobalInterruptDisable();\<close> and \<^verbatim>\<open>SetGlobalInterruptMask\<close>.\<close>

definition lock :: "('a ring_scheme \<Rightarrow> 'a ring_scheme) \<Rightarrow> 'a ring_scheme \<Rightarrow> bool \<times> 'a ring_scheme" where
  "lock irq s = (let s1 = window irq s in (gie s1, s1\<lparr>gie := False\<rparr>))"

definition unlock :: "bool \<Rightarrow> 'a ring_scheme \<Rightarrow> 'a ring_scheme" where
  "unlock i s = s\<lparr>gie := i\<rparr>"

definition RingBuffer_InitBuffer ::
    "('a ring_scheme \<Rightarrow> 'a ring_scheme) \<Rightarrow> nat \<Rightarrow> u16 \<Rightarrow> 'a ring_scheme \<Rightarrow> 'a ring_scheme" where
  "RingBuffer_InitBuffer irq DataPtr n s =
     (case lock irq s of (i, s1) \<Rightarrow>
        unlock i (s1\<lparr>In := DataPtr, Out := DataPtr, Start := DataPtr, End := DataPtr + unat n,
          Capacity := n, Count := 0\<rparr>))"

definition RingBuffer_GetCount ::
    "('a ring_scheme \<Rightarrow> 'a ring_scheme) \<Rightarrow> 'a ring_scheme \<Rightarrow> u16 \<times> 'a ring_scheme" where
  "RingBuffer_GetCount irq s = (case lock irq s of (i, s1) \<Rightarrow> (Count s1, unlock i s1))"

definition RingBuffer_GetFreeCount ::
    "('a ring_scheme \<Rightarrow> 'a ring_scheme) \<Rightarrow> 'a ring_scheme \<Rightarrow> u16 \<times> 'a ring_scheme" where
  "RingBuffer_GetFreeCount irq s = (case RingBuffer_GetCount irq s of (c, s1) \<Rightarrow> (Capacity s1 - c, s1))"

definition RingBuffer_IsEmpty ::
    "('a ring_scheme \<Rightarrow> 'a ring_scheme) \<Rightarrow> 'a ring_scheme \<Rightarrow> bool \<times> 'a ring_scheme" where
  "RingBuffer_IsEmpty irq s = (case RingBuffer_GetCount irq s of (c, s1) \<Rightarrow> (c = 0, s1))"

definition RingBuffer_IsFull ::
    "('a ring_scheme \<Rightarrow> 'a ring_scheme) \<Rightarrow> 'a ring_scheme \<Rightarrow> bool \<times> 'a ring_scheme" where
  "RingBuffer_IsFull irq s = (case RingBuffer_GetCount irq s of (c, s1) \<Rightarrow> (c = Capacity s1, s1))"

definition RingBuffer_Insert ::
    "('a ring_scheme \<Rightarrow> 'a ring_scheme) \<Rightarrow> u8 \<Rightarrow> 'a ring_scheme \<Rightarrow> 'a ring_scheme outcome" where
  "RingBuffer_Insert irq Data s =
     (let s1 = window irq s in
      and_then (store (ram s1) (In s1) Data) (\<lambda>m.
        let s2 = window irq (s1\<lparr>ram := m\<rparr>);
            s3 = window irq (s2\<lparr>In := In s2 + 1\<rparr>);
            s4 = (if In s3 = End s3 then s3\<lparr>In := Start s3\<rparr> else s3)
        in case lock irq s4 of (i, s5) \<Rightarrow> Returns (unlock i (s5\<lparr>Count := Count s5 + 1\<rparr>))))"

definition RingBuffer_Remove ::
    "('a ring_scheme \<Rightarrow> 'a ring_scheme) \<Rightarrow> 'a ring_scheme \<Rightarrow> (u8 \<times> 'a ring_scheme) outcome" where
  "RingBuffer_Remove irq s =
     (let s1 = window irq s in
      and_then (fetch (ram s1) (Out s1)) (\<lambda>Data.
        let s2 = window irq s1;
            s3 = window irq (s2\<lparr>Out := Out s2 + 1\<rparr>);
            s4 = (if Out s3 = End s3 then s3\<lparr>Out := Start s3\<rparr> else s3)
        in case lock irq s4 of (i, s5) \<Rightarrow> Returns (Data, unlock i (s5\<lparr>Count := Count s5 - 1\<rparr>))))"

definition RingBuffer_Peek :: "('a ring_scheme \<Rightarrow> 'a ring_scheme) \<Rightarrow> 'a ring_scheme \<Rightarrow> u8 outcome" where
  "RingBuffer_Peek irq s = (let s1 = window irq s in fetch (ram s1) (Out s1))"

subsection \<open>The queue a ring stands for\<close>

text \<open>The cell of the \<open>k\<close>-th oldest byte.\<close>

definition slot :: "'a ring_scheme \<Rightarrow> nat \<Rightarrow> nat" where
  "slot s k = Start s + (Out s - Start s + k) mod unat (Capacity s)"

definition contents :: "'a ring_scheme \<Rightarrow> u8 list" where
  "contents s = map (\<lambda>k. ram s ! slot s k) [0..<unat (Count s)]"

text \<open>The structure without the position of the producer, and with it.\<close>

definition sound :: "'a ring_scheme \<Rightarrow> bool" where
  "sound s \<longleftrightarrow> 0 < unat (Capacity s) \<and> End s = Start s + unat (Capacity s) \<and> End s \<le> length (ram s) \<and>
     Start s \<le> Out s \<and> Out s < End s \<and> unat (Count s) \<le> unat (Capacity s)"

definition ring_ok :: "'a ring_scheme \<Rightarrow> bool" where
  "ring_ok s \<longleftrightarrow> sound s \<and> In s = slot s (unat (Count s))"

lemma length_contents [simp]: "length (contents s) = unat (Count s)"
  by (simp add: contents_def)

lemma slot_bounds: "sound s \<Longrightarrow> Start s \<le> slot s k \<and> slot s k < End s"
  by (simp add: sound_def slot_def)

lemma slot_0: "sound s \<Longrightarrow> slot s 0 = Out s"
  by (auto simp: sound_def slot_def)

lemma slot_inj:
  assumes "slot s j = slot s k" "j < unat (Capacity s)" "k < unat (Capacity s)"
  shows "j = k"
proof -
  define c where "c = unat (Capacity s)"
  define o' where "o' = Out s - Start s"
  have e: "(o' + j) mod c = (o' + k) mod c" and l: "j < c" "k < c"
    using assms by (auto simp: slot_def c_def o'_def)
  have "(int o' + int j) mod int c = (int o' + int k) mod int c"
    using e by (metis of_nat_add zmod_int)
  then have "int j mod int c = int k mod int c"
    by (metis add_diff_cancel_left' mod_diff_left_eq)
  with l show ?thesis by simp
qed

text \<open>One position further around the ring.\<close>

lemma advance:
  fixes c :: nat
  assumes "p < c"
  shows "(if p + 1 = c then 0 else p + 1) = (p + 1) mod c"
  using assms by auto

lemma advance_slot:
  assumes "sound s"
  shows "(if slot s k + 1 = End s then Start s else slot s k + 1) = slot s (Suc k)"
proof -
  let ?c = "unat (Capacity s)" and ?p = "(Out s - Start s + k) mod unat (Capacity s)"
  have c: "0 < ?c" "End s = Start s + ?c" using assms by (auto simp: sound_def)
  then have "(if ?p + 1 = ?c then 0 else ?p + 1) = (?p + 1) mod ?c"
    by (intro advance) simp
  also have "\<dots> = (Out s - Start s + Suc k) mod ?c"
    by (simp add: mod_simps)
  finally show ?thesis
    using c by (auto simp: slot_def split: if_splits)
qed

lemma shift_slot:
  assumes "sound s"
  shows "slot (s\<lparr>Out := slot s 1, Count := n\<rparr>) k = slot s (Suc k)"
proof -
  have "slot s 1 - Start s = (Out s - Start s + 1) mod unat (Capacity s)"
    by (simp add: slot_def)
  then show ?thesis
    by (simp add: slot_def mod_simps)
qed

lemma store_contents:
  assumes "sound s" "p = slot s n" "unat (Count s) \<le> n" "n < unat (Capacity s)"
  shows "contents (s\<lparr>ram := (ram s)[p := d]\<rparr>) = contents s"
proof -
  have ne: "slot s k \<noteq> p" if "k < unat (Count s)" for k
    using slot_inj [of s k n] assms that by auto
  have "slot (s\<lparr>ram := (ram s)[p := d]\<rparr>) = slot s"
    by (simp add: slot_def fun_eq_iff)
  moreover have "(ram s)[p := d] ! slot s k = ram s ! slot s k" if "k < unat (Count s)" for k
    using ne [OF that] by simp
  ultimately show ?thesis
    by (auto simp: contents_def)
qed

lemma contents_fields [simp]:
  "contents (s\<lparr>In := i\<rparr>) = contents s" "contents (s\<lparr>gie := g\<rparr>) = contents s"
  "sound (s\<lparr>In := i\<rparr>) = sound s" "sound (s\<lparr>gie := g\<rparr>) = sound s"
  "slot (s\<lparr>In := i\<rparr>) = slot s" "slot (s\<lparr>gie := g\<rparr>) = slot s"
  by (simp_all add: contents_def sound_def slot_def fun_eq_iff)

lemma sound_ram [simp]: "length m = length (ram s) \<Longrightarrow> sound (s\<lparr>ram := m\<rparr>) = sound s"
  by (simp add: sound_def)

lemma slot_ram [simp]: "slot (s\<lparr>ram := m\<rparr>) = slot s" "slot (s\<lparr>Count := n\<rparr>) = slot s"
  by (simp_all add: slot_def fun_eq_iff)

lemma more_counted:
  assumes "sound s" "unat (Count s) < unat (Capacity s)"
  shows "contents (s\<lparr>Count := Count s + 1\<rparr>) = contents s @ [ram s ! slot s (unat (Count s))]"
    "unat (Count s + 1) = Suc (unat (Count s))"
proof -
  have "unat (Capacity s) < 65536"
    by (rule order_less_le_trans [OF unsigned_less]) simp
  with assms(2) have "unat (Count s) + 1 < 65536"
    by linarith
  then show u: "unat (Count s + 1) = Suc (unat (Count s))"
    by (simp add: unat_word_ariths(1))
  show "contents (s\<lparr>Count := Count s + 1\<rparr>) = contents s @ [ram s ! slot s (unat (Count s))]"
    by (simp add: contents_def u)
qed

lemma fewer_counted:
  fixes w :: u16
  shows "w \<noteq> 0 \<Longrightarrow> unat (w - 1) = unat w - 1"
  by (metis unat_minus_one)

subsection \<open>One side at a time\<close>

lemma window_masked [simp]: "\<not> gie s \<Longrightarrow> window irq s = s"
  by (simp add: window_def)

text \<open>What a removal leaves: the next byte is gone, and the producer's place is the same.\<close>

lemma remove_masked:
  assumes sound: "sound s" and masked: "\<not> gie s" and c: "contents s = x # xs"
  defines "t \<equiv> s\<lparr>Out := slot s 1, Count := Count s - 1\<rparr>"
  shows "RingBuffer_Remove irq s = Returns (x, t)" "sound t" "contents t = xs"
    "slot t (unat (Count t)) = slot s (unat (Count s))" "unat (Count t) \<le> unat (Count s)"
proof -
  let ?n = "unat (Count s)"
  have n: "?n = Suc (length xs)"
    using arg_cong [OF c, of length] by simp
  then have nz: "Count s \<noteq> 0" by auto
  have cells: "[0..<?n] = 0 # map Suc [0..<length xs]"
    by (simp only: n upt_conv_Cons [OF zero_less_Suc] map_Suc_upt)
  have x: "x = ram s ! Out s" and xs: "xs = map (\<lambda>k. ram s ! slot s (Suc k)) [0..<length xs]"
    using c slot_0 [OF sound] by (auto simp: contents_def cells comp_def)
  have inside: "Out s < length (ram s)"
    using sound by (simp add: sound_def)
  have next_out: "(if Out s + 1 = End s then Start s else Out s + 1) = slot s 1"
    using advance_slot [OF sound, of 0] unfolding slot_0 [OF sound] by simp
  show "RingBuffer_Remove irq s = Returns (x, t)"
    using masked x inside next_out
    by (cases "Suc (Out s) = End s") (simp_all add: RingBuffer_Remove_def lock_def unlock_def Let_def t_def)
  have count: "unat (Count s - 1) = length xs"
    using fewer_counted [OF nz] n by simp
  have slots: "slot t k = slot s (Suc k)" for k
    unfolding t_def by (rule shift_slot [OF sound])
  have fields: "ram t = ram s" "Count t = Count s - 1" "Capacity t = Capacity s" "Out t = slot s 1"
    "Start t = Start s" "End t = End s"
    by (simp_all add: t_def)
  show "contents t = xs"
    by (subst xs) (simp add: contents_def slots fields count)
  show "sound t"
    using sound slot_bounds [OF sound, of 1] count n by (auto simp: sound_def fields)
  show "slot t (unat (Count t)) = slot s (unat (Count s))" "unat (Count t) \<le> unat (Count s)"
    using n count by (simp_all add: slots fields)
qed

lemma peek_masked:
  assumes "sound s" "\<not> gie s" "contents s = x # xs"
  shows "RingBuffer_Peek irq s = Returns x"
  using remove_masked(1) [OF assms, of irq] assms(2)
  by (auto simp: RingBuffer_Peek_def RingBuffer_Remove_def lock_def Let_def and_then_Returns split: if_splits)

lemma init_ring:
  assumes "\<not> gie s" "0 < unat n" "p + unat n \<le> length (ram s)"
  shows "ring_ok (RingBuffer_InitBuffer irq p n s)" "contents (RingBuffer_InitBuffer irq p n s) = []"
  using assms by (simp_all add: RingBuffer_InitBuffer_def lock_def unlock_def ring_ok_def sound_def
      slot_def contents_def)

lemma room_masked:
  assumes "sound s" "\<not> gie s"
  shows "RingBuffer_IsFull irq s = (length (contents s) = unat (Capacity s), s)"
    "unat (fst (RingBuffer_GetFreeCount irq s)) = unat (Capacity s) - length (contents s)"
proof -
  have "Count s \<le> Capacity s"
    using assms(1) by (simp add: sound_def word_le_nat_alt)
  then show "unat (fst (RingBuffer_GetFreeCount irq s)) = unat (Capacity s) - length (contents s)"
    using assms(2) by (simp add: RingBuffer_GetFreeCount_def RingBuffer_GetCount_def lock_def unlock_def unat_sub)
  show "RingBuffer_IsFull irq s = (length (contents s) = unat (Capacity s), s)"
    using assms(2) by (auto simp: RingBuffer_IsFull_def RingBuffer_GetCount_def lock_def unlock_def word_unat_eq_iff)
qed

subsection \<open>A producer that a consumer interrupts\<close>

record shared = ring +
  taken :: "u8 list"

text \<open>What a consumer may do to the ring: take bytes from its front.\<close>

definition consumed :: "shared \<Rightarrow> shared \<Rightarrow> bool" where
  "consumed s t \<longleftrightarrow> sound t \<and> ram t = ram s \<and> In t = In s \<and> Start t = Start s \<and> End t = End s \<and>
     Capacity t = Capacity s \<and> gie t = gie s \<and> taken t @ contents t = taken s @ contents s \<and>
     slot t (unat (Count t)) = slot s (unat (Count s)) \<and> unat (Count t) \<le> unat (Count s)"

lemma consumed_refl: "sound s \<Longrightarrow> consumed s s"
  by (simp add: consumed_def)

lemma consumed_trans: "consumed s t \<Longrightarrow> consumed t u \<Longrightarrow> consumed s u"
  by (auto simp: consumed_def)

locale interrupting_consumer =
  fixes irq :: "shared \<Rightarrow> shared"
  assumes consumes: "sound s \<Longrightarrow> consumed s (irq s)"
begin

lemma window_consumes: "sound s \<Longrightarrow> consumed s (window irq s)"
  by (simp add: window_def consumes consumed_refl)

lemma insert_keeps_order:
  assumes "ring_ok s" "unat (Count s) < unat (Capacity s)"
  shows "\<exists>t. RingBuffer_Insert irq d s = Returns t \<and> ring_ok t \<and> gie t = gie s \<and>
    taken t @ contents t = taken s @ contents s @ [d]"
proof -
  let ?n = "\<lambda>s. unat (Count s)"
  have sound: "sound s" and p: "In s = slot s (?n s)"
    using assms(1) by (auto simp: ring_ok_def)
  define s1 where "s1 = window irq s"
  have 1: "consumed s s1"
    unfolding s1_def by (rule window_consumes [OF sound])
  define r1 where "r1 = s1\<lparr>ram := (ram s1)[In s1 := d]\<rparr>"
  define s2 where "s2 = window irq r1"
  have room: "In s1 = slot s1 (?n s1)" "?n s1 < unat (Capacity s1)" "sound s1"
    using 1 p assms(2) by (auto simp: consumed_def)
  have inside: "In s1 < length (ram s1)"
    using slot_bounds [of s1 "?n s1"] room by (simp add: sound_def)
  have c1: "contents r1 = contents s1"
    unfolding r1_def by (rule store_contents [where n = "?n s1"]) (use room in simp_all)
  have 2: "consumed r1 s2"
    unfolding s2_def by (rule window_consumes) (use room in \<open>simp add: r1_def\<close>)
  define r2 where "r2 = s2\<lparr>In := In s2 + 1\<rparr>"
  define s3 where "s3 = window irq r2"
  have 3: "consumed r2 s3"
    unfolding s3_def by (rule window_consumes) (use 2 in \<open>simp add: r2_def consumed_def\<close>)
  define s4 where "s4 = (if In s3 = End s3 then s3\<lparr>In := Start s3\<rparr> else s3)"
  define s5 where "s5 = window irq s4"
  have s4: "ram s4 = ram s3" "Start s4 = Start s3" "End s4 = End s3" "Capacity s4 = Capacity s3"
    "Count s4 = Count s3" "taken s4 = taken s3" "gie s4 = gie s3" "contents s4 = contents s3"
    "slot s4 = slot s3" "sound s4 = sound s3" "In s4 = (if In s3 = End s3 then Start s3 else In s3)"
    by (simp_all add: s4_def)
  have 5: "consumed s4 s5"
    unfolding s5_def by (rule window_consumes) (use 3 in \<open>simp add: s4 consumed_def\<close>)
  define t where "t = s5\<lparr>gie := gie s5, Count := Count s5 + 1\<rparr>"
  have run: "RingBuffer_Insert irq d s = Returns t"
    using inside by (simp add: RingBuffer_Insert_def lock_def unlock_def Let_def t_def s5_def s4_def s3_def
        r2_def s2_def r1_def s1_def)
  have place: "slot s5 (?n s5) = In s1"
    using 1 2 3 5 room by (simp add: consumed_def r1_def r2_def s4)
  have all: "taken s5 @ contents s5 = taken s @ contents s"
    using 1 2 3 5 c1 by (simp add: consumed_def r1_def r2_def s4)
  have few: "sound s5" "?n s5 < unat (Capacity s5)"
    using 1 2 3 5 room by (auto simp: consumed_def r1_def r2_def s4)
  have byte: "ram s5 ! In s1 = d"
    using 2 3 5 inside by (simp add: consumed_def r1_def r2_def s4)
  have at: "In s5 = (if In s1 + 1 = End s5 then Start s5 else In s1 + 1)"
    using 1 2 3 5 by (auto simp: consumed_def r1_def r2_def s4 split: if_splits)
  have "In s5 = slot s5 (Suc (?n s5))"
    using advance_slot [OF few(1), of "?n s5"] unfolding place at .
  then have "ring_ok t"
    using few more_counted [OF few] by (simp add: ring_ok_def t_def sound_def)
  moreover have "taken t @ contents t = taken s @ contents s @ [d]"
    using more_counted(1) [OF few] all place byte by (simp add: t_def)
  moreover have "gie t = gie s"
    using 1 2 3 5 by (simp add: t_def consumed_def r1_def r2_def s4)
  ultimately show ?thesis
    using run by blast
qed

end

text \<open>The consumer that the functions of the header make: removals in an interrupt handler.\<close>

fun drain :: "nat \<Rightarrow> shared \<Rightarrow> shared" where
  "drain 0 s = s"
| "drain (Suc n) s =
     (case RingBuffer_IsEmpty id s of (none, s1) \<Rightarrow>
        if none then s1
        else case RingBuffer_Remove id s1 of
          Some (Inr (x, s2)) \<Rightarrow> drain n (s2\<lparr>taken := taken s2 @ [x]\<rparr>)
        | _ \<Rightarrow> s1)"

definition drain_isr :: "(shared \<Rightarrow> nat) \<Rightarrow> shared \<Rightarrow> shared" where
  "drain_isr want s = (drain (want s) (s\<lparr>gie := False\<rparr>))\<lparr>gie := gie s\<rparr>"

lemma is_empty_masked [simp]: "\<not> gie s \<Longrightarrow> RingBuffer_IsEmpty irq s = (Count s = 0, s)"
  by (simp add: RingBuffer_IsEmpty_def RingBuffer_GetCount_def lock_def unlock_def)

lemma taken_fields [simp]:
  "contents (s\<lparr>taken := b\<rparr>) = contents s" "sound (s\<lparr>taken := b\<rparr>) = sound s" "slot (s\<lparr>taken := b\<rparr>) = slot s"
  by (simp_all add: contents_def sound_def slot_def fun_eq_iff)

lemma drain_consumes: "sound s \<Longrightarrow> \<not> gie s \<Longrightarrow> consumed s (drain n s)"
proof (induction n arbitrary: s)
  case (Suc n)
  show ?case
  proof (cases "contents s")
    case Nil
    then have "Count s = 0"
      using length_contents [of s] by (simp add: unsigned_eq_0_iff)
    then show ?thesis
      using Suc.prems by (simp add: consumed_refl)
  next
    case (Cons x xs)
    note r = remove_masked [OF Suc.prems Cons]
    define t where "t = s\<lparr>Out := slot s 1, Count := Count s - 1, taken := taken s @ [x]\<rparr>"
    have "Count s \<noteq> 0"
      using Cons length_contents [of s] by auto
    then have run: "drain (Suc n) s = drain n t"
      using r(1) Suc.prems by (simp add: t_def)
    have "consumed s t"
      using r Cons by (simp add: consumed_def t_def)
    moreover have "consumed t (drain n t)"
      by (rule Suc.IH) (use r(2) Suc.prems in \<open>simp_all add: t_def\<close>)
    ultimately show ?thesis
      unfolding run by (rule consumed_trans)
  qed
qed (simp add: consumed_refl)

interpretation drained: interrupting_consumer "drain_isr want" for want
proof
  fix s :: shared assume "sound s"
  then have "consumed (s\<lparr>gie := False\<rparr>) (drain (want s) (s\<lparr>gie := False\<rparr>))"
    by (intro drain_consumes) simp_all
  then show "consumed s (drain_isr want s)"
    by (simp add: consumed_def drain_isr_def)
qed

text \<open>
  C25: A producer that fills a ring buffer byte by byte while an interrupt handler takes out any
  number of bytes before any access of the producer refines a queue: each insertion returns, and
  the bytes taken out so far followed by the bytes in the ring are the bytes inserted, in order.
\<close>

theorem insert_refines_queue:
  assumes "ring_ok s" "unat (Count s) < unat (Capacity s)"
  shows "\<exists>t. RingBuffer_Insert (drain_isr want) d s = Returns t \<and> ring_ok t \<and> gie t = gie s \<and>
    taken t @ contents t = taken s @ contents s @ [d]"
  by (rule drained.insert_keeps_order [OF assms])

theorem insert_refines_queue_witness:
  "let s = \<lparr>ram = [9, 0, 5, 6], In = 1, Out = 3, Start = 1, End = 4, Capacity = 3, Count = 1, gie = True,
             taken = [4]\<rparr>
   in \<exists>t. RingBuffer_Insert (drain_isr (\<lambda>s. if In s = 2 then 1 else 0)) 7 s = Returns t \<and> ring_ok t \<and>
        taken t @ contents t = [4, 6, 7]"
proof -
  let ?s = "\<lparr>ram = [9, 0, 5, 6], In = 1, Out = 3, Start = 1, End = 4, Capacity = 3, Count = 1, gie = True,
             taken = [4]\<rparr> :: shared"
  have "contents ?s = [6]"
    by (simp add: contents_def slot_def)
  then show ?thesis
    using insert_refines_queue [of ?s "\<lambda>s. if In s = 2 then 1 else 0" 7]
    by (auto simp: ring_ok_def sound_def slot_def)
qed

end
