(* ===== verification/TestAnim.thy ===== *)
theory TestAnim
  imports Led
begin

text \<open>
  The two test programs under \<^verbatim>\<open>Test\<close>: the light show for the first board, which drives three
  chained 16-bit shift registers from a timer interrupt (\<^verbatim>\<open>Test/animations\<close>), and the blink test
  (\<^verbatim>\<open>Test/blink\<close>). Every store to \<^verbatim>\<open>PORTF\<close> is recorded; a delay records what is shown meanwhile.
\<close>

unbundle bit_operations_syntax

subsection \<open>The pins of the light show\<close>

record anim =
  an_DDRF :: u8
  an_PORTF :: u8
  an_trace :: "u8 list"
  TIMSK1 :: u8
  TCCR1B :: u8
  OCR1A :: u16
  an_MCUCR :: u8
  an_MCUSR :: u8
  an_CLKPR :: u8
  an_ien :: bool
  level :: u16
  color_data :: "u16 list list"
  show_array :: "u16 list"
  frames :: "(u16 list list \<times> nat) list"

definition pin :: "nat \<Rightarrow> bool \<Rightarrow> anim \<Rightarrow> anim" where
  "pin n high s =
     (let v = (if high then an_PORTF s OR push_bit n 1 else an_PORTF s AND NOT (push_bit n 1))
      in s\<lparr>an_PORTF := v, an_trace := an_trace s @ [v]\<rparr>)"

abbreviation (input) "SCLK \<equiv> 0 :: nat"
abbreviation (input) "SIN \<equiv> 1 :: nat"
abbreviation (input) "LATCH \<equiv> 4 :: nat"
abbreviation (input) "BLANK \<equiv> 5 :: nat"

definition clock_bit :: "anim \<Rightarrow> anim" where
  "clock_bit s = pin SCLK False (pin SCLK True s)"

definition latch_pulse :: "anim \<Rightarrow> anim" where
  "latch_pulse s = pin LATCH False (pin LATCH True s)"

fun shift_bits :: "u16 \<Rightarrow> nat \<Rightarrow> anim \<Rightarrow> anim" where
  "shift_bits word 0 s = s"
| "shift_bits word (Suc i) s =
     (let s1 = pin SIN False s;
          s2 = (if word AND push_bit i 1 \<noteq> 0 then pin SIN True s1 else s1)
      in shift_bits word i (clock_bit s2))"

definition shift_out :: "u16 \<Rightarrow> anim \<Rightarrow> anim" where
  "shift_out word s =
     latch_pulse (shift_bits word 13 (clock_bit (clock_bit (clock_bit (pin SIN False (latch_pulse s))))))"

subsection \<open>The timer interrupt\<close>

definition shift_plane :: "nat \<Rightarrow> anim \<Rightarrow> anim" where
  "shift_plane l s =
     (let s1 = shift_out (color_data s ! 2 ! l) s;
          s2 = shift_out (color_data s1 ! 1 ! l) s1
      in shift_out (color_data s2 ! 0 ! l) s2)"

definition TIMER1_COMPA_vect :: "anim \<Rightarrow> anim" where
  "TIMER1_COMPA_vect s =
     (let s1 = pin BLANK True s;
          s2 = (if level s1 = 3 then let t = shift_plane 3 s1 in t\<lparr>OCR1A := 50, level := level t - 1\<rparr>
                else if level s1 = 2 then let t = shift_plane 2 s1 in t\<lparr>OCR1A := 25, level := level t - 1\<rparr>
                else if level s1 = 1 then let t = shift_plane 1 s1 in t\<lparr>OCR1A := 15, level := level t - 1\<rparr>
                else if level s1 = 0 then let t = shift_plane 0 s1 in t\<lparr>OCR1A := 8, level := 3\<rparr>
                else s1)
      in pin BLANK False s2)"

definition anim_LED_Init :: "anim \<Rightarrow> anim" where
  "anim_LED_Init s =
     (let s1 = pin BLANK False (pin LATCH False (pin SCLK False (pin SIN False (s\<lparr>an_DDRF := an_DDRF s OR 0x33\<rparr>))))
      in s1\<lparr>level := 0, TIMSK1 := push_bit 1 1, TCCR1B := TCCR1B s1 OR push_bit 2 1 OR push_bit 3 1, OCR1A := 1\<rparr>)"

subsection \<open>Colors to bit planes\<close>

text \<open>The planes that the switch sets for a brightness, in its order.\<close>

fun planes_of :: "u16 \<Rightarrow> nat list" where
  "planes_of v = (if v = 1 then [0] else if v = 2 then [1] else if v = 3 then [2] else if v = 4 then [2, 1]
     else if v = 5 then [3] else if v = 6 then [3, 1] else if v = 7 then [3, 2, 1]
     else if v = 8 then [3, 2, 1, 0] else [])"

definition set_planes :: "u16 \<Rightarrow> nat \<Rightarrow> u16 list \<Rightarrow> u16 list" where
  "set_planes v i row = fold (\<lambda>k row. row[k := row ! k OR push_bit i 1]) (planes_of v) row"

text \<open>The value of a color for channel \<open>j\<close>: red, green, blue.\<close>

definition channel :: "nat \<Rightarrow> u16 \<Rightarrow> u16" where
  "channel j c = (if j = 0 then c AND 0x00F else if j = 1 then drop_bit 4 (c AND 0x0F0)
     else drop_bit 8 (c AND 0xF00))"

definition set_data :: "u16 list \<Rightarrow> anim \<Rightarrow> anim outcome" where
  "set_data color s =
     (if length color < 12 then Faults OutOfBounds
      else Returns (s\<lparr>color_data := map (\<lambda>j. fold (\<lambda>i. set_planes (channel j (color ! i)) i) [0..<12] [0, 0, 0, 0])
             [0..<3]\<rparr>))"

subsection \<open>The main program\<close>

definition colorwheel :: "u16 list" where
  "colorwheel = [8, 518, 1028, 1538, 2048, 1568, 1088, 608, 128, 98, 68, 38]"

definition pong :: "u16 list" where "pong = [4095, 546, 273, 0, 0, 0, 0, 0, 0, 0, 0, 0]"
definition ping :: "u16 list" where "ping = [4095, 0, 0, 0, 0, 0, 0, 0, 0, 0, 273, 546]"

definition delay_ms :: "nat \<Rightarrow> anim \<Rightarrow> anim" where
  "delay_ms n s = s\<lparr>frames := frames s @ [(color_data s, n)]\<rparr>"

definition show_for :: "nat \<Rightarrow> anim \<Rightarrow> anim outcome" where
  "show_for n s = and_then (set_data (show_array s) s) (\<lambda>s1. Returns (delay_ms n s1))"

text \<open>\<^verbatim>\<open>for (j=0;j<12;j++) show[j] = table[(i+j) % 12];\<close>\<close>

definition rotate_into :: "u16 list \<Rightarrow> nat \<Rightarrow> anim \<Rightarrow> anim" where
  "rotate_into table i s = s\<lparr>show_array := fold (\<lambda>j a. a[j := table ! ((i + j) mod 12)]) [0..<12] (show_array s)\<rparr>"

fun bring_on :: "nat list \<Rightarrow> anim \<Rightarrow> anim outcome" where
  "bring_on [] s = Returns s"
| "bring_on (i # is) s =
     and_then (show_for 40 (s\<lparr>show_array := (show_array s)[i := colorwheel ! i]\<rparr>)) (bring_on is)"

fun turn_table :: "u16 list \<Rightarrow> nat list \<Rightarrow> anim \<Rightarrow> anim outcome" where
  "turn_table table [] s = Returns s"
| "turn_table table (i # is) s = and_then (show_for 40 (rotate_into table i s)) (turn_table table is)"

fun spin :: "nat \<Rightarrow> anim \<Rightarrow> anim outcome" where
  "spin 0 s = Returns s"
| "spin (Suc k) s = and_then (turn_table colorwheel (rev [0..<12]) s) (spin k)"

text \<open>One turn of the loop of \<^verbatim>\<open>main\<close>.\<close>

definition anim_turn :: "anim \<Rightarrow> anim outcome" where
  "anim_turn s =
     and_then (bring_on [0..<12] s) (\<lambda>s1.
     and_then (spin 4 s1) (\<lambda>s2.
     and_then (turn_table pong [0..<12] s2) (\<lambda>s3.
     and_then (turn_table ping (rev [0..<12]) s3) (\<lambda>s4.
       show_for 12000 (s4\<lparr>show_array := fold (\<lambda>i a. a[i := 0]) [0..<12] (show_array s4)\<rparr>)))))"

definition anim_Setup_Hardware :: "anim \<Rightarrow> anim" where
  "anim_Setup_Hardware s =
     (let s1 = s\<lparr>an_CLKPR := 0, an_MCUCR := push_bit 7 1, an_MCUSR := an_MCUSR s AND NOT (push_bit 3 1)\<rparr>
      in anim_LED_Init (s1\<lparr>an_ien := False\<rparr>))"

definition anim_start :: "anim \<Rightarrow> anim" where
  "anim_start s = (anim_Setup_Hardware s)\<lparr>an_ien := True\<rparr>"

subsection \<open>The blink test\<close>

record blink =
  bl_CLKPR :: u8
  bl_DDRD :: u8
  bl_PORTD :: u8
  bl_delays :: "(u8 \<times> nat) list"

definition blink_start :: "blink \<Rightarrow> blink" where
  "blink_start s = s\<lparr>bl_CLKPR := 0, bl_DDRD := bl_DDRD s OR push_bit 6 1, bl_PORTD := bl_PORTD s AND NOT (push_bit 6 1)\<rparr>"

definition blink_turn :: "blink \<Rightarrow> blink" where
  "blink_turn s =
     (let on = bl_PORTD s OR push_bit 6 1; off = on AND NOT (push_bit 6 1)
      in s\<lparr>bl_PORTD := off, bl_delays := bl_delays s @ [(on, 100), (off, 100)]\<rparr>)"


subsection \<open>What the lights show\<close>

text \<open>
  The chained shift registers: a bit enters at each rising edge of the clock line, and a rising edge
  of the latch line puts the bits shifted in so far on the outputs.
\<close>

fun clock_in :: "u8 \<times> bool list \<times> bool list \<Rightarrow> u8 \<Rightarrow> u8 \<times> bool list \<times> bool list" where
  "clock_in (p, reg, out) v =
     (let reg' = (if bit v SCLK \<and> \<not> bit p SCLK then reg @ [bit v SIN] else reg)
      in (v, reg', if bit v LATCH \<and> \<not> bit p LATCH then reg' else out))"

definition chips :: "anim \<Rightarrow> u8 \<times> bool list \<times> bool list" where
  "chips s = foldl clock_in (0, [], []) (an_trace s)"

definition anim_ok :: "anim \<Rightarrow> bool" where
  "anim_ok s \<longleftrightarrow> fst (chips s) = an_PORTF s \<and> \<not> bit (an_PORTF s) SCLK \<and> \<not> bit (an_PORTF s) LATCH"

text \<open>Output \<open>i\<close> of the register for channel \<open>j\<close>: the last bit shifted in is output 0 of channel 0.\<close>

definition lit :: "anim \<Rightarrow> nat \<Rightarrow> nat \<Rightarrow> bool" where
  "lit s j i \<longleftrightarrow> \<not> bit (an_PORTF s) BLANK \<and> rev (snd (snd (chips s))) ! (16 * j + i)"

lemma pin_bit [simp]: "n < 8 \<Longrightarrow> bit (an_PORTF (pin n h s)) m = (if m = n then h else bit (an_PORTF s) m)"
  by (auto simp: pin_def Let_def bit_simps dest: bit_imp_le_length)

lemma pin_fields [simp]:
  "color_data (pin n h s) = color_data s" "level (pin n h s) = level s" "OCR1A (pin n h s) = OCR1A s"
  by (simp_all add: pin_def Let_def)

lemma pin_chips [simp]: "chips (pin n h s) = clock_in (chips s) (an_PORTF (pin n h s))"
  by (simp add: pin_def chips_def Let_def)

lemma update_chips [simp]: "chips (s\<lparr>OCR1A := c, level := l\<rparr>) = chips s"
  by (simp add: chips_def)

text \<open>The state of the chips, and what else there is of a state that a shift leaves alone.\<close>

definition at_chips :: "anim \<Rightarrow> bool list \<Rightarrow> bool list \<Rightarrow> bool" where
  "at_chips s reg out \<longleftrightarrow> anim_ok s \<and> chips s = (an_PORTF s, reg, out)"

definition same_rest :: "anim \<Rightarrow> anim \<Rightarrow> bool" where
  "same_rest s t \<longleftrightarrow> color_data t = color_data s \<and> level t = level s \<and> OCR1A t = OCR1A s \<and>
     bit (an_PORTF t) BLANK = bit (an_PORTF s) BLANK"

lemma same_rest_refl [simp]: "same_rest s s"
  by (simp add: same_rest_def)

lemma same_rest_trans [trans]: "same_rest s t \<Longrightarrow> same_rest t u \<Longrightarrow> same_rest s u"
  by (simp add: same_rest_def)

lemma at_pin:
  assumes "at_chips s reg out" "n < 8" "n \<noteq> SCLK" "n \<noteq> LATCH"
  shows "at_chips (pin n h s) reg out"
  using assms by (simp add: at_chips_def anim_ok_def Let_def)

lemma at_clock:
  assumes "at_chips s reg out"
  shows "at_chips (clock_bit s) (reg @ [bit (an_PORTF s) SIN]) out" "same_rest s (clock_bit s)"
    "bit (an_PORTF (clock_bit s)) SIN = bit (an_PORTF s) SIN"
  using assms by (simp_all add: clock_bit_def at_chips_def anim_ok_def same_rest_def Let_def)

lemma at_latch:
  assumes "at_chips s reg out"
  shows "at_chips (latch_pulse s) reg reg" "same_rest s (latch_pulse s)"
  using assms by (simp_all add: latch_pulse_def at_chips_def anim_ok_def same_rest_def Let_def)

lemma at_shift_bits:
  "at_chips s reg out \<Longrightarrow> at_chips (shift_bits w n s) (reg @ bits_msb n w) out \<and> same_rest s (shift_bits w n s)"
proof (induction n arbitrary: s reg)
  case (Suc n)
  define s1 where "s1 = pin SIN False s"
  define s2 where "s2 = (if w AND push_bit n 1 \<noteq> 0 then pin SIN True s1 else s1)"
  have "at_chips s2 reg out" "same_rest s s2" and b: "bit (an_PORTF s2) SIN = bit w n"
    using at_pin [OF Suc.prems] by (auto simp: s2_def s1_def at_pin same_rest_def test_bit_and)
  note c = at_clock [OF this(1)]
  have "same_rest s (clock_bit s2)"
    using \<open>same_rest s s2\<close> c(2) by (rule same_rest_trans)
  moreover have "shift_bits w (Suc n) s = shift_bits w n (clock_bit s2)"
    by (simp add: s2_def s1_def Let_def)
  ultimately show ?case
    using Suc.IH [OF c(1)] b by (auto intro: same_rest_trans)
qed simp

definition word_bits :: "u16 \<Rightarrow> bool list" where
  "word_bits w = [False, False, False] @ bits_msb 13 w"

lemma at_shift_out:
  assumes "at_chips s reg out"
  shows "at_chips (shift_out w s) (reg @ word_bits w) (reg @ word_bits w) \<and> same_rest s (shift_out w s)"
proof -
  define s0 where "s0 = pin SIN False (latch_pulse s)"
  have s0: "at_chips s0 reg reg" "same_rest s s0" "\<not> bit (an_PORTF s0) SIN"
    using at_latch [OF assms] by (auto simp: s0_def at_pin same_rest_def)
  note c1 = at_clock [OF s0(1)]
  note c2 = at_clock [OF c1(1)]
  note c3 = at_clock [OF c2(1)]
  note b = at_shift_bits [OF c3(1), of w 13]
  note l = at_latch [OF b [THEN conjunct1]]
  have e: "shift_out w s = latch_pulse (shift_bits w 13 (clock_bit (clock_bit (clock_bit s0))))"
    by (simp add: shift_out_def s0_def)
  have "same_rest s (shift_out w s)"
    unfolding e
    using s0(2) c1(2) c2(2) c3(2) b [THEN conjunct2] l(2) by (meson same_rest_trans)
  moreover have "at_chips (shift_out w s) (reg @ word_bits w) (reg @ word_bits w)"
    using l(1) s0(3) c1(3) c2(3) by (simp add: e word_bits_def)
  ultimately show ?thesis by simp
qed

lemma at_shift_plane:
  fixes l :: nat
  assumes "at_chips s reg out"
  defines "d \<equiv> color_data s"
  defines "bits \<equiv> reg @ word_bits (d ! 2 ! l) @ word_bits (d ! 1 ! l) @ word_bits (d ! 0 ! l)"
  shows "at_chips (shift_plane l s) bits bits \<and> same_rest s (shift_plane l s)"
proof -
  define s1 where "s1 = shift_out (d ! 2 ! l) s"
  define s2 where "s2 = shift_out (d ! 1 ! l) s1"
  note 1 = at_shift_out [OF assms(1), of "d ! 2 ! l", folded s1_def]
  note 2 = at_shift_out [OF 1 [THEN conjunct1], of "d ! 1 ! l", folded s2_def]
  note 3 = at_shift_out [OF 2 [THEN conjunct1], of "d ! 0 ! l"]
  have "color_data s1 = d" "color_data s2 = d"
    using 1 2 by (simp_all add: same_rest_def d_def)
  then have "shift_plane l s = shift_out (d ! 0 ! l) s2"
    by (simp add: shift_plane_def d_def s1_def s2_def Let_def)
  then show ?thesis
    using 1 2 3 by (auto simp: bits_def intro: same_rest_trans)
qed


lemma at_chips_update [simp]:
  "at_chips (s\<lparr>OCR1A := c, level := l\<rparr>) reg out = at_chips s reg out"
  by (simp add: at_chips_def anim_ok_def)

lemma bits_msb_nth: "i < n \<Longrightarrow> rev (bits_msb n w) ! i = bit w i"
  by (induction n) (auto simp: nth_append less_Suc_eq)

lemma word_bits_nth: "i < 13 \<Longrightarrow> rev (word_bits w) ! i = bit w i"
  by (simp add: word_bits_def nth_append bits_msb_nth)

lemma length_word_bits [simp]: "length (word_bits w) = 16"
  by (simp add: word_bits_def)

lemma plane_bits_nth:
  assumes "j < 3" "i < 13"
  shows "rev (reg @ word_bits a @ word_bits b @ word_bits c) ! (16 * j + i) = bit ([c, b, a] ! j) i"
proof -
  consider "j = 0" | "j = 1" | "j = 2" using assms(1) by linarith
  then show ?thesis
    using assms(2) by cases (simp_all add: nth_append word_bits_nth)
qed

text \<open>The time for which the timer shows a plane, and the plane that comes next.\<close>

definition on_for :: "nat \<Rightarrow> u16" where
  "on_for l = [8, 15, 25, 50] ! l"


lemma at_interrupt:
  assumes "at_chips s reg out" and "level s = of_nat l" "l < 4"
  defines "t \<equiv> TIMER1_COMPA_vect s"
  shows "\<exists>r. at_chips t r r" "color_data t = color_data s" "OCR1A t = on_for l"
    "level t = of_nat (if l = 0 then 3 else l - 1)"
    "\<And>j i. j < 3 \<Longrightarrow> i < 13 \<Longrightarrow> lit t j i \<longleftrightarrow> bit (color_data s ! j ! l) i"
proof -
  define s1 where "s1 = pin BLANK True s"
  have 1: "at_chips s1 reg out" "color_data s1 = color_data s" "level s1 = of_nat l"
    using at_pin [OF assms(1), of BLANK] assms(2) by (simp_all add: s1_def)
  define d where "d = color_data s"
  define r where "r = reg @ word_bits (d ! 2 ! l) @ word_bits (d ! 1 ! l) @ word_bits (d ! 0 ! l)"
  define s2 where "s2 = shift_plane l s1"
  have 2: "at_chips s2 r r" "color_data s2 = d" "level s2 = of_nat l"
    using at_shift_plane [OF 1(1), of l] 1 by (simp_all add: r_def d_def s2_def same_rest_def)
  define s3 where "s3 = s2\<lparr>OCR1A := on_for l, level := of_nat (if l = 0 then 3 else l - 1)\<rparr>"
  consider "l = 0" | "l = 1" | "l = 2" | "l = 3" using assms(3) by linarith
  then have t: "t = pin BLANK False s3"
    unfolding t_def TIMER1_COMPA_vect_def Let_def s1_def [symmetric]
    using 1(3) 2(3) by cases (simp_all add: s2_def s3_def on_for_def)
  have 3: "at_chips s3 r r" using 2 by (simp add: s3_def)
  then show "\<exists>r. at_chips t r r"
    using at_pin [OF 3, of BLANK] by (auto simp: t)
  show "color_data t = color_data s" "OCR1A t = on_for l"
    "level t = of_nat (if l = 0 then 3 else l - 1)"
    using 2(2) by (simp_all add: t s3_def d_def)
  fix j i :: nat
  assume "j < 3" "i < 13"
  note nth = plane_bits_nth [OF this, of reg "d ! 2 ! l" "d ! 1 ! l" "d ! 0 ! l", folded r_def]
  have "at_chips t r r" using at_pin [OF 3, of BLANK] by (simp add: t)
  then have "lit t j i \<longleftrightarrow> bit ([d ! 0, d ! 1, d ! 2] ! j ! l) i"
    using nth \<open>j < 3\<close> by (auto simp: lit_def at_chips_def t less_Suc_eq numeral_3_eq_3 numeral_2_eq_2)
  moreover have "[d ! 0, d ! 1, d ! 2] ! j = d ! j"
    using \<open>j < 3\<close> by (auto simp: less_Suc_eq numeral_3_eq_3 numeral_2_eq_2)
  ultimately show "lit t j i \<longleftrightarrow> bit (color_data s ! j ! l) i"
    by (simp add: d_def)
qed

subsection \<open>How long a light is on\<close>

lemma set_planes_length [simp]: "length (set_planes v m row) = length row"
proof -
  have "length (fold (\<lambda>k row. row[k := row ! k OR push_bit m 1]) ks row) = length row" for ks and row :: "u16 list"
    by (induction ks arbitrary: row) auto
  then show ?thesis by (simp add: set_planes_def)
qed

lemma set_planes_bit:
  assumes "k < length row" "length row = 4" "m < 16"
  shows "bit (set_planes v m row ! k) i \<longleftrightarrow> bit (row ! k) i \<or> k \<in> set (planes_of v) \<and> i = m"
proof -
  have "bit (fold (\<lambda>k row. row[k := row ! k OR push_bit m 1]) ks row ! k) i \<longleftrightarrow>
      bit (row ! k) i \<or> k \<in> set ks \<and> i = m" if "k < length row" for ks and row :: "u16 list"
    using that
  proof (induction ks arbitrary: row)
    case (Cons a ks)
    have "bit (row[a := row ! a OR push_bit m 1] ! k) i \<longleftrightarrow> bit (row ! k) i \<or> k = a \<and> i = m"
      using Cons.prems assms(3) by (cases "k = a") (auto simp: bit_simps dest: bit_imp_le_length)
    then show ?case
      using Cons.IH [of "row[a := row ! a OR push_bit m 1]"] Cons.prems
      by (simp only: fold_Cons o_apply length_list_update list.set insert_iff) blast
  qed simp
  then show ?thesis using assms by (simp add: set_planes_def)
qed

lemma fold_planes:
  fixes f :: "nat \<Rightarrow> u16"
  assumes "n \<le> 12" and "k < 4" and "length row = 4"
  defines "out \<equiv> fold (\<lambda>i. set_planes (f i) i) [0..<n] row"
  shows "length out = 4 \<and> (bit (out ! k) i \<longleftrightarrow> bit (row ! k) i \<or> i < n \<and> k \<in> set (planes_of (f i)))"
  using assms(1) unfolding out_def
  by (induction n) (use assms(2,3) in \<open>auto simp: set_planes_bit less_Suc_eq\<close>)

lemma set_data_bit:
  assumes "set_data color s = Returns s1" "j < 3" "k < 4" "i < 12"
  shows "bit (color_data s1 ! j ! k) i \<longleftrightarrow> k \<in> set (planes_of (channel j (color ! i)))"
    and "chips s1 = chips s \<and> an_PORTF s1 = an_PORTF s \<and> level s1 = level s"
proof -
  have 1: "color_data s1 = map (\<lambda>j. fold (\<lambda>i. set_planes (channel j (color ! i)) i) [0..<12] [0, 0, 0, 0]) [0..<3]"
    and 2: "chips s1 = chips s \<and> an_PORTF s1 = an_PORTF s \<and> level s1 = level s"
    using assms(1) by (auto simp: set_data_def chips_def split: if_splits simp del: upt_rec_numeral)
  have "color_data s1 ! j = fold (\<lambda>i. set_planes (channel j (color ! i)) i) [0..<12] [0, 0, 0, 0]"
    using assms(2) by (simp add: 1 del: upt_rec_numeral)
  moreover have "[0, 0, 0, 0 :: u16] ! k = 0"
    using assms(3) by (auto simp: less_Suc_eq numeral_eq_Suc)
  ultimately show "bit (color_data s1 ! j ! k) i \<longleftrightarrow> k \<in> set (planes_of (channel j (color ! i)))"
    using fold_planes [of 12 k "[0, 0, 0, 0]" "\<lambda>i. channel j (color ! i)" i] assms(3,4)
    by (simp del: upt_rec_numeral planes_of.simps)
  show "chips s1 = chips s \<and> an_PORTF s1 = an_PORTF s \<and> level s1 = level s" by (rule 2)
qed

text \<open>
  The timer clears when it reaches \<^verbatim>\<open>OCR1A\<close>, so what an interrupt puts on the outputs stays for
  \<open>OCR1A + 1\<close> ticks.
\<close>

fun after_each :: "nat \<Rightarrow> anim \<Rightarrow> anim list" where
  "after_each 0 s = []"
| "after_each (Suc n) s = TIMER1_COMPA_vect s # after_each n (TIMER1_COMPA_vect s)"

definition on_time :: "anim list \<Rightarrow> nat \<Rightarrow> nat \<Rightarrow> nat" where
  "on_time ts j i = sum_list (map (\<lambda>t. if lit t j i then unat (OCR1A t) + 1 else 0) ts)"

definition lit_ticks :: "u16 \<Rightarrow> nat" where
  "lit_ticks v = (if v \<le> 8 then [0, 9, 16, 26, 42, 51, 67, 93, 102] ! unat v else 0)"

definition plane_ticks :: "u16 \<Rightarrow> nat" where
  "plane_ticks v = sum_list (map (\<lambda>k. if k \<in> set (planes_of v) then unat (on_for k) + 1 else 0) [3, 2, 1, 0])"

lemma plane_ticks_eq: "plane_ticks v = lit_ticks v"
proof (cases "v \<le> 8")
  case True
  then have "unat v \<le> 8" by (simp add: word_le_nat_alt)
  then have "unat v \<in> {0, 1, 2, 3, 4, 5, 6, 7, 8}" by auto
  then have "v \<in> {0, 1, 2, 3, 4, 5, 6, 7, 8}" by (auto simp: word_unat_eq_iff)
  then show ?thesis
    by (elim insertE emptyE) (simp_all add: plane_ticks_def lit_ticks_def on_for_def)
next
  case False
  then have "planes_of v = []" by auto
  with False show ?thesis by (simp add: plane_ticks_def lit_ticks_def del: planes_of.simps)
qed

text \<open>
  C40: a timer round shows every color of \<^verbatim>\<open>set_data\<close> with its own brightness. From level 3 on, the
  next four interrupts of \<^verbatim>\<open>Test/animations\<close> put the planes 3, 2, 1 and 0 through the shift registers;
  each of the 12 lights is lit in each color for exactly the ticks that belong to its brightness, which
  grow from 0 for 0 to all 102 ticks of the round for 8 (a brightness above 8 is dark), and the round
  ends where it began.
\<close>
theorem brightness_times:
  assumes "set_data color s = Returns s1" "anim_ok s" "level s = 3" "j < 3" "i < 12"
  shows "on_time (after_each 4 s1) j i = lit_ticks (channel j (color ! i)) \<and>
    level (last (after_each 4 s1)) = 3"
proof -
  define t3 where "t3 = TIMER1_COMPA_vect s1"
  define t2 where "t2 = TIMER1_COMPA_vect t3"
  define t1 where "t1 = TIMER1_COMPA_vect t2"
  define t0 where "t0 = TIMER1_COMPA_vect t1"
  have each: "after_each 4 s1 = [t3, t2, t1, t0]"
    by (simp add: numeral_eq_Suc t3_def t2_def t1_def t0_def)
  obtain reg out where s1: "at_chips s1 reg out" "level s1 = of_nat 3"
    using assms(2,3) set_data_bit(2) [OF assms(1,4), of 0 i] assms(5)
    by (cases "snd (chips s1)") (auto simp: at_chips_def anim_ok_def prod_eq_iff)
  note i3 = at_interrupt [OF s1, folded t3_def, simplified]
  then obtain r3 where "at_chips t3 r3 r3" "level t3 = of_nat 2" by auto
  note i2 = at_interrupt [OF this, folded t2_def, simplified]
  then obtain r2 where "at_chips t2 r2 r2" "level t2 = of_nat 1" by auto
  note i1 = at_interrupt [OF this, folded t1_def, simplified]
  then obtain r1 where "at_chips t1 r1 r1" "level t1 = of_nat 0" by auto
  note i0 = at_interrupt [OF this, folded t0_def, simplified]
  define ps where "ps = planes_of (channel j (color ! i))"
  have c: "color_data t3 = color_data s1" "color_data t2 = color_data s1" "color_data t1 = color_data s1"
    using i3(2) i2(2) i1(2) by simp_all
  have "lit t3 j i = (3 \<in> set ps)" "lit t2 j i = (2 \<in> set ps)" "lit t1 j i = (1 \<in> set ps)"
    "lit t0 j i = (0 \<in> set ps)"
    using i3(5) i2(5) i1(5) i0(5) set_data_bit(1) [OF assms(1,4) _ assms(5)] assms(4,5)
    unfolding c ps_def by (simp_all del: planes_of.simps)
  then have "on_time (after_each 4 s1) j i = plane_ticks (channel j (color ! i))"
    using i3(3) i2(3) i1(3) i0(3)
    by (simp add: on_time_def plane_ticks_def each ps_def [symmetric] del: planes_of.simps)
  moreover have "level (last (after_each 4 s1)) = 3" using i0(4) by (simp add: each)
  ultimately show ?thesis by (simp add: plane_ticks_eq)
qed

definition fresh_anim :: anim where
  "fresh_anim = \<lparr>an_DDRF = 0x33, an_PORTF = 0, an_trace = [], TIMSK1 = 2, TCCR1B = 12, OCR1A = 8, an_MCUCR = 0x80,
     an_MCUSR = 0, an_CLKPR = 0, an_ien = True, level = 3, color_data = replicate 3 (replicate 4 0),
     show_array = replicate 12 0, frames = []\<rparr>"

lemma brightness_times_witness:
  "\<exists>s1. set_data colorwheel fresh_anim = Returns s1 \<and> on_time (after_each 4 s1) 0 1 = 67"
proof -
  have n: "length colorwheel = 12" by (simp add: colorwheel_def)
  then obtain s1 where s1: "set_data colorwheel fresh_anim = Returns s1" by (simp add: set_data_def)
  have "anim_ok fresh_anim" "level fresh_anim = 3"
    by (simp_all add: anim_ok_def chips_def fresh_anim_def)
  from brightness_times [OF s1 this, of 0 1]
  have "on_time (after_each 4 s1) 0 1 = lit_ticks (channel 0 (colorwheel ! 1))" by simp
  moreover have "lit_ticks (channel 0 (colorwheel ! 1)) = 67"
    by (simp add: lit_ticks_def channel_def colorwheel_def)
  ultimately show ?thesis using s1 by auto
qed

subsection \<open>A turn of the show\<close>

text \<open>
  A turn of the main loop always completes: it shows 84 frames of 40 ms (12 to bring on the wheel, 48
  for four spins, 12 for each direction of the red dot) and then the dark ring for 12 s.
\<close>

definition steps_by :: "anim \<Rightarrow> nat list \<Rightarrow> anim outcome \<Rightarrow> bool" where
  "steps_by s ns r \<longleftrightarrow> (\<exists>t. r = Returns t \<and> length (show_array t) = length (show_array s) \<and>
     map snd (frames t) = map snd (frames s) @ ns)"

lemma steps_by_refl [simp]: "steps_by s [] (Returns s)"
  by (simp add: steps_by_def)

lemma steps_by_then:
  assumes "steps_by s ns r" "\<And>t. length (show_array t) = length (show_array s) \<Longrightarrow> steps_by t ms (f t)"
  shows "steps_by s (ns @ ms) (and_then r f)"
  using assms by (fastforce simp: steps_by_def)

lemma show_for_steps: "length (show_array s) = 12 \<Longrightarrow> steps_by s [n] (show_for n s)"
  by (simp add: steps_by_def show_for_def set_data_def delay_ms_def del: upt_rec_numeral)

lemma steps_by_show:
  "steps_by (s\<lparr>show_array := a\<rparr>) ns r \<Longrightarrow> length a = length (show_array s) \<Longrightarrow> steps_by s ns r"
  by (auto simp: steps_by_def)

lemma fold_update_length [simp]: "length (fold (\<lambda>j a. a[j := f j]) js a) = length a"
  by (induction js arbitrary: a) auto

lemma bring_on_steps:
  "length (show_array s) = 12 \<Longrightarrow> steps_by s (replicate (length is) 40) (bring_on is s)"
proof (induction "is" arbitrary: s)
  case (Cons i "is")
  have "steps_by s ([40] @ replicate (length is) 40) (bring_on (i # is) s)"
    unfolding bring_on.simps
    by (rule steps_by_then [OF steps_by_show [OF show_for_steps]]) (use Cons in auto)
  then show ?case by simp
qed simp

lemma turn_table_steps:
  "length (show_array s) = 12 \<Longrightarrow> steps_by s (replicate (length is) 40) (turn_table table is s)"
proof (induction "is" arbitrary: s)
  case (Cons i "is")
  have "steps_by s ([40] @ replicate (length is) 40) (turn_table table (i # is) s)"
    unfolding turn_table.simps rotate_into_def
    by (rule steps_by_then [OF steps_by_show [OF show_for_steps]])
      (use Cons in \<open>auto simp del: upt_rec_numeral\<close>)
  then show ?case by simp
qed simp

lemma spin_steps: "length (show_array s) = 12 \<Longrightarrow> steps_by s (replicate (12 * k) 40) (spin k s)"
proof (induction k arbitrary: s)
  case (Suc k)
  have "steps_by s (replicate 12 40 @ replicate (12 * k) 40) (spin (Suc k) s)"
    unfolding spin.simps
    by (rule steps_by_then [OF turn_table_steps [of _ "rev [0..<12]", simplified length_rev length_upt, simplified]])
      (use Suc in \<open>auto simp del: upt_rec_numeral\<close>)
  then show ?case by (simp only: replicate_add [symmetric] mult_Suc_right)
qed simp

lemma anim_turn_steps:
  assumes "length (show_array s) = 12"
  shows "steps_by s (replicate 84 40 @ [12000]) (anim_turn s)"
proof -
  have "steps_by s (replicate 12 40 @ replicate 48 40 @ replicate 12 40 @ replicate 12 40 @ [12000]) (anim_turn s)"
    unfolding anim_turn_def
    by (rule steps_by_then steps_by_show [OF show_for_steps]
        bring_on_steps [of _ "[0..<12]", simplified length_upt, simplified]
        spin_steps [of _ 4, simplified]
        turn_table_steps [of _ "[0..<12]", simplified length_upt, simplified]
        turn_table_steps [of _ "rev [0..<12]", simplified length_rev length_upt, simplified]
        | simp add: assms del: upt_rec_numeral)+
  then show ?thesis by (simp only: append_assoc [symmetric] replicate_add [symmetric]) simp
qed

end
