(* ===== verification/Spec2Isabelle.thy ===== *)
theory Spec2Isabelle
  imports UsbLineClaims HidReports RndisClaims HidDeviceClaims MassStorageFaults AudioMidi
    HostClaims Backends UsbSerialClaims RingBuffer TestAnim
begin

text \<open>
  ISS-Notify is a lamp that lights up when the space station passes overhead. The repository holds
  its firmware for the ATmega32U4 (\<^verbatim>\<open>ISS-Notify.c\<close>, \<^verbatim>\<open>commands.c\<close>, the drivers under
  \<^verbatim>\<open>hardware\<close> and \<^verbatim>\<open>library\<close>, the USB library LUFA), the program that loads the
  firmware into the board (\<^verbatim>\<open>HostLoaderApp\<close>) and two test programs (\<^verbatim>\<open>Test\<close>). This
  library models them in C's own terms and proves what makes them correct; paths below are relative
  to \<^verbatim>\<open>src\<close>.

  \<^bold>\<open>How the parts interact.\<close> The main loop reads commands from the USB line, keeps the passes and
  colors in EEPROM variables, sets the clock chip over the I2C driver, shows colors through the LED
  driver, and looks after the alarm of the clock, which arrives as an interrupt. The device stack
  under the USB line answers the host's requests on endpoint 0 and hands class requests to the CDC
  driver. The loader reads an Intel HEX file and sends it block by block to the boot loader.

  \<^bold>\<open>Conventions\<close> (theory \<open>Prelude\<close>). C integers are words of their width, so they wrap where
  the code's do. Code that can leave an array or never return yields an outcome: \<open>Returns\<close> a
  value, \<open>Faults\<close> at an access out of bounds, or \<open>Hangs\<close>; a call that returns is always proved
  as \<open>Returns\<close>. Loops that wait for hardware or that may not end are partial functions into this
  type, so no fuel is needed; the others recurse on data or on a loop counter. Registers are record
  fields, or, for the USB controller, recorded accesses. \<open>named_theorems\<close> collect what an operation
  leaves alone (\<open>frame\<close>) and its branches (\<open>guards\<close>).

  \<^bold>\<open>Theories.\<close>
  \<^item> \<open>Interfaces\<close>: the locales between components: a serial sink for words and a bus to a register
    file.
  \<^item> \<open>Led\<close>: \<^verbatim>\<open>hardware/led.c\<close>. The driver toggles two pins; what the LED chips see is a function of
    the recorded stores. One call sends two packets that the TLC5971 format reads back as the
    requested lights. Interprets the serial sink.
  \<^item> \<open>Twi\<close>, \<open>TwiSafe\<close>, \<open>TwiBus\<close>, \<open>TwiClaims\<close>: \<^verbatim>\<open>library/twi.c\<close>. The interrupt handler with every
    status code, the calls that start a transfer and their busy waits. \<open>TwiSafe\<close> shows that no array
    access leaves its bounds under any behaviour of the bus that the hardware allows; \<open>TwiBus\<close> wires
    the driver to a slave chip and shows what a write delivers and a read returns; the two calls that
    break these promises are stated as well.
  \<^item> \<open>Rtc\<close>, \<open>Clock\<close>: \<^verbatim>\<open>hardware/rtc.c\<close>. Its operations are proved against any bus that satisfies the
    locale \<open>reg_bus\<close>; \<open>Clock\<close> proves that the I2C driver with a register-file chip is such a bus (a
    \<open>sublocale\<close>), so the facts on set, get, alarm and reset hold of the composed drivers.
  \<^item> \<open>Charge\<close>: \<^verbatim>\<open>hardware/analog.c\<close> and \<^verbatim>\<open>hardware/charge.c\<close>, for every result of a conversion.
  \<^item> \<open>Stdio\<close>: the formats of \<open>fscanf\<close> and \<open>fprintf\<close> the firmware uses, on a stream that does not wait.
  \<^item> \<open>Commands\<close>, \<open>CommandClaims\<close>: \<^verbatim>\<open>commands.c\<close>, \<^verbatim>\<open>commands.h\<close>, \<^verbatim>\<open>structs.h\<close>. One definition per command; what
    they store, print and read back, and the inputs for which they overrun an array or never return.
  \<^item> \<open>Firmware\<close>, \<open>FirmwareClaims\<close>: \<^verbatim>\<open>ISS-Notify.c\<close>. Set-up, interrupt handlers, the startup
    animation, one turn of the main loop with interrupts in its gaps, and the loop. The invariant of
    the firmware's state, that every turn returns, dispatch, rainbow and startup.
  \<^item> \<open>Ihex\<close>, \<open>IhexClaims\<close>, \<open>Loader\<close>, \<open>Backends\<close>: \<^verbatim>\<open>HostLoaderApp/hid_bootloader_cli.c\<close>. The hex reader,
    the command line and the programming loop against a record of backend functions, and the four
    backends on the functions of their platforms. Three of them interpret the locale \<open>loader_port\<close>;
    the fourth (UHID) can leave the program from inside and so cannot.
  \<^item> \<open>UsbPort\<close>: the USB controller as both USB drivers see it: accesses are recorded, what a register
    reads as is any function of the accesses before, and an arbitrary interrupt may come before each
    access while interrupts are enabled.
  \<^item> \<open>UsbSerial\<close>, \<open>UsbSerialClaims\<close>: \<^verbatim>\<open>library/usb_serial.c\<close> and \<^verbatim>\<open>hardware/usb.c\<close>: the older serial port
    with its two interrupt handlers.
  \<^item> \<open>LufaEndpoint\<close>, \<open>LufaStream\<close>, \<open>LufaDevice\<close>: \<^verbatim>\<open>library/LUFA/Drivers/USB/Core\<close>: endpoints, streams,
    controller, interrupt handler and standard requests, with the options of the \<^verbatim>\<open>Makefile\<close>.
    \<open>Descriptors\<close>: \<^verbatim>\<open>Descriptors.c\<close> and the structures and search functions it relies on.
    \<open>LufaCdc\<close>: the CDC class driver and the event handlers of \<^verbatim>\<open>ISS-Notify.c\<close>.
  \<^item> \<open>LufaClaims\<close>, \<open>LufaCdcClaims\<close>, \<open>LufaStack\<close>: how descriptor requests are answered on the wire, that
    the endpoints configured are those announced, the line encoding, and what stays true in every
    state the stack reaches: a locale \<open>stack_property\<close> proves once that each function of the stack
    keeps a property that its assignments keep, and it is interpreted with interrupts off (for the
    handler) and with the handler as the interrupt (for the program).
  \<^item> \<open>UsbLine\<close>, \<open>UsbLineClaims\<close>: the command loop of the firmware on the CDC stream of the stack. The packets
    the host has sent and the packets it gets are functions of the recorded accesses. The locale
    \<open>quiet_line\<close> (the stack's interrupts leave the bulk endpoints alone while no bus event is pending)
    carries what is stored for the host, \<open>open_line\<close>, \<open>receiving_line\<close> and \<open>taking_line\<close> extend it by what
    the controller reports of its banks; they are interpreted on the handler of the stack with a
    controller that cuts the host's data into packets. A command goes through both layers and its
    reply back; a command that arrives in pieces is lost.
  \<^item> \<open>HidParser\<close>, \<open>HidClaims\<close>, \<open>HidReports\<close>: \<^verbatim>\<open>Class/Common/HIDParser.c\<close>. The parser of HID report
    descriptors, the conditions under which it stays in its arrays, the layout of the fields it finds,
    and what becomes of a value written to a report.
  \<^item> \<open>ClassState\<close>, \<open>ClassDevice\<close>, \<open>ClassStreams\<close>: what the other drivers of \<^verbatim>\<open>Class/Device\<close> share: their
    state, which is part of the state of the stack because the stack's task runs inside their
    transfers; transfers between an endpoint and an array in that state; the loop that configures
    their endpoints. The locale \<open>state_array\<close> proves once that a transfer of a whole array is complete
    when the controller is ready; the arrays of the mass storage driver interpret it.
  \<^item> \<open>RndisDevice\<close>, \<open>RndisClaims\<close>; \<open>HidDevice\<close>, \<open>HidDeviceClaims\<close>; \<open>MassStorage\<close>,
    \<open>MassStorageClaims\<close>, \<open>MassStorageFaults\<close>; \<open>AudioMidi\<close>: these drivers, whole. RNDIS messages and
    their answers, when an input report is sent, mass storage commands and what a broken one does.
  \<^item> \<open>HostPipe\<close>, \<open>HostStack\<close>, \<open>HostClaims\<close>: the host side of \<^verbatim>\<open>Core\<close>, which the firmware does not
    use: pipes and their streams, the steps of an enumeration, control requests, the interrupt. A
    control request returns, whatever the device does.
  \<^item> \<open>RingBuffer\<close>: \<^verbatim>\<open>library/LUFA/Drivers/Misc/RingBuffer.h\<close> and its refinement of a bounded queue, with
    the consumer in an interrupt (locale \<open>interrupting_consumer\<close>).
  \<^item> \<open>TestAnim\<close>: \<^verbatim>\<open>Test/animations\<close> and \<^verbatim>\<open>Test/blink\<close>: shift registers, the brightness that the timer
    interrupt gives each color, one turn of the light show.

  \<^bold>\<open>Bounds.\<close> \<open>int\<close> has 16 bits in the firmware and 32 in the loader. The I2C buffers have 32 bytes, the
  pass table 10 entries, the light table 8 lights, the hex image 64 KiB, as in the code. The time of
  day is bounded by what the clock chip stores (two decimal digits a field). Nothing else is bounded:
  lists of events, streams and files have any length.

  \<^bold>\<open>What is a parameter.\<close> The bus and its chip, the USB controller and host, the result of an analog
  conversion, the arrival of interrupts, the functions of the operating system under the loader's
  backends, and the file it reads, which may differ at each reading. Their hypotheses (a conforming
  bus, a register-file chip, a host that reads what it asked for) are named definitions, and each
  property that has one has a witness with a concrete instance.

  \<^bold>\<open>What the models leave out.\<close>
  \<^item> The USB stack is a record of functions in \<open>Firmware\<close>. \<open>UsbLine\<close> composes the stream with the stack:
    a burst of reads gives the input of the commands, the output of a command is then written through
    the stack. Reads and writes are not interleaved inside a command.
  \<^item> Interrupts are taken between the statements of the main loop, not during the startup animation
    nor inside a call that \<open>Firmware\<close> makes; in the USB drivers and the ring buffer they may come
    before every access to hardware or shared state, in the light show before or after a whole call.
  \<^item> \<open>i*655\<close> in the startup animation overflows a 16-bit \<open>int\<close>, which C leaves undefined: the model
    uses the wrapped value. \<open>fscanf\<close> reads numbers of any length.
  \<^item> Events of LUFA that no one handles, and branches of the preprocessor the build does not choose.
  \<^item> Delays take no time; a delay in the light show records what is shown.

  \<^bold>\<open>Not modelled.\<close> LUFA's class drivers for hosts, its ports to UC3 and XMEGA processors, its
  drivers for evaluation boards and peripherals, its code templates and terminal codes: none of them
  is compiled into the firmware. Build files, texts.
\<close>

end
